(* ===== verification/Prelude.thy ===== *)
theory Prelude
  imports Main "HOL-Library.Word"
begin

text \<open>
  Shared vocabulary of the development: the machine integer types of the C
  sources, byte memory with the C library's block operations, and the generic
  list and word lemmas that the component theories use.
\<close>

unbundle bit_operations_syntax

section \<open>Machine integers\<close>

type_synonym u8 = "8 word"
type_synonym u32 = "32 word"
type_synonym u64 = "64 word"

text \<open>Facts that unfold a component's operations, and the preservation facts of
  its invariant, are collected here.\<close>

named_theorems ops "definitions of the operations of a component"
named_theorems inv_pres "preservation of a component's invariant"

section \<open>Lists\<close>

lemma nth_butlast_snoc [simp]: "i < length xs \<Longrightarrow> (xs @ [x]) ! i = xs ! i"
  by (simp add: nth_append)

lemma take_Suc_snoc: "i < length xs \<Longrightarrow> take (Suc i) xs = take i xs @ [xs ! i]"
  by (simp add: take_Suc_conv_app_nth)

lemma take_update_same: "take i (xs[i := v]) = take i xs"
  by simp

lemma take_Suc_update:
  "i < length xs \<Longrightarrow> take (Suc i) (xs[i := v]) = take i xs @ [v]"
  by (simp add: take_Suc_conv_app_nth)

end
