(* ===== verification/Hash.thy ===== *)
theory Hash
  imports Prelude
begin

text \<open>
  The SHA-1 code of \<^verbatim>\<open>fingerprint/hash.c\<close>, translated operation by operation:
  the context structure, \<^verbatim>\<open>SHA1Reset\<close>, \<^verbatim>\<open>SHA1Input\<close>, the block transform,
  the padding, \<^verbatim>\<open>SHA1Result\<close> and the callers \<^verbatim>\<open>sha1_hash\<close>, \<^verbatim>\<open>hash_string\<close>
  and \<^verbatim>\<open>hash_file\<close>. The theory \<open>Hash_Correct\<close> relates it to the standard.
\<close>

section \<open>The context structure\<close>

record SHA1Context =
  Message_Digest :: "u32 list"
  Length_Low :: u32
  Length_High :: u32
  Message_Block :: "u8 list"
  Message_Block_Index :: nat
  Computed :: int
  Corrupted :: int

text \<open>The macro \<^verbatim>\<open>SHA1CircularShift(bits,word)\<close> on an \<^verbatim>\<open>unsigned\<close>.\<close>

definition SHA1CircularShift :: "nat \<Rightarrow> u32 \<Rightarrow> u32" where
  "SHA1CircularShift bits word = ((push_bit bits word AND 0xFFFFFFFF) OR drop_bit (32 - bits) word)"

definition MAX_FILE_LENGTH :: nat where
  "MAX_FILE_LENGTH = 300000"

section \<open>Reset\<close>

definition SHA1Reset :: "SHA1Context \<Rightarrow> SHA1Context" where
  "SHA1Reset context = context\<lparr>
     Length_Low := 0, Length_High := 0, Message_Block_Index := 0,
     Message_Digest := [0x67452301, 0xEFCDAB89, 0x98BADCFE, 0x10325476, 0xC3D2E1F0],
     Computed := 0, Corrupted := 0\<rparr>"

section \<open>The block transform\<close>

definition K_const :: "u32 list" where
  "K_const = [0x5A827999, 0x6ED9EBA1, 0x8F1BBCDC, 0xCA62C1D6]"

text \<open>The first loop: sixteen big-endian words from the message block.\<close>

definition block_word :: "u8 list \<Rightarrow> nat \<Rightarrow> u32" where
  "block_word b t =
     (push_bit 24 (ucast (b ! (t * 4))) OR push_bit 16 (ucast (b ! (t * 4 + 1)))
      OR push_bit 8 (ucast (b ! (t * 4 + 2))) OR ucast (b ! (t * 4 + 3)))"

text \<open>The second loop appends \<^verbatim>\<open>W[t]\<close> for \<^verbatim>\<open>t = 16 .. 79\<close>.\<close>

fun W_expand :: "nat \<Rightarrow> u32 list \<Rightarrow> u32 list" where
  "W_expand 0 W = W"
| "W_expand (Suc n) W =
     (let t = length W in
      W_expand n (W @ [SHA1CircularShift 1
        (W ! (t - 3) XOR W ! (t - 8) XOR W ! (t - 14) XOR W ! (t - 16))]))"

definition W_schedule :: "u8 list \<Rightarrow> u32 list" where
  "W_schedule b = W_expand 64 (map (block_word b) [0..<16])"

type_synonym regs = "u32 \<times> u32 \<times> u32 \<times> u32 \<times> u32"

text \<open>The body shared by the four round loops; \<open>f\<close> is the loop's Boolean
  function and \<open>k\<close> its constant.\<close>

definition sha_round :: "(u32 \<Rightarrow> u32 \<Rightarrow> u32 \<Rightarrow> u32) \<Rightarrow> u32 \<Rightarrow> u32 \<Rightarrow> regs \<Rightarrow> regs" where
  "sha_round f k w r =
     (case r of (A, B, C, D, E) \<Rightarrow>
       let temp = (SHA1CircularShift 5 A + f B C D + E + w + k) AND 0xFFFFFFFF in
       (temp, A, SHA1CircularShift 30 B, C, D))"

definition f_ch :: "u32 \<Rightarrow> u32 \<Rightarrow> u32 \<Rightarrow> u32" where
  "f_ch B C D = ((B AND C) OR (NOT B AND D))"

definition f_parity :: "u32 \<Rightarrow> u32 \<Rightarrow> u32 \<Rightarrow> u32" where
  "f_parity B C D = (B XOR C XOR D)"

definition f_maj :: "u32 \<Rightarrow> u32 \<Rightarrow> u32 \<Rightarrow> u32" where
  "f_maj B C D = ((B AND C) OR (B AND D) OR (C AND D))"

fun round_loop :: "(u32 \<Rightarrow> u32 \<Rightarrow> u32 \<Rightarrow> u32) \<Rightarrow> u32 \<Rightarrow> u32 list \<Rightarrow> regs \<Rightarrow> regs" where
  "round_loop f k [] r = r"
| "round_loop f k (w # ws) r = round_loop f k ws (sha_round f k w r)"

definition SHA1ProcessMessageBlock :: "SHA1Context \<Rightarrow> SHA1Context" where
  "SHA1ProcessMessageBlock context =
     (let W = W_schedule (Message_Block context);
          H = Message_Digest context;
          r0 = (H ! 0, H ! 1, H ! 2, H ! 3, H ! 4);
          r1 = round_loop f_ch (K_const ! 0) (take 20 W) r0;
          r2 = round_loop f_parity (K_const ! 1) (take 20 (drop 20 W)) r1;
          r3 = round_loop f_maj (K_const ! 2) (take 20 (drop 40 W)) r2;
          (A, B, C, D, E) = round_loop f_parity (K_const ! 3) (take 20 (drop 60 W)) r3
      in context\<lparr>
           Message_Digest := [(H ! 0 + A) AND 0xFFFFFFFF, (H ! 1 + B) AND 0xFFFFFFFF,
             (H ! 2 + C) AND 0xFFFFFFFF, (H ! 3 + D) AND 0xFFFFFFFF, (H ! 4 + E) AND 0xFFFFFFFF],
           Message_Block_Index := 0\<rparr>)"

section \<open>Input\<close>

text \<open>\<^verbatim>\<open>context->Message_Block[context->Message_Block_Index++] = v\<close>\<close>

definition put_byte :: "u8 \<Rightarrow> SHA1Context \<Rightarrow> SHA1Context" where
  "put_byte v context = context\<lparr>
     Message_Block := (Message_Block context)[Message_Block_Index context := v],
     Message_Block_Index := Suc (Message_Block_Index context)\<rparr>"

text \<open>The update of the 64-bit bit count, kept in two 32-bit halves.\<close>

definition count_bits :: "SHA1Context \<Rightarrow> SHA1Context" where
  "count_bits context =
     (let low = (Length_Low context + 8) AND 0xFFFFFFFF in
      if low = 0
      then let high = (Length_High context + 1) AND 0xFFFFFFFF in
           context\<lparr>Length_Low := low, Length_High := high,
                   Corrupted := (if high = 0 then 1 else Corrupted context)\<rparr>
      else context\<lparr>Length_Low := low\<rparr>)"

text \<open>One iteration of the \<^verbatim>\<open>while\<close> loop of \<^verbatim>\<open>SHA1Input\<close>.\<close>

definition input_byte :: "u8 \<Rightarrow> SHA1Context \<Rightarrow> SHA1Context" where
  "input_byte v context =
     (let c = count_bits (put_byte v context) in
      if Message_Block_Index c = 64 then SHA1ProcessMessageBlock c else c)"

fun input_loop :: "u8 list \<Rightarrow> SHA1Context \<Rightarrow> SHA1Context" where
  "input_loop [] context = context"
| "input_loop (m # ms) context =
     (if Corrupted context \<noteq> 0 then context else input_loop ms (input_byte (m AND 0xFF) context))"

text \<open>The source reads \<^verbatim>\<open>length\<close> bytes at \<^verbatim>\<open>message_array\<close>.\<close>

definition SHA1Input :: "SHA1Context \<Rightarrow> u8 list \<Rightarrow> u32 \<Rightarrow> SHA1Context" where
  "SHA1Input context message_array len =
     (if len = 0 then context
      else if Computed context \<noteq> 0 \<or> Corrupted context \<noteq> 0 then context\<lparr>Corrupted := 1\<rparr>
      else input_loop (take (unat len) message_array) context)"

section \<open>Padding and result\<close>

text \<open>\<^verbatim>\<open>while (Message_Block_Index < n) Message_Block[Message_Block_Index++] = 0\<close>\<close>

function zero_until :: "nat \<Rightarrow> SHA1Context \<Rightarrow> SHA1Context" where
  "zero_until n context =
     (if Message_Block_Index context < n then zero_until n (put_byte 0 context) else context)"
  by pat_completeness auto
termination
  by (relation "measure (\<lambda>(n, c). n - Message_Block_Index c)") (auto simp: put_byte_def)

declare zero_until.simps [simp del]

definition byte_of :: "nat \<Rightarrow> u32 \<Rightarrow> u8" where
  "byte_of k w = ucast (drop_bit k w AND 0xFF)"

definition put_length :: "SHA1Context \<Rightarrow> SHA1Context" where
  "put_length context =
     (let h = Length_High context; l = Length_Low context in
      context\<lparr>Message_Block := (Message_Block context)
        [56 := byte_of 24 h, 57 := byte_of 16 h, 58 := byte_of 8 h, 59 := byte_of 0 h,
         60 := byte_of 24 l, 61 := byte_of 16 l, 62 := byte_of 8 l, 63 := byte_of 0 l]\<rparr>)"

definition SHA1PadMessage :: "SHA1Context \<Rightarrow> SHA1Context" where
  "SHA1PadMessage context =
     (let c = (if Message_Block_Index context > 55
               then zero_until 56 (SHA1ProcessMessageBlock (zero_until 64 (put_byte 0x80 context)))
               else zero_until 56 (put_byte 0x80 context))
      in SHA1ProcessMessageBlock (put_length c))"

definition SHA1Result :: "SHA1Context \<Rightarrow> int \<times> SHA1Context" where
  "SHA1Result context =
     (if Corrupted context \<noteq> 0 then (0, context)
      else (1, if Computed context = 0 then (SHA1PadMessage context)\<lparr>Computed := 1\<rparr> else context))"

section \<open>Callers\<close>

text \<open>The global \<^verbatim>\<open>sha\<close> is passed and returned. The \<^verbatim>\<open>int\<close> length is converted
  to \<^verbatim>\<open>unsigned\<close> at the call of \<^verbatim>\<open>SHA1Input\<close>.\<close>

definition sha1_hash :: "SHA1Context \<Rightarrow> u8 list \<Rightarrow> int \<Rightarrow> int \<times> SHA1Context" where
  "sha1_hash sha source len =
     (let (ok, c) = SHA1Result (SHA1Input (SHA1Reset sha) source (word_of_int len))
      in (if ok = 0 then -1 else 0, c))"

definition convert_hash_to_number :: "SHA1Context \<Rightarrow> u64" where
  "convert_hash_to_number sha =
     push_bit 32 (ucast (Message_Digest sha ! 0)) + ucast (Message_Digest sha ! 1)"

text \<open>\<^verbatim>\<open>strlen\<close>: the bytes before the first NUL. The argument is the memory from
  the pointer on.\<close>

definition c_str :: "u8 list \<Rightarrow> u8 list" where
  "c_str s = takeWhile (\<lambda>b. b \<noteq> 0) s"

definition hash_string :: "SHA1Context \<Rightarrow> u8 list \<Rightarrow> u64 \<times> SHA1Context" where
  "hash_string sha str =
     (let (_, c) = sha1_hash sha str (int (length (c_str str))) in (convert_hash_to_number c, c))"

text \<open>The file is given by its contents, \<open>None\<close> when \<^verbatim>\<open>fopen\<close> fails;
  \<^verbatim>\<open>fread\<close> stops at \<^verbatim>\<open>MAX_FILE_LENGTH\<close> bytes.\<close>

definition hash_file :: "SHA1Context \<Rightarrow> u8 list option \<Rightarrow> u64 \<times> SHA1Context" where
  "hash_file sha file =
     (case file of
        None \<Rightarrow> (1, sha)
      | Some bytes \<Rightarrow>
          let str = take MAX_FILE_LENGTH bytes;
              (_, c) = sha1_hash sha str (int (length str))
          in (convert_hash_to_number c, c))"

end
