(* ===== verification/Hash_Correct.thy ===== *)
theory Hash_Correct
  imports Hash
begin

text \<open>
  The SHA-1 code computes the standard's function. \<open>sha1_spec\<close> is the hash
  function of FIPS 180-4 on byte strings, written from the standard and not from
  the code: padding as a list, the message schedule as a recurrence, rotation by
  the library's \<^term>\<open>word_rotl\<close>. The context of \<^verbatim>\<open>hash.c\<close> refines the pair
  of the chaining value and the pending bytes.
\<close>

section \<open>The standard\<close>

definition be64 :: "nat \<Rightarrow> u8 list" where
  "be64 n = map (\<lambda>k. word_of_nat (n div 256 ^ k)) [7, 6, 5, 4, 3, 2, 1, 0]"

definition sha1_pad :: "u8 list \<Rightarrow> u8 list" where
  "sha1_pad m = m @ [0x80] @ replicate ((119 - length m mod 64) mod 64) 0 @ be64 (8 * length m)"

definition be32 :: "u8 \<Rightarrow> u8 \<Rightarrow> u8 \<Rightarrow> u8 \<Rightarrow> u32" where
  "be32 a b c d = word_cat (word_cat a b :: 16 word) (word_cat c d :: 16 word)"

function sched :: "u8 list \<Rightarrow> nat \<Rightarrow> u32" where
  "sched b t =
     (if t < 16 then be32 (b ! (4 * t)) (b ! (4 * t + 1)) (b ! (4 * t + 2)) (b ! (4 * t + 3))
      else word_rotl 1 (sched b (t - 3) XOR sched b (t - 8) XOR sched b (t - 14) XOR sched b (t - 16)))"
  by pat_completeness auto
termination
  by (relation "measure snd") auto

declare sched.simps [simp del]

definition spec_f :: "nat \<Rightarrow> u32 \<Rightarrow> u32 \<Rightarrow> u32 \<Rightarrow> u32" where
  "spec_f t x y z =
     (if t < 20 then (x AND y) XOR (NOT x AND z)
      else if t < 40 then x XOR y XOR z
      else if t < 60 then (x AND y) XOR (x AND z) XOR (y AND z)
      else x XOR y XOR z)"

definition spec_K :: "nat \<Rightarrow> u32" where
  "spec_K t = (if t < 20 then 0x5A827999 else if t < 40 then 0x6ED9EBA1
               else if t < 60 then 0x8F1BBCDC else 0xCA62C1D6)"

fun spec_round :: "(nat \<Rightarrow> u32) \<Rightarrow> nat \<Rightarrow> regs \<Rightarrow> regs" where
  "spec_round W t (a, b, c, d, e) =
     (word_rotl 5 a + spec_f t b c d + e + spec_K t + W t, a, word_rotl 30 b, c, d)"

definition spec_compress :: "regs \<Rightarrow> u8 list \<Rightarrow> regs" where
  "spec_compress H b =
     (case (H, fold (spec_round (sched b)) [0..<80] H) of
        ((h0, h1, h2, h3, h4), (a, b, c, d, e)) \<Rightarrow> (h0 + a, h1 + b, h2 + c, h3 + d, h4 + e))"

function spec_blocks :: "regs \<Rightarrow> u8 list \<Rightarrow> regs" where
  "spec_blocks H ms =
     (if length ms < 64 then H else spec_blocks (spec_compress H (take 64 ms)) (drop 64 ms))"
  by pat_completeness auto
termination
  by (relation "measure (length \<circ> snd)") auto

declare spec_blocks.simps [simp del]

definition sha1_iv :: regs where
  "sha1_iv = (0x67452301, 0xEFCDAB89, 0x98BADCFE, 0x10325476, 0xC3D2E1F0)"

definition sha1_spec :: "u8 list \<Rightarrow> regs" where
  "sha1_spec m = spec_blocks sha1_iv (sha1_pad m)"

section \<open>The word operations of the code\<close>

lemma and_mask32 [simp]: "(w :: u32) AND 0xFFFFFFFF = w"
proof -
  have "(0xFFFFFFFF :: u32) = - 1" by simp
  then show ?thesis by (simp only: and.right_neutral)
qed

lemma SHA1CircularShift_rotl:
  assumes "0 < n" and "n < 32"
  shows "SHA1CircularShift n w = word_rotl n w"
proof (rule bit_word_eqI)
  fix k
  assume k: "k < LENGTH(32)"
  show "bit (SHA1CircularShift n w) k \<longleftrightarrow> bit (word_rotl n w) k"
  proof (cases "n \<le> k")
    case True
    then have "(k + (32 - n)) mod 32 = k - n" and "\<not> bit w (32 - n + k)"
      using assms k by (auto simp: mod_if dest: bit_imp_le_length)
    with True k assms show ?thesis
      by (simp add: SHA1CircularShift_def bit_simps bit_word_rotl_iff)
  next
    case False
    then have "(k + (32 - n)) mod 32 = 32 - n + k"
      using assms k by simp
    with False k assms show ?thesis
      by (simp add: SHA1CircularShift_def bit_simps bit_word_rotl_iff)
  qed
qed

lemma block_word_be32:
  "block_word b t = be32 (b ! (4 * t)) (b ! (4 * t + 1)) (b ! (4 * t + 2)) (b ! (4 * t + 3))"
  unfolding block_word_def be32_def
  by (rule bit_word_eqI)
    (auto simp: bit_simps mult.commute bit_word_cat_iff dest: bit_imp_le_length)

lemma f_ch_spec: "t < 20 \<Longrightarrow> f_ch x y z = spec_f t x y z"
  by (rule bit_word_eqI) (auto simp: f_ch_def spec_f_def bit_simps)

lemma f_parity_spec: "20 \<le> t \<Longrightarrow> t < 40 \<or> 60 \<le> t \<Longrightarrow> f_parity x y z = spec_f t x y z"
  by (auto simp: f_parity_def spec_f_def)

lemma f_maj_spec: "40 \<le> t \<Longrightarrow> t < 60 \<Longrightarrow> f_maj x y z = spec_f t x y z"
  by (rule bit_word_eqI) (auto simp: f_maj_def spec_f_def bit_simps)

section \<open>The block transform is the standard's compression function\<close>

lemma length_W_expand [simp]: "length (W_expand n W) = length W + n"
  by (induction n W rule: W_expand.induct) (auto simp: Let_def)

lemma W_expand_sched:
  assumes "16 \<le> length W" and "\<And>i. i < length W \<Longrightarrow> W ! i = sched b i"
    and "i < length W + n"
  shows "W_expand n W ! i = sched b i"
  using assms
proof (induction n W rule: W_expand.induct)
  case (1 W)
  then show ?case by simp
next
  case (2 n W)
  let ?t = "length W"
  let ?x = "SHA1CircularShift 1 (W ! (?t - 3) XOR W ! (?t - 8) XOR W ! (?t - 14) XOR W ! (?t - 16))"
  have x: "?x = sched b ?t"
    using 2(2,3) by (simp add: sched.simps [of b ?t] SHA1CircularShift_rotl)
  have nth: "(W @ [?x]) ! j = sched b j" if "j < length (W @ [?x])" for j
    using that x 2(3) [of j] by (cases "j = ?t") (simp_all only: nth_append_length, simp)
  have "W_expand n (W @ [?x]) ! i = sched b i"
    by (rule "2.IH" [OF refl]) (use 2(2,4) in simp, rule nth, simp, use 2(4) in simp)
  then show ?case by (simp only: W_expand.simps Let_def)
qed

lemma W_schedule_sched: "W_schedule b = map (sched b) [0..<80]"
proof (rule nth_equalityI)
  fix i
  assume "i < length (W_schedule b)"
  then show "W_schedule b ! i = map (sched b) [0..<80] ! i"
    by (simp add: W_schedule_def)
      (subst W_expand_sched [of _ b], auto simp: block_word_be32 sched.simps [of b])
qed (simp add: W_schedule_def)

lemma sha_round_spec:
  assumes "\<And>x y z. f x y z = spec_f t x y z" and "k = spec_K t"
  shows "sha_round f k (W t) r = spec_round W t r"
  by (cases r) (simp add: sha_round_def Let_def assms SHA1CircularShift_rotl add.assoc add.commute
      add.left_commute)

lemma round_loop_spec:
  assumes "\<And>t x y z. t \<in> set ts \<Longrightarrow> f x y z = spec_f t x y z"
    and "\<And>t. t \<in> set ts \<Longrightarrow> k = spec_K t"
  shows "round_loop f k (map W ts) r = fold (spec_round W) ts r"
  using assms
proof (induction ts arbitrary: r)
  case (Cons t ts)
  have "sha_round f k (W t) r = spec_round W t r"
    by (rule sha_round_spec) (use Cons.prems in auto)
  with Cons show ?case by simp
qed simp

lemma upt80: "[0..<80] = [0..<20] @ [20..<40] @ [40..<60] @ [60..<80]"
  by code_simp

definition digest_regs :: "u32 list \<Rightarrow> regs" where
  "digest_regs H = (H ! 0, H ! 1, H ! 2, H ! 3, H ! 4)"

lemma four_loops_spec:
  "round_loop f_parity (K_const ! 3) (take 20 (drop 60 (W_schedule b)))
     (round_loop f_maj (K_const ! 2) (take 20 (drop 40 (W_schedule b)))
       (round_loop f_parity (K_const ! 1) (take 20 (drop 20 (W_schedule b)))
         (round_loop f_ch (K_const ! 0) (take 20 (W_schedule b)) r)))
   = fold (spec_round (sched b)) [0..<80] r"
proof -
  have seg: "take 20 (W_schedule b) = map (sched b) [0..<20]"
    "take 20 (drop 20 (W_schedule b)) = map (sched b) [20..<40]"
    "take 20 (drop 40 (W_schedule b)) = map (sched b) [40..<60]"
    "take 20 (drop 60 (W_schedule b)) = map (sched b) [60..<80]"
    by (simp_all add: W_schedule_sched take_map drop_map)
  have 1: "round_loop f_ch (K_const ! 0) (map (sched b) [0..<20]) r
      = fold (spec_round (sched b)) [0..<20] r" for r
    by (rule round_loop_spec) (auto simp: f_ch_spec spec_K_def K_const_def)
  have 2: "round_loop f_parity (K_const ! 1) (map (sched b) [20..<40]) r
      = fold (spec_round (sched b)) [20..<40] r" for r
    by (rule round_loop_spec) (auto simp: f_parity_spec spec_K_def K_const_def)
  have 3: "round_loop f_maj (K_const ! 2) (map (sched b) [40..<60]) r
      = fold (spec_round (sched b)) [40..<60] r" for r
    by (rule round_loop_spec) (auto simp: f_maj_spec spec_K_def K_const_def)
  have 4: "round_loop f_parity (K_const ! 3) (map (sched b) [60..<80]) r
      = fold (spec_round (sched b)) [60..<80] r" for r
    by (rule round_loop_spec) (auto simp: f_parity_spec spec_K_def K_const_def)
  show ?thesis
    by (simp only: seg 1 2 3 4 upt80 fold_append comp_def)
qed

lemma ProcessMessageBlock_compress:
  "digest_regs (Message_Digest (SHA1ProcessMessageBlock c))
     = spec_compress (digest_regs (Message_Digest c)) (Message_Block c)"
  unfolding SHA1ProcessMessageBlock_def Let_def four_loops_spec spec_compress_def
  by (simp add: digest_regs_def split: prod.split)

lemma ProcessMessageBlock_frame [simp]:
  "Message_Block (SHA1ProcessMessageBlock c) = Message_Block c"
  "Message_Block_Index (SHA1ProcessMessageBlock c) = 0"
  "Length_Low (SHA1ProcessMessageBlock c) = Length_Low c"
  "Length_High (SHA1ProcessMessageBlock c) = Length_High c"
  "Computed (SHA1ProcessMessageBlock c) = Computed c"
  "Corrupted (SHA1ProcessMessageBlock c) = Corrupted c"
  by (simp_all add: SHA1ProcessMessageBlock_def Let_def split: prod.split)

section \<open>Feeding bytes\<close>

lemma and_mask8: "(w :: u8) AND 0xFF = w"
proof -
  have "(0xFF :: u8) = - 1" by simp
  then show ?thesis by (simp only: and.right_neutral)
qed

lemma spec_blocks_small: "length b < 64 \<Longrightarrow> spec_blocks H b = H"
  by (simp add: spec_blocks.simps [of H b])

lemma spec_blocks_one: "length b = 64 \<Longrightarrow> spec_blocks H b = spec_compress H b"
  by (simp add: spec_blocks.simps [of H b] spec_blocks_small)

lemma spec_blocks_append:
  "64 dvd length a \<Longrightarrow> spec_blocks H (a @ b) = spec_blocks (spec_blocks H a) b"
proof (induction H a rule: spec_blocks.induct)
  case (1 H a)
  show ?case
  proof (cases "length a < 64")
    case True
    with "1.prems" have "a = []" by (auto elim!: dvdE)
    then show ?thesis by (simp add: spec_blocks_small)
  next
    case False
    with "1.prems" have "64 dvd length (drop 64 a)" by (auto simp: dvd_minus_self)
    with "1.IH" False show ?thesis
      by (simp add: spec_blocks.simps [of H a] spec_blocks.simps [of H "a @ b"])
  qed
qed

text \<open>A context represents the message \<open>full @ tail\<close>: whole blocks absorbed into
  the chaining value, the rest waiting in the block buffer, and the bit count.\<close>

definition bit_count :: "SHA1Context \<Rightarrow> nat" where
  "bit_count c = unat (Length_High c) * 2 ^ 32 + unat (Length_Low c)"

definition sha_repr :: "u8 list \<Rightarrow> u8 list \<Rightarrow> SHA1Context \<Rightarrow> bool" where
  "sha_repr full tail c \<longleftrightarrow>
     64 dvd length full \<and> length tail < 64 \<and> length (Message_Block c) = 64
     \<and> Message_Block_Index c = length tail \<and> take (length tail) (Message_Block c) = tail
     \<and> digest_regs (Message_Digest c) = spec_blocks sha1_iv full
     \<and> bit_count c = 8 * length (full @ tail) \<and> Corrupted c = 0 \<and> Computed c = 0"

lemma count_bits_frame [simp]:
  "Message_Block (count_bits c) = Message_Block c"
  "Message_Block_Index (count_bits c) = Message_Block_Index c"
  "Message_Digest (count_bits c) = Message_Digest c"
  "Computed (count_bits c) = Computed c"
  by (simp_all add: count_bits_def Let_def)

lemma put_byte_frame [simp]:
  "Message_Digest (put_byte v c) = Message_Digest c"
  "Length_Low (put_byte v c) = Length_Low c"
  "Length_High (put_byte v c) = Length_High c"
  "Computed (put_byte v c) = Computed c"
  "Corrupted (put_byte v c) = Corrupted c"
  "Message_Block_Index (put_byte v c) = Suc (Message_Block_Index c)"
  "Message_Block (put_byte v c) = (Message_Block c)[Message_Block_Index c := v]"
  by (simp_all add: put_byte_def)

lemma count_bits_count:
  assumes "bit_count c + 8 < 2 ^ 64" and "8 dvd bit_count c"
  shows "bit_count (count_bits c) = bit_count c + 8"
    and "Corrupted (count_bits c) = Corrupted c"
proof -
  let ?h = "unat (Length_High c)" and ?l = "unat (Length_Low c)"
  have H: "?h < 4294967296" and L: "?l < 4294967296"
    using unsigned_less [of "Length_High c", where ?'a = nat]
      unsigned_less [of "Length_Low c", where ?'a = nat] by simp_all
  have low: "unat (Length_Low c + 8) = (?l + 8) mod 4294967296"
    and high: "unat (Length_High c + 1) = (?h + 1) mod 4294967296"
    by (simp_all add: unat_word_ariths)
  have z: "Length_Low c + 8 = 0 \<longleftrightarrow> (?l + 8) mod 4294967296 = 0"
    and zh: "Length_High c + 1 = 0 \<longleftrightarrow> (?h + 1) mod 4294967296 = 0"
    by (simp_all only: low [symmetric] high [symmetric] unat_eq_0)
  have "8 dvd ?l"
    using assms(2) by (simp add: bit_count_def dvd_add_right_iff)
  then have l: "?l + 8 \<le> 4294967296" using L by presburger
  have "bit_count (count_bits c) = bit_count c + 8 \<and> Corrupted (count_bits c) = Corrupted c"
  proof (cases "?l + 8 = 4294967296")
    case True
    then have "?h + 1 < 4294967296" using assms(1) H by (simp add: bit_count_def)
    with True show ?thesis
      by (simp add: count_bits_def Let_def bit_count_def z zh high low)
  next
    case False
    with l have "?l + 8 < 4294967296" by simp
    then show ?thesis
      by (simp add: count_bits_def Let_def bit_count_def z low)
  qed
  then show "bit_count (count_bits c) = bit_count c + 8"
    and "Corrupted (count_bits c) = Corrupted c" by simp_all
qed

lemma put_byte_prefix:
  assumes "Message_Block_Index c < length (Message_Block c)"
  shows "take (Message_Block_Index (put_byte v c)) (Message_Block (put_byte v c))
    = take (Message_Block_Index c) (Message_Block c) @ [v]"
  using assms by (simp add: take_Suc_update)

lemma sha_repr_input_byte:
  assumes r: "sha_repr full tail c" and n: "length full + length tail < 2 ^ 60"
  shows "length tail < 63 \<Longrightarrow> sha_repr full (tail @ [v]) (input_byte v c)"
    and "length tail = 63 \<Longrightarrow> sha_repr (full @ tail @ [v]) [] (input_byte v c)"
proof -
  let ?c = "count_bits (put_byte v c)"
  have bc: "bit_count (put_byte v c) = 8 * (length full + length tail)"
    using r by (simp add: sha_repr_def bit_count_def)
  have cnt: "bit_count ?c = 8 * (length full + length tail) + 8" and cor: "Corrupted ?c = 0"
    using count_bits_count [of "put_byte v c"] bc n r by (simp_all add: sha_repr_def)
  have pre: "take (Suc (length tail)) (Message_Block ?c) = tail @ [v]"
    using r by (simp add: sha_repr_def take_Suc_update)
  show "sha_repr full (tail @ [v]) (input_byte v c)" if "length tail < 63"
    using that r cnt cor pre
    by (simp add: sha_repr_def input_byte_def Let_def)
  show "sha_repr (full @ tail @ [v]) [] (input_byte v c)" if "length tail = 63"
  proof -
    have blk: "Message_Block ?c = tail @ [v]"
      using pre that r by (simp add: sha_repr_def)
    have bc: "bit_count (SHA1ProcessMessageBlock ?c) = bit_count ?c"
      by (simp add: bit_count_def)
    have "digest_regs (Message_Digest (SHA1ProcessMessageBlock ?c))
        = spec_blocks sha1_iv (full @ tail @ [v])"
      using that r blk
      by (simp add: ProcessMessageBlock_compress sha_repr_def spec_blocks_append spec_blocks_one)
    then show ?thesis
      using that r cnt cor blk bc by (simp add: sha_repr_def input_byte_def Let_def)
  qed
qed

lemma sha_repr_input_loop:
  assumes "sha_repr full tail c" and "length full + length tail + length ms < 2 ^ 60"
  shows "\<exists>full' tail'. sha_repr full' tail' (input_loop ms c) \<and> full' @ tail' = full @ tail @ ms"
  using assms
proof (induction ms arbitrary: full tail c)
  case Nil
  then show ?case by auto
next
  case (Cons m ms)
  have m: "m AND 0xFF = m" by (rule and_mask8)
  have cor: "Corrupted c = 0" and t: "length tail < 64"
    using Cons.prems(1) by (simp_all add: sha_repr_def)
  consider "length tail < 63" | "length tail = 63" using t by linarith
  then show ?case
  proof cases
    case 1
    with Cons.prems have "sha_repr full (tail @ [m]) (input_byte m c)"
      by (intro sha_repr_input_byte(1)) auto
    from Cons.IH [OF this] Cons.prems(2) show ?thesis
      by (simp add: cor m)
  next
    case 2
    with Cons.prems have "sha_repr (full @ tail @ [m]) [] (input_byte m c)"
      by (intro sha_repr_input_byte(2)) auto
    from Cons.IH [OF this] Cons.prems(2) show ?thesis
      by (simp add: cor m)
  qed
qed


section \<open>Padding\<close>

lemma zero_until_spec:
  assumes "Message_Block_Index c \<le> n" and "n \<le> length (Message_Block c)"
  shows "take n (Message_Block (zero_until n c))
      = take (Message_Block_Index c) (Message_Block c) @ replicate (n - Message_Block_Index c) 0"
    and "Message_Block_Index (zero_until n c) = n"
    and "length (Message_Block (zero_until n c)) = length (Message_Block c)"
    and "Message_Digest (zero_until n c) = Message_Digest c"
    and "Length_Low (zero_until n c) = Length_Low c"
    and "Length_High (zero_until n c) = Length_High c"
  using assms
proof (induction n c rule: zero_until.induct)
  case (1 n c)
  {
    case 1
    show ?case
    proof (cases "Message_Block_Index c < n")
      case True
      then have "replicate (n - Message_Block_Index c) (0 :: u8)
          = 0 # replicate (n - Suc (Message_Block_Index c)) 0"
        by (simp add: Suc_diff_Suc flip: replicate_Suc)
      with True "1.IH"(1) 1 show ?thesis
        by (simp add: zero_until.simps [of n c] take_Suc_update)
    next
      case False
      with 1 show ?thesis by (simp add: zero_until.simps [of n c])
    qed
  next
    case 2
    with "1.IH"(2) show ?case by (simp add: zero_until.simps [of n c])
  next
    case 3
    with "1.IH"(3) show ?case by (simp add: zero_until.simps [of n c])
  next
    case 4
    with "1.IH"(4) show ?case by (simp add: zero_until.simps [of n c])
  next
    case 5
    with "1.IH"(5) show ?case by (simp add: zero_until.simps [of n c])
  next
    case 6
    with "1.IH"(6) show ?case by (simp add: zero_until.simps [of n c])
  }
qed

lemma byte_of_nat: "byte_of k w = word_of_nat (unat w div 2 ^ k)"
proof -
  have m: "(0xFF :: u32) = mask 8" by (simp add: mask_eq_exp_minus_1)
  have "byte_of k w = ucast (drop_bit k w)"
    unfolding byte_of_def m by (rule bit_word_eqI) (simp add: bit_simps)
  also have "\<dots> = word_of_nat (unat (drop_bit k w))"
    by simp
  also have "unat (drop_bit k w) = unat w div 2 ^ k"
    by (simp only: unat_drop_bit_eq) (simp only: drop_bit_eq_div)
  finally show ?thesis .
qed

lemma word8_of_nat_mod: "word_of_nat (a * 256 + b) = (word_of_nat b :: u8)"
proof -
  have "(256 :: u8) = 0" by simp
  then show ?thesis by (simp only: of_nat_add of_nat_mult of_nat_numeral) simp
qed

lemma high_byte:
  assumes "(l :: nat) < 2 ^ 32"
  shows "(h * 2 ^ 32 + l) div 2 ^ (32 + k) = h div 2 ^ k"
  using assms by (simp add: power_add div_mult2_eq)

lemma low_byte:
  assumes "k \<le> 24"
  shows "(word_of_nat ((h * 2 ^ 32 + l) div 2 ^ k) :: u8) = word_of_nat (l div 2 ^ k)"
proof -
  have "(h * 2 ^ 32 + l) div 2 ^ k = h * 2 ^ (24 - k) * 256 + l div 2 ^ k"
  proof -
    have "h * 2 ^ 32 = h * 2 ^ (24 - k) * 256 * 2 ^ k"
      using assms by (simp flip: power_add add: mult.assoc)
    then show ?thesis by (simp only: div_mult_self3 div_mult_self4 power_not_zero) simp
  qed
  then show ?thesis by (simp only: word8_of_nat_mod)
qed

lemma be64_halves:
  "be64 (unat h * 2 ^ 32 + unat l)
     = [byte_of 24 h, byte_of 16 h, byte_of 8 h, byte_of 0 h,
        byte_of 24 l, byte_of 16 l, byte_of 8 l, byte_of 0 l]" for h l :: u32
proof -
  let ?n = "unat h * 2 ^ 32 + unat l"
  have l: "unat l < 2 ^ 32" using unsigned_less [of l, where ?'a = nat] by simp
  have e: "(256 :: nat) ^ 7 = 2 ^ (32 + 24)" "(256 :: nat) ^ 6 = 2 ^ (32 + 16)"
    "(256 :: nat) ^ 5 = 2 ^ (32 + 8)" "(256 :: nat) ^ 4 = 2 ^ (32 + 0)"
    "(256 :: nat) ^ 3 = 2 ^ 24" "(256 :: nat) ^ 2 = 2 ^ 16" "(256 :: nat) ^ 1 = 2 ^ 8"
    "(256 :: nat) ^ 0 = 2 ^ 0" by simp_all
  have "be64 ?n = map (\<lambda>k. word_of_nat (?n div 256 ^ k)) [7, 6, 5, 4, 3, 2, 1, 0]"
    by (simp only: be64_def)
  also have "\<dots> = [byte_of 24 h, byte_of 16 h, byte_of 8 h, byte_of 0 h,
        byte_of 24 l, byte_of 16 l, byte_of 8 l, byte_of 0 l]"
    by (simp only: list.map e high_byte [OF l] low_byte byte_of_nat)
  finally show ?thesis .
qed


lemma length_8_cases:
  "length q = 8 \<Longrightarrow> \<exists>a0 a1 a2 a3 a4 a5 a6 a7. q = [a0, a1, a2, a3, a4, a5, a6, a7]"
  by (auto simp: numeral_eq_Suc length_Suc_conv)

lemma put_length_block:
  assumes "length (Message_Block c) = 64"
  shows "Message_Block (put_length c) = take 56 (Message_Block c) @ be64 (bit_count c)"
proof -
  let ?p = "take 56 (Message_Block c)" and ?q = "drop 56 (Message_Block c)"
  have p: "length ?p = 56" using assms by simp
  have "length ?q = 8" using assms by simp
  then obtain a0 a1 a2 a3 a4 a5 a6 a7 where q: "?q = [a0, a1, a2, a3, a4, a5, a6, a7]"
    using length_8_cases by blast
  have "Message_Block c = ?p @ [a0, a1, a2, a3, a4, a5, a6, a7]"
    by (simp flip: q)
  then obtain p where b: "Message_Block c = p @ [a0, a1, a2, a3, a4, a5, a6, a7]"
    and "length p = 56" using p by blast
  then show ?thesis
    by (simp add: put_length_def Let_def bit_count_def be64_halves list_update_append
        del: power_numeral)
qed


lemma last_block:
  assumes "length (Message_Block c) = 64" and "take 56 (Message_Block c) = p"
  shows "digest_regs (Message_Digest (SHA1ProcessMessageBlock (put_length c)))
    = spec_compress (digest_regs (Message_Digest c)) (p @ be64 (bit_count c))"
  using put_length_block [OF assms(1)] assms(2)
  by (simp add: ProcessMessageBlock_compress) (simp add: put_length_def Let_def)

lemma length_be64 [simp]: "length (be64 n) = 8"
  by (simp add: be64_def)

lemma SHA1PadMessage_spec:
  assumes r: "sha_repr full tail c"
  shows "digest_regs (Message_Digest (SHA1PadMessage c)) = sha1_spec (full @ tail)"
proof -
  let ?n = "length tail" and ?len = "be64 (bit_count c)"
  have H: "digest_regs (Message_Digest c) = spec_blocks sha1_iv full" and d: "64 dvd length full"
    and blk: "length (Message_Block c) = 64" and idx: "Message_Block_Index c = ?n"
    and n: "?n < 64" and cnt: "bit_count c = 8 * length (full @ tail)"
    and pre: "take ?n (Message_Block c) = tail"
    using r by (auto simp: sha_repr_def)
  have mod: "length (full @ tail) mod 64 = ?n"
    using d n by (auto elim!: dvdE)
  let ?p = "put_byte 0x80 c"
  have p: "take (Suc ?n) (Message_Block ?p) = tail @ [0x80]"
    using n blk idx pre by (simp add: take_Suc_update)
  show ?thesis
  proof (cases "?n > 55")
    case True
    let ?z = "zero_until 64 ?p" and ?b = "tail @ [0x80] @ replicate (63 - ?n) 0"
    have zb: "Message_Block ?z = ?b"
      using zero_until_spec(1,3) [of ?p 64] n blk idx p by simp
    let ?y = "zero_until 56 (SHA1ProcessMessageBlock ?z)"
    have y: "take 56 (Message_Block ?y) = replicate 56 0" "length (Message_Block ?y) = 64"
      "Message_Digest ?y = Message_Digest (SHA1ProcessMessageBlock ?z)" "bit_count ?y = bit_count c"
      using zero_until_spec [of "SHA1ProcessMessageBlock ?z" 56] zero_until_spec [of ?p 64] n blk idx
      by (simp_all add: bit_count_def)
    have k: "(119 - ?n) mod 64 = (63 - ?n) + 56"
      using True n by simp
    have pad: "sha1_pad (full @ tail) = full @ ?b @ replicate 56 0 @ ?len"
      by (simp only: sha1_pad_def mod k cnt replicate_add append_assoc)
    have "digest_regs (Message_Digest (SHA1PadMessage c))
        = spec_compress (digest_regs (Message_Digest ?y)) (replicate 56 0 @ ?len)"
      using True idx last_block [OF y(2,1)] by (simp add: SHA1PadMessage_def Let_def y)
    also have "digest_regs (Message_Digest ?y) = spec_compress (spec_blocks sha1_iv full) ?b"
      using zero_until_spec(4) [of ?p 64] n blk idx H
      by (simp add: y ProcessMessageBlock_compress zb)
    finally show ?thesis
      using n by (simp add: sha1_spec_def pad spec_blocks_append [OF d]
          spec_blocks_append [of ?b, simplified] spec_blocks_one)
  next
    case False
    let ?y = "zero_until 56 ?p" and ?b = "tail @ [0x80] @ replicate (55 - ?n) 0"
    have y: "take 56 (Message_Block ?y) = ?b" "length (Message_Block ?y) = 64"
      "Message_Digest ?y = Message_Digest c" "bit_count ?y = bit_count c"
      using zero_until_spec [of ?p 56] False blk idx p by (simp_all add: bit_count_def)
    have k: "(119 - ?n) mod 64 = 55 - ?n"
      using False by (simp add: mod_if)
    have pad: "sha1_pad (full @ tail) = full @ ?b @ ?len"
      by (simp only: sha1_pad_def mod k cnt append_assoc)
    have "digest_regs (Message_Digest (SHA1PadMessage c)) = spec_compress (spec_blocks sha1_iv full) (?b @ ?len)"
      using False idx last_block [OF y(2,1)] H by (simp add: SHA1PadMessage_def Let_def y)
    then show ?thesis
      using False by (simp add: sha1_spec_def pad spec_blocks_append [OF d] spec_blocks_one)
  qed
qed

section \<open>The hash of a message\<close>

lemma sha_repr_reset:
  "length (Message_Block sha) = 64 \<Longrightarrow> sha_repr [] [] (SHA1Reset sha)"
  by (simp add: sha_repr_def SHA1Reset_def bit_count_def digest_regs_def sha1_iv_def
      spec_blocks_small)

lemma sha1_hash_spec:
  assumes blk: "length (Message_Block sha) = 64" and len: "len \<le> length source" "len < 2 ^ 31"
  shows "fst (sha1_hash sha source (int len)) = 0
    \<and> digest_regs (Message_Digest (snd (sha1_hash sha source (int len))))
        = sha1_spec (take len source)"
proof -
  have u: "unat (word_of_int (int len) :: u32) = len" using len(2) by (simp add: unat_of_nat)
  define c where "c = SHA1Input (SHA1Reset sha) source (word_of_int (int len))"
  have c: "SHA1Input (SHA1Reset sha) source (word_of_nat len) = c" by (simp add: c_def)
  have "\<exists>full tail. sha_repr full tail c \<and> full @ tail = take len source"
  proof (cases "len = 0")
    case True
    then show ?thesis
      using sha_repr_reset [OF blk] by (auto simp: c_def SHA1Input_def)
  next
    case False
    have "c = input_loop (take len source) (SHA1Reset sha)"
      using False u by (auto simp: c_def SHA1Input_def SHA1Reset_def unat_eq_0 [symmetric])
    with sha_repr_input_loop [OF sha_repr_reset [OF blk], of "take len source"] len
    show ?thesis by simp
  qed
  then obtain full tail where "sha_repr full tail c" and "full @ tail = take len source"
    by blast
  then show ?thesis
    using SHA1PadMessage_spec [of full tail c]
    by (simp add: sha1_hash_def c SHA1Result_def sha_repr_def)
qed


text \<open>C2. \<^verbatim>\<open>sha1_hash\<close> returns 0 and leaves in the context the SHA-1 digest of
  FIPS 180-4 of the first \<open>len\<close> bytes of its argument, whatever the context
  held before, for every length the \<^verbatim>\<open>int\<close> argument can express.\<close>

theorem sha1_hash_correct:
  assumes "length (Message_Block sha) = 64" and "len \<le> length source" and "len < 2 ^ 31"
  shows "fst (sha1_hash sha source (int len)) = 0
    \<and> digest_regs (Message_Digest (snd (sha1_hash sha source (int len))))
        = sha1_spec (take len source)"
  using sha1_hash_spec [OF assms] .

definition sha_zero :: SHA1Context where
  "sha_zero = \<lparr>Message_Digest = replicate 5 0, Length_Low = 0, Length_High = 0,
     Message_Block = replicate 64 0, Message_Block_Index = 0, Computed = 0, Corrupted = 0\<rparr>"

theorem sha1_hash_correct_witness:
  "fst (sha1_hash sha_zero [0x61, 0x62, 0x63] (int 3)) = 0
    \<and> digest_regs (Message_Digest (snd (sha1_hash sha_zero [0x61, 0x62, 0x63] (int 3))))
        = sha1_spec (take 3 [0x61, 0x62, 0x63])"
  by (rule sha1_hash_correct) (simp_all add: sha_zero_def)

definition first64 :: "regs \<Rightarrow> u64" where
  "first64 d = word_cat (fst d) (fst (snd d))"

lemma convert_hash_first64: "convert_hash_to_number sha = first64 (digest_regs (Message_Digest sha))"
proof -
  have "push_bit 32 (ucast a :: u64) + ucast b = word_cat a b" for a b :: u32
  proof -
    have "push_bit 32 (ucast a :: u64) + ucast b = push_bit 32 (ucast a :: u64) OR ucast b"
      by (rule disjunctive_add_eq_or) (rule bit_word_eqI, auto simp: bit_simps dest: bit_imp_le_length)
    also have "\<dots> = word_cat a b"
      by (rule bit_word_eqI) (auto simp: bit_simps bit_word_cat_iff dest: bit_imp_le_length)
    finally show ?thesis .
  qed
  then show ?thesis by (simp add: convert_hash_to_number_def first64_def digest_regs_def)
qed

lemma hash_string_first64:
  assumes "length (Message_Block sha) = 64" and "length (c_str str) < 2 ^ 31"
  shows "fst (hash_string sha str) = first64 (sha1_spec (c_str str))"
proof -
  have "length (c_str str) \<le> length str" and "take (length (c_str str)) str = c_str str"
    by (simp_all add: c_str_def length_takeWhile_le takeWhile_eq_take [symmetric])
  with sha1_hash_spec [OF assms(1), of "length (c_str str)" str] assms(2) show ?thesis
    by (simp add: hash_string_def Let_def convert_hash_first64 case_prod_beta)
qed

lemma hash_file_first64:
  assumes "length (Message_Block sha) = 64"
  shows "fst (hash_file sha (Some bytes)) = first64 (sha1_spec (take MAX_FILE_LENGTH bytes))"
proof -
  define str where "str = take MAX_FILE_LENGTH bytes"
  have "length str < 2 ^ 31" by (simp add: str_def MAX_FILE_LENGTH_def)
  with sha1_hash_spec [OF assms, of "length str" str] show ?thesis
    by (simp add: hash_file_def Let_def convert_hash_first64 str_def [symmetric] case_prod_beta)
qed

text \<open>\<^verbatim>\<open>hash_string\<close> returns the first 64 bits of the SHA-1 digest of the bytes
  before the first NUL, and \<^verbatim>\<open>hash_file\<close> those of the first 300000 bytes of the file,
  or 1 when the file cannot be opened.\<close>


theorem hash_callers_correct:
  assumes "length (Message_Block sha) = 64" and "length (c_str str) < 2 ^ 31"
  shows "fst (hash_string sha str) = first64 (sha1_spec (c_str str))
    \<and> fst (hash_file sha f) = (case f of None \<Rightarrow> 1
         | Some bytes \<Rightarrow> first64 (sha1_spec (take 300000 bytes)))"
proof (intro conjI)
  show "fst (hash_string sha str) = first64 (sha1_spec (c_str str))"
    by (rule hash_string_first64) (fact assms)+
  show "fst (hash_file sha f) = (case f of None \<Rightarrow> 1
      | Some bytes \<Rightarrow> first64 (sha1_spec (take 300000 bytes)))"
    using hash_file_first64 [OF assms(1)]
    by (cases f) (simp_all add: hash_file_def MAX_FILE_LENGTH_def)
qed

theorem hash_callers_correct_witness:
  "fst (hash_string sha_zero [0x61, 0, 0x62]) = first64 (sha1_spec (c_str [0x61, 0, 0x62]))
    \<and> fst (hash_file sha_zero (Some [7, 8])) = (case Some [7, 8] of None \<Rightarrow> 1
         | Some bytes \<Rightarrow> first64 (sha1_spec (take 300000 bytes)))"
  by (rule hash_callers_correct) (simp_all add: sha_zero_def c_str_def)

end
