(* ===== verification/Venus.thy ===== *)
theory Venus
  imports Prelude
begin

text \<open>
  The buffer geometry of the Venus video codec, \<^verbatim>\<open>include/media/msm_media_info.h\<close>:
  strides, scanline counts, buffer sizes and the offset of the second view. The
  functions take C \<^verbatim>\<open>int\<close>s and compute in \<^verbatim>\<open>unsigned int\<close>, so the model keeps
  32-bit words and the theorems say when nothing wraps.
\<close>

definition COLOR_FMT_NV12 :: int where "COLOR_FMT_NV12 = 0"
definition COLOR_FMT_NV21 :: int where "COLOR_FMT_NV21 = 1"
definition COLOR_FMT_NV12_MVTB :: int where "COLOR_FMT_NV12_MVTB = 2"

definition MSM_MEDIA_ALIGN :: "u32 \<Rightarrow> u32 \<Rightarrow> u32" where
  "MSM_MEDIA_ALIGN sz align = ((sz + (align - 1)) AND NOT (align - 1))"

definition is_venus_fmt :: "int \<Rightarrow> bool" where
  "is_venus_fmt f \<longleftrightarrow> f = COLOR_FMT_NV21 \<or> f = COLOR_FMT_NV12 \<or> f = COLOR_FMT_NV12_MVTB"

definition VENUS_Y_STRIDE :: "int \<Rightarrow> int \<Rightarrow> u32" where
  "VENUS_Y_STRIDE color_fmt width =
     (if width = 0 then 0
      else if is_venus_fmt color_fmt then MSM_MEDIA_ALIGN (word_of_int width) 128
      else 0)"

definition VENUS_UV_STRIDE :: "int \<Rightarrow> int \<Rightarrow> u32" where
  "VENUS_UV_STRIDE color_fmt width =
     (if width = 0 then 0
      else if is_venus_fmt color_fmt then MSM_MEDIA_ALIGN (word_of_int width) 128
      else 0)"

definition VENUS_Y_SCANLINES :: "int \<Rightarrow> int \<Rightarrow> u32" where
  "VENUS_Y_SCANLINES color_fmt height =
     (if height = 0 then 0
      else if is_venus_fmt color_fmt then MSM_MEDIA_ALIGN (word_of_int height) 32
      else 0)"

text \<open>\<^verbatim>\<open>(height + 1) >> 1\<close> is an arithmetic shift of an \<^verbatim>\<open>int\<close>.\<close>

definition VENUS_UV_SCANLINES :: "int \<Rightarrow> int \<Rightarrow> u32" where
  "VENUS_UV_SCANLINES color_fmt height =
     (if height = 0 then 0
      else if is_venus_fmt color_fmt then MSM_MEDIA_ALIGN (word_of_int ((height + 1) div 2)) 16
      else 0)"

definition VENUS_BUFFER_SIZE :: "int \<Rightarrow> int \<Rightarrow> int \<Rightarrow> u32" where
  "VENUS_BUFFER_SIZE color_fmt width height =
     (let extra_size = 8 * 1024; uv_alignment = 4096 in
      if width = 0 \<or> height = 0 then 0
      else
        let y_stride = VENUS_Y_STRIDE color_fmt width;
            uv_stride = VENUS_UV_STRIDE color_fmt width;
            y_sclines = VENUS_Y_SCANLINES color_fmt height;
            uv_sclines = VENUS_UV_SCANLINES color_fmt height
        in if color_fmt = COLOR_FMT_NV21 \<or> color_fmt = COLOR_FMT_NV12
           then let y_plane = y_stride * y_sclines;
                    uv_plane = uv_stride * uv_sclines + uv_alignment
                in MSM_MEDIA_ALIGN (y_plane + uv_plane + extra_size) 4096
           else if color_fmt = COLOR_FMT_NV12_MVTB
           then let y_plane = y_stride * y_sclines;
                    uv_plane = uv_stride * uv_sclines + uv_alignment;
                    size = y_plane + uv_plane
                in MSM_MEDIA_ALIGN (2 * size + extra_size) 4096
           else 0)"

definition VENUS_VIEW2_OFFSET :: "int \<Rightarrow> int \<Rightarrow> int \<Rightarrow> u32" where
  "VENUS_VIEW2_OFFSET color_fmt width height =
     (if width = 0 \<or> height = 0 then 0
      else
        let y_stride = VENUS_Y_STRIDE color_fmt width;
            uv_stride = VENUS_UV_STRIDE color_fmt width;
            y_sclines = VENUS_Y_SCANLINES color_fmt height;
            uv_sclines = VENUS_UV_SCANLINES color_fmt height
        in if color_fmt = COLOR_FMT_NV12_MVTB
           then y_stride * y_sclines + uv_stride * uv_sclines
           else 0)"

section \<open>Alignment\<close>

text \<open>Rounding up on natural numbers, the reference for \<^verbatim>\<open>MSM_MEDIA_ALIGN\<close>.\<close>

definition round_up :: "nat \<Rightarrow> nat \<Rightarrow> nat" where
  "round_up n a = (n + a - 1) div a * a"

lemma unat_and_not_mask: "unat (x AND NOT (mask k)) = unat x div 2 ^ k * 2 ^ k" for x :: u32
proof -
  have "x AND NOT (mask k) = push_bit k (drop_bit k x)"
    by (rule bit_word_eqI) (auto simp: bit_simps)
  moreover have "unat (push_bit k (drop_bit k x)) = unat x div 2 ^ k * 2 ^ k"
  proof -
    have "unat x div 2 ^ k * 2 ^ k < 2 ^ 32"
      using unsigned_less [of x, where ?'a = nat]
      by (intro le_less_trans [OF div_times_less_eq_dividend]) simp
    then show ?thesis
      by (simp only: unsigned_push_bit_eq unat_drop_bit_eq)
        (simp add: drop_bit_eq_div push_bit_eq_mult take_bit_eq_mod)
  qed
  ultimately show ?thesis by simp
qed

lemma unat_MSM_MEDIA_ALIGN:
  assumes "align - 1 = mask k" and "unat (align - 1) = 2 ^ k - 1" and "unat sz + (2 ^ k - 1) < 2 ^ 32"
  shows "unat (MSM_MEDIA_ALIGN sz align) = round_up (unat sz) (2 ^ k)"
proof -
  have "unat (sz + (align - 1)) = unat sz + (2 ^ k - 1)"
    using assms(2,3) by (simp add: unat_word_ariths)
  then show ?thesis
    by (simp add: MSM_MEDIA_ALIGN_def unat_and_not_mask round_up_def flip: assms(1))
       (simp add: assms(1) unat_and_not_mask)
qed

lemma align_cases:
  "unat sz < 2 ^ 31 \<Longrightarrow> unat (MSM_MEDIA_ALIGN sz 16) = round_up (unat sz) 16"
  "unat sz < 2 ^ 31 \<Longrightarrow> unat (MSM_MEDIA_ALIGN sz 32) = round_up (unat sz) 32"
  "unat sz < 2 ^ 31 \<Longrightarrow> unat (MSM_MEDIA_ALIGN sz 128) = round_up (unat sz) 128"
  "unat sz < 2 ^ 31 \<Longrightarrow> unat (MSM_MEDIA_ALIGN sz 4096) = round_up (unat sz) 4096"
  using unat_MSM_MEDIA_ALIGN [of 16 4 sz] unat_MSM_MEDIA_ALIGN [of 32 5 sz]
    unat_MSM_MEDIA_ALIGN [of 128 7 sz] unat_MSM_MEDIA_ALIGN [of 4096 12 sz]
  by (simp_all add: mask_eq_exp_minus_1)

lemma round_up_least:
  assumes "0 < a"
  shows "n \<le> round_up n a" and "a dvd round_up n a" and "round_up n a < n + a"
    and "n \<le> m \<Longrightarrow> a dvd m \<Longrightarrow> round_up n a \<le> m"
proof -
  have e: "round_up n a + (n + a - 1) mod a = n + a - 1"
    unfolding round_up_def by (rule div_mult_mod_eq)
  have l: "(n + a - 1) mod a < a" using assms by simp
  show "n \<le> round_up n a" "round_up n a < n + a" using e l assms by linarith+
  show "a dvd round_up n a" by (simp add: round_up_def)
  show "round_up n a \<le> m" if nm: "n \<le> m" and dm: "a dvd m"
  proof -
    obtain q where q: "m = a * q" using dm by blast
    then have "n + a - 1 < Suc q * a" using nm assms by (simp add: algebra_simps)
    then have "(n + a - 1) div a < Suc q" using assms by (simp add: div_less_iff_less_mult)
    then have "(n + a - 1) div a * a \<le> q * a" by (intro mult_le_mono1) linarith
    then show ?thesis by (simp add: round_up_def q mult.commute)
  qed
qed

lemma round_up_add_multiple:
  assumes "0 < a"
  shows "round_up (n + k * a) a = round_up n a + k * a"
proof -
  have "n + k * a + a - 1 = (n + a - 1) + k * a" using assms by simp
  then have "(n + k * a + a - 1) div a = (n + a - 1) div a + k"
    using assms div_mult_self1 [of a "n + a - 1" k] by simp
  then show ?thesis by (simp only: round_up_def add_mult_distrib)
qed

section \<open>Geometry of a frame\<close>

text \<open>Frames of up to 16384 by 16384 pixels, beyond what the codec supports.\<close>

definition frame_dims :: "int \<Rightarrow> int \<Rightarrow> bool" where
  "frame_dims width height \<longleftrightarrow> 1 \<le> width \<and> width \<le> 16384 \<and> 1 \<le> height \<and> height \<le> 16384"

lemma unat_of_dim: "0 \<le> d \<Longrightarrow> d \<le> 16384 \<Longrightarrow> unat (word_of_int d :: u32) = nat d"
  by (simp add: unat_eq_nat_uint uint_word_of_int)

lemma geometry:
  assumes "frame_dims width height" and "is_venus_fmt f"
  shows "unat (VENUS_Y_STRIDE f width) = round_up (nat width) 128"
    and "unat (VENUS_UV_STRIDE f width) = round_up (nat width) 128"
    and "unat (VENUS_Y_SCANLINES f height) = round_up (nat height) 32"
    and "unat (VENUS_UV_SCANLINES f height) = round_up (nat ((height + 1) div 2)) 16"
proof -
  have w: "unat (word_of_int width :: u32) = nat width"
    and h: "unat (word_of_int height :: u32) = nat height"
    and h2: "unat (word_of_int ((height + 1) div 2) :: u32) = nat ((height + 1) div 2)"
    using assms by (auto simp only: frame_dims_def intro!: unat_of_dim)
  note a = align_cases(3) [of "word_of_int width"] align_cases(2) [of "word_of_int height"]
    align_cases(1) [of "word_of_int ((height + 1) div 2)"]
  show "unat (VENUS_Y_STRIDE f width) = round_up (nat width) 128"
    and "unat (VENUS_UV_STRIDE f width) = round_up (nat width) 128"
    and "unat (VENUS_Y_SCANLINES f height) = round_up (nat height) 32"
    and "unat (VENUS_UV_SCANLINES f height) = round_up (nat ((height + 1) div 2)) 16"
    using assms a unfolding w h h2
    by (auto simp: frame_dims_def VENUS_Y_STRIDE_def VENUS_UV_STRIDE_def VENUS_Y_SCANLINES_def
        VENUS_UV_SCANLINES_def)
qed

lemma round_up_bound: "0 < a \<Longrightarrow> a dvd b \<Longrightarrow> n \<le> b \<Longrightarrow> round_up n a \<le> b"
  by (rule round_up_least(4))

definition y_plane_size :: "int \<Rightarrow> int \<Rightarrow> nat" where
  "y_plane_size width height = round_up (nat width) 128 * round_up (nat height) 32"

definition uv_plane_size :: "int \<Rightarrow> int \<Rightarrow> nat" where
  "uv_plane_size width height = round_up (nat width) 128 * round_up (nat ((height + 1) div 2)) 16"

lemma plane_bounds:
  assumes "frame_dims width height"
  shows "y_plane_size width height \<le> 16384 * 16384"
    and "uv_plane_size width height \<le> 16384 * 8192"
proof -
  have d: "nat width \<le> 16384" "nat height \<le> 16384" "nat ((height + 1) div 2) \<le> 8192"
    using assms by (auto simp: frame_dims_def nat_le_iff)
  then have r: "round_up (nat width) 128 \<le> 16384" "round_up (nat height) 32 \<le> 16384"
    "round_up (nat ((height + 1) div 2)) 16 \<le> 8192"
    by (simp_all add: round_up_bound)
  show "y_plane_size width height \<le> 16384 * 16384"
    unfolding y_plane_size_def by (rule mult_le_mono) (fact r)+
  show "uv_plane_size width height \<le> 16384 * 8192"
    unfolding uv_plane_size_def by (rule mult_le_mono) (fact r)+
qed

lemma planes:
  assumes "frame_dims width height" and "is_venus_fmt f"
  shows "unat (VENUS_Y_STRIDE f width * VENUS_Y_SCANLINES f height) = y_plane_size width height"
    and "unat (VENUS_UV_STRIDE f width * VENUS_UV_SCANLINES f height) = uv_plane_size width height"
  using plane_bounds [OF assms(1)]
  by (simp_all add: unat_word_ariths geometry [OF assms] flip: y_plane_size_def uv_plane_size_def)

lemma unat_sum: "unat y + unat uv < 2 ^ 31 \<Longrightarrow> unat (y + uv) = unat y + unat uv" for y uv :: u32
  by (simp add: unat_word_ariths)

lemma unat_nv_sum:
  "unat y + unat uv + 12288 < 2 ^ 31 \<Longrightarrow>
    unat (y + (uv + 4096) + 8192) = unat y + unat uv + 12288" for y uv :: u32
  by (simp add: unat_word_ariths)

lemma unat_mvtb_sum:
  "2 * (unat y + unat uv) + 16384 < 2 ^ 31 \<Longrightarrow>
    unat (2 * (y + (uv + 4096)) + 8192) = 2 * (unat y + unat uv) + 16384" for y uv :: u32
  by (simp add: unat_word_ariths)

lemma buffer_size_nv:
  assumes "frame_dims width height" and "f = COLOR_FMT_NV12 \<or> f = COLOR_FMT_NV21"
  shows "unat (VENUS_BUFFER_SIZE f width height)
    = round_up (y_plane_size width height + uv_plane_size width height + 4096) 4096 + 8192"
proof -
  have fm: "is_venus_fmt f" using assms(2) by (auto simp: is_venus_fmt_def)
  let ?y = "VENUS_Y_STRIDE f width * VENUS_Y_SCANLINES f height"
  let ?uv = "VENUS_UV_STRIDE f width * VENUS_UV_SCANLINES f height"
  let ?n = "y_plane_size width height + uv_plane_size width height + 4096"
  have n: "?n + 8192 < 2 ^ 31" using plane_bounds [OF assms(1)] by simp
  have u: "unat (?y + (?uv + 4096) + 8192) = ?n + 8192"
    using n unat_nv_sum [of ?y ?uv] unfolding planes [OF assms(1) fm] by simp
  have "unat (VENUS_BUFFER_SIZE f width height) = round_up (?n + 2 * 4096) 4096"
    using assms u n by (auto simp: VENUS_BUFFER_SIZE_def Let_def frame_dims_def align_cases)
  also have "\<dots> = round_up ?n 4096 + 2 * 4096" by (rule round_up_add_multiple) simp
  finally show ?thesis by simp
qed

lemma buffer_size_mvtb:
  assumes "frame_dims width height"
  shows "unat (VENUS_BUFFER_SIZE COLOR_FMT_NV12_MVTB width height)
    = round_up (2 * (y_plane_size width height + uv_plane_size width height) + 4096) 4096 + 12288"
proof -
  let ?f = COLOR_FMT_NV12_MVTB
  have fm: "is_venus_fmt ?f" by (simp add: is_venus_fmt_def)
  let ?y = "VENUS_Y_STRIDE ?f width * VENUS_Y_SCANLINES ?f height"
  let ?uv = "VENUS_UV_STRIDE ?f width * VENUS_UV_SCANLINES ?f height"
  let ?n = "2 * (y_plane_size width height + uv_plane_size width height) + 4096"
  have n: "?n + 12288 < 2 ^ 31" using plane_bounds [OF assms] by simp
  have u: "unat (2 * (?y + (?uv + 4096)) + 8192) = ?n + 12288"
    using n unat_mvtb_sum [of ?y ?uv] unfolding planes [OF assms fm] by simp
  have "unat (VENUS_BUFFER_SIZE ?f width height) = round_up (?n + 3 * 4096) 4096"
    using assms u n
    by (auto simp: VENUS_BUFFER_SIZE_def Let_def frame_dims_def align_cases COLOR_FMT_NV12_MVTB_def
        COLOR_FMT_NV12_def COLOR_FMT_NV21_def)
  also have "\<dots> = round_up ?n 4096 + 3 * 4096" by (rule round_up_add_multiple) simp
  finally show ?thesis by simp
qed

text \<open>C25. For every frame of up to 16384 by 16384 pixels the size computed by
  \<^verbatim>\<open>VENUS_BUFFER_SIZE\<close> did not wrap around: it is a whole number of 4096-byte pages that
  holds the luma plane, the chroma plane behind it and at least 12288 further bytes, and each
  plane has room for every sample of the picture (stride at least the width, scanlines at
  least the height, chroma scanlines at least half the height rounded up).\<close>

theorem venus_buffer_holds_planes:
  assumes "frame_dims width height" and "f = COLOR_FMT_NV12 \<or> f = COLOR_FMT_NV21"
  shows "4096 dvd unat (VENUS_BUFFER_SIZE f width height)
    \<and> unat (VENUS_Y_STRIDE f width) * unat (VENUS_Y_SCANLINES f height)
      + unat (VENUS_UV_STRIDE f width) * unat (VENUS_UV_SCANLINES f height) + 12288
      \<le> unat (VENUS_BUFFER_SIZE f width height)
    \<and> nat width \<le> unat (VENUS_Y_STRIDE f width)
    \<and> nat height \<le> unat (VENUS_Y_SCANLINES f height)
    \<and> nat ((height + 1) div 2) \<le> unat (VENUS_UV_SCANLINES f height)"
proof -
  have fm: "is_venus_fmt f" using assms(2) by (auto simp: is_venus_fmt_def)
  note g = geometry [OF assms(1) fm]
  let ?n = "y_plane_size width height + uv_plane_size width height + 4096"
  have le: "?n \<le> round_up ?n 4096" by (rule round_up_least) simp
  have "4096 dvd round_up ?n 4096" by (rule round_up_least) simp
  moreover have "(4096 :: nat) dvd 8192" by presburger
  ultimately have "4096 dvd round_up ?n 4096 + 8192" by (rule dvd_add)
  then show ?thesis
    using le unfolding buffer_size_nv [OF assms] g y_plane_size_def [symmetric]
      uv_plane_size_def [symmetric]
    by (intro conjI round_up_least) (assumption | linarith | simp)+
qed

theorem venus_buffer_holds_planes_witness:
  "4096 dvd unat (VENUS_BUFFER_SIZE COLOR_FMT_NV12 1920 1080)
    \<and> unat (VENUS_Y_STRIDE COLOR_FMT_NV12 1920) * unat (VENUS_Y_SCANLINES COLOR_FMT_NV12 1080)
      + unat (VENUS_UV_STRIDE COLOR_FMT_NV12 1920) * unat (VENUS_UV_SCANLINES COLOR_FMT_NV12 1080)
      + 12288
      \<le> unat (VENUS_BUFFER_SIZE COLOR_FMT_NV12 1920 1080)
    \<and> nat 1920 \<le> unat (VENUS_Y_STRIDE COLOR_FMT_NV12 1920)
    \<and> nat 1080 \<le> unat (VENUS_Y_SCANLINES COLOR_FMT_NV12 1080)
    \<and> nat ((1080 + 1) div 2) \<le> unat (VENUS_UV_SCANLINES COLOR_FMT_NV12 1080)"
  by (rule venus_buffer_holds_planes) (simp_all add: frame_dims_def)

text \<open>In the two-view format the second view starts right behind the first one, at
  \<^verbatim>\<open>VENUS_VIEW2_OFFSET\<close>, and both views lie inside the buffer.\<close>

theorem venus_view2_inside:
  assumes "frame_dims width height"
  shows "let f = COLOR_FMT_NV12_MVTB;
             view = unat (VENUS_Y_STRIDE f width) * unat (VENUS_Y_SCANLINES f height)
               + unat (VENUS_UV_STRIDE f width) * unat (VENUS_UV_SCANLINES f height)
         in unat (VENUS_VIEW2_OFFSET f width height) = view
            \<and> unat (VENUS_VIEW2_OFFSET f width height) + view
              \<le> unat (VENUS_BUFFER_SIZE f width height)"
proof -
  let ?f = COLOR_FMT_NV12_MVTB
  have fm: "is_venus_fmt ?f" by (simp add: is_venus_fmt_def)
  have "unat (VENUS_VIEW2_OFFSET ?f width height)
      = y_plane_size width height + uv_plane_size width height"
    using assms plane_bounds [OF assms]
      unat_sum [of "VENUS_Y_STRIDE ?f width * VENUS_Y_SCANLINES ?f height"
        "VENUS_UV_STRIDE ?f width * VENUS_UV_SCANLINES ?f height"]
    unfolding planes [OF assms fm]
    by (auto simp: VENUS_VIEW2_OFFSET_def Let_def frame_dims_def)
  moreover have "2 * (y_plane_size width height + uv_plane_size width height) + 4096
      \<le> round_up (2 * (y_plane_size width height + uv_plane_size width height) + 4096) 4096"
    by (rule round_up_least) simp
  ultimately show ?thesis
    by (simp add: Let_def buffer_size_mvtb [OF assms] geometry [OF assms fm]
        flip: y_plane_size_def uv_plane_size_def)
qed

theorem venus_view2_inside_witness:
  "let f = COLOR_FMT_NV12_MVTB;
       view = unat (VENUS_Y_STRIDE f 1280) * unat (VENUS_Y_SCANLINES f 720)
         + unat (VENUS_UV_STRIDE f 1280) * unat (VENUS_UV_SCANLINES f 720)
   in unat (VENUS_VIEW2_OFFSET f 1280 720) = view
      \<and> unat (VENUS_VIEW2_OFFSET f 1280 720) + view \<le> unat (VENUS_BUFFER_SIZE f 1280 720)"
  by (rule venus_view2_inside) (simp add: frame_dims_def)

text \<open>The comment of the enumeration gives the total size as the two planes plus 4096
  bytes, rounded up to a page (and twice the planes plus 4096 for two views); the code
  allocates exactly two pages more, and three more for two views.\<close>

theorem venus_size_against_comment:
  assumes "frame_dims width height"
  shows "let plane = (\<lambda>f. unat (VENUS_Y_STRIDE f width) * unat (VENUS_Y_SCANLINES f height)
               + unat (VENUS_UV_STRIDE f width) * unat (VENUS_UV_SCANLINES f height))
         in unat (VENUS_BUFFER_SIZE COLOR_FMT_NV12 width height)
              = round_up (plane COLOR_FMT_NV12 + 4096) 4096 + 8192
            \<and> unat (VENUS_BUFFER_SIZE COLOR_FMT_NV12_MVTB width height)
              = round_up (2 * plane COLOR_FMT_NV12_MVTB + 4096) 4096 + 12288"
proof -
  have fm: "is_venus_fmt COLOR_FMT_NV12" "is_venus_fmt COLOR_FMT_NV12_MVTB"
    by (simp_all add: is_venus_fmt_def)
  show ?thesis
    by (simp add: Let_def buffer_size_mvtb [OF assms] buffer_size_nv [OF assms]
        geometry [OF assms fm(1)] geometry [OF assms fm(2)]
        flip: y_plane_size_def uv_plane_size_def)
qed

theorem venus_size_against_comment_witness:
  "let plane = (\<lambda>f. unat (VENUS_Y_STRIDE f 640) * unat (VENUS_Y_SCANLINES f 480)
         + unat (VENUS_UV_STRIDE f 640) * unat (VENUS_UV_SCANLINES f 480))
   in unat (VENUS_BUFFER_SIZE COLOR_FMT_NV12 640 480)
        = round_up (plane COLOR_FMT_NV12 + 4096) 4096 + 8192
      \<and> unat (VENUS_BUFFER_SIZE COLOR_FMT_NV12_MVTB 640 480)
        = round_up (2 * plane COLOR_FMT_NV12_MVTB + 4096) 4096 + 12288"
  by (rule venus_size_against_comment) (simp add: frame_dims_def)

end
