(* ===== verification/Fp_State.thy ===== *)
theory Fp_State
  imports Prelude Hash
begin

text \<open>
  State and vocabulary of the fingerprint HAL (\<^verbatim>\<open>fingerprint/\<close>): the constants and
  structures of \<^verbatim>\<open>fingerprint_common.h\<close>, \<^verbatim>\<open>fingerprint_tz.h\<close>, \<^verbatim>\<open>vfs61xx_ioctl.h\<close>
  and \<^verbatim>\<open>QSEEComAPI.h\<close>, the world that the operations transform, the interface of
  everything that lives outside the sources (TrustZone library, SQLite, kernel, clock)
  as the record \<open>env_ops\<close>, and the sequencing combinators with their
  weakest-precondition calculus.
\<close>

section \<open>Constants and enumerations\<close>

definition SB_LENGTH :: nat where "SB_LENGTH = 0x100000"
definition BUFFER_LENGTH :: nat where "BUFFER_LENGTH = 0x19000"
definition AUTH_TOKEN_LENGTH :: nat where "AUTH_TOKEN_LENGTH = 0x70"
definition AUTH_SESSION_TOKEN_LENGTH :: nat where "AUTH_SESSION_TOKEN_LENGTH = 0x20"
definition CALIBRATE_DATA_MAX_LENGTH :: nat where "CALIBRATE_DATA_MAX_LENGTH = 0x500c"
definition FINGER_DATA_MAX_LENGTH :: nat where "FINGER_DATA_MAX_LENGTH = 0x2900"
definition PAYLOAD_MAX_LENGTH :: nat where "PAYLOAD_MAX_LENGTH = 0x24"
definition MAX_NUM_FINGERS :: nat where "MAX_NUM_FINGERS = 5"

lemmas fp_consts = SB_LENGTH_def BUFFER_LENGTH_def AUTH_TOKEN_LENGTH_def
  AUTH_SESSION_TOKEN_LENGTH_def CALIBRATE_DATA_MAX_LENGTH_def FINGER_DATA_MAX_LENGTH_def
  PAYLOAD_MAX_LENGTH_def MAX_NUM_FINGERS_def

datatype worker_state_t = STATE_IDLE | STATE_ENROLL | STATE_SCAN | STATE_CANCEL

datatype trust_zone_cmd_id_t =
    vfmProvision | vfmInitialize | vfmUninitialize | vfmDeviceInitialize | vfmDeviceCalibrate
  | vfmAuthSessionBegin | vfmAuthSessionEnd | vfmCaptureStart | vfmCaptureReadData
  | vfmCaptureProcessData | vfmCaptureAbort | vfmCaptureGetStatus | vfmCaptureFlushImage
  | vfmEnrollBegin | vfmEnrollAddImage | vfmEnrollFinish | vfmEnrollmentPasswordSet
  | vfmEnrollmentPasswordVerify | vfmMatchImageToTemplates | vfmPayloadBind | vfmPayloadRelease
  | vfmVendorDefinedOperation

fun cmd_id :: "trust_zone_cmd_id_t \<Rightarrow> u32" where
  "cmd_id vfmProvision = 0x1"
| "cmd_id vfmInitialize = 0x2"
| "cmd_id vfmUninitialize = 0x3"
| "cmd_id vfmDeviceInitialize = 0x4"
| "cmd_id vfmDeviceCalibrate = 0x5"
| "cmd_id vfmAuthSessionBegin = 0x6"
| "cmd_id vfmAuthSessionEnd = 0x7"
| "cmd_id vfmCaptureStart = 0x8"
| "cmd_id vfmCaptureReadData = 0x9"
| "cmd_id vfmCaptureProcessData = 0xa"
| "cmd_id vfmCaptureAbort = 0xb"
| "cmd_id vfmCaptureGetStatus = 0xc"
| "cmd_id vfmCaptureFlushImage = 0xe"
| "cmd_id vfmEnrollBegin = 0xf"
| "cmd_id vfmEnrollAddImage = 0x10"
| "cmd_id vfmEnrollFinish = 0x11"
| "cmd_id vfmEnrollmentPasswordSet = 0x12"
| "cmd_id vfmEnrollmentPasswordVerify = 0x13"
| "cmd_id vfmMatchImageToTemplates = 0x14"
| "cmd_id vfmPayloadBind = 0x15"
| "cmd_id vfmPayloadRelease = 0x16"
| "cmd_id vfmVendorDefinedOperation = 0x17"

datatype trust_zone_vendor_cmd_id_t =
    vendorUnknown0 | vendorGetVersion | vendorUnknownA | vendorGetAuthToken
  | vendorEnterAuthSession | vendorUpdateCalData

fun vendor_cmd_id :: "trust_zone_vendor_cmd_id_t \<Rightarrow> u32" where
  "vendor_cmd_id vendorUnknown0 = 0x0"
| "vendor_cmd_id vendorGetVersion = 0x1"
| "vendor_cmd_id vendorUnknownA = 0xa"
| "vendor_cmd_id vendorGetAuthToken = 0x14"
| "vendor_cmd_id vendorEnterAuthSession = 0x15"
| "vendor_cmd_id vendorUpdateCalData = 0x17"

text \<open>The ioctl commands of the sensor driver with the secure configuration; the number is the
  second argument of the \<^verbatim>\<open>_IO\<close>/\<^verbatim>\<open>_IOW\<close> macro and the argument is that of the call.\<close>

datatype vfsspi_ioctl =
    VFSSPI_IOCTL_DEVICE_RESET | VFSSPI_IOCTL_SET_CLK int | VFSSPI_IOCTL_REGISTER_DRDY_SIGNAL int int
  | VFSSPI_IOCTL_SET_DRDY_INT int | VFSSPI_IOCTL_DEVICE_SUSPEND | VFSSPI_IOCTL_POWER_ON
  | VFSSPI_IOCTL_POWER_OFF | VFSSPI_IOCTL_DISABLE_SPI_CLOCK | VFSSPI_IOCTL_SET_SPI_CONFIGURATION
  | VFSSPI_IOCTL_RESET_SPI_CONFIGURATION | VFSSPI_IOCTL_GET_SENSOR_ORIENT

fun ioctl_nr :: "vfsspi_ioctl \<Rightarrow> nat" where
  "ioctl_nr VFSSPI_IOCTL_DEVICE_RESET = 2"
| "ioctl_nr (VFSSPI_IOCTL_SET_CLK _) = 3"
| "ioctl_nr (VFSSPI_IOCTL_REGISTER_DRDY_SIGNAL _ _) = 5"
| "ioctl_nr (VFSSPI_IOCTL_SET_DRDY_INT _) = 8"
| "ioctl_nr VFSSPI_IOCTL_DEVICE_SUSPEND = 9"
| "ioctl_nr VFSSPI_IOCTL_POWER_ON = 13"
| "ioctl_nr VFSSPI_IOCTL_POWER_OFF = 14"
| "ioctl_nr VFSSPI_IOCTL_DISABLE_SPI_CLOCK = 15"
| "ioctl_nr VFSSPI_IOCTL_SET_SPI_CONFIGURATION = 16"
| "ioctl_nr VFSSPI_IOCTL_RESET_SPI_CONFIGURATION = 17"
| "ioctl_nr VFSSPI_IOCTL_GET_SENSOR_ORIENT = 18"

section \<open>Byte memory\<close>

text \<open>The shared ion buffer and the character arrays of the structures are byte memories;
  the sizes are checked where the code copies a length it does not control.\<close>

type_synonym mem = "nat \<Rightarrow> u8"

definition mem_zero :: mem where "mem_zero = (\<lambda>_. 0)"

text \<open>\<^verbatim>\<open>memset\<close> and \<^verbatim>\<open>memcpy\<close> of \<open>n\<close> bytes, and little-endian stores and loads.\<close>

definition mem_set :: "mem \<Rightarrow> nat \<Rightarrow> u8 \<Rightarrow> nat \<Rightarrow> mem" where
  "mem_set m a v n = (\<lambda>i. if a \<le> i \<and> i < a + n then v else m i)"

definition mem_cpy :: "mem \<Rightarrow> nat \<Rightarrow> mem \<Rightarrow> nat \<Rightarrow> nat \<Rightarrow> mem" where
  "mem_cpy dst a src b n = (\<lambda>i. if a \<le> i \<and> i < a + n then src (b + (i - a)) else dst i)"

definition wr8 :: "mem \<Rightarrow> nat \<Rightarrow> u8 \<Rightarrow> mem" where
  "wr8 m a v = m(a := v)"

definition wr32 :: "mem \<Rightarrow> nat \<Rightarrow> u32 \<Rightarrow> mem" where
  "wr32 m a v = m(a := byte_of 0 v, a + 1 := byte_of 8 v, a + 2 := byte_of 16 v, a + 3 := byte_of 24 v)"

definition rd32 :: "mem \<Rightarrow> nat \<Rightarrow> u32" where
  "rd32 m a = ucast (m a) OR push_bit 8 (ucast (m (a + 1))) OR push_bit 16 (ucast (m (a + 2)))
     OR push_bit 24 (ucast (m (a + 3)))"

text \<open>An \<^verbatim>\<open>int\<close> read from the buffer.\<close>

definition rd_int :: "mem \<Rightarrow> nat \<Rightarrow> int" where
  "rd_int m a = sint (rd32 m a)"

lemma bit_byte_of: "bit (byte_of k v) i \<longleftrightarrow> i < 8 \<and> bit v (k + i)"
proof -
  have "byte_of k v = ucast (take_bit 8 (drop_bit k v))"
    by (simp add: byte_of_def take_bit_eq_mask mask_eq_exp_minus_1)
  then show ?thesis
    by (auto simp: bit_simps dest: bit_imp_le_length)
qed

lemma rd32_wr32 [simp]: "rd32 (wr32 m a v) a = v"
proof (rule bit_word_eqI)
  fix i assume "i < LENGTH(32)"
  then consider "i < 8" | "8 \<le> i" "i < 16" | "16 \<le> i" "i < 24" | "24 \<le> i" "i < 32" by fastforce
  then show "bit (rd32 (wr32 m a v) a) i = bit v i"
    by cases (auto simp: rd32_def wr32_def bit_simps bit_byte_of)
qed

text \<open>Bytes outside a written range.\<close>

lemma rd32_other:
  assumes "\<And>i. i < 4 \<Longrightarrow> m' (a + i) = m (a + i)"
  shows "rd32 m' a = rd32 m a"
  using assms [of 0] assms [of 1] assms [of 2] assms [of 3] by (simp add: rd32_def)

lemma rd32_writes [simp]:
  "a + 4 \<le> b \<or> b + 4 \<le> a \<Longrightarrow> rd32 (wr32 m b v) a = rd32 m a"
  "a + 4 \<le> b \<or> b < a \<Longrightarrow> rd32 (wr8 m b u) a = rd32 m a"
  "a + 4 \<le> b \<or> b + n \<le> a \<Longrightarrow> rd32 (mem_cpy m b s c n) a = rd32 m a"
  by (rule rd32_other; auto simp: wr32_def wr8_def mem_cpy_def)+

lemma rd_int_writes [simp]:
  "rd_int (wr32 m a v) a = sint v"
  "a + 4 \<le> b \<or> b + 4 \<le> a \<Longrightarrow> rd_int (wr32 m b v) a = rd_int m a"
  by (simp_all add: rd_int_def)

definition QSEECOM_ALIGN :: "nat \<Rightarrow> nat" where
  "QSEECOM_ALIGN x = (x + 0x40) div 0x40 * 0x40"

text \<open>Sizes of the command and result structures (4-byte \<^verbatim>\<open>int\<close>, enum and \<^verbatim>\<open>time_t\<close>), and
  the offset of their \<^verbatim>\<open>data\<close> arrays. An \<^verbatim>\<open>int data[i]\<close> of a result is at \<open>8 + 4 * i\<close>.\<close>

definition sizeof_int :: nat where "sizeof_int = 4"
definition sizeof_base_cmd :: nat where "sizeof_base_cmd = 12 + (BUFFER_LENGTH - 12)"
definition sizeof_vendor_cmd :: nat where "sizeof_vendor_cmd = 16 + (BUFFER_LENGTH - 16)"
definition sizeof_2x_cmd :: nat where "sizeof_2x_cmd = 12 + (BUFFER_LENGTH * 2 - 12)"
definition sizeof_3x_cmd :: nat where "sizeof_3x_cmd = 12 + (BUFFER_LENGTH * 3 - 12)"
definition sizeof_5x_cmd :: nat where "sizeof_5x_cmd = 24 + 563304"
definition sizeof_result :: nat where "sizeof_result = 8 + 4 * (BUFFER_LENGTH div 4 - 2)"
definition sizeof_2x_result :: nat where "sizeof_2x_result = 8 + 4 * (BUFFER_LENGTH * 2 div 4 - 2)"

lemmas fp_sizes = sizeof_int_def sizeof_base_cmd_def sizeof_vendor_cmd_def sizeof_2x_cmd_def
  sizeof_3x_cmd_def sizeof_5x_cmd_def sizeof_result_def sizeof_2x_result_def

definition res_data :: "nat \<Rightarrow> nat" where
  "res_data i = 8 + 4 * i"

section \<open>Structures\<close>

record finger_t =
  exist :: bool
  fdata :: mem
  payload :: mem

record vcs_sensor_t =
  fd :: int
  sensor_initd :: bool
  signal :: bool

record trust_zone_t =
  tz_initd :: bool
  state :: worker_state_t
  qhandle :: "nat option"
  auth_session_opend :: bool
  auth_token :: mem
  auth_session_token :: mem
  calibrate_len :: int
  calibrate_data :: mem
  finger :: "nat \<Rightarrow> finger_t"
  timeout_secs :: u32
  timeout_thread :: bool

record vcs_fingerprint_device_t =
  op_id :: u64
  challenge :: u64
  user_id :: u64
  group_id :: u64
  secure_user_id :: u64
  authenticator_id :: u64
  active_gid :: u32
  notify_set :: bool

text \<open>The messages handed to the \<^verbatim>\<open>notify\<close> callback.\<close>

datatype acquired_info = FINGERPRINT_ACQUIRED_GOOD | FINGERPRINT_ACQUIRED_INSUFFICIENT

record hw_auth_token =
  hat_version :: nat
  hat_challenge :: u64
  hat_user_id :: u64
  hat_authenticator_id :: u64
  hat_authenticator_type :: u32
  hat_timestamp :: u64

datatype fingerprint_msg =
    FINGERPRINT_ERROR int
  | FINGERPRINT_ACQUIRED acquired_info
  | FINGERPRINT_TEMPLATE_ENROLLING int int
  | FINGERPRINT_AUTHENTICATED int hw_auth_token
  | FINGERPRINT_TEMPLATE_REMOVED int

definition FINGERPRINT_ERROR_HW_UNAVAILABLE :: int where "FINGERPRINT_ERROR_HW_UNAVAILABLE = 1"
definition FINGERPRINT_ERROR_UNABLE_TO_PROCESS :: int where "FINGERPRINT_ERROR_UNABLE_TO_PROCESS = 2"
definition FINGERPRINT_ERROR_TIMEOUT :: int where "FINGERPRINT_ERROR_TIMEOUT = 3"
definition FINGERPRINT_ERROR_NO_SPACE :: int where "FINGERPRINT_ERROR_NO_SPACE = 4"
definition FINGERPRINT_ERROR_CANCELED :: int where "FINGERPRINT_ERROR_CANCELED = 5"
definition FINGERPRINT_ERROR_UNABLE_TO_REMOVE :: int where "FINGERPRINT_ERROR_UNABLE_TO_REMOVE = 6"
definition FINGERPRINT_ERROR_VENDOR_BASE :: int where "FINGERPRINT_ERROR_VENDOR_BASE = 1000"

section \<open>The outside\<close>

text \<open>A row of a fingerprint table, and of Samsung's \<^verbatim>\<open>enrollments\<close> table (whose blobs carry
  their length).\<close>

record db_row =
  row_id :: int
  row_data :: mem
  row_payload :: mem

record old_row =
  old_id :: int
  old_data :: mem
  old_len :: nat

text \<open>Everything the HAL calls that is not in the sources: \<^verbatim>\<open>libQSEEComAPI\<close>, SQLite, the file
  system, the kernel and the clock. Each operation takes and returns the state \<open>'e\<close> of the
  outside. \<open>qsee_send\<close> gets the shared buffer, the offset and length of the request and of
  the response, and returns the buffer after the call.\<close>

record 'e env_ops =
  malloc_ok :: "'e \<Rightarrow> bool \<times> 'e"
  dlopen_ok :: "'e \<Rightarrow> bool \<times> 'e"
  dlsym_ok :: "'e \<Rightarrow> string \<Rightarrow> bool \<times> 'e"
  qsee_start :: "'e \<Rightarrow> int \<times> nat option \<times> 'e"
  qsee_shutdown :: "'e \<Rightarrow> nat option \<Rightarrow> int \<times> nat option \<times> 'e"
  qsee_bandwidth :: "'e \<Rightarrow> bool \<Rightarrow> int \<times> 'e"
  qsee_send :: "'e \<Rightarrow> mem \<Rightarrow> nat \<Rightarrow> nat \<Rightarrow> nat \<Rightarrow> nat \<Rightarrow> int \<times> mem \<times> 'e"
  qsee_send_modified :: "'e \<Rightarrow> mem \<Rightarrow> nat \<Rightarrow> nat \<Rightarrow> nat \<Rightarrow> nat \<Rightarrow> (int \<times> u32) list \<Rightarrow> int \<times> mem \<times> 'e"
  sql_open :: "'e \<Rightarrow> string \<Rightarrow> int \<times> 'e"
  sql_close :: "'e \<Rightarrow> int \<times> 'e"
  sql_exec :: "'e \<Rightarrow> string \<Rightarrow> int \<times> 'e"
  sql_select :: "'e \<Rightarrow> string \<Rightarrow> db_row list \<times> 'e"
  sql_insert :: "'e \<Rightarrow> string \<Rightarrow> mem \<Rightarrow> mem \<Rightarrow> int \<times> 'e"
  old_select :: "'e \<Rightarrow> string \<Rightarrow> old_row list \<times> 'e"
  file_exists :: "'e \<Rightarrow> string \<Rightarrow> bool"
  file_remove :: "'e \<Rightarrow> string \<Rightarrow> int \<times> 'e"
  file_read :: "'e \<Rightarrow> string \<Rightarrow> u8 list option"
  env_ioctl :: "'e \<Rightarrow> vfsspi_ioctl \<Rightarrow> int \<times> 'e"
  env_open :: "'e \<Rightarrow> string \<Rightarrow> int \<times> 'e"
  env_time :: "'e \<Rightarrow> u32"
  env_monotonic :: "'e \<Rightarrow> u64 \<times> u64"
  env_getpid :: "'e \<Rightarrow> int"
  thread_create :: "'e \<Rightarrow> int \<times> 'e"
  HW_AUTH_TOKEN_VERSION :: nat
  HW_AUTH_FINGERPRINT :: u32

text \<open>What the other threads of the process may do at a scheduling point: the sensor's signal
  arrives, the framework cancels, the enrolment timer expires, the worker thread ends.\<close>

datatype other_action = SignalArrives int | CancelRequested | TimeoutExpired | WorkerDone

datatype fault = NullDeref | UseAfterFree | OutOfBounds | Deadlock | StillRunning

text \<open>The pointer \<^verbatim>\<open>km_handle\<close> of \<^verbatim>\<open>QSEEComAPI.c\<close>.\<close>

datatype km_ptr = KM_NULL | KM_FREED | KM_LOADED

text \<open>The process state. \<open>vlock\<close> is whether the running thread holds \<^verbatim>\<open>vdev->lock\<close>;
  \<open>notices\<close>, \<open>ioctls\<close> and \<open>sent\<close> record the calls in order, the requests with their command
  word and the placement of request and response in the shared buffer;
  \<open>sched\<close> holds what the other threads do at the successive scheduling points of the running
  one.\<close>

record request =
  req_cmd :: u32
  req_off :: nat
  req_len :: nat
  rsp_off :: nat
  rsp_len :: nat

record 'e world =
  tz :: trust_zone_t
  sensor :: vcs_sensor_t
  vdev :: vcs_fingerprint_device_t
  sha :: SHA1Context
  km_init :: bool
  km_handle :: km_ptr
  sbuf :: mem
  vlock :: bool
  notices :: "fingerprint_msg list"
  ioctls :: "vfsspi_ioctl list"
  sent :: "request list"
  sched :: "other_action list list"
  outside :: 'e

section \<open>Sequencing\<close>

type_synonym ('w, 'a) cmd = "'w \<Rightarrow> fault + 'a \<times> 'w"

definition ret :: "'a \<Rightarrow> ('w, 'a) cmd" where
  "ret a w = Inr (a, w)"

definition fail :: "fault \<Rightarrow> ('w, 'a) cmd" where
  "fail e w = Inl e"

definition bind :: "('w, 'a) cmd \<Rightarrow> ('a \<Rightarrow> ('w, 'b) cmd) \<Rightarrow> ('w, 'b) cmd" where
  "bind m f w = (case m w of Inl e \<Rightarrow> Inl e | Inr (a, w') \<Rightarrow> f a w')"

definition gets :: "('w \<Rightarrow> 'a) \<Rightarrow> ('w, 'a) cmd" where
  "gets f w = Inr (f w, w)"

definition modify :: "('w \<Rightarrow> 'w) \<Rightarrow> ('w, unit) cmd" where
  "modify f w = Inr ((), f w)"

definition seq :: "('w, 'a) cmd \<Rightarrow> ('w, 'b) cmd \<Rightarrow> ('w, 'b) cmd" where
  "seq m n = bind m (\<lambda>_. n)"

fun seqs :: "('w, unit) cmd list \<Rightarrow> ('w, unit) cmd" where
  "seqs [] = ret ()"
| "seqs (m # ms) = seq m (seqs ms)"

text \<open>\<open>wp m Q F w\<close>: run from \<open>w\<close>, \<open>m\<close> ends in a result and state satisfying \<open>Q\<close> or in a
  fault satisfying \<open>F\<close>.\<close>

definition wp :: "('w, 'a) cmd \<Rightarrow> ('a \<Rightarrow> 'w \<Rightarrow> bool) \<Rightarrow> (fault \<Rightarrow> bool) \<Rightarrow> 'w \<Rightarrow> bool" where
  "wp m Q F w = (case m w of Inl e \<Rightarrow> F e | Inr (a, w') \<Rightarrow> Q a w')"

named_theorems wp_rules "weakest preconditions of the operations"

lemma wp_ret [simp]: "wp (ret a) Q F w = Q a w"
  by (simp add: wp_def ret_def)

lemma wp_fail [simp]: "wp (fail e) Q F w = F e"
  by (simp add: wp_def fail_def)

lemma wp_bind [simp]: "wp (bind m f) Q F w = wp m (\<lambda>a. wp (f a) Q F) F w"
  by (simp add: wp_def bind_def split: sum.split prod.split)

lemma wp_seq [simp]: "wp (seq m n) Q F w = wp m (\<lambda>_. wp n Q F) F w"
  by (simp add: seq_def)

lemma wp_gets [simp]: "wp (gets f) Q F w = Q (f w) w"
  by (simp add: wp_def gets_def)

lemma wp_modify [simp]: "wp (modify f) Q F w = Q () (f w)"
  by (simp add: wp_def modify_def)

lemma wp_if [simp]: "wp (if b then m else n) Q F w = (if b then wp m Q F w else wp n Q F w)"
  by simp

lemma wp_mono:
  "wp m Q F w \<Longrightarrow> (\<And>a w'. m w = Inr (a, w') \<Longrightarrow> Q a w' \<Longrightarrow> Q' a w') \<Longrightarrow> (\<And>e. F e \<Longrightarrow> F' e)
    \<Longrightarrow> wp m Q' F' w"
  by (auto simp: wp_def split: sum.splits prod.splits)

lemma wp_result: "wp m Q F w \<Longrightarrow> m w = Inr (a, w') \<Longrightarrow> Q a w'"
  by (simp add: wp_def)

lemma wp_only_fault: "wp m (\<lambda>_ _. False) (\<lambda>e. e = f) w \<Longrightarrow> m w = Inl f"
  by (simp add: wp_def split: sum.splits prod.splits)

lemma wp_fault: "wp m Q F w \<Longrightarrow> m w = Inl e \<Longrightarrow> F e"
  by (simp add: wp_def)

section \<open>Updates of nested structures\<close>

definition upd_tz :: "(trust_zone_t \<Rightarrow> trust_zone_t) \<Rightarrow> 'e world \<Rightarrow> 'e world" where
  "upd_tz f w = w\<lparr>tz := f (tz w)\<rparr>"

definition upd_sensor :: "(vcs_sensor_t \<Rightarrow> vcs_sensor_t) \<Rightarrow> 'e world \<Rightarrow> 'e world" where
  "upd_sensor f w = w\<lparr>sensor := f (sensor w)\<rparr>"

definition upd_vdev :: "(vcs_fingerprint_device_t \<Rightarrow> vcs_fingerprint_device_t) \<Rightarrow> 'e world \<Rightarrow> 'e world" where
  "upd_vdev f w = w\<lparr>vdev := f (vdev w)\<rparr>"

definition upd_finger :: "nat \<Rightarrow> (finger_t \<Rightarrow> finger_t) \<Rightarrow> trust_zone_t \<Rightarrow> trust_zone_t" where
  "upd_finger i f t = t\<lparr>finger := (finger t)(i := f (finger t i))\<rparr>"

definition finger_zero :: finger_t where
  "finger_zero = \<lparr>exist = False, fdata = mem_zero, payload = mem_zero\<rparr>"

definition tz_zero :: trust_zone_t where
  "tz_zero = \<lparr>tz_initd = False, state = STATE_IDLE, qhandle = None, auth_session_opend = False,
     auth_token = mem_zero, auth_session_token = mem_zero, calibrate_len = 0,
     calibrate_data = mem_zero, finger = (\<lambda>_. finger_zero), timeout_secs = 0,
     timeout_thread = False\<rparr>"

definition sensor_zero :: vcs_sensor_t where
  "sensor_zero = \<lparr>fd = 0, sensor_initd = False, signal = False\<rparr>"

definition vdev_zero :: vcs_fingerprint_device_t where
  "vdev_zero = \<lparr>op_id = 0, challenge = 0, user_id = 0, group_id = 0, secure_user_id = 0,
     authenticator_id = 0, active_gid = 0, notify_set = False\<rparr>"

section \<open>Primitive effects\<close>

definition ioctl :: "'e env_ops \<Rightarrow> vfsspi_ioctl \<Rightarrow> ('e world, int) cmd" where
  "ioctl E c w = (let (r, e) = env_ioctl E (outside w) c
     in Inr (r, w\<lparr>ioctls := ioctls w @ [c], outside := e\<rparr>))"

definition mutex_lock_vdev :: "('e world, unit) cmd" where
  "mutex_lock_vdev w = (if vlock w then Inl Deadlock else Inr ((), w\<lparr>vlock := True\<rparr>))"

definition mutex_unlock_vdev :: "('e world, unit) cmd" where
  "mutex_unlock_vdev = modify (\<lambda>w. w\<lparr>vlock := False\<rparr>)"

text \<open>Calling \<^verbatim>\<open>vdev->device.notify\<close>, a NULL pointer until \<^verbatim>\<open>set_notify_callback\<close>.\<close>

definition notify :: "fingerprint_msg \<Rightarrow> ('e world, unit) cmd" where
  "notify msg w = (if notify_set (vdev w) then Inr ((), w\<lparr>notices := notices w @ [msg]\<rparr>)
                   else Inl NullDeref)"

lemma wp_ioctl [simp]:
  "wp (ioctl E c) Q F w = (case env_ioctl E (outside w) c of
     (r, e) \<Rightarrow> Q r (w\<lparr>ioctls := ioctls w @ [c], outside := e\<rparr>))"
  by (simp add: wp_def ioctl_def split: prod.split)

lemma wp_lock [simp]:
  "wp mutex_lock_vdev Q F w = (if vlock w then F Deadlock else Q () (w\<lparr>vlock := True\<rparr>))"
  by (simp add: wp_def mutex_lock_vdev_def)

lemma wp_unlock [simp]: "wp mutex_unlock_vdev Q F w = Q () (w\<lparr>vlock := False\<rparr>)"
  by (simp add: mutex_unlock_vdev_def)

lemma wp_notify [simp]:
  "wp (notify msg) Q F w =
     (if notify_set (vdev w) then Q () (w\<lparr>notices := notices w @ [msg]\<rparr>) else F NullDeref)"
  by (simp add: wp_def notify_def)

end
