(* ===== verification/Fp_Device.thy ===== *)
theory Fp_Device
  imports Fp_State
begin

text \<open>
  The sensor, database and notice sections of \<^verbatim>\<open>fingerprint/fingerprint.c\<close> (lines 58 to 398)
  and the two accessors of the worker state in \<^verbatim>\<open>fingerprint_tz.c\<close>. That the power
  trace of the sensor stays balanced is shown in \<open>Fp_Invariants\<close>, and how the table of fingers is
  loaded from and written to the database in \<open>Fp_Database\<close>.
\<close>

section \<open>Worker state\<close>

definition get_tz_state :: "('e world, worker_state_t) cmd" where
  "get_tz_state = gets (\<lambda>w. state (tz w))"

definition set_tz_state :: "worker_state_t \<Rightarrow> ('e world, unit) cmd" where
  "set_tz_state s = modify (upd_tz (\<lambda>t. t\<lparr>state := s\<rparr>))"

section \<open>Sensor\<close>

definition sensor_uninit :: "'e env_ops \<Rightarrow> ('e world, int) cmd" where
  "sensor_uninit E =
     bind (gets (\<lambda>w. sensor_initd (sensor w))) (\<lambda>initd.
       if \<not> initd then ret 0
       else seq (ioctl E VFSSPI_IOCTL_RESET_SPI_CONFIGURATION)
           (seq (ioctl E VFSSPI_IOCTL_DISABLE_SPI_CLOCK)
           (seq (ioctl E VFSSPI_IOCTL_DEVICE_SUSPEND)
           (seq (ioctl E VFSSPI_IOCTL_POWER_OFF)
           (seq (modify (upd_sensor (\<lambda>s. s\<lparr>sensor_initd := False\<rparr>)))
                (ret 0))))))"

definition sensor_init :: "'e env_ops \<Rightarrow> ('e world, int) cmd" where
  "sensor_init E =
     bind (gets (\<lambda>w. sensor_initd (sensor w))) (\<lambda>initd.
       if initd then ret 0
       else seq (ioctl E VFSSPI_IOCTL_POWER_ON)
           (seq (ioctl E (VFSSPI_IOCTL_SET_CLK 65535))
           (seq (ioctl E VFSSPI_IOCTL_DEVICE_RESET)
           (seq (ioctl E VFSSPI_IOCTL_SET_SPI_CONFIGURATION)
           (seq (ioctl E (VFSSPI_IOCTL_SET_CLK 4800))
           (seq (modify (upd_sensor (\<lambda>s. s\<lparr>sensor_initd := True\<rparr>)))
                (ret 0)))))))"

text \<open>The handler of \<^verbatim>\<open>SIGUSR2\<close>. Waking the timer thread has no other effect on the state.\<close>

definition sensor_process_signal :: "'e env_ops \<Rightarrow> int \<Rightarrow> ('e world, unit) cmd" where
  "sensor_process_signal E signum =
     seq (modify (upd_tz (\<lambda>t. if timeout_thread t then t\<lparr>timeout_thread := False\<rparr> else t)))
    (bind get_tz_state (\<lambda>s1. bind get_tz_state (\<lambda>s2.
     seq (if s1 \<noteq> STATE_IDLE \<and> s2 \<noteq> STATE_CANCEL
          then modify (upd_sensor (\<lambda>s. s\<lparr>signal := True\<rparr>)) else ret ())
    (seq (ioctl E (VFSSPI_IOCTL_SET_DRDY_INT 0))
         (ret ())))))"

definition SIGUSR2 :: int where "SIGUSR2 = 12"

definition sensor_register :: "'e env_ops \<Rightarrow> ('e world, int) cmd" where
  "sensor_register E =
     bind (gets (\<lambda>w. env_getpid E (outside w))) (\<lambda>pid.
     seq (ioctl E (VFSSPI_IOCTL_REGISTER_DRDY_SIGNAL pid SIGUSR2)) (ret 0))"

definition sensor_capture_start :: "'e env_ops \<Rightarrow> ('e world, int) cmd" where
  "sensor_capture_start E = ioctl E (VFSSPI_IOCTL_SET_DRDY_INT 1)"

section \<open>Database\<close>

text \<open>\<^verbatim>\<open>%d\<close> of \<^verbatim>\<open>sprintf\<close>.\<close>

fun dec_nat :: "nat \<Rightarrow> string" where
  "dec_nat n = (if n < 10 then [char_of (48 + n)] else dec_nat (n div 10) @ [char_of (48 + n mod 10)])"

declare dec_nat.simps [simp del]

definition show_d :: "int \<Rightarrow> string" where
  "show_d i = (if i < 0 then ''-'' @ dec_nat (nat (- i)) else dec_nat (nat i))"

definition FINGER_DATABASE_FILENAME :: string where
  "FINGER_DATABASE_FILENAME = ''/data/validity/finger.db''"

definition SAMSUNG_FP_DB_PATH :: string where
  "SAMSUNG_FP_DB_PATH = ''/data/validity/template.db''"

definition SENSOR_FILE_NAME :: string where
  "SENSOR_FILE_NAME = ''/dev/vfsspi''"

definition SQLITE_OK :: int where "SQLITE_OK = 0"
definition SQLITE_DONE :: int where "SQLITE_DONE = 101"

definition sql_create_cmd :: "u32 \<Rightarrow> string" where
  "sql_create_cmd gid = ''create table gid_'' @ show_d (sint gid) @ ''(id integer, data blob, payload blob)''"

definition sql_select_cmd :: "u32 \<Rightarrow> string" where
  "sql_select_cmd gid = ''select * from gid_'' @ show_d (sint gid)"

definition sql_delete_cmd :: "u32 \<Rightarrow> int \<Rightarrow> string" where
  "sql_delete_cmd gid fid = ''delete from gid_'' @ show_d (sint gid) @ '' where id='' @ show_d fid"

definition sql_insert_cmd :: "u32 \<Rightarrow> int \<Rightarrow> string" where
  "sql_insert_cmd gid fid =
     ''insert into gid_'' @ show_d (sint gid) @ ''(id, data, payload) values( '' @ show_d fid @ '', ?, ?)''"

definition db_check_and_create_table :: "'e env_ops \<Rightarrow> ('e world, int) cmd" where
  "db_check_and_create_table E w =
     (let (r, e) = sql_exec E (outside w) (sql_create_cmd (active_gid (vdev w)))
      in Inr (r, w\<lparr>outside := e\<rparr>))"

text \<open>\<^verbatim>\<open>tz.finger[id]\<close> has \<^verbatim>\<open>MAX_NUM_FINGERS + 1\<close> elements.\<close>

definition finger_index_ok :: "int \<Rightarrow> bool" where
  "finger_index_ok i \<longleftrightarrow> 0 \<le> i \<and> i \<le> int MAX_NUM_FINGERS"

text \<open>\<^verbatim>\<open>memset(tz.finger, 0, MAX_NUM_FINGERS * sizeof(finger_t))\<close> clears the first
  \<^verbatim>\<open>MAX_NUM_FINGERS\<close> elements, indices 0 to 4.\<close>

definition clear_fingers :: "trust_zone_t \<Rightarrow> trust_zone_t" where
  "clear_fingers t = t\<lparr>finger := (\<lambda>i. if i < MAX_NUM_FINGERS then finger_zero else finger t i)\<rparr>"

definition db_write_to_db :: "'e env_ops \<Rightarrow> bool \<Rightarrow> int \<Rightarrow> ('e world, int) cmd" where
  "db_write_to_db E remove fid w =
     (if remove
      then let (r, e) = sql_exec E (outside w) (sql_delete_cmd (active_gid (vdev w)) fid)
           in if finger_index_ok fid
              then Inr (r, upd_tz (upd_finger (nat fid) (\<lambda>_. finger_zero)) (w\<lparr>outside := e\<rparr>))
              else Inl OutOfBounds
      else if finger_index_ok fid
      then let f = finger (tz w) (nat fid);
               (r, e) = sql_insert E (outside w) (sql_insert_cmd (active_gid (vdev w)) fid)
                          (fdata f) (payload f)
           in Inr (r, w\<lparr>outside := e\<rparr>)
      else Inl OutOfBounds)"

text \<open>The loop over the rows of Samsung's table.\<close>

fun load_old_rows :: "old_row list \<Rightarrow> ('e world, unit) cmd" where
  "load_old_rows [] = ret ()"
| "load_old_rows (r # rs) =
     (if finger_index_ok (old_id r) \<and> old_len r \<le> FINGER_DATA_MAX_LENGTH
      then seq (modify (upd_tz (upd_finger (nat (old_id r)) (\<lambda>f.
              f\<lparr>fdata := mem_cpy (fdata f) 0 (old_data r) 0 (old_len r), exist := True\<rparr>))))
            (load_old_rows rs)
      else fail OutOfBounds)"

text \<open>The loop \<^verbatim>\<open>for (idx = 1; idx <= MAX_NUM_FINGERS; idx++)\<close> that moves the fingers over.\<close>

fun convert_fingers :: "'e env_ops \<Rightarrow> mem \<Rightarrow> nat \<Rightarrow> nat list \<Rightarrow> ('e world, unit) cmd" where
  "convert_fingers E pl len [] = ret ()"
| "convert_fingers E pl len (idx # is) =
     bind (gets (\<lambda>w. exist (finger (tz w) idx))) (\<lambda>ex.
       if \<not> ex then convert_fingers E pl len is
       else if len \<le> PAYLOAD_MAX_LENGTH
       then seq (modify (upd_tz (upd_finger idx (\<lambda>f. f\<lparr>payload := mem_cpy (payload f) 0 pl 0 len\<rparr>))))
           (seq (db_write_to_db E False (int idx))
                (convert_fingers E pl len is))
       else fail OutOfBounds)"

definition finger_indices :: "nat list" where
  "finger_indices = [1..<Suc MAX_NUM_FINGERS]"

definition old_query :: "'e env_ops \<Rightarrow> string \<Rightarrow> ('e world, old_row list) cmd" where
  "old_query E q w = (let (rows, e) = old_select E (outside w) q in Inr (rows, w\<lparr>outside := e\<rparr>))"

definition env_call :: "('e \<Rightarrow> 'a \<times> 'e) \<Rightarrow> ('e world, 'a) cmd" where
  "env_call f w = (let (r, e) = f (outside w) in Inr (r, w\<lparr>outside := e\<rparr>))"

definition db_convert_old_db :: "'e env_ops \<Rightarrow> ('e world, int) cmd" where
  "db_convert_old_db E =
     seq (modify (upd_tz clear_fingers))
    (bind (env_call (\<lambda>e. sql_open E e SAMSUNG_FP_DB_PATH)) (\<lambda>r.
     if r \<noteq> SQLITE_OK then ret (-1)
     else bind (old_query E ''select * from enrollments'') (\<lambda>rows.
       seq (load_old_rows rows)
      (bind (old_query E ''select * from properties'') (\<lambda>props.
       seq (case props of
              [] \<Rightarrow> convert_fingers E mem_zero 0 finger_indices
            | p # _ \<Rightarrow> convert_fingers E (old_data p) (old_len p) finger_indices)
      (bind (env_call (sql_close E)) (\<lambda>r.
       if r \<noteq> SQLITE_OK then ret (-1)
       else env_call (\<lambda>e. file_remove E e SAMSUNG_FP_DB_PATH))))))))"

text \<open>The loop over the rows of the group's table: both blobs are copied at full length.\<close>

definition load_row :: "db_row \<Rightarrow> finger_t \<Rightarrow> finger_t" where
  "load_row r f = f\<lparr>fdata := mem_cpy (fdata f) 0 (row_data r) 0 FINGER_DATA_MAX_LENGTH,
     payload := mem_cpy (payload f) 0 (row_payload r) 0 PAYLOAD_MAX_LENGTH, exist := True\<rparr>"

fun load_rows :: "db_row list \<Rightarrow> ('e world, unit) cmd" where
  "load_rows [] = ret ()"
| "load_rows (r # rs) =
     (if finger_index_ok (row_id r)
      then seq (modify (upd_tz (upd_finger (nat (row_id r)) (load_row r)))) (load_rows rs)
      else fail OutOfBounds)"

definition db_read_to_tz :: "'e env_ops \<Rightarrow> ('e world, int) cmd" where
  "db_read_to_tz E =
     seq (db_check_and_create_table E)
    (bind (gets (\<lambda>w. file_exists E (outside w) SAMSUNG_FP_DB_PATH)) (\<lambda>old.
     if old then db_convert_old_db E
     else seq (modify (upd_tz clear_fingers))
         (bind (gets (\<lambda>w. sql_select_cmd (active_gid (vdev w)))) (\<lambda>q.
          bind (env_call (\<lambda>e. sql_select E e q)) (\<lambda>rows.
          seq (load_rows rows) (ret 0))))))"

definition db_init :: "'e env_ops \<Rightarrow> ('e world, int) cmd" where
  "db_init E =
     bind (env_call (\<lambda>e. sql_open E e FINGER_DATABASE_FILENAME)) (\<lambda>r.
     if r \<noteq> SQLITE_OK then ret (-1) else db_read_to_tz E)"

definition db_uninit :: "'e env_ops \<Rightarrow> ('e world, int) cmd" where
  "db_uninit E = env_call (sql_close E)"

section \<open>Notices\<close>

definition convert_ret_to_acquired_info :: "int \<Rightarrow> acquired_info" where
  "convert_ret_to_acquired_info acquired_ret =
     (if acquired_ret = 0 then FINGERPRINT_ACQUIRED_GOOD else FINGERPRINT_ACQUIRED_INSUFFICIENT)"

text \<open>Lock \<^verbatim>\<open>vdev->lock\<close>, call the callback, unlock: the tail of every notice.\<close>

definition locked_notify :: "fingerprint_msg \<Rightarrow> ('e world, unit) cmd" where
  "locked_notify msg = seq mutex_lock_vdev (seq (notify msg) mutex_unlock_vdev)"

definition send_error_notice :: "int \<Rightarrow> ('e world, unit) cmd" where
  "send_error_notice error_info = locked_notify (FINGERPRINT_ERROR error_info)"

definition send_acquired_notice :: "int \<Rightarrow> ('e world, unit) cmd" where
  "send_acquired_notice acquired_ret =
     locked_notify (FINGERPRINT_ACQUIRED (convert_ret_to_acquired_info acquired_ret))"

definition send_enroll_notice :: "int \<Rightarrow> int \<Rightarrow> ('e world, unit) cmd" where
  "send_enroll_notice fid remaining =
     bind (gets (\<lambda>w. secure_user_id (vdev w))) (\<lambda>suid.
       if fid = 0 then ret ()
       else if suid = 0 then ret ()
       else locked_notify (FINGERPRINT_TEMPLATE_ENROLLING fid remaining))"

text \<open>Big-endian conversion on the little-endian target.\<close>

definition htobe32 :: "u32 \<Rightarrow> u32" where
  "htobe32 w = push_bit 24 (w AND 0xFF) OR push_bit 8 (w AND 0xFF00)
     OR drop_bit 8 (w AND 0xFF0000) OR drop_bit 24 w"

definition htobe64 :: "u64 \<Rightarrow> u64" where
  "htobe64 w = push_bit 32 (ucast (htobe32 (ucast w))) OR ucast (htobe32 (ucast (drop_bit 32 w)))"

definition send_authenticated_notice :: "'e env_ops \<Rightarrow> int \<Rightarrow> ('e world, unit) cmd" where
  "send_authenticated_notice E fid =
     seq (send_acquired_notice 0)
    (bind (gets (\<lambda>w. let (tv_sec, tv_nsec) = env_monotonic E (outside w); d = vdev w in
        \<lparr>hat_version = HW_AUTH_TOKEN_VERSION E,
         hat_challenge = op_id d,
         hat_user_id = secure_user_id d,
         hat_authenticator_id = authenticator_id d,
         hat_authenticator_type = htobe32 (HW_AUTH_FINGERPRINT E),
         hat_timestamp = htobe64 (tv_sec * 1000 + tv_nsec div 1000000)\<rparr>)) (\<lambda>hat.
     locked_notify (FINGERPRINT_AUTHENTICATED fid hat)))"

definition send_remove_notice :: "int \<Rightarrow> ('e world, unit) cmd" where
  "send_remove_notice fid = locked_notify (FINGERPRINT_TEMPLATE_REMOVED fid)"

end
