(* ===== verification/Fp_Qsee.thy ===== *)
theory Fp_Qsee
  imports Fp_Device
begin

text \<open>
  \<^verbatim>\<open>fingerprint/QSEEComAPI.c\<close>: lazy loading of the TrustZone client library and the
  forwarding functions. A call through \<^verbatim>\<open>km_handle\<close> when the library could not be loaded
  is a fault of the model.
\<close>

definition qsee_symbols :: "string list" where
  "qsee_symbols = [''QSEECom_start_app'', ''QSEECom_shutdown_app'', ''QSEECom_send_cmd'',
     ''QSEECom_send_modified_cmd'', ''QSEECom_set_bandwidth'']"

text \<open>The chain of \<^verbatim>\<open>dlsym\<close> calls; the first missing symbol ends it.\<close>

fun load_symbols :: "'e env_ops \<Rightarrow> string list \<Rightarrow> ('e world, int) cmd" where
  "load_symbols E [] = ret 0"
| "load_symbols E (s # ss) =
     bind (env_call (\<lambda>e. dlsym_ok E e s)) (\<lambda>ok. if ok then load_symbols E ss else ret (-1))"

definition qcom_km_get_lib_sym :: "'e env_ops \<Rightarrow> ('e world, int) cmd" where
  "qcom_km_get_lib_sym E =
     bind (env_call (dlopen_ok E)) (\<lambda>ok. if ok then load_symbols E qsee_symbols else ret (-1))"

definition init_qsee :: "'e env_ops \<Rightarrow> ('e world, int) cmd" where
  "init_qsee E =
     bind (gets km_init) (\<lambda>i.
     if i then ret 0
     else bind (env_call (malloc_ok E)) (\<lambda>ok.
       if \<not> ok then seq (modify (\<lambda>w. w\<lparr>km_handle := KM_NULL\<rparr>)) (ret (-1))
       else bind (qcom_km_get_lib_sym E) (\<lambda>r.
         if r \<noteq> 0 then seq (modify (\<lambda>w. w\<lparr>km_handle := KM_FREED\<rparr>)) (ret (-1))
         else seq (modify (\<lambda>w. w\<lparr>km_handle := KM_LOADED, km_init := True\<rparr>)) (ret 0))))"

text \<open>Reading a function pointer from \<^verbatim>\<open>*km_handle\<close>.\<close>

definition deref_km :: "('e world, unit) cmd" where
  "deref_km = bind (gets km_handle) (\<lambda>p.
     case p of KM_NULL \<Rightarrow> fail NullDeref | KM_FREED \<Rightarrow> fail UseAfterFree | KM_LOADED \<Rightarrow> ret ())"

definition QSEECom_start_app :: "'e env_ops \<Rightarrow> ('e world, int) cmd" where
  "QSEECom_start_app E =
     seq (init_qsee E) (seq deref_km
    (bind (env_call (\<lambda>e. let (r, h, e') = qsee_start E e in ((r, h), e'))) (\<lambda>(r, h).
     seq (modify (upd_tz (\<lambda>t. t\<lparr>qhandle := h\<rparr>))) (ret r))))"

definition QSEECom_shutdown_app :: "'e env_ops \<Rightarrow> ('e world, int) cmd" where
  "QSEECom_shutdown_app E =
     seq (init_qsee E) (seq deref_km
    (bind (gets (\<lambda>w. qhandle (tz w))) (\<lambda>h0.
     bind (env_call (\<lambda>e. let (r, h, e') = qsee_shutdown E e h0 in ((r, h), e'))) (\<lambda>(r, h).
     seq (modify (upd_tz (\<lambda>t. t\<lparr>qhandle := h\<rparr>))) (ret r)))))"

text \<open>\<open>raw_send\<close> is the library's call: the request at offset \<open>so\<close> of the shared buffer, the
  response at \<open>ro\<close>. The request is recorded.\<close>

definition raw_send :: "'e env_ops \<Rightarrow> nat \<Rightarrow> nat \<Rightarrow> nat \<Rightarrow> nat \<Rightarrow> ('e world, int) cmd" where
  "raw_send E so sl ro rl w =
     (let (r, m, e) = qsee_send E (outside w) (sbuf w) so sl ro rl
      in Inr (r, w\<lparr>sent := sent w @ [\<lparr>req_cmd = rd32 (sbuf w) so, req_off = so, req_len = sl,
                        rsp_off = ro, rsp_len = rl\<rparr>],
                   sbuf := m, outside := e\<rparr>))"

definition QSEECom_send_cmd :: "'e env_ops \<Rightarrow> nat \<Rightarrow> nat \<Rightarrow> nat \<Rightarrow> nat \<Rightarrow> ('e world, int) cmd" where
  "QSEECom_send_cmd E send_buf sbuf_len rcv_buf rbuf_len =
     seq (init_qsee E) (seq deref_km (raw_send E send_buf sbuf_len rcv_buf rbuf_len))"

text \<open>The variant with ion descriptors (\<^verbatim>\<open>struct QSEECom_ion_fd_info\<close>, pairs of a descriptor and an
  offset), which the HAL itself does not use.\<close>

definition QSEECom_send_modified_cmd ::
    "'e env_ops \<Rightarrow> nat \<Rightarrow> nat \<Rightarrow> nat \<Rightarrow> nat \<Rightarrow> (int \<times> u32) list \<Rightarrow> ('e world, int) cmd" where
  "QSEECom_send_modified_cmd E send_buf sbuf_len resp_buf rbuf_len ifd_data =
     seq (init_qsee E) (seq deref_km (\<lambda>w.
       let (r, m, e) = qsee_send_modified E (outside w) (sbuf w) send_buf sbuf_len resp_buf rbuf_len ifd_data
       in Inr (r, w\<lparr>sbuf := m, outside := e\<rparr>)))"

definition QSEECom_set_bandwidth :: "'e env_ops \<Rightarrow> bool \<Rightarrow> ('e world, int) cmd" where
  "QSEECom_set_bandwidth E high =
     seq (init_qsee E) (seq deref_km (env_call (\<lambda>e. qsee_bandwidth E e high)))"

end
