(* ===== verification/Fp_Tz.thy ===== *)
theory Fp_Tz
  imports Fp_Qsee
begin

text \<open>
  \<^verbatim>\<open>fingerprint/fingerprint_tz.c\<close>: the conversation with the TrustZone application. Requests
  and responses are written at the offsets of the C structures in the shared buffer. The
  worker threads take their scheduling points where they lock \<^verbatim>\<open>tz.lock\<close> in
  \<^verbatim>\<open>get_tz_state\<close>; the loops that wait for the hardware take fuel, and running out of it is
  \<open>StillRunning\<close>.
\<close>

section \<open>Buffer access\<close>

definition deref_handle :: "('e world, unit) cmd" where
  "deref_handle = bind (gets (\<lambda>w. qhandle (tz w))) (\<lambda>h. if h = None then fail NullDeref else ret ())"

definition edit_buf :: "(mem \<Rightarrow> mem) \<Rightarrow> ('e world, unit) cmd" where
  "edit_buf f = modify (\<lambda>w. w\<lparr>sbuf := f (sbuf w)\<rparr>)"

definition res_result :: "nat \<Rightarrow> 'e world \<Rightarrow> int" where
  "res_result ro w = rd_int (sbuf w) (ro + 4)"

definition res_int :: "nat \<Rightarrow> nat \<Rightarrow> 'e world \<Rightarrow> int" where
  "res_int ro i w = rd_int (sbuf w) (ro + res_data i)"

text \<open>The offsets of the responses: behind the aligned request.\<close>

definition A_int :: nat where "A_int = QSEECOM_ALIGN sizeof_int"
definition A_base :: nat where "A_base = QSEECOM_ALIGN sizeof_base_cmd"
definition A_vendor :: nat where "A_vendor = QSEECOM_ALIGN sizeof_vendor_cmd"
definition A_2x :: nat where "A_2x = QSEECOM_ALIGN sizeof_2x_cmd"
definition A_3x :: nat where "A_3x = QSEECOM_ALIGN sizeof_3x_cmd"
definition A_5x :: nat where "A_5x = QSEECOM_ALIGN sizeof_5x_cmd"
definition A_res :: nat where "A_res = QSEECOM_ALIGN sizeof_result"
definition A_2xres :: nat where "A_2xres = QSEECOM_ALIGN sizeof_2x_result"

lemmas A_defs = A_int_def A_base_def A_vendor_def A_2x_def A_3x_def A_5x_def A_res_def A_2xres_def

definition init_cmd :: "nat \<Rightarrow> trust_zone_cmd_id_t \<Rightarrow> mem \<Rightarrow> mem" where
  "init_cmd n c m = wr32 (mem_set m 0 0 n) 0 (cmd_id c)"

definition init_vendor :: "nat \<Rightarrow> trust_zone_vendor_cmd_id_t \<Rightarrow> mem \<Rightarrow> mem" where
  "init_vendor n v m = wr32 (init_cmd n vfmVendorDefinedOperation m) 4 (vendor_cmd_id v)"

section \<open>Calibration data\<close>

text \<open>\<^verbatim>\<open>tz.calibrate_len = resp->data[3] + 0xf; memcpy(&tz.calibrate_data, &resp->data[2],
  tz.calibrate_len)\<close>: the length comes from the response.\<close>

definition store_calibration :: "nat \<Rightarrow> ('e world, unit) cmd" where
  "store_calibration ro =
     bind (gets (res_int ro 3)) (\<lambda>d3.
     let len = d3 + 0xf in
     if 0 \<le> len \<and> len \<le> int CALIBRATE_DATA_MAX_LENGTH
     then modify (\<lambda>w. upd_tz (\<lambda>t. t\<lparr>calibrate_len := len,
            calibrate_data := mem_cpy (calibrate_data t) 0 (sbuf w) (ro + res_data 2) (nat len)\<rparr>) w)
     else fail OutOfBounds)"

definition vcs_update_cal_data :: "'e env_ops \<Rightarrow> ('e world, int) cmd" where
  "vcs_update_cal_data E =
     seq deref_handle
    (seq (edit_buf (\<lambda>m. wr32 (init_vendor (A_vendor + A_res) vendorUpdateCalData m)
            (A_vendor + res_data 0) (word_of_nat CALIBRATE_DATA_MAX_LENGTH)))
    (bind (QSEECom_send_cmd E 0 A_vendor A_vendor A_res) (\<lambda>r.
     bind (gets (res_result A_vendor)) (\<lambda>result.
     if r \<noteq> 0 \<or> result \<noteq> 0 then ret r
     else seq (store_calibration A_vendor) (ret r)))))"

section \<open>Application life cycle\<close>

text \<open>The two requests of the loop in \<^verbatim>\<open>vcs_update_auth_token\<close>; the second one announces the
  size of the response.\<close>

definition token_request :: "'e env_ops \<Rightarrow> bool \<Rightarrow> ('e world, int) cmd" where
  "token_request E second =
     seq (edit_buf (\<lambda>m. let m' = init_vendor (A_vendor + A_res) vendorGetAuthToken m in
            if second then wr32 m' (A_vendor + res_data 0) 0x80 else m'))
         (QSEECom_send_cmd E 0 A_vendor A_vendor A_res)"

definition vcs_update_auth_token :: "'e env_ops \<Rightarrow> ('e world, int) cmd" where
  "vcs_update_auth_token E =
     seq deref_handle
    (seq (token_request E False)
    (bind (token_request E True) (\<lambda>r.
     bind (gets (res_result A_vendor)) (\<lambda>result.
     if result \<noteq> 0 then ret result
     else seq (modify (\<lambda>w. upd_tz (\<lambda>t. t\<lparr>auth_token :=
                mem_cpy (auth_token t) 0 (sbuf w) (A_vendor + res_data 2) AUTH_TOKEN_LENGTH\<rparr>) w))
              (ret r)))))"

definition vcs_start_auth_session :: "'e env_ops \<Rightarrow> ('e world, int) cmd" where
  "vcs_start_auth_session E =
     seq deref_handle
    (seq (edit_buf (\<lambda>m. wr32 (init_cmd (A_int + A_res) vfmAuthSessionBegin m)
            (A_int + res_data 0) (word_of_nat AUTH_SESSION_TOKEN_LENGTH)))
    (bind (QSEECom_send_cmd E 0 A_int A_int A_res) (\<lambda>r.
     bind (gets (res_result A_int)) (\<lambda>result.
     if r \<noteq> 0 \<or> result \<noteq> 0 then ret r
     else seq (modify (\<lambda>w. upd_tz (\<lambda>t. t\<lparr>auth_session_token :=
                mem_cpy (auth_session_token t) 0 (sbuf w) (A_int + res_data 2)
                  AUTH_SESSION_TOKEN_LENGTH,
                auth_session_opend := True\<rparr>) w))
              (ret r)))))"

definition vcs_stop_auth_session :: "'e env_ops \<Rightarrow> ('e world, int) cmd" where
  "vcs_stop_auth_session E =
     seq deref_handle
    (seq (edit_buf (init_cmd (A_int + A_int) vfmAuthSessionEnd))
    (bind (QSEECom_send_cmd E 0 A_int A_int A_int) (\<lambda>r.
     seq (modify (upd_tz (\<lambda>t. t\<lparr>auth_session_token :=
            mem_set (auth_session_token t) 0 0 AUTH_SESSION_TOKEN_LENGTH,
            auth_session_opend := False\<rparr>)))
         (ret r))))"

definition resume_initialize :: "'e env_ops \<Rightarrow> ('e world, int) cmd" where
  "resume_initialize E =
     seq (edit_buf (\<lambda>m. wr8 (wr32 (init_cmd (A_base + A_int) vfmInitialize m) 4 4) 12 2))
         (QSEECom_send_cmd E 0 A_base A_base A_int)"

definition resume_enter_session :: "'e env_ops \<Rightarrow> ('e world, int) cmd" where
  "resume_enter_session E =
     seq (modify (\<lambda>w. w\<lparr>sbuf := mem_cpy
            (wr32 (init_vendor (A_vendor + A_res) vendorEnterAuthSession (sbuf w)) 8 0x70)
            16 (auth_token (tz w)) 0 0x70\<rparr>))
         (QSEECom_send_cmd E 0 A_vendor A_base A_res)"

definition resume_device_init :: "'e env_ops \<Rightarrow> ('e world, int) cmd" where
  "resume_device_init E =
     seq (edit_buf (init_cmd (A_base + A_int) vfmDeviceInitialize))
         (QSEECom_send_cmd E 0 A_base A_base A_int)"

definition resume_calibrate :: "'e env_ops \<Rightarrow> ('e world, int) cmd" where
  "resume_calibrate E =
     seq (modify (\<lambda>w. w\<lparr>sbuf :=
            (let m = wr32 (wr8 (wr8 (init_cmd (A_base + A_res) vfmDeviceCalibrate (sbuf w)) 12 0xc0) 13 0x12)
                       (A_base + res_data 0) (word_of_nat CALIBRATE_DATA_MAX_LENGTH);
                 len = calibrate_len (tz w)
             in if len \<noteq> 0
                then mem_cpy (wr32 m 4 (word_of_int len)) 16 (calibrate_data (tz w)) 0 (nat len)
                else wr32 m 4 0x10)\<rparr>))
         (QSEECom_send_cmd E 0 A_base A_base A_res)"

definition vcs_resume :: "'e env_ops \<Rightarrow> ('e world, int) cmd" where
  "vcs_resume E =
     seq deref_handle
    (bind (resume_initialize E) (\<lambda>r. bind (gets (res_result A_base)) (\<lambda>result.
     if r \<noteq> 0 \<or> result \<noteq> 0 then ret r
     else bind (gets (\<lambda>w. auth_session_opend (tz w))) (\<lambda>opened.
       bind (if opened
             then bind (resume_enter_session E) (\<lambda>r. bind (gets (res_result A_base)) (\<lambda>result.
                    ret (if r \<noteq> 0 \<or> result \<noteq> 0 then Some result else None)))
             else ret None) (\<lambda>stop.
       case stop of
         Some result \<Rightarrow> ret result
       | None \<Rightarrow>
           bind (resume_device_init E) (\<lambda>r. bind (gets (res_result A_base)) (\<lambda>result.
           if r \<noteq> 0 \<or> result \<noteq> 0 then ret r
           else bind (resume_calibrate E) (\<lambda>r. bind (gets (res_result A_base)) (\<lambda>result.
             if r \<noteq> 0 \<or> result \<noteq> 0 then ret r
             else bind (gets (\<lambda>w. calibrate_len (tz w))) (\<lambda>len.
               seq (if len = 0 then store_calibration A_base else ret ()) (ret r)))))))))))"

definition vcs_uninit :: "'e env_ops \<Rightarrow> ('e world, int) cmd" where
  "vcs_uninit E =
     seq deref_handle
    (bind (gets (\<lambda>w. auth_session_opend (tz w))) (\<lambda>opened.
     seq (if opened then bind (vcs_update_auth_token E) (\<lambda>_. ret ()) else ret ())
    (seq (edit_buf (init_cmd (A_int + A_int) vfmUninitialize))
    (seq (QSEECom_send_cmd E 0 A_int A_base A_int)
    (seq (QSEECom_set_bandwidth E False)
    (seq (QSEECom_shutdown_app E)
    (seq (modify (upd_tz (\<lambda>t. t\<lparr>tz_initd := False\<rparr>)))
    (seq (set_tz_state STATE_IDLE)
         (ret 0)))))))))"

definition vcs_init :: "'e env_ops \<Rightarrow> ('e world, int) cmd" where
  "vcs_init E =
     bind (gets (\<lambda>w. tz_initd (tz w))) (\<lambda>i.
     if i then ret 0
     else bind (QSEECom_start_app E) (\<lambda>r.
       if r \<noteq> 0 then ret (-1)
       else bind (QSEECom_set_bandwidth E True) (\<lambda>r.
         if r \<noteq> 0 then ret (-1)
         else seq (modify (upd_tz (\<lambda>t. t\<lparr>tz_initd := True\<rparr>))) (vcs_resume E))))"

definition vcs_get_enrolled_finger_num :: "(nat \<Rightarrow> finger_t) \<Rightarrow> nat" where
  "vcs_get_enrolled_finger_num f = length (filter (\<lambda>idx. exist (f idx)) finger_indices)"

end
