(* ===== verification/Fp_Worker.thy ===== *)
theory Fp_Worker
  imports Fp_Tz
begin

text \<open>
  The worker threads of \<^verbatim>\<open>fingerprint/fingerprint_tz.c\<close>: capture, authentication and
  enrolment, and the functions that start them. At each scheduling point the next entry of
  \<open>sched\<close> is executed: the code that other threads run there.
\<close>

section \<open>Scheduling points\<close>

text \<open>The part of \<^verbatim>\<open>fingerprint_cancel\<close> before it waits for the worker: the timer thread is
  woken and joined, then the worker is told to stop.\<close>

definition cancel_request :: "'e env_ops \<Rightarrow> ('e world, bool) cmd" where
  "cancel_request E =
     seq (modify (upd_tz (\<lambda>t. if timeout_thread t then t\<lparr>timeout_thread := False\<rparr> else t)))
    (bind get_tz_state (\<lambda>s1. bind get_tz_state (\<lambda>s2.
     if s1 \<noteq> STATE_IDLE \<and> s2 \<noteq> STATE_CANCEL
     then seq (set_tz_state STATE_CANCEL)
         (seq (ioctl E (VFSSPI_IOCTL_SET_DRDY_INT 0)) (ret True))
     else ret False)))"

text \<open>The part of \<^verbatim>\<open>vcs_timeout\<close> after the wait timed out and before it waits for the worker.\<close>

definition timeout_request :: "'e env_ops \<Rightarrow> ('e world, bool) cmd" where
  "timeout_request E =
     bind get_tz_state (\<lambda>s1. bind get_tz_state (\<lambda>s2.
     if s1 \<noteq> STATE_IDLE \<and> s2 \<noteq> STATE_CANCEL
     then seq (set_tz_state STATE_CANCEL)
         (seq (ioctl E (VFSSPI_IOCTL_SET_DRDY_INT 0)) (ret True))
     else ret False))"

text \<open>What the others may do to a worker; it is the only worker.\<close>

fun worker_action :: "'e env_ops \<Rightarrow> other_action \<Rightarrow> ('e world, unit) cmd" where
  "worker_action E (SignalArrives n) = sensor_process_signal E n"
| "worker_action E CancelRequested = bind (cancel_request E) (\<lambda>_. ret ())"
| "worker_action E TimeoutExpired = bind (timeout_request E) (\<lambda>_. ret ())"
| "worker_action E WorkerDone = ret ()"

definition pop_sched :: "('e world, other_action list) cmd" where
  "pop_sched w = (case sched w of [] \<Rightarrow> Inr ([], w) | a # as \<Rightarrow> Inr (a, w\<lparr>sched := as\<rparr>))"

definition worker_point :: "'e env_ops \<Rightarrow> ('e world, unit) cmd" where
  "worker_point E = bind pop_sched (\<lambda>as. seqs (map (worker_action E) as))"

definition worker_get_state :: "'e env_ops \<Rightarrow> ('e world, worker_state_t) cmd" where
  "worker_get_state E = seq (worker_point E) get_tz_state"

section \<open>Capture\<close>

definition vcs_check_state :: "'e env_ops \<Rightarrow> ('e world, int) cmd" where
  "vcs_check_state E =
     seq deref_handle
    (bind (worker_get_state E) (\<lambda>s1.
     if s1 = STATE_IDLE then ret 1
     else bind (worker_get_state E) (\<lambda>s2.
       if s2 = STATE_CANCEL
       then seq (edit_buf (init_cmd (A_int + A_int) vfmCaptureAbort))
           (seq (QSEECom_send_cmd E 0 A_int A_int A_int)
           (seq (set_tz_state STATE_IDLE)
                (ret 1)))
       else ret 0)))"

text \<open>\<^verbatim>\<open>while ((!vcs_check_state()) && !sensor.signal) pthread_cond_wait(...)\<close>; the other
  threads run while it waits.\<close>

fun wait_for_finger :: "'e env_ops \<Rightarrow> nat \<Rightarrow> ('e world, unit) cmd" where
  "wait_for_finger E 0 = fail StillRunning"
| "wait_for_finger E (Suc n) =
     bind (vcs_check_state E) (\<lambda>c.
     bind (gets (\<lambda>w. signal (sensor w))) (\<lambda>sg.
     if c = 0 \<and> \<not> sg
     then seq (worker_point E) (wait_for_finger E n)
     else ret ()))"

definition read_data_request :: "'e env_ops \<Rightarrow> ('e world, int) cmd" where
  "read_data_request E =
     seq (edit_buf (\<lambda>m. wr32 (wr32 (init_cmd (A_int + A_res) vfmCaptureReadData m) 4 0x8000)
            (A_int + res_data 0) 0xc))
         (QSEECom_send_cmd E 0 A_int A_int A_res)"

fun read_loop :: "'e env_ops \<Rightarrow> nat \<Rightarrow> ('e world, int) cmd" where
  "read_loop E 0 = fail StillRunning"
| "read_loop E (Suc n) =
     bind (vcs_check_state E) (\<lambda>c.
     if c \<noteq> 0 then ret (-1)
     else bind (read_data_request E) (\<lambda>r.
       bind (gets (res_result A_int)) (\<lambda>result.
       bind (gets (res_int A_int 2)) (\<lambda>d2.
       if r \<noteq> 0 \<or> result \<noteq> 0 then read_loop E n
       else if d2 = 2 then ret 0
       else read_loop E n))))"

definition capture_start_request :: "'e env_ops \<Rightarrow> u32 \<Rightarrow> ('e world, int) cmd" where
  "capture_start_request E t =
     seq (edit_buf (\<lambda>m.
            let m1 = wr8 (wr32 (init_cmd (A_base + A_int) vfmCaptureStart m) 4 0x1c) (12 + 16) 0x1;
                m2 = (if t \<noteq> 0 then wr32 m1 (12 + 20) t else m1)
            in wr8 (wr8 m2 (12 + 24) 0xc0) (12 + 25) 0x12))
         (QSEECom_send_cmd E 0 A_base A_base A_int)"

definition process_data_request :: "'e env_ops \<Rightarrow> ('e world, int) cmd" where
  "process_data_request E =
     seq (modify (\<lambda>w. w\<lparr>sbuf :=
            wr32 (wr8 (wr8 (wr32 (wr8 (wr32 (init_cmd (A_base + A_res) vfmCaptureProcessData (sbuf w))
              4 0x1c) (12 + 16) 0x1) (12 + 20) (env_time E (outside w))) (12 + 24) 0xc0) (12 + 25) 0x12)
              (A_base + res_data 0) 0xc\<rparr>))
         (QSEECom_send_cmd E 0 A_int A_base A_res)"

fun vcs_start_capture :: "'e env_ops \<Rightarrow> nat \<Rightarrow> u32 \<Rightarrow> ('e world, int) cmd" where
  "vcs_start_capture E 0 t = fail StillRunning"
| "vcs_start_capture E (Suc n) t =
     seq deref_handle
    (bind (capture_start_request E t) (\<lambda>r.
     bind (gets (res_result A_base)) (\<lambda>result.
     if r \<noteq> 0 \<or> result \<noteq> 0 then ret r
     else seq (vcs_update_cal_data E)
         (seq (sensor_capture_start E)
         (seq (wait_for_finger E n)
         (bind (vcs_check_state E) (\<lambda>c.
          if c \<noteq> 0 then ret (-1)
          else seq (modify (upd_sensor (\<lambda>s. if signal s then s\<lparr>signal := False\<rparr> else s)))
              (bind (read_loop E n) (\<lambda>r.
               if r = -1 then ret (-1)
               else bind (process_data_request E) (\<lambda>r.
                 bind (gets (res_result A_base)) (\<lambda>result.
                 if r \<noteq> 0 then ret (-1)
                 else if result \<noteq> 0
                 then seq (send_acquired_notice result)
                     (bind (gets (\<lambda>w. env_time E (outside w))) (\<lambda>now. vcs_start_capture E n now))
                 else ret 0)))))))))))"

section \<open>Authentication\<close>

text \<open>The templates of the enrolled fingers, packed one behind the other.\<close>

definition template_address :: "nat \<Rightarrow> nat" where
  "template_address len = 102392 + (len - 1) * 15364"

fun put_templates :: "(nat \<Rightarrow> finger_t) \<Rightarrow> nat \<Rightarrow> nat list \<Rightarrow> mem \<Rightarrow> mem" where
  "put_templates f len [] m = m"
| "put_templates f len (idx # is) m =
     (if exist (f idx)
      then let len' = len + 1; address = template_address len' in
           put_templates f len' is
             (mem_cpy (wr8 (wr8 m (24 + address) 0x45) (24 + (address + 1)) 0x28)
                (24 + (address + 4)) (fdata (f idx)) 0 FINGER_DATA_MAX_LENGTH)
      else put_templates f len is m)"

text \<open>The search for the \<open>fake_fid\<close>-th enrolled finger; 0 when there is none.\<close>

fun find_finger :: "(nat \<Rightarrow> finger_t) \<Rightarrow> int \<Rightarrow> int \<Rightarrow> nat list \<Rightarrow> nat" where
  "find_finger f len fake_fid [] = 0"
| "find_finger f len fake_fid (idx # is) =
     (if exist (f idx)
      then if len + 1 = fake_fid then idx else find_finger f (len + 1) fake_fid is
      else find_finger f len fake_fid is)"

definition match_request :: "'e env_ops \<Rightarrow> ('e world, int) cmd" where
  "match_request E =
     seq (modify (\<lambda>w. w\<lparr>sbuf :=
            (let f = finger (tz w);
                 m1 = wr32 (init_cmd (A_5x + A_2xres) vfmMatchImageToTemplates (sbuf w)) 4 0x14;
                 m2 = wr32 (wr32 (wr32 m1 12 1) 16 100000) 20 (env_time E (outside w));
                 m3 = wr8 (wr8 m2 (24 + 0) 0x1) (24 + 102388)
                        (word_of_nat (vcs_get_enrolled_finger_num f));
                 m4 = put_templates f 0 finger_indices m3
             in wr32 (wr32 m4 (A_5x + res_data 0) 0x5c) (A_5x + res_data 25602) 0x3000)\<rparr>))
         (QSEECom_send_cmd E 0 A_5x A_5x A_2xres)"

definition release_request :: "'e env_ops \<Rightarrow> nat \<Rightarrow> ('e world, int) cmd" where
  "release_request E fingerindex =
     seq (modify (\<lambda>w. w\<lparr>sbuf :=
            wr32 (mem_cpy (wr32 (init_cmd (A_2x + A_res) vfmPayloadRelease (sbuf w)) 4
                    (word_of_nat PAYLOAD_MAX_LENGTH))
                  12 (payload (finger (tz w) fingerindex)) 0 PAYLOAD_MAX_LENGTH)
              (A_2x + res_data 0) 0x24\<rparr>))
         (QSEECom_send_cmd E 0 A_2x A_2x A_res)"

text \<open>The loop of \<^verbatim>\<open>vcs_authenticate\<close>; the value is \<^verbatim>\<open>fingerindex\<close> at the label \<^verbatim>\<open>out\<close>.\<close>

fun auth_loop :: "'e env_ops \<Rightarrow> nat \<Rightarrow> ('e world, nat) cmd" where
  "auth_loop E 0 = fail StillRunning"
| "auth_loop E (Suc n) =
     bind (worker_get_state E) (\<lambda>s.
     if s \<noteq> STATE_SCAN then ret 0
     else bind (vcs_start_capture E n 0) (\<lambda>r.
       if r = -1 then ret 0
       else bind (match_request E) (\<lambda>r.
         bind (gets (res_result A_5x)) (\<lambda>result.
         if r \<noteq> 0
         then seq (send_error_notice FINGERPRINT_ERROR_UNABLE_TO_PROCESS) (ret 0)
         else if result \<noteq> 0 then seq (send_acquired_notice result) (auth_loop E n)
         else bind (gets (\<lambda>w. find_finger (finger (tz w)) 0 (res_int A_5x 22 w + 1) finger_indices))
             (\<lambda>fingerindex.
              seq (release_request E fingerindex) (ret fingerindex))))))"

definition vcs_authenticate :: "'e env_ops \<Rightarrow> nat \<Rightarrow> ('e world, unit) cmd" where
  "vcs_authenticate E n =
     seq deref_handle
    (seq (edit_buf (\<lambda>m. wr32 (init_vendor (A_vendor + A_res) vendorUnknown0 m)
            (A_vendor + res_data 0) 0x4))
    (seq (QSEECom_send_cmd E 0 A_vendor A_vendor A_res)
    (bind (auth_loop E n) (\<lambda>fingerindex.
     seq (sensor_uninit E)
    (seq (vcs_uninit E)
    (seq (set_tz_state STATE_IDLE)
         (if fingerindex \<noteq> 0 then send_authenticated_notice E (int fingerindex) else ret ())))))))"

section \<open>Enrolment\<close>

text \<open>\<^verbatim>\<open>for (idx = 1; idx <= MAX_NUM_FINGERS; idx++) if (!tz.finger[idx].exist) break;\<close>\<close>

fun first_free :: "(nat \<Rightarrow> finger_t) \<Rightarrow> nat list \<Rightarrow> nat" where
  "first_free f [] = Suc MAX_NUM_FINGERS"
| "first_free f (idx # is) = (if \<not> exist (f idx) then idx else first_free f is)"

definition enroll_begin_request :: "'e env_ops \<Rightarrow> nat \<Rightarrow> ('e world, int) cmd" where
  "enroll_begin_request E idx =
     seq (edit_buf (\<lambda>m. wr8 (init_cmd (A_base + A_int) vfmEnrollBegin m) (12 + 102400) (word_of_nat idx)))
         (QSEECom_send_cmd E 0 A_base A_base A_int)"

definition enroll_unknownA_request :: "'e env_ops \<Rightarrow> ('e world, int) cmd" where
  "enroll_unknownA_request E =
     seq (edit_buf (\<lambda>m. wr32 (init_vendor (A_vendor + A_res) vendorUnknownA m)
            (A_base + res_data 0) 0x4))
         (QSEECom_send_cmd E 0 A_vendor A_base A_res)"

definition add_image_request :: "'e env_ops \<Rightarrow> ('e world, int) cmd" where
  "add_image_request E =
     seq (edit_buf (\<lambda>m. wr32 (init_cmd (A_int + A_res) vfmEnrollAddImage m) (A_int + res_data 0) 0x8))
         (QSEECom_send_cmd E 0 A_int A_int A_res)"

text \<open>How the remaining count changes after an accepted image; \<open>d2\<close> is \<^verbatim>\<open>resp->data[2]\<close>.\<close>

definition next_count :: "int \<Rightarrow> int \<Rightarrow> int" where
  "next_count count d2 =
     (let c1 = count - 1;
          c2 = (if d2 = 0x1 then 0 else c1)
      in if d2 \<noteq> 0x1 \<and> c2 = 0 then 1 else c2)"

datatype enroll_exit = EnrollOut | EnrollReturn | EnrollFinish

text \<open>The loop of \<^verbatim>\<open>vcs_enroll\<close>: it ends at the label \<^verbatim>\<open>out\<close>, by a \<^verbatim>\<open>return\<close>, or falls through
  to \<^verbatim>\<open>vfmEnrollFinish\<close>.\<close>

fun enroll_loop :: "'e env_ops \<Rightarrow> nat \<Rightarrow> nat \<Rightarrow> int \<Rightarrow> ('e world, enroll_exit) cmd" where
  "enroll_loop E 0 idx count = fail StillRunning"
| "enroll_loop E (Suc n) idx count =
     bind (worker_get_state E) (\<lambda>s.
     if s \<noteq> STATE_ENROLL then ret EnrollFinish
     else bind (vcs_start_capture E n 0) (\<lambda>r.
       if r = -1 then ret EnrollOut
       else bind (add_image_request E) (\<lambda>r.
         bind (gets (res_result A_int)) (\<lambda>result.
         bind (gets (res_int A_int 2)) (\<lambda>d2.
         if r \<noteq> 0
         then seq (set_tz_state STATE_IDLE)
             (seq (send_error_notice FINGERPRINT_ERROR_UNABLE_TO_PROCESS) (ret EnrollReturn))
         else if result \<noteq> 0 then seq (send_acquired_notice result) (enroll_loop E n idx count)
         else let count' = next_count count d2 in
              seq (send_enroll_notice (int idx) count')
             (if count' = 0 then ret EnrollFinish else enroll_loop E n idx count'))))))"

definition enroll_finish_request :: "'e env_ops \<Rightarrow> ('e world, int) cmd" where
  "enroll_finish_request E =
     seq (modify (\<lambda>w. w\<lparr>sbuf :=
            mem_cpy (wr32 (wr32 (init_cmd (A_base + A_res) vfmEnrollFinish (sbuf w)) 4
                       (word_of_nat AUTH_SESSION_TOKEN_LENGTH)) (A_base + res_data 0) 0x2845)
              12 (auth_session_token (tz w)) 0 AUTH_SESSION_TOKEN_LENGTH\<rparr>))
         (QSEECom_send_cmd E 0 A_base A_base A_res)"

text \<open>\<^verbatim>\<open>sprintf(&send_cmd->data[4], "User_0")\<close> writes the six characters and a NUL.\<close>

definition user_0 :: mem where
  "user_0 = (\<lambda>i. if i < 7 then [0x55, 0x73, 0x65, 0x72, 0x5F, 0x30, 0] ! i else 0)"

definition payload_bind_request :: "'e env_ops \<Rightarrow> bool \<Rightarrow> ('e world, int) cmd" where
  "payload_bind_request E second =
     seq (edit_buf (\<lambda>m.
            let m' = mem_cpy (wr32 (wr32 (init_cmd (A_base + A_res) vfmPayloadBind m) 4 0x1) 8 0x7)
                       (12 + 4) user_0 0 7
            in if second then wr32 m' (A_base + res_data 0) 0x50 else m'))
         (QSEECom_send_cmd E 0 A_base A_base A_res)"

definition password_set_request :: "'e env_ops \<Rightarrow> bool \<Rightarrow> ('e world, int) cmd" where
  "password_set_request E second =
     seq (modify (\<lambda>w. w\<lparr>sbuf :=
            wr32 (mem_cpy (wr32 (init_cmd (A_3x + A_res) vfmEnrollmentPasswordSet (sbuf w)) 4
                     (word_of_nat AUTH_SESSION_TOKEN_LENGTH))
                   12 (auth_session_token (tz w)) 0 AUTH_SESSION_TOKEN_LENGTH)
              (A_3x + res_data 0) (if second then 0x80 else 0x90)\<rparr>))
         (QSEECom_send_cmd E 0 A_3x A_3x A_res)"

text \<open>From \<^verbatim>\<open>vfmEnrollFinish\<close> to the label \<^verbatim>\<open>out\<close>: failures are only logged. \<^verbatim>\<open>tz.finger[idx]\<close>
  with \<open>idx = MAX_NUM_FINGERS + 1\<close> is out of bounds.\<close>

definition enroll_finish :: "'e env_ops \<Rightarrow> nat \<Rightarrow> ('e world, unit) cmd" where
  "enroll_finish E idx =
     seq (enroll_finish_request E)
    (if idx > MAX_NUM_FINGERS then fail OutOfBounds
     else
     seq (modify (\<lambda>w. upd_tz (upd_finger idx (\<lambda>f. f\<lparr>fdata :=
            mem_cpy (fdata f) 0 (sbuf w) (A_base + res_data 2) FINGER_DATA_MAX_LENGTH\<rparr>)) w))
    (seq (payload_bind_request E False)
    (seq (payload_bind_request E True)
    (seq (modify (\<lambda>w. upd_tz (upd_finger idx (\<lambda>f. f\<lparr>payload :=
            mem_cpy (payload f) 0 (sbuf w) (A_base + res_data 2) PAYLOAD_MAX_LENGTH,
            exist := True\<rparr>)) w))
    (seq (db_write_to_db E False (int idx))
    (seq (password_set_request E False)
    (seq (password_set_request E True)
         (ret ()))))))))"

definition vcs_enroll :: "'e env_ops \<Rightarrow> nat \<Rightarrow> ('e world, unit) cmd" where
  "vcs_enroll E n =
     seq deref_handle
    (bind (gets (\<lambda>w. first_free (finger (tz w)) finger_indices)) (\<lambda>idx.
     bind (enroll_begin_request E idx) (\<lambda>r.
     bind (gets (res_result A_base)) (\<lambda>result.
     if r \<noteq> 0 \<or> result \<noteq> 0
     then seq (set_tz_state STATE_IDLE) (send_error_notice FINGERPRINT_ERROR_UNABLE_TO_PROCESS)
     else bind (enroll_unknownA_request E) (\<lambda>r.
       bind (gets (res_result A_base)) (\<lambda>result.
       if r \<noteq> 0 \<or> result \<noteq> 0
       then seq (set_tz_state STATE_IDLE) (send_error_notice FINGERPRINT_ERROR_UNABLE_TO_PROCESS)
       else bind (enroll_loop E n idx 8) (\<lambda>x.
         if x = EnrollReturn then ret ()
         else seq (if x = EnrollFinish then enroll_finish E idx else ret ())
             (seq (set_tz_state STATE_IDLE)
             (seq (sensor_uninit E)
             (seq (vcs_uninit E)
                  (ret ())))))))))))"

section \<open>Starting the workers\<close>

text \<open>The framework's thread: other threads run at its scheduling points too, and here the
  worker may end.\<close>

fun hal_action :: "'e env_ops \<Rightarrow> other_action \<Rightarrow> ('e world, unit) cmd" where
  "hal_action E (SignalArrives n) = sensor_process_signal E n"
| "hal_action E CancelRequested = ret ()"
| "hal_action E TimeoutExpired = bind (timeout_request E) (\<lambda>_. ret ())"
| "hal_action E WorkerDone = seq (sensor_uninit E) (seq (vcs_uninit E) (set_tz_state STATE_IDLE))"

definition hal_point :: "'e env_ops \<Rightarrow> ('e world, unit) cmd" where
  "hal_point E = bind pop_sched (\<lambda>as. seqs (map (hal_action E) as))"

definition hal_get_state :: "'e env_ops \<Rightarrow> ('e world, worker_state_t) cmd" where
  "hal_get_state E = seq (hal_point E) get_tz_state"

text \<open>The five rounds of the loop in \<^verbatim>\<open>vcs_start_authenticate\<close>: whether the sensor was still
  busy in the last one.\<close>

fun busy_rounds :: "'e env_ops \<Rightarrow> nat list \<Rightarrow> ('e world, bool) cmd" where
  "busy_rounds E [] = ret False"
| "busy_rounds E (tm # ts) =
     bind (hal_get_state E) (\<lambda>s.
     if s \<noteq> STATE_IDLE
     then if tm < 4 then busy_rounds E ts else ret True
     else busy_rounds E ts)"

definition vcs_start_authenticate :: "'e env_ops \<Rightarrow> ('e world, int) cmd" where
  "vcs_start_authenticate E =
     bind (busy_rounds E [0..<5]) (\<lambda>busy.
     if busy then ret (-1)
     else seq (set_tz_state STATE_SCAN)
         (seq (sensor_init E)
         (bind (vcs_init E) (\<lambda>r.
          if r \<noteq> 0 then ret r
          else env_call (thread_create E)))))"

definition vcs_start_enroll :: "'e env_ops \<Rightarrow> u32 \<Rightarrow> ('e world, int) cmd" where
  "vcs_start_enroll E timeout =
     bind (hal_get_state E) (\<lambda>s.
     if s \<noteq> STATE_IDLE then ret (-1)
     else seq (set_tz_state STATE_ENROLL)
         (seq (sensor_init E)
         (bind (vcs_init E) (\<lambda>r.
          if r \<noteq> 0 then ret r
          else bind (env_call (thread_create E)) (\<lambda>r.
            if r \<noteq> 0 then ret r
            else if timeout \<noteq> 0
            then seq (modify (upd_tz (\<lambda>t. t\<lparr>timeout_secs := timeout\<rparr>)))
                (bind (env_call (thread_create E)) (\<lambda>r.
                 seq (if r = 0 then modify (upd_tz (\<lambda>t. t\<lparr>timeout_thread := True\<rparr>)) else ret ())
                     (ret r)))
            else ret r)))))"

text \<open>The wait \<^verbatim>\<open>while (1) { usleep(100000); if (state == STATE_IDLE) break; }\<close>.\<close>

fun wait_idle :: "'e env_ops \<Rightarrow> nat \<Rightarrow> ('e world, unit) cmd" where
  "wait_idle E 0 = fail StillRunning"
| "wait_idle E (Suc n) = bind (hal_get_state E) (\<lambda>s. if s = STATE_IDLE then ret () else wait_idle E n)"

text \<open>\<^verbatim>\<open>vcs_timeout\<close>: \<open>timedout\<close> is whether the timed wait ended by \<^verbatim>\<open>ETIMEDOUT\<close>.\<close>

definition vcs_timeout :: "'e env_ops \<Rightarrow> nat \<Rightarrow> bool \<Rightarrow> ('e world, unit) cmd" where
  "vcs_timeout E n timedout =
     (if timedout
      then bind (timeout_request E) (\<lambda>req.
           seq (if req then wait_idle E n else ret ())
               (send_error_notice FINGERPRINT_ERROR_TIMEOUT))
      else ret ())"

end
