(* ===== verification/Fp_Hal.thy ===== *)
theory Fp_Hal
  imports Fp_Worker
begin

text \<open>
  The HAL entry points of \<^verbatim>\<open>fingerprint/fingerprint.c\<close> (lines 400 to 731). A \<^verbatim>\<open>device\<close> argument
  that may be NULL is a Boolean; the other arguments are those of the C functions.
\<close>

definition EPERM :: int where "EPERM = 1"
definition ENOMEM :: int where "ENOMEM = 12"
definition EINVAL :: int where "EINVAL = 22"
definition EPROTONOSUPPORT :: int where "EPROTONOSUPPORT = 93"

definition fingerprint_get_auth_id :: "'e env_ops \<Rightarrow> ('e world, u64) cmd" where
  "fingerprint_get_auth_id E =
     seq mutex_lock_vdev
    (seq (modify (\<lambda>w. let (v, c) = hash_file (sha w) (file_read E (outside w) FINGER_DATABASE_FILENAME)
            in upd_vdev (\<lambda>d. d\<lparr>authenticator_id := v\<rparr>) (w\<lparr>sha := c\<rparr>)))
    (bind (gets (\<lambda>w. authenticator_id (vdev w))) (\<lambda>v.
     seq mutex_unlock_vdev (ret v))))"

definition fingerprint_set_active_group :: "'e env_ops \<Rightarrow> u32 \<Rightarrow> ('e world, int) cmd" where
  "fingerprint_set_active_group E gid =
     seq mutex_lock_vdev
    (seq (modify (upd_vdev (\<lambda>d. d\<lparr>active_gid := gid\<rparr>)))
    (seq (db_read_to_tz E)
    (seq mutex_unlock_vdev (ret 0))))"

definition fingerprint_authenticate :: "'e env_ops \<Rightarrow> u64 \<Rightarrow> ('e world, int) cmd" where
  "fingerprint_authenticate E operation_id =
     seq mutex_lock_vdev
    (seq (modify (upd_vdev (\<lambda>d. d\<lparr>op_id := operation_id\<rparr>)))
    (bind (vcs_start_authenticate E) (\<lambda>r.
     seq mutex_unlock_vdev (ret r))))"

definition fingerprint_enroll :: "'e env_ops \<Rightarrow> hw_auth_token option \<Rightarrow> u32 \<Rightarrow> ('e world, int) cmd" where
  "fingerprint_enroll E hat_arg timeout_sec =
     (case hat_arg of
        None \<Rightarrow> ret (- EPROTONOSUPPORT)
      | Some hat \<Rightarrow>
        bind (gets (\<lambda>w. challenge (vdev w))) (\<lambda>ch.
        seq (if hat_challenge hat = ch
             then modify (upd_vdev (\<lambda>d. d\<lparr>secure_user_id := hat_user_id hat\<rparr>)) else ret ())
       (if hat_version hat \<noteq> HW_AUTH_TOKEN_VERSION E then ret (- EPROTONOSUPPORT)
        else if hat_challenge hat \<noteq> ch \<and> hat_authenticator_type hat AND HW_AUTH_FINGERPRINT E = 0
        then ret (- EPERM)
        else seq (modify (upd_vdev (\<lambda>d. d\<lparr>user_id := hat_user_id hat\<rparr>)))
            (seq mutex_lock_vdev
            (bind (gets (\<lambda>w. first_free (finger (tz w)) finger_indices)) (\<lambda>idx.
             if idx > MAX_NUM_FINGERS
             then seq (send_error_notice FINGERPRINT_ERROR_NO_SPACE)
                 (seq mutex_unlock_vdev (ret (-1)))
             else bind (vcs_start_enroll E timeout_sec) (\<lambda>r.
                  seq mutex_unlock_vdev (ret r))))))))"

text \<open>\<^verbatim>\<open>hash_string(tz.auth_token)\<close> reads up to the first NUL; without one in the array it reads
  on behind it.\<close>

definition fingerprint_pre_enroll :: "('e world, u64) cmd" where
  "fingerprint_pre_enroll =
     bind (gets (\<lambda>w. map (auth_token (tz w)) [0..<AUTH_TOKEN_LENGTH])) (\<lambda>str.
     if 0 \<notin> set str then fail OutOfBounds
     else bind (gets (\<lambda>w. hash_string (sha w) str)) (\<lambda>(v, c).
       seq (modify (\<lambda>w. w\<lparr>sha := c\<rparr>))
      (seq mutex_lock_vdev
      (seq (modify (upd_vdev (\<lambda>d. d\<lparr>challenge := v\<rparr>)))
      (seq mutex_unlock_vdev (ret v))))))"

definition fingerprint_post_enroll :: "('e world, int) cmd" where
  "fingerprint_post_enroll =
     seq mutex_lock_vdev
    (seq (modify (upd_vdev (\<lambda>d. d\<lparr>challenge := 0\<rparr>)))
    (seq mutex_unlock_vdev (ret 0)))"

definition fingerprint_cancel :: "'e env_ops \<Rightarrow> nat \<Rightarrow> ('e world, int) cmd" where
  "fingerprint_cancel E n =
     bind (cancel_request E) (\<lambda>req.
     seq (if req then wait_idle E n else ret ()) (ret 0))"

definition fingerprint_enumerate :: "bool \<Rightarrow> ('e world, int) cmd" where
  "fingerprint_enumerate device =
     (if \<not> device then ret (-1)
      else seq mutex_lock_vdev
          (bind (gets (\<lambda>w. int (vcs_get_enrolled_finger_num (finger (tz w))))) (\<lambda>num.
           seq mutex_unlock_vdev (ret num))))"

definition locked_remove :: "'e env_ops \<Rightarrow> int \<Rightarrow> ('e world, int) cmd" where
  "locked_remove E fid =
     seq mutex_lock_vdev
    (bind (db_write_to_db E True fid) (\<lambda>r.
     seq mutex_unlock_vdev
    (seq (if r = 0 then send_remove_notice fid else ret ())
         (ret r))))"

text \<open>The loop that deletes all fingers; the value is \<^verbatim>\<open>ret\<close> after it.\<close>

fun remove_all :: "'e env_ops \<Rightarrow> nat list \<Rightarrow> int \<Rightarrow> ('e world, int) cmd" where
  "remove_all E [] r = ret r"
| "remove_all E (idx # is) r =
     bind (gets (\<lambda>w. exist (finger (tz w) idx))) (\<lambda>ex.
     if ex then bind (locked_remove E (int idx)) (\<lambda>r'. remove_all E is r')
     else remove_all E is r)"

definition fingerprint_remove :: "'e env_ops \<Rightarrow> bool \<Rightarrow> u32 \<Rightarrow> ('e world, int) cmd" where
  "fingerprint_remove E device fid =
     (if \<not> device then ret (-1)
      else bind (if fid = 0 then remove_all E finger_indices 0 else locked_remove E (sint fid)) (\<lambda>r.
           seq (if r \<noteq> 0 then send_error_notice FINGERPRINT_ERROR_UNABLE_TO_REMOVE else ret ())
               (ret r)))"

definition set_notify_callback :: "bool \<Rightarrow> bool \<Rightarrow> ('e world, int) cmd" where
  "set_notify_callback device notify_arg =
     (if \<not> device \<or> \<not> notify_arg then ret (-1)
      else seq mutex_lock_vdev
          (seq (modify (upd_vdev (\<lambda>d. d\<lparr>notify_set := True\<rparr>)))
          (seq mutex_unlock_vdev (ret 0))))"

definition fingerprint_close :: "'e env_ops \<Rightarrow> nat \<Rightarrow> bool \<Rightarrow> ('e world, int) cmd" where
  "fingerprint_close E n device =
     (if \<not> device then ret (-1)
      else seq (fingerprint_cancel E n)
          (seq mutex_lock_vdev
          (seq (db_uninit E)
          (seq (sensor_init E)
          (seq (vcs_init E)
          (seq (vcs_stop_auth_session E)
          (seq (vcs_uninit E)
          (seq (sensor_uninit E)
          (seq mutex_unlock_vdev
          (seq (modify (upd_sensor (\<lambda>s. s\<lparr>fd := -1\<rparr>)))
               (ret 0)))))))))))"

definition fingerprint_open :: "'e env_ops \<Rightarrow> bool \<Rightarrow> ('e world, int) cmd" where
  "fingerprint_open E device =
     (if \<not> device then ret (- EINVAL)
      else bind (env_call (malloc_ok E)) (\<lambda>ok.
        if \<not> ok then ret (- ENOMEM)
        else seq (modify (\<lambda>w. w\<lparr>vdev := vdev_zero, tz := tz_zero, sensor := sensor_zero, vlock := False\<rparr>))
            (bind (env_call (\<lambda>e. env_open E e SENSOR_FILE_NAME)) (\<lambda>h.
             seq (modify (upd_sensor (\<lambda>s. s\<lparr>fd := h\<rparr>)))
            (if h < 0 then ret (-1)
             else seq (sensor_init E)
                 (seq (sensor_register E)
                 (seq (sensor_uninit E)
                 (seq mutex_lock_vdev
                 (seq (sensor_init E)
                 (seq (db_init E)
                 (seq (vcs_init E)
                 (seq (vcs_uninit E)
                 (seq (vcs_init E)
                 (seq (vcs_start_auth_session E)
                 (seq (vcs_uninit E)
                 (seq (sensor_uninit E)
                 (seq mutex_unlock_vdev
                      (ret 0))))))))))))))))))"

end
