(* ===== verification/Fp_Invariants.thy ===== *)
theory Fp_Invariants
  imports Fp_Hal
begin

text \<open>
  Invariants of the whole fingerprint HAL. The locales state what an invariant of the process
  state owes: it survives the primitive effects of the code. Inside them every operation, up
  to the HAL entry points, is shown to keep it, once for all invariants. They are interpreted
  on the power balance of the sensor, the bound on the calibration data, the placement of all
  requests in the shared buffer, the lock of the device, and the frame of an authentication.
\<close>

section \<open>Keeping an invariant\<close>


text \<open>\<open>pres I F m\<close>: from a state in \<open>I\<close>, \<open>m\<close> ends in \<open>I\<close> or in a fault that \<open>F\<close> admits.\<close>

definition pres :: "('w \<Rightarrow> bool) \<Rightarrow> (fault \<Rightarrow> bool) \<Rightarrow> ('w, 'a) cmd \<Rightarrow> bool" where
  "pres I F m \<longleftrightarrow> (\<forall>w. I w \<longrightarrow> wp m (\<lambda>_. I) F w)"

named_theorems pres_rules "operations that keep an invariant"

lemma presD: "pres I F m \<Longrightarrow> I w \<Longrightarrow> m w = Inr (a, w') \<Longrightarrow> I w'"
  by (auto simp: pres_def wp_def)

lemma pres_ret [pres_rules]: "pres I F (ret a)"
  and pres_gets [pres_rules]: "pres I F (gets f)"
  by (simp_all add: pres_def)

lemma pres_modify: "(\<And>w. I w \<Longrightarrow> I (f w)) \<Longrightarrow> pres I F (modify f)"
  by (simp add: pres_def)

lemma pres_bind [pres_rules]: "pres I F m \<Longrightarrow> (\<And>a. pres I F (f a)) \<Longrightarrow> pres I F (bind m f)"
  by (auto simp: pres_def intro: wp_mono)

lemma pres_seq [pres_rules]: "pres I F m \<Longrightarrow> pres I F n \<Longrightarrow> pres I F (seq m n)"
  by (simp add: seq_def pres_rules)

lemma pres_if [pres_rules]: "pres I F m \<Longrightarrow> pres I F n \<Longrightarrow> pres I F (if b then m else n)"
  by simp

lemma pres_Let [pres_rules]: "(\<And>x. pres I F (f x)) \<Longrightarrow> pres I F (Let v f)"
  by simp

lemma pres_case_prod [pres_rules]: "(\<And>a b. pres I F (f a b)) \<Longrightarrow> pres I F (case x of (a, b) \<Rightarrow> f a b)"
  by (cases x) simp

lemma pres_case_option [pres_rules]:
  "pres I F m \<Longrightarrow> (\<And>a. pres I F (f a)) \<Longrightarrow> pres I F (case x of None \<Rightarrow> m | Some a \<Rightarrow> f a)"
  by (cases x) simp_all

lemma pres_case_list [pres_rules]:
  "pres I F m \<Longrightarrow> (\<And>a as. pres I F (f a as)) \<Longrightarrow> pres I F (case x of [] \<Rightarrow> m | a # as \<Rightarrow> f a as)"
  by (cases x) simp_all

lemma pres_seqs: "(\<And>m. m \<in> set ms \<Longrightarrow> pres I F m) \<Longrightarrow> pres I F (seqs ms)"
  by (induction ms) (simp_all add: pres_rules)

text \<open>Where the condition before differs from the one after.\<close>

definition triple :: "('w \<Rightarrow> bool) \<Rightarrow> ('w, 'a) cmd \<Rightarrow> ('w \<Rightarrow> bool) \<Rightarrow> (fault \<Rightarrow> bool) \<Rightarrow> bool" where
  "triple P m Q F \<longleftrightarrow> (\<forall>w. P w \<longrightarrow> wp m (\<lambda>_. Q) F w)"

lemma tripleD: "triple P m Q F \<Longrightarrow> P w \<Longrightarrow> m w = Inr (a, w') \<Longrightarrow> Q w'"
  by (auto simp: triple_def wp_def)

lemma triple_fault: "triple P m Q F \<Longrightarrow> P w \<Longrightarrow> m w = Inl e \<Longrightarrow> F e"
  by (auto simp: triple_def wp_def)

lemma triple_pres: "pres I F m \<Longrightarrow> triple I m I F"
  by (simp add: triple_def pres_def)

lemma triple_seq: "triple P m R F \<Longrightarrow> triple R n Q F \<Longrightarrow> triple P (seq m n) Q F"
  by (auto simp: triple_def intro: wp_mono)

lemma triple_bind: "triple P m R F \<Longrightarrow> (\<And>a. triple R (f a) Q F) \<Longrightarrow> triple P (bind m f) Q F"
  by (auto simp: triple_def intro: wp_mono)

lemma triple_if: "triple P m Q F \<Longrightarrow> triple P n Q F \<Longrightarrow> triple P (if b then m else n) Q F"
  by simp

section \<open>The interface of an invariant\<close>

text \<open>The placements (request length, response offset, response length) the code uses.\<close>

definition placements :: "(nat \<times> nat \<times> nat) set" where
  "placements = {(A_int, A_int, A_int), (A_int, A_int, A_res), (A_int, A_base, A_int),
     (A_int, A_base, A_res), (A_base, A_base, A_int), (A_base, A_base, A_res),
     (A_vendor, A_vendor, A_res), (A_vendor, A_base, A_res), (A_2x, A_2x, A_res),
     (A_3x, A_3x, A_res), (A_5x, A_5x, A_2xres)}"

definition is_enrolling :: "fingerprint_msg \<Rightarrow> bool" where
  "is_enrolling msg = (case msg of FINGERPRINT_TEMPLATE_ENROLLING _ _ \<Rightarrow> True | _ \<Rightarrow> False)"

definition is_authenticated :: "fingerprint_msg \<Rightarrow> bool" where
  "is_authenticated msg = (case msg of FINGERPRINT_AUTHENTICATED _ _ \<Rightarrow> True | _ \<Rightarrow> False)"

text \<open>What an invariant may look at; everything else of the state is free to change.\<close>

definition observed :: "'e world \<Rightarrow> int \<times> (nat \<Rightarrow> finger_t) \<times> bool \<times> vcs_fingerprint_device_t \<times> bool
    \<times> fingerprint_msg list \<times> vfsspi_ioctl list \<times> request list" where
  "observed w = (calibrate_len (tz w), finger (tz w), sensor_initd (sensor w), vdev w, vlock w,
     notices w, ioctls w, sent w)"

text \<open>An invariant of the conversation with the TrustZone application.\<close>

locale tz_invariant =
  fixes E :: "'e env_ops" and I :: "'e world \<Rightarrow> bool" and F :: "fault \<Rightarrow> bool"
  assumes frame: "I w \<Longrightarrow> observed w' = observed w \<Longrightarrow> I w'"
    and calibration: "I w \<Longrightarrow> 0 \<le> len \<Longrightarrow> len \<le> int CALIBRATE_DATA_MAX_LENGTH \<Longrightarrow>
        I (w\<lparr>tz := (tz w)\<lparr>calibrate_len := len, calibrate_data := cd\<rparr>\<rparr>)"
    and request: "I w \<Longrightarrow> req_off r = 0 \<Longrightarrow> (req_len r, rsp_off r, rsp_len r) \<in> placements \<Longrightarrow>
        I (w\<lparr>sent := sent w @ [r]\<rparr>)"
    and drdy: "I w \<Longrightarrow> I (w\<lparr>ioctls := ioctls w @ [VFSSPI_IOCTL_SET_DRDY_INT flag]\<rparr>)"
    and faults: "e \<noteq> Deadlock \<Longrightarrow> F e"
begin

lemma fails: "pres I F (fail NullDeref)" "pres I F (fail UseAfterFree)" "pres I F (fail OutOfBounds)"
  "pres I F (fail StillRunning)"
  by (simp_all add: pres_def faults)

lemma frame_modify: "(\<And>w. observed (f w) = observed w) \<Longrightarrow> pres I F (modify f)"
  by (blast intro: pres_modify frame)

lemma outside_upd: "I w \<Longrightarrow> I (w\<lparr>outside := e\<rparr>)"
  by (erule frame) (simp add: observed_def)

lemma env_call: "pres I F (env_call f)"
  by (auto simp: pres_def wp_def env_call_def outside_upd split: prod.split)

lemma ioctl_drdy: "pres I F (ioctl E (VFSSPI_IOCTL_SET_DRDY_INT flag))"
  using drdy outside_upd by (auto simp: pres_def split: prod.split)

lemma tz_modify:
  "pres I F (modify (upd_tz (\<lambda>t. t\<lparr>state := s\<rparr>)))"
  "pres I F (modify (upd_tz (\<lambda>t. t\<lparr>tz_initd := i\<rparr>)))"
  "pres I F (modify (upd_tz (\<lambda>t. t\<lparr>qhandle := qh\<rparr>)))"
  "pres I F (modify (upd_tz (\<lambda>t. t\<lparr>timeout_thread := tt\<rparr>)))"
  "pres I F (modify (upd_tz (\<lambda>t. t\<lparr>timeout_secs := ts\<rparr>)))"
  "pres I F (modify (upd_tz (\<lambda>t. if timeout_thread t then t\<lparr>timeout_thread := False\<rparr> else t)))"
  by (auto intro!: frame_modify simp: upd_tz_def observed_def)

lemma buffer_modify: "pres I F (edit_buf f)" "pres I F (modify (\<lambda>w. w\<lparr>sbuf := g w\<rparr>))"
  "pres I F (modify (\<lambda>w. w\<lparr>km_handle := h\<rparr>))" "pres I F (modify (\<lambda>w. w\<lparr>km_handle := h, km_init := k\<rparr>))"
  unfolding edit_buf_def by (rule frame_modify, simp add: observed_def)+

lemma signal_modify: "pres I F (modify (upd_sensor (\<lambda>s. s\<lparr>signal := b\<rparr>)))"
  "pres I F (modify (upd_sensor (\<lambda>s. if signal s then s\<lparr>signal := False\<rparr> else s)))"
  by (auto intro!: frame_modify simp: upd_sensor_def observed_def)

lemmas primitive_rules = pres_rules fails env_call ioctl_drdy tz_modify buffer_modify signal_modify

lemma get_state: "pres I F get_tz_state" and set_state: "pres I F (set_tz_state s)"
  and deref: "pres I F deref_handle"
  unfolding get_tz_state_def set_tz_state_def deref_handle_def by (intro primitive_rules)+

lemma signal_handler: "pres I F (sensor_process_signal E n)"
  unfolding sensor_process_signal_def by (intro primitive_rules get_state)

lemma load_symbols: "pres I F (load_symbols E ss)"
  by (induction ss) (simp_all add: primitive_rules)

lemma init_qsee: "pres I F (init_qsee E)"
  unfolding init_qsee_def qcom_km_get_lib_sym_def by (intro primitive_rules load_symbols)

lemma deref_km: "pres I F deref_km"
  unfolding deref_km_def by (intro primitive_rules) (simp split: km_ptr.split add: primitive_rules)

lemma start_app: "pres I F (QSEECom_start_app E)" and shutdown_app: "pres I F (QSEECom_shutdown_app E)"
  and bandwidth: "pres I F (QSEECom_set_bandwidth E high)"
  unfolding QSEECom_start_app_def QSEECom_shutdown_app_def QSEECom_set_bandwidth_def
  by (intro primitive_rules init_qsee deref_km)+

lemma raw_sent:
  assumes "I w" "(sl, ro, rl) \<in> placements"
  shows "I (w\<lparr>sent := sent w @ [\<lparr>req_cmd = c, req_off = 0, req_len = sl, rsp_off = ro, rsp_len = rl\<rparr>],
    sbuf := m, outside := e\<rparr>)"
  by (rule frame [OF request [OF assms(1),
        where r = "\<lparr>req_cmd = c, req_off = 0, req_len = sl, rsp_off = ro, rsp_len = rl\<rparr>"]])
    (simp_all add: assms(2) observed_def)

lemma send_cmd:
  assumes "(sl, ro, rl) \<in> placements"
  shows "pres I F (QSEECom_send_cmd E 0 sl ro rl)"
proof -
  have "pres I F (raw_send E 0 sl ro rl)"
    unfolding pres_def wp_def raw_send_def using assms
    by (auto simp: Let_def raw_sent split: prod.split)
  then show ?thesis
    unfolding QSEECom_send_cmd_def by (intro primitive_rules init_qsee deref_km)
qed

lemma sends:
  "pres I F (QSEECom_send_cmd E 0 A_int A_int A_int)" "pres I F (QSEECom_send_cmd E 0 A_int A_int A_res)"
  "pres I F (QSEECom_send_cmd E 0 A_int A_base A_int)" "pres I F (QSEECom_send_cmd E 0 A_int A_base A_res)"
  "pres I F (QSEECom_send_cmd E 0 A_base A_base A_int)" "pres I F (QSEECom_send_cmd E 0 A_base A_base A_res)"
  "pres I F (QSEECom_send_cmd E 0 A_vendor A_vendor A_res)"
  "pres I F (QSEECom_send_cmd E 0 A_vendor A_base A_res)"
  "pres I F (QSEECom_send_cmd E 0 A_2x A_2x A_res)" "pres I F (QSEECom_send_cmd E 0 A_3x A_3x A_res)"
  "pres I F (QSEECom_send_cmd E 0 A_5x A_5x A_2xres)"
  by (rule send_cmd, simp add: placements_def)+

lemma store_cal: "pres I F (store_calibration ro)"
  unfolding store_calibration_def
  by (rule pres_bind) (auto simp: Let_def upd_tz_def pres_rules fails intro!: pres_modify calibration)

lemma token_modify:
  "pres I F (modify (\<lambda>w. upd_tz (\<lambda>t. t\<lparr>auth_token := a w t\<rparr>) w))"
  "pres I F (modify (\<lambda>w. upd_tz (\<lambda>t. t\<lparr>auth_session_token := a w t, auth_session_opend := b\<rparr>) w))"
  "pres I F (modify (upd_tz (\<lambda>t. t\<lparr>auth_session_token := c t, auth_session_opend := b\<rparr>)))"
  by (auto intro!: frame_modify simp: upd_tz_def observed_def)

lemmas tz_rules = primitive_rules get_state set_state deref start_app shutdown_app bandwidth sends
  store_cal token_modify

lemma update_cal: "pres I F (vcs_update_cal_data E)"
  unfolding vcs_update_cal_data_def by (intro tz_rules)

lemma update_token: "pres I F (vcs_update_auth_token E)"
  unfolding vcs_update_auth_token_def token_request_def by (intro tz_rules)

lemma sessions: "pres I F (vcs_start_auth_session E)" "pres I F (vcs_stop_auth_session E)"
  unfolding vcs_start_auth_session_def vcs_stop_auth_session_def by (intro tz_rules)+

lemma resume: "pres I F (vcs_resume E)"
  unfolding vcs_resume_def resume_initialize_def resume_enter_session_def resume_device_init_def
    resume_calibrate_def
  by (intro tz_rules)

lemma uninit: "pres I F (vcs_uninit E)"
  unfolding vcs_uninit_def by (intro tz_rules update_token)

lemma init: "pres I F (vcs_init E)"
  unfolding vcs_init_def by (intro tz_rules resume)

lemma requests: "pres I F (cancel_request E)" "pres I F (timeout_request E)"
  unfolding cancel_request_def timeout_request_def by (intro tz_rules)+

lemma pop: "pres I F pop_sched"
  by (auto simp: pres_def wp_def pop_sched_def observed_def split: list.split intro: frame)

lemma worker_act: "pres I F (worker_action E a)"
  by (cases a) (simp_all add: primitive_rules signal_handler requests)

lemma worker_points: "pres I F (worker_point E)" "pres I F (worker_get_state E)"
  unfolding worker_get_state_def worker_point_def
  by (intro pres_rules pop get_state pres_seqs; auto simp: worker_act)+

lemma check_state: "pres I F (vcs_check_state E)"
  unfolding vcs_check_state_def by (intro tz_rules worker_points)

lemma wait_finger: "pres I F (wait_for_finger E n)"
  by (induction n) (simp_all add: primitive_rules check_state worker_points)

lemma read_loop: "pres I F (read_loop E n)"
  by (induction n) (simp_all add: tz_rules check_state read_data_request_def)

end

section \<open>Invariants that switching the sensor keeps\<close>

locale world_invariant = tz_invariant +
  assumes sensor_init: "pres I F (sensor_init E)"
    and sensor_uninit: "pres I F (sensor_uninit E)"
begin

lemma hal_act: "pres I F (hal_action E a)"
  by (cases a) (simp_all add: tz_rules signal_handler requests uninit sensor_uninit)

lemma hal_points: "pres I F (hal_point E)" "pres I F (hal_get_state E)"
  unfolding hal_get_state_def hal_point_def
  by (intro pres_rules pop get_state pres_seqs; auto simp: hal_act)+

lemmas points = worker_points hal_points

lemma wait_idle: "pres I F (wait_idle E n)"
  by (induction n) (simp_all add: primitive_rules points)

lemma busy: "pres I F (busy_rounds E ts)"
  by (induction ts) (simp_all add: primitive_rules points)

lemma cancel: "pres I F (fingerprint_cancel E n)"
  unfolding fingerprint_cancel_def by (intro pres_rules requests wait_idle)

lemma start_auth: "pres I F (vcs_start_authenticate E)"
  unfolding vcs_start_authenticate_def by (intro tz_rules busy init sensor_init)

lemma start_enroll: "pres I F (vcs_start_enroll E t)"
  unfolding vcs_start_enroll_def by (intro tz_rules points init sensor_init)

end

section \<open>Invariants that notices keep\<close>

locale notice_invariant = world_invariant +
  assumes notice: "\<not> is_authenticated msg \<Longrightarrow> \<not> is_enrolling msg \<Longrightarrow> pres I F (locked_notify msg)"
begin

lemma notices_kept: "pres I F (send_error_notice c)" "pres I F (send_acquired_notice c)"
  "pres I F (send_remove_notice f)"
  unfolding send_error_notice_def send_acquired_notice_def send_remove_notice_def
  by (intro pres_rules notice; simp add: is_authenticated_def is_enrolling_def)+

lemma capture: "pres I F (vcs_start_capture E n t)"
proof (induction n arbitrary: t)
  case (Suc n)
  show ?case
    unfolding vcs_start_capture.simps capture_start_request_def process_data_request_def
      sensor_capture_start_def
    by (intro tz_rules update_cal wait_finger check_state read_loop notices_kept Suc)
qed (simp add: primitive_rules)

lemma auth: "pres I F (auth_loop E n)"
proof (induction n)
  case (Suc n)
  show ?case
    unfolding auth_loop.simps match_request_def release_request_def
    by (intro tz_rules points capture notices_kept Suc)
qed (simp add: primitive_rules)

lemma timeout_thread: "pres I F (vcs_timeout E n b)"
  unfolding vcs_timeout_def by (intro pres_rules requests wait_idle notices_kept)

end

section \<open>Invariants that do not look at the fingers\<close>

locale finger_free_invariant = world_invariant +
  assumes fingers: "I w \<Longrightarrow> I (w\<lparr>tz := (tz w)\<lparr>finger := g\<rparr>\<rparr>)"
begin

lemma finger_modify: "pres I F (modify (upd_tz (upd_finger i f)))" "pres I F (modify (upd_tz clear_fingers))"
  "pres I F (modify (\<lambda>w. upd_tz (upd_finger i (h w)) w))"
  by (auto intro!: pres_modify fingers simp: upd_tz_def upd_finger_def clear_fingers_def)

lemma create_table: "pres I F (db_check_and_create_table E)" and old_query: "pres I F (old_query E q)"
  by (auto simp: pres_def wp_def db_check_and_create_table_def old_query_def outside_upd
      split: prod.split)

lemma write_to_db: "pres I F (db_write_to_db E remove fid)"
  unfolding pres_def wp_def db_write_to_db_def
  by (auto simp: Let_def upd_tz_def upd_finger_def outside_upd faults fingers [OF outside_upd, simplified]
      split: prod.split)

lemma load_rows: "pres I F (load_rows rs)" and load_old_rows: "pres I F (load_old_rows qs)"
  by (induction rs, simp_all add: primitive_rules finger_modify)
    (induction qs, simp_all add: primitive_rules finger_modify)

lemma convert: "pres I F (convert_fingers E pl len is)"
  by (induction "is") (simp_all add: primitive_rules finger_modify write_to_db)

lemma convert_old: "pres I F (db_convert_old_db E)"
  unfolding db_convert_old_db_def
  by (intro primitive_rules finger_modify old_query load_old_rows convert)

lemma read_to_tz: "pres I F (db_read_to_tz E)"
  unfolding db_read_to_tz_def
  by (intro primitive_rules create_table convert_old finger_modify load_rows)

lemma enroll_finish: "pres I F (enroll_finish E idx)"
  unfolding enroll_finish_def enroll_finish_request_def payload_bind_request_def
    password_set_request_def
  by (intro tz_rules finger_modify write_to_db)

end

section \<open>Invariants of the workers\<close>

locale worker_invariant = notice_invariant E I F + finger_free_invariant E I F for E I F +
  assumes enrolling: "pres I F (send_enroll_notice fid remaining)"
begin

lemma enroll: "pres I F (enroll_loop E n idx count)"
proof (induction n arbitrary: count)
  case (Suc n)
  show ?case
    unfolding enroll_loop.simps add_image_request_def
    by (intro tz_rules points capture notices_kept enrolling Suc)
qed (simp add: primitive_rules)

lemma enroll_worker: "pres I F (vcs_enroll E n)"
  unfolding vcs_enroll_def enroll_begin_request_def enroll_unknownA_request_def
  by (intro tz_rules enroll enroll_finish uninit sensor_uninit notices_kept)

end

section \<open>Invariants of the device\<close>

locale hal_invariant = worker_invariant +
  assumes any_fault: "F Deadlock"
    and device: "I w \<Longrightarrow> I (w\<lparr>vdev := d, vlock := l, notices := ns\<rparr>)"
    and register: "I w \<Longrightarrow> I (w\<lparr>ioctls := ioctls w @ [VFSSPI_IOCTL_REGISTER_DRDY_SIGNAL p s]\<rparr>)"
    and power_up: "I w \<Longrightarrow> \<not> sensor_initd (sensor w) \<Longrightarrow> I (w\<lparr>tz := tz_zero, sensor := sensor_zero\<rparr>)"
begin

lemma device_upd: "I w \<Longrightarrow> I (w\<lparr>vdev := d\<rparr>)" "I w \<Longrightarrow> I (w\<lparr>vlock := l\<rparr>)"
  "I w \<Longrightarrow> I (w\<lparr>notices := ns\<rparr>)"
  using device [where w = w and d = d and l = "vlock w" and ns = "notices w"]
    device [where w = w and d = "vdev w" and l = l and ns = "notices w"]
    device [where w = w and d = "vdev w" and l = "vlock w" and ns = ns]
  by simp_all

lemma locks: "pres I F mutex_lock_vdev" "pres I F mutex_unlock_vdev" "pres I F (notify msg)"
  unfolding mutex_unlock_vdev_def pres_def by (simp_all add: device_upd any_fault faults)

lemma vdev_modify: "pres I F (modify (upd_vdev f))"
  by (rule pres_modify) (simp add: upd_vdev_def device_upd)

lemma sha_modify: "pres I F (modify (\<lambda>w. w\<lparr>sha := c\<rparr>))" "pres I F (modify (upd_sensor (\<lambda>s. s\<lparr>fd := h\<rparr>)))"
  by (rule frame_modify, simp add: observed_def upd_sensor_def)+

lemma any_notice: "pres I F (send_authenticated_notice E fid)"
  unfolding send_authenticated_notice_def locked_notify_def
  by (intro pres_rules notices_kept locks)

lemmas hal_rules = tz_rules sensor_init sensor_uninit locks vdev_modify sha_modify any_notice init uninit sessions cancel
  start_auth start_enroll read_to_tz write_to_db notices_kept auth

lemma authenticate_worker: "pres I F (vcs_authenticate E n)"
  unfolding vcs_authenticate_def by (intro hal_rules)

lemma get_auth_id: "pres I F (fingerprint_get_auth_id E)"
proof -
  have "I (upd_vdev f (w\<lparr>sha := c\<rparr>))" if "I w" for f c and w :: "'a world"
    unfolding upd_vdev_def
    by (rule device_upd(1), rule frame [OF that]) (simp add: observed_def)
  then show ?thesis
    unfolding fingerprint_get_auth_id_def
    by (intro hal_rules pres_modify) (simp add: case_prod_beta)
qed

lemma set_active_group: "pres I F (fingerprint_set_active_group E gid)"
  unfolding fingerprint_set_active_group_def by (intro hal_rules)

lemma authenticate: "pres I F (fingerprint_authenticate E op)"
  unfolding fingerprint_authenticate_def by (intro hal_rules)

lemma enroll_entry: "pres I F (fingerprint_enroll E hat t)"
  unfolding fingerprint_enroll_def by (intro hal_rules)

lemma enroll_brackets: "pres I F fingerprint_pre_enroll" "pres I F fingerprint_post_enroll"
  unfolding fingerprint_pre_enroll_def fingerprint_post_enroll_def by (intro hal_rules)+

lemma enumerate_entry: "pres I F (fingerprint_enumerate b)" and callback: "pres I F (set_notify_callback b c)"
  unfolding fingerprint_enumerate_def set_notify_callback_def by (intro hal_rules)+

lemma remove_one: "pres I F (locked_remove E fid)"
  unfolding locked_remove_def by (intro hal_rules)

lemma remove_many: "pres I F (remove_all E is r)"
  by (induction "is" arbitrary: r) (simp_all add: primitive_rules remove_one)

lemma remove_entry: "pres I F (fingerprint_remove E b fid)"
  unfolding fingerprint_remove_def by (intro hal_rules remove_one remove_many)

lemma close_entry: "pres I F (fingerprint_close E n b)"
  unfolding fingerprint_close_def db_uninit_def by (intro hal_rules)

lemma register_ioctl: "pres I F (ioctl E (VFSSPI_IOCTL_REGISTER_DRDY_SIGNAL p s))"
  using register outside_upd by (auto simp: pres_def split: prod.split)

lemma open_entry: "triple (\<lambda>w. I w \<and> \<not> sensor_initd (sensor w)) (fingerprint_open E b) I F"
proof -
  let ?J = "\<lambda>w. I w \<and> \<not> sensor_initd (sensor w)"
  have ret: "triple ?J (ret c) I F" for c :: int
    by (simp add: triple_def)
  have call: "triple ?J (env_call f) ?J F" for f :: "'a \<Rightarrow> bool \<times> 'a"
    by (auto simp: triple_def wp_def env_call_def outside_upd split: prod.split)
  have reset: "triple ?J (modify (\<lambda>w. w\<lparr>vdev := vdev_zero, tz := tz_zero, sensor := sensor_zero,
      vlock := False\<rparr>)) I F"
    by (auto simp: triple_def observed_def intro: frame [OF device_upd(2) [OF device_upd(1) [OF power_up]]])
  show ?thesis
    unfolding fingerprint_open_def sensor_register_def db_init_def
    by (intro triple_if ret triple_bind [OF call] triple_seq [OF reset] triple_pres
        hal_rules register_ioctl)
qed

end

section \<open>Sensor power\<close>

text \<open>The driver's view: what the commands do to the power of the sensor. Power is switched on
  only when off and off only when on, and the commands that talk to the chip need power.\<close>

fun power_step :: "bool \<Rightarrow> vfsspi_ioctl \<Rightarrow> bool option" where
  "power_step on VFSSPI_IOCTL_POWER_ON = (if on then None else Some True)"
| "power_step on VFSSPI_IOCTL_POWER_OFF = (if on then Some False else None)"
| "power_step on (VFSSPI_IOCTL_SET_DRDY_INT _) = Some on"
| "power_step on (VFSSPI_IOCTL_REGISTER_DRDY_SIGNAL _ _) = Some on"
| "power_step on _ = (if on then Some on else None)"

fun power_run :: "bool \<Rightarrow> vfsspi_ioctl list \<Rightarrow> bool option" where
  "power_run on [] = Some on"
| "power_run on (c # cs) = Option.bind (power_step on c) (\<lambda>on'. power_run on' cs)"

lemma power_run_append [simp]:
  "power_run on (cs @ ds) = Option.bind (power_run on cs) (\<lambda>on'. power_run on' ds)"
  by (induction cs arbitrary: on) simp_all

definition power_balanced :: "'e world \<Rightarrow> bool" where
  "power_balanced w \<longleftrightarrow> power_run False (ioctls w) = Some (sensor_initd (sensor w))"

lemma power_sensor: "pres power_balanced F (sensor_init E)" "pres power_balanced F (sensor_uninit E)"
  by (auto simp: pres_def sensor_init_def sensor_uninit_def power_balanced_def upd_sensor_def
      split: prod.split)

interpretation power: hal_invariant E power_balanced "\<lambda>_. True" for E
  by unfold_locales
    (rule power_sensor | force simp: power_balanced_def observed_def locked_notify_def send_enroll_notice_def pres_def sensor_zero_def)+

section \<open>Calibration data\<close>

definition calibration_bounded :: "'e world \<Rightarrow> bool" where
  "calibration_bounded w \<longleftrightarrow> 0 \<le> calibrate_len (tz w) \<and> calibrate_len (tz w) \<le> int CALIBRATE_DATA_MAX_LENGTH"

interpretation cal: hal_invariant E calibration_bounded "\<lambda>_. True" for E
  by unfold_locales
    (auto simp: calibration_bounded_def observed_def locked_notify_def send_enroll_notice_def pres_def sensor_init_def
      sensor_uninit_def tz_zero_def upd_sensor_def split: prod.split)

section \<open>Placement of the requests\<close>

text \<open>Request and response of \<^verbatim>\<open>QSEECom_send_cmd\<close> lie in the shared buffer, their lengths
  are multiples of the alignment and they do not overlap.\<close>

definition placed :: "request \<Rightarrow> bool" where
  "placed r \<longleftrightarrow> req_off r + req_len r \<le> rsp_off r \<and> rsp_off r + rsp_len r \<le> SB_LENGTH
     \<and> req_off r mod 0x40 = 0 \<and> req_len r mod 0x40 = 0 \<and> rsp_off r mod 0x40 = 0 \<and> rsp_len r mod 0x40 = 0
     \<and> 0 < req_len r \<and> 0 < rsp_len r"

lemma placements_placed:
  "req_off r = 0 \<Longrightarrow> (req_len r, rsp_off r, rsp_len r) \<in> placements \<Longrightarrow> placed r"
  by (auto simp: placements_def placed_def A_defs QSEECOM_ALIGN_def fp_sizes fp_consts)

definition all_placed :: "'e world \<Rightarrow> bool" where
  "all_placed w \<longleftrightarrow> (\<forall>r \<in> set (sent w). placed r)"

interpretation placed: hal_invariant E all_placed "\<lambda>_. True" for E
  by unfold_locales
    (auto simp: all_placed_def observed_def locked_notify_def send_enroll_notice_def pres_def sensor_init_def placements_placed
      sensor_uninit_def tz_zero_def upd_sensor_def split: prod.split)

section \<open>The device lock\<close>

text \<open>No operation below the entry points changes whether the running thread holds the lock, and
  none that sends no notice locks it again.\<close>

definition lock_is :: "bool \<Rightarrow> 'e world \<Rightarrow> bool" where
  "lock_is b w \<longleftrightarrow> vlock w = b"

interpretation held: finger_free_invariant E "lock_is True" "\<lambda>e. e \<noteq> Deadlock" for E
  by unfold_locales
    (auto simp: lock_is_def observed_def locked_notify_def send_enroll_notice_def pres_def sensor_init_def
      sensor_uninit_def tz_zero_def upd_sensor_def split: prod.split)

interpretation free: worker_invariant E "lock_is False" "\<lambda>e. e \<noteq> Deadlock" for E
  by unfold_locales
    (auto simp: lock_is_def observed_def locked_notify_def send_enroll_notice_def pres_def sensor_init_def
      sensor_uninit_def tz_zero_def upd_sensor_def split: prod.split)

section \<open>The frame of an authentication\<close>

text \<open>Up to the final notice the fingers and the device are untouched and nobody is told of an
  authentication.\<close>

definition auth_frame :: "(nat \<Rightarrow> finger_t) \<Rightarrow> vcs_fingerprint_device_t \<Rightarrow> fingerprint_msg list \<Rightarrow>
    'e world \<Rightarrow> bool" where
  "auth_frame f d ns w \<longleftrightarrow> finger (tz w) = f \<and> vdev w = d \<and> filter is_authenticated (notices w) = ns"

interpretation auth: notice_invariant E "auth_frame f d ns" "\<lambda>_. True" for E f d ns
  by unfold_locales
    (auto simp: auth_frame_def observed_def locked_notify_def send_enroll_notice_def pres_def sensor_init_def
      sensor_uninit_def tz_zero_def upd_sensor_def split: prod.split)

section \<open>The frame of an enrolment\<close>

text \<open>Between two progress notices nobody is told of progress and the device is untouched.\<close>

definition enroll_frame :: "vcs_fingerprint_device_t \<Rightarrow> fingerprint_msg list \<Rightarrow> 'e world \<Rightarrow> bool" where
  "enroll_frame d es w \<longleftrightarrow> vdev w = d \<and> filter is_enrolling (notices w) = es"

interpretation enr_n: notice_invariant E "enroll_frame d es" "\<lambda>_. True" for E d es
  by unfold_locales
    (auto simp: enroll_frame_def observed_def locked_notify_def pres_def sensor_init_def
      sensor_uninit_def tz_zero_def upd_sensor_def split: prod.split)

interpretation enr_f: finger_free_invariant E "enroll_frame d es" "\<lambda>_. True" for E d es
  by unfold_locales (simp add: enroll_frame_def)

end
