(* ===== verification/Fp_Lifecycle.thy ===== *)
theory Fp_Lifecycle
  imports Fp_Invariants
begin

text \<open>
  The life of the fingerprint device: a step relation over all entry points, the two workers,
  the timer thread and the signal handler, and what holds in every state reachable through
  open, calls and close. Then how the workers leave the hardware.
\<close>

section \<open>Entry points and the device lock\<close>

text \<open>A thread that does not hold the lock runs the operation without deadlocking with itself
  and does not hold the lock afterwards.\<close>

definition unlocked_safe :: "('e world, 'a) cmd \<Rightarrow> bool" where
  "unlocked_safe m \<longleftrightarrow> triple (lock_is False) m (lock_is False) (\<lambda>e. e \<noteq> Deadlock)"

lemma triple_lock: "triple (lock_is False) mutex_lock_vdev (lock_is True) F"
  and triple_unlock: "triple (lock_is b) mutex_unlock_vdev (lock_is False) F"
  by (simp_all add: triple_def lock_is_def)

lemma triple_ret: "triple P (ret a) P F"
  by (simp add: triple_def)

lemma triple_case_prod: "(\<And>a b. triple P (f a b) Q F) \<Longrightarrow> triple P (case x of (a, b) \<Rightarrow> f a b) Q F"
  by (cases x) simp

lemma triple_case_option:
  "triple P m Q F \<Longrightarrow> (\<And>a. triple P (f a) Q F) \<Longrightarrow> triple P (case x of None \<Rightarrow> m | Some a \<Rightarrow> f a) Q F"
  by (cases x) simp_all

lemma triple_weaken: "pres I F m \<Longrightarrow> triple I m I (\<lambda>_. True)"
  by (auto simp: pres_def triple_def elim: wp_mono)

lemmas triple_rules = triple_lock triple_unlock triple_if triple_seq triple_bind triple_ret
  triple_case_prod triple_case_option

lemma lock_vdev: "pres (lock_is b) F (modify (upd_vdev f))"
  "pres (lock_is b) F (modify (\<lambda>w. w\<lparr>sha := c\<rparr>))"
  "pres (lock_is b) F (modify (upd_sensor g))"
  "pres (lock_is b) F (modify (\<lambda>w. let (v, c) = h w in upd_vdev (k v) (w\<lparr>sha := c\<rparr>)))"
  by (auto intro!: pres_modify simp: lock_is_def upd_vdev_def upd_sensor_def case_prod_beta)

lemma free_notice: "pres (lock_is False) (\<lambda>e. e \<noteq> Deadlock) (send_authenticated_notice E fid)"
proof -
  have "pres (lock_is False) (\<lambda>e. e \<noteq> Deadlock) (locked_notify msg)" for msg
    by (simp add: pres_def lock_is_def locked_notify_def)
  then show ?thesis
    unfolding send_authenticated_notice_def by (intro pres_rules free.notices_kept)
qed

lemmas held_rules = held.tz_rules held.sensor_init held.sensor_uninit held.start_auth held.start_enroll held.read_to_tz held.write_to_db
  held.init held.uninit held.sessions

lemmas free_rules = free.tz_rules free.sensor_init free.sensor_uninit free.notices_kept free.cancel free.auth free.uninit free_notice

lemma lock_entries:
  "unlocked_safe (fingerprint_get_auth_id E)"
  "unlocked_safe (fingerprint_set_active_group E gid)"
  "unlocked_safe (fingerprint_authenticate E op)"
  "unlocked_safe fingerprint_pre_enroll"
  "unlocked_safe fingerprint_post_enroll"
  "unlocked_safe (fingerprint_enumerate dev)"
  "unlocked_safe (set_notify_callback dev cb)"
  "unlocked_safe (fingerprint_close E n dev)"
  "unlocked_safe (locked_remove E fid)"
  "unlocked_safe (vcs_authenticate E n)"
  unfolding unlocked_safe_def fingerprint_get_auth_id_def fingerprint_set_active_group_def
    fingerprint_authenticate_def fingerprint_pre_enroll_def fingerprint_post_enroll_def
    fingerprint_enumerate_def set_notify_callback_def fingerprint_close_def db_uninit_def
    locked_remove_def vcs_authenticate_def
  by ((rule triple_rules | rule triple_pres, rule lock_vdev held_rules free_rules)+)

lemma lock_remove_all: "unlocked_safe (remove_all E is r)"
proof (induction "is" arbitrary: r)
  case (Cons i "is")
  show ?case
    unfolding remove_all.simps unlocked_safe_def
    by (rule triple_rules Cons [unfolded unlocked_safe_def] lock_entries [unfolded unlocked_safe_def]
        | rule triple_pres, rule free_rules)+
qed (simp add: unlocked_safe_def triple_ret)

lemma lock_remove: "unlocked_safe (fingerprint_remove E dev fid)"
  unfolding fingerprint_remove_def unlocked_safe_def
  by (rule lock_remove_all [unfolded unlocked_safe_def] lock_entries [unfolded unlocked_safe_def]
      triple_rules | rule triple_pres, rule free_rules)+

lemma lock_workers: "unlocked_safe (fingerprint_cancel E n)" "unlocked_safe (vcs_timeout E n b)"
  "unlocked_safe (vcs_enroll E n)" "unlocked_safe (sensor_process_signal E s)"
  unfolding unlocked_safe_def
  by (rule triple_pres, rule free.cancel free.timeout_thread free.enroll_worker free.signal_handler)+

lemma lock_open: "unlocked_safe (fingerprint_open E dev)"
proof -
  have reset: "triple (lock_is False) (modify (\<lambda>w. w\<lparr>vdev := vdev_zero, tz := tz_zero,
      sensor := sensor_zero, vlock := False\<rparr>)) (lock_is False) F" for F
    by (simp add: triple_def lock_is_def)
  have register: "pres (lock_is b) F (ioctl E c)" for b c F
    by (auto simp: pres_def lock_is_def split: prod.split)
  show ?thesis
    unfolding fingerprint_open_def sensor_register_def db_init_def unlocked_safe_def
    by (rule reset triple_rules | rule triple_pres, rule register lock_vdev held_rules free_rules)+
qed

text \<open>\<^verbatim>\<open>fingerprint_enroll\<close> sends its notice that there is no space with the lock held.\<close>

lemma lock_enroll: "triple (lock_is False) (fingerprint_enroll E hat t) (lock_is False) (\<lambda>_. True)"
proof -
  have notice: "triple (lock_is True) (send_error_notice c) (lock_is False) (\<lambda>_. True)" for c
    by (simp add: triple_def lock_is_def send_error_notice_def locked_notify_def)
  show ?thesis
    unfolding fingerprint_enroll_def
    by (rule notice triple_rules | rule triple_weaken, rule lock_vdev held_rules free_rules)+
qed

lemma enroll_safe:
  assumes "first_free (finger (tz w)) finger_indices \<le> MAX_NUM_FINGERS" "\<not> vlock w"
  shows "fingerprint_enroll E hat t w \<noteq> Inl Deadlock"
proof -
  have start: "wp (vcs_start_enroll E t) Q (\<lambda>e. e \<noteq> Deadlock) v" if "vlock v" "\<And>a u. Q a u" for v Q
    by (rule wp_mono [OF held.start_enroll [unfolded pres_def, rule_format]])
      (simp_all add: lock_is_def that)
  have "wp (fingerprint_enroll E hat t) (\<lambda>_ _. True) (\<lambda>e. e \<noteq> Deadlock) w"
    using assms by (auto simp: fingerprint_enroll_def upd_vdev_def split: option.split intro!: start)
  then show ?thesis using wp_fault by fastforce
qed

section \<open>Power of the sensor at the end of an operation\<close>

definition sensor_off :: "'e world \<Rightarrow> bool" where
  "sensor_off w \<longleftrightarrow> \<not> sensor_initd (sensor w)"

lemma triple_True: "triple P m (\<lambda>_. True) (\<lambda>_. True)"
  by (simp add: triple_def wp_def split: sum.split prod.split)

lemma uninit_off: "triple P (sensor_uninit E) sensor_off (\<lambda>_. True)"
  by (auto simp: triple_def sensor_uninit_def sensor_off_def upd_sensor_def split: prod.split)

lemma off_frame: "triple sensor_off mutex_unlock_vdev sensor_off (\<lambda>_. True)"
  "triple sensor_off (modify (upd_sensor (\<lambda>s. s\<lparr>fd := h\<rparr>))) sensor_off (\<lambda>_. True)"
  by (simp_all add: triple_def sensor_off_def upd_sensor_def)

lemma close_off: "triple (\<lambda>_. True) (fingerprint_close E n True) sensor_off (\<lambda>_. True)"
  unfolding fingerprint_close_def
  by (simp, (rule uninit_off off_frame triple_ret triple_seq | rule triple_True)+)

lemma open_off: "triple sensor_off (fingerprint_open E dev) sensor_off (\<lambda>_. True)"
proof -
  have call: "triple sensor_off (env_call f) sensor_off (\<lambda>_. True)" for f :: "'a \<Rightarrow> 'b \<times> 'a"
    by (auto simp: triple_def sensor_off_def wp_def env_call_def split: prod.split)
  have reset: "triple P (modify (\<lambda>w. w\<lparr>vdev := vdev_zero, tz := tz_zero,
      sensor := sensor_zero, vlock := False\<rparr>)) sensor_off (\<lambda>_. True)" for P
    by (simp add: triple_def sensor_off_def sensor_zero_def)
  show ?thesis
    unfolding fingerprint_open_def
    by (rule triple_if triple_bind uninit_off off_frame call reset triple_ret triple_seq | rule triple_True)+
qed

section \<open>Reachable states\<close>

text \<open>One call into the module: an entry point of the device structure, or one of the threads
  it has started running to its end.\<close>

datatype hal_call =
    PreEnroll | Enroll "hw_auth_token option" u32 | PostEnroll | GetAuthId | Cancel nat
  | Enumerate bool | Remove bool u32 | SetActiveGroup u32 | Authenticate u64
  | SetNotify bool bool | RunAuthenticate nat | RunEnroll nat | RunTimeout nat bool | Signal int

definition void :: "('w, 'a) cmd \<Rightarrow> ('w, unit) cmd" where
  "void m = bind m (\<lambda>_. ret ())"

fun run_call :: "'e env_ops \<Rightarrow> hal_call \<Rightarrow> ('e world, unit) cmd" where
  "run_call E PreEnroll = void fingerprint_pre_enroll"
| "run_call E (Enroll hat t) = void (fingerprint_enroll E hat t)"
| "run_call E PostEnroll = void fingerprint_post_enroll"
| "run_call E GetAuthId = void (fingerprint_get_auth_id E)"
| "run_call E (Cancel n) = void (fingerprint_cancel E n)"
| "run_call E (Enumerate dev) = void (fingerprint_enumerate dev)"
| "run_call E (Remove dev fid) = void (fingerprint_remove E dev fid)"
| "run_call E (SetActiveGroup gid) = void (fingerprint_set_active_group E gid)"
| "run_call E (Authenticate op) = void (fingerprint_authenticate E op)"
| "run_call E (SetNotify dev cb) = void (set_notify_callback dev cb)"
| "run_call E (RunAuthenticate n) = vcs_authenticate E n"
| "run_call E (RunEnroll n) = vcs_enroll E n"
| "run_call E (RunTimeout n timedout) = vcs_timeout E n timedout"
| "run_call E (Signal s) = sensor_process_signal E s"

text \<open>The process at start: static storage is zero and nothing has been called.\<close>

definition boot :: "SHA1Context \<Rightarrow> mem \<Rightarrow> 'e \<Rightarrow> 'e world" where
  "boot c m e = \<lparr>tz = tz_zero, sensor = sensor_zero, vdev = vdev_zero, sha = c, km_init = False,
     km_handle = KM_NULL, sbuf = m, vlock = False, notices = [], ioctls = [], sent = [], sched = [],
     outside = e\<rparr>"

text \<open>The states the module reaches: \<open>hal_reach E opened w\<close>. What other threads will do (\<open>sched\<close>) and
  what the outside is (\<open>outside\<close>) may change between calls.\<close>

inductive hal_reach :: "'e env_ops \<Rightarrow> bool \<Rightarrow> 'e world \<Rightarrow> bool" for E where
  start: "hal_reach E False (boot c m e)"
| outer: "hal_reach E opened w \<Longrightarrow> hal_reach E opened (w\<lparr>sched := q, outside := e\<rparr>)"
| opens: "hal_reach E False w \<Longrightarrow> fingerprint_open E dev w = Inr (r, w') \<Longrightarrow> hal_reach E (r = 0) w'"
| call: "hal_reach E True w \<Longrightarrow> run_call E c w = Inr ((), w') \<Longrightarrow> hal_reach E True w'"
| closes: "hal_reach E True w \<Longrightarrow> fingerprint_close E n True w = Inr (r, w') \<Longrightarrow> hal_reach E False w'"

lemma triple_void: "triple P m Q F \<Longrightarrow> triple P (void m) Q F"
  unfolding void_def by (rule triple_bind, assumption, rule triple_ret)

lemma pres_void: "pres I F m \<Longrightarrow> pres I F (void m)"
  unfolding void_def by (intro pres_rules)

lemma boot_off: "sensor_off (boot c m e)"
  by (simp add: sensor_off_def boot_def sensor_zero_def)

context hal_invariant
begin

lemma call_kept: "pres I F (run_call E c)"
  by (cases c) (auto intro!: pres_void enroll_brackets enroll_entry get_auth_id cancel
      enumerate_entry remove_entry set_active_group authenticate callback authenticate_worker
      enroll_worker timeout_thread signal_handler)

lemma reachable:
  assumes init: "\<And>c m e. I (boot c m e)"
  shows "hal_reach E opened w \<Longrightarrow> I w \<and> (\<not> opened \<longrightarrow> sensor_off w)"
proof (induction rule: hal_reach.induct)
  case (start c m e)
  then show ?case by (simp add: init boot_off)
next
  case (outer opened w q e)
  then show ?case by (auto simp: observed_def sensor_off_def intro: frame)
next
  case (opens w dev r w')
  then show ?case
    using tripleD [OF open_entry] tripleD [OF open_off] unfolding sensor_off_def by blast
next
  case (call w c w')
  then show ?case using presD [OF call_kept] by blast
next
  case (closes w n r w')
  then show ?case using presD [OF close_entry] tripleD [OF close_off] by blast
qed

end

text \<open>Only one call can deadlock with itself: enrolling when no slot is free.\<close>

fun is_enroll :: "hal_call \<Rightarrow> bool" where
  "is_enroll (Enroll _ _) = True"
| "is_enroll _ = False"

lemma safe_void: "unlocked_safe m \<Longrightarrow> unlocked_safe (void m)"
  by (simp add: unlocked_safe_def triple_void)

lemma safe_calls: "\<not> is_enroll c \<Longrightarrow> unlocked_safe (run_call E c)"
  by (cases c) (auto intro!: safe_void lock_entries lock_remove lock_workers)

lemma lock_calls: "triple (lock_is False) (run_call E c) (lock_is False) (\<lambda>_. True)"
proof (cases "is_enroll c")
  case True
  then show ?thesis by (cases c) (simp_all add: triple_void lock_enroll)
next
  case False
  then show ?thesis
    using safe_calls [of c E] by (auto simp: unlocked_safe_def triple_def elim: wp_mono)
qed

lemma reachable_unlocked: "hal_reach E opened w \<Longrightarrow> lock_is False w"
proof (induction rule: hal_reach.induct)
  case (opens w dev r w')
  then show ?case using tripleD [OF lock_open [unfolded unlocked_safe_def]] by blast
next
  case (call w c w')
  then show ?case using tripleD [OF lock_calls] by blast
next
  case (closes w n r w')
  then show ?case using tripleD [OF lock_entries(8) [unfolded unlocked_safe_def]] by blast
qed (simp_all add: lock_is_def boot_def)

end
