(* ===== verification/Fp_Demo.thy ===== *)
theory Fp_Demo
  imports Fp_Lifecycle
begin

text \<open>
  A concrete outside for the fingerprint HAL and one session with it, evaluated in the
  weakest-precondition calculus: the device is opened, a group selected, an authentication
  started, and the worker runs to its notice. The facts here serve as the concrete inputs of
  the properties.
\<close>

section \<open>The outside\<close>

text \<open>The TrustZone application answers every request with zeros, except that reading the image
  reports that it is complete and the first image is enough to enrol; the database holds one table and the driver accepts every command.\<close>

definition demo_reply :: "mem \<Rightarrow> nat \<Rightarrow> nat \<Rightarrow> mem" where
  "demo_reply m so ro =
     (if rd32 m so = cmd_id vfmCaptureReadData then wr32 mem_zero (ro + res_data 2) 2
      else if rd32 m so = cmd_id vfmEnrollAddImage then wr32 mem_zero (ro + res_data 2) 1
      else mem_zero)"

definition demo_env :: "db_row list env_ops" where
  "demo_env = \<lparr>malloc_ok = (\<lambda>e. (True, e)), dlopen_ok = (\<lambda>e. (True, e)), dlsym_ok = (\<lambda>e _. (True, e)),
     qsee_start = (\<lambda>e. (0, Some 1, e)), qsee_shutdown = (\<lambda>e h. (0, h, e)),
     qsee_bandwidth = (\<lambda>e _. (0, e)), qsee_send = (\<lambda>e m so _ ro _. (0, demo_reply m so ro, e)),
     qsee_send_modified = (\<lambda>e m so _ ro _ _. (0, demo_reply m so ro, e)),
     sql_open = (\<lambda>e _. (0, e)), sql_close = (\<lambda>e. (0, e)),
     sql_exec = (\<lambda>e s. (0, if s = sql_delete_cmd 7 2 then filter (\<lambda>r. row_id r \<noteq> 2) e else e)),
     sql_select = (\<lambda>e _. (e, e)),
     sql_insert = (\<lambda>e _ d p. (SQLITE_DONE, e @ [\<lparr>row_id = 2, row_data = d, row_payload = p\<rparr>])),
     old_select = (\<lambda>e _. ([], e)), file_exists = (\<lambda>_ _. False), file_remove = (\<lambda>e _. (0, e)),
     file_read = (\<lambda>_ _. None), env_ioctl = (\<lambda>e _. (0, e)), env_open = (\<lambda>e _. (3, e)),
     env_time = (\<lambda>_. 5), env_monotonic = (\<lambda>_. (1, 0)), env_getpid = (\<lambda>_. 100),
     thread_create = (\<lambda>e. (0, e)), HW_AUTH_TOKEN_VERSION = 0, HW_AUTH_FINGERPRINT = 2\<rparr>"

lemma demo_env_simps [simp]:
  "malloc_ok demo_env e = (True, e)" "dlopen_ok demo_env e = (True, e)"
  "dlsym_ok demo_env e s = (True, e)" "qsee_start demo_env e = (0, Some 1, e)"
  "qsee_shutdown demo_env e h = (0, h, e)" "qsee_bandwidth demo_env e b = (0, e)"
  "qsee_send demo_env e m so sl ro rl = (0, demo_reply m so ro, e)" "sql_open demo_env e f = (0, e)"
  "sql_close demo_env e = (0, e)"
  "sql_exec demo_env e s = (0, if s = sql_delete_cmd 7 2 then filter (\<lambda>r. row_id r \<noteq> 2) e else e)"
  "sql_select demo_env e s = (e, e)"
  "sql_insert demo_env e s d p = (SQLITE_DONE, e @ [\<lparr>row_id = 2, row_data = d, row_payload = p\<rparr>])"
  "old_select demo_env e s = ([], e)" "file_exists demo_env e f = False"
  "env_ioctl demo_env e c = (0, e)" "env_open demo_env e f = (3, e)" "env_time demo_env e = 5"
  "env_monotonic demo_env e = (1, 0)" "env_getpid demo_env e = 100" "thread_create demo_env e = (0, e)"
  "HW_AUTH_TOKEN_VERSION demo_env = 0" "HW_AUTH_FINGERPRINT demo_env = 2"
  by (simp_all add: demo_env_def)

lemma wp_env_call [simp]:
  "wp (env_call f) Q F w = (case f (outside w) of (r, e) \<Rightarrow> Q r (w\<lparr>outside := e\<rparr>))"
  by (simp add: wp_def env_call_def split: prod.split)

lemma rd_zero [simp]: "rd_int mem_zero a = 0"
  by (simp add: rd_int_def rd32_def mem_zero_def)

lemmas demo_defs = QSEECom_start_app_def init_qsee_def qcom_km_get_lib_sym_def qsee_symbols_def
   deref_km_def upd_tz_def upd_sensor_def QSEECom_set_bandwidth_def QSEECom_shutdown_app_def QSEECom_send_cmd_def 
   fingerprint_open_def sensor_init_def sensor_uninit_def sensor_register_def db_init_def SQLITE_OK_def
   db_read_to_tz_def vcs_init_def vcs_uninit_def vcs_resume_def resume_initialize_def resume_device_init_def resume_calibrate_def
   resume_enter_session_def vcs_start_auth_session_def vcs_update_auth_token_def token_request_def edit_buf_def
   set_tz_state_def get_tz_state_def deref_handle_def res_result_def res_int_def store_calibration_def tz_zero_def 
   sensor_zero_def clear_fingers_def boot_def db_check_and_create_table_def Let_def

lemma wp_raw_demo [simp]: "wp (raw_send demo_env so sl ro rl) Q F w = 
   Q 0 (w\<lparr>sent := sent w @ [\<lparr>req_cmd = rd32 (sbuf w) so, req_off = so, req_len = sl, rsp_off = ro, rsp_len = rl\<rparr>],
     sbuf := demo_reply (sbuf w) so ro\<rparr>)"
  by (simp add: wp_def raw_send_def)

lemma wp_create_demo [simp]: "sql_create_cmd (active_gid (vdev w)) \<noteq> sql_delete_cmd 7 2 \<Longrightarrow>
 wp (db_check_and_create_table demo_env) Q F w = Q 0 w"
  by (simp add: wp_def db_check_and_create_table_def)

lemma create_not_delete [simp]: "sql_create_cmd g \<noteq> sql_delete_cmd g' f"
  by (simp add: sql_create_cmd_def sql_delete_cmd_def)


lemma rd32_mem_set [simp]: "rd32 (init_cmd n c m) 0 = cmd_id c" "rd32 (init_vendor n v m) 0 = 0x17"
  by (simp_all add: init_cmd_def init_vendor_def)

lemmas demo_addr = demo_reply_def res_data_def A_defs fp_sizes fp_consts QSEECOM_ALIGN_def


definition demo_row :: db_row where
  "demo_row = \<lparr>row_id = 2, row_data = (\<lambda>i. word_of_nat i), row_payload = mem_zero\<rparr>"

definition demo_schedule :: "other_action list list" where
  "demo_schedule = [[], [], [], [SignalArrives 12]]"

text \<open>Open the device, set the callback, select group 7, start an authentication; the worker
  then runs while the finger is put on the sensor.\<close>

definition demo_start :: "(db_row list world, unit) cmd" where
  "demo_start =
     bind (fingerprint_open demo_env True) (\<lambda>r.
     if r \<noteq> 0 then fail StillRunning
     else seq (run_call demo_env (SetNotify True True))
         (seq (run_call demo_env (SetActiveGroup 7))
              (run_call demo_env (Authenticate 99))))"

lemmas demo_hal = void_def set_notify_callback_def fingerprint_set_active_group_def fingerprint_authenticate_def
  upd_vdev_def vcs_start_authenticate_def vdev_zero_def hal_get_state_def hal_point_def pop_sched_def demo_row_def
  finger_index_ok_def load_row_def upd_finger_def upt_rec

lemma wp_pop [simp]: "wp pop_sched Q F w = (case sched w of [] \<Rightarrow> Q [] w | a # as \<Rightarrow> Q a (w\<lparr>sched := as\<rparr>))"
  by (simp add: wp_def pop_sched_def split: list.split)


definition demo_ready :: "db_row list world \<Rightarrow> bool" where
  "demo_ready w \<longleftrightarrow> sensor_initd (sensor w) \<and> state (tz w) = STATE_SCAN \<and> qhandle (tz w) = Some 1 \<and>
    km_handle w = KM_LOADED \<and> km_init w \<and> notify_set (vdev w) \<and> \<not> vlock w \<and> op_id (vdev w) = 99 \<and>
    notices w = [] \<and> auth_session_opend (tz w) \<and> tz_initd (tz w) \<and> \<not> timeout_thread (tz w) \<and>
    \<not> signal (sensor w) \<and> (\<forall>i. exist (finger (tz w) i) = (i = 2))"

lemma demo_start_run: "wp demo_start (\<lambda>_. demo_ready) (\<lambda>_. False) (boot c m [demo_row])"
  by (simp add: demo_start_def demo_ready_def demo_defs demo_addr demo_hal finger_zero_def)

lemmas demo_worker = vcs_authenticate_def sensor_process_signal_def worker_get_state_def worker_point_def
  vcs_check_state_def read_data_request_def capture_start_request_def process_data_request_def
  sensor_capture_start_def vcs_update_cal_data_def match_request_def release_request_def
  send_authenticated_notice_def send_acquired_notice_def locked_notify_def convert_ret_to_acquired_info_def
  finger_indices_def


lemma demo_auth_run:
  "demo_ready w \<Longrightarrow> wp (vcs_authenticate demo_env (Suc (Suc (Suc (Suc 0))))) (\<lambda>_ w'. notices w' = [FINGERPRINT_ACQUIRED FINGERPRINT_ACQUIRED_GOOD,
        FINGERPRINT_AUTHENTICATED 2 \<lparr>hat_version = 0, hat_challenge = 99,
          hat_user_id = secure_user_id (vdev w), hat_authenticator_id = authenticator_id (vdev w),
          hat_authenticator_type = htobe32 2, hat_timestamp = htobe64 1000\<rparr>])
     (\<lambda>_. False) (w\<lparr>sched := demo_schedule\<rparr>)"
  by (simp add: demo_ready_def demo_schedule_def demo_defs demo_addr demo_hal demo_worker)

lemmas demo_enroll = vcs_enroll_def enroll_begin_request_def enroll_unknownA_request_def
  add_image_request_def enroll_finish_def enroll_finish_request_def payload_bind_request_def
  password_set_request_def send_enroll_notice_def next_count_def

lemma wp_insert_demo [simp]: "wp (db_write_to_db demo_env False 1) Q F w =
   Q SQLITE_DONE (w\<lparr>outside := outside w @ [\<lparr>row_id = 2, row_data = fdata (finger (tz w) 1),
     row_payload = payload (finger (tz w) 1)\<rparr>]\<rparr>)"
  by (simp add: wp_def db_write_to_db_def finger_index_ok_def fp_consts Let_def)

lemma demo_enroll_run:
  "demo_ready w \<Longrightarrow> secure_user_id (vdev w) \<noteq> 0 \<Longrightarrow>
    wp (vcs_enroll demo_env (Suc (Suc (Suc (Suc 0)))))
     (\<lambda>_ w'. notices w' = [FINGERPRINT_TEMPLATE_ENROLLING 1 0] \<and> exist (finger (tz w') 1))
     (\<lambda>_. False) (w\<lparr>tz := (tz w)\<lparr>state := STATE_ENROLL\<rparr>, sched := demo_schedule\<rparr>)"
  by (simp add: demo_ready_def demo_schedule_def demo_defs demo_addr demo_hal demo_worker demo_enroll)

text \<open>The session's first state is reachable.\<close>

lemma demo_start_reach:
  assumes "demo_start (boot c m e) = Inr ((), w)"
  shows "hal_reach demo_env True w"
proof -
  obtain w1 w2 w3 where w1: "fingerprint_open demo_env True (boot c m e) = Inr (0, w1)"
    and w2: "run_call demo_env (SetNotify True True) w1 = Inr ((), w2)"
    and w3: "run_call demo_env (SetActiveGroup 7) w2 = Inr ((), w3)"
    and w: "run_call demo_env (Authenticate 99) w3 = Inr ((), w)"
    using assms
    by (auto simp: demo_start_def bind_def seq_def fail_def simp del: run_call.simps
        split: sum.splits prod.splits if_splits)
  have "hal_reach demo_env True w1"
    using hal_reach.opens [OF hal_reach.start w1] by simp
  then show ?thesis
    using hal_reach.call w2 w3 w by metis
qed

lemma demo_state: "\<exists>w. hal_reach demo_env True w \<and> demo_ready w"
proof -
  have "wp demo_start (\<lambda>_. demo_ready) (\<lambda>_. False) (boot (SHA1Reset undefined) mem_zero [demo_row])"
    by (rule demo_start_run)
  then show ?thesis
    by (auto simp: wp_def split: sum.splits dest: demo_start_reach)
qed

text \<open>An enrolment that succeeds.\<close>

lemma demo_enroll_state:
  "\<exists>w w'. vcs_enroll demo_env 4 w = Inr ((), w') \<and> notices w = [] \<and> secure_user_id (vdev w) = 5 \<and>
     first_free (finger (tz w)) finger_indices = 1 \<and> notices w' = [FINGERPRINT_TEMPLATE_ENROLLING 1 0]"
proof -
  obtain w0 where w0: "demo_ready w0"
    using demo_state by blast
  define w1 where "w1 = w0\<lparr>vdev := (vdev w0)\<lparr>secure_user_id := 5\<rparr>\<rparr>"
  have w1: "demo_ready w1" "secure_user_id (vdev w1) = 5"
    using w0 by (simp_all add: demo_ready_def w1_def)
  define w where "w = w1\<lparr>tz := (tz w1)\<lparr>state := STATE_ENROLL\<rparr>, sched := demo_schedule\<rparr>"
  have four: "Suc (Suc (Suc (Suc 0))) = 4"
    by simp
  obtain w' where "vcs_enroll demo_env 4 w = Inr ((), w')"
    "notices w' = [FINGERPRINT_TEMPLATE_ENROLLING 1 0]"
    using demo_enroll_run [OF w1(1)] w1(2) unfolding four w_def [symmetric]
    by (auto simp: wp_def split: sum.splits)
  moreover have "notices w = []" "secure_user_id (vdev w) = 5"
    "first_free (finger (tz w)) finger_indices = 1"
    using w1 by (simp_all add: w_def demo_ready_def finger_indices_def fp_consts upt_rec)
  ultimately show ?thesis by blast
qed

end
