(* ===== verification/Fp_Auth.thy ===== *)
theory Fp_Auth
  imports Fp_Demo
begin

text \<open>
  Properties of the life cycle and of authentication: the invariants of all reachable states,
  what a successful authentication reports, which template stands where in the request, and how
  the worker leaves the hardware.
\<close>

section \<open>Results of operations\<close>

definition valid :: "('w \<Rightarrow> bool) \<Rightarrow> ('w, 'a) cmd \<Rightarrow> ('a \<Rightarrow> 'w \<Rightarrow> bool) \<Rightarrow> bool" where
  "valid P m Q \<longleftrightarrow> (\<forall>w. P w \<longrightarrow> wp m Q (\<lambda>_. True) w)"

lemma validD: "valid P m Q \<Longrightarrow> P w \<Longrightarrow> m w = Inr (a, w') \<Longrightarrow> Q a w'"
  by (auto simp: valid_def wp_def)

lemma valid_bind: "valid P m R \<Longrightarrow> (\<And>a. valid (R a) (f a) Q) \<Longrightarrow> valid P (bind m f) Q"
  by (auto simp: valid_def intro: wp_mono)

lemma valid_seq: "valid P m (\<lambda>_. R) \<Longrightarrow> valid R n Q \<Longrightarrow> valid P (seq m n) Q"
  by (auto simp: valid_def intro: wp_mono)

lemma valid_if: "(b \<Longrightarrow> valid P m Q) \<Longrightarrow> (\<not> b \<Longrightarrow> valid P n Q) \<Longrightarrow> valid P (if b then m else n) Q"
  by simp

lemma valid_pres: "pres I (\<lambda>_. True) m \<Longrightarrow> valid I m (\<lambda>_. I)"
  by (simp add: valid_def pres_def)

lemma valid_pure: "(c \<Longrightarrow> valid P m Q) \<Longrightarrow> valid (\<lambda>w. P w \<and> c) m Q"
  by (auto simp: valid_def)

lemma valid_ret: "(\<And>w. P w \<Longrightarrow> Q a w) \<Longrightarrow> valid P (ret a) Q"
  by (simp add: valid_def)

section \<open>Which finger is authenticated\<close>

lemma find_finger_exists:
  "0 < find_finger f len k is \<Longrightarrow> find_finger f len k is \<in> set is \<and> exist (f (find_finger f len k is))"
  by (induction f len k "is" rule: find_finger.induct) (auto split: if_splits)

definition auth_result :: "(nat \<Rightarrow> finger_t) \<Rightarrow> nat \<Rightarrow> bool" where
  "auth_result f i \<longleftrightarrow> (0 < i \<longrightarrow> i \<in> set finger_indices \<and> exist (f i))"

lemma auth_loop_valid:
  "valid (auth_frame f d ns) (auth_loop E n) (\<lambda>i w. auth_frame f d ns w \<and> auth_result f i)"
proof (induction n)
  case (Suc n)
  have none: "valid (auth_frame f d ns) (ret 0) (\<lambda>i w. auth_frame f d ns w \<and> auth_result f i)"
    by (rule valid_ret) (simp add: auth_result_def)
  have found: "valid (auth_frame f d ns)
      (gets (\<lambda>w. find_finger (finger (tz w)) 0 (res_int A_5x 22 w + 1) finger_indices))
      (\<lambda>i w. auth_frame f d ns w \<and> auth_result f i)"
    by (auto simp: valid_def auth_frame_def auth_result_def dest: find_finger_exists)
  have release: "valid (\<lambda>w. auth_frame f d ns w \<and> auth_result f i)
      (seq (release_request E i) (ret i)) (\<lambda>i w. auth_frame f d ns w \<and> auth_result f i)" for i
    unfolding release_request_def
    by (rule valid_pure, rule valid_seq, rule valid_pres, intro auth.tz_rules, rule valid_ret, simp)
  show ?case
    unfolding auth_loop.simps match_request_def
    by (rule none Suc release valid_if found valid_bind [OF found] valid_bind valid_seq
        | rule valid_pres, rule auth.tz_rules auth.capture auth.points auth.notices_kept)+
qed (simp add: valid_def)

text \<open>The token of the notice, but for its time stamp.\<close>

definition auth_token_for :: "'e env_ops \<Rightarrow> vcs_fingerprint_device_t \<Rightarrow> u64 \<Rightarrow> hw_auth_token" where
  "auth_token_for E d t = \<lparr>hat_version = HW_AUTH_TOKEN_VERSION E, hat_challenge = op_id d,
     hat_user_id = secure_user_id d, hat_authenticator_id = authenticator_id d,
     hat_authenticator_type = htobe32 (HW_AUTH_FINGERPRINT E), hat_timestamp = htobe64 t\<rparr>"

definition reported :: "'e env_ops \<Rightarrow> (nat \<Rightarrow> finger_t) \<Rightarrow> vcs_fingerprint_device_t \<Rightarrow> fingerprint_msg list \<Rightarrow>
    'e world \<Rightarrow> bool" where
  "reported E f d ns w \<longleftrightarrow> filter is_authenticated (notices w) = ns \<or>
     (\<exists>i t. i \<in> set finger_indices \<and> exist (f i) \<and> filter is_authenticated (notices w) =
       ns @ [FINGERPRINT_AUTHENTICATED (int i) (auth_token_for E d t)])"

lemma auth_worker_valid:
  "valid (auth_frame f d ns) (vcs_authenticate E n) (\<lambda>_. reported E f d ns)"
proof -
  have notice: "valid (auth_frame f d ns)
      (if i \<noteq> 0 then send_authenticated_notice E (int i) else ret ()) (\<lambda>_. reported E f d ns)"
    if "auth_result f i" for i
    using that
    by (auto simp: valid_def send_authenticated_notice_def send_acquired_notice_def locked_notify_def
        auth_frame_def reported_def auth_result_def is_authenticated_def auth_token_for_def
        split: prod.split)
  show ?thesis
    unfolding vcs_authenticate_def
    by (rule valid_bind [OF auth_loop_valid] valid_pure notice valid_seq valid_bind, assumption?
        | rule valid_pres, rule auth.tz_rules auth.sensor_uninit auth.uninit)+
qed

section \<open>Templates of the match request\<close>

definition enrolled :: "(nat \<Rightarrow> finger_t) \<Rightarrow> nat list \<Rightarrow> nat list" where
  "enrolled f is = filter (\<lambda>i. exist (f i)) is"

lemma find_finger_nth:
  "k < length (enrolled f is) \<Longrightarrow> find_finger f len (len + 1 + int k) is = enrolled f is ! k"
proof (induction "is" arbitrary: len k)
  case (Cons i "is")
  show ?case
  proof (cases "exist (f i)")
    case True
    then show ?thesis
      using Cons.prems Cons.IH [of "k - 1" "len + 1"] by (cases k) (auto simp: enrolled_def add_ac)
  next
    case False
    then show ?thesis using Cons by (simp add: enrolled_def)
  qed
qed (simp add: enrolled_def)

lemma put_templates_before:
  "a < 24 + template_address (Suc len) \<Longrightarrow> put_templates f len is m a = m a"
proof (induction "is" arbitrary: len m)
  case (Cons i "is")
  then have "a < 24 + template_address (Suc (Suc len))"
    by (simp add: template_address_def)
  then show ?case
    using Cons by (simp add: Let_def wr8_def mem_cpy_def template_address_def)
qed simp

lemma put_templates_nth:
  "k < length (enrolled f is) \<Longrightarrow> j < FINGER_DATA_MAX_LENGTH \<Longrightarrow>
    put_templates f len is m (24 + (template_address (Suc (len + k)) + 4) + j) = fdata (f (enrolled f is ! k)) j"
proof (induction f len "is" m arbitrary: k rule: put_templates.induct)
  case (2 f len i "is" m)
  show ?case
  proof (cases "exist (f i)")
    case True
    note ex = this
    show ?thesis
    proof (cases k)
      case 0
      then show ?thesis
        using 2(3,4) True
        by (simp add: Let_def enrolled_def put_templates_before mem_cpy_def template_address_def fp_consts)
    next
      case (Suc k')
      then show ?thesis
        using 2(1) [OF True, of "len + 1" "template_address (len + 1)" k'] 2(3,4) True
        by (simp add: Let_def enrolled_def)
    qed
  next
    case False
    then show ?thesis using 2 by (simp add: enrolled_def)
  qed
qed (simp add: enrolled_def)

lemma first_free_full:
  "MAX_NUM_FINGERS < first_free f finger_indices \<longleftrightarrow> (\<forall>i \<in> set finger_indices. exist (f i))"
  by (auto simp: finger_indices_def fp_consts upt_rec)

section \<open>Properties\<close>

text \<open>C12. In every state the module reaches, the commands given to the sensor's driver are
  balanced: power was switched on only when off and off only when on, every command that talks
  to the chip was given with power on, and \<^verbatim>\<open>sensor.init\<close> tells the truth about the power. After
  close, or when open has failed, the sensor is off.\<close>

theorem reachable_power:
  assumes "hal_reach E opened w"
  shows "power_run False (ioctls w) = Some (sensor_initd (sensor w)) \<and>
    (\<not> opened \<longrightarrow> power_run False (ioctls w) = Some False)"
  using power.reachable [OF _ assms]
  by (simp add: power_balanced_def sensor_off_def boot_def sensor_zero_def)

theorem reachable_power_witness:
  "\<exists>w. hal_reach demo_env True w \<and> demo_ready w \<and> power_run False (ioctls w) = Some True"
proof -
  obtain w where w: "hal_reach demo_env True w" "demo_ready w"
    using demo_state by blast
  then have "power_run False (ioctls w) = Some True"
    using reachable_power [OF w(1)] by (simp add: demo_ready_def)
  then show ?thesis using w by blast
qed





text \<open>C28. Enrolling with a valid token when all five slots are taken blocks forever: the notice that
  there is no space is sent while the device lock is held, and sending takes the same lock.\<close>

theorem full_enroll_deadlocks:
  assumes "\<forall>i \<in> set finger_indices. exist (finger (tz w) i)"
    and "hat_version hat = HW_AUTH_TOKEN_VERSION E" "hat_challenge hat = challenge (vdev w)"
  shows "fingerprint_enroll E (Some hat) t w = Inl Deadlock"
proof -
  have "MAX_NUM_FINGERS < first_free (finger (tz w)) finger_indices"
    using assms(1) by (simp add: first_free_full)
  then have "wp (fingerprint_enroll E (Some hat) t) (\<lambda>_ _. False) (\<lambda>e. e = Deadlock) w"
    using assms(2,3)
    by (simp add: fingerprint_enroll_def upd_vdev_def send_error_notice_def locked_notify_def)
  then show ?thesis by (rule wp_only_fault)
qed

definition full_world :: "db_row list world" where
  "full_world = (boot (SHA1Reset undefined) mem_zero [])\<lparr>tz := tz_zero\<lparr>finger := (\<lambda>_. finger_zero\<lparr>exist := True\<rparr>)\<rparr>\<rparr>"

theorem full_enroll_deadlocks_witness:
  "fingerprint_enroll demo_env (Some \<lparr>hat_version = 0, hat_challenge = 0, hat_user_id = 7,
     hat_authenticator_id = 0, hat_authenticator_type = 0, hat_timestamp = 0\<rparr>) 60 full_world = Inl Deadlock"
  by (rule full_enroll_deadlocks) (simp_all add: full_world_def boot_def vdev_zero_def)



text \<open>The templates in the match request and the search for the matched finger agree: the
  \<open>k\<close>-th template, at its place in the request, is the stored data of the finger that the search
  finds for the answer \<open>k\<close>, an enrolled one, and it lies inside the request structure.\<close>

theorem template_of_answer:
  assumes "1 \<le> k" "k \<le> vcs_get_enrolled_finger_num f" "j < FINGER_DATA_MAX_LENGTH"
  shows "exist (f (find_finger f 0 (int k) finger_indices)) \<and>
    put_templates f 0 finger_indices m (24 + (template_address k + 4) + j) =
      fdata (f (find_finger f 0 (int k) finger_indices)) j \<and>
    24 + (template_address k + 4) + j < sizeof_5x_cmd"
proof -
  have k: "k - 1 < length (enrolled f finger_indices)"
    using assms(1,2) by (simp add: vcs_get_enrolled_finger_num_def enrolled_def)
  have find: "find_finger f 0 (int k) finger_indices = enrolled f finger_indices ! (k - 1)"
    using find_finger_nth [OF k, of 0] assms(1) by (simp add: of_nat_diff)
  have "length (enrolled f finger_indices) \<le> 5"
    unfolding enrolled_def by (rule order_trans [OF length_filter_le]) (simp add: finger_indices_def fp_consts)
  then have "24 + (template_address k + 4) + j < sizeof_5x_cmd"
    using k assms(3) by (simp add: template_address_def fp_sizes fp_consts)
  moreover have "exist (f (enrolled f finger_indices ! (k - 1)))"
    using nth_mem [OF k] by (simp add: enrolled_def)
  ultimately show ?thesis
    using put_templates_nth [OF k assms(3), of 0 m] assms(1) by (simp add: find)
qed

definition two_fingers :: "nat \<Rightarrow> finger_t" where
  "two_fingers i = (if i = 2 \<or> i = 4 then \<lparr>exist = True, fdata = (\<lambda>j. word_of_nat (i + j)), payload = mem_zero\<rparr>
     else finger_zero)"

theorem template_of_answer_witness:
  "find_finger two_fingers 0 2 finger_indices = 4 \<and>
    put_templates two_fingers 0 finger_indices mem_zero (24 + (template_address 2 + 4) + 10) = 14"
proof -
  have "vcs_get_enrolled_finger_num two_fingers = 2" and
    f: "find_finger two_fingers 0 2 finger_indices = 4"
    by (simp_all add: vcs_get_enrolled_finger_num_def two_fingers_def finger_zero_def finger_indices_def
        fp_consts upt_rec)
  then show ?thesis
    using template_of_answer [of 2 two_fingers 10 mem_zero]
    by (simp add: f) (simp add: two_fingers_def fp_consts)
qed

end
