(* ===== verification/Fp_Enroll.thy ===== *)
theory Fp_Enroll
  imports Fp_Auth
begin

text \<open>
  How the workers end, and what an enrolment tells the framework: the state and the hardware at
  the exits of \<^verbatim>\<open>vcs_authenticate\<close> and \<^verbatim>\<open>vcs_enroll\<close>, the sequence of progress notices, and how a
  cancel request reaches a waiting worker.
\<close>

section \<open>Exits of the workers\<close>

definition tz_closed :: "'e world \<Rightarrow> bool" where
  "tz_closed w \<longleftrightarrow> state (tz w) = STATE_IDLE \<and> \<not> tz_initd (tz w)"

definition hardware_closed :: "'e world \<Rightarrow> bool" where
  "hardware_closed w \<longleftrightarrow> tz_closed w \<and> sensor_off w"

interpretation off: tz_invariant E sensor_off "\<lambda>_. True" for E
  by unfold_locales (auto simp: sensor_off_def observed_def)

lemma uninit_closed: "triple P (vcs_uninit E) tz_closed (\<lambda>_. True)"
proof -
  have last: "triple P (seq (modify (upd_tz (\<lambda>t. t\<lparr>tz_initd := False\<rparr>)))
      (seq (set_tz_state STATE_IDLE) (ret 0))) tz_closed (\<lambda>_. True)" for P
    by (simp add: triple_def set_tz_state_def upd_tz_def tz_closed_def)
  show ?thesis
    unfolding vcs_uninit_def by (rule last triple_seq triple_bind | rule triple_True)+
qed

lemma triple_conj: "triple P m Q F \<Longrightarrow> triple P m R F \<Longrightarrow> triple P m (\<lambda>w. Q w \<and> R w) F"
  unfolding triple_def wp_def by (auto split: sum.splits prod.splits)

lemma uninit_both: "triple sensor_off (vcs_uninit E) hardware_closed (\<lambda>_. True)"
  unfolding hardware_closed_def by (rule triple_conj [OF uninit_closed triple_pres [OF off.uninit]])

lemma closed_frame: "triple hardware_closed (set_tz_state STATE_IDLE) hardware_closed (\<lambda>_. True)"
  "triple hardware_closed (locked_notify msg) hardware_closed (\<lambda>_. True)"
  "triple hardware_closed (gets g) hardware_closed (\<lambda>_. True)"
  by (simp_all add: triple_def hardware_closed_def tz_closed_def set_tz_state_def upd_tz_def locked_notify_def sensor_off_def)

lemma authenticate_closes: "triple P (vcs_authenticate E n) hardware_closed (\<lambda>_. True)"
  unfolding vcs_authenticate_def send_authenticated_notice_def send_acquired_notice_def
  by (rule triple_if triple_seq triple_bind uninit_off uninit_both closed_frame triple_ret
      | rule triple_True)+

lemma valid_True: "valid P m (\<lambda>_ _. True)"
  by (simp add: valid_def wp_def split: sum.split prod.split)

lemma valid_triple: "triple P m Q (\<lambda>_. True) \<Longrightarrow> valid P m (\<lambda>_. Q)"
  by (simp add: valid_def triple_def)

definition error_reported :: "'e world \<Rightarrow> bool" where
  "error_reported w \<longleftrightarrow> state (tz w) = STATE_IDLE \<and> notices w \<noteq> [] \<and>
     last (notices w) = FINGERPRINT_ERROR FINGERPRINT_ERROR_UNABLE_TO_PROCESS"

lemma error_exit:
  "triple P (seq (set_tz_state STATE_IDLE) (send_error_notice FINGERPRINT_ERROR_UNABLE_TO_PROCESS))
     error_reported (\<lambda>_. True)"
  by (simp add: triple_def set_tz_state_def upd_tz_def send_error_notice_def locked_notify_def error_reported_def)

lemma enroll_loop_exit:
  "valid P (enroll_loop E n idx c) (\<lambda>x w. x = EnrollReturn \<longrightarrow> error_reported w)"
proof (induction n arbitrary: P c)
  case (Suc n)
  have err: "valid P (seq (set_tz_state STATE_IDLE)
      (seq (send_error_notice FINGERPRINT_ERROR_UNABLE_TO_PROCESS) (ret EnrollReturn)))
      (\<lambda>x w. x = EnrollReturn \<longrightarrow> error_reported w)" for P
    by (simp add: valid_def set_tz_state_def upd_tz_def send_error_notice_def locked_notify_def
        error_reported_def)
  have other: "valid P (ret EnrollOut) (\<lambda>x w. x = EnrollReturn \<longrightarrow> error_reported w)"
    "valid P (ret EnrollFinish) (\<lambda>x w. x = EnrollReturn \<longrightarrow> error_reported w)" for P
    by (simp_all add: valid_def)
  show ?case
    unfolding enroll_loop.simps Let_def
    by (rule err Suc valid_if other valid_bind valid_seq | rule valid_True)+
qed (simp add: valid_def)

lemma enroll_exits:
  "valid P (vcs_enroll E n) (\<lambda>_ w. hardware_closed w \<or> error_reported w)"
proof -
  let ?Q = "\<lambda>_ w. hardware_closed w \<or> error_reported w"
  have weaken: "valid P m (\<lambda>_. hardware_closed) \<Longrightarrow> valid P m ?Q"
    "valid P m (\<lambda>_. error_reported) \<Longrightarrow> valid P m ?Q" for P and m :: "('a world, unit) cmd"
    by (auto simp: valid_def elim: wp_mono)
  have normal: "valid P (seq m (seq (set_tz_state STATE_IDLE) (seq (sensor_uninit E)
      (seq (vcs_uninit E) (ret ()))))) ?Q" for P and m :: "('a world, unit) cmd"
    by (rule weaken(1), rule valid_triple)
      (rule triple_seq uninit_off uninit_both triple_ret | rule triple_True)+
  have returned: "valid (\<lambda>w. x = EnrollReturn \<longrightarrow> error_reported w) (ret ()) ?Q" if "x = EnrollReturn" for x
    by (rule valid_ret) (simp add: that)
  show ?thesis
    unfolding vcs_enroll_def
    by (rule normal returned weaken(2) [OF valid_triple [OF error_exit]] valid_bind [OF enroll_loop_exit]
        valid_if valid_bind valid_seq, assumption? | rule valid_True)+
qed

section \<open>Progress of an enrolment\<close>

text \<open>The remaining counts a framework sees, from \<open>c\<close> on: one less each time but not below 1, until
  the last one, which is 0.\<close>

fun progress :: "int \<Rightarrow> int list \<Rightarrow> bool" where
  "progress c [] = True"
| "progress c (r # rs) = ((r = 0 \<and> rs = []) \<or> (r = max 1 (c - 1) \<and> progress r rs))"

lemma next_count_range: "1 \<le> c \<Longrightarrow> next_count c d2 = (if d2 = 1 then 0 else max 1 (c - 1))"
  by (auto simp: next_count_def Let_def)

definition progress_msgs :: "nat \<Rightarrow> int list \<Rightarrow> fingerprint_msg list" where
  "progress_msgs idx rs = map (FINGERPRINT_TEMPLATE_ENROLLING (int idx)) rs"

text \<open>Without a secure user nobody is told.\<close>

definition told :: "vcs_fingerprint_device_t \<Rightarrow> nat \<Rightarrow> int list \<Rightarrow> fingerprint_msg list" where
  "told d idx rs = (if secure_user_id d = 0 then [] else map (FINGERPRINT_TEMPLATE_ENROLLING (int idx)) rs)"

lemma told_Nil [simp]: "told d idx [] = []"
  by (simp add: told_def)

definition progressed :: "vcs_fingerprint_device_t \<Rightarrow> fingerprint_msg list \<Rightarrow> nat \<Rightarrow> int \<Rightarrow> 'e world \<Rightarrow> bool" where
  "progressed d es idx c w \<longleftrightarrow> (\<exists>rs. progress c rs \<and> enroll_frame d (es @ told d idx rs) w)"

lemma progressed_refl: "enroll_frame d es w \<Longrightarrow> progressed d es idx c w"
  unfolding progressed_def by (rule exI [of _ "[]"]) simp

lemma progressed_last: "enroll_frame d (es @ told d idx [0]) w \<Longrightarrow> progressed d es idx c w"
  unfolding progressed_def by (rule exI [of _ "[0]"]) simp

lemma progressed_step:
  assumes "progressed d (es @ told d idx [r]) idx r w" "r = max 1 (c - 1)"
  shows "progressed d es idx c w"
proof -
  obtain rs where "progress r rs" "enroll_frame d (es @ told d idx (r # rs)) w"
    using assms(1) by (cases "secure_user_id d = 0") (auto simp: progressed_def told_def)
  then show ?thesis
    unfolding progressed_def using assms(2) by (intro exI [of _ "r # rs"]) simp
qed

lemma valid_weaken: "valid P m Q \<Longrightarrow> (\<And>a w. Q a w \<Longrightarrow> R a w) \<Longrightarrow> valid P m R"
  unfolding valid_def by (blast intro: wp_mono)

lemma enroll_notice_told:
  "0 < idx \<Longrightarrow> valid (enroll_frame d es) (send_enroll_notice (int idx) r)
     (\<lambda>_. enroll_frame d (es @ told d idx [r]))"
  by (auto simp: valid_def send_enroll_notice_def locked_notify_def enroll_frame_def told_def is_enrolling_def)

lemmas enr_rules = enr_n.tz_rules enr_n.capture enr_n.points enr_n.notices_kept enr_n.uninit
  enr_n.sensor_uninit enr_f.enroll_finish

lemma enroll_loop_progress:
  "0 < idx \<Longrightarrow> 1 \<le> c \<Longrightarrow> valid (enroll_frame d es) (enroll_loop E n idx c) (\<lambda>_. progressed d es idx c)"
proof (induction n arbitrary: es c)
  case (Suc n)
  have stop: "valid (enroll_frame d es) (ret x) (\<lambda>_. progressed d es idx c)" for x
    by (rule valid_ret) (rule progressed_refl)
  have again: "valid (enroll_frame d es) (enroll_loop E n idx c) (\<lambda>_. progressed d es idx c)"
    by (rule Suc.IH) (rule Suc.prems)+
  have image: "valid (enroll_frame d es) (seq (send_enroll_notice (int idx) r)
      (if r = 0 then ret EnrollFinish else enroll_loop E n idx r)) (\<lambda>_. progressed d es idx c)"
    if r: "r = next_count c d2" for r d2
  proof (rule valid_seq [OF enroll_notice_told [OF Suc.prems(1)]], rule valid_if)
    assume "r = 0"
    then show "valid (enroll_frame d (es @ told d idx [r])) (ret EnrollFinish) (\<lambda>_. progressed d es idx c)"
      by (intro valid_ret) (simp add: progressed_last)
  next
    assume "r \<noteq> 0"
    then have "r = max 1 (c - 1)" using r Suc.prems(2) by (simp add: next_count_range split: if_splits)
    then show "valid (enroll_frame d (es @ told d idx [r])) (enroll_loop E n idx r) (\<lambda>_. progressed d es idx c)"
      by (intro valid_weaken [OF Suc.IH] Suc.prems(1)) (auto intro: progressed_step)
  qed
  show ?case
    unfolding enroll_loop.simps Let_def add_image_request_def
    by (rule image [OF refl] stop again valid_if valid_bind valid_seq | rule valid_pres, rule enr_rules)+
qed (simp add: valid_def)

lemma progressed_kept:
  fixes m :: "('e world, 'a) cmd"
  assumes "\<And>es'. pres (enroll_frame d es') (\<lambda>_. True) m"
  shows "valid (progressed d es idx c) m (\<lambda>_. progressed d es idx c)"
  unfolding valid_def
proof (intro allI impI)
  fix w :: "'e world"
  assume "progressed d es idx c w"
  then obtain rs where rs: "progress c rs" and "enroll_frame d (es @ told d idx rs) w"
    unfolding progressed_def by blast
  then have "wp m (\<lambda>_. enroll_frame d (es @ told d idx rs)) (\<lambda>_. True) w"
    using assms by (simp add: pres_def)
  then show "wp m (\<lambda>_. progressed d es idx c) (\<lambda>_. True) w"
    by (rule wp_mono) (use rs in \<open>auto simp: progressed_def\<close>)
qed

lemma first_free_pos: "0 < first_free f finger_indices"
  by (simp add: finger_indices_def fp_consts upt_rec)

lemma enroll_progressed:
  "valid (\<lambda>w. enroll_frame d es w \<and> first_free (finger (tz w)) finger_indices = idx) (vcs_enroll E n)
     (\<lambda>_. progressed d es idx 8)"
proof -
  let ?P = "\<lambda>w. enroll_frame d es w \<and> first_free (finger (tz w)) finger_indices = idx"
  have head: "valid ?P deref_handle (\<lambda>_. ?P)"
    by (auto simp: valid_def deref_handle_def)
  have slot: "valid ?P (gets (\<lambda>w. first_free (finger (tz w)) finger_indices))
      (\<lambda>i w. enroll_frame d es w \<and> (i = idx \<and> 0 < idx))"
    using first_free_pos by (auto simp: valid_def)
  have loop: "valid (enroll_frame d es) (enroll_loop E n idx 8) (\<lambda>_. progressed d es idx 8)" if "0 < idx"
    by (rule enroll_loop_progress [OF that]) simp
  have finish: "valid (progressed d es idx 8) (ret x) (\<lambda>_. progressed d es idx 8)" for x :: unit
    by (rule valid_ret)
  have error: "valid (enroll_frame d es) (seq (set_tz_state STATE_IDLE)
      (send_error_notice FINGERPRINT_ERROR_UNABLE_TO_PROCESS)) (\<lambda>_. progressed d es idx 8)"
    by (rule valid_weaken [OF valid_pres], intro enr_rules, rule progressed_refl)
  show ?thesis
    unfolding vcs_enroll_def enroll_begin_request_def enroll_unknownA_request_def
    apply (rule valid_seq [OF head], rule valid_bind [OF slot], rule valid_pure, elim conjE, hypsubst)
    by (rule error finish valid_if valid_bind [OF loop] valid_bind valid_seq, assumption?
        | rule progressed_kept, intro enr_rules | rule valid_pres, intro enr_rules)+
qed

section \<open>Properties\<close>

text \<open>C29. Whenever the authentication worker ends, by success, failure or cancellation, the worker
  state is idle, the TrustZone application is closed and the sensor is switched off.\<close>

theorem authenticate_leaves_closed:
  assumes "vcs_authenticate E n w = Inr ((), w')"
  shows "state (tz w') = STATE_IDLE \<and> \<not> tz_initd (tz w') \<and> \<not> sensor_initd (sensor w')"
  using tripleD [OF authenticate_closes _ assms, of "\<lambda>_. True"]
  by (simp add: hardware_closed_def tz_closed_def sensor_off_def)

theorem authenticate_leaves_closed_witness:
  "\<exists>w w'. sensor_initd (sensor w) \<and> vcs_authenticate demo_env 4 w = Inr ((), w') \<and>
    \<not> sensor_initd (sensor w') \<and> state (tz w') = STATE_IDLE"
proof -
  obtain w0 where w0: "demo_ready w0"
    using demo_state by blast
  have four: "Suc (Suc (Suc (Suc 0))) = 4"
    by simp
  obtain w' where run: "vcs_authenticate demo_env 4 (w0\<lparr>sched := demo_schedule\<rparr>) = Inr ((), w')"
    using demo_auth_run [OF w0] unfolding four by (auto simp: wp_def split: sum.splits)
  then show ?thesis
    using authenticate_leaves_closed [OF run] w0
    by (intro exI [of _ "w0\<lparr>sched := demo_schedule\<rparr>"] exI [of _ w']) (simp add: demo_ready_def)
qed

text \<open>C30. Whenever the enrolment worker ends, the worker state is idle; the hardware is closed as
  well, unless the last notice was that the request could not be processed.\<close>

theorem enroll_leaves_idle:
  assumes "vcs_enroll E n w = Inr ((), w')"
  shows "state (tz w') = STATE_IDLE \<and>
    ((\<not> tz_initd (tz w') \<and> \<not> sensor_initd (sensor w')) \<or>
     (notices w' \<noteq> [] \<and> last (notices w') = FINGERPRINT_ERROR FINGERPRINT_ERROR_UNABLE_TO_PROCESS))"
  using validD [OF enroll_exits _ assms, of "\<lambda>_. True"]
  by (auto simp: hardware_closed_def tz_closed_def sensor_off_def error_reported_def)

theorem enroll_leaves_idle_witness:
  "\<exists>w w'. vcs_enroll demo_env 4 w = Inr ((), w') \<and> state (tz w') = STATE_IDLE \<and> \<not> sensor_initd (sensor w')"
proof -
  obtain w w' where "vcs_enroll demo_env 4 w = Inr ((), w')" "notices w' = [FINGERPRINT_TEMPLATE_ENROLLING 1 0]"
    using demo_enroll_state by blast
  then show ?thesis using enroll_leaves_idle [of demo_env 4 w w'] by auto
qed

text \<open>An enrolment reports its progress with one finger index, the first free slot: the remaining
  count starts from 8, decreases by one with each accepted image but not below 1, and reaches 0
  exactly in the last notice. Without a secure user there is no progress notice.\<close>

theorem enroll_progress_notices:
  assumes "vcs_enroll E n w = Inr ((), w')"
  shows "\<exists>rs. progress 8 rs \<and> filter is_enrolling (notices w') = filter is_enrolling (notices w) @
    told (vdev w) (first_free (finger (tz w)) finger_indices) rs"
  using validD [OF enroll_progressed _ assms, of "vdev w" "filter is_enrolling (notices w)"]
  unfolding progressed_def enroll_frame_def by blast

theorem enroll_progress_notices_witness:
  "\<exists>w w'. vcs_enroll demo_env 4 w = Inr ((), w') \<and> filter is_enrolling (notices w') = told (vdev w) 1 [0] \<and>
    (\<exists>rs. progress 8 rs \<and> filter is_enrolling (notices w') = told (vdev w) 1 rs)"
proof -
  obtain w w' where run: "vcs_enroll demo_env 4 w = Inr ((), w')" and w: "notices w = []"
    "secure_user_id (vdev w) = 5" "first_free (finger (tz w)) finger_indices = 1"
    "notices w' = [FINGERPRINT_TEMPLATE_ENROLLING 1 0]"
    using demo_enroll_state by blast
  show ?thesis
    using run w enroll_progress_notices [OF run]
    by (intro exI [of _ w] exI [of _ w']) (simp add: told_def is_enrolling_def)
qed



text \<open>When the TrustZone client library cannot be loaded, the forwarding functions do not return an
  error: they go on to call through the structure that was just freed.\<close>

theorem missing_library_use_after_free:
  assumes "\<not> km_init w" "malloc_ok E (outside w) = (True, e1)" "dlopen_ok E e1 = (False, e2)"
  shows "QSEECom_send_cmd E so sl ro rl w = Inl UseAfterFree"
  using assms
  by (simp add: QSEECom_send_cmd_def init_qsee_def qcom_km_get_lib_sym_def deref_km_def seq_def bind_def
      gets_def env_call_def ret_def modify_def fail_def)

theorem missing_library_use_after_free_witness:
  "QSEECom_send_cmd (demo_env\<lparr>dlopen_ok := (\<lambda>e. (False, e))\<rparr>) 0 A_int A_int A_int
     (boot (SHA1Reset undefined) mem_zero []) = Inl UseAfterFree"
  by (rule missing_library_use_after_free) (simp_all add: boot_def)

lemma wait_idle_stuck:
  "state (tz w) \<noteq> STATE_IDLE \<Longrightarrow> sched w = [] \<Longrightarrow> wait_idle E n w = Inl StillRunning"
  by (induction n) (simp_all add: hal_get_state_def hal_point_def pop_sched_def get_tz_state_def seq_def
      bind_def gets_def fail_def ret_def)

lemma wp_wait_stuck:
  "state (tz w) \<noteq> STATE_IDLE \<Longrightarrow> sched w = [] \<Longrightarrow> wp (wait_idle E n) Q F w = F StillRunning"
  by (simp add: wp_def wait_idle_stuck)

text \<open>When the TrustZone application does not start, starting an authentication fails but leaves
  the worker state at \<^verbatim>\<open>STATE_SCAN\<close> with no worker to reset it: a cancel then waits forever,
  however long it is given.\<close>

theorem failed_start_cancel_hangs:
  assumes "state (tz w) = STATE_IDLE" "sched w = []" "\<not> tz_initd (tz w)" "sensor_initd (sensor w)"
    and "km_init w" "km_handle w = KM_LOADED" "qsee_start E (outside w) = (r, h, e)" "r \<noteq> 0"
  shows "\<exists>w'. vcs_start_authenticate E w = Inr (- 1, w') \<and> state (tz w') = STATE_SCAN \<and>
    (\<forall>n. fingerprint_cancel E n w' = Inl StillRunning)"
proof -
  have "wp (vcs_start_authenticate E) (\<lambda>r w'. r = - 1 \<and> state (tz w') = STATE_SCAN \<and> sched w' = []) (\<lambda>_. False) w"
    using assms
    by (simp add: vcs_start_authenticate_def upt_rec hal_get_state_def hal_point_def get_tz_state_def
        set_tz_state_def upd_tz_def sensor_init_def vcs_init_def QSEECom_start_app_def init_qsee_def
        deref_km_def)
  then obtain w' where w': "vcs_start_authenticate E w = Inr (- 1, w')" "state (tz w') = STATE_SCAN" "sched w' = []"
    by (auto simp: wp_def split: sum.splits)
  have "wp (fingerprint_cancel E n) (\<lambda>_ _. False) (\<lambda>e. e = StillRunning) w'" for n
    using w'(2,3)
    by (auto simp: fingerprint_cancel_def cancel_request_def get_tz_state_def set_tz_state_def upd_tz_def
        wp_wait_stuck split: prod.split)
  then have "fingerprint_cancel E n w' = Inl StillRunning" for n
    by (rule wp_only_fault)
  then show ?thesis using w' by blast
qed

theorem failed_start_cancel_hangs_witness:
  "\<exists>w w'. vcs_start_authenticate (demo_env\<lparr>qsee_start := (\<lambda>e. (- 1, None, e))\<rparr>) w = Inr (- 1, w') \<and>
    fingerprint_cancel (demo_env\<lparr>qsee_start := (\<lambda>e. (- 1, None, e))\<rparr>) 1000 w' = Inl StillRunning"
proof -
  let ?E = "demo_env\<lparr>qsee_start := (\<lambda>e. (- 1, None, e))\<rparr>"
  let ?w = "(boot (SHA1Reset undefined) mem_zero [])\<lparr>sensor := sensor_zero\<lparr>sensor_initd := True\<rparr>,
    km_init := True, km_handle := KM_LOADED\<rparr>"
  have "\<exists>w'. vcs_start_authenticate ?E ?w = Inr (- 1, w') \<and> state (tz w') = STATE_SCAN \<and>
    (\<forall>n. fingerprint_cancel ?E n w' = Inl StillRunning)"
    by (rule failed_start_cancel_hangs [where r = "- 1" and h = None and e = "[]"]) (simp_all add: boot_def tz_zero_def)
  then show ?thesis by blast
qed

end
