(* ===== verification/Fp_Database.thy ===== *)
theory Fp_Database
  imports Fp_Enroll
begin

text \<open>
  The fingers in the database: what \<^verbatim>\<open>db_read_to_tz\<close> makes of the rows of a table, and round trips
  of writing, removing and reading. What SQLite does with the statements of the code is a named
  hypothesis, \<open>table_spec\<close>.
\<close>

section \<open>Loading a table\<close>

fun put_rows :: "db_row list \<Rightarrow> (nat \<Rightarrow> finger_t) \<Rightarrow> nat \<Rightarrow> finger_t" where
  "put_rows [] f = f"
| "put_rows (r # rs) f = put_rows rs (f(nat (row_id r) := load_row r (f (nat (row_id r)))))"

lemma load_rows_eq:
  "\<forall>r \<in> set rs. finger_index_ok (row_id r) \<Longrightarrow>
    load_rows rs w = Inr ((), w\<lparr>tz := (tz w)\<lparr>finger := put_rows rs (finger (tz w))\<rparr>\<rparr>)"
proof (induction rs arbitrary: w)
  case Nil
  then show ?case by (simp add: ret_def)
next
  case (Cons r rs)
  then show ?case
    by (simp add: seq_def bind_def modify_def upd_tz_def upd_finger_def)
qed

lemma put_rows_append: "put_rows (rs @ [x]) f =
    (put_rows rs f)(nat (row_id x) := load_row x (put_rows rs f (nat (row_id x))))"
  by (induction rs arbitrary: f) simp_all

lemma load_row_exist [simp]: "exist (load_row r f)"
  by (simp add: load_row_def)

lemma put_rows_exist:
  "exist (put_rows rs f i) \<longleftrightarrow> exist (f i) \<or> (\<exists>r \<in> set rs. nat (row_id r) = i)"
  by (induction rs arbitrary: f) auto

lemma load_row_data:
  "j < FINGER_DATA_MAX_LENGTH \<Longrightarrow> fdata (load_row r f) j = row_data r j"
  "j < PAYLOAD_MAX_LENGTH \<Longrightarrow> payload (load_row r f) j = row_payload r j"
  by (simp_all add: load_row_def mem_cpy_def)

section \<open>What SQLite promises\<close>

text \<open>For the table of one group and the statements about one finger: creating an existing table
  changes nothing, selecting returns the rows, inserting (\<^verbatim>\<open>sqlite3_step\<close> says \<^verbatim>\<open>SQLITE_DONE\<close>) appends one row with the blobs bound at
  their full length, deleting removes the rows with the id.\<close>

definition table_spec :: "'e env_ops \<Rightarrow> u32 \<Rightarrow> int \<Rightarrow> ('e \<Rightarrow> db_row list) \<Rightarrow> bool" where
  "table_spec E gid fid rows \<longleftrightarrow>
     (\<forall>e. rows (snd (sql_exec E e (sql_create_cmd gid))) = rows e) \<and>
     (\<forall>e. sql_select E e (sql_select_cmd gid) = (rows e, e)) \<and>
     (\<forall>e d p e'. sql_insert E e (sql_insert_cmd gid fid) d p = (SQLITE_DONE, e') \<longrightarrow>
        (\<exists>x. rows e' = rows e @ [x] \<and> row_id x = fid \<and>
          (\<forall>j < FINGER_DATA_MAX_LENGTH. row_data x j = d j) \<and>
          (\<forall>j < PAYLOAD_MAX_LENGTH. row_payload x j = p j))) \<and>
     (\<forall>e e'. sql_exec E e (sql_delete_cmd gid fid) = (SQLITE_OK, e') \<longrightarrow>
        rows e' = filter (\<lambda>x. row_id x \<noteq> fid) (rows e))"

lemma table_specD:
  assumes "table_spec E gid fid rows"
  shows "rows (snd (sql_exec E e (sql_create_cmd gid))) = rows e"
    and "sql_select E e (sql_select_cmd gid) = (rows e, e)"
  using assms by (simp_all add: table_spec_def)

definition rows_ok :: "db_row list \<Rightarrow> bool" where
  "rows_ok rs \<longleftrightarrow> (\<forall>r \<in> set rs. finger_index_ok (row_id r))"

lemma read_to_tz_eq:
  assumes spec: "table_spec E (active_gid (vdev w)) fid rows" and ok: "rows_ok (rows (outside w))"
    and old: "\<And>e. \<not> file_exists E e SAMSUNG_FP_DB_PATH"
  shows "\<exists>w'. db_read_to_tz E w = Inr (0, w') \<and> vdev w' = vdev w \<and> vlock w' = vlock w \<and>
    finger (tz w') = put_rows (rows (outside w)) (finger (clear_fingers (tz w)))"
proof -
  obtain r e where e: "sql_exec E (outside w) (sql_create_cmd (active_gid (vdev w))) = (r, e)"
    by (cases "sql_exec E (outside w) (sql_create_cmd (active_gid (vdev w)))")
  then have rows: "rows e = rows (outside w)"
    using table_specD(1) [OF spec, of "outside w"] by simp
  show ?thesis
    using ok rows table_specD(2) [OF spec, of e] old
    by (simp add: db_read_to_tz_def db_check_and_create_table_def seq_def bind_def gets_def modify_def
        env_call_def e upd_tz_def load_rows_eq rows_ok_def ret_def clear_fingers_def)
qed

lemma demo_table: "table_spec demo_env 7 2 (\<lambda>e. e)"
  by (simp add: table_spec_def SQLITE_OK_def)

section \<open>Properties\<close>

text \<open>C10. A finger written to the database is there after the table is read again, with the data and
  the payload it was written with.\<close>

theorem written_finger_reloaded:
  assumes spec: "table_spec E (active_gid (vdev w)) fid rows" and ok: "rows_ok (rows (outside w))"
    and old: "\<And>e. \<not> file_exists E e SAMSUNG_FP_DB_PATH"
    and "finger_index_ok fid" and wr: "db_write_to_db E False fid w = Inr (SQLITE_DONE, w1)"
  shows "\<exists>w2. db_read_to_tz E w1 = Inr (0, w2) \<and> exist (finger (tz w2) (nat fid)) \<and>
    (\<forall>j < FINGER_DATA_MAX_LENGTH. fdata (finger (tz w2) (nat fid)) j = fdata (finger (tz w) (nat fid)) j) \<and>
    (\<forall>j < PAYLOAD_MAX_LENGTH. payload (finger (tz w2) (nat fid)) j = payload (finger (tz w) (nat fid)) j)"
proof -
  let ?f = "finger (tz w) (nat fid)"
  obtain e where e: "sql_insert E (outside w) (sql_insert_cmd (active_gid (vdev w)) fid) (fdata ?f) (payload ?f)
      = (SQLITE_DONE, e)" and w1: "w1 = w\<lparr>outside := e\<rparr>"
    using wr assms(4) by (auto simp: db_write_to_db_def Let_def split: prod.splits)
  obtain x where x: "rows e = rows (outside w) @ [x]" "row_id x = fid"
    and data: "\<forall>j < FINGER_DATA_MAX_LENGTH. row_data x j = fdata ?f j"
    and pl: "\<forall>j < PAYLOAD_MAX_LENGTH. row_payload x j = payload ?f j"
    using spec e unfolding table_spec_def by blast
  have "rows_ok (rows (outside w1))"
    using ok x assms(4) by (simp add: w1 rows_ok_def)
  then obtain w2 where "db_read_to_tz E w1 = Inr (0, w2)" and
    "finger (tz w2) = put_rows (rows (outside w1)) (finger (clear_fingers (tz w1)))"
    using read_to_tz_eq [of E w1 fid rows] spec old by (auto simp: w1)
  then show ?thesis
    using x data pl by (simp add: w1 put_rows_append load_row_data)
qed

definition demo_db_world :: "db_row list world" where
  "demo_db_world = (boot (SHA1Reset undefined) mem_zero [demo_row])\<lparr>vdev := vdev_zero\<lparr>active_gid := 7\<rparr>,
     tz := tz_zero\<lparr>finger := (\<lambda>i. \<lparr>exist = True, fdata = (\<lambda>j. word_of_nat (i + j)), payload = mem_zero\<rparr>)\<rparr>\<rparr>"

lemma demo_db_simps [simp]: "active_gid (vdev demo_db_world) = 7" "outside demo_db_world = [demo_row]"
  "finger (tz demo_db_world) i = \<lparr>exist = True, fdata = (\<lambda>j. word_of_nat (i + j)), payload = mem_zero\<rparr>"
  "vlock demo_db_world = False"
  by (simp_all add: demo_db_world_def boot_def)

lemma demo_rows_ok: "rows_ok [demo_row]"
  by (simp add: rows_ok_def demo_row_def finger_index_ok_def fp_consts)

theorem written_finger_reloaded_witness:
  "\<exists>w1 w2. db_write_to_db demo_env False 2 demo_db_world = Inr (SQLITE_DONE, w1) \<and>
    db_read_to_tz demo_env w1 = Inr (0, w2) \<and> fdata (finger (tz w2) 2) 9 = 11"
proof -
  obtain w1 where w1: "db_write_to_db demo_env False 2 demo_db_world = Inr (SQLITE_DONE, w1)"
    by (simp add: db_write_to_db_def finger_index_ok_def fp_consts Let_def)
  have "\<exists>w2. db_read_to_tz demo_env w1 = Inr (0, w2) \<and> exist (finger (tz w2) (nat 2)) \<and>
    (\<forall>j < FINGER_DATA_MAX_LENGTH. fdata (finger (tz w2) (nat 2)) j = fdata (finger (tz demo_db_world) (nat 2)) j) \<and>
    (\<forall>j < PAYLOAD_MAX_LENGTH. payload (finger (tz w2) (nat 2)) j = payload (finger (tz demo_db_world) (nat 2)) j)"
    by (rule written_finger_reloaded [OF _ _ _ _ w1, of "\<lambda>e. e"])
      (simp_all add: demo_table demo_rows_ok finger_index_ok_def fp_consts)
  then show ?thesis using w1 by (auto simp: fp_consts)
qed

text \<open>A finger removed with success is gone, at once and after the table is read again.\<close>

theorem removed_finger_stays_removed:
  assumes spec: "table_spec E (active_gid (vdev w)) fid rows" and ok: "rows_ok (rows (outside w))"
    and old: "\<And>e. \<not> file_exists E e SAMSUNG_FP_DB_PATH"
    and remove: "db_write_to_db E True fid w = Inr (SQLITE_OK, w1)"
  shows "\<not> exist (finger (tz w1) (nat fid)) \<and>
    (\<exists>w2. db_read_to_tz E w1 = Inr (0, w2) \<and> \<not> exist (finger (tz w2) (nat fid)))"
proof -
  obtain e where idx: "finger_index_ok fid"
    and e: "sql_exec E (outside w) (sql_delete_cmd (active_gid (vdev w)) fid) = (SQLITE_OK, e)"
    and w1: "w1 = upd_tz (upd_finger (nat fid) (\<lambda>_. finger_zero)) (w\<lparr>outside := e\<rparr>)"
    using remove by (auto simp: db_write_to_db_def split: prod.splits if_splits)
  have gone: "\<not> exist (finger (tz w1) (nat fid))"
    by (simp add: w1 upd_tz_def upd_finger_def finger_zero_def)
  have rows: "rows (outside w1) = filter (\<lambda>x. row_id x \<noteq> fid) (rows (outside w))"
    using spec e unfolding table_spec_def by (simp add: w1 upd_tz_def)
  then have ok1: "rows_ok (rows (outside w1))"
    using ok by (simp add: rows_ok_def)
  have "table_spec E (active_gid (vdev w1)) fid rows"
    using spec by (simp add: w1 upd_tz_def)
  from read_to_tz_eq [OF this ok1 old] obtain w2 where w2: "db_read_to_tz E w1 = Inr (0, w2)"
    "finger (tz w2) = put_rows (rows (outside w1)) (finger (clear_fingers (tz w1)))"
    by blast
  have "nat (row_id x) \<noteq> nat fid" if "x \<in> set (rows (outside w1))" for x
    using that idx ok1 by (auto simp: rows rows_ok_def finger_index_ok_def)
  then have "\<not> exist (finger (tz w2) (nat fid))"
    using gone by (auto simp: w2(2) put_rows_exist clear_fingers_def finger_zero_def)
  then show ?thesis using gone w2(1) by blast
qed

theorem removed_finger_stays_removed_witness:
  "\<exists>w1 w2. db_write_to_db demo_env True 2 demo_db_world = Inr (SQLITE_OK, w1) \<and>
    db_read_to_tz demo_env w1 = Inr (0, w2) \<and> \<not> exist (finger (tz w2) 2)"
proof -
  obtain w1 where w1: "db_write_to_db demo_env True 2 demo_db_world = Inr (SQLITE_OK, w1)"
    by (simp add: db_write_to_db_def finger_index_ok_def fp_consts SQLITE_OK_def)
  have "\<not> exist (finger (tz w1) (nat 2)) \<and>
    (\<exists>w2. db_read_to_tz demo_env w1 = Inr (0, w2) \<and> \<not> exist (finger (tz w2) (nat 2)))"
    by (rule removed_finger_stays_removed [OF _ _ _ w1, of "\<lambda>e. e"])
      (simp_all add: demo_table demo_rows_ok)
  then show ?thesis using w1 by auto
qed

text \<open>Selecting a group: of the first four slots exactly those with a row of the group's table are
  taken afterwards. The fifth slot is taken when the table has a row for it or when it was taken
  before, in whatever group: the memory is cleared for \<^verbatim>\<open>MAX_NUM_FINGERS\<close> elements from index 0,
  which does not reach index 5.\<close>

theorem active_group_fingers:
  assumes spec: "table_spec E gid fid rows" and ok: "rows_ok (rows (outside w))"
    and old: "\<And>e. \<not> file_exists E e SAMSUNG_FP_DB_PATH" and "\<not> vlock w"
  shows "\<exists>w'. fingerprint_set_active_group E gid w = Inr (0, w') \<and> active_gid (vdev w') = gid \<and>
    (\<forall>i < MAX_NUM_FINGERS. exist (finger (tz w') i) \<longleftrightarrow> (\<exists>r \<in> set (rows (outside w)). nat (row_id r) = i)) \<and>
    (exist (finger (tz w') MAX_NUM_FINGERS) \<longleftrightarrow> exist (finger (tz w) MAX_NUM_FINGERS) \<or>
      (\<exists>r \<in> set (rows (outside w)). nat (row_id r) = MAX_NUM_FINGERS))"
proof -
  let ?w = "w\<lparr>vlock := True, vdev := (vdev w)\<lparr>active_gid := gid\<rparr>\<rparr>"
  obtain w2 where w2: "db_read_to_tz E ?w = Inr (0, w2)" "vdev w2 = vdev ?w"
    "finger (tz w2) = put_rows (rows (outside w)) (finger (clear_fingers (tz w)))"
    using read_to_tz_eq [of E ?w fid rows] spec ok old by auto
  have "fingerprint_set_active_group E gid w = Inr (0, w2\<lparr>vlock := False\<rparr>)"
    using assms(4) w2(1)
    by (simp add: fingerprint_set_active_group_def seq_def bind_def mutex_lock_vdev_def modify_def
        upd_vdev_def mutex_unlock_vdev_def ret_def)
  then show ?thesis
    using w2(2,3) by (simp add: put_rows_exist clear_fingers_def finger_zero_def)
qed

theorem active_group_fingers_witness:
  "\<exists>w'. fingerprint_set_active_group demo_env 7 demo_db_world = Inr (0, w') \<and> \<not> exist (finger (tz w') 3) \<and>
    exist (finger (tz w') 2) \<and> exist (finger (tz w') 5)"
proof -
  have "\<exists>w'. fingerprint_set_active_group demo_env 7 demo_db_world = Inr (0, w') \<and> active_gid (vdev w') = 7 \<and>
    (\<forall>i < MAX_NUM_FINGERS. exist (finger (tz w') i) \<longleftrightarrow>
      (\<exists>r \<in> set (outside demo_db_world). nat (row_id r) = i)) \<and>
    (exist (finger (tz w') MAX_NUM_FINGERS) \<longleftrightarrow> exist (finger (tz demo_db_world) MAX_NUM_FINGERS) \<or>
      (\<exists>r \<in> set (outside demo_db_world). nat (row_id r) = MAX_NUM_FINGERS))"
    by (rule active_group_fingers [of demo_env 7 2 "\<lambda>e. e"]) (simp_all add: demo_table demo_rows_ok)
  then show ?thesis by (auto simp: fp_consts demo_row_def)
qed

text \<open>Removing one finger with an index that exists: on success the framework is told that the
  template is removed and 0 is returned; when the database refuses, it gets the error and the
  error code. In both cases the slot in memory is empty, although in the second case the row is
  still in the database.\<close>

theorem remove_one_outcome:
  assumes "fid \<noteq> 0" "finger_index_ok (sint fid)" "\<not> vlock w" "notify_set (vdev w)"
    and "sql_exec E (outside w) (sql_delete_cmd (active_gid (vdev w)) (sint fid)) = (r, e)"
  shows "\<exists>w'. fingerprint_remove E True fid w = Inr (r, w') \<and> \<not> vlock w' \<and> outside w' = e \<and>
    \<not> exist (finger (tz w') (nat (sint fid))) \<and>
    notices w' = notices w @ [if r = 0 then FINGERPRINT_TEMPLATE_REMOVED (sint fid)
                              else FINGERPRINT_ERROR FINGERPRINT_ERROR_UNABLE_TO_REMOVE]"
  using assms
  by (simp add: fingerprint_remove_def locked_remove_def send_remove_notice_def send_error_notice_def
      locked_notify_def seq_def bind_def mutex_lock_vdev_def mutex_unlock_vdev_def notify_def modify_def
      ret_def db_write_to_db_def upd_tz_def upd_finger_def finger_zero_def)

theorem remove_one_outcome_witness:
  "\<exists>w'. fingerprint_remove demo_env True 2 (demo_db_world\<lparr>vdev := (vdev demo_db_world)\<lparr>notify_set := True\<rparr>\<rparr>)
      = Inr (0, w') \<and> outside w' = [] \<and> \<not> exist (finger (tz w') 2)"
  using remove_one_outcome [of 2 "demo_db_world\<lparr>vdev := (vdev demo_db_world)\<lparr>notify_set := True\<rparr>\<rparr>" demo_env 0 "[]"]
  by (auto simp: finger_index_ok_def fp_consts demo_row_def)

text \<open>The index of the finger to remove is not checked: one outside the array of slots, with a
  database that accepts the statement or not, writes outside the array.\<close>

theorem remove_unchecked_index:
  assumes "fid \<noteq> 0" "\<not> finger_index_ok (sint fid)" "\<not> vlock w"
  shows "fingerprint_remove E True fid w = Inl OutOfBounds"
  using assms
  by (simp add: fingerprint_remove_def locked_remove_def seq_def bind_def mutex_lock_vdev_def
      db_write_to_db_def split: prod.split)

theorem remove_unchecked_index_witness: "fingerprint_remove demo_env True 6 demo_db_world = Inl OutOfBounds"
  by (rule remove_unchecked_index) (simp_all add: finger_index_ok_def fp_consts)

end
