(* ===== verification/Ril_Queue.thy ===== *)
theory Ril_Queue
  imports Prelude
begin

text \<open>
  The request queue of the SIM access sockets, \<^verbatim>\<open>ril/libril/rilSocketQueue.h\<close>: a singly linked
  list of heap nodes (\<^verbatim>\<open>SapSocketRequest\<close> of \<^verbatim>\<open>RilSapSocket.h\<close>) whose front is the only entry
  point. The heap maps addresses to live objects; \<^verbatim>\<open>free\<close> unmaps. The queue refines a list of
  addresses, and its contract is the locale \<open>request_store\<close>.
\<close>

section \<open>Heap\<close>

text \<open>Message headers have a generated type; of its message kinds and error codes the sources name
  these.\<close>

datatype MsgType = MsgType_REQUEST | MsgType_RESPONSE | MsgType_UNSOL_RESPONSE

datatype Error = Error_RIL_E_SUCCESS | Error_of int

record MsgHeader =
  hdr_token :: int
  hdr_type :: MsgType
  hdr_id :: int
  hdr_error :: Error
  hdr_payload :: "u8 list"

record SapSocketRequest =
  token :: int
  curr :: "nat option"
  p_next :: "nat option"
  socketId :: nat

text \<open>The front of a queue, the live requests and the live message headers.\<close>

record ril_heap =
  front :: "nat option"
  reqs :: "nat \<rightharpoonup> SapSocketRequest"
  hdrs :: "nat \<rightharpoonup> MsgHeader"

datatype heap_fault = NullPointer | DanglingPointer | WaitsForever

type_synonym 'a run = "heap_fault + 'a \<times> ril_heap"

definition deref :: "('a \<rightharpoonup> 'b) \<Rightarrow> 'a option \<Rightarrow> heap_fault + 'b" where
  "deref h p = (case p of None \<Rightarrow> Inl NullPointer
     | Some a \<Rightarrow> (case h a of None \<Rightarrow> Inl DanglingPointer | Some v \<Rightarrow> Inr v))"

definition and_then :: "heap_fault + 'a \<Rightarrow> ('a \<Rightarrow> heap_fault + 'b) \<Rightarrow> heap_fault + 'b" where
  "and_then r f = (case r of Inl e \<Rightarrow> Inl e | Inr a \<Rightarrow> f a)"

lemma deref_simps [simp]: "deref h None = Inl NullPointer" "h a = Some v \<Longrightarrow> deref h (Some a) = Inr v"
  "h a = None \<Longrightarrow> deref h (Some a) = Inl DanglingPointer"
  by (simp_all add: deref_def)

lemma and_then_simps [simp]: "and_then (Inl e) f = Inl e" "and_then (Inr a) f = f a"
  by (simp_all add: and_then_def)

section \<open>Operations\<close>

definition Ril_queue :: "ril_heap \<Rightarrow> ril_heap" where
  "Ril_queue s = s\<lparr>front := None\<rparr>"

definition empty :: "ril_heap \<Rightarrow> bool" where
  "empty s \<longleftrightarrow> front s = None"

text \<open>On an empty queue \<^verbatim>\<open>dequeue\<close> waits for another thread.\<close>

definition dequeue :: "ril_heap \<Rightarrow> nat run" where
  "dequeue s =
     (if empty s then Inl WaitsForever
      else case front s of None \<Rightarrow> Inl WaitsForever
        | Some temp \<Rightarrow> and_then (deref (reqs s) (front s)) (\<lambda>r.
            if p_next r \<noteq> None then Inr (temp, s\<lparr>front := p_next r\<rparr>) else Inr (temp, s\<lparr>front := None\<rparr>)))"

definition enqueue :: "nat \<Rightarrow> ril_heap \<Rightarrow> unit run" where
  "enqueue request s =
     and_then (deref (reqs s) (Some request)) (\<lambda>r.
       if front s = None
       then Inr ((), s\<lparr>front := Some request, reqs := (reqs s)(request \<mapsto> r\<lparr>p_next := None\<rparr>)\<rparr>)
       else Inr ((), s\<lparr>front := Some request, reqs := (reqs s)(request \<mapsto> r\<lparr>p_next := front s\<rparr>)\<rparr>))"

text \<open>The loop of \<^verbatim>\<open>checkAndDequeue\<close> holds a pointer to a pointer: to \<^verbatim>\<open>front\<close> or to the \<^verbatim>\<open>p_next\<close>
  of a node.\<close>

datatype link = FrontLink | NextLink nat

definition get_link :: "ril_heap \<Rightarrow> link \<Rightarrow> heap_fault + nat option" where
  "get_link s l = (case l of FrontLink \<Rightarrow> Inr (front s)
     | NextLink a \<Rightarrow> and_then (deref (reqs s) (Some a)) (\<lambda>r. Inr (p_next r)))"

definition set_link :: "link \<Rightarrow> nat option \<Rightarrow> ril_heap \<Rightarrow> heap_fault + ril_heap" where
  "set_link l p s = (case l of FrontLink \<Rightarrow> Inr (s\<lparr>front := p\<rparr>)
     | NextLink a \<Rightarrow> and_then (deref (reqs s) (Some a)) (\<lambda>r. Inr (s\<lparr>reqs := (reqs s)(a \<mapsto> r\<lparr>p_next := p\<rparr>)\<rparr>)))"

definition free_request :: "nat \<Rightarrow> ril_heap \<Rightarrow> ril_heap" where
  "free_request a s = s\<lparr>reqs := (reqs s)(a := None)\<rparr>"

definition matches :: "int \<Rightarrow> int \<Rightarrow> ril_heap \<Rightarrow> SapSocketRequest \<Rightarrow> heap_fault + bool" where
  "matches mid tok s r =
     (if tok = token r then and_then (deref (hdrs s) (curr r)) (\<lambda>h. Inr (mid = hdr_id h)) else Inr False)"

text \<open>One round: the result of the loop, or where it looks next.\<close>

definition cd_step :: "int \<Rightarrow> int \<Rightarrow> ril_heap \<Rightarrow> link \<Rightarrow> int run + link" where
  "cd_step mid tok s l =
     (case get_link s l of
        Inl e \<Rightarrow> Inl (Inl e)
      | Inr None \<Rightarrow> Inl (Inr (0, s))
      | Inr (Some a) \<Rightarrow>
          (case and_then (deref (reqs s) (Some a)) (\<lambda>r. and_then (matches mid tok s r) (\<lambda>b. Inr (b, p_next r))) of
             Inl e \<Rightarrow> Inl (Inl e)
           | Inr (b, nxt) \<Rightarrow>
               if b then Inl (and_then (set_link l nxt s) (\<lambda>s'. Inr (1, free_request a s')))
               else Inr (NextLink a)))"

partial_function (option) cd_loop :: "int \<Rightarrow> int \<Rightarrow> ril_heap \<Rightarrow> link \<Rightarrow> int run option" where
  "cd_loop mid tok s l =
     (case cd_step mid tok s l of Inl r \<Rightarrow> Some r | Inr l' \<Rightarrow> cd_loop mid tok s l')"

definition checkAndDequeue :: "int \<Rightarrow> int \<Rightarrow> ril_heap \<Rightarrow> int run option" where
  "checkAndDequeue mid tok s = cd_loop mid tok s FrontLink"

section \<open>The list a queue represents\<close>

fun chain :: "ril_heap \<Rightarrow> nat option \<Rightarrow> nat list \<Rightarrow> bool" where
  "chain s p [] \<longleftrightarrow> p = None"
| "chain s p (a # as) \<longleftrightarrow> p = Some a \<and> (\<exists>r. reqs s a = Some r \<and> chain s (p_next r) as)"

lemma chain_None [simp]: "chain s None as \<longleftrightarrow> as = []"
  by (cases as) auto

lemma chain_frame:
  "(\<And>a. a \<in> set as \<Longrightarrow> reqs s' a = reqs s a) \<Longrightarrow> chain s' p as = chain s p as"
  by (induction as arbitrary: p) auto

text \<open>Every request in the queue is live and points to a live header.\<close>

definition queue_repr :: "ril_heap \<Rightarrow> nat list \<Rightarrow> bool" where
  "queue_repr s as \<longleftrightarrow> chain s (front s) as \<and> distinct as \<and>
     (\<forall>a \<in> set as. \<exists>r h c. reqs s a = Some r \<and> curr r = Some c \<and> hdrs s c = Some h)"

definition key :: "ril_heap \<Rightarrow> nat \<Rightarrow> int \<times> int" where
  "key s a = (hdr_id (the (hdrs s (the (curr (the (reqs s a)))))), token (the (reqs s a)))"

text \<open>The fields of a request that the queue does not touch.\<close>

definition body :: "ril_heap \<Rightarrow> nat \<Rightarrow> (int \<times> nat option \<times> nat) option" where
  "body s a = map_option (\<lambda>r. (token r, curr r, socketId r)) (reqs s a)"

definition fresh :: "ril_heap \<Rightarrow> nat list \<Rightarrow> nat \<Rightarrow> bool" where
  "fresh s as a \<longleftrightarrow> a \<notin> set as \<and> (\<exists>r h c. reqs s a = Some r \<and> curr r = Some c \<and> hdrs s c = Some h)"

lemma fresh_frame:
  assumes "fresh s as b" "body s' b = body s b" "hdrs s' = hdrs s" "b \<noteq> a"
  shows "fresh s' (a # as) b"
proof -
  obtain r h c where "reqs s b = Some r" "curr r = Some c" "hdrs s c = Some h"
    using assms(1) by (auto simp: fresh_def)
  moreover obtain r' where "reqs s' b = Some r'" "curr r' = curr r"
    using assms(2) calculation(1) by (cases "reqs s' b") (auto simp: body_def)
  ultimately show ?thesis using assms by (auto simp: fresh_def)
qed

lemma enqueue_repr:
  assumes "queue_repr s as" "fresh s as a"
  shows "\<exists>s'. enqueue a s = Inr ((), s') \<and> queue_repr s' (a # as) \<and> hdrs s' = hdrs s \<and>
    (\<forall>b. key s' b = key s b \<and> body s' b = body s b)"
proof -
  obtain r h c where r: "reqs s a = Some r" "curr r = Some c" "hdrs s c = Some h"
    using assms(2) by (auto simp: fresh_def)
  let ?s = "s\<lparr>front := Some a, reqs := (reqs s)(a \<mapsto> r\<lparr>p_next := front s\<rparr>)\<rparr>"
  have "enqueue a s = Inr ((), ?s)"
    using r(1) by (cases "front s") (simp_all add: enqueue_def)
  moreover have "chain ?s (front s) as = chain s (front s) as"
    using assms(2) by (intro chain_frame) (auto simp: fresh_def)
  moreover have "key ?s b = key s b" "body ?s b = body s b" for b
    using r by (simp_all add: key_def body_def)
  ultimately show ?thesis
    using assms r by (auto simp: queue_repr_def fresh_def)
qed

lemma dequeue_repr:
  assumes "queue_repr s (a # as)"
  shows "\<exists>s'. dequeue s = Inr (a, s') \<and> queue_repr s' as \<and> reqs s' = reqs s \<and> hdrs s' = hdrs s"
proof -
  obtain r where r: "reqs s a = Some r" "front s = Some a" "chain s (p_next r) as"
    using assms by (auto simp: queue_repr_def)
  let ?s = "s\<lparr>front := p_next r\<rparr>"
  have "dequeue s = Inr (a, ?s)"
    using r by (cases "p_next r") (simp_all add: dequeue_def empty_def)
  moreover have "chain ?s (p_next r) as = chain s (p_next r) as"
    by (rule chain_frame) simp
  ultimately show ?thesis
    using assms r by (auto simp: queue_repr_def)
qed

section \<open>Searching\<close>

definition link_after :: "nat list \<Rightarrow> link" where
  "link_after xs = (if xs = [] then FrontLink else NextLink (last xs))"

lemma link_after_snoc [simp]: "link_after (xs @ [y]) = NextLink y"
  by (simp add: link_after_def)

lemma chain_last:
  "chain s p (xs @ ys) \<Longrightarrow> xs \<noteq> [] \<Longrightarrow> \<exists>r. reqs s (last xs) = Some r \<and> chain s (p_next r) ys"
  by (induction xs arbitrary: p) auto

lemma get_link_after:
  assumes "queue_repr s (xs @ ys)"
  shows "get_link s (link_after xs) = Inr (case ys of [] \<Rightarrow> None | y # _ \<Rightarrow> Some y)"
proof (cases "xs = []")
  case True
  then show ?thesis
    using assms by (cases ys) (auto simp: queue_repr_def get_link_def link_after_def)
next
  case False
  then obtain r where "reqs s (last xs) = Some r" "chain s (p_next r) ys"
    using assms chain_last [of s "front s" xs ys] by (auto simp: queue_repr_def)
  then show ?thesis using False by (cases ys) (auto simp: get_link_def link_after_def)
qed

lemma cd_step_node:
  assumes "queue_repr s (xs @ y # ys)"
  shows "cd_step mid tok s (link_after xs) =
    (if key s y = (mid, tok)
     then Inl (and_then (set_link (link_after xs) (p_next (the (reqs s y))) s) (\<lambda>s'. Inr (1, free_request y s')))
     else Inr (NextLink y))"
proof -
  obtain r h c where "reqs s y = Some r" "curr r = Some c" "hdrs s c = Some h"
    using assms by (auto simp: queue_repr_def)
  then show ?thesis
    using get_link_after [OF assms] by (auto simp: cd_step_def matches_def key_def)
qed

lemma cd_loop_none:
  "queue_repr s (xs @ ys) \<Longrightarrow> \<forall>y \<in> set ys. key s y \<noteq> (mid, tok) \<Longrightarrow>
    cd_loop mid tok s (link_after xs) = Some (Inr (0, s))"
proof (induction ys arbitrary: xs)
  case Nil
  then show ?case
    using get_link_after [of s xs "[]"] by (subst cd_loop.simps) (simp add: cd_step_def)
next
  case (Cons y ys)
  then show ?case
    using Cons.IH [of "xs @ [y]"] by (subst cd_loop.simps) (simp add: cd_step_node)
qed

lemma cd_loop_found:
  "queue_repr s (xs @ us @ b # ys) \<Longrightarrow> \<forall>u \<in> set us. key s u \<noteq> (mid, tok) \<Longrightarrow> key s b = (mid, tok) \<Longrightarrow>
    cd_loop mid tok s (link_after xs) = Some (and_then
      (set_link (link_after (xs @ us)) (p_next (the (reqs s b))) s) (\<lambda>s'. Inr (1, free_request b s')))"
proof (induction us arbitrary: xs)
  case Nil
  then show ?case by (subst cd_loop.simps) (simp add: cd_step_node)
next
  case (Cons u us)
  then show ?case
    using Cons.IH [of "xs @ [u]"] by (subst cd_loop.simps) (simp add: cd_step_node)
qed

lemma unlink_chain:
  "chain s p (xs @ b # ys) \<Longrightarrow> distinct (xs @ b # ys) \<Longrightarrow> xs \<noteq> [] \<Longrightarrow> reqs s (last xs) = Some r \<Longrightarrow>
    chain (s\<lparr>reqs := (reqs s)(last xs \<mapsto> r\<lparr>p_next := p_next (the (reqs s b))\<rparr>, b := None)\<rparr>) p (xs @ ys)"
proof (induction xs arbitrary: p)
  case (Cons x xs)
  define t where "t = s\<lparr>reqs := (reqs s)(last (x # xs) \<mapsto> r\<lparr>p_next := p_next (the (reqs s b))\<rparr>, b := None)\<rparr>"
  have "chain t p ((x # xs) @ ys)"
  proof (cases "xs = []")
    case True
    then obtain rb where rb: "reqs s b = Some rb" "chain s (p_next rb) ys"
      using Cons.prems by auto
    have "chain t (p_next rb) ys"
      using rb(2) by (subst chain_frame [of _ _ s]) (use Cons.prems True in \<open>auto simp: t_def\<close>)
    moreover have "reqs t x = Some (r\<lparr>p_next := p_next rb\<rparr>)"
      using Cons.prems True rb by (simp add: t_def)
    ultimately show ?thesis using Cons.prems True by simp
  next
    case False
    then obtain rx where rx: "reqs s x = Some rx" "chain s (p_next rx) (xs @ b # ys)" "p = Some x"
      using Cons.prems by auto
    have "last (x # xs) = last xs"
      using False by simp
    then have "chain t (p_next rx) (xs @ ys)"
      unfolding t_def by (simp only:) (rule Cons.IH [OF rx(2)], use Cons.prems False in auto)
    moreover have "reqs t x = Some rx"
      using Cons.prems False rx last_in_set [OF False] by (auto simp: t_def)
    ultimately show ?thesis using rx by simp
  qed
  then show ?case by (simp only: t_def)
qed simp

lemma unlink_repr:
  assumes repr: "queue_repr s (xs @ b # ys)"
  shows "\<exists>s'. and_then (set_link (link_after xs) (p_next (the (reqs s b))) s)
      (\<lambda>s'. Inr (1, free_request b s')) = Inr (1::int, s') \<and>
    queue_repr s' (xs @ ys) \<and> hdrs s' = hdrs s \<and> reqs s' b = None \<and>
    (\<forall>a. a \<noteq> b \<longrightarrow> key s' a = key s a \<and> body s' a = body s a)"
proof (cases "xs = []")
  case True
  obtain rb where rb: "reqs s b = Some rb" "chain s (p_next rb) ys"
    using repr True by (auto simp: queue_repr_def)
  let ?s = "s\<lparr>front := p_next rb, reqs := (reqs s)(b := None)\<rparr>"
  have "chain ?s (p_next rb) ys"
    using rb(2) by (subst chain_frame [of _ _ s]) (use repr True in \<open>auto simp: queue_repr_def\<close>)
  then show ?thesis
    using repr True rb by (auto simp: link_after_def set_link_def free_request_def queue_repr_def key_def body_def)
next
  case False
  then have last: "last xs \<in> set (xs @ b # ys)" "last xs \<noteq> b"
    using repr last_in_set [OF False] by (auto simp: queue_repr_def)
  then obtain r h c where r: "reqs s (last xs) = Some r" and live: "curr r = Some c" "hdrs s c = Some h"
    using repr unfolding queue_repr_def by blast
  let ?s = "s\<lparr>reqs := (reqs s)(last xs \<mapsto> r\<lparr>p_next := p_next (the (reqs s b))\<rparr>, b := None)\<rparr>"
  have "chain ?s (front s) (xs @ ys)"
    using repr r False by (intro unlink_chain) (auto simp: queue_repr_def)
  moreover have "\<forall>a \<in> set (xs @ ys). \<exists>r h c. reqs ?s a = Some r \<and> curr r = Some c \<and> hdrs ?s c = Some h"
    using repr r live by (auto simp: queue_repr_def)
  ultimately show ?thesis
    using repr r live False last(2)
    by (auto simp: link_after_def set_link_def free_request_def queue_repr_def key_def body_def)
qed

lemma checkAndDequeue_repr:
  assumes "queue_repr s as"
  shows "(\<forall>a \<in> set as. key s a \<noteq> (mid, tok)) \<Longrightarrow> checkAndDequeue mid tok s = Some (Inr (0, s))"
    and "as = xs @ b # ys \<Longrightarrow> (\<forall>x \<in> set xs. key s x \<noteq> (mid, tok)) \<Longrightarrow> key s b = (mid, tok) \<Longrightarrow>
      \<exists>s'. checkAndDequeue mid tok s = Some (Inr (1, s')) \<and> queue_repr s' (xs @ ys) \<and> hdrs s' = hdrs s \<and>
        reqs s' b = None \<and> (\<forall>a. a \<noteq> b \<longrightarrow> key s' a = key s a \<and> body s' a = body s a)"
  using cd_loop_none [of s "[]" as mid tok] cd_loop_found [of s "[]" xs b ys mid tok] unlink_repr [of s xs b ys] assms
  by (auto simp: checkAndDequeue_def link_after_def)

section \<open>The contract of the queue\<close>

text \<open>A store of requests in the order of \<open>repr\<close>: the last one put in is the first one taken out,
  and removal by label takes the first one with it.\<close>

locale request_store =
  fixes repr :: "'s \<Rightarrow> 'a list \<Rightarrow> bool"
    and usable :: "'s \<Rightarrow> 'a list \<Rightarrow> 'a \<Rightarrow> bool"
    and label :: "'s \<Rightarrow> 'a \<Rightarrow> 'k"
    and enq :: "'a \<Rightarrow> 's \<Rightarrow> 's option"
    and deq :: "'s \<Rightarrow> ('a \<times> 's) option"
    and rem :: "'k \<Rightarrow> 's \<Rightarrow> (bool \<times> 's) option"
  assumes enq_law: "repr s as \<Longrightarrow> usable s as a \<Longrightarrow> \<exists>s'. enq a s = Some s' \<and> repr s' (a # as) \<and>
      (\<forall>b. b \<noteq> a \<longrightarrow> usable s as b \<longrightarrow> usable s' (a # as) b)"
    and deq_law: "repr s (a # as) \<Longrightarrow> \<exists>s'. deq s = Some (a, s') \<and> repr s' as"
    and rem_none: "repr s as \<Longrightarrow> \<forall>a \<in> set as. label s a \<noteq> k \<Longrightarrow> rem k s = Some (False, s)"
    and rem_first: "repr s (xs @ b # ys) \<Longrightarrow> \<forall>x \<in> set xs. label s x \<noteq> k \<Longrightarrow> label s b = k \<Longrightarrow>
      \<exists>s'. rem k s = Some (True, s') \<and> repr s' (xs @ ys)"

fun push_all :: "('a \<Rightarrow> 's \<Rightarrow> 's option) \<Rightarrow> 'a list \<Rightarrow> 's \<Rightarrow> 's option" where
  "push_all enq [] s = Some s"
| "push_all enq (a # as) s = Option.bind (enq a s) (push_all enq as)"

fun pop_all :: "('s \<Rightarrow> ('a \<times> 's) option) \<Rightarrow> nat \<Rightarrow> 's \<Rightarrow> ('a list \<times> 's) option" where
  "pop_all deq 0 s = Some ([], s)"
| "pop_all deq (Suc n) s = Option.bind (deq s) (\<lambda>(a, s').
     map_option (\<lambda>(as, s''). (a # as, s'')) (pop_all deq n s'))"

context request_store
begin

lemma push_all_repr:
  "repr s bs \<Longrightarrow> distinct as \<Longrightarrow> \<forall>a \<in> set as. usable s bs a \<Longrightarrow>
    \<exists>s'. push_all enq as s = Some s' \<and> repr s' (rev as @ bs)"
proof (induction as arbitrary: s bs)
  case (Cons a as)
  then obtain s1 where s1: "enq a s = Some s1" "repr s1 (a # bs)"
    "\<forall>b. b \<noteq> a \<longrightarrow> usable s bs b \<longrightarrow> usable s1 (a # bs) b"
    using enq_law [of s bs a] by auto
  then have "\<forall>b \<in> set as. usable s1 (a # bs) b"
    using Cons.prems by auto
  then show ?case
    using Cons.IH [OF s1(2)] Cons.prems(2) s1(1) by simp
qed simp

lemma pop_all_repr:
  "repr s (as @ bs) \<Longrightarrow> \<exists>s'. pop_all deq (length as) s = Some (as, s') \<and> repr s' bs"
proof (induction as arbitrary: s)
  case (Cons a as)
  then obtain s1 where "deq s = Some (a, s1)" "repr s1 (as @ bs)"
    using deq_law [of s a "as @ bs"] by auto
  then show ?case using Cons.IH [of s1] by auto
qed simp

lemma last_in_first_out:
  assumes "repr s []" "distinct as" "\<forall>a \<in> set as. usable s [] a"
  shows "\<exists>s1 s2. push_all enq as s = Some s1 \<and> pop_all deq (length as) s1 = Some (rev as, s2) \<and> repr s2 []"
proof -
  obtain s1 where s1: "push_all enq as s = Some s1" "repr s1 (rev as)"
    using push_all_repr [OF assms] by auto
  then obtain s2 where "pop_all deq (length (rev as)) s1 = Some (rev as, s2)" "repr s2 []"
    using pop_all_repr [of s1 "rev as" "[]"] by auto
  then show ?thesis using s1(1) by auto
qed

end

definition ok :: "heap_fault + 'a \<Rightarrow> 'a option" where
  "ok r = (case r of Inl _ \<Rightarrow> None | Inr a \<Rightarrow> Some a)"

definition q_enq :: "nat \<Rightarrow> ril_heap \<Rightarrow> ril_heap option" where
  "q_enq a s = map_option snd (ok (enqueue a s))"

definition q_deq :: "ril_heap \<Rightarrow> (nat \<times> ril_heap) option" where
  "q_deq s = ok (dequeue s)"

definition q_rem :: "int \<times> int \<Rightarrow> ril_heap \<Rightarrow> (bool \<times> ril_heap) option" where
  "q_rem k s = Option.bind (checkAndDequeue (fst k) (snd k) s) (\<lambda>r. map_option (\<lambda>(n, s'). (n = 1, s')) (ok r))"

interpretation sapq: request_store queue_repr fresh key q_enq q_deq q_rem
proof unfold_locales
  fix s as a
  assume "queue_repr s as" "fresh s as a"
  then show "\<exists>s'. q_enq a s = Some s' \<and> queue_repr s' (a # as) \<and>
      (\<forall>b. b \<noteq> a \<longrightarrow> fresh s as b \<longrightarrow> fresh s' (a # as) b)"
    using enqueue_repr [of s as a] fresh_frame by (fastforce simp: q_enq_def ok_def)
next
  fix s a as
  assume "queue_repr s (a # as)"
  then show "\<exists>s'. q_deq s = Some (a, s') \<and> queue_repr s' as"
    using dequeue_repr by (fastforce simp: q_deq_def ok_def)
next
  fix s as k
  assume "queue_repr s as" "\<forall>a \<in> set as. key s a \<noteq> k"
  then show "q_rem k s = Some (False, s)"
    using checkAndDequeue_repr(1) [of s as "fst k" "snd k"] by (simp add: q_rem_def ok_def)
next
  fix s xs b ys k
  assume "queue_repr s (xs @ b # ys)" "\<forall>x \<in> set xs. key s x \<noteq> k" "key s b = k"
  then show "\<exists>s'. q_rem k s = Some (True, s') \<and> queue_repr s' (xs @ ys)"
    using checkAndDequeue_repr(2) [of s "xs @ b # ys" xs b ys "fst k" "snd k"]
    by (auto simp: q_rem_def ok_def)
qed

section \<open>Properties\<close>

definition two_requests :: ril_heap where
  "two_requests = \<lparr>front = None,
     reqs = [1 \<mapsto> \<lparr>token = 7, curr = Some 11, p_next = None, socketId = 0\<rparr>,
             2 \<mapsto> \<lparr>token = 8, curr = Some 12, p_next = None, socketId = 0\<rparr>],
     hdrs = [11 \<mapsto> \<lparr>hdr_token = 7, hdr_type = MsgType_REQUEST, hdr_id = 3, hdr_error = Error_RIL_E_SUCCESS, hdr_payload = []\<rparr>,
             12 \<mapsto> \<lparr>hdr_token = 8, hdr_type = MsgType_REQUEST, hdr_id = 3, hdr_error = Error_RIL_E_SUCCESS, hdr_payload = []\<rparr>]\<rparr>"

text \<open>C32. The queue of a socket is a stack: requests put into an empty queue come out in the reverse
  order, each exactly once, and no step faults or waits.\<close>

theorem queue_last_in_first_out:
  assumes "queue_repr s []" "distinct as" "\<forall>a \<in> set as. fresh s [] a"
  shows "\<exists>s1 s2. push_all (\<lambda>a s. map_option snd (ok (enqueue a s))) as s = Some s1 \<and>
    pop_all (\<lambda>s. ok (dequeue s)) (length as) s1 = Some (rev as, s2) \<and> queue_repr s2 []"
  using sapq.last_in_first_out [OF assms] by (simp add: q_enq_def [abs_def] q_deq_def [abs_def])

theorem queue_last_in_first_out_witness:
  "\<exists>s1 s2. push_all (\<lambda>a s. map_option snd (ok (enqueue a s))) [1, 2] two_requests = Some s1 \<and>
    pop_all (\<lambda>s. ok (dequeue s)) 2 s1 = Some ([2, 1], s2)"
proof -
  have len: "length [1 :: nat, 2] = 2" "rev [1 :: nat, 2] = [2, 1]"
    by simp_all
  have "queue_repr two_requests []" "distinct [1 :: nat, 2]" "\<forall>a \<in> set [1, 2]. fresh two_requests [] a"
    by (simp_all add: queue_repr_def fresh_def two_requests_def)
  from queue_last_in_first_out [OF this] show ?thesis
    unfolding len by blast
qed

text \<open>C22. Looking for a request by message id and token ends on every well-formed queue: it removes
  and frees the first request with that id and token and leaves the others linked in their order,
  or reports 0 and changes nothing when there is none.\<close>

theorem checkAndDequeue_first:
  assumes "queue_repr s as"
  shows "if \<exists>a \<in> set as. key s a = (mid, tok)
    then \<exists>xs b ys s'. as = xs @ b # ys \<and> (\<forall>x \<in> set xs. key s x \<noteq> (mid, tok)) \<and> key s b = (mid, tok) \<and>
      checkAndDequeue mid tok s = Some (Inr (1, s')) \<and> queue_repr s' (xs @ ys) \<and> reqs s' b = None
    else checkAndDequeue mid tok s = Some (Inr (0, s))"
proof (cases "\<exists>a \<in> set as. key s a = (mid, tok)")
  case True
  obtain xs b ys where as: "as = xs @ b # ys" "\<forall>x \<in> set xs. key s x \<noteq> (mid, tok)" "key s b = (mid, tok)"
    using split_list_first_prop [OF True] by auto
  then obtain s' where "checkAndDequeue mid tok s = Some (Inr (1, s'))" "queue_repr s' (xs @ ys)" "reqs s' b = None"
    using checkAndDequeue_repr(2) [OF assms as] by auto
  then show ?thesis using True as by auto
next
  case False
  then have "\<forall>a \<in> set as. key s a \<noteq> (mid, tok)"
    by auto
  then show ?thesis using checkAndDequeue_repr(1) [OF assms, of mid tok] False by simp
qed

theorem checkAndDequeue_first_witness:
  "\<exists>s'. checkAndDequeue 3 8 (two_requests\<lparr>front := Some 2\<rparr>) = Some (Inr (1, s')) \<and> queue_repr s' []"
proof -
  have repr: "queue_repr (two_requests\<lparr>front := Some 2\<rparr>) [2]"
    by (simp add: queue_repr_def two_requests_def)
  have "key (two_requests\<lparr>front := Some 2\<rparr>) 2 = (3, 8)"
    by (simp add: key_def two_requests_def)
  then show ?thesis
    using checkAndDequeue_first [OF repr, of 3 8] by (auto simp: Cons_eq_append_conv)
qed

end
