(* ===== verification/Ril_Sap.thy ===== *)
theory Ril_Sap
  imports Ril_Queue
begin

text \<open>
  The SIM access sockets of \<^verbatim>\<open>ril/libril/RilSapSocket.cpp\<close>: the list of sockets, dispatching a
  request to the vendor library and completing it. A request lives from \<^verbatim>\<open>dispatchRequest\<close> to
  \<^verbatim>\<open>onRequestComplete\<close> in the queue of pending responses. The vendor library, \<^verbatim>\<open>malloc\<close> and the
  SAP service are seen through their arguments: the address an allocation returns and the calls
  that are made.
\<close>

section \<open>State\<close>

text \<open>\<open>pending\<close> is the queue of pending responses with the heap, \<open>requested\<close> the calls of
  \<^verbatim>\<open>uimFuncs->onRequest\<close> (message id, payload and token), \<open>responded\<close> the messages handed to
  \<^verbatim>\<open>sap::processResponse\<close>, \<open>unsol\<close> those handed to \<^verbatim>\<open>sap::processUnsolResponse\<close>.\<close>

record sap_socket =
  sock_name :: string
  sock_id :: nat
  uimFuncs :: bool
  pending :: ril_heap
  requested :: "(int \<times> u8 list \<times> nat) list"
  responded :: "MsgHeader list"
  unsol :: "MsgHeader list"

definition empty_heap :: ril_heap where
  "empty_heap = Ril_queue \<lparr>front = None, reqs = Map.empty, hdrs = Map.empty\<rparr>"

definition RilSapSocket :: "string \<Rightarrow> nat \<Rightarrow> bool \<Rightarrow> sap_socket" where
  "RilSapSocket socketName sockid inputUimFuncs = \<lparr>sock_name = socketName, sock_id = sockid,
     uimFuncs = inputUimFuncs, pending = empty_heap, requested = [], responded = [], unsol = []\<rparr>"

section \<open>The list of sockets\<close>

fun getSocketById :: "sap_socket list \<Rightarrow> nat \<Rightarrow> sap_socket option" where
  "getSocketById [] sockid = None"
| "getSocketById (s # current) sockid = (if sockid = sock_id s then Some s else getSocketById current sockid)"

fun SocketExists :: "sap_socket list \<Rightarrow> string \<Rightarrow> bool" where
  "SocketExists [] socketName = False"
| "SocketExists (s # current) socketName = (sock_name s = socketName \<or> SocketExists current socketName)"

text \<open>\<open>mem_ok\<close> is whether the list item could be allocated.\<close>

definition addSocketToList :: "bool \<Rightarrow> string \<Rightarrow> nat \<Rightarrow> bool \<Rightarrow> sap_socket list \<Rightarrow> sap_socket list" where
  "addSocketToList mem_ok socketName socketid funcs head =
     (if \<not> SocketExists head socketName
      then if \<not> mem_ok then head else head @ [RilSapSocket socketName socketid funcs]
      else head)"

definition RIL_SERVICE_NAME :: "nat \<Rightarrow> string" where
  "RIL_SERVICE_NAME i = [''slot1'', ''slot2'', ''slot3'', ''slot4''] ! i"

text \<open>\<^verbatim>\<open>RIL_SOCKET_1\<close> to \<^verbatim>\<open>RIL_SOCKET_4\<close> are 0 to 3; \<open>SIM_COUNT\<close> is a compile-time constant.\<close>

definition init_slot :: "bool \<Rightarrow> string \<Rightarrow> bool \<Rightarrow> nat \<Rightarrow> sap_socket list \<Rightarrow> sap_socket list" where
  "init_slot mem_ok socketName funcs i head =
     (if socketName = RIL_SERVICE_NAME i
      then if \<not> SocketExists head socketName then addSocketToList mem_ok socketName i funcs head else head
      else head)"

definition initSapSocket :: "nat \<Rightarrow> bool \<Rightarrow> string \<Rightarrow> bool \<Rightarrow> sap_socket list \<Rightarrow> sap_socket list" where
  "initSapSocket SIM_COUNT mem_ok socketName funcs head =
     fold (init_slot mem_ok socketName funcs) [0..<min 4 (max 1 SIM_COUNT)] head"

section \<open>Requests\<close>

definition free_header :: "nat \<Rightarrow> ril_heap \<Rightarrow> ril_heap" where
  "free_header c s = s\<lparr>hdrs := (hdrs s)(c := None)\<rparr>"

text \<open>\<open>req\<close> is the address of the message, \<open>mem\<close> what \<^verbatim>\<open>malloc\<close> returns.\<close>

definition dispatchRequest :: "nat option \<Rightarrow> nat \<Rightarrow> sap_socket \<Rightarrow> heap_fault + sap_socket" where
  "dispatchRequest mem req s =
     (case mem of
        None \<Rightarrow> Inr (s\<lparr>pending := free_header req (pending s)\<rparr>)
      | Some currRequest \<Rightarrow>
          and_then (deref (hdrs (pending s)) (Some req)) (\<lambda>h.
          let p = (pending s)\<lparr>reqs := (reqs (pending s))(currRequest \<mapsto>
                     \<lparr>token = hdr_token h, curr = Some req, p_next = None, socketId = sock_id s\<rparr>)\<rparr> in
          and_then (enqueue currRequest p) (\<lambda>(_, p').
          Inr (if uimFuncs s
               then s\<lparr>pending := p', requested := requested s @ [(hdr_id h, hdr_payload h, currRequest)]\<rparr>
               else s\<lparr>pending := p'\<rparr>))))"

text \<open>\<open>calloc_ok\<close> is whether the response could be allocated. The answer of \<^verbatim>\<open>checkAndDequeue\<close> is only
  logged; \<open>None\<close> is a loop that does not end.\<close>

definition onRequestComplete :: "bool \<Rightarrow> nat option \<Rightarrow> int \<Rightarrow> u8 list \<Rightarrow> sap_socket \<Rightarrow>
    (heap_fault + sap_socket) option" where
  "onRequestComplete calloc_ok t e response s =
     (case t of
        None \<Rightarrow> Some (Inr s)
      | Some a \<Rightarrow>
          (case deref (reqs (pending s)) (Some a) of
             Inl x \<Rightarrow> Some (Inl x)
           | Inr request \<Rightarrow>
               (case curr request of
                  None \<Rightarrow> Some (Inr s)
                | Some c \<Rightarrow>
                    (case deref (hdrs (pending s)) (Some c) of
                       Inl x \<Rightarrow> Some (Inl x)
                     | Inr hdr \<Rightarrow>
                         let rsp = \<lparr>hdr_token = hdr_token hdr, hdr_type = MsgType_RESPONSE, hdr_id = hdr_id hdr,
                                    hdr_error = Error_of e, hdr_payload = response\<rparr>;
                             s1 = (if calloc_ok then s\<lparr>responded := responded s @ [rsp]\<rparr> else s)
                         in map_option (\<lambda>r. and_then r (\<lambda>(_, p).
                              Inr (s1\<lparr>pending := free_header c p\<rparr>)))
                              (checkAndDequeue (hdr_id hdr) (hdr_token hdr) (pending s1))))))"

text \<open>An unsolicited message. Its token is never set: \<open>garbage\<close> is what the stack holds.\<close>

definition onUnsolicitedResponse :: "bool \<Rightarrow> int \<Rightarrow> int \<Rightarrow> u8 list \<Rightarrow> sap_socket \<Rightarrow> sap_socket" where
  "onUnsolicitedResponse calloc_ok garbage unsolResponse data s =
     (if data \<noteq> []
      then if \<not> calloc_ok then s
           else s\<lparr>unsol := unsol s @ [\<lparr>hdr_token = garbage, hdr_type = MsgType_UNSOL_RESPONSE,
                    hdr_id = unsolResponse, hdr_error = Error_RIL_E_SUCCESS, hdr_payload = data\<rparr>]\<rparr>
      else s)"

text \<open>The same on the first socket of the list with the id, \<open>single\<close> for builds with one SIM, which
  always take the first slot.\<close>

fun on_socket :: "nat \<Rightarrow> (sap_socket \<Rightarrow> sap_socket) \<Rightarrow> sap_socket list \<Rightarrow> sap_socket list" where
  "on_socket i f [] = []"
| "on_socket i f (s # current) = (if i = sock_id s then f s # current else s # on_socket i f current)"

definition sOnUnsolicitedResponse :: "bool \<Rightarrow> bool \<Rightarrow> int \<Rightarrow> int \<Rightarrow> u8 list \<Rightarrow> nat \<Rightarrow> sap_socket list \<Rightarrow> sap_socket list" where
  "sOnUnsolicitedResponse single calloc_ok garbage unsolResponse data sockid head =
     on_socket (if single then 0 else sockid) (onUnsolicitedResponse calloc_ok garbage unsolResponse data) head"

section \<open>Invariant\<close>

text \<open>The pending requests \<open>as\<close>: their tokens are those of their messages, no two share a message,
  and no two carry the same message id and token.\<close>

definition msg_of :: "ril_heap \<Rightarrow> nat \<Rightarrow> nat" where
  "msg_of p a = the (curr (the (reqs p a)))"

definition sap_inv :: "sap_socket \<Rightarrow> nat list \<Rightarrow> bool" where
  "sap_inv s as \<longleftrightarrow> queue_repr (pending s) as \<and> distinct (map (msg_of (pending s)) as) \<and>
     distinct (map (key (pending s)) as) \<and>
     (\<forall>a \<in> set as. token (the (reqs (pending s) a)) = hdr_token (the (hdrs (pending s) (msg_of (pending s) a))))"

lemma body_same:
  assumes "body q a = body p a"
  shows "msg_of q a = msg_of p a" "token (the (reqs q a)) = token (the (reqs p a))"
  using assms by (cases "reqs p a"; cases "reqs q a"; auto simp: body_def msg_of_def)+

lemma queue_repr_frame:
  assumes "queue_repr p as" "front q = front p" "\<And>a. a \<in> set as \<Longrightarrow> reqs q a = reqs p a"
    and "\<And>a. a \<in> set as \<Longrightarrow> hdrs q (msg_of p a) = hdrs p (msg_of p a)"
  shows "queue_repr q as"
proof -
  have "chain q (front q) as"
    using assms by (simp add: queue_repr_def chain_frame [of as q p])
  moreover have "\<exists>r h c. reqs q a = Some r \<and> curr r = Some c \<and> hdrs q c = Some h" if a: "a \<in> set as" for a
  proof -
    obtain r h c where "reqs p a = Some r" "curr r = Some c" "hdrs p c = Some h"
      using assms(1) a unfolding queue_repr_def by blast
    then show ?thesis using assms(3,4) [OF a] by (auto simp: msg_of_def)
  qed
  ultimately show ?thesis using assms(1) by (simp add: queue_repr_def)
qed

lemma sap_live:
  assumes "sap_inv s as" "a \<in> set as"
  obtains r h where "reqs (pending s) a = Some r" "curr r = Some (msg_of (pending s) a)"
    "hdrs (pending s) (msg_of (pending s) a) = Some h" "token r = hdr_token h"
    "key (pending s) a = (hdr_id h, hdr_token h)"
proof -
  obtain r h c where r: "reqs (pending s) a = Some r" "curr r = Some c" "hdrs (pending s) c = Some h"
    using assms unfolding sap_inv_def queue_repr_def by blast
  then have c: "msg_of (pending s) a = c"
    by (simp add: msg_of_def)
  have "token r = hdr_token h"
    using assms r c unfolding sap_inv_def by auto
  then show ?thesis
    using that [of r h] r c by (simp add: key_def)
qed

lemma dispatch_inv:
  assumes inv: "sap_inv s as" and new: "reqs (pending s) a = None"
    and h: "hdrs (pending s) c = Some h" "c \<notin> set (map (msg_of (pending s)) as)"
    and k: "(hdr_id h, hdr_token h) \<notin> set (map (key (pending s)) as)"
  shows "\<exists>s'. dispatchRequest (Some a) c s = Inr s' \<and> sap_inv s' (a # as) \<and>
    requested s' = (if uimFuncs s then requested s @ [(hdr_id h, hdr_payload h, a)] else requested s) \<and>
    key (pending s') a = (hdr_id h, hdr_token h) \<and> msg_of (pending s') a = c"
proof -
  define p where "p = (pending s)\<lparr>reqs := (reqs (pending s))(a \<mapsto>
      \<lparr>token = hdr_token h, curr = Some c, p_next = None, socketId = sock_id s\<rparr>)\<rparr>"
  have a: "a \<notin> set as"
    using sap_live [OF inv, of a] new by (metis option.distinct(1))
  have "queue_repr p as"
    by (rule queue_repr_frame [of "pending s"]) (use inv a in \<open>auto simp: p_def sap_inv_def\<close>)
  moreover have "fresh p as a"
    using a h(1) by (simp add: fresh_def p_def)
  ultimately obtain p' where p': "enqueue a p = Inr ((), p')" "queue_repr p' (a # as)" "hdrs p' = hdrs p"
    "\<And>b. key p' b = key p b" "\<And>b. body p' b = body p b"
    using enqueue_repr [of p as a] by blast
  have old: "key p' b = key (pending s) b" "msg_of p' b = msg_of (pending s) b"
    "token (the (reqs p' b)) = token (the (reqs (pending s) b))" if "b \<in> set as" for b
  proof -
    have "reqs p b = reqs (pending s) b" "hdrs p = hdrs (pending s)"
      using that a by (auto simp: p_def)
    then show "key p' b = key (pending s) b" "msg_of p' b = msg_of (pending s) b"
      "token (the (reqs p' b)) = token (the (reqs (pending s) b))"
      unfolding p'(4) body_same [OF p'(5)] by (simp_all add: key_def msg_of_def)
  qed
  have new: "key p' a = (hdr_id h, hdr_token h)" "msg_of p' a = c" "token (the (reqs p' a)) = hdr_token h"
    unfolding p'(4) body_same [OF p'(5)] using h(1) by (simp_all add: p_def key_def msg_of_def)
  have hd: "hdrs p' = hdrs (pending s)"
    using p'(3) by (simp add: p_def)
  have maps: "map (key p') as = map (key (pending s)) as" "map (msg_of p') as = map (msg_of (pending s)) as"
    by (simp_all add: old)
  have images: "key p' ` set as = key (pending s) ` set as" "msg_of p' ` set as = msg_of (pending s) ` set as"
    by (simp_all add: old)
  have "sap_inv (s\<lparr>pending := p'\<rparr>) (a # as)"
    using inv h k new p'(2) old unfolding sap_inv_def by (simp add: hd maps images)
  then show ?thesis
    using h(1) p'(1) new by (auto simp: dispatchRequest_def p_def sap_inv_def)
qed

lemma complete_inv:
  assumes inv: "sap_inv s (xs @ a # ys)"
  shows "\<exists>s'. onRequestComplete calloc_ok (Some a) e response s = Some (Inr s') \<and> sap_inv s' (xs @ ys) \<and>
    reqs (pending s') a = None \<and> hdrs (pending s') = (hdrs (pending s))(msg_of (pending s) a := None) \<and>
    responded s' = (if calloc_ok then responded s @ [\<lparr>hdr_token = snd (key (pending s) a),
      hdr_type = MsgType_RESPONSE, hdr_id = fst (key (pending s) a), hdr_error = Error_of e,
      hdr_payload = response\<rparr>] else responded s)"
proof -
  let ?p = "pending s"
  obtain r h where r: "reqs ?p a = Some r" "curr r = Some (msg_of ?p a)" "hdrs ?p (msg_of ?p a) = Some h"
    "token r = hdr_token h" "key ?p a = (hdr_id h, hdr_token h)"
    using sap_live [OF inv, of a] by auto
  have repr: "queue_repr ?p (xs @ a # ys)" and keys: "distinct (map (key ?p) (xs @ a # ys))"
    and msgs: "distinct (map (msg_of ?p) (xs @ a # ys))"
    using inv by (simp_all add: sap_inv_def)
  have "\<forall>x \<in> set xs. key ?p x \<noteq> (hdr_id h, hdr_token h)"
    using keys r(5) by (auto simp: image_iff)
  then obtain p' where p': "checkAndDequeue (hdr_id h) (hdr_token h) ?p = Some (Inr (1, p'))"
    "queue_repr p' (xs @ ys)" "hdrs p' = hdrs ?p" "reqs p' a = None"
    and same: "\<And>b. b \<noteq> a \<Longrightarrow> key p' b = key ?p b \<and> body p' b = body ?p b"
    using checkAndDequeue_repr(2) [OF repr refl _ r(5)] by blast
  define q where "q = free_header (msg_of ?p a) p'"
  have "msg_of ?p a \<notin> msg_of ?p ` set (xs @ ys)"
    using msgs by auto
  then have out: "b \<noteq> a" "msg_of ?p b \<noteq> msg_of ?p a" if "b \<in> set (xs @ ys)" for b
    using that by (metis imageI)+
  have same': "msg_of p' b = msg_of ?p b" "token (the (reqs p' b)) = token (the (reqs ?p b))"
    if "b \<in> set (xs @ ys)" for b
    using body_same [of p' b ?p] same out [OF that] by auto
  have qr: "queue_repr q (xs @ ys)"
    by (rule queue_repr_frame [OF p'(2)]) (use out same' p'(3) in \<open>auto simp: q_def free_header_def\<close>)
  have kq: "key q b = key ?p b" "msg_of q b = msg_of ?p b" "token (the (reqs q b)) = token (the (reqs ?p b))"
    "hdrs q (msg_of q b) = hdrs ?p (msg_of ?p b)" if "b \<in> set (xs @ ys)" for b
    using out [OF that] same' [OF that] same [of b] p'(3)
    by (auto simp: q_def free_header_def key_def msg_of_def)
  have mp: "map (key q) (xs @ ys) = map (key ?p) (xs @ ys)" "map (msg_of q) (xs @ ys) = map (msg_of ?p) (xs @ ys)"
    using kq by simp_all
  have dd: "distinct (map (key ?p) (xs @ ys))" "distinct (map (msg_of ?p) (xs @ ys))"
    using keys msgs by auto
  have tok: "token (the (reqs q b)) = hdr_token (the (hdrs q (msg_of q b)))" if "b \<in> set (xs @ ys)" for b
    using kq [OF that] that inv by (auto simp: sap_inv_def)
  have inv': "sap_inv (s'\<lparr>pending := q\<rparr>) (xs @ ys)" for s'
  proof -
    have sel: "pending (s'\<lparr>pending := q\<rparr>) = q" by simp
    show ?thesis unfolding sap_inv_def sel mp using qr dd tok by blast
  qed
  show ?thesis
    using r p' inv' by (simp add: onRequestComplete_def Let_def q_def free_header_def)
qed

section \<open>Properties\<close>

text \<open>Dispatching and completing: a dispatched request is pending and handed to the vendor library
  with its message id, payload and address; completing it hands over one response with the token,
  the id and the result, takes exactly this request out of the pending ones, frees it and its
  message, and faults nowhere. Requests stay distinguishable throughout.\<close>

theorem dispatch_then_complete:
  assumes "sap_inv s as" "reqs (pending s) a = None" "hdrs (pending s) c = Some h"
    and "c \<notin> set (map (msg_of (pending s)) as)" "(hdr_id h, hdr_token h) \<notin> set (map (key (pending s)) as)"
  shows "\<exists>s1 s2. dispatchRequest (Some a) c s = Inr s1 \<and> sap_inv s1 (a # as) \<and>
    requested s1 = (if uimFuncs s then requested s @ [(hdr_id h, hdr_payload h, a)] else requested s) \<and>
    onRequestComplete True (Some a) e response s1 = Some (Inr s2) \<and> sap_inv s2 as \<and>
    reqs (pending s2) a = None \<and> hdrs (pending s2) c = None \<and>
    responded s2 = responded s1 @ [\<lparr>hdr_token = hdr_token h, hdr_type = MsgType_RESPONSE,
      hdr_id = hdr_id h, hdr_error = Error_of e, hdr_payload = response\<rparr>]"
proof -
  obtain s1 where s1: "dispatchRequest (Some a) c s = Inr s1" "sap_inv s1 (a # as)"
    "requested s1 = (if uimFuncs s then requested s @ [(hdr_id h, hdr_payload h, a)] else requested s)"
    "key (pending s1) a = (hdr_id h, hdr_token h)" "msg_of (pending s1) a = c"
    using dispatch_inv [OF assms] by blast
  obtain s2 where "onRequestComplete True (Some a) e response s1 = Some (Inr s2)" "sap_inv s2 as"
    "reqs (pending s2) a = None" "hdrs (pending s2) = (hdrs (pending s1))(msg_of (pending s1) a := None)"
    "responded s2 = responded s1 @ [\<lparr>hdr_token = snd (key (pending s1) a),
      hdr_type = MsgType_RESPONSE, hdr_id = fst (key (pending s1) a), hdr_error = Error_of e,
      hdr_payload = response\<rparr>]"
    using complete_inv [of s1 "[]" a as True e response] s1(2) by auto
  then show ?thesis using s1 by auto
qed

definition one_message :: sap_socket where
  "one_message = (RilSapSocket ''slot1'' 0 True)\<lparr>pending := empty_heap\<lparr>hdrs := [11 \<mapsto>
     \<lparr>hdr_token = 7, hdr_type = MsgType_REQUEST, hdr_id = 3, hdr_error = Error_RIL_E_SUCCESS, hdr_payload = [1, 2]\<rparr>]\<rparr>\<rparr>"

theorem dispatch_then_complete_witness:
  "\<exists>s1 s2. dispatchRequest (Some 5) 11 one_message = Inr s1 \<and> requested s1 = [(3, [1, 2], 5)] \<and>
    onRequestComplete True (Some 5) 0 [9] s1 = Some (Inr s2) \<and> hdrs (pending s2) 11 = None"
  using dispatch_then_complete [of one_message "[]" 5 11 _ 0 "[9]"]
  by (auto simp: sap_inv_def queue_repr_def one_message_def RilSapSocket_def empty_heap_def Ril_queue_def)

text \<open>When two pending requests carry the same message id and token, completing the older one frees
  the newer one, which is found first, and the older one stays in the queue without its message:
  completing it again reads freed memory.\<close>

theorem same_token_frees_wrong_request:
  assumes repr: "queue_repr (pending s) (b # xs @ [a])" and key: "key (pending s) a = key (pending s) b"
    and msgs: "msg_of (pending s) a \<noteq> msg_of (pending s) b"
    and tok: "token (the (reqs (pending s) a)) = hdr_token (the (hdrs (pending s) (msg_of (pending s) a)))"
  shows "\<exists>s'. onRequestComplete calloc_ok (Some a) e response s = Some (Inr s') \<and>
    reqs (pending s') b = None \<and> onRequestComplete calloc_ok (Some a) e response s' = Some (Inl DanglingPointer)"
proof -
  let ?p = "pending s"
  obtain r h c where r: "reqs ?p a = Some r" "curr r = Some c" "hdrs ?p c = Some h"
    using repr unfolding queue_repr_def by auto
  then have k: "key ?p b = (hdr_id h, hdr_token h)" "msg_of ?p a = c"
    using key tok by (simp_all add: key_def msg_of_def)
  have ne: "a \<noteq> b"
    using repr by (auto simp: queue_repr_def)
  obtain p' where p': "checkAndDequeue (hdr_id h) (hdr_token h) ?p = Some (Inr (1, p'))"
    "hdrs p' = hdrs ?p" "reqs p' b = None" "body p' a = body ?p a"
    using checkAndDequeue_repr(2) [OF repr, of "[]" b "xs @ [a]"] k(1) ne by auto
  obtain r' where r': "reqs p' a = Some r'" "curr r' = Some c"
    using p'(4) r by (cases "reqs p' a") (auto simp: body_def)
  show ?thesis
    using r r' p' by (auto simp: onRequestComplete_def Let_def free_header_def)
qed

definition same_tokens :: sap_socket where
  "same_tokens = (RilSapSocket ''slot1'' 0 True)\<lparr>pending := \<lparr>front = Some 2,
     reqs = [1 \<mapsto> \<lparr>token = 7, curr = Some 11, p_next = None, socketId = 0\<rparr>,
             2 \<mapsto> \<lparr>token = 7, curr = Some 12, p_next = Some 1, socketId = 0\<rparr>],
     hdrs = [11 \<mapsto> \<lparr>hdr_token = 7, hdr_type = MsgType_REQUEST, hdr_id = 3, hdr_error = Error_RIL_E_SUCCESS, hdr_payload = []\<rparr>,
             12 \<mapsto> \<lparr>hdr_token = 7, hdr_type = MsgType_REQUEST, hdr_id = 3, hdr_error = Error_RIL_E_SUCCESS, hdr_payload = []\<rparr>]\<rparr>\<rparr>"

theorem same_token_frees_wrong_request_witness:
  "\<exists>s'. onRequestComplete True (Some 1) 0 [] same_tokens = Some (Inr s') \<and> reqs (pending s') 2 = None \<and>
    onRequestComplete True (Some 1) 0 [] s' = Some (Inl DanglingPointer)"
  by (rule same_token_frees_wrong_request [of _ 2 "[]"])
    (simp_all add: same_tokens_def queue_repr_def key_def msg_of_def)

lemma exists_append [simp]: "SocketExists (xs @ ys) n \<longleftrightarrow> SocketExists xs n \<or> SocketExists ys n"
  by (induction xs) auto

lemma get_append:
  "getSocketById (xs @ [s]) i = (case getSocketById xs i of None \<Rightarrow> if i = sock_id s then Some s else None | Some t \<Rightarrow> Some t)"
  by (induction xs) auto

lemma get_none: "\<forall>s \<in> set xs. sock_id s \<noteq> i \<Longrightarrow> getSocketById xs i = None"
  by (induction xs) auto

lemma service_name_inj: "i < 4 \<Longrightarrow> j < 4 \<Longrightarrow> RIL_SERVICE_NAME i = RIL_SERVICE_NAME j \<Longrightarrow> i = j"
  unfolding RIL_SERVICE_NAME_def by (subst (asm) nth_eq_iff_index_eq) simp_all

lemma init_slots:
  "i < 4 \<Longrightarrow> \<forall>j \<in> set js. j < 4 \<Longrightarrow> fold (init_slot mo (RIL_SERVICE_NAME i) f) js head =
     (if i \<in> set js then init_slot mo (RIL_SERVICE_NAME i) f i head else head)"
proof (induction js arbitrary: head)
  case (Cons j js)
  show ?case
  proof (cases "j = i")
    case True
    then show ?thesis
      using Cons by (auto simp: init_slot_def addSocketToList_def RilSapSocket_def)
  next
    case False
    then have "init_slot mo (RIL_SERVICE_NAME i) f j head = head"
      using Cons.prems service_name_inj by (auto simp: init_slot_def)
    then show ?thesis using Cons False by simp
  qed
qed simp

text \<open>Initialising a socket by the service name of one of the configured slots: it is found by its id
  afterwards, and initialising it again changes nothing.\<close>

theorem initSapSocket_registers:
  assumes "i < min 4 (max 1 SIM_COUNT)" "\<not> SocketExists head (RIL_SERVICE_NAME i)" "\<forall>s \<in> set head. sock_id s \<noteq> i"
  shows "let head' = initSapSocket SIM_COUNT True (RIL_SERVICE_NAME i) funcs head in
    getSocketById head' i = Some (RilSapSocket (RIL_SERVICE_NAME i) i funcs) \<and>
    (\<forall>j. j \<noteq> i \<longrightarrow> getSocketById head' j = getSocketById head j) \<and>
    initSapSocket SIM_COUNT True (RIL_SERVICE_NAME i) funcs head' = head'"
proof -
  have init: "initSapSocket SIM_COUNT True (RIL_SERVICE_NAME i) funcs hd = init_slot True (RIL_SERVICE_NAME i) funcs i hd"
    for hd
    using assms(1) init_slots [of i "[0..<min 4 (max 1 SIM_COUNT)]" True funcs hd] by (simp add: initSapSocket_def)
  show ?thesis
    using assms(2,3)
    by (auto simp: Let_def init init_slot_def addSocketToList_def get_append get_none RilSapSocket_def
        split: option.split)
qed

theorem initSapSocket_registers_witness:
  "getSocketById (initSapSocket 2 True ''slot2'' True []) 1 = Some (RilSapSocket ''slot2'' 1 True)"
proof -
  have "RIL_SERVICE_NAME 1 = ''slot2''"
    by (simp add: RIL_SERVICE_NAME_def)
  then show ?thesis
    using initSapSocket_registers [of 1 2 "[]" True] by (simp add: Let_def)
qed

end
