(* ===== verification/Ril_Tables.thy ===== *)
theory Ril_Tables
  imports Prelude
begin

text \<open>
  The tables of the radio daemon: the commands of \<^verbatim>\<open>ril/libril/ril_commands.h\<close>, the unsolicited
  responses of \<^verbatim>\<open>ril_unsol_commands.h\<close>, the error codes of \<^verbatim>\<open>ril/include/telephony/ril.h\<close>, and the
  functions of \<^verbatim>\<open>ril/libril/ril.cpp\<close> that name them. A row of a table has the number \<^verbatim>\<open>ril.h\<close> gives
  to the constant, the constant, and the function that sends the answer (\<open>None\<close> where it is NULL).
  The self-check of \<^verbatim>\<open>RIL_register\<close> is shown to pass.
\<close>

section \<open>Commands and unsolicited responses\<close>

datatype WakeType = DONT_WAKE | WAKE_PARTIAL

definition RIL_UNSOL_RESPONSE_BASE :: int where "RIL_UNSOL_RESPONSE_BASE = 1000"

definition s_commands :: "(int \<times> string \<times> string option) list" where
  "s_commands =
    [(0, ''0'', None),
     (1, ''RIL_REQUEST_GET_SIM_STATUS'', Some ''getIccCardStatusResponse''),
     (2, ''RIL_REQUEST_ENTER_SIM_PIN'', Some ''supplyIccPinForAppResponse''),
     (3, ''RIL_REQUEST_ENTER_SIM_PUK'', Some ''supplyIccPukForAppResponse''),
     (4, ''RIL_REQUEST_ENTER_SIM_PIN2'', Some ''supplyIccPin2ForAppResponse''),
     (5, ''RIL_REQUEST_ENTER_SIM_PUK2'', Some ''supplyIccPuk2ForAppResponse''),
     (6, ''RIL_REQUEST_CHANGE_SIM_PIN'', Some ''changeIccPinForAppResponse''),
     (7, ''RIL_REQUEST_CHANGE_SIM_PIN2'', Some ''changeIccPin2ForAppResponse''),
     (8, ''RIL_REQUEST_ENTER_NETWORK_DEPERSONALIZATION'', Some ''supplyNetworkDepersonalizationResponse''),
     (9, ''RIL_REQUEST_GET_CURRENT_CALLS'', Some ''getCurrentCallsResponse''),
     (10, ''RIL_REQUEST_DIAL'', Some ''dialResponse''),
     (11, ''RIL_REQUEST_GET_IMSI'', Some ''getIMSIForAppResponse''),
     (12, ''RIL_REQUEST_HANGUP'', Some ''hangupConnectionResponse''),
     (13, ''RIL_REQUEST_HANGUP_WAITING_OR_BACKGROUND'', Some ''hangupWaitingOrBackgroundResponse''),
     (14, ''RIL_REQUEST_HANGUP_FOREGROUND_RESUME_BACKGROUND'', Some ''hangupForegroundResumeBackgroundResponse''),
     (15, ''RIL_REQUEST_SWITCH_WAITING_OR_HOLDING_AND_ACTIVE'', Some ''switchWaitingOrHoldingAndActiveResponse''),
     (16, ''RIL_REQUEST_CONFERENCE'', Some ''conferenceResponse''),
     (17, ''RIL_REQUEST_UDUB'', Some ''rejectCallResponse''),
     (18, ''RIL_REQUEST_LAST_CALL_FAIL_CAUSE'', Some ''getLastCallFailCauseResponse''),
     (19, ''RIL_REQUEST_SIGNAL_STRENGTH'', Some ''getSignalStrengthResponse''),
     (20, ''RIL_REQUEST_VOICE_REGISTRATION_STATE'', Some ''getVoiceRegistrationStateResponse''),
     (21, ''RIL_REQUEST_DATA_REGISTRATION_STATE'', Some ''getDataRegistrationStateResponse''),
     (22, ''RIL_REQUEST_OPERATOR'', Some ''getOperatorResponse''),
     (23, ''RIL_REQUEST_RADIO_POWER'', Some ''setRadioPowerResponse''),
     (24, ''RIL_REQUEST_DTMF'', Some ''sendDtmfResponse''),
     (25, ''RIL_REQUEST_SEND_SMS'', Some ''sendSmsResponse''),
     (26, ''RIL_REQUEST_SEND_SMS_EXPECT_MORE'', Some ''sendSMSExpectMoreResponse''),
     (27, ''RIL_REQUEST_SETUP_DATA_CALL'', Some ''setupDataCallResponse''),
     (28, ''RIL_REQUEST_SIM_IO'', Some ''iccIOForAppResponse''),
     (29, ''RIL_REQUEST_SEND_USSD'', Some ''sendUssdResponse''),
     (30, ''RIL_REQUEST_CANCEL_USSD'', Some ''cancelPendingUssdResponse''),
     (31, ''RIL_REQUEST_GET_CLIR'', Some ''getClirResponse''),
     (32, ''RIL_REQUEST_SET_CLIR'', Some ''setClirResponse''),
     (33, ''RIL_REQUEST_QUERY_CALL_FORWARD_STATUS'', Some ''getCallForwardStatusResponse''),
     (34, ''RIL_REQUEST_SET_CALL_FORWARD'', Some ''setCallForwardResponse''),
     (35, ''RIL_REQUEST_QUERY_CALL_WAITING'', Some ''getCallWaitingResponse''),
     (36, ''RIL_REQUEST_SET_CALL_WAITING'', Some ''setCallWaitingResponse''),
     (37, ''RIL_REQUEST_SMS_ACKNOWLEDGE'', Some ''acknowledgeLastIncomingGsmSmsResponse''),
     (38, ''RIL_REQUEST_GET_IMEI'', None),
     (39, ''RIL_REQUEST_GET_IMEISV'', None),
     (40, ''RIL_REQUEST_ANSWER'', Some ''acceptCallResponse''),
     (41, ''RIL_REQUEST_DEACTIVATE_DATA_CALL'', Some ''deactivateDataCallResponse''),
     (42, ''RIL_REQUEST_QUERY_FACILITY_LOCK'', Some ''getFacilityLockForAppResponse''),
     (43, ''RIL_REQUEST_SET_FACILITY_LOCK'', Some ''setFacilityLockForAppResponse''),
     (44, ''RIL_REQUEST_CHANGE_BARRING_PASSWORD'', Some ''setBarringPasswordResponse''),
     (45, ''RIL_REQUEST_QUERY_NETWORK_SELECTION_MODE'', Some ''getNetworkSelectionModeResponse''),
     (46, ''RIL_REQUEST_SET_NETWORK_SELECTION_AUTOMATIC'', Some ''setNetworkSelectionModeAutomaticResponse''),
     (47, ''RIL_REQUEST_SET_NETWORK_SELECTION_MANUAL'', Some ''setNetworkSelectionModeManualResponse''),
     (48, ''RIL_REQUEST_QUERY_AVAILABLE_NETWORKS'', Some ''getAvailableNetworksResponse''),
     (49, ''RIL_REQUEST_DTMF_START'', Some ''startDtmfResponse''),
     (50, ''RIL_REQUEST_DTMF_STOP'', Some ''stopDtmfResponse''),
     (51, ''RIL_REQUEST_BASEBAND_VERSION'', Some ''getBasebandVersionResponse''),
     (52, ''RIL_REQUEST_SEPARATE_CONNECTION'', Some ''separateConnectionResponse''),
     (53, ''RIL_REQUEST_SET_MUTE'', Some ''setMuteResponse''),
     (54, ''RIL_REQUEST_GET_MUTE'', Some ''getMuteResponse''),
     (55, ''RIL_REQUEST_QUERY_CLIP'', Some ''getClipResponse''),
     (56, ''RIL_REQUEST_LAST_DATA_CALL_FAIL_CAUSE'', None),
     (57, ''RIL_REQUEST_DATA_CALL_LIST'', Some ''getDataCallListResponse''),
     (58, ''RIL_REQUEST_RESET_RADIO'', None),
     (59, ''RIL_REQUEST_OEM_HOOK_RAW'', Some ''sendRequestRawResponse''),
     (60, ''RIL_REQUEST_OEM_HOOK_STRINGS'', Some ''sendRequestStringsResponse''),
     (61, ''RIL_REQUEST_SCREEN_STATE'', Some ''sendDeviceStateResponse''),
     (62, ''RIL_REQUEST_SET_SUPP_SVC_NOTIFICATION'', Some ''setSuppServiceNotificationsResponse''),
     (63, ''RIL_REQUEST_WRITE_SMS_TO_SIM'', Some ''writeSmsToSimResponse''),
     (64, ''RIL_REQUEST_DELETE_SMS_ON_SIM'', Some ''deleteSmsOnSimResponse''),
     (65, ''RIL_REQUEST_SET_BAND_MODE'', Some ''setBandModeResponse''),
     (66, ''RIL_REQUEST_QUERY_AVAILABLE_BAND_MODE'', Some ''getAvailableBandModesResponse''),
     (67, ''RIL_REQUEST_STK_GET_PROFILE'', None),
     (68, ''RIL_REQUEST_STK_SET_PROFILE'', None),
     (69, ''RIL_REQUEST_STK_SEND_ENVELOPE_COMMAND'', Some ''sendEnvelopeResponse''),
     (70, ''RIL_REQUEST_STK_SEND_TERMINAL_RESPONSE'', Some ''sendTerminalResponseToSimResponse''),
     (71, ''RIL_REQUEST_STK_HANDLE_CALL_SETUP_REQUESTED_FROM_SIM'', Some ''handleStkCallSetupRequestFromSimResponse''),
     (72, ''RIL_REQUEST_EXPLICIT_CALL_TRANSFER'', Some ''explicitCallTransferResponse''),
     (73, ''RIL_REQUEST_SET_PREFERRED_NETWORK_TYPE'', Some ''setPreferredNetworkTypeResponse''),
     (74, ''RIL_REQUEST_GET_PREFERRED_NETWORK_TYPE'', Some ''getPreferredNetworkTypeResponse''),
     (75, ''RIL_REQUEST_GET_NEIGHBORING_CELL_IDS'', Some ''getNeighboringCidsResponse''),
     (76, ''RIL_REQUEST_SET_LOCATION_UPDATES'', Some ''setLocationUpdatesResponse''),
     (77, ''RIL_REQUEST_CDMA_SET_SUBSCRIPTION_SOURCE'', Some ''setCdmaSubscriptionSourceResponse''),
     (78, ''RIL_REQUEST_CDMA_SET_ROAMING_PREFERENCE'', Some ''setCdmaRoamingPreferenceResponse''),
     (79, ''RIL_REQUEST_CDMA_QUERY_ROAMING_PREFERENCE'', Some ''getCdmaRoamingPreferenceResponse''),
     (80, ''RIL_REQUEST_SET_TTY_MODE'', Some ''setTTYModeResponse''),
     (81, ''RIL_REQUEST_QUERY_TTY_MODE'', Some ''getTTYModeResponse''),
     (82, ''RIL_REQUEST_CDMA_SET_PREFERRED_VOICE_PRIVACY_MODE'', Some ''setPreferredVoicePrivacyResponse''),
     (83, ''RIL_REQUEST_CDMA_QUERY_PREFERRED_VOICE_PRIVACY_MODE'', Some ''getPreferredVoicePrivacyResponse''),
     (84, ''RIL_REQUEST_CDMA_FLASH'', Some ''sendCDMAFeatureCodeResponse''),
     (85, ''RIL_REQUEST_CDMA_BURST_DTMF'', Some ''sendBurstDtmfResponse''),
     (86, ''RIL_REQUEST_CDMA_VALIDATE_AND_WRITE_AKEY'', None),
     (87, ''RIL_REQUEST_CDMA_SEND_SMS'', Some ''sendCdmaSmsResponse''),
     (88, ''RIL_REQUEST_CDMA_SMS_ACKNOWLEDGE'', Some ''acknowledgeLastIncomingCdmaSmsResponse''),
     (89, ''RIL_REQUEST_GSM_GET_BROADCAST_SMS_CONFIG'', Some ''getGsmBroadcastConfigResponse''),
     (90, ''RIL_REQUEST_GSM_SET_BROADCAST_SMS_CONFIG'', Some ''setGsmBroadcastConfigResponse''),
     (91, ''RIL_REQUEST_GSM_SMS_BROADCAST_ACTIVATION'', Some ''setGsmBroadcastActivationResponse''),
     (92, ''RIL_REQUEST_CDMA_GET_BROADCAST_SMS_CONFIG'', Some ''getCdmaBroadcastConfigResponse''),
     (93, ''RIL_REQUEST_CDMA_SET_BROADCAST_SMS_CONFIG'', Some ''setCdmaBroadcastConfigResponse''),
     (94, ''RIL_REQUEST_CDMA_SMS_BROADCAST_ACTIVATION'', Some ''setCdmaBroadcastActivationResponse''),
     (95, ''RIL_REQUEST_CDMA_SUBSCRIPTION'', Some ''getCDMASubscriptionResponse''),
     (96, ''RIL_REQUEST_CDMA_WRITE_SMS_TO_RUIM'', Some ''writeSmsToRuimResponse''),
     (97, ''RIL_REQUEST_CDMA_DELETE_SMS_ON_RUIM'', Some ''deleteSmsOnRuimResponse''),
     (98, ''RIL_REQUEST_DEVICE_IDENTITY'', Some ''getDeviceIdentityResponse''),
     (99, ''RIL_REQUEST_EXIT_EMERGENCY_CALLBACK_MODE'', Some ''exitEmergencyCallbackModeResponse''),
     (100, ''RIL_REQUEST_GET_SMSC_ADDRESS'', Some ''getSmscAddressResponse''),
     (101, ''RIL_REQUEST_SET_SMSC_ADDRESS'', Some ''setSmscAddressResponse''),
     (102, ''RIL_REQUEST_REPORT_SMS_MEMORY_STATUS'', Some ''reportSmsMemoryStatusResponse''),
     (103, ''RIL_REQUEST_REPORT_STK_SERVICE_IS_RUNNING'', Some ''reportStkServiceIsRunningResponse''),
     (104, ''RIL_REQUEST_CDMA_GET_SUBSCRIPTION_SOURCE'', Some ''getCdmaSubscriptionSourceResponse''),
     (105, ''RIL_REQUEST_ISIM_AUTHENTICATION'', Some ''requestIsimAuthenticationResponse''),
     (106, ''RIL_REQUEST_ACKNOWLEDGE_INCOMING_GSM_SMS_WITH_PDU'', Some ''acknowledgeIncomingGsmSmsWithPduResponse''),
     (107, ''RIL_REQUEST_STK_SEND_ENVELOPE_WITH_STATUS'', Some ''sendEnvelopeWithStatusResponse''),
     (108, ''RIL_REQUEST_VOICE_RADIO_TECH'', Some ''getVoiceRadioTechnologyResponse''),
     (109, ''RIL_REQUEST_GET_CELL_INFO_LIST'', Some ''getCellInfoListResponse''),
     (110, ''RIL_REQUEST_SET_UNSOL_CELL_INFO_LIST_RATE'', Some ''setCellInfoListRateResponse''),
     (111, ''RIL_REQUEST_SET_INITIAL_ATTACH_APN'', Some ''setInitialAttachApnResponse''),
     (112, ''RIL_REQUEST_IMS_REGISTRATION_STATE'', Some ''getImsRegistrationStateResponse''),
     (113, ''RIL_REQUEST_IMS_SEND_SMS'', Some ''sendImsSmsResponse''),
     (114, ''RIL_REQUEST_SIM_TRANSMIT_APDU_BASIC'', Some ''iccTransmitApduBasicChannelResponse''),
     (115, ''RIL_REQUEST_SIM_OPEN_CHANNEL'', Some ''iccOpenLogicalChannelResponse''),
     (116, ''RIL_REQUEST_SIM_CLOSE_CHANNEL'', Some ''iccCloseLogicalChannelResponse''),
     (117, ''RIL_REQUEST_SIM_TRANSMIT_APDU_CHANNEL'', Some ''iccTransmitApduLogicalChannelResponse''),
     (118, ''RIL_REQUEST_NV_READ_ITEM'', Some ''nvReadItemResponse''),
     (119, ''RIL_REQUEST_NV_WRITE_ITEM'', Some ''nvWriteItemResponse''),
     (120, ''RIL_REQUEST_NV_WRITE_CDMA_PRL'', Some ''nvWriteCdmaPrlResponse''),
     (121, ''RIL_REQUEST_NV_RESET_CONFIG'', Some ''nvResetConfigResponse''),
     (122, ''RIL_REQUEST_SET_UICC_SUBSCRIPTION'', Some ''setUiccSubscriptionResponse''),
     (123, ''RIL_REQUEST_ALLOW_DATA'', Some ''setDataAllowedResponse''),
     (124, ''RIL_REQUEST_GET_HARDWARE_CONFIG'', Some ''getHardwareConfigResponse''),
     (125, ''RIL_REQUEST_SIM_AUTHENTICATION'', Some ''requestIccSimAuthenticationResponse''),
     (126, ''RIL_REQUEST_GET_DC_RT_INFO'', None),
     (127, ''RIL_REQUEST_SET_DC_RT_INFO_RATE'', None),
     (128, ''RIL_REQUEST_SET_DATA_PROFILE'', Some ''setDataProfileResponse''),
     (129, ''RIL_REQUEST_SHUTDOWN'', Some ''requestShutdownResponse''),
     (130, ''RIL_REQUEST_GET_RADIO_CAPABILITY'', Some ''getRadioCapabilityResponse''),
     (131, ''RIL_REQUEST_SET_RADIO_CAPABILITY'', Some ''setRadioCapabilityResponse''),
     (132, ''RIL_REQUEST_START_LCE'', Some ''startLceServiceResponse''),
     (133, ''RIL_REQUEST_STOP_LCE'', Some ''stopLceServiceResponse''),
     (134, ''RIL_REQUEST_PULL_LCEDATA'', Some ''pullLceDataResponse''),
     (135, ''RIL_REQUEST_GET_ACTIVITY_INFO'', Some ''getModemActivityInfoResponse''),
     (136, ''RIL_REQUEST_SET_CARRIER_RESTRICTIONS'', Some ''setAllowedCarriersResponse''),
     (137, ''RIL_REQUEST_GET_CARRIER_RESTRICTIONS'', Some ''getAllowedCarriersResponse''),
     (138, ''RIL_REQUEST_SEND_DEVICE_STATE'', Some ''sendDeviceStateResponse''),
     (139, ''RIL_REQUEST_SET_UNSOLICITED_RESPONSE_FILTER'', Some ''setIndicationFilterResponse''),
     (140, ''RIL_REQUEST_SET_SIM_CARD_POWER'', Some ''setSimCardPowerResponse''),
     (141, ''RIL_REQUEST_SET_CARRIER_INFO_IMSI_ENCRYPTION'', Some ''setCarrierInfoForImsiEncryptionResponse''),
     (142, ''RIL_REQUEST_START_NETWORK_SCAN'', Some ''startNetworkScanResponse''),
     (143, ''RIL_REQUEST_STOP_NETWORK_SCAN'', Some ''stopNetworkScanResponse''),
     (144, ''RIL_REQUEST_START_KEEPALIVE'', Some ''startKeepaliveResponse''),
     (145, ''RIL_REQUEST_STOP_KEEPALIVE'', Some ''stopKeepaliveResponse'')]"

definition s_unsolResponses :: "(int \<times> string \<times> string option \<times> WakeType) list" where
  "s_unsolResponses =
    [(1000, ''RIL_UNSOL_RESPONSE_RADIO_STATE_CHANGED'', Some ''radioStateChangedInd'', WAKE_PARTIAL),
     (1001, ''RIL_UNSOL_RESPONSE_CALL_STATE_CHANGED'', Some ''callStateChangedInd'', WAKE_PARTIAL),
     (1002, ''RIL_UNSOL_RESPONSE_VOICE_NETWORK_STATE_CHANGED'', Some ''networkStateChangedInd'', WAKE_PARTIAL),
     (1003, ''RIL_UNSOL_RESPONSE_NEW_SMS'', Some ''newSmsInd'', WAKE_PARTIAL),
     (1004, ''RIL_UNSOL_RESPONSE_NEW_SMS_STATUS_REPORT'', Some ''newSmsStatusReportInd'', WAKE_PARTIAL),
     (1005, ''RIL_UNSOL_RESPONSE_NEW_SMS_ON_SIM'', Some ''newSmsOnSimInd'', WAKE_PARTIAL),
     (1006, ''RIL_UNSOL_ON_USSD'', Some ''onUssdInd'', WAKE_PARTIAL),
     (1007, ''RIL_UNSOL_ON_USSD_REQUEST'', Some ''onUssdInd'', DONT_WAKE),
     (1008, ''RIL_UNSOL_NITZ_TIME_RECEIVED'', Some ''nitzTimeReceivedInd'', WAKE_PARTIAL),
     (1009, ''RIL_UNSOL_SIGNAL_STRENGTH'', Some ''currentSignalStrengthInd'', DONT_WAKE),
     (1010, ''RIL_UNSOL_DATA_CALL_LIST_CHANGED'', Some ''dataCallListChangedInd'', WAKE_PARTIAL),
     (1011, ''RIL_UNSOL_SUPP_SVC_NOTIFICATION'', Some ''suppSvcNotifyInd'', WAKE_PARTIAL),
     (1012, ''RIL_UNSOL_STK_SESSION_END'', Some ''stkSessionEndInd'', WAKE_PARTIAL),
     (1013, ''RIL_UNSOL_STK_PROACTIVE_COMMAND'', Some ''stkProactiveCommandInd'', WAKE_PARTIAL),
     (1014, ''RIL_UNSOL_STK_EVENT_NOTIFY'', Some ''stkEventNotifyInd'', WAKE_PARTIAL),
     (1015, ''RIL_UNSOL_STK_CALL_SETUP'', Some ''stkCallSetupInd'', WAKE_PARTIAL),
     (1016, ''RIL_UNSOL_SIM_SMS_STORAGE_FULL'', Some ''simSmsStorageFullInd'', WAKE_PARTIAL),
     (1017, ''RIL_UNSOL_SIM_REFRESH'', Some ''simRefreshInd'', WAKE_PARTIAL),
     (1018, ''RIL_UNSOL_CALL_RING'', Some ''callRingInd'', WAKE_PARTIAL),
     (1019, ''RIL_UNSOL_RESPONSE_SIM_STATUS_CHANGED'', Some ''simStatusChangedInd'', WAKE_PARTIAL),
     (1020, ''RIL_UNSOL_RESPONSE_CDMA_NEW_SMS'', Some ''cdmaNewSmsInd'', WAKE_PARTIAL),
     (1021, ''RIL_UNSOL_RESPONSE_NEW_BROADCAST_SMS'', Some ''newBroadcastSmsInd'', WAKE_PARTIAL),
     (1022, ''RIL_UNSOL_CDMA_RUIM_SMS_STORAGE_FULL'', Some ''cdmaRuimSmsStorageFullInd'', WAKE_PARTIAL),
     (1023, ''RIL_UNSOL_RESTRICTED_STATE_CHANGED'', Some ''restrictedStateChangedInd'', WAKE_PARTIAL),
     (1024, ''RIL_UNSOL_ENTER_EMERGENCY_CALLBACK_MODE'', Some ''enterEmergencyCallbackModeInd'', WAKE_PARTIAL),
     (1025, ''RIL_UNSOL_CDMA_CALL_WAITING'', Some ''cdmaCallWaitingInd'', WAKE_PARTIAL),
     (1026, ''RIL_UNSOL_CDMA_OTA_PROVISION_STATUS'', Some ''cdmaOtaProvisionStatusInd'', WAKE_PARTIAL),
     (1027, ''RIL_UNSOL_CDMA_INFO_REC'', Some ''cdmaInfoRecInd'', WAKE_PARTIAL),
     (1028, ''RIL_UNSOL_OEM_HOOK_RAW'', Some ''oemHookRawInd'', WAKE_PARTIAL),
     (1029, ''RIL_UNSOL_RINGBACK_TONE'', Some ''indicateRingbackToneInd'', WAKE_PARTIAL),
     (1030, ''RIL_UNSOL_RESEND_INCALL_MUTE'', Some ''resendIncallMuteInd'', WAKE_PARTIAL),
     (1031, ''RIL_UNSOL_CDMA_SUBSCRIPTION_SOURCE_CHANGED'', Some ''cdmaSubscriptionSourceChangedInd'', WAKE_PARTIAL),
     (1032, ''RIL_UNSOL_CDMA_PRL_CHANGED'', Some ''cdmaPrlChangedInd'', WAKE_PARTIAL),
     (1033, ''RIL_UNSOL_EXIT_EMERGENCY_CALLBACK_MODE'', Some ''exitEmergencyCallbackModeInd'', WAKE_PARTIAL),
     (1034, ''RIL_UNSOL_RIL_CONNECTED'', Some ''rilConnectedInd'', WAKE_PARTIAL),
     (1035, ''RIL_UNSOL_VOICE_RADIO_TECH_CHANGED'', Some ''voiceRadioTechChangedInd'', WAKE_PARTIAL),
     (1036, ''RIL_UNSOL_CELL_INFO_LIST'', Some ''cellInfoListInd'', WAKE_PARTIAL),
     (1037, ''RIL_UNSOL_RESPONSE_IMS_NETWORK_STATE_CHANGED'', Some ''imsNetworkStateChangedInd'', WAKE_PARTIAL),
     (1038, ''RIL_UNSOL_UICC_SUBSCRIPTION_STATUS_CHANGED'', Some ''subscriptionStatusChangedInd'', WAKE_PARTIAL),
     (1039, ''RIL_UNSOL_SRVCC_STATE_NOTIFY'', Some ''srvccStateNotifyInd'', WAKE_PARTIAL),
     (1040, ''RIL_UNSOL_HARDWARE_CONFIG_CHANGED'', Some ''hardwareConfigChangedInd'', WAKE_PARTIAL),
     (1041, ''RIL_UNSOL_DC_RT_INFO_CHANGED'', None, WAKE_PARTIAL),
     (1042, ''RIL_UNSOL_RADIO_CAPABILITY'', Some ''radioCapabilityIndicationInd'', WAKE_PARTIAL),
     (1043, ''RIL_UNSOL_ON_SS'', Some ''onSupplementaryServiceIndicationInd'', WAKE_PARTIAL),
     (1044, ''RIL_UNSOL_STK_CC_ALPHA_NOTIFY'', Some ''stkCallControlAlphaNotifyInd'', WAKE_PARTIAL),
     (1045, ''RIL_UNSOL_LCEDATA_RECV'', Some ''lceDataInd'', WAKE_PARTIAL),
     (1046, ''RIL_UNSOL_PCO_DATA'', Some ''pcoDataInd'', WAKE_PARTIAL),
     (1047, ''RIL_UNSOL_MODEM_RESTART'', Some ''modemResetInd'', WAKE_PARTIAL),
     (1048, ''RIL_UNSOL_CARRIER_INFO_IMSI_ENCRYPTION'', Some ''carrierInfoForImsiEncryption'', WAKE_PARTIAL),
     (1049, ''RIL_UNSOL_NETWORK_SCAN_RESULT'', Some ''networkScanResultInd'', WAKE_PARTIAL)]"

section \<open>Names\<close>

definition request_names :: "(int \<times> string) list" where
  "request_names =
    [(1, ''GET_SIM_STATUS''),
     (2, ''ENTER_SIM_PIN''),
     (3, ''ENTER_SIM_PUK''),
     (4, ''ENTER_SIM_PIN2''),
     (5, ''ENTER_SIM_PUK2''),
     (6, ''CHANGE_SIM_PIN''),
     (7, ''CHANGE_SIM_PIN2''),
     (8, ''ENTER_NETWORK_DEPERSONALIZATION''),
     (9, ''GET_CURRENT_CALLS''),
     (10, ''DIAL''),
     (11, ''GET_IMSI''),
     (12, ''HANGUP''),
     (13, ''HANGUP_WAITING_OR_BACKGROUND''),
     (14, ''HANGUP_FOREGROUND_RESUME_BACKGROUND''),
     (15, ''SWITCH_WAITING_OR_HOLDING_AND_ACTIVE''),
     (16, ''CONFERENCE''),
     (17, ''UDUB''),
     (18, ''LAST_CALL_FAIL_CAUSE''),
     (19, ''SIGNAL_STRENGTH''),
     (20, ''VOICE_REGISTRATION_STATE''),
     (21, ''DATA_REGISTRATION_STATE''),
     (22, ''OPERATOR''),
     (23, ''RADIO_POWER''),
     (24, ''DTMF''),
     (25, ''SEND_SMS''),
     (26, ''SEND_SMS_EXPECT_MORE''),
     (27, ''SETUP_DATA_CALL''),
     (28, ''SIM_IO''),
     (29, ''SEND_USSD''),
     (30, ''CANCEL_USSD''),
     (31, ''GET_CLIR''),
     (32, ''SET_CLIR''),
     (33, ''QUERY_CALL_FORWARD_STATUS''),
     (34, ''SET_CALL_FORWARD''),
     (35, ''QUERY_CALL_WAITING''),
     (36, ''SET_CALL_WAITING''),
     (37, ''SMS_ACKNOWLEDGE''),
     (38, ''GET_IMEI''),
     (39, ''GET_IMEISV''),
     (40, ''ANSWER''),
     (41, ''DEACTIVATE_DATA_CALL''),
     (42, ''QUERY_FACILITY_LOCK''),
     (43, ''SET_FACILITY_LOCK''),
     (44, ''CHANGE_BARRING_PASSWORD''),
     (45, ''QUERY_NETWORK_SELECTION_MODE''),
     (46, ''SET_NETWORK_SELECTION_AUTOMATIC''),
     (47, ''SET_NETWORK_SELECTION_MANUAL''),
     (48, ''QUERY_AVAILABLE_NETWORKS''),
     (49, ''DTMF_START''),
     (50, ''DTMF_STOP''),
     (51, ''BASEBAND_VERSION''),
     (52, ''SEPARATE_CONNECTION''),
     (53, ''SET_MUTE''),
     (54, ''GET_MUTE''),
     (55, ''QUERY_CLIP''),
     (56, ''LAST_DATA_CALL_FAIL_CAUSE''),
     (57, ''DATA_CALL_LIST''),
     (58, ''RESET_RADIO''),
     (59, ''OEM_HOOK_RAW''),
     (60, ''OEM_HOOK_STRINGS''),
     (61, ''SCREEN_STATE''),
     (62, ''SET_SUPP_SVC_NOTIFICATION''),
     (63, ''WRITE_SMS_TO_SIM''),
     (64, ''DELETE_SMS_ON_SIM''),
     (65, ''SET_BAND_MODE''),
     (66, ''QUERY_AVAILABLE_BAND_MODE''),
     (67, ''STK_GET_PROFILE''),
     (68, ''STK_SET_PROFILE''),
     (69, ''STK_SEND_ENVELOPE_COMMAND''),
     (70, ''STK_SEND_TERMINAL_RESPONSE''),
     (71, ''STK_HANDLE_CALL_SETUP_REQUESTED_FROM_SIM''),
     (72, ''EXPLICIT_CALL_TRANSFER''),
     (73, ''SET_PREFERRED_NETWORK_TYPE''),
     (74, ''GET_PREFERRED_NETWORK_TYPE''),
     (75, ''GET_NEIGHBORING_CELL_IDS''),
     (76, ''SET_LOCATION_UPDATES''),
     (77, ''CDMA_SET_SUBSCRIPTION_SOURCE''),
     (78, ''CDMA_SET_ROAMING_PREFERENCE''),
     (79, ''CDMA_QUERY_ROAMING_PREFERENCE''),
     (80, ''SET_TTY_MODE''),
     (81, ''QUERY_TTY_MODE''),
     (82, ''CDMA_SET_PREFERRED_VOICE_PRIVACY_MODE''),
     (83, ''CDMA_QUERY_PREFERRED_VOICE_PRIVACY_MODE''),
     (84, ''CDMA_FLASH''),
     (85, ''CDMA_BURST_DTMF''),
     (86, ''CDMA_VALIDATE_AND_WRITE_AKEY''),
     (87, ''CDMA_SEND_SMS''),
     (88, ''CDMA_SMS_ACKNOWLEDGE''),
     (89, ''GSM_GET_BROADCAST_SMS_CONFIG''),
     (90, ''GSM_SET_BROADCAST_SMS_CONFIG''),
     (91, ''GSM_SMS_BROADCAST_ACTIVATION''),
     (92, ''CDMA_GET_BROADCAST_SMS_CONFIG''),
     (93, ''CDMA_SET_BROADCAST_SMS_CONFIG''),
     (94, ''CDMA_SMS_BROADCAST_ACTIVATION''),
     (95, ''CDMA_SUBSCRIPTION''),
     (96, ''CDMA_WRITE_SMS_TO_RUIM''),
     (97, ''CDMA_DELETE_SMS_ON_RUIM''),
     (98, ''DEVICE_IDENTITY''),
     (99, ''EXIT_EMERGENCY_CALLBACK_MODE''),
     (100, ''GET_SMSC_ADDRESS''),
     (101, ''SET_SMSC_ADDRESS''),
     (102, ''REPORT_SMS_MEMORY_STATUS''),
     (103, ''REPORT_STK_SERVICE_IS_RUNNING''),
     (104, ''CDMA_GET_SUBSCRIPTION_SOURCE''),
     (105, ''ISIM_AUTHENTICATION''),
     (106, ''ACKNOWLEDGE_INCOMING_GSM_SMS_WITH_PDU''),
     (107, ''STK_SEND_ENVELOPE_WITH_STATUS''),
     (108, ''VOICE_RADIO_TECH''),
     (109, ''GET_CELL_INFO_LIST''),
     (110, ''SET_UNSOL_CELL_INFO_LIST_RATE''),
     (111, ''SET_INITIAL_ATTACH_APN''),
     (112, ''IMS_REGISTRATION_STATE''),
     (113, ''IMS_SEND_SMS''),
     (114, ''SIM_TRANSMIT_APDU_BASIC''),
     (115, ''SIM_OPEN_CHANNEL''),
     (116, ''SIM_CLOSE_CHANNEL''),
     (117, ''SIM_TRANSMIT_APDU_CHANNEL''),
     (118, ''NV_READ_ITEM''),
     (119, ''NV_WRITE_ITEM''),
     (120, ''NV_WRITE_CDMA_PRL''),
     (121, ''NV_RESET_CONFIG''),
     (122, ''SET_UICC_SUBSCRIPTION''),
     (123, ''ALLOW_DATA''),
     (124, ''GET_HARDWARE_CONFIG''),
     (125, ''SIM_AUTHENTICATION''),
     (126, ''GET_DC_RT_INFO''),
     (127, ''SET_DC_RT_INFO_RATE''),
     (128, ''SET_DATA_PROFILE''),
     (129, ''SHUTDOWN''),
     (130, ''GET_RADIO_CAPABILITY''),
     (131, ''SET_RADIO_CAPABILITY''),
     (132, ''START_LCE''),
     (133, ''STOP_LCE''),
     (134, ''PULL_LCEDATA''),
     (135, ''GET_ACTIVITY_INFO''),
     (136, ''SET_CARRIER_RESTRICTIONS''),
     (137, ''GET_CARRIER_RESTRICTIONS''),
     (141, ''SET_CARRIER_INFO_IMSI_ENCRYPTION''),
     (800, ''RESPONSE_ACKNOWLEDGEMENT'')]"

definition unsol_names :: "(int \<times> string) list" where
  "unsol_names =
    [(1000, ''UNSOL_RESPONSE_RADIO_STATE_CHANGED''),
     (1001, ''UNSOL_RESPONSE_CALL_STATE_CHANGED''),
     (1002, ''UNSOL_RESPONSE_VOICE_NETWORK_STATE_CHANGED''),
     (1003, ''UNSOL_RESPONSE_NEW_SMS''),
     (1004, ''UNSOL_RESPONSE_NEW_SMS_STATUS_REPORT''),
     (1005, ''UNSOL_RESPONSE_NEW_SMS_ON_SIM''),
     (1006, ''UNSOL_ON_USSD''),
     (1007, ''UNSOL_ON_USSD_REQUEST''),
     (1008, ''UNSOL_NITZ_TIME_RECEIVED''),
     (1009, ''UNSOL_SIGNAL_STRENGTH''),
     (1010, ''UNSOL_DATA_CALL_LIST_CHANGED''),
     (1011, ''UNSOL_SUPP_SVC_NOTIFICATION''),
     (1012, ''UNSOL_STK_SESSION_END''),
     (1013, ''UNSOL_STK_PROACTIVE_COMMAND''),
     (1014, ''UNSOL_STK_EVENT_NOTIFY''),
     (1015, ''UNSOL_STK_CALL_SETUP''),
     (1016, ''UNSOL_SIM_SMS_STORAGE_FULL''),
     (1017, ''UNSOL_SIM_REFRESH''),
     (1018, ''UNSOL_CALL_RING''),
     (1019, ''UNSOL_RESPONSE_SIM_STATUS_CHANGED''),
     (1020, ''UNSOL_RESPONSE_CDMA_NEW_SMS''),
     (1021, ''UNSOL_RESPONSE_NEW_BROADCAST_SMS''),
     (1022, ''UNSOL_CDMA_RUIM_SMS_STORAGE_FULL''),
     (1023, ''UNSOL_RESTRICTED_STATE_CHANGED''),
     (1024, ''UNSOL_ENTER_EMERGENCY_CALLBACK_MODE''),
     (1025, ''UNSOL_CDMA_CALL_WAITING''),
     (1026, ''UNSOL_CDMA_OTA_PROVISION_STATUS''),
     (1027, ''UNSOL_CDMA_INFO_REC''),
     (1028, ''UNSOL_OEM_HOOK_RAW''),
     (1029, ''UNSOL_RINGBACK_TONE''),
     (1030, ''UNSOL_RESEND_INCALL_MUTE''),
     (1031, ''UNSOL_CDMA_SUBSCRIPTION_SOURCE_CHANGED''),
     (1032, ''UNSOL_CDMA_PRL_CHANGED''),
     (1033, ''UNSOL_EXIT_EMERGENCY_CALLBACK_MODE''),
     (1034, ''UNSOL_RIL_CONNECTED''),
     (1035, ''UNSOL_VOICE_RADIO_TECH_CHANGED''),
     (1036, ''UNSOL_CELL_INFO_LIST''),
     (1037, ''UNSOL_RESPONSE_IMS_NETWORK_STATE_CHANGED''),
     (1038, ''UNSOL_UICC_SUBSCRIPTION_STATUS_CHANGED''),
     (1039, ''UNSOL_SRVCC_STATE_NOTIFY''),
     (1040, ''UNSOL_HARDWARE_CONFIG_CHANGED''),
     (1041, ''UNSOL_DC_RT_INFO_CHANGED''),
     (1042, ''UNSOL_RADIO_CAPABILITY''),
     (1047, ''UNSOL_MODEM_RESTART''),
     (1048, ''UNSOL_CARRIER_INFO_IMSI_ENCRYPTION''),
     (1043, ''UNSOL_ON_SS''),
     (1044, ''UNSOL_STK_CC_ALPHA_NOTIFY''),
     (1045, ''UNSOL_LCEDATA_RECV''),
     (1046, ''UNSOL_PCO_DATA'')]"

definition requestToString :: "int \<Rightarrow> string" where
  "requestToString request =
     (case map_of (request_names @ unsol_names) request of Some n \<Rightarrow> n | None \<Rightarrow> ''<unknown request>'')"

text \<open>The enumerators of \<^verbatim>\<open>RIL_Errno\<close>.\<close>

definition RIL_Errno :: "(int \<times> string) list" where
  "RIL_Errno =
    [(0, ''RIL_E_SUCCESS''),
     (1, ''RIL_E_RADIO_NOT_AVAILABLE''),
     (2, ''RIL_E_GENERIC_FAILURE''),
     (3, ''RIL_E_PASSWORD_INCORRECT''),
     (4, ''RIL_E_SIM_PIN2''),
     (5, ''RIL_E_SIM_PUK2''),
     (6, ''RIL_E_REQUEST_NOT_SUPPORTED''),
     (7, ''RIL_E_CANCELLED''),
     (8, ''RIL_E_OP_NOT_ALLOWED_DURING_VOICE_CALL''),
     (9, ''RIL_E_OP_NOT_ALLOWED_BEFORE_REG_TO_NW''),
     (10, ''RIL_E_SMS_SEND_FAIL_RETRY''),
     (11, ''RIL_E_SIM_ABSENT''),
     (12, ''RIL_E_SUBSCRIPTION_NOT_AVAILABLE''),
     (13, ''RIL_E_MODE_NOT_SUPPORTED''),
     (14, ''RIL_E_FDN_CHECK_FAILURE''),
     (15, ''RIL_E_ILLEGAL_SIM_OR_ME''),
     (16, ''RIL_E_MISSING_RESOURCE''),
     (17, ''RIL_E_NO_SUCH_ELEMENT''),
     (18, ''RIL_E_DIAL_MODIFIED_TO_USSD''),
     (19, ''RIL_E_DIAL_MODIFIED_TO_SS''),
     (20, ''RIL_E_DIAL_MODIFIED_TO_DIAL''),
     (21, ''RIL_E_USSD_MODIFIED_TO_DIAL''),
     (22, ''RIL_E_USSD_MODIFIED_TO_SS''),
     (23, ''RIL_E_USSD_MODIFIED_TO_USSD''),
     (24, ''RIL_E_SS_MODIFIED_TO_DIAL''),
     (25, ''RIL_E_SS_MODIFIED_TO_USSD''),
     (26, ''RIL_E_SUBSCRIPTION_NOT_SUPPORTED''),
     (27, ''RIL_E_SS_MODIFIED_TO_SS''),
     (36, ''RIL_E_LCE_NOT_SUPPORTED''),
     (37, ''RIL_E_NO_MEMORY''),
     (38, ''RIL_E_INTERNAL_ERR''),
     (39, ''RIL_E_SYSTEM_ERR''),
     (40, ''RIL_E_MODEM_ERR''),
     (41, ''RIL_E_INVALID_STATE''),
     (42, ''RIL_E_NO_RESOURCES''),
     (43, ''RIL_E_SIM_ERR''),
     (44, ''RIL_E_INVALID_ARGUMENTS''),
     (45, ''RIL_E_INVALID_SIM_STATE''),
     (46, ''RIL_E_INVALID_MODEM_STATE''),
     (47, ''RIL_E_INVALID_CALL_ID''),
     (48, ''RIL_E_NO_SMS_TO_ACK''),
     (49, ''RIL_E_NETWORK_ERR''),
     (50, ''RIL_E_REQUEST_RATE_LIMITED''),
     (51, ''RIL_E_SIM_BUSY''),
     (52, ''RIL_E_SIM_FULL''),
     (53, ''RIL_E_NETWORK_REJECT''),
     (54, ''RIL_E_OPERATION_NOT_ALLOWED''),
     (55, ''RIL_E_EMPTY_RECORD''),
     (56, ''RIL_E_INVALID_SMS_FORMAT''),
     (57, ''RIL_E_ENCODING_ERR''),
     (58, ''RIL_E_INVALID_SMSC_ADDRESS''),
     (59, ''RIL_E_NO_SUCH_ENTRY''),
     (60, ''RIL_E_NETWORK_NOT_READY''),
     (61, ''RIL_E_NOT_PROVISIONED''),
     (62, ''RIL_E_NO_SUBSCRIPTION''),
     (63, ''RIL_E_NO_NETWORK_FOUND''),
     (64, ''RIL_E_DEVICE_IN_USE''),
     (65, ''RIL_E_ABORTED''),
     (66, ''RIL_E_INVALID_RESPONSE''),
     (501, ''RIL_E_OEM_ERROR_1''),
     (502, ''RIL_E_OEM_ERROR_2''),
     (503, ''RIL_E_OEM_ERROR_3''),
     (504, ''RIL_E_OEM_ERROR_4''),
     (505, ''RIL_E_OEM_ERROR_5''),
     (506, ''RIL_E_OEM_ERROR_6''),
     (507, ''RIL_E_OEM_ERROR_7''),
     (508, ''RIL_E_OEM_ERROR_8''),
     (509, ''RIL_E_OEM_ERROR_9''),
     (510, ''RIL_E_OEM_ERROR_10''),
     (511, ''RIL_E_OEM_ERROR_11''),
     (512, ''RIL_E_OEM_ERROR_12''),
     (513, ''RIL_E_OEM_ERROR_13''),
     (514, ''RIL_E_OEM_ERROR_14''),
     (515, ''RIL_E_OEM_ERROR_15''),
     (516, ''RIL_E_OEM_ERROR_16''),
     (517, ''RIL_E_OEM_ERROR_17''),
     (518, ''RIL_E_OEM_ERROR_18''),
     (519, ''RIL_E_OEM_ERROR_19''),
     (520, ''RIL_E_OEM_ERROR_20''),
     (521, ''RIL_E_OEM_ERROR_21''),
     (522, ''RIL_E_OEM_ERROR_22''),
     (523, ''RIL_E_OEM_ERROR_23''),
     (524, ''RIL_E_OEM_ERROR_24''),
     (525, ''RIL_E_OEM_ERROR_25'')]"

text \<open>Without \<^verbatim>\<open>FEATURE_MULTIMODE_ANDROID\<close>.\<close>

definition fail_names :: "(int \<times> string) list" where
  "fail_names =
    [(0, ''E_SUCCESS''),
     (1, ''E_RADIO_NOT_AVAILABLE''),
     (2, ''E_GENERIC_FAILURE''),
     (3, ''E_PASSWORD_INCORRECT''),
     (4, ''E_SIM_PIN2''),
     (5, ''E_SIM_PUK2''),
     (6, ''E_REQUEST_NOT_SUPPORTED''),
     (7, ''E_CANCELLED''),
     (8, ''E_OP_NOT_ALLOWED_DURING_VOICE_CALL''),
     (9, ''E_OP_NOT_ALLOWED_BEFORE_REG_TO_NW''),
     (10, ''E_SMS_SEND_FAIL_RETRY''),
     (11, ''E_SIM_ABSENT''),
     (15, ''E_ILLEGAL_SIM_OR_ME''),
     (14, ''E_FDN_CHECK_FAILURE''),
     (16, ''E_MISSING_RESOURCE''),
     (17, ''E_NO_SUCH_ELEMENT''),
     (18, ''E_DIAL_MODIFIED_TO_USSD''),
     (19, ''E_DIAL_MODIFIED_TO_SS''),
     (20, ''E_DIAL_MODIFIED_TO_DIAL''),
     (21, ''E_USSD_MODIFIED_TO_DIAL''),
     (22, ''E_USSD_MODIFIED_TO_SS''),
     (23, ''E_USSD_MODIFIED_TO_USSD''),
     (24, ''E_SS_MODIFIED_TO_DIAL''),
     (25, ''E_SS_MODIFIED_TO_USSD''),
     (26, ''E_SUBSCRIPTION_NOT_SUPPORTED''),
     (27, ''E_SS_MODIFIED_TO_SS''),
     (36, ''E_LCE_NOT_SUPPORTED''),
     (37, ''E_NO_MEMORY''),
     (38, ''E_INTERNAL_ERR''),
     (39, ''E_SYSTEM_ERR''),
     (40, ''E_MODEM_ERR''),
     (41, ''E_INVALID_STATE''),
     (42, ''E_NO_RESOURCES''),
     (43, ''E_SIM_ERR''),
     (44, ''E_INVALID_ARGUMENTS''),
     (45, ''E_INVALID_SIM_STATE''),
     (46, ''E_INVALID_MODEM_STATE''),
     (47, ''E_INVALID_CALL_ID''),
     (48, ''E_NO_SMS_TO_ACK''),
     (49, ''E_NETWORK_ERR''),
     (50, ''E_REQUEST_RATE_LIMITED''),
     (51, ''E_SIM_BUSY''),
     (52, ''E_SIM_FULL''),
     (53, ''E_NETWORK_REJECT''),
     (54, ''E_OPERATION_NOT_ALLOWED''),
     (55, ''E_EMPTY_RECORD''),
     (56, ''E_INVALID_SMS_FORMAT''),
     (57, ''E_ENCODING_ERR''),
     (58, ''E_INVALID_SMSC_ADDRESS''),
     (59, ''E_NO_SUCH_ENTRY''),
     (60, ''E_NETWORK_NOT_READY''),
     (61, ''E_NOT_PROVISIONED''),
     (62, ''E_NO_SUBSCRIPTION''),
     (63, ''E_NO_NETWORK_FOUND''),
     (64, ''E_DEVICE_IN_USE''),
     (65, ''E_ABORTED''),
     (66, ''INVALID_RESPONSE''),
     (501, ''E_OEM_ERROR_1''),
     (502, ''E_OEM_ERROR_2''),
     (503, ''E_OEM_ERROR_3''),
     (504, ''E_OEM_ERROR_4''),
     (505, ''E_OEM_ERROR_5''),
     (506, ''E_OEM_ERROR_6''),
     (507, ''E_OEM_ERROR_7''),
     (508, ''E_OEM_ERROR_8''),
     (509, ''E_OEM_ERROR_9''),
     (510, ''E_OEM_ERROR_10''),
     (511, ''E_OEM_ERROR_11''),
     (512, ''E_OEM_ERROR_12''),
     (513, ''E_OEM_ERROR_13''),
     (514, ''E_OEM_ERROR_14''),
     (515, ''E_OEM_ERROR_15''),
     (516, ''E_OEM_ERROR_16''),
     (517, ''E_OEM_ERROR_17''),
     (518, ''E_OEM_ERROR_18''),
     (519, ''E_OEM_ERROR_19''),
     (520, ''E_OEM_ERROR_20''),
     (521, ''E_OEM_ERROR_21''),
     (522, ''E_OEM_ERROR_22''),
     (523, ''E_OEM_ERROR_23''),
     (524, ''E_OEM_ERROR_24''),
     (525, ''E_OEM_ERROR_25'')]"

definition failCauseToString :: "int \<Rightarrow> string" where
  "failCauseToString e = (case map_of fail_names e of Some n \<Rightarrow> n | None \<Rightarrow> ''<unknown error>'')"

definition radioStateToString :: "int \<Rightarrow> string" where
  "radioStateToString s =
     (if s = 0 then ''RADIO_OFF'' else if s = 1 then ''RADIO_UNAVAILABLE''
      else if s = 10 then ''RADIO_ON'' else ''<unknown state>'')"

definition callStateToString :: "int \<Rightarrow> string" where
  "callStateToString s =
     (if s = 0 then ''ACTIVE'' else if s = 1 then ''HOLDING'' else if s = 2 then ''DIALING''
      else if s = 3 then ''ALERTING'' else if s = 4 then ''INCOMING'' else if s = 5 then ''WAITING''
      else ''<unknown state>'')"

definition rilSocketIdToString :: "nat \<Rightarrow> nat \<Rightarrow> string" where
  "rilSocketIdToString SIM_COUNT i =
     (if i = 0 then ''RIL_SOCKET_1''
      else if i = 1 \<and> SIM_COUNT \<ge> 2 then ''RIL_SOCKET_2''
      else if i = 2 \<and> SIM_COUNT \<ge> 3 then ''RIL_SOCKET_3''
      else if i = 3 \<and> SIM_COUNT \<ge> 4 then ''RIL_SOCKET_4''
      else ''not a valid RIL'')"

section \<open>The self-check\<close>

definition self_check :: bool where
  "self_check \<longleftrightarrow>
     list_all (\<lambda>i. int i = fst (s_commands ! i)) [0..<length s_commands] \<and>
     list_all (\<lambda>i. int i + RIL_UNSOL_RESPONSE_BASE = fst (s_unsolResponses ! i)) [0..<length s_unsolResponses]"

lemma commands_numbers: "map fst s_commands = map int [0..<146]"
  by (simp add: s_commands_def upt_rec)

lemma unsol_numbers: "map fst s_unsolResponses = map (\<lambda>i. 1000 + int i) [0..<50]"
  by (simp add: s_unsolResponses_def upt_rec)

lemma table_lengths: "length s_commands = 146" "length s_unsolResponses = 50"
  using arg_cong [OF commands_numbers, of length] arg_cong [OF unsol_numbers, of length] by simp_all

lemma commands_nth: "i < 146 \<Longrightarrow> fst (s_commands ! i) = int i"
  using arg_cong [OF commands_numbers, of "\<lambda>xs. xs ! i"] by (simp add: table_lengths)

lemma unsol_nth: "i < 50 \<Longrightarrow> fst (s_unsolResponses ! i) = 1000 + int i"
  using arg_cong [OF unsol_numbers, of "\<lambda>xs. xs ! i"] by (simp add: table_lengths)

text \<open>C36. The self-check of \<^verbatim>\<open>RIL_register\<close> passes: every command stands at the index of its number and
  every unsolicited response at its number less the base, so the indexing by request number finds
  the entry of that request; the dummy and nine commands have no function that
  answers them.\<close>

theorem tables_match_numbers:
  "self_check \<and> (\<forall>n name f. (n, name, f) \<in> set s_commands \<longrightarrow> s_commands ! nat n = (n, name, f) \<and> (f = None \<longleftrightarrow> n \<in> {0, 38, 39, 56, 58, 67, 68, 86, 126, 127})) \<and>
    (\<forall>n name f w. (n, name, f, w) \<in> set s_unsolResponses \<longrightarrow> s_unsolResponses ! nat (n - RIL_UNSOL_RESPONSE_BASE) = (n, name, f, w))"
proof (intro conjI allI impI)
  show self_check
    by (simp add: self_check_def list_all_iff table_lengths commands_nth unsol_nth RIL_UNSOL_RESPONSE_BASE_def)
  fix n name f assume r: "(n, name, f) \<in> set s_commands"
  then obtain i where i: "i < 146" "s_commands ! i = (n, name, f)"
    by (auto simp: in_set_conv_nth table_lengths)
  then show "s_commands ! nat n = (n, name, f)"
    using commands_nth [OF i(1)] by simp
  have "list_all (\<lambda>(n, name, f). (f = None) = (n \<in> {0, 38, 39, 56, 58, 67, 68, 86, 126, 127})) s_commands"
    by (simp add: s_commands_def)
  then show "(f = None) = (n \<in> {0, 38, 39, 56, 58, 67, 68, 86, 126, 127})"
    using r by (auto simp: list_all_iff)
next
  fix n name f w assume "(n, name, f, w) \<in> set s_unsolResponses"
  then obtain i where i: "i < 50" "s_unsolResponses ! i = (n, name, f, w)"
    by (auto simp: in_set_conv_nth table_lengths)
  then show "s_unsolResponses ! nat (n - RIL_UNSOL_RESPONSE_BASE) = (n, name, f, w)"
    using unsol_nth [OF i(1)] by (simp add: RIL_UNSOL_RESPONSE_BASE_def)
qed

theorem tables_match_numbers_witness:
  "s_commands ! 23 = (23, ''RIL_REQUEST_RADIO_POWER'', Some ''setRadioPowerResponse'')"
proof -
  have "(23, ''RIL_REQUEST_RADIO_POWER'', Some ''setRadioPowerResponse'') \<in> set s_commands"
    by (simp add: s_commands_def)
  then show ?thesis
    using tables_match_numbers by fastforce
qed

lemma command_names:
  "map (\<lambda>(n, name, f). (n, name)) (filter (\<lambda>(n, name, f). n \<notin> {0, 138, 139, 140, 142, 143, 144, 145}) s_commands) =
    map (\<lambda>(n, s). (n, ''RIL_REQUEST_'' @ s)) (butlast request_names)"
  by code_simp

lemma unsol_responses_named:
  "list_all (\<lambda>(n, name, f, w). n = 1049 \<or> (n, drop 4 name) \<in> set unsol_names \<and> take 4 name = ''RIL_'') s_unsolResponses"
  by (simp add: s_unsolResponses_def unsol_names_def)

lemma strict_sorted_consecutive:
  "list_all (\<lambda>(a, b). a < b) (zip xs (tl xs)) \<Longrightarrow> sorted_wrt (<) (xs :: int list)"
  by (induction xs rule: induct_list012) auto

lemma request_keys: "sorted_wrt (<) (map fst request_names)"
  by (rule strict_sorted_consecutive) (simp add: request_names_def)

lemma request_bound: "list_all (\<lambda>(n, s). n < 1000) request_names" "list_all (\<lambda>(n, s). 1000 \<le> n) unsol_names"
  by (simp_all add: request_names_def unsol_names_def)

lemma unsol_keys: "distinct (map fst unsol_names)"
  by (simp add: unsol_names_def)

lemma name_keys: "distinct (map fst (request_names @ unsol_names))"
  using request_keys request_bound unsol_keys by (fastforce simp: strict_sorted_iff list_all_iff)

lemma requestToString_known: "(n, s) \<in> set request_names \<or> (n, s) \<in> set unsol_names \<Longrightarrow> requestToString n = s"
  using map_of_is_SomeI [OF name_keys] by (auto simp: requestToString_def simp del: map_of_append)

lemma request_numbers: "map fst request_names = map int [1..<138] @ [141, 800]"
  by (simp add: request_names_def upt_rec)

lemma unsol_named_bound: "list_all (\<lambda>(n, s). n \<noteq> 1049) unsol_names"
  by (simp add: unsol_names_def)

lemma unknown_requests: "list_all (\<lambda>n. requestToString n = ''<unknown request>'') [0, 138, 139, 140, 142, 143, 144, 145, 1049]"
proof -
  have "map_of (request_names @ unsol_names) n = None"
    if "n \<notin> set (map fst request_names)" "n < 1000 \<or> n = 1049" for n
  proof -
    have "n \<notin> fst ` set unsol_names"
      using that(2) request_bound(2) unsol_named_bound by (auto simp: list_all_iff)
    then show ?thesis
      using that(1) by (simp add: map_of_eq_None_iff map_add_def split: option.split)
  qed
  then show ?thesis
    unfolding request_numbers by (simp add: requestToString_def image_iff del: map_of_append)
qed

text \<open>The names in the log: \<^verbatim>\<open>requestToString\<close> gives the constant without its prefix for every command
  and unsolicited response of the tables, but for those added last, which are unknown to it, though
  its cases are said to be generated from the tables.\<close>

theorem requestToString_names:
  "(\<forall>(n, name, f) \<in> set s_commands.
      if n \<in> {0, 138, 139, 140, 142, 143, 144, 145} then requestToString n = ''<unknown request>''
      else name = ''RIL_REQUEST_'' @ requestToString n) \<and>
    (\<forall>(n, name, f, w) \<in> set s_unsolResponses.
      if n = 1049 then requestToString n = ''<unknown request>'' else name = ''RIL_'' @ requestToString n)"
proof -
  have "if n \<in> {0, 138, 139, 140, 142, 143, 144, 145} then requestToString n = ''<unknown request>''
      else name = ''RIL_REQUEST_'' @ requestToString n" if r: "(n, name, f) \<in> set s_commands" for n name f
  proof (cases "n \<in> {0, 138, 139, 140, 142, 143, 144, 145}")
    case True
    then show ?thesis
      using unknown_requests by (auto simp: list_all_iff)
  next
    case False
    then have "(n, name) \<in> set (map (\<lambda>(n, s). (n, ''RIL_REQUEST_'' @ s)) (butlast request_names))"
      using r unfolding command_names [symmetric] by force
    then obtain s where "(n, s) \<in> set request_names" "name = ''RIL_REQUEST_'' @ s"
      by (auto dest: in_set_butlastD)
    then show ?thesis
      using False requestToString_known by auto
  qed
  moreover have "if n = 1049 then requestToString n = ''<unknown request>'' else name = ''RIL_'' @ requestToString n"
    if r: "(n, name, f, w) \<in> set s_unsolResponses" for n name f w
  proof (cases "n = 1049")
    case True
    then show ?thesis
      using unknown_requests by (simp add: list_all_iff)
  next
    case False
    then have "(n, drop 4 name) \<in> set unsol_names" "take 4 name = ''RIL_''"
      using bspec [OF unsol_responses_named [unfolded list_all_iff] r] by auto
    then show ?thesis
      using False requestToString_known [of n "drop 4 name"] append_take_drop_id [of 4 name] by simp
  qed
  ultimately show ?thesis
    by (intro conjI ballI) (clarify, blast)+
qed

theorem requestToString_names_witness:
  "''RIL_REQUEST_RADIO_POWER'' = ''RIL_REQUEST_'' @ requestToString 23"
proof -
  have "(23, ''RIL_REQUEST_RADIO_POWER'', Some ''setRadioPowerResponse'') \<in> set s_commands"
    by (simp add: s_commands_def)
  then show ?thesis
    using bspec [OF conjunct1 [OF requestToString_names]] by fastforce
qed

end
