(* ===== verification/Ril_Event.thy ===== *)
theory Ril_Event
  imports Prelude "HOL-Library.Product_Lexorder"
begin

text \<open>
  The event loop of the radio daemon, \<^verbatim>\<open>ril/libril/ril_event.cpp\<close> and \<^verbatim>\<open>ril_event.h\<close>. Events are
  objects at addresses; the timers and the pending events are two circular doubly linked lists
  through them with a list head each, the watched descriptors are a table of eight pointers.
  A NULL pointer that is followed ends an operation in \<open>None\<close>, and so does a loop that does not
  end.
\<close>

section \<open>State\<close>

text \<open>The two list heads are objects of their own; every other event has a number.\<close>

datatype addr = TimerHead | PendingHead | Ev nat

type_synonym timeval = "int \<times> int"

record ril_event =
  enext :: "addr option"
  eprev :: "addr option"
  efd :: int
  index :: int
  persist :: bool
  timeout :: timeval
  func :: nat
  param :: nat

record ev_state =
  mem :: "addr \<Rightarrow> ril_event"
  watch_table :: "addr option list"
  readFds :: "int set"
  nfds :: int
  fired :: "(nat \<times> int \<times> nat) list"

definition MAX_FD_EVENTS :: nat where "MAX_FD_EVENTS = 8"

section \<open>Time\<close>

definition timeradd :: "timeval \<Rightarrow> timeval \<Rightarrow> timeval" where
  "timeradd a b = (let s = fst a + fst b; u = snd a + snd b
     in if u \<ge> 1000000 then (s + 1, u - 1000000) else (s, u))"

definition timersub :: "timeval \<Rightarrow> timeval \<Rightarrow> timeval" where
  "timersub a b = (let s = fst a - fst b; u = snd a - snd b
     in if u < 0 then (s - 1, u + 1000000) else (s, u))"

definition timer_less :: "timeval \<Rightarrow> timeval \<Rightarrow> bool" where
  "timer_less a b = (if fst a = fst b then snd a < snd b else fst a < fst b)"

definition timer_gt :: "timeval \<Rightarrow> timeval \<Rightarrow> bool" where
  "timer_gt a b = (if fst a = fst b then snd a > snd b else fst a > fst b)"

text \<open>\<^verbatim>\<open>getNow\<close> turns the clock's nanoseconds into microseconds.\<close>

definition getNow :: "int \<times> int \<Rightarrow> timeval" where
  "getNow ts = (fst ts, snd ts div 1000)"

section \<open>Linked lists\<close>

definition upd :: "addr \<Rightarrow> (ril_event \<Rightarrow> ril_event) \<Rightarrow> ev_state \<Rightarrow> ev_state" where
  "upd a f s = s\<lparr>mem := (mem s)(a := f (mem s a))\<rparr>"

definition zero_event :: ril_event where
  "zero_event = \<lparr>enext = None, eprev = None, efd = 0, index = 0, persist = False, timeout = (0, 0), func = 0, param = 0\<rparr>"

definition init_list :: "addr \<Rightarrow> ev_state \<Rightarrow> ev_state" where
  "init_list l s = s\<lparr>mem := (mem s)(l := zero_event\<lparr>enext := Some l, eprev := Some l, efd := - 1\<rparr>)\<rparr>"

definition addToList :: "addr \<Rightarrow> addr \<Rightarrow> ev_state \<Rightarrow> ev_state option" where
  "addToList ev l s =
     (let s1 = upd ev (\<lambda>e. e\<lparr>enext := Some l\<rparr>) s;
          s2 = upd ev (\<lambda>e. e\<lparr>eprev := eprev (mem s1 l)\<rparr>) s1
      in case eprev (mem s2 ev) of
           None \<Rightarrow> None
         | Some p \<Rightarrow> Some (upd l (\<lambda>e. e\<lparr>eprev := Some ev\<rparr>) (upd p (\<lambda>e. e\<lparr>enext := Some ev\<rparr>) s2)))"

definition removeFromList :: "addr \<Rightarrow> ev_state \<Rightarrow> ev_state option" where
  "removeFromList ev s =
     (case (enext (mem s ev), eprev (mem s ev)) of
        (Some n, Some p) \<Rightarrow>
          (let s1 = upd n (\<lambda>e. e\<lparr>eprev := Some p\<rparr>) s;
               s2 = upd p (\<lambda>e. e\<lparr>enext := enext (mem s1 ev)\<rparr>) s1
           in Some (upd ev (\<lambda>e. e\<lparr>enext := None, eprev := None\<rparr>) s2))
      | _ \<Rightarrow> None)"

section \<open>Watched descriptors\<close>

text \<open>The largest descriptor in the table, at least 0.\<close>

fun max_fd :: "(addr \<Rightarrow> ril_event) \<Rightarrow> int \<Rightarrow> addr option list \<Rightarrow> int" where
  "max_fd h n [] = n"
| "max_fd h n (None # ws) = max_fd h n ws"
| "max_fd h n (Some re # ws) = max_fd h (if efd (h re) > n then efd (h re) else n) ws"

definition removeWatch :: "addr \<Rightarrow> nat \<Rightarrow> ev_state \<Rightarrow> ev_state" where
  "removeWatch ev i s =
     (let s1 = upd ev (\<lambda>e. e\<lparr>index := - 1\<rparr>) (s\<lparr>watch_table := (watch_table s)[i := None]\<rparr>);
          s2 = s1\<lparr>readFds := readFds s1 - {efd (mem s1 ev)}\<rparr>
      in if efd (mem s2 ev) + 1 = nfds s2
         then s2\<lparr>nfds := max_fd (mem s2) 0 (watch_table s2) + 1\<rparr> else s2)"

fun first_free_slot :: "addr option list \<Rightarrow> nat \<Rightarrow> nat option" where
  "first_free_slot [] i = None"
| "first_free_slot (None # ws) i = Some i"
| "first_free_slot (Some _ # ws) i = first_free_slot ws (Suc i)"

definition ril_event_add :: "addr \<Rightarrow> ev_state \<Rightarrow> ev_state" where
  "ril_event_add ev s =
     (case first_free_slot (watch_table s) 0 of
        None \<Rightarrow> s
      | Some i \<Rightarrow>
          (let s1 = upd ev (\<lambda>e. e\<lparr>index := int i\<rparr>) (s\<lparr>watch_table := (watch_table s)[i := Some ev]\<rparr>);
               s2 = s1\<lparr>readFds := insert (efd (mem s1 ev)) (readFds s1)\<rparr>
           in if efd (mem s2 ev) \<ge> nfds s2 then s2\<lparr>nfds := efd (mem s2 ev) + 1\<rparr> else s2))"

definition ril_event_del :: "addr \<Rightarrow> ev_state \<Rightarrow> ev_state" where
  "ril_event_del ev s =
     (if index (mem s ev) < 0 \<or> index (mem s ev) \<ge> int MAX_FD_EVENTS then s
      else removeWatch ev (nat (index (mem s ev))) s)"

definition ril_event_init :: "ev_state \<Rightarrow> ev_state" where
  "ril_event_init s = (init_list PendingHead (init_list TimerHead (s\<lparr>readFds := {}\<rparr>)))
     \<lparr>watch_table := replicate MAX_FD_EVENTS None\<rparr>"

definition ril_event_set :: "addr \<Rightarrow> int \<Rightarrow> bool \<Rightarrow> nat \<Rightarrow> nat \<Rightarrow> ev_state \<Rightarrow> ev_state" where
  "ril_event_set ev fd pers f p s = s\<lparr>mem := (mem s)(ev := zero_event\<lparr>efd := fd, index := - 1,
     persist := pers, func := f, param := p\<rparr>)\<rparr>"

section \<open>Timers\<close>

text \<open>The walk over the sorted list: the first event that is not earlier than \<open>t\<close>, or the head.\<close>

partial_function (option) timer_pos :: "ev_state \<Rightarrow> timeval \<Rightarrow> addr \<Rightarrow> addr option" where
  "timer_pos s t l =
     (if timer_less (timeout (mem s l)) t \<and> l \<noteq> TimerHead
      then Option.bind (enext (mem s l)) (\<lambda>n. timer_pos s t n) else Some l)"

definition ril_timer_add :: "addr \<Rightarrow> timeval option \<Rightarrow> int \<times> int \<Rightarrow> ev_state \<Rightarrow> ev_state option" where
  "ril_timer_add ev tv clock s =
     (case tv of
        None \<Rightarrow> Some s
      | Some d \<Rightarrow> Option.bind (enext (mem s TimerHead)) (\<lambda>first.
          let s1 = upd ev (\<lambda>e. e\<lparr>efd := - 1, timeout := timeradd (getNow clock) d\<rparr>) s
          in Option.bind (timer_pos s1 (timeout (mem s1 ev)) first) (\<lambda>l. addToList ev l s1)))"

text \<open>Expired timers move to the pending events.\<close>

partial_function (option) expire_loop :: "timeval \<Rightarrow> addr \<Rightarrow> ev_state \<Rightarrow> ev_state option" where
  "expire_loop now tev s =
     (if tev \<noteq> TimerHead \<and> timer_gt now (timeout (mem s tev))
      then Option.bind (enext (mem s tev)) (\<lambda>n.
           Option.bind (removeFromList tev s) (\<lambda>s1.
           Option.bind (addToList tev PendingHead s1) (\<lambda>s2. expire_loop now n s2)))
      else Some s)"

definition processTimeouts :: "int \<times> int \<Rightarrow> ev_state \<Rightarrow> ev_state option" where
  "processTimeouts clock s = Option.bind (enext (mem s TimerHead)) (\<lambda>tev. expire_loop (getNow clock) tev s)"

text \<open>\<open>rfds\<close> is the set \<^verbatim>\<open>select\<close> returned and \<open>n\<close> its count.\<close>

fun ready_loop :: "int set \<Rightarrow> nat list \<Rightarrow> int \<Rightarrow> ev_state \<Rightarrow> ev_state option" where
  "ready_loop rfds [] n s = Some s"
| "ready_loop rfds (i # is) n s =
     (if n > 0
      then case watch_table s ! i of
             None \<Rightarrow> ready_loop rfds is n s
           | Some re \<Rightarrow>
               if efd (mem s re) \<in> rfds
               then Option.bind (addToList re PendingHead s) (\<lambda>s1.
                      ready_loop rfds is (n - 1) (if persist (mem s1 re) then s1 else removeWatch re i s1))
               else ready_loop rfds is n s
      else Some s)"

definition processReadReadies :: "int set \<Rightarrow> int \<Rightarrow> ev_state \<Rightarrow> ev_state option" where
  "processReadReadies rfds n s = ready_loop rfds [0..<MAX_FD_EVENTS] n s"

text \<open>The call of an event's function is \<open>cb\<close>: it gets the function, the descriptor and the
  parameter and may change the state.\<close>

partial_function (option) fire_loop ::
    "(nat \<Rightarrow> int \<Rightarrow> nat \<Rightarrow> ev_state \<Rightarrow> ev_state) \<Rightarrow> addr \<Rightarrow> ev_state \<Rightarrow> ev_state option" where
  "fire_loop cb ev s =
     (if ev \<noteq> PendingHead
      then Option.bind (enext (mem s ev)) (\<lambda>n.
           Option.bind (removeFromList ev s) (\<lambda>s1.
             let e = mem s1 ev; s2 = s1\<lparr>fired := fired s1 @ [(func e, efd e, param e)]\<rparr>
             in fire_loop cb n (cb (func e) (efd e) (param e) s2)))
      else Some s)"

definition firePending :: "(nat \<Rightarrow> int \<Rightarrow> nat \<Rightarrow> ev_state \<Rightarrow> ev_state) \<Rightarrow> ev_state \<Rightarrow> ev_state option" where
  "firePending cb s = Option.bind (enext (mem s PendingHead)) (\<lambda>ev. fire_loop cb ev s)"

definition calcNextTimeout :: "int \<times> int \<Rightarrow> ev_state \<Rightarrow> timeval option option" where
  "calcNextTimeout clock s = Option.bind (enext (mem s TimerHead)) (\<lambda>tev.
     if tev = TimerHead then Some None
     else if timer_gt (timeout (mem s tev)) (getNow clock)
     then Some (Some (timersub (timeout (mem s tev)) (getNow clock)))
     else Some (Some (0, 0)))"

text \<open>One round of \<^verbatim>\<open>ril_event_loop\<close>; \<open>sel\<close> is what \<^verbatim>\<open>select\<close> answers: a count and a set of ready
  descriptors. A negative count ends the round; the loop goes on only after \<^verbatim>\<open>EINTR\<close>.\<close>

definition loop_round :: "(nat \<Rightarrow> int \<Rightarrow> nat \<Rightarrow> ev_state \<Rightarrow> ev_state) \<Rightarrow>
    (int \<Rightarrow> int set \<Rightarrow> timeval option \<Rightarrow> int \<times> int set) \<Rightarrow> int \<times> int \<Rightarrow> int \<times> int \<Rightarrow> ev_state \<Rightarrow> ev_state option" where
  "loop_round cb sel clock1 clock2 s =
     Option.bind (calcNextTimeout clock1 s) (\<lambda>ptv.
       let (n, rfds) = sel (nfds s) (readFds s) ptv in
       if n < 0 then Some s
       else Option.bind (processTimeouts clock2 s) (\<lambda>s1.
            Option.bind (processReadReadies rfds n s1) (\<lambda>s2. firePending cb s2)))"

section \<open>Circular lists\<close>

text \<open>\<open>seg h a xs b\<close>: from \<open>a\<close> the links lead through \<open>xs\<close> to \<open>b\<close>, forwards and backwards.\<close>

fun seg :: "(addr \<Rightarrow> ril_event) \<Rightarrow> addr \<Rightarrow> addr list \<Rightarrow> addr \<Rightarrow> bool" where
  "seg h a [] b \<longleftrightarrow> enext (h a) = Some b \<and> eprev (h b) = Some a"
| "seg h a (x # xs) b \<longleftrightarrow> enext (h a) = Some x \<and> eprev (h x) = Some a \<and> seg h x xs b"

definition dll :: "(addr \<Rightarrow> ril_event) \<Rightarrow> addr \<Rightarrow> addr list \<Rightarrow> bool" where
  "dll h lh xs \<longleftrightarrow> seg h lh xs lh \<and> distinct (lh # xs)"

lemma seg_append: "seg h a (xs @ y # ys) b \<longleftrightarrow> seg h a xs y \<and> seg h y ys b"
  by (induction xs arbitrary: a) auto

lemma seg_ends: "seg h a xs b \<Longrightarrow> enext (h (last (a # xs))) = Some b \<and> eprev (h b) = Some (last (a # xs))"
  by (induction xs arbitrary: a) auto

lemma seg_frame:
  "\<forall>x \<in> set (a # xs). enext (h' x) = enext (h x) \<Longrightarrow> \<forall>x \<in> set xs \<union> {b}. eprev (h' x) = eprev (h x) \<Longrightarrow>
    seg h' a xs b = seg h a xs b"
  by (induction xs arbitrary: a) auto

text \<open>The last link of a segment is turned to another node.\<close>

lemma seg_retarget:
  "seg h a xs b \<Longrightarrow> distinct (a # xs) \<Longrightarrow>
    \<forall>x \<in> set (a # xs). x \<noteq> last (a # xs) \<longrightarrow> enext (h' x) = enext (h x) \<Longrightarrow>
    \<forall>x \<in> set xs. eprev (h' x) = eprev (h x) \<Longrightarrow>
    enext (h' (last (a # xs))) = Some e \<Longrightarrow> eprev (h' e) = Some (last (a # xs)) \<Longrightarrow> seg h' a xs e"
proof (induction xs arbitrary: a)
  case (Cons x xs)
  have "last (x # xs) \<noteq> a"
    using Cons.prems(2) last_in_set [of "x # xs"] by auto
  then show ?case using Cons by auto
qed simp

lemma dll_first: "dll h lh xs \<Longrightarrow> enext (h lh) = Some (case xs of [] \<Rightarrow> lh | x # _ \<Rightarrow> x)"
  by (cases xs) (auto simp: dll_def)

text \<open>Events that differ in their links only.\<close>

definition same_data :: "ev_state \<Rightarrow> ev_state \<Rightarrow> bool" where
  "same_data s s' \<longleftrightarrow> (\<forall>a. (mem s' a)\<lparr>enext := None, eprev := None\<rparr> = (mem s a)\<lparr>enext := None, eprev := None\<rparr>) \<and>
     s'\<lparr>mem := mem s\<rparr> = s"

lemma data_eq:
  "(e :: ril_event)\<lparr>enext := None, eprev := None\<rparr> = e'\<lparr>enext := None, eprev := None\<rparr> \<longleftrightarrow>
    efd e = efd e' \<and> index e = index e' \<and> persist e = persist e' \<and> timeout e = timeout e' \<and>
    func e = func e' \<and> param e = param e'"
  by (cases e; cases e') auto

lemma same_dataD:
  assumes "same_data s s'"
  shows "efd (mem s' a) = efd (mem s a)" "index (mem s' a) = index (mem s a)"
    "persist (mem s' a) = persist (mem s a)" "timeout (mem s' a) = timeout (mem s a)"
    "func (mem s' a) = func (mem s a)" "param (mem s' a) = param (mem s a)"
    "watch_table s' = watch_table s" "readFds s' = readFds s" "nfds s' = nfds s" "fired s' = fired s"
proof -
  have "(mem s' a)\<lparr>enext := None, eprev := None\<rparr> = (mem s a)\<lparr>enext := None, eprev := None\<rparr>"
    and s: "s'\<lparr>mem := mem s\<rparr> = s"
    using assms by (auto simp: same_data_def)
  then show "efd (mem s' a) = efd (mem s a)" "index (mem s' a) = index (mem s a)"
    "persist (mem s' a) = persist (mem s a)" "timeout (mem s' a) = timeout (mem s a)"
    "func (mem s' a) = func (mem s a)" "param (mem s' a) = param (mem s a)"
    by (simp_all add: data_eq)
  show "watch_table s' = watch_table s" "readFds s' = readFds s" "nfds s' = nfds s" "fired s' = fired s"
    using arg_cong [OF s, of watch_table] arg_cong [OF s, of readFds] arg_cong [OF s, of nfds]
      arg_cong [OF s, of fired] by simp_all
qed

lemma same_data_trans: "same_data s s' \<Longrightarrow> same_data s' s'' \<Longrightarrow> same_data s s''"
  unfolding same_data_def by (cases s; cases s'; cases s'') auto

lemma same_data_refl [simp]: "same_data s s"
  by (simp add: same_data_def)

lemma addToList_links:
  assumes "eprev (mem s l) = Some p" "ev \<noteq> l" "ev \<noteq> p"
  shows "\<exists>s'. addToList ev l s = Some s' \<and> same_data s s' \<and>
    (\<forall>a. enext (mem s' a) = (if a = p then Some ev else if a = ev then Some l else enext (mem s a))) \<and>
    (\<forall>a. eprev (mem s' a) = (if a = l then Some ev else if a = ev then Some p else eprev (mem s a)))"
  using assms by (auto simp: addToList_def upd_def Let_def same_data_def data_eq)

lemma removeFromList_links:
  assumes "enext (mem s ev) = Some n" "eprev (mem s ev) = Some p" "ev \<noteq> n" "ev \<noteq> p"
  shows "\<exists>s'. removeFromList ev s = Some s' \<and> same_data s s' \<and>
    (\<forall>a. enext (mem s' a) = (if a = ev then None else if a = p then Some n else enext (mem s a))) \<and>
    (\<forall>a. eprev (mem s' a) = (if a = ev then None else if a = n then Some p else eprev (mem s a)))"
  using assms by (auto simp: removeFromList_def upd_def Let_def same_data_def data_eq)

text \<open>Insertion before the node at which \<open>ys\<close> begins, and removal.\<close>

definition links_same :: "addr set \<Rightarrow> ev_state \<Rightarrow> ev_state \<Rightarrow> bool" where
  "links_same A s s' \<longleftrightarrow> (\<forall>a \<in> A. enext (mem s' a) = enext (mem s a) \<and> eprev (mem s' a) = eprev (mem s a))"

lemma dll_frame: "links_same (set (lh # xs)) s s' \<Longrightarrow> dll (mem s') lh xs = dll (mem s) lh xs"
  unfolding dll_def links_same_def by (subst seg_frame [of lh xs "mem s'" "mem s"]) auto

lemma dll_split:
  assumes "dll h lh (xs @ ys)"
  shows "seg h lh xs (case ys of [] \<Rightarrow> lh | y # _ \<Rightarrow> y)"
    and "ys = y # zs \<Longrightarrow> seg h y zs lh"
    and "eprev (h (case ys of [] \<Rightarrow> lh | y # _ \<Rightarrow> y)) = Some (last (lh # xs))"
proof -
  show 1: "seg h lh xs (case ys of [] \<Rightarrow> lh | y # _ \<Rightarrow> y)"
    using assms by (cases ys) (auto simp: dll_def seg_append)
  show "ys = y # zs \<Longrightarrow> seg h y zs lh"
    using assms by (auto simp: dll_def seg_append)
  show "eprev (h (case ys of [] \<Rightarrow> lh | y # _ \<Rightarrow> y)) = Some (last (lh # xs))"
    using seg_ends [OF 1] by simp
qed

lemma addToList_dll:
  assumes dll: "dll (mem s) lh (xs @ ys)" and ev: "ev \<notin> set (lh # xs @ ys)"
  shows "\<exists>s'. addToList ev (case ys of [] \<Rightarrow> lh | y # _ \<Rightarrow> y) s = Some s' \<and> dll (mem s') lh (xs @ ev # ys) \<and>
    same_data s s' \<and> links_same (- set (ev # lh # xs @ ys)) s s'"
proof -
  let ?l = "case ys of [] \<Rightarrow> lh | y # _ \<Rightarrow> y" and ?p = "last (lh # xs)"
  have p: "?p \<in> set (lh # xs)" and l: "?l \<in> set (lh # ys)"
    using last_in_set [of "lh # xs"] by (auto split: list.split)
  have dist: "distinct (lh # xs @ ys)"
    using dll by (simp add: dll_def)
  have ne: "ev \<noteq> ?l" "ev \<noteq> ?p"
    using ev p l by (auto split: list.splits)
  obtain s' where s': "addToList ev ?l s = Some s'" "same_data s s'"
    and nx: "\<And>a. enext (mem s' a) = (if a = ?p then Some ev else if a = ev then Some ?l else enext (mem s a))"
    and pv: "\<And>a. eprev (mem s' a) = (if a = ?l then Some ev else if a = ev then Some ?p else eprev (mem s a))"
    using addToList_links [OF dll_split(3) [OF dll] ne] by blast
  have lx: "?l \<notin> set xs"
    using dist l by auto
  have "seg (mem s') lh xs ev"
    by (rule seg_retarget [OF dll_split(1) [OF dll]]) (use dist ev lx ne in \<open>auto simp: nx pv\<close>)
  moreover have "seg (mem s') ev ys lh"
  proof (cases ys)
    case Nil
    then show ?thesis using ne by (simp add: nx pv)
  next
    case (Cons y zs)
    have "seg (mem s') y zs lh = seg (mem s) y zs lh"
      by (rule seg_frame) (use Cons dist ev p in \<open>auto simp: nx pv\<close>)
    then show ?thesis
      using dll_split(2) [OF dll Cons] Cons ne by (simp add: nx pv)
  qed
  ultimately have "dll (mem s') lh (xs @ ev # ys)"
    using dist ev by (auto simp: dll_def seg_append)
  moreover have "links_same (- set (ev # lh # xs @ ys)) s s'"
    using p l by (auto simp: links_same_def nx pv)
  ultimately show ?thesis using s' by blast
qed

lemma removeFromList_dll:
  assumes dll: "dll (mem s) lh (xs @ ev # ys)"
  shows "\<exists>s'. removeFromList ev s = Some s' \<and> dll (mem s') lh (xs @ ys) \<and> same_data s s' \<and>
    enext (mem s ev) = Some (case ys of [] \<Rightarrow> lh | y # _ \<Rightarrow> y) \<and> links_same (- set (ev # lh # xs @ ys)) s s'"
proof -
  let ?n = "case ys of [] \<Rightarrow> lh | y # _ \<Rightarrow> y" and ?p = "last (lh # xs)"
  have p: "?p \<in> set (lh # xs)" and n: "?n \<in> set (lh # ys)"
    using last_in_set [of "lh # xs"] by (auto split: list.split)
  have dist: "distinct (lh # xs @ ev # ys)" and sg: "seg (mem s) lh xs ev" "seg (mem s) ev ys lh"
    using dll by (auto simp: dll_def seg_append)
  have links: "enext (mem s ev) = Some ?n" "eprev (mem s ev) = Some ?p"
    using sg(2) seg_ends [OF sg(1)] by (cases ys; simp)+
  have ne: "ev \<noteq> ?n" "ev \<noteq> ?p"
    using dist p n by auto
  obtain s' where s': "removeFromList ev s = Some s'" "same_data s s'"
    and nx: "\<And>a. enext (mem s' a) = (if a = ev then None else if a = ?p then Some ?n else enext (mem s a))"
    and pv: "\<And>a. eprev (mem s' a) = (if a = ev then None else if a = ?n then Some ?p else eprev (mem s a))"
    using removeFromList_links [OF links ne] by blast
  have nx_xs: "?n \<notin> set xs"
    using dist n by auto
  have left: "seg (mem s') lh xs ?n"
    by (rule seg_retarget [OF sg(1)]) (use dist nx_xs ne in \<open>auto simp: nx pv\<close>)
  have "dll (mem s') lh (xs @ ys)"
  proof (cases ys)
    case Nil
    then show ?thesis using left dist by (simp add: dll_def)
  next
    case (Cons y zs)
    have "seg (mem s') y zs lh = seg (mem s) y zs lh"
      by (rule seg_frame) (use Cons dist p in \<open>auto simp: nx pv\<close>)
    then show ?thesis
      using left sg(2) Cons dist by (auto simp: dll_def seg_append)
  qed
  moreover have "links_same (- set (ev # lh # xs @ ys)) s s'"
    using p n by (auto simp: links_same_def nx pv)
  ultimately show ?thesis using s' links(1) by blast
qed

section \<open>Timers and pending events\<close>

text \<open>The state of the two lists.\<close>

definition lists :: "ev_state \<Rightarrow> addr list \<Rightarrow> addr list \<Rightarrow> bool" where
  "lists s ts ps \<longleftrightarrow> dll (mem s) TimerHead ts \<and> dll (mem s) PendingHead ps \<and> set ts \<inter> set ps = {} \<and>
     PendingHead \<notin> set ts \<and> TimerHead \<notin> set ps"

definition timers_sorted :: "ev_state \<Rightarrow> addr list \<Rightarrow> bool" where
  "timers_sorted s ts \<longleftrightarrow> sorted (map (\<lambda>e. timeout (mem s e)) ts)"

lemma timer_order: "timer_less a b \<longleftrightarrow> a < b" "timer_gt a b \<longleftrightarrow> b < a"
  by (cases a; cases b; auto simp: timer_less_def timer_gt_def)+

lemma lists_frame: "links_same UNIV s s' \<Longrightarrow> lists s' ts ps = lists s ts ps"
  unfolding lists_def using dll_frame links_same_def by (metis UNIV_I)

lemma lists_remove_timer:
  assumes "lists s (xs @ ev # ys) ps"
  shows "\<exists>s'. removeFromList ev s = Some s' \<and> lists s' (xs @ ys) ps \<and> same_data s s' \<and>
    enext (mem s ev) = Some (case ys of [] \<Rightarrow> TimerHead | y # _ \<Rightarrow> y)"
proof -
  obtain s' where s': "removeFromList ev s = Some s'" "dll (mem s') TimerHead (xs @ ys)" "same_data s s'"
    "enext (mem s ev) = Some (case ys of [] \<Rightarrow> TimerHead | y # _ \<Rightarrow> y)"
    "links_same (- set (ev # TimerHead # xs @ ys)) s s'"
    using removeFromList_dll [of s TimerHead xs ev ys] assms by (auto simp: lists_def)
  have "links_same (set (PendingHead # ps)) s s'"
    using s'(5) assms unfolding links_same_def lists_def by (auto simp: disjoint_iff)
  then show ?thesis
    using s' assms dll_frame [of PendingHead ps s s'] by (auto simp: lists_def)
qed

lemma lists_remove_pending:
  assumes "lists s ts (xs @ ev # ys)"
  shows "\<exists>s'. removeFromList ev s = Some s' \<and> lists s' ts (xs @ ys) \<and> same_data s s' \<and>
    enext (mem s ev) = Some (case ys of [] \<Rightarrow> PendingHead | y # _ \<Rightarrow> y)"
proof -
  obtain s' where s': "removeFromList ev s = Some s'" "dll (mem s') PendingHead (xs @ ys)" "same_data s s'"
    "enext (mem s ev) = Some (case ys of [] \<Rightarrow> PendingHead | y # _ \<Rightarrow> y)"
    "links_same (- set (ev # PendingHead # xs @ ys)) s s'"
    using removeFromList_dll [of s PendingHead xs ev ys] assms by (auto simp: lists_def)
  have "links_same (set (TimerHead # ts)) s s'"
    using s'(5) assms unfolding links_same_def lists_def by (auto simp: disjoint_iff)
  then show ?thesis
    using s' assms dll_frame [of TimerHead ts s s'] by (auto simp: lists_def)
qed

definition unlinked :: "addr \<Rightarrow> addr list \<Rightarrow> addr list \<Rightarrow> bool" where
  "unlinked ev ts ps \<longleftrightarrow> ev \<notin> set ts \<and> ev \<notin> set ps \<and> ev \<noteq> TimerHead \<and> ev \<noteq> PendingHead"

lemma lists_add_timer:
  assumes "lists s (xs @ ys) ps" "unlinked ev (xs @ ys) ps"
  shows "\<exists>s'. addToList ev (case ys of [] \<Rightarrow> TimerHead | y # _ \<Rightarrow> y) s = Some s' \<and>
    lists s' (xs @ ev # ys) ps \<and> same_data s s'"
proof -
  obtain s' where s': "addToList ev (case ys of [] \<Rightarrow> TimerHead | y # _ \<Rightarrow> y) s = Some s'"
    "dll (mem s') TimerHead (xs @ ev # ys)" "same_data s s'" "links_same (- set (ev # TimerHead # xs @ ys)) s s'"
    using addToList_dll [of s TimerHead xs ys ev] assms by (auto simp: lists_def unlinked_def)
  have "links_same (set (PendingHead # ps)) s s'"
    using s'(4) assms unfolding links_same_def lists_def unlinked_def by (auto simp: disjoint_iff)
  then show ?thesis
    using s' assms dll_frame [of PendingHead ps s s'] by (auto simp: lists_def unlinked_def)
qed

lemma lists_add_pending:
  assumes "lists s ts ps" "unlinked ev ts ps"
  shows "\<exists>s'. addToList ev PendingHead s = Some s' \<and> lists s' ts (ps @ [ev]) \<and> same_data s s'"
proof -
  obtain s' where s': "addToList ev PendingHead s = Some s'"
    "dll (mem s') PendingHead (ps @ [ev])" "same_data s s'" "links_same (- set (ev # PendingHead # ps)) s s'"
    using addToList_dll [of s PendingHead ps "[]" ev] assms by (auto simp: lists_def unlinked_def)
  have "links_same (set (TimerHead # ts)) s s'"
    using s'(4) assms unfolding links_same_def lists_def unlinked_def by (auto simp: disjoint_iff)
  then show ?thesis
    using s' assms dll_frame [of TimerHead ts s s'] by (auto simp: lists_def unlinked_def)
qed

text \<open>The walk to the place of a new timer.\<close>

lemma timer_pos_walk:
  "dll (mem s) TimerHead (us @ ys) \<Longrightarrow> timer_pos s t (case ys of [] \<Rightarrow> TimerHead | y # _ \<Rightarrow> y) =
    Some (case dropWhile (\<lambda>e. timeout (mem s e) < t) ys of [] \<Rightarrow> TimerHead | y # _ \<Rightarrow> y)"
proof (induction ys arbitrary: us)
  case Nil
  then show ?case by (subst timer_pos.simps) simp
next
  case (Cons y ys)
  have y: "y \<noteq> TimerHead"
    using Cons.prems by (auto simp: dll_def)
  have "enext (mem s y) = Some (case ys of [] \<Rightarrow> TimerHead | z # _ \<Rightarrow> z)"
    using Cons.prems by (cases ys) (auto simp: dll_def seg_append)
  then show ?case
    using Cons.IH [of "us @ [y]"] Cons.prems y by (subst timer_pos.simps) (simp add: timer_order)
qed

lemma sorted_dropWhile_ge:
  "sorted (map f xs) \<Longrightarrow> y \<in> set (dropWhile (\<lambda>x. f x < t) xs) \<Longrightarrow> (t :: 'b :: linorder) \<le> f y"
  by (induction xs) (auto split: if_splits)

lemma sorted_insert_place:
  assumes "sorted (map f xs)" "f e = (t :: 'b :: linorder)"
  shows "sorted (map f (takeWhile (\<lambda>x. f x < t) xs @ e # dropWhile (\<lambda>x. f x < t) xs))"
proof -
  let ?P = "\<lambda>x. f x < t"
  have "sorted (map f (takeWhile ?P xs @ dropWhile ?P xs))"
    using assms(1) by simp
  then have "sorted (map f (takeWhile ?P xs))" "sorted (map f (dropWhile ?P xs))"
    unfolding map_append sorted_append by auto
  moreover have "t \<le> f y" if "y \<in> set (dropWhile ?P xs)" for y
    using sorted_dropWhile_ge [OF assms(1) that] by simp
  moreover have "f x < t" if "x \<in> set (takeWhile ?P xs)" for x
    using set_takeWhileD [OF that] by simp
  ultimately show ?thesis
    using assms(2) by (fastforce simp: sorted_append)
qed

lemma timer_add_lists:
  assumes "lists s ts ps" "timers_sorted s ts" "unlinked ev ts ps"
    and t_def: "t = timeradd (getNow clock) d"
  shows "\<exists>s'. ril_timer_add ev (Some d) clock s = Some s' \<and>
    lists s' (takeWhile (\<lambda>e. timeout (mem s e) < t) ts @ ev # dropWhile (\<lambda>e. timeout (mem s e) < t) ts) ps \<and>
    timers_sorted s' (takeWhile (\<lambda>e. timeout (mem s e) < t) ts @ ev # dropWhile (\<lambda>e. timeout (mem s e) < t) ts) \<and>
    timeout (mem s' ev) = t \<and> (\<forall>a. a \<noteq> ev \<longrightarrow> timeout (mem s' a) = timeout (mem s a)) \<and>
    same_data (upd ev (\<lambda>e. e\<lparr>efd := - 1, timeout := t\<rparr>) s) s'"
proof -
  define s1 where "s1 = upd ev (\<lambda>e. e\<lparr>efd := - 1, timeout := t\<rparr>) s"
  let ?P = "\<lambda>e. timeout (mem s e) < t"
  have l1: "lists s1 ts ps"
    using assms(1) by (subst lists_frame [of s]) (auto simp: s1_def upd_def links_same_def)
  have data: "timeout (mem s1 ev) = t" "\<And>a. a \<noteq> ev \<Longrightarrow> timeout (mem s1 a) = timeout (mem s a)"
    by (simp_all add: s1_def upd_def)
  have ev: "ev \<notin> set ts"
    using assms(3) by (simp add: unlinked_def)
  have P: "dropWhile (\<lambda>e. timeout (mem s1 e) < t) ts = dropWhile ?P ts"
    by (rule dropWhile_cong) (use ev data(2) in metis)+
  have first: "enext (mem s TimerHead) = Some (case ts of [] \<Rightarrow> TimerHead | y # _ \<Rightarrow> y)"
    using assms(1) dll_first by (simp add: lists_def)
  have pos: "timer_pos s1 t (case ts of [] \<Rightarrow> TimerHead | y # _ \<Rightarrow> y) =
      Some (case dropWhile ?P ts of [] \<Rightarrow> TimerHead | y # _ \<Rightarrow> y)"
    using timer_pos_walk [of s1 "[]" ts t] l1 by (simp add: lists_def P)
  obtain s' where s': "addToList ev (case dropWhile ?P ts of [] \<Rightarrow> TimerHead | y # _ \<Rightarrow> y) s1 = Some s'"
    "lists s' (takeWhile ?P ts @ ev # dropWhile ?P ts) ps" "same_data s1 s'"
    using lists_add_timer [of s1 "takeWhile ?P ts" "dropWhile ?P ts" ps ev] l1 assms(3) by auto
  have run: "ril_timer_add ev (Some d) clock s = Some s'"
    using first pos s'(1) by (simp add: ril_timer_add_def t_def [symmetric] s1_def [symmetric] data(1) Let_def)
  have time: "timeout (mem s' ev) = t" "\<And>a. a \<noteq> ev \<Longrightarrow> timeout (mem s' a) = timeout (mem s a)"
    using same_dataD(4) [OF s'(3)] data by auto
  have same: "map (\<lambda>e. timeout (mem s' e)) ts = map (\<lambda>e. timeout (mem s e)) ts"
    "takeWhile (\<lambda>e. timeout (mem s' e) < t) ts = takeWhile ?P ts"
    "dropWhile (\<lambda>e. timeout (mem s' e) < t) ts = dropWhile ?P ts"
    by (rule map_cong takeWhile_cong dropWhile_cong; use ev time(2) in metis)+
  have "sorted (map (\<lambda>e. timeout (mem s' e)) ts)"
    using assms(2) by (simp only: timers_sorted_def same)
  from sorted_insert_place [of "\<lambda>e. timeout (mem s' e)", OF this time(1)]
  have "timers_sorted s' (takeWhile ?P ts @ ev # dropWhile ?P ts)"
    by (simp only: timers_sorted_def same)
  then show ?thesis using run s'(2,3) time s1_def by blast
qed

lemma expire_walk:
  "lists s ts ps \<Longrightarrow> \<exists>s'. expire_loop now (case ts of [] \<Rightarrow> TimerHead | y # _ \<Rightarrow> y) s = Some s' \<and>
    lists s' (dropWhile (\<lambda>e. timeout (mem s e) < now) ts) (ps @ takeWhile (\<lambda>e. timeout (mem s e) < now) ts) \<and>
    same_data s s'"
proof (induction ts arbitrary: s ps)
  case Nil
  then show ?case by (subst expire_loop.simps) simp
next
  case (Cons e ts)
  have e: "e \<noteq> TimerHead" "unlinked e ts ps"
    using Cons.prems by (auto simp: lists_def dll_def unlinked_def)
  show ?case
  proof (cases "timeout (mem s e) < now")
    case False
    then show ?thesis
      using Cons.prems by (subst expire_loop.simps) (simp add: timer_order)
  next
    case True
    obtain s1 where s1: "removeFromList e s = Some s1" "lists s1 ts ps" "same_data s s1"
      "enext (mem s e) = Some (case ts of [] \<Rightarrow> TimerHead | y # _ \<Rightarrow> y)"
      using lists_remove_timer [of s "[]" e ts ps] Cons.prems by auto
    obtain s2 where s2: "addToList e PendingHead s1 = Some s2" "lists s2 ts (ps @ [e])" "same_data s1 s2"
      using lists_add_pending [OF s1(2) e(2)] by blast
    have same: "same_data s s2"
      using s1(3) s2(3) by (rule same_data_trans)
    obtain s' where s': "expire_loop now (case ts of [] \<Rightarrow> TimerHead | y # _ \<Rightarrow> y) s2 = Some s'"
      "lists s' (dropWhile (\<lambda>e. timeout (mem s e) < now) ts) (ps @ e # takeWhile (\<lambda>e. timeout (mem s e) < now) ts)"
      "same_data s2 s'"
      using Cons.IH [OF s2(2)] by (auto simp: same_dataD(4) [OF same])
    then show ?thesis
      using True e(1) s1 s2(1) same_data_trans [OF same s'(3)]
      by (subst expire_loop.simps) (simp add: timer_order)
  qed
qed

end
