(* ===== verification/Ril_Event_Correct.thy ===== *)
theory Ril_Event_Correct
  imports Ril_Event
begin

text \<open>
  Correctness of the event loop: the table of watched descriptors stays consistent, a round of the
  loop fires exactly the expired timers and then the ready descriptors, and where the timers differ
  from what the comments say.
\<close>

section \<open>The watch table\<close>

fun entries :: "addr option list \<Rightarrow> addr list" where
  "entries [] = []"
| "entries (None # ws) = entries ws"
| "entries (Some e # ws) = e # entries ws"

abbreviation fd_of :: "ev_state \<Rightarrow> addr \<Rightarrow> int" where
  "fd_of s e \<equiv> efd (mem s e)"

definition watch_ok :: "ev_state \<Rightarrow> bool" where
  "watch_ok s \<longleftrightarrow> length (watch_table s) = MAX_FD_EVENTS \<and>
     (\<forall>i < MAX_FD_EVENTS. \<forall>e. watch_table s ! i = Some e \<longrightarrow>
        index (mem s e) = int i \<and> 0 \<le> fd_of s e \<and> fd_of s e < nfds s) \<and>
     distinct (map (fd_of s) (entries (watch_table s))) \<and>
     readFds s = fd_of s ` set (entries (watch_table s))"

lemma entries_append [simp]: "entries (xs @ ys) = entries xs @ entries ys"
  by (induction xs rule: entries.induct) auto

lemma entries_nth: "e \<in> set (entries ws) \<longleftrightarrow> (\<exists>i < length ws. ws ! i = Some e)"
  by (induction ws rule: entries.induct) (auto simp: less_Suc_eq_0_disj)

lemma entries_mem: "e \<in> set (entries ws) \<longleftrightarrow> Some e \<in> set ws"
  by (induction ws rule: entries.induct) auto

lemma entries_split:
  assumes "i < length ws" "ws ! i = Some e"
  shows "entries ws = entries (take i ws) @ e # entries (drop (Suc i) ws)"
    and "entries (ws[i := None]) = entries (take i ws) @ entries (drop (Suc i) ws)"
proof -
  have "entries ws = entries (take i ws @ ws ! i # drop (Suc i) ws)"
    using assms(1) by (simp add: id_take_nth_drop [symmetric])
  then show "entries ws = entries (take i ws) @ e # entries (drop (Suc i) ws)"
    using assms(2) by simp
  show "entries (ws[i := None]) = entries (take i ws) @ entries (drop (Suc i) ws)"
    using assms(1) by (simp add: upd_conv_take_nth_drop)
qed

lemma entries_fill:
  assumes "i < length ws" "ws ! i = None"
  shows "entries (ws[i := Some e]) = entries (take i ws) @ e # entries (drop (Suc i) ws)"
    and "entries ws = entries (take i ws) @ entries (drop (Suc i) ws)"
proof -
  show "entries (ws[i := Some e]) = entries (take i ws) @ e # entries (drop (Suc i) ws)"
    using assms(1) by (simp add: upd_conv_take_nth_drop)
  have "entries ws = entries (take i ws @ ws ! i # drop (Suc i) ws)"
    using assms(1) by (simp add: id_take_nth_drop [symmetric])
  then show "entries ws = entries (take i ws) @ entries (drop (Suc i) ws)"
    using assms(2) by simp
qed

lemma max_fd_bound: "n \<le> max_fd h n ws \<and> (\<forall>e \<in> set (entries ws). efd (h e) \<le> max_fd h n ws)"
  by (induction h n ws rule: max_fd.induct) (auto split: if_splits)

lemma first_free_slot_Some:
  "first_free_slot ws k = Some i \<Longrightarrow> k \<le> i \<and> i - k < length ws \<and> ws ! (i - k) = None"
proof (induction ws k rule: first_free_slot.induct)
  case (3 e ws i')
  then have "Suc i' \<le> i" "i - Suc i' < length ws" "ws ! (i - Suc i') = None"
    by auto
  then show ?case
    by (simp add: Suc_diff_le nth_Cons' Suc_le_eq)
qed auto

lemma watch_index_unique:
  assumes "watch_ok s" "i < MAX_FD_EVENTS" "j < MAX_FD_EVENTS" "watch_table s ! i = Some e" "watch_table s ! j = Some e"
  shows "i = j"
  using assms unfolding watch_ok_def by (metis of_nat_eq_iff)

lemma removeWatch_simps [simp]:
  "watch_table (removeWatch ev i s) = (watch_table s)[i := None]"
  "readFds (removeWatch ev i s) = readFds s - {fd_of s ev}"
  "fired (removeWatch ev i s) = fired s"
  "index (mem (removeWatch ev i s) a) = (if a = ev then - 1 else index (mem s a))"
  "efd (mem (removeWatch ev i s) a) = fd_of s a"
  "persist (mem (removeWatch ev i s) a) = persist (mem s a)"
  "timeout (mem (removeWatch ev i s) a) = timeout (mem s a)"
  "func (mem (removeWatch ev i s) a) = func (mem s a)"
  "param (mem (removeWatch ev i s) a) = param (mem s a)"
  "enext (mem (removeWatch ev i s) a) = enext (mem s a)"
  "eprev (mem (removeWatch ev i s) a) = eprev (mem s a)"
  by (simp_all add: removeWatch_def upd_def Let_def)

lemma removeWatch_nfds:
  "nfds (removeWatch ev i s) = nfds s \<or>
    fd_of s ev + 1 = nfds s \<and> (\<forall>e \<in> set (entries ((watch_table s)[i := None])). fd_of s e < nfds (removeWatch ev i s))"
proof -
  let ?ws = "(watch_table s)[i := None]"
  let ?h = "mem (removeWatch ev i s)"
  have "fd_of s e \<le> max_fd ?h 0 ?ws" if "e \<in> set (entries ?ws)" for e
    using max_fd_bound [of 0 ?h ?ws] that by auto
  moreover have "nfds (removeWatch ev i s) =
      (if fd_of s ev + 1 = nfds s then max_fd ?h 0 ?ws + 1 else nfds s)"
    by (simp add: removeWatch_def upd_def Let_def)
  ultimately show ?thesis by force
qed

lemma removeWatch_ok:
  assumes ok: "watch_ok s" and i: "i < MAX_FD_EVENTS" "watch_table s ! i = Some ev"
  shows "watch_ok (removeWatch ev i s)"
proof -
  let ?s = "removeWatch ev i s" and ?ws = "watch_table s"
  have len: "length ?ws = MAX_FD_EVENTS" and dist: "distinct (map (fd_of s) (entries ?ws))"
    using ok by (auto simp: watch_ok_def)
  have sp: "entries ?ws = entries (take i ?ws) @ ev # entries (drop (Suc i) ?ws)"
    "entries (?ws[i := None]) = entries (take i ?ws) @ entries (drop (Suc i) ?ws)"
    using entries_split [of i ?ws ev] i len by auto
  have "index (mem ?s e) = int j \<and> 0 \<le> fd_of ?s e \<and> fd_of ?s e < nfds ?s"
    if j: "j < MAX_FD_EVENTS" "watch_table ?s ! j = Some e" for j e
  proof -
    have ij: "i \<noteq> j" "?ws ! j = Some e"
      using j i len by (auto simp: nth_list_update split: if_splits)
    then have "e \<noteq> ev"
      using watch_index_unique [OF ok i(1) j(1) i(2)] by blast
    moreover have "e \<in> set (entries (?ws[i := None]))"
      using j len by (auto simp: entries_nth)
    ultimately show ?thesis
      using ok ij j(1) removeWatch_nfds [of ev i s] by (auto simp: watch_ok_def)
  qed
  moreover have "fd_of s ` set (entries ?ws) - {fd_of s ev} = fd_of s ` set (entries (?ws[i := None]))"
    using dist unfolding sp by (auto simp: image_iff)
  ultimately show ?thesis
    using ok dist len unfolding watch_ok_def by (auto simp: sp)
qed

lemma ril_event_add_ok:
  assumes ok: "watch_ok s" and slot: "first_free_slot (watch_table s) 0 = Some i"
    and fd: "0 \<le> fd_of s ev" "fd_of s ev \<notin> readFds s"
  shows "watch_ok (ril_event_add ev s)" "readFds (ril_event_add ev s) = insert (fd_of s ev) (readFds s)"
    "watch_table (ril_event_add ev s) = (watch_table s)[i := Some ev]" "index (mem (ril_event_add ev s) ev) = int i"
proof -
  let ?s = "ril_event_add ev s" and ?ws = "watch_table s"
  have i: "i < MAX_FD_EVENTS" "?ws ! i = None" and len: "length ?ws = MAX_FD_EVENTS"
    using first_free_slot_Some [OF slot] ok by (auto simp: watch_ok_def)
  have add: "watch_table ?s = ?ws[i := Some ev]" "readFds ?s = insert (fd_of s ev) (readFds s)"
    "fd_of ?s a = fd_of s a" "nfds ?s = max (nfds s) (fd_of s ev + 1)"
    "index (mem ?s a) = (if a = ev then int i else index (mem s a))" for a
    using slot by (auto simp: ril_event_add_def upd_def Let_def)
  have sp: "entries (?ws[i := Some ev]) = entries (take i ?ws) @ ev # entries (drop (Suc i) ?ws)"
    "entries ?ws = entries (take i ?ws) @ entries (drop (Suc i) ?ws)"
    using entries_fill [of i ?ws] i len by auto
  have new: "fd_of s ev \<notin> fd_of s ` set (entries ?ws)"
    using ok fd(2) by (simp add: watch_ok_def)
  have "index (mem ?s e) = int j \<and> 0 \<le> fd_of ?s e \<and> fd_of ?s e < nfds ?s"
    if j: "j < MAX_FD_EVENTS" "watch_table ?s ! j = Some e" for j e
  proof (cases "j = i")
    case True
    then have "e = ev"
      using j len by (simp add: add)
    then show ?thesis using True fd by (simp add: add)
  next
    case False
    then have "?ws ! j = Some e"
      using j by (simp add: add)
    moreover from this have "e \<noteq> ev"
      using new j(1) len nth_mem [of j ?ws] by (auto simp: entries_mem)
    ultimately show ?thesis
      using ok j(1) by (auto simp: add watch_ok_def less_max_iff_disj)
  qed
  moreover have "distinct (map (fd_of s) (entries (?ws[i := Some ev])))"
    using ok new unfolding watch_ok_def sp by auto
  moreover have "insert (fd_of s ev) (readFds s) = fd_of s ` set (entries (?ws[i := Some ev]))"
    using ok unfolding watch_ok_def sp by auto
  ultimately show "watch_ok ?s"
    using len unfolding watch_ok_def by (simp add: add)
  show "readFds ?s = insert (fd_of s ev) (readFds s)" "watch_table ?s = ?ws[i := Some ev]"
    "index (mem ?s ev) = int i"
    by (simp_all add: add)
qed

section \<open>Ready descriptors\<close>

lemma watch_ok_same: "same_data s s' \<Longrightarrow> watch_ok s' = watch_ok s"
  by (simp add: watch_ok_def same_dataD image_def)

text \<open>What a round leaves of a table entry: a ready event stays only when it is persistent.\<close>

definition after_ready :: "ev_state \<Rightarrow> int set \<Rightarrow> addr option \<Rightarrow> addr option" where
  "after_ready s rfds w = (case w of Some e \<Rightarrow> if fd_of s e \<in> rfds \<and> \<not> persist (mem s e) then None else w | None \<Rightarrow> None)"

text \<open>Two states whose events agree but for links and table positions.\<close>

definition same_events :: "ev_state \<Rightarrow> ev_state \<Rightarrow> bool" where
  "same_events s s' \<longleftrightarrow> fired s' = fired s \<and> (\<forall>a. efd (mem s' a) = efd (mem s a) \<and> persist (mem s' a) = persist (mem s a) \<and>
     timeout (mem s' a) = timeout (mem s a) \<and> func (mem s' a) = func (mem s a) \<and> param (mem s' a) = param (mem s a))"

lemma same_data_events: "same_data s s' \<Longrightarrow> same_events s s'"
  by (simp add: same_events_def same_dataD)

lemma ready_walk:
  assumes "watch_ok s" "lists s ts ps" "i \<le> MAX_FD_EVENTS"
    and "\<forall>e \<in> set (entries (drop i (watch_table s))). unlinked e ts ps"
    and "int (length (filter (\<lambda>e. fd_of s e \<in> rfds) (entries (drop i (watch_table s))))) \<le> n"
  shows "\<exists>s'. ready_loop rfds [i..<MAX_FD_EVENTS] n s = Some s' \<and> watch_ok s' \<and>
    lists s' ts (ps @ filter (\<lambda>e. fd_of s e \<in> rfds) (entries (drop i (watch_table s)))) \<and> same_events s s' \<and>
    watch_table s' = take i (watch_table s) @ map (after_ready s rfds) (drop i (watch_table s))"
  using assms
proof (induction "MAX_FD_EVENTS - i" arbitrary: i s ps n)
  case 0
  then have "i = MAX_FD_EVENTS" "length (watch_table s) = MAX_FD_EVENTS"
    by (auto simp: watch_ok_def)
  with 0 show ?case by (simp add: same_events_def)
next
  case (Suc k)
  let ?ws = "watch_table s" and ?R = "\<lambda>e. fd_of s e \<in> rfds"
  have i: "i < MAX_FD_EVENTS" and len: "length ?ws = MAX_FD_EVENTS"
    using Suc by (auto simp: watch_ok_def)
  have rng: "[i..<MAX_FD_EVENTS] = i # [Suc i..<MAX_FD_EVENTS]" and dr: "drop i ?ws = ?ws ! i # drop (Suc i) ?ws"
    and k: "k = MAX_FD_EVENTS - Suc i" and tk: "take (Suc i) ?ws = take i ?ws @ [?ws ! i]"
    using i len Suc.hyps(2) by (auto simp: upt_rec Cons_nth_drop_Suc take_Suc_conv_app_nth)
  note IH = Suc.hyps(1) [OF k]
  show ?case
  proof (cases "n > 0")
    case False
    then have "length (filter ?R (entries (drop i ?ws))) = 0"
      using Suc.prems(5) by linarith
    then have "filter ?R (entries (drop i ?ws)) = []"
      by simp
    moreover from this have "map (after_ready s rfds) (drop i ?ws) = drop i ?ws"
      by (intro map_idI) (auto simp: after_ready_def filter_empty_conv entries_mem split: option.split)
    ultimately show ?thesis
      using False Suc.prems(1,2) unfolding rng by (auto simp: same_events_def)
  next
    case pos: True
    show ?thesis
    proof (cases "\<exists>e. ?ws ! i = Some e \<and> ?R e")
      case False
      then have rest: "filter ?R (entries (drop i ?ws)) = filter ?R (entries (drop (Suc i) ?ws))"
        "after_ready s rfds (?ws ! i) = ?ws ! i" "set (entries (drop (Suc i) ?ws)) \<subseteq> set (entries (drop i ?ws))"
        by (cases "?ws ! i"; auto simp: dr after_ready_def)+
      have "ready_loop rfds [i..<MAX_FD_EVENTS] n s = ready_loop rfds [Suc i..<MAX_FD_EVENTS] n s"
        using False pos unfolding rng by (auto split: option.split)
      then show ?thesis
        using IH [OF Suc.prems(1,2), of n] Suc.prems(4,5) i rest by (auto simp: dr tk)
    next
      case True
      then obtain e where e: "?ws ! i = Some e" "?R e" by blast
      have en: "entries (drop i ?ws) = e # entries (drop (Suc i) ?ws)"
        by (simp add: dr e)
      have ul: "unlinked e ts ps"
        using Suc.prems(4) by (simp add: en)
      obtain s1 where s1: "addToList e PendingHead s = Some s1" "lists s1 ts (ps @ [e])" "same_data s s1"
        using lists_add_pending [OF Suc.prems(2) ul] by blast
      define s2 where "s2 = (if persist (mem s1 e) then s1 else removeWatch e i s1)"
      have ok1: "watch_ok s1"
        using Suc.prems(1) watch_ok_same [OF s1(3)] by simp
      have ok2: "watch_ok s2"
        using removeWatch_ok [OF ok1 i] e(1) ok1 by (simp add: s2_def same_dataD [OF s1(3)])
      have l2: "lists s2 ts (ps @ [e])"
        using s1(2) lists_frame [of s1 s2] by (simp add: s2_def links_same_def)
      have same: "same_events s s2"
        using same_data_events [OF s1(3)] by (simp add: s2_def same_events_def)
      have tab: "drop (Suc i) (watch_table s2) = drop (Suc i) ?ws"
        "take (Suc i) (watch_table s2) = take i ?ws @ [after_ready s rfds (?ws ! i)]"
        using i len e by (auto simp: s2_def same_dataD [OF s1(3)] after_ready_def take_Suc_conv_app_nth)
      have fds: "\<And>a. fd_of s2 a = fd_of s a" "after_ready s2 rfds = after_ready s rfds"
        using same by (auto simp: same_events_def after_ready_def fun_eq_iff split: option.split)
      have "index (mem s e) = int i"
        using Suc.prems(1) i e by (auto simp: watch_ok_def)
      moreover have "distinct (map (fd_of s) (entries (drop i ?ws)))"
        using Suc.prems(1) entries_append [of "take i ?ws" "drop i ?ws"] by (auto simp: watch_ok_def)
      ultimately have "e \<notin> set (entries (drop (Suc i) ?ws))"
        by (auto simp: en)
      then have ul2: "\<forall>a \<in> set (entries (drop (Suc i) (watch_table s2))). unlinked a ts (ps @ [e])"
        using Suc.prems(4) by (auto simp: tab en unlinked_def)
      obtain s' where "ready_loop rfds [Suc i..<MAX_FD_EVENTS] (n - 1) s2 = Some s'" "watch_ok s'"
        "lists s' ts (ps @ e # filter ?R (entries (drop (Suc i) ?ws)))" "same_events s2 s'"
        "watch_table s' = take (Suc i) (watch_table s2) @ map (after_ready s rfds) (drop (Suc i) ?ws)"
        using IH [OF ok2 l2, of "n - 1"] i ul2 Suc.prems(5) e(2) by (auto simp: tab fds en)
      moreover have "ready_loop rfds [i..<MAX_FD_EVENTS] n s = ready_loop rfds [Suc i..<MAX_FD_EVENTS] (n - 1) s2"
        using pos e s1(1) unfolding rng by (simp add: s2_def)
      ultimately show ?thesis
        using e same by (auto simp: en tab dr same_events_def)
    qed
  qed
qed

section \<open>A round of the loop\<close>

text \<open>The invariant: both lists are well formed, the timers are sorted, the table is consistent, and no
  watched event is a timer or a list head. Between two rounds no event is pending.\<close>

definition ev_ok :: "ev_state \<Rightarrow> addr list \<Rightarrow> addr list \<Rightarrow> bool" where
  "ev_ok s ts ps \<longleftrightarrow> lists s ts ps \<and> timers_sorted s ts \<and> watch_ok s \<and>
     (\<forall>e \<in> set (entries (watch_table s)). unlinked e ts [])"

abbreviation ev_inv :: "ev_state \<Rightarrow> addr list \<Rightarrow> bool" where
  "ev_inv s ts \<equiv> ev_ok s ts []"

definition call_of :: "ev_state \<Rightarrow> addr \<Rightarrow> nat \<times> int \<times> nat" where
  "call_of s e = (func (mem s e), efd (mem s e), param (mem s e))"

text \<open>What a called function may do to the loop: it may add and delete events and timers as long as the
  invariant holds, and the events that wait to be fired stay as they are.\<close>

definition keeps_pending :: "(nat \<Rightarrow> int \<Rightarrow> nat \<Rightarrow> ev_state \<Rightarrow> ev_state) \<Rightarrow> bool" where
  "keeps_pending cb \<longleftrightarrow> (\<forall>f fd p s ts qs. ev_ok s ts qs \<longrightarrow> (\<exists>ts'. ev_ok (cb f fd p s) ts' qs) \<and>
     fired (cb f fd p s) = fired s \<and> (\<forall>e \<in> set qs. call_of (cb f fd p s) e = call_of s e))"

lemma keeps_pendingD:
  "keeps_pending cb \<Longrightarrow> ev_ok s ts qs \<Longrightarrow> (\<exists>ts'. ev_ok (cb f fd p s) ts' qs) \<and> fired (cb f fd p s) = fired s \<and>
    (\<forall>e \<in> set qs. call_of (cb f fd p s) e = call_of s e)"
  unfolding keeps_pending_def by (drule spec [of _ f], drule spec [of _ fd], drule spec [of _ p]) simp

lemma ev_ok_relink: "ev_ok s ts ps \<Longrightarrow> same_data s s' \<Longrightarrow> lists s' ts ps' \<Longrightarrow> ev_ok s' ts ps'"
  by (simp add: ev_ok_def timers_sorted_def same_dataD watch_ok_same)

lemma ev_ok_fired [simp]: "ev_ok (s\<lparr>fired := x\<rparr>) ts ps = ev_ok s ts ps"
  by (simp add: ev_ok_def timers_sorted_def watch_ok_def lists_def)

lemma fire_walk:
  assumes cb: "keeps_pending cb"
  shows "ev_ok s ts ps \<Longrightarrow> \<exists>s' ts'. fire_loop cb (case ps of [] \<Rightarrow> PendingHead | y # _ \<Rightarrow> y) s = Some s' \<and>
    ev_inv s' ts' \<and> fired s' = fired s @ map (call_of s) ps"
proof (induction ps arbitrary: s ts)
  case Nil
  then show ?case by (subst fire_loop.simps) auto
next
  case (Cons e ps)
  have e: "e \<noteq> PendingHead"
    using Cons.prems by (auto simp: ev_ok_def lists_def dll_def)
  obtain s1 where s1: "removeFromList e s = Some s1" "lists s1 ts ps" "same_data s s1"
    "enext (mem s e) = Some (case ps of [] \<Rightarrow> PendingHead | y # _ \<Rightarrow> y)"
    using lists_remove_pending [of s ts "[]" e ps] Cons.prems by (auto simp: ev_ok_def)
  define s2 where "s2 = s1\<lparr>fired := fired s1 @ [(func (mem s1 e), efd (mem s1 e), param (mem s1 e))]\<rparr>"
  define s3 where "s3 = cb (func (mem s1 e)) (efd (mem s1 e)) (param (mem s1 e)) s2"
  have "ev_ok s2 ts ps"
    using ev_ok_relink [OF Cons.prems s1(3,2)] by (simp add: s2_def)
  then obtain ts3 where s3: "ev_ok s3 ts3 ps" "fired s3 = fired s2" "\<forall>a \<in> set ps. call_of s3 a = call_of s2 a"
    using keeps_pendingD [OF cb, of s2 ts ps] unfolding s3_def by blast
  have "\<forall>a. call_of s2 a = call_of s a"
    using same_dataD(1,5,6) [OF s1(3)] by (simp add: s2_def call_of_def)
  then have data: "map (call_of s3) ps = map (call_of s) ps" "call_of s1 e = call_of s e"
    using s3(3) by (simp_all add: s2_def call_of_def)
  obtain s' ts' where s': "fire_loop cb (case ps of [] \<Rightarrow> PendingHead | y # _ \<Rightarrow> y) s3 = Some s'" "ev_inv s' ts'"
    "fired s' = fired s3 @ map (call_of s3) ps"
    using Cons.IH [OF s3(1)] by blast
  have "fire_loop cb e s = Some s'"
    using e s1 s'(1) by (subst fire_loop.simps) (simp add: Let_def s2_def [symmetric] s3_def [symmetric])
  moreover have "fired s3 = fired s @ [call_of s e]"
    using same_dataD(10) [OF s1(3)] s3(2) data(2) by (simp add: s2_def call_of_def)
  ultimately show ?case using s'(2,3) data(1) by auto
qed

text \<open>\<^verbatim>\<open>select\<close>: it fails, or it answers with the number and the set of the ready descriptors among those
  asked for below the bound.\<close>

definition select_ok :: "(int \<Rightarrow> int set \<Rightarrow> timeval option \<Rightarrow> int \<times> int set) \<Rightarrow> bool" where
  "select_ok sel \<longleftrightarrow> (\<forall>nf fds tv. fst (sel nf fds tv) < 0 \<or>
     fst (sel nf fds tv) = int (card (snd (sel nf fds tv))) \<and> snd (sel nf fds tv) \<subseteq> {fd \<in> fds. fd < nf})"

definition expired :: "ev_state \<Rightarrow> int \<times> int \<Rightarrow> addr list \<Rightarrow> addr list" where
  "expired s clock ts = takeWhile (\<lambda>e. timeout (mem s e) < getNow clock) ts"

definition unexpired :: "ev_state \<Rightarrow> int \<times> int \<Rightarrow> addr list \<Rightarrow> addr list" where
  "unexpired s clock ts = dropWhile (\<lambda>e. timeout (mem s e) < getNow clock) ts"

definition ready :: "ev_state \<Rightarrow> int set \<Rightarrow> addr list" where
  "ready s rfds = filter (\<lambda>e. fd_of s e \<in> rfds) (entries (watch_table s))"

lemma ready_count:
  assumes "watch_ok s" "rfds \<subseteq> readFds s"
  shows "length (ready s rfds) = card rfds"
proof -
  have "distinct (map (fd_of s) (ready s rfds))"
    using assms(1) by (auto simp: watch_ok_def ready_def distinct_map inj_on_def)
  then have "length (ready s rfds) = card (set (map (fd_of s) (ready s rfds)))"
    using distinct_card by fastforce
  also have "set (map (fd_of s) (ready s rfds)) = rfds"
    using assms by (auto simp: watch_ok_def ready_def)
  finally show ?thesis .
qed

lemma calcNextTimeout_run:
  "lists s ts ps \<Longrightarrow> calcNextTimeout clock s = Some (case ts of [] \<Rightarrow> None
     | e # _ \<Rightarrow> Some (if getNow clock < timeout (mem s e) then timersub (timeout (mem s e)) (getNow clock) else (0, 0)))"
  using dll_first [of "mem s" TimerHead ts]
  by (cases ts) (auto simp: lists_def dll_def calcNextTimeout_def timer_order)

lemma collect_phase:
  assumes inv: "ev_inv s ts" and rfds: "rfds \<subseteq> readFds s"
  shows "\<exists>s1 s2. processTimeouts clock s = Some s1 \<and> processReadReadies rfds (int (card rfds)) s1 = Some s2 \<and>
    ev_ok s2 (unexpired s clock ts) (expired s clock ts @ ready s rfds) \<and> same_events s s2 \<and>
    watch_table s2 = map (after_ready s rfds) (watch_table s)"
proof -
  have l: "lists s ts []" and ok: "watch_ok s" and ul: "\<forall>e \<in> set (entries (watch_table s)). unlinked e ts []"
    using inv by (auto simp: ev_ok_def)
  have first: "enext (mem s TimerHead) = Some (case ts of [] \<Rightarrow> TimerHead | y # _ \<Rightarrow> y)"
    using l dll_first by (simp add: lists_def)
  obtain s1 where s1: "processTimeouts clock s = Some s1" "lists s1 (unexpired s clock ts) (expired s clock ts)" "same_data s s1"
    using expire_walk [OF l, of "getNow clock"] first by (auto simp: processTimeouts_def expired_def unexpired_def)
  have tab: "watch_table s1 = watch_table s" "\<And>a. fd_of s1 a = fd_of s a" "after_ready s1 rfds = after_ready s rfds"
    using same_dataD [OF s1(3)] by (auto simp: after_ready_def fun_eq_iff split: option.split)
  have "set (unexpired s clock ts) \<subseteq> set ts" "set (expired s clock ts) \<subseteq> set ts"
    by (auto simp: unexpired_def expired_def dest: set_dropWhileD set_takeWhileD)
  then have ul1: "\<forall>e \<in> set (entries (watch_table s)). unlinked e (unexpired s clock ts) (expired s clock ts)"
    using ul by (auto simp: unlinked_def)
  obtain s2 where s2: "processReadReadies rfds (int (card rfds)) s1 = Some s2" "watch_ok s2"
    "lists s2 (unexpired s clock ts) (expired s clock ts @ ready s rfds)" "same_events s1 s2"
    "watch_table s2 = map (after_ready s rfds) (watch_table s)"
    using ready_walk [of s1 "unexpired s clock ts" "expired s clock ts" 0 rfds "int (card rfds)"] s1(2) ul1
      watch_ok_same [OF s1(3)] ok ready_count [OF ok rfds]
    by (auto simp: tab processReadReadies_def ready_def)
  have "same_events s s2"
    using same_data_events [OF s1(3)] s2(4) by (simp add: same_events_def)
  moreover from this have "timers_sorted s2 (unexpired s clock ts)"
    using inv sorted_wrt_drop [of "(\<le>)" "map (\<lambda>e. timeout (mem s e)) ts"]
    by (simp add: ev_ok_def timers_sorted_def same_events_def unexpired_def dropWhile_eq_drop drop_map)
  moreover have "entries (map (after_ready s rfds) ws) = filter (\<lambda>e. \<not> (fd_of s e \<in> rfds \<and> \<not> persist (mem s e))) (entries ws)" for ws
    by (induction ws rule: entries.induct) (auto simp: after_ready_def)
  ultimately show ?thesis
    using s1(1) s2 ul1 by (auto simp: ev_ok_def unlinked_def)
qed

lemma firePending_run:
  assumes "keeps_pending cb" "ev_ok s ts ps"
  shows "\<exists>s' ts'. firePending cb s = Some s' \<and> ev_inv s' ts' \<and> fired s' = fired s @ map (call_of s) ps"
proof -
  have "enext (mem s PendingHead) = Some (case ps of [] \<Rightarrow> PendingHead | y # _ \<Rightarrow> y)"
    using assms(2) dll_first by (simp add: ev_ok_def lists_def)
  then show ?thesis
    using fire_walk [OF assms] by (simp add: firePending_def)
qed

text \<open>C9. A round of the event loop: when \<^verbatim>\<open>select\<close> returns, the round ends, and it has called, each once,
  the functions of the expired timers in the order of their times and then those of the ready
  descriptors in the order of the table; no event stays pending and the invariant holds again. A failed \<^verbatim>\<open>select\<close> changes
  nothing.\<close>

theorem loop_round_fires:
  assumes inv: "ev_inv s ts" and cb: "keeps_pending cb" and sel: "select_ok sel"
  shows "\<exists>ptv. calcNextTimeout clock1 s = Some ptv \<and>
    (let r = sel (nfds s) (readFds s) ptv in
     if fst r < 0 then loop_round cb sel clock1 clock2 s = Some s
     else \<exists>s' ts'. loop_round cb sel clock1 clock2 s = Some s' \<and> ev_inv s' ts' \<and>
       fired s' = fired s @ map (call_of s) (expired s clock2 ts @ ready s (snd r)))"
proof -
  obtain ptv where ptv: "calcNextTimeout clock1 s = Some ptv"
    using calcNextTimeout_run [of s ts "[]" clock1] inv by (auto simp: ev_ok_def)
  obtain n rfds where r: "sel (nfds s) (readFds s) ptv = (n, rfds)"
    by (cases "sel (nfds s) (readFds s) ptv")
  show ?thesis
  proof (cases "n < 0")
    case True
    then show ?thesis
      using ptv r by (simp add: loop_round_def)
  next
    case False
    have "fst (sel (nfds s) (readFds s) ptv) < 0 \<or>
      fst (sel (nfds s) (readFds s) ptv) = int (card (snd (sel (nfds s) (readFds s) ptv))) \<and>
      snd (sel (nfds s) (readFds s) ptv) \<subseteq> {fd \<in> readFds s. fd < nfds s}"
      using sel unfolding select_ok_def by blast
    then have n: "n = int (card rfds)" "rfds \<subseteq> readFds s"
      using False by (auto simp: r)
    obtain s1 s2 where s2: "processTimeouts clock2 s = Some s1" "processReadReadies rfds (int (card rfds)) s1 = Some s2"
      "ev_ok s2 (unexpired s clock2 ts) (expired s clock2 ts @ ready s rfds)" "same_events s s2"
      using collect_phase [OF inv n(2)] by blast
    obtain s' ts' where s': "firePending cb s2 = Some s'" "ev_inv s' ts'"
      "fired s' = fired s2 @ map (call_of s2) (expired s clock2 ts @ ready s rfds)"
      using firePending_run [OF cb s2(3)] by blast
    have "call_of s2 = call_of s" "fired s2 = fired s"
      using s2(4) by (auto simp: same_events_def call_of_def fun_eq_iff)
    then show ?thesis
      using ptv r False n s2(1,2) s' by (auto simp: loop_round_def)
  qed
qed

section \<open>Operations\<close>

lemma entries_replicate [simp]: "entries (replicate n None) = []"
  by (induction n) simp_all

lemma init_ok: "ev_inv (ril_event_init s) []"
  by (simp add: ev_ok_def lists_def dll_def timers_sorted_def watch_ok_def ril_event_init_def init_list_def
      zero_event_def MAX_FD_EVENTS_def)

text \<open>A step that keeps the links and touches no timer and no entry of the table.\<close>

lemma ev_ok_frame:
  assumes "ev_ok s ts ps" "links_same (set (TimerHead # PendingHead # ts @ ps)) s s'" "watch_ok s'"
    and "\<forall>e \<in> set ts. timeout (mem s' e) = timeout (mem s e)"
    and "\<forall>e \<in> set (entries (watch_table s')). unlinked e ts []"
  shows "ev_ok s' ts ps"
proof -
  have "links_same (set (TimerHead # ts)) s s'" "links_same (set (PendingHead # ps)) s s'"
    using assms(2) by (auto simp: links_same_def)
  then have "lists s' ts ps"
    using assms(1) dll_frame [of TimerHead ts s s'] dll_frame [of PendingHead ps s s'] by (simp add: ev_ok_def lists_def)
  moreover have "map (\<lambda>e. timeout (mem s' e)) ts = map (\<lambda>e. timeout (mem s e)) ts"
    using assms(4) by simp
  then have "timers_sorted s' ts = timers_sorted s ts"
    by (simp only: timers_sorted_def)
  ultimately show ?thesis
    using assms by (simp add: ev_ok_def)
qed

lemma watch_ok_outside:
  assumes "watch_ok s" "Some ev \<notin> set (watch_table s)" and mem: "\<And>a. a \<noteq> ev \<Longrightarrow> mem s' a = mem s a"
    and rest: "watch_table s' = watch_table s" "readFds s' = readFds s" "nfds s' = nfds s"
  shows "watch_ok s'"
proof -
  have "\<forall>e \<in> set (entries (watch_table s)). mem s' e = mem s e"
    using assms(2) mem by (metis entries_mem)
  then have same: "map (fd_of s') (entries (watch_table s)) = map (fd_of s) (entries (watch_table s))"
    "fd_of s' ` set (entries (watch_table s)) = fd_of s ` set (entries (watch_table s))"
    by auto
  have "mem s' e = mem s e" if "i < length (watch_table s)" "watch_table s ! i = Some e" for i e
    using assms(2) that mem nth_mem [OF that(1)] by (cases "e = ev") auto
  then show ?thesis
    using assms(1) unfolding watch_ok_def rest same by simp
qed

lemma event_set_ok:
  assumes "ev_ok s ts ps" "unlinked ev ts ps" "Some ev \<notin> set (watch_table s)"
  shows "ev_ok (ril_event_set ev fd pers f p s) ts ps"
proof -
  let ?s = "ril_event_set ev fd pers f p s"
  have mem: "mem ?s a = mem s a" if "a \<noteq> ev" for a
    using that by (simp add: ril_event_set_def)
  have rest: "watch_table ?s = watch_table s" "readFds ?s = readFds s" "nfds ?s = nfds s"
    by (simp_all add: ril_event_set_def)
  have "watch_ok ?s"
    using assms by (intro watch_ok_outside [OF _ assms(3) mem rest]) (auto simp: ev_ok_def)
  moreover have "\<forall>a \<in> set (TimerHead # PendingHead # ts @ ps). mem ?s a = mem s a"
    using assms(2) mem unfolding unlinked_def by (metis Un_iff set_ConsD set_append)
  ultimately show ?thesis
    using assms(1) by (intro ev_ok_frame [OF assms(1)]) (simp_all add: rest links_same_def ev_ok_def)
qed

definition timers_with :: "ev_state \<Rightarrow> timeval \<Rightarrow> addr \<Rightarrow> addr list \<Rightarrow> addr list" where
  "timers_with s t ev ts = takeWhile (\<lambda>e. timeout (mem s e) < t) ts @ ev # dropWhile (\<lambda>e. timeout (mem s e) < t) ts"

lemma timer_add_ok:
  assumes "ev_ok s ts ps" "unlinked ev ts ps" "Some ev \<notin> set (watch_table s)"
    and t_def: "t = timeradd (getNow clock) d"
  shows "\<exists>s'. ril_timer_add ev (Some d) clock s = Some s' \<and> ev_ok s' (timers_with s t ev ts) ps \<and>
    timeout (mem s' ev) = t \<and> index (mem s' ev) = index (mem s ev)"
proof -
  define s1 where "s1 = upd ev (\<lambda>e. e\<lparr>efd := - 1, timeout := t\<rparr>) s"
  obtain s' where s': "ril_timer_add ev (Some d) clock s = Some s'" "lists s' (timers_with s t ev ts) ps"
    "timers_sorted s' (timers_with s t ev ts)" "timeout (mem s' ev) = t" "same_data s1 s'"
    using timer_add_lists [of s ts ps ev t clock d] assms by (auto simp: ev_ok_def timers_with_def s1_def)
  have mem: "mem s1 a = mem s a" if "a \<noteq> ev" for a
    using that by (simp add: s1_def upd_def)
  have rest: "watch_table s1 = watch_table s" "readFds s1 = readFds s" "nfds s1 = nfds s"
    by (simp_all add: s1_def upd_def)
  have "watch_ok s1"
    using assms by (intro watch_ok_outside [OF _ assms(3) mem rest]) (auto simp: ev_ok_def)
  then have ok: "watch_ok s'"
    using watch_ok_same [OF s'(5)] by simp
  have "set (takeWhile (\<lambda>e. timeout (mem s e) < t) ts) \<union> set (dropWhile (\<lambda>e. timeout (mem s e) < t) ts) = set ts"
    by (metis set_append takeWhile_dropWhile_id)
  then have "set (timers_with s t ev ts) = insert ev (set ts)"
    by (auto simp: timers_with_def)
  then have "\<forall>e \<in> set (entries (watch_table s')). unlinked e (timers_with s t ev ts) []"
    using assms(1,3) by (auto simp: ev_ok_def unlinked_def entries_mem same_dataD [OF s'(5)] rest)
  moreover have "index (mem s' ev) = index (mem s ev)"
    using same_dataD(2) [OF s'(5)] by (simp add: s1_def upd_def)
  ultimately show ?thesis
    using s' ok by (auto simp: ev_ok_def)
qed

lemma event_del_ok:
  assumes "ev_ok s ts ps" "Some ev \<in> set (watch_table s)"
  shows "ev_ok (ril_event_del ev s) ts ps" "Some ev \<notin> set (watch_table (ril_event_del ev s))"
    "readFds (ril_event_del ev s) = readFds s - {fd_of s ev}" "fired (ril_event_del ev s) = fired s"
    "call_of (ril_event_del ev s) = call_of s"
proof -
  have ok: "watch_ok s"
    using assms(1) by (simp add: ev_ok_def)
  obtain i where i: "i < MAX_FD_EVENTS" "watch_table s ! i = Some ev"
    using assms(2) ok by (auto simp: in_set_conv_nth watch_ok_def)
  then have "index (mem s ev) = int i"
    using ok by (auto simp: watch_ok_def)
  then have del: "ril_event_del ev s = removeWatch ev i s"
    using i by (simp add: ril_event_del_def)
  have "set (entries ((watch_table s)[i := None])) \<subseteq> set (entries (watch_table s))"
    by (auto simp: entries_mem dest: subsetD [OF set_update_subset_insert])
  then show "ev_ok (ril_event_del ev s) ts ps"
    unfolding del using assms(1) removeWatch_ok [OF ok i]
    by (intro ev_ok_frame [OF assms(1)]) (auto simp: links_same_def ev_ok_def)
  show "Some ev \<notin> set (watch_table (ril_event_del ev s))"
  proof
    assume "Some ev \<in> set (watch_table (ril_event_del ev s))"
    then obtain j where "j < MAX_FD_EVENTS" "(watch_table s)[i := None] ! j = Some ev"
      using ok by (auto simp: del in_set_conv_nth watch_ok_def)
    then show False
      using watch_index_unique [OF ok i(1) _ i(2), of j] i(1) ok by (auto simp: nth_list_update watch_ok_def split: if_splits)
  qed
  show "readFds (ril_event_del ev s) = readFds s - {fd_of s ev}" "fired (ril_event_del ev s) = fired s"
    "call_of (ril_event_del ev s) = call_of s"
    by (simp_all add: del call_of_def fun_eq_iff)
qed

lemma event_del_absent: "index (mem s ev) < 0 \<Longrightarrow> ril_event_del ev s = s"
  by (simp add: ril_event_del_def)

lemma event_add_ok:
  assumes "ev_ok s ts ps" "unlinked ev ts []" "0 \<le> fd_of s ev" "fd_of s ev \<notin> readFds s" "None \<in> set (watch_table s)"
  shows "ev_ok (ril_event_add ev s) ts ps" "Some ev \<in> set (watch_table (ril_event_add ev s))"
    "readFds (ril_event_add ev s) = insert (fd_of s ev) (readFds s)"
proof -
  have "None \<in> set ws \<Longrightarrow> \<exists>i. first_free_slot ws k = Some i" for ws k
    by (induction ws k rule: first_free_slot.induct) auto
  then obtain i where i: "first_free_slot (watch_table s) 0 = Some i"
    using assms(5) by blast
  have ok: "watch_ok s"
    using assms(1) by (simp add: ev_ok_def)
  note add = ril_event_add_ok [OF ok i assms(3,4)]
  show "readFds (ril_event_add ev s) = insert (fd_of s ev) (readFds s)"
    by (rule add)
  show "Some ev \<in> set (watch_table (ril_event_add ev s))"
    using first_free_slot_Some [OF i] by (simp add: add set_update_memI)
  have sub: "set (entries ((watch_table s)[i := Some ev])) \<subseteq> insert ev (set (entries (watch_table s)))"
    by (auto simp: entries_mem dest: subsetD [OF set_update_subset_insert])
  have fields: "enext (mem (ril_event_add ev s) a) = enext (mem s a)" "eprev (mem (ril_event_add ev s) a) = eprev (mem s a)"
    "timeout (mem (ril_event_add ev s) a) = timeout (mem s a)" for a
    using i by (simp_all add: ril_event_add_def upd_def Let_def)
  show "ev_ok (ril_event_add ev s) ts ps"
    using assms(1,2) sub by (intro ev_ok_frame [OF assms(1) _ add(1)]) (auto simp: links_same_def fields add(3) ev_ok_def)
qed

section \<open>Properties of the operations\<close>

text \<open>A loop watching descriptor 5 with event 3 and a timer of ten seconds, event 2.\<close>

definition zero_state :: ev_state where
  "zero_state = \<lparr>mem = (\<lambda>_. zero_event), watch_table = [], readFds = {}, nfds = 0, fired = []\<rparr>"

definition watching :: ev_state where
  "watching = ril_event_add (Ev 3) (ril_event_set (Ev 3) 5 False 7 9 (ril_event_init zero_state))"

definition with_timer :: ev_state where
  "with_timer = the (ril_timer_add (Ev 2) (Some (10, 0)) (3, 0) (ril_event_set (Ev 2) (- 1) False 8 2 watching))"

lemma watching_ok: "ev_inv watching []" "watch_table watching = Some (Ev 3) # replicate 7 None" "readFds watching = {5}"
  "nfds watching = 6" "call_of watching (Ev 3) = (7, 5, 9)"
proof -
  let ?s = "ril_event_set (Ev 3) 5 False 7 9 (ril_event_init zero_state)"
  have ws: "watch_table (ril_event_init zero_state) = replicate 8 None" "watch_table ?s = replicate 8 None"
    by (simp_all add: ril_event_init_def MAX_FD_EVENTS_def ril_event_set_def)
  have s: "ev_ok ?s [] []"
    by (rule event_set_ok [OF init_ok]) (simp_all add: unlinked_def ws)
  have f: "fd_of ?s (Ev 3) = 5" "readFds ?s = {}" "nfds ?s = 0"
    by (simp_all add: ril_event_set_def ril_event_init_def init_list_def zero_state_def)
  show "ev_inv watching []"
    unfolding watching_def by (rule event_add_ok(1) [OF s]) (simp_all add: f ws unlinked_def)
  have w: "watch_table ?s = None # replicate 7 None"
    unfolding ws by (simp add: replicate_Suc [symmetric] del: replicate_Suc)
  show "watch_table watching = Some (Ev 3) # replicate 7 None" "readFds watching = {5}" "nfds watching = 6"
    by (simp_all add: watching_def ril_event_add_def w upd_def Let_def f)
  show "call_of watching (Ev 3) = (7, 5, 9)"
    using ws(1) by (simp add: watching_def ril_event_add_def upd_def Let_def call_of_def ril_event_set_def split: option.split)
qed

lemma with_timer_ok: "ev_inv with_timer [Ev 2]" "timeout (mem with_timer (Ev 2)) = (13, 0)"
proof -
  let ?s = "ril_event_set (Ev 2) (- 1) False 8 2 watching"
  have s: "ev_ok ?s [] []"
    by (rule event_set_ok [OF watching_ok(1)]) (simp_all add: unlinked_def watching_ok(2))
  have "watch_table ?s = Some (Ev 3) # replicate 7 None"
    by (simp add: ril_event_set_def watching_ok)
  then obtain s' where "ril_timer_add (Ev 2) (Some (10, 0)) (3, 0) ?s = Some s'" "ev_ok s' [Ev 2] []"
    "timeout (mem s' (Ev 2)) = (13, 0)"
    using timer_add_ok [OF s, of "Ev 2" "(13, 0)" "(3, 0)" "(10, 0)"]
    by (auto simp: unlinked_def timeradd_def getNow_def timers_with_def)
  then show "ev_inv with_timer [Ev 2]" "timeout (mem with_timer (Ev 2)) = (13, 0)"
    by (simp_all add: with_timer_def)
qed

lemma with_timer_table: "watch_table with_timer = Some (Ev 3) # replicate 7 None" "readFds with_timer = {5}" "fired with_timer = []"
  "nfds with_timer = 6" "call_of with_timer (Ev 3) = (7, 5, 9)" "call_of with_timer (Ev 2) = (8, - 1, 2)"
  "index (mem with_timer (Ev 2)) = - 1"
proof -
  define s where "s = ril_event_set (Ev 2) (- 1) False 8 2 watching"
  have s: "ev_ok s [] []"
    unfolding s_def by (rule event_set_ok [OF watching_ok(1)]) (simp_all add: unlinked_def watching_ok(2))
  obtain s' where s': "ril_timer_add (Ev 2) (Some (10, 0)) (3, 0) s = Some s'"
    "same_data (upd (Ev 2) (\<lambda>e. e\<lparr>efd := - 1, timeout := (13, 0)\<rparr>) s) s'"
    using timer_add_lists [of s "[]" "[]" "Ev 2" "(13, 0)" "(3, 0)" "(10, 0)"] s
    by (auto simp: ev_ok_def unlinked_def timeradd_def getNow_def)
  then have w: "with_timer = s'"
    by (simp add: with_timer_def s_def)
  have f0: "fired watching = []"
    by (simp add: watching_def ril_event_add_def upd_def Let_def ril_event_set_def ril_event_init_def init_list_def
        zero_state_def split: option.split)
  show "watch_table with_timer = Some (Ev 3) # replicate 7 None" "readFds with_timer = {5}" "fired with_timer = []"
    "nfds with_timer = 6" "call_of with_timer (Ev 3) = (7, 5, 9)" "call_of with_timer (Ev 2) = (8, - 1, 2)"
    "index (mem with_timer (Ev 2)) = - 1"
    using watching_ok f0 by (simp_all add: w same_dataD [OF s'(2)] upd_def s_def ril_event_set_def call_of_def)
qed

lemma loop_round_demo_callback: "keeps_pending (\<lambda>f fd p s. if Some (Ev p) \<in> set (watch_table s) then ril_event_del (Ev p) s else s)"
  unfolding keeps_pending_def by (auto simp: event_del_ok(3-5) intro: event_del_ok(1))

lemma loop_round_demo_select: "select_ok (\<lambda>nf fds tv. (int (card {fd \<in> fds. fd < nf}), {fd \<in> fds. fd < nf}))"
  by (simp add: select_ok_def)

theorem loop_round_fires_witness:
  "\<exists>s'. loop_round (\<lambda>f fd p s. if Some (Ev p) \<in> set (watch_table s) then ril_event_del (Ev p) s else s)
     (\<lambda>nf fds tv. (int (card {fd \<in> fds. fd < nf}), {fd \<in> fds. fd < nf})) (5, 0) (20, 0) with_timer = Some s' \<and>
     fired s' = [(8, - 1, 2), (7, 5, 9)]"
proof -
  have "{fd. fd = 5 \<and> fd < (6 :: int)} = {5}"
    by auto
  moreover have "fd_of with_timer (Ev 3) = 5"
    using with_timer_table(5) by (simp add: call_of_def)
  ultimately show ?thesis
    using loop_round_fires [OF with_timer_ok(1) loop_round_demo_callback loop_round_demo_select, of "(5, 0)" "(20, 0)"]
    by (auto simp: with_timer_table with_timer_ok expired_def ready_def getNow_def)
qed

text \<open>C33. The operations keep the loop consistent: after initialisation there is no event; a new timer is
  put before the first timer that is not earlier than it, so the timers stay sorted; watching a new
  descriptor while the table has room adds exactly it to the set given to \<^verbatim>\<open>select\<close>, below the bound
  \<^verbatim>\<open>nfds\<close>, and deleting a watched event takes exactly it out.\<close>

theorem event_operations_keep_invariant:
  assumes "ev_ok s ts ps"
  shows "ev_ok (ril_event_init s0) [] [] \<and>
    (unlinked ev ts ps \<and> Some ev \<notin> set (watch_table s) \<longrightarrow>
      (\<exists>s'. ril_timer_add ev (Some d) clock s = Some s' \<and>
        ev_ok s' (timers_with s (timeradd (getNow clock) d) ev ts) ps)) \<and>
    (unlinked ev ts [] \<and> 0 \<le> fd_of s ev \<and> fd_of s ev \<notin> readFds s \<and> None \<in> set (watch_table s) \<longrightarrow>
      ev_ok (ril_event_add ev s) ts ps \<and> readFds (ril_event_add ev s) = insert (fd_of s ev) (readFds s)) \<and>
    (Some ev \<in> set (watch_table s) \<longrightarrow>
      ev_ok (ril_event_del ev s) ts ps \<and> readFds (ril_event_del ev s) = readFds s - {fd_of s ev})"
  using init_ok timer_add_ok [OF assms _ _ refl] event_add_ok [OF assms] event_del_ok [OF assms] by blast

theorem event_operations_keep_invariant_witness:
  "ev_ok (ril_event_del (Ev 3) with_timer) [Ev 2] [] \<and> readFds (ril_event_del (Ev 3) with_timer) = {} \<and>
    (\<exists>s'. ril_timer_add (Ev 4) (Some (1, 500000)) (6, 700000000) with_timer = Some s' \<and> ev_ok s' [Ev 4, Ev 2] [])"
proof -
  have "fd_of with_timer (Ev 3) = 5"
    using with_timer_table(5) by (simp add: call_of_def)
  then show ?thesis
    using event_operations_keep_invariant [OF with_timer_ok(1), of zero_state "Ev 3"]
      event_operations_keep_invariant [OF with_timer_ok(1), of zero_state "Ev 4" "(1, 500000)" "(6, 700000000)"]
    by (auto simp: with_timer_table with_timer_ok unlinked_def timers_with_def timeradd_def getNow_def)
qed

text \<open>A full table: watching a ninth event changes nothing, and the caller is not told; the event is never
  given to \<^verbatim>\<open>select\<close>.\<close>

theorem full_table_drops_event:
  assumes "watch_ok s" "None \<notin> set (watch_table s)" "fd_of s ev \<notin> readFds s"
  shows "length (entries (watch_table s)) = MAX_FD_EVENTS \<and> ril_event_add ev s = s \<and>
    ready (ril_event_add ev s) {fd_of s ev} = []"
proof (intro conjI)
  have "None \<notin> set ws \<Longrightarrow> length (entries ws) = length ws" for ws
    by (induction ws rule: entries.induct) auto
  then show "length (entries (watch_table s)) = MAX_FD_EVENTS"
    using assms by (simp add: watch_ok_def)
  have "None \<notin> set ws \<Longrightarrow> first_free_slot ws k = None" for ws k
    by (induction ws k rule: first_free_slot.induct) auto
  then show add: "ril_event_add ev s = s"
    using assms(2) by (simp add: ril_event_add_def)
  show "ready (ril_event_add ev s) {fd_of s ev} = []"
    unfolding add ready_def filter_empty_conv using assms(1,3) unfolding watch_ok_def by (auto simp: image_iff)
qed

text \<open>Eight watched descriptors.\<close>

definition full_state :: ev_state where
  "full_state = \<lparr>mem = (\<lambda>a. case a of Ev n \<Rightarrow> zero_event\<lparr>efd := int n, index := int n\<rparr> | _ \<Rightarrow> zero_event),
     watch_table = map (Some \<circ> Ev) [0..<8], readFds = set (map int [0..<8]), nfds = 8, fired = []\<rparr>"

theorem full_table_drops_event_witness: "ril_event_add (Ev 8) full_state = full_state"
proof -
  have ent: "entries (map (\<lambda>n. Some (Ev n)) xs) = map Ev xs" for xs
    by (induction xs) auto
  have "watch_ok full_state"
    unfolding watch_ok_def full_state_def by (auto simp: ent MAX_FD_EVENTS_def image_image o_def distinct_map inj_on_def)
  moreover have "None \<notin> set (watch_table full_state)" "fd_of full_state (Ev 8) \<notin> readFds full_state"
    by (auto simp: full_state_def)
  ultimately show ?thesis
    using full_table_drops_event by blast
qed

text \<open>The loop sleeps until the first timer, but a timer fires only strictly after its time: when
  \<^verbatim>\<open>select\<close> returns exactly after the computed timeout, nothing has expired (the comment asks for
  \<^verbatim>\<open>now >= ev->timeout\<close>), and the next timeout is zero; at any later time the timer does expire.\<close>

theorem exact_wakeup_fires_nothing:
  assumes l: "lists s (e # ts) ps" and s: "timers_sorted s (e # ts)"
    and norm: "0 \<le> snd (timeout (mem s e))" "snd (timeout (mem s e)) < 1000000"
    and next1: "calcNextTimeout clock1 s = Some (Some d)" and late: "getNow clock1 < timeout (mem s e)"
    and wake: "getNow clock2 = timeradd (getNow clock1) d"
  shows "getNow clock2 = timeout (mem s e) \<and> processTimeouts clock2 s = Some s \<and>
    calcNextTimeout clock2 s = Some (Some (0, 0)) \<and>
    (getNow clock2 < getNow clock3 \<longrightarrow>
      (\<exists>s' ts' ps'. processTimeouts clock3 s = Some s' \<and> lists s' ts' (ps @ e # ps')))"
proof (intro conjI impI)
  have first: "enext (mem s TimerHead) = Some e" "e \<noteq> TimerHead"
    using l dll_first [of "mem s" TimerHead "e # ts"] by (auto simp: lists_def dll_def)
  have d: "d = timersub (timeout (mem s e)) (getNow clock1)"
    using next1 late calcNextTimeout_run [OF l, of clock1] by simp
  show now: "getNow clock2 = timeout (mem s e)"
    using norm unfolding wake d
    by (cases "timeout (mem s e)"; cases "getNow clock1") (auto simp: timeradd_def timersub_def Let_def)
  show "processTimeouts clock2 s = Some s"
    using first by (simp add: processTimeouts_def now expire_loop.simps timer_order)
  show "calcNextTimeout clock2 s = Some (Some (0, 0))"
    using calcNextTimeout_run [OF l, of clock2] by (simp add: now)
  show "\<exists>s' ts' ps'. processTimeouts clock3 s = Some s' \<and> lists s' ts' (ps @ e # ps')" if "getNow clock2 < getNow clock3"
    using expire_walk [OF l, of "getNow clock3"] that first(1) by (auto simp: processTimeouts_def now)
qed

theorem exact_wakeup_fires_nothing_witness:
  "processTimeouts (13, 0) with_timer = Some with_timer"
proof -
  have l: "lists with_timer [Ev 2] []" "timers_sorted with_timer [Ev 2]"
    using with_timer_ok(1) by (simp_all add: ev_ok_def)
  have "calcNextTimeout (5, 0) with_timer = Some (Some (8, 0))" "getNow (5, 0) < timeout (mem with_timer (Ev 2))"
    "getNow (13, 0) = timeradd (getNow (5, 0)) (8, 0)"
    by (simp_all add: with_timer_ok calcNextTimeout_run [OF l(1)] getNow_def timersub_def timeradd_def)
  then show ?thesis
    using exact_wakeup_fires_nothing [OF l, of "(5, 0)" "(8, 0)" "(13, 0)"] by (simp add: with_timer_ok)
qed

text \<open>\<^verbatim>\<open>ril_event_del\<close> does not delete a timer, although its comment says so: an event that was set and
  given to \<^verbatim>\<open>ril_timer_add\<close> stays in the timer list when it is deleted, and is moved to the pending
  events once its time has passed.\<close>

theorem deleted_timer_still_fires:
  assumes "ev_ok s ts ps" "unlinked ev ts ps" "Some ev \<notin> set (watch_table s)"
    and "timeradd (getNow clock) d < getNow clock2"
  shows "\<exists>s1 s2 ts' ps'. ril_timer_add ev (Some d) clock (ril_event_set ev fd pers f p s) = Some s1 \<and>
    ril_event_del ev s1 = s1 \<and> processTimeouts clock2 s1 = Some s2 \<and> lists s2 ts' (ps @ ps') \<and> ev \<in> set ps'"
proof -
  let ?s = "ril_event_set ev fd pers f p s" and ?t = "timeradd (getNow clock) d"
  have ok: "ev_ok ?s ts ps" "Some ev \<notin> set (watch_table ?s)" "index (mem ?s ev) = - 1"
    using event_set_ok [OF assms(1-3)] assms(3) by (simp_all add: ril_event_set_def)
  obtain s1 where s1: "ril_timer_add ev (Some d) clock ?s = Some s1" "ev_ok s1 (timers_with ?s ?t ev ts) ps"
    "timeout (mem s1 ev) = ?t" "index (mem s1 ev) = - 1"
    using timer_add_ok [OF ok(1) assms(2) ok(2) refl, of d clock] ok(3) by auto
  let ?ts = "timers_with ?s ?t ev ts" and ?P = "\<lambda>e. timeout (mem s1 e) < getNow clock2"
  have l: "lists s1 ?ts ps" and sorted: "sorted (map (\<lambda>e. timeout (mem s1 e)) ?ts)"
    using s1(2) by (simp_all add: ev_ok_def timers_sorted_def)
  obtain s2 where s2: "expire_loop (getNow clock2) (case ?ts of [] \<Rightarrow> TimerHead | y # _ \<Rightarrow> y) s1 = Some s2"
    "lists s2 (dropWhile ?P ?ts) (ps @ takeWhile ?P ?ts)"
    using expire_walk [OF l] by blast
  have "enext (mem s1 TimerHead) = Some (case ?ts of [] \<Rightarrow> TimerHead | y # _ \<Rightarrow> y)"
    using l dll_first [of "mem s1" TimerHead ?ts] by (simp add: lists_def)
  then have run: "processTimeouts clock2 s1 = Some s2"
    using s2(1) by (simp add: processTimeouts_def)
  have "ev \<in> set ?ts"
    by (simp add: timers_with_def)
  moreover have "ev \<notin> set (dropWhile ?P ?ts)"
    using sorted_dropWhile_ge [OF sorted, of ev "getNow clock2"] assms(4) s1(3) by auto
  ultimately have "ev \<in> set (takeWhile ?P ?ts)"
    by (metis Un_iff set_append takeWhile_dropWhile_id)
  then show ?thesis
    using s1(1,4) s2(2) run event_del_absent [of s1 ev] by auto
qed

theorem deleted_timer_still_fires_witness:
  "\<exists>s1 s2 ts' ps'. ril_timer_add (Ev 4) (Some (1, 0)) (1, 0) (ril_event_set (Ev 4) (- 1) False 0 0 with_timer) = Some s1 \<and>
    ril_event_del (Ev 4) s1 = s1 \<and> processTimeouts (3, 0) s1 = Some s2 \<and> lists s2 ts' ([] @ ps') \<and> Ev 4 \<in> set ps'"
  by (rule deleted_timer_still_fires [OF with_timer_ok(1)])
    (simp_all add: unlinked_def with_timer_table timeradd_def getNow_def)

end
