(* ===== verification/Ril_Core.thy ===== *)
theory Ril_Core
  imports Ril_Queue Ril_Tables Ril_Event_Correct
begin

text \<open>
  The core of the radio daemon, \<^verbatim>\<open>ril/libril/ril.cpp\<close>: the lists of pending requests, the answers to
  them, the wake lock with its count and its timers, unsolicited responses, and the saved network
  time. Requests and timer records are objects at addresses; the address that \<^verbatim>\<open>calloc\<close> returns is
  an argument, \<open>None\<close> when it fails. A pending list is the list of the addresses along its links,
  newest first. The timers live in the event loop of \<open>Ril_Event\<close>, the record at address \<open>a\<close> with its
  event \<open>Ev a\<close>.
\<close>

section \<open>State\<close>

record RequestInfo =
  ri_token :: int
  ri_pCI :: int
  ri_cancelled :: bool
  ri_local :: bool
  ri_socket :: nat
  wasAckSent :: bool

text \<open>The function of a timer record: the one that releases the wake lock, or one of the vendor library.\<close>

datatype timed_callback = WakeTimeout | VendorCallback nat

record UserCallbackInfo =
  p_callback :: timed_callback
  userParam :: nat

text \<open>What leaves the daemon: the call of an answer or indication function (its name, the slot, the
  response type, the token, the error and the data), an acknowledgement, or a vendor callback.\<close>

datatype message =
    Answer string nat int int int "u8 list"
  | AckMessage nat int
  | Called nat nat

text \<open>What the vendor library gets with a request: nothing, a string, strings (\<open>None\<close> for NULL), integers,
  bytes, call forwarding (status, reason, class, type, number and seconds) or a command for the card
  (session, class, instruction, three parameters and data), or a structure with its length. A value of
  a structure is an integer, a string (\<open>None\<close> for NULL), an array of bytes, a pointer to a value, a
  structure or an array.\<close>

datatype rval =
    RInt int
  | RStr "u8 list option"
  | RBytes "u8 list"
  | RPtr "rval option"
  | RStruct "(string \<times> rval) list"
  | RArr "rval list"

datatype payload =
    NoData
  | Str "u8 list option"
  | Strs "u8 list option list"
  | Ints "int list"
  | RawBytes "u8 list"
  | CallForward int int int int "u8 list option" int
  | Apdu int int int int int int "u8 list option"
  | Block rval nat

text \<open>\<open>vendor\<close>: the calls of the vendor library's \<^verbatim>\<open>onRequest\<close> (request, data, request record, slot). \<open>connected\<close>: the client of the slot has set its functions. \<open>nitz\<close> is the saved network time,
  \<open>nitz_received\<close> when it came.\<close>

record ril_state =
  sim_count :: nat
  version :: int
  registerCalled :: bool
  infos :: "nat \<rightharpoonup> RequestInfo"
  pendingRequests :: "nat \<Rightarrow> nat list"
  wakelock_count :: int
  wake_held :: bool
  callbacks :: "nat \<rightharpoonup> UserCallbackInfo"
  last_wake_timeout_info :: "nat option"
  ev :: ev_state
  lastNITZTimeData :: "u8 list option"
  connected :: "nat \<Rightarrow> bool"
  sent :: "message list"
  vendor :: "(int \<times> payload \<times> nat \<times> nat) list"

type_synonym 'a rrun = "heap_fault + 'a"

definition RESPONSE_SOLICITED :: int where "RESPONSE_SOLICITED = 0"
definition RESPONSE_UNSOLICITED :: int where "RESPONSE_UNSOLICITED = 1"
definition RESPONSE_SOLICITED_ACK_EXP :: int where "RESPONSE_SOLICITED_ACK_EXP = 3"
definition RESPONSE_UNSOLICITED_ACK_EXP :: int where "RESPONSE_UNSOLICITED_ACK_EXP = 4"
definition RIL_UNSOL_NITZ_TIME_RECEIVED :: int where "RIL_UNSOL_NITZ_TIME_RECEIVED = 1008"
definition RIL_UNSOL_RIL_CONNECTED :: int where "RIL_UNSOL_RIL_CONNECTED = 1034"
definition RIL_UNSOL_RESPONSE_RADIO_STATE_CHANGED :: int where "RIL_UNSOL_RESPONSE_RADIO_STATE_CHANGED = 1000"
definition TIMEVAL_WAKE_TIMEOUT :: timeval where "TIMEVAL_WAKE_TIMEOUT = (0, 200000)"

section \<open>Pending requests\<close>

text \<open>The list of a slot: slots that are not configured share the first list.\<close>

definition hook :: "nat \<Rightarrow> nat \<Rightarrow> nat" where
  "hook SIM_COUNT i =
     (if i = 1 \<and> SIM_COUNT \<ge> 2 then 1 else if i = 2 \<and> SIM_COUNT \<ge> 3 then 2
      else if i = 3 \<and> SIM_COUNT \<ge> 4 then 3 else 0)"

definition addRequestToList :: "nat option \<Rightarrow> int \<Rightarrow> nat \<Rightarrow> int \<Rightarrow> ril_state \<Rightarrow> nat option \<times> ril_state" where
  "addRequestToList newp serial slotId request s =
     (case newp of
        None \<Rightarrow> (None, s)
      | Some pRI \<Rightarrow>
          let h = hook (sim_count s) slotId in
          (Some pRI, s\<lparr>infos := (infos s)(pRI \<mapsto> \<lparr>ri_token = serial, ri_pCI = request, ri_cancelled = False,
              ri_local = False, ri_socket = slotId, wasAckSent = False\<rparr>),
            pendingRequests := (pendingRequests s)(h := pRI # pendingRequests s h)\<rparr>))"

text \<open>The socket of the request is read only when there are several lists.\<close>

definition checkAndDequeueRequestInfoIfAck :: "nat option \<Rightarrow> bool \<Rightarrow> ril_state \<Rightarrow> (bool \<times> ril_state) rrun" where
  "checkAndDequeueRequestInfoIfAck t isAck s =
     (case t of
        None \<Rightarrow> Inr (False, s)
      | Some pRI \<Rightarrow>
          and_then (if sim_count s \<ge> 2 then and_then (deref (infos s) t) (\<lambda>i. Inr (hook (sim_count s) (ri_socket i)))
                    else Inr 0) (\<lambda>h.
          if pRI \<in> set (pendingRequests s h)
          then if isAck
               then and_then (deref (infos s) t) (\<lambda>i. Inr (True, s\<lparr>infos := (infos s)(pRI \<mapsto> i\<lparr>wasAckSent := True\<rparr>)\<rparr>))
               else Inr (True, s\<lparr>pendingRequests := (pendingRequests s)(h := remove1 pRI (pendingRequests s h))\<rparr>)
          else Inr (False, s)))"

text \<open>The answer function of a command: the entry of the table is used without a check.\<close>

definition responseFunction :: "int \<Rightarrow> string rrun" where
  "responseFunction pCI =
     (if 0 \<le> pCI \<and> pCI < int (length s_commands)
      then case snd (snd (s_commands ! nat pCI)) of None \<Rightarrow> Inl NullPointer | Some f \<Rightarrow> Inr f
      else Inl DanglingPointer)"

definition send :: "message \<Rightarrow> ril_state \<Rightarrow> ril_state" where
  "send m s = s\<lparr>sent := sent s @ [m]\<rparr>"

definition acknowledgeRequest :: "nat \<Rightarrow> int \<Rightarrow> ril_state \<Rightarrow> ril_state" where
  "acknowledgeRequest slotId serial s = (if connected s slotId then send (AckMessage slotId serial) s else s)"

definition RIL_onRequestAck :: "nat option \<Rightarrow> ril_state \<Rightarrow> ril_state rrun" where
  "RIL_onRequestAck t s =
     and_then (checkAndDequeueRequestInfoIfAck t True s) (\<lambda>(found, s1).
       if \<not> found then Inr s1
       else and_then (deref (infos s1) t) (\<lambda>i.
         Inr (if \<not> ri_cancelled i then acknowledgeRequest (ri_socket i) (ri_token i) s1 else s1)))"

section \<open>Timed callbacks and the wake lock\<close>

text \<open>The function of the timer events, \<^verbatim>\<open>userTimerCallback\<close>, has the number 1.\<close>

definition internalRequestTimedCallback :: "nat option \<Rightarrow> int \<times> int \<Rightarrow> timed_callback \<Rightarrow> nat \<Rightarrow> timeval option \<Rightarrow>
    ril_state \<Rightarrow> (nat option \<times> ril_state) rrun" where
  "internalRequestTimedCallback newp clock callback arg relativeTime s =
     (case newp of
        None \<Rightarrow> Inr (None, s)
      | Some p_info \<Rightarrow>
          let s1 = s\<lparr>callbacks := (callbacks s)(p_info \<mapsto> \<lparr>p_callback = callback, userParam = arg\<rparr>)\<rparr>;
              myRelativeTime = (case relativeTime of None \<Rightarrow> (0, 0) | Some t \<Rightarrow> t)
          in case ril_timer_add (Ev p_info) (Some myRelativeTime) clock
                    (ril_event_set (Ev p_info) (- 1) False 1 p_info (ev s1)) of
               None \<Rightarrow> Inl NullPointer
             | Some e \<Rightarrow> Inr (Some p_info, s1\<lparr>ev := e\<rparr>))"

definition RIL_requestTimedCallback :: "nat option \<Rightarrow> int \<times> int \<Rightarrow> nat \<Rightarrow> nat \<Rightarrow> timeval option \<Rightarrow> ril_state \<Rightarrow> ril_state rrun" where
  "RIL_requestTimedCallback newp clock f arg relativeTime s =
     and_then (internalRequestTimedCallback newp clock (VendorCallback f) arg relativeTime s) (\<lambda>(_, s1). Inr s1)"

text \<open>Cancelling the last timer of the wake lock: its parameter becomes 1.\<close>

definition cancel_last :: "ril_state \<Rightarrow> ril_state rrun" where
  "cancel_last s =
     (case last_wake_timeout_info s of
        None \<Rightarrow> Inr s
      | Some l \<Rightarrow> and_then (deref (callbacks s) (Some l)) (\<lambda>i.
          Inr (s\<lparr>callbacks := (callbacks s)(l \<mapsto> i\<lparr>userParam := 1\<rparr>)\<rparr>)))"

definition grabPartialWakeLock :: "nat option \<Rightarrow> int \<times> int \<Rightarrow> ril_state \<Rightarrow> ril_state rrun" where
  "grabPartialWakeLock newp clock s =
     (if version s \<ge> 13
      then and_then (internalRequestTimedCallback newp clock WakeTimeout 0 (Some TIMEVAL_WAKE_TIMEOUT)
                      (s\<lparr>wake_held := True\<rparr>)) (\<lambda>(p, s1).
             case p of
               None \<Rightarrow> Inr (s1\<lparr>wake_held := False\<rparr>)
             | Some p_info \<Rightarrow>
                 and_then (cancel_last (s1\<lparr>wakelock_count := wakelock_count s1 + 1\<rparr>)) (\<lambda>s2.
                   Inr (s2\<lparr>last_wake_timeout_info := Some p_info\<rparr>)))
      else Inr (s\<lparr>wake_held := True\<rparr>))"

definition releaseWakeLock :: "ril_state \<Rightarrow> ril_state rrun" where
  "releaseWakeLock s =
     (if version s \<ge> 13
      then if wakelock_count s > 1 then Inr (s\<lparr>wakelock_count := wakelock_count s - 1\<rparr>)
           else cancel_last (s\<lparr>wakelock_count := 0, wake_held := False\<rparr>)
      else Inr (s\<lparr>wake_held := False\<rparr>))"

definition wakeTimeoutCallback :: "nat \<Rightarrow> ril_state \<Rightarrow> ril_state rrun" where
  "wakeTimeoutCallback arg s =
     (if version s \<ge> 13
      then if arg = 0 then Inr (s\<lparr>wakelock_count := 0, wake_held := False\<rparr>) else Inr s
      else if arg = 0 then releaseWakeLock s else Inr s)"

definition run_callback :: "timed_callback \<Rightarrow> nat \<Rightarrow> ril_state \<Rightarrow> ril_state rrun" where
  "run_callback c arg s =
     (case c of WakeTimeout \<Rightarrow> wakeTimeoutCallback arg s | VendorCallback f \<Rightarrow> Inr (send (Called f arg) s))"

definition userTimerCallback :: "nat \<Rightarrow> ril_state \<Rightarrow> ril_state rrun" where
  "userTimerCallback p_info s =
     and_then (deref (callbacks s) (Some p_info)) (\<lambda>i.
     and_then (run_callback (p_callback i) (userParam i) s) (\<lambda>s1.
       let s2 = (if last_wake_timeout_info s1 = Some p_info then s1\<lparr>last_wake_timeout_info := None\<rparr> else s1)
       in Inr (s2\<lparr>callbacks := (callbacks s2)(p_info := None)\<rparr>)))"

section \<open>Answers\<close>

definition RIL_onRequestComplete :: "nat option \<Rightarrow> int \<times> int \<Rightarrow> nat option \<Rightarrow> int \<Rightarrow> u8 list \<Rightarrow> ril_state \<Rightarrow> ril_state rrun" where
  "RIL_onRequestComplete newp clock t e response s =
     and_then (checkAndDequeueRequestInfoIfAck t False s) (\<lambda>(found, s1).
       if \<not> found then Inr s1
       else and_then (deref (infos s1) t) (\<lambda>i.
         let free_it = (\<lambda>s. s\<lparr>infos := (infos s)(the t := None)\<rparr>) in
         if ri_local i then Inr (free_it s1)
         else if \<not> ri_cancelled i
         then and_then (if version s1 \<ge> 13 \<and> wasAckSent i
                        then and_then (grabPartialWakeLock newp clock s1) (\<lambda>s2. Inr (RESPONSE_SOLICITED_ACK_EXP, s2))
                        else Inr (RESPONSE_SOLICITED, s1)) (\<lambda>(responseType, s2).
              and_then (responseFunction (ri_pCI i)) (\<lambda>f.
                Inr (free_it (send (Answer f (ri_socket i) responseType (ri_token i) e response) s2))))
         else Inr (free_it s1)))"

section \<open>Unsolicited responses\<close>

text \<open>The network time up to the third comma, where the search for a comma always skips the current
  character. A string that begins with its end is read beyond it.\<close>

fun comma_after :: "u8 list \<Rightarrow> nat \<Rightarrow> nat option" where
  "comma_after [] k = None"
| "comma_after (c # cs) k = (if c = 44 then Some k else comma_after cs (Suc k))"

fun third_comma :: "u8 list \<Rightarrow> nat \<Rightarrow> nat \<Rightarrow> nat option rrun" where
  "third_comma resp tmp 0 = Inr (Some tmp)"
| "third_comma resp tmp (Suc i) =
     (if tmp + 1 > length resp then Inl DanglingPointer
      else case comma_after (drop (tmp + 1) resp) (tmp + 1) of
             None \<Rightarrow> Inr None
           | Some p \<Rightarrow> third_comma resp p i)"

definition nitzTimeReceivedInd :: "nat \<Rightarrow> int \<Rightarrow> u8 list \<Rightarrow> ril_state \<Rightarrow> (int \<times> ril_state) rrun" where
  "nitzTimeReceivedInd slotId indicationType response s =
     (if connected s slotId
      then if response = [] then Inr (0, s)
           else let resp = takeWhile (\<lambda>b. b \<noteq> 0) response in
                and_then (third_comma resp 0 3) (\<lambda>tmp.
                  let nitzTime = (case tmp of None \<Rightarrow> resp | Some p \<Rightarrow> take p resp)
                  in Inr (0, send (Answer ''nitzTimeReceivedInd'' slotId indicationType 0 0 nitzTime) s))
      else Inr (- 1, s))"

text \<open>The other indication functions are seen as messages; their results are not used.\<close>

definition indication :: "string option \<Rightarrow> nat \<Rightarrow> int \<Rightarrow> u8 list \<Rightarrow> ril_state \<Rightarrow> (int \<times> ril_state) rrun" where
  "indication f slotId responseType data s =
     (case f of
        None \<Rightarrow> Inr (0, s)
      | Some n \<Rightarrow> if n = ''nitzTimeReceivedInd'' then nitzTimeReceivedInd slotId responseType data s
                  else Inr (0, if connected s slotId then send (Answer n slotId responseType 0 0 data) s else s))"

text \<open>\<open>new1\<close> is the allocation of the wake lock's timer, \<open>new2\<close> whether the network time could be copied.
  After the indication: clients before version 13 get their timer here, and network time that was
  not delivered is saved. Both can fail, which gives the lock back.\<close>

definition unsol_finish :: "nat option \<Rightarrow> bool \<Rightarrow> int \<times> int \<Rightarrow> bool \<Rightarrow> int \<Rightarrow> u8 list \<Rightarrow> int \<Rightarrow> ril_state \<Rightarrow> ril_state rrun" where
  "unsol_finish new1 new2 clock shouldScheduleTimeout unsolResponse data ret s =
     (let error_exit = (\<lambda>s. if shouldScheduleTimeout then releaseWakeLock s else Inr s) in
      and_then (if version s < 13 \<and> shouldScheduleTimeout
                then and_then (internalRequestTimedCallback new1 clock WakeTimeout 0 (Some TIMEVAL_WAKE_TIMEOUT) s) (\<lambda>(p, s1).
                       case p of
                         None \<Rightarrow> Inr (True, s1)
                       | Some p_info \<Rightarrow> and_then (cancel_last s1) (\<lambda>s2. Inr (False, s2\<lparr>last_wake_timeout_info := Some p_info\<rparr>)))
                else Inr (False, s)) (\<lambda>(failed, s3).
      if failed then error_exit s3
      else if ret \<noteq> 0 \<and> unsolResponse = RIL_UNSOL_NITZ_TIME_RECEIVED
      then if new2 then Inr (s3\<lparr>lastNITZTimeData := Some data\<rparr>)
           else error_exit (s3\<lparr>lastNITZTimeData := None\<rparr>)
      else Inr s3))"

definition RIL_onUnsolicitedResponse :: "nat option \<Rightarrow> bool \<Rightarrow> int \<times> int \<Rightarrow> int \<Rightarrow> u8 list \<Rightarrow> nat \<Rightarrow> ril_state \<Rightarrow> ril_state rrun" where
  "RIL_onUnsolicitedResponse new1 new2 clock unsolResponse data soc_id s =
     (let unsolResponseIndex = unsolResponse - RIL_UNSOL_RESPONSE_BASE in
      if \<not> registerCalled s then Inr s
      else if unsolResponseIndex < 0 \<or> unsolResponseIndex \<ge> int (length s_unsolResponses) then Inr s
      else
        let (_, _, f, wakeType) = s_unsolResponses ! nat unsolResponseIndex;
            responseType = (if version s \<ge> 13 \<and> wakeType = WAKE_PARTIAL then RESPONSE_UNSOLICITED_ACK_EXP
                            else RESPONSE_UNSOLICITED)
        in and_then (if wakeType = WAKE_PARTIAL then grabPartialWakeLock new1 clock s else Inr s) (\<lambda>s1.
           and_then (indication f soc_id responseType data s1) (\<lambda>(ret, s2).
             unsol_finish new1 new2 clock (wakeType = WAKE_PARTIAL) unsolResponse data ret s2)))"

definition resendLastNITZTimeData :: "nat \<Rightarrow> ril_state \<Rightarrow> ril_state rrun" where
  "resendLastNITZTimeData socket_id s =
     (case lastNITZTimeData s of
        None \<Rightarrow> Inr s
      | Some data \<Rightarrow>
          let responseType = (if version s \<ge> 13 then RESPONSE_UNSOLICITED_ACK_EXP else RESPONSE_UNSOLICITED)
          in and_then (nitzTimeReceivedInd socket_id responseType data s) (\<lambda>(ret, s1).
               Inr (if ret = 0 then s1\<lparr>lastNITZTimeData := None\<rparr> else s1)))"

text \<open>\<open>rilVer\<close> is the version as bytes.\<close>

definition onNewCommandConnect :: "nat option \<Rightarrow> nat option \<Rightarrow> int \<times> int \<Rightarrow> u8 list \<Rightarrow> nat \<Rightarrow> ril_state \<Rightarrow> ril_state rrun" where
  "onNewCommandConnect new1 new2 clock rilVer socket_id s =
     and_then (RIL_onUnsolicitedResponse new1 True clock RIL_UNSOL_RIL_CONNECTED rilVer socket_id s) (\<lambda>s1.
     and_then (RIL_onUnsolicitedResponse new2 True clock RIL_UNSOL_RESPONSE_RADIO_STATE_CHANGED [] socket_id s1) (\<lambda>s2.
       if lastNITZTimeData s2 \<noteq> None then resendLastNITZTimeData socket_id s2 else Inr s2))"

definition setResponseFunctions :: "nat option \<Rightarrow> nat option \<Rightarrow> int \<times> int \<Rightarrow> u8 list \<Rightarrow> nat \<Rightarrow> ril_state \<Rightarrow> ril_state rrun" where
  "setResponseFunctions new1 new2 clock rilVer slotId s =
     onNewCommandConnect new1 new2 clock rilVer slotId (s\<lparr>connected := (connected s)(slotId := True)\<rparr>)"

definition responseAcknowledgement :: "ril_state \<Rightarrow> ril_state rrun" where
  "responseAcknowledgement s = releaseWakeLock s"

definition RIL_VERSION_MIN :: int where "RIL_VERSION_MIN = 6"

text \<open>The first registration counts; the checks of the tables are assertions, \<open>None\<close> is their failure.\<close>

definition RIL_register :: "int option \<Rightarrow> ril_state \<Rightarrow> ril_state option" where
  "RIL_register vers s =
     (case vers of
        None \<Rightarrow> Some s
      | Some v \<Rightarrow> if v < RIL_VERSION_MIN then Some s else if registerCalled s then Some s
                  else if self_check then Some (s\<lparr>version := v, registerCalled := True\<rparr>) else None)"

end
