(* ===== verification/Ril_Service.thy ===== *)
theory Ril_Service
  imports Ril_Core
begin

text \<open>
  The request side of \<^verbatim>\<open>ril/libril/ril_service.cpp\<close>: copying the arguments of a client's call into memory
  of the daemon, entering the request into the pending list and handing it to the vendor library.
  A request that is answered with an error on the way stays in the pending list.
\<close>

section \<open>Dispatching\<close>

text \<open>A string of the client: its \<^verbatim>\<open>size()\<close> is the length, its \<^verbatim>\<open>c_str()\<close> ends at the first NUL.\<close>

type_synonym hidl_string = "u8 list"

definition cstr_of :: "hidl_string \<Rightarrow> u8 list" where
  "cstr_of x = takeWhile (\<lambda>b. b \<noteq> 0) x"

definition RIL_E_NO_MEMORY :: int where "RIL_E_NO_MEMORY = 37"

definition CALL_ONREQUEST :: "int \<Rightarrow> payload \<Rightarrow> nat \<Rightarrow> nat \<Rightarrow> ril_state \<Rightarrow> ril_state" where
  "CALL_ONREQUEST request d pRI slotId s = s\<lparr>vendor := vendor s @ [(request, d, pRI, slotId)]\<rparr>"

definition sendErrorResponse :: "nat \<Rightarrow> int \<Rightarrow> ril_state \<Rightarrow> ril_state rrun" where
  "sendErrorResponse pRI err s =
     and_then (deref (infos s) (Some pRI)) (\<lambda>i.
     and_then (responseFunction (ri_pCI i)) (\<lambda>f.
       Inr (send (Answer f (ri_socket i) RESPONSE_SOLICITED (ri_token i) err []) s)))"

text \<open>\<open>got\<close> is whether \<^verbatim>\<open>calloc\<close> succeeds. The result is \<open>None\<close> for false and otherwise the copy, which
  itself is \<open>None\<close> for NULL.\<close>

definition copyHidlStringToRil :: "bool \<Rightarrow> hidl_string \<Rightarrow> nat \<Rightarrow> bool \<Rightarrow> ril_state \<Rightarrow> (u8 list option option \<times> ril_state) rrun" where
  "copyHidlStringToRil got src pRI allowEmpty s =
     (let len = length src in
      if len = 0 \<and> \<not> allowEmpty then Inr (Some None, s)
      else if \<not> got then and_then (sendErrorResponse pRI RIL_E_NO_MEMORY s) (\<lambda>s1. Inr (None, s1))
      else if length (cstr_of src) \<ge> len + 1 then Inr (None, s)
      else Inr (Some (Some (cstr_of src)), s))"

text \<open>The strings of a request one after the other; \<open>oks\<close> says which allocations succeed.\<close>

fun copy_strings :: "(nat \<Rightarrow> bool) \<Rightarrow> nat \<Rightarrow> hidl_string list \<Rightarrow> nat \<Rightarrow> bool \<Rightarrow> ril_state \<Rightarrow>
    (u8 list option list option \<times> ril_state) rrun" where
  "copy_strings oks k [] pRI allowEmpty s = Inr (Some [], s)"
| "copy_strings oks k (x # xs) pRI allowEmpty s =
     and_then (copyHidlStringToRil (oks k) x pRI allowEmpty s) (\<lambda>(r, s1).
       case r of
         None \<Rightarrow> Inr (None, s1)
       | Some c \<Rightarrow> and_then (copy_strings oks (Suc k) xs pRI allowEmpty s1) (\<lambda>(rs, s2). Inr (map_option (\<lambda>cs. c # cs) rs, s2)))"

text \<open>\<open>new\<close> is the address of the request record, \<open>oks\<close> the allocations after it.\<close>

definition dispatchVoid :: "nat option \<Rightarrow> int \<Rightarrow> nat \<Rightarrow> int \<Rightarrow> ril_state \<Rightarrow> (bool \<times> ril_state) rrun" where
  "dispatchVoid new serial slotId request s =
     (case addRequestToList new serial slotId request s of
        (None, s1) \<Rightarrow> Inr (False, s1)
      | (Some pRI, s1) \<Rightarrow> Inr (True, CALL_ONREQUEST request NoData pRI slotId s1))"

definition dispatchString :: "nat option \<Rightarrow> (nat \<Rightarrow> bool) \<Rightarrow> int \<Rightarrow> nat \<Rightarrow> int \<Rightarrow> u8 list \<Rightarrow> ril_state \<Rightarrow> (bool \<times> ril_state) rrun" where
  "dispatchString new oks serial slotId request str s =
     (case addRequestToList new serial slotId request s of
        (None, s1) \<Rightarrow> Inr (False, s1)
      | (Some pRI, s1) \<Rightarrow>
          and_then (copyHidlStringToRil (oks 0) str pRI False s1) (\<lambda>(r, s2).
            case r of
              None \<Rightarrow> Inr (False, s2)
            | Some pString \<Rightarrow> Inr (True, CALL_ONREQUEST request (Str pString) pRI slotId s2)))"

definition dispatchStrings :: "nat option \<Rightarrow> (nat \<Rightarrow> bool) \<Rightarrow> int \<Rightarrow> nat \<Rightarrow> int \<Rightarrow> bool \<Rightarrow> u8 list list \<Rightarrow> ril_state \<Rightarrow>
    (bool \<times> ril_state) rrun" where
  "dispatchStrings new oks serial slotId request allowEmpty strs s =
     (case addRequestToList new serial slotId request s of
        (None, s1) \<Rightarrow> Inr (False, s1)
      | (Some pRI, s1) \<Rightarrow>
          if \<not> oks 0 then and_then (sendErrorResponse pRI RIL_E_NO_MEMORY s1) (\<lambda>s2. Inr (False, s2))
          else and_then (copy_strings oks 1 strs pRI allowEmpty s1) (\<lambda>(r, s2).
            case r of
              None \<Rightarrow> Inr (False, s2)
            | Some pStrings \<Rightarrow> Inr (True, CALL_ONREQUEST request (Strs pStrings) pRI slotId s2)))"

text \<open>The overload for a vector of strings does not allow empty ones.\<close>

definition dispatchStrings_vec :: "nat option \<Rightarrow> (nat \<Rightarrow> bool) \<Rightarrow> int \<Rightarrow> nat \<Rightarrow> int \<Rightarrow> hidl_string list \<Rightarrow> ril_state \<Rightarrow>
    (bool \<times> ril_state) rrun" where
  "dispatchStrings_vec new oks serial slotId request d s =
     (case addRequestToList new serial slotId request s of
        (None, s1) \<Rightarrow> Inr (False, s1)
      | (Some pRI, s1) \<Rightarrow>
          if \<not> oks 0 then and_then (sendErrorResponse pRI RIL_E_NO_MEMORY s1) (\<lambda>s2. Inr (False, s2))
          else and_then (copy_strings oks 1 d pRI False s1) (\<lambda>(r, s2).
            case r of
              None \<Rightarrow> Inr (False, s2)
            | Some pStrings \<Rightarrow> Inr (True, CALL_ONREQUEST request (Strs pStrings) pRI slotId s2)))"

definition dispatchInts :: "nat option \<Rightarrow> (nat \<Rightarrow> bool) \<Rightarrow> int \<Rightarrow> nat \<Rightarrow> int \<Rightarrow> int list \<Rightarrow> ril_state \<Rightarrow> (bool \<times> ril_state) rrun" where
  "dispatchInts new oks serial slotId request ints s =
     (case addRequestToList new serial slotId request s of
        (None, s1) \<Rightarrow> Inr (False, s1)
      | (Some pRI, s1) \<Rightarrow>
          if \<not> oks 0 then and_then (sendErrorResponse pRI RIL_E_NO_MEMORY s1) (\<lambda>s2. Inr (False, s2))
          else Inr (True, CALL_ONREQUEST request (Ints ints) pRI slotId s1))"

record CallForwardInfo =
  cf_status :: int
  cf_reason :: int
  cf_serviceClass :: int
  cf_toa :: int
  cf_number :: hidl_string
  cf_timeSeconds :: int

definition dispatchCallForwardStatus :: "nat option \<Rightarrow> (nat \<Rightarrow> bool) \<Rightarrow> int \<Rightarrow> nat \<Rightarrow> int \<Rightarrow> CallForwardInfo \<Rightarrow> ril_state \<Rightarrow>
    (bool \<times> ril_state) rrun" where
  "dispatchCallForwardStatus new oks serial slotId request callInfo s =
     (case addRequestToList new serial slotId request s of
        (None, s1) \<Rightarrow> Inr (False, s1)
      | (Some pRI, s1) \<Rightarrow>
          and_then (copyHidlStringToRil (oks 0) (cf_number callInfo) pRI False s1) (\<lambda>(r, s2).
            case r of
              None \<Rightarrow> Inr (False, s2)
            | Some n \<Rightarrow> Inr (True, CALL_ONREQUEST request (CallForward (cf_status callInfo) (cf_reason callInfo)
                (cf_serviceClass callInfo) (cf_toa callInfo) n (cf_timeSeconds callInfo)) pRI slotId s2)))"

definition dispatchRaw :: "nat option \<Rightarrow> int \<Rightarrow> nat \<Rightarrow> int \<Rightarrow> u8 list \<Rightarrow> ril_state \<Rightarrow> (bool \<times> ril_state) rrun" where
  "dispatchRaw new serial slotId request rawBytes s =
     (case addRequestToList new serial slotId request s of
        (None, s1) \<Rightarrow> Inr (False, s1)
      | (Some pRI, s1) \<Rightarrow> Inr (True, CALL_ONREQUEST request (RawBytes rawBytes) pRI slotId s1))"

record SimApdu =
  sessionId :: int
  cla :: int
  instruction :: int
  apdu_p1 :: int
  apdu_p2 :: int
  apdu_p3 :: int
  apdu_data :: hidl_string

definition dispatchIccApdu :: "nat option \<Rightarrow> (nat \<Rightarrow> bool) \<Rightarrow> int \<Rightarrow> nat \<Rightarrow> int \<Rightarrow> SimApdu \<Rightarrow> ril_state \<Rightarrow>
    (bool \<times> ril_state) rrun" where
  "dispatchIccApdu new oks serial slotId request a s =
     (case addRequestToList new serial slotId request s of
        (None, s1) \<Rightarrow> Inr (False, s1)
      | (Some pRI, s1) \<Rightarrow>
          and_then (copyHidlStringToRil (oks 0) (apdu_data a) pRI False s1) (\<lambda>(r, s2).
            case r of
              None \<Rightarrow> Inr (False, s2)
            | Some d \<Rightarrow> Inr (True, CALL_ONREQUEST request (Apdu (sessionId a) (cla a) (instruction a)
                (apdu_p1 a) (apdu_p2 a) (apdu_p3 a) d) pRI slotId s2)))"

section \<open>Calls of the client\<close>

text \<open>A method of the radio interface that makes one dispatching call is the request it makes and the
  kind of the call with its arguments.\<close>

datatype dispatch_call =
    CVoid
  | CString "u8 list"
  | CStrings bool "u8 list list"
  | CStringVec "hidl_string list"
  | CInts "int list"
  | CCallForward CallForwardInfo
  | CRaw "u8 list"
  | CApdu SimApdu

fun perform :: "nat option \<Rightarrow> (nat \<Rightarrow> bool) \<Rightarrow> int \<Rightarrow> nat \<Rightarrow> int \<times> dispatch_call \<Rightarrow> ril_state \<Rightarrow> (bool \<times> ril_state) rrun" where
  "perform new oks serial slot (request, CVoid) s = dispatchVoid new serial slot request s"
| "perform new oks serial slot (request, CString x) s = dispatchString new oks serial slot request x s"
| "perform new oks serial slot (request, CStrings e xs) s = dispatchStrings new oks serial slot request e xs s"
| "perform new oks serial slot (request, CStringVec xs) s = dispatchStrings_vec new oks serial slot request xs s"
| "perform new oks serial slot (request, CInts ns) s = dispatchInts new oks serial slot request ns s"
| "perform new oks serial slot (request, CCallForward c) s = dispatchCallForwardStatus new oks serial slot request c s"
| "perform new oks serial slot (request, CRaw d) s = dispatchRaw new serial slot request d s"
| "perform new oks serial slot (request, CApdu a) s = dispatchIccApdu new oks serial slot request a s"

definition BOOL_TO_INT :: "bool \<Rightarrow> int" where
  "BOOL_TO_INT b = (if b then 1 else 0)"

text \<open>Decimal digits, \<^verbatim>\<open>std::to_string\<close>.\<close>

fun digits :: "nat \<Rightarrow> u8 list" where
  "digits n = (if n < 10 then [word_of_nat (48 + n)] else digits (n div 10) @ [word_of_nat (48 + n mod 10)])"

declare digits.simps [simp del]

definition to_string :: "int \<Rightarrow> u8 list" where
  "to_string i = (if i < 0 then 45 # digits (nat (- i)) else digits (nat i))"

definition flag_string :: "bool \<Rightarrow> u8 list" where
  "flag_string b = (if b then [49] else [48])"

record GsmSmsMessage =
  smscPdu :: hidl_string
  pdu :: hidl_string

end
