(* ===== verification/Ril_Wake.thy ===== *)
theory Ril_Wake
  imports Ril_Core
begin

text \<open>
  The wake lock of the radio daemon: in every state that the daemon can reach (clients of version 13
  or later, no allocation failing) the lock is held exactly while its count is positive, and then
  exactly one timer is armed to release it. What happens when an allocation fails, and when saved
  network time is sent again, is shown as well.
\<close>

section \<open>Invariant\<close>

definition armed :: "ril_state \<Rightarrow> nat \<Rightarrow> bool" where
  "armed s a \<longleftrightarrow> (\<exists>i. callbacks s a = Some i \<and> p_callback i = WakeTimeout \<and> userParam i = 0)"

definition timers_of :: "ril_state \<Rightarrow> addr list \<Rightarrow> bool" where
  "timers_of s ts \<longleftrightarrow> ev_ok (ev s) ts [] \<and> set ts = Ev ` dom (callbacks s)"

definition wake_inv :: "ril_state \<Rightarrow> bool" where
  "wake_inv s \<longleftrightarrow> (\<exists>ts. timers_of s ts) \<and>
     (\<forall>l. last_wake_timeout_info s = Some l \<longrightarrow> (\<exists>i. callbacks s l = Some i \<and> p_callback i = WakeTimeout)) \<and>
     (\<forall>a. armed s a \<longrightarrow> last_wake_timeout_info s = Some a \<and> wakelock_count s > 0) \<and>
     (wakelock_count s > 0 \<longrightarrow> (\<exists>a. armed s a)) \<and>
     wakelock_count s \<ge> 0 \<and> (wake_held s \<longleftrightarrow> wakelock_count s > 0)"

definition fresh_timer :: "nat \<Rightarrow> ril_state \<Rightarrow> bool" where
  "fresh_timer a s \<longleftrightarrow> callbacks s a = None \<and> Some (Ev a) \<notin> set (watch_table (ev s))"

text \<open>An expired timer: its event leaves the timer list (through the pending events, see
  \<open>Ril_Event_Correct\<close>) and \<^verbatim>\<open>userTimerCallback\<close> is called with its record.\<close>

definition fire_timer :: "nat \<Rightarrow> ril_state \<Rightarrow> ril_state rrun" where
  "fire_timer a s = (case removeFromList (Ev a) (ev s) of
     None \<Rightarrow> Inl NullPointer | Some e \<Rightarrow> userTimerCallback a (s\<lparr>ev := e\<rparr>))"

text \<open>The parts of the state that the wake lock does not depend on.\<close>

lemma wake_inv_frame [simp]:
  "wake_inv (s\<lparr>sent := x\<rparr>) = wake_inv s" "wake_inv (s\<lparr>infos := i\<rparr>) = wake_inv s"
  "wake_inv (s\<lparr>pendingRequests := p\<rparr>) = wake_inv s" "wake_inv (s\<lparr>lastNITZTimeData := n\<rparr>) = wake_inv s"
  "wake_inv (s\<lparr>connected := c\<rparr>) = wake_inv s"
  by (simp_all add: wake_inv_def timers_of_def armed_def)

lemma wake_inv_send [simp]: "wake_inv (send m s) = wake_inv s" "version (send m s) = version s"
  "callbacks (send m s) = callbacks s" "ev (send m s) = ev s" "wakelock_count (send m s) = wakelock_count s"
  by (simp_all add: send_def)

section \<open>Timers\<close>

lemma ev_ok_remove:
  assumes "ev_ok s (xs @ e # ys) ps"
  shows "\<exists>s'. removeFromList e s = Some s' \<and> ev_ok s' (xs @ ys) ps \<and> watch_table s' = watch_table s"
proof -
  obtain s' where s': "removeFromList e s = Some s'" "lists s' (xs @ ys) ps" "same_data s s'"
    using assms lists_remove_timer [of s xs e ys ps] by (auto simp: ev_ok_def)
  have "timers_sorted s' (xs @ ys)"
    using assms by (auto simp: ev_ok_def timers_sorted_def sorted_append same_dataD [OF s'(3)])
  then have "ev_ok s' (xs @ ys) ps"
    using assms s' by (auto simp: ev_ok_def watch_ok_same [OF s'(3)] same_dataD [OF s'(3)] unlinked_def)
  then show ?thesis
    using s' same_dataD(7) [OF s'(3)] by auto
qed

lemma timer_table:
  assumes "ev_ok e ts ps" "unlinked v ts ps" "ril_timer_add v (Some d) clock e = Some e'"
  shows "watch_table e' = watch_table e"
proof -
  obtain e1 where "ril_timer_add v (Some d) clock e = Some e1"
    "same_data (upd v (\<lambda>x. x\<lparr>efd := - 1, timeout := timeradd (getNow clock) d\<rparr>) e) e1"
    using timer_add_lists [OF _ _ assms(2) refl, of e d clock] assms(1) unfolding ev_ok_def by blast
  then show ?thesis
    using assms(3) same_dataD(7) [of "upd v (\<lambda>x. x\<lparr>efd := - 1, timeout := timeradd (getNow clock) d\<rparr>) e" e1]
    by (simp add: upd_def)
qed

lemma timed_callback_adds:
  assumes ts: "timers_of s ts" and a: "fresh_timer a s"
  shows "\<exists>e ts'. internalRequestTimedCallback (Some a) clock c p rt s =
      Inr (Some a, s\<lparr>callbacks := (callbacks s)(a \<mapsto> \<lparr>p_callback = c, userParam = p\<rparr>), ev := e\<rparr>) \<and>
    ev_ok e ts' [] \<and> set ts' = insert (Ev a) (set ts) \<and> watch_table e = watch_table (ev s)"
proof -
  let ?t = "case rt of None \<Rightarrow> (0, 0) | Some t \<Rightarrow> t"
  have ul: "unlinked (Ev a) ts []" and tab: "Some (Ev a) \<notin> set (watch_table (ev s))"
    using ts a by (auto simp: timers_of_def fresh_timer_def unlinked_def)
  define e1 where "e1 = ril_event_set (Ev a) (- 1) False 1 a (ev s)"
  have e1: "ev_ok e1 ts []" "Some (Ev a) \<notin> set (watch_table e1)" "watch_table e1 = watch_table (ev s)"
    using event_set_ok [OF _ ul tab] ts tab by (auto simp: timers_of_def e1_def ril_event_set_def)
  let ?ts = "timers_with e1 (timeradd (getNow clock) ?t) (Ev a) ts"
  obtain e where e: "ril_timer_add (Ev a) (Some ?t) clock e1 = Some e" "ev_ok e ?ts []"
    using timer_add_ok [OF e1(1) ul e1(2) refl, of ?t clock] by blast
  have "set ?ts = insert (Ev a) (set ts)"
    unfolding timers_with_def using set_append
      takeWhile_dropWhile_id [of "\<lambda>x. timeout (mem e1 x) < timeradd (getNow clock) ?t" ts]
    by (metis Un_insert_right list.simps(15) set_append)
  moreover have "watch_table e = watch_table (ev s)"
    using timer_table [OF e1(1) ul e(1)] e1(3) by simp
  moreover have "internalRequestTimedCallback (Some a) clock c p rt s =
      Inr (Some a, s\<lparr>callbacks := (callbacks s)(a \<mapsto> \<lparr>p_callback = c, userParam = p\<rparr>), ev := e\<rparr>)"
    using e(1) by (simp add: internalRequestTimedCallback_def Let_def e1_def)
  ultimately show ?thesis using e(2) by blast
qed

section \<open>Operations on the wake lock\<close>

text \<open>What every operation keeps besides: the version, the registration and the watched descriptors.\<close>

definition same_frame :: "ril_state \<Rightarrow> ril_state \<Rightarrow> bool" where
  "same_frame s s' \<longleftrightarrow> version s' = version s \<and> watch_table (ev s') = watch_table (ev s)"

lemma grab_inv:
  assumes inv: "wake_inv s" and a: "fresh_timer a s" and v: "version s \<ge> 13"
  shows "\<exists>s'. grabPartialWakeLock (Some a) clock s = Inr s' \<and> wake_inv s' \<and> same_frame s s' \<and>
    wakelock_count s' = wakelock_count s + 1 \<and> dom (callbacks s') = insert a (dom (callbacks s)) \<and>
    infos s' = infos s \<and> pendingRequests s' = pendingRequests s \<and> sent s' = sent s \<and> connected s' = connected s \<and>
    lastNITZTimeData s' = lastNITZTimeData s \<and> registerCalled s' = registerCalled s"
proof -
  define cb where "cb = (callbacks s)(a \<mapsto> \<lparr>p_callback = WakeTimeout, userParam = 0\<rparr>)"
  obtain ts where ts: "timers_of s ts"
    using inv by (auto simp: wake_inv_def)
  have "timers_of (s\<lparr>wake_held := True\<rparr>) ts" "fresh_timer a (s\<lparr>wake_held := True\<rparr>)"
    using ts a by (simp_all add: timers_of_def fresh_timer_def)
  from timed_callback_adds [OF this, of clock WakeTimeout 0 "Some TIMEVAL_WAKE_TIMEOUT"] obtain e ts' where
    run: "internalRequestTimedCallback (Some a) clock WakeTimeout 0 (Some TIMEVAL_WAKE_TIMEOUT) (s\<lparr>wake_held := True\<rparr>) =
      Inr (Some a, s\<lparr>wake_held := True, callbacks := cb, ev := e\<rparr>)"
    and e: "ev_ok e ts' []" "set ts' = insert (Ev a) (set ts)" "watch_table e = watch_table (ev s)"
    by (auto simp: cb_def)
  have a0: "callbacks s a = None"
    using a by (simp add: fresh_timer_def)
  define cb' where "cb' = (case last_wake_timeout_info s of None \<Rightarrow> cb | Some l \<Rightarrow> cb(l \<mapsto> (the (cb l))\<lparr>userParam := 1\<rparr>))"
  define s' where "s' = s\<lparr>wake_held := True, callbacks := cb', ev := e, wakelock_count := wakelock_count s + 1,
      last_wake_timeout_info := Some a\<rparr>"
  have last: "\<exists>i. cb l = Some i \<and> p_callback i = WakeTimeout \<and> l \<noteq> a" if "last_wake_timeout_info s = Some l" for l
    using inv that a0 by (auto simp: wake_inv_def cb_def)
  have grab: "grabPartialWakeLock (Some a) clock s = Inr s'"
    using v run last by (auto simp: grabPartialWakeLock_def cancel_last_def s'_def cb'_def split: option.split)
  have dom': "dom cb' = insert a (dom (callbacks s))"
    using last by (force simp: cb'_def cb_def split: option.split)
  have cb'_a: "cb' a = Some \<lparr>p_callback = WakeTimeout, userParam = 0\<rparr>"
    using last by (auto simp: cb'_def cb_def split: option.split)
  have others: "\<not> armed s' b" if "b \<noteq> a" for b
  proof (cases "last_wake_timeout_info s = Some b")
    case True
    then show ?thesis using that by (auto simp: armed_def s'_def cb'_def)
  next
    case False
    then have "\<not> armed s b"
      using inv by (auto simp: wake_inv_def)
    then show ?thesis
      using False that by (auto simp: armed_def s'_def cb'_def cb_def split: option.splits)
  qed
  have "timers_of s' ts'"
    using e ts by (auto simp: timers_of_def s'_def dom')
  moreover have arm: "armed s' b \<longleftrightarrow> b = a" for b
    using others [of b] cb'_a by (cases "b = a") (auto simp: armed_def s'_def)
  moreover have "last_wake_timeout_info s' = Some a" "wakelock_count s' = wakelock_count s + 1" "wake_held s'" "callbacks s' = cb'"
    by (simp_all add: s'_def)
  ultimately have "wake_inv s'"
    using inv cb'_a unfolding wake_inv_def by (simp, blast)
  then show ?thesis
    using grab e(3) dom' by (auto simp: s'_def same_frame_def)
qed

lemma cancel_release_inv:
  assumes inv: "wake_inv s"
  shows "\<exists>s'. cancel_last (s\<lparr>wakelock_count := 0, wake_held := False\<rparr>) = Inr s' \<and> wake_inv s' \<and> same_frame s s' \<and>
    \<not> wake_held s' \<and> wakelock_count s' = 0 \<and> dom (callbacks s') = dom (callbacks s)"
proof (cases "last_wake_timeout_info s")
  case None
  then have "wakelock_count s = 0 \<and> (\<forall>a. \<not> armed s a)"
    using inv by (fastforce simp: wake_inv_def)
  then show ?thesis
    using None inv by (auto simp: cancel_last_def wake_inv_def timers_of_def armed_def same_frame_def)
next
  case (Some l)
  then obtain i where i: "callbacks s l = Some i" "p_callback i = WakeTimeout"
    using inv by (auto simp: wake_inv_def)
  define s' where "s' = s\<lparr>wakelock_count := 0, wake_held := False, callbacks := (callbacks s)(l \<mapsto> i\<lparr>userParam := 1\<rparr>)\<rparr>"
  have "\<not> armed s' a" for a
    using inv Some by (auto simp: wake_inv_def armed_def s'_def split: if_splits)
  moreover have "dom (callbacks s') = dom (callbacks s)"
    using i by (auto simp: s'_def)
  ultimately have "wake_inv s'"
    using inv i Some by (auto simp: wake_inv_def timers_of_def s'_def)
  moreover have "cancel_last (s\<lparr>wakelock_count := 0, wake_held := False\<rparr>) = Inr s'"
    using Some i by (simp add: cancel_last_def s'_def)
  ultimately show ?thesis
    using \<open>dom (callbacks s') = dom (callbacks s)\<close> by (auto simp: s'_def same_frame_def)
qed

lemma release_inv:
  assumes inv: "wake_inv s" and v: "version s \<ge> 13"
  shows "\<exists>s'. releaseWakeLock s = Inr s' \<and> wake_inv s' \<and> same_frame s s' \<and>
    wakelock_count s' = max 0 (wakelock_count s - 1) \<and> dom (callbacks s') = dom (callbacks s)"
proof (cases "wakelock_count s > 1")
  case True
  then show ?thesis
    using inv v by (auto simp: releaseWakeLock_def wake_inv_def timers_of_def armed_def same_frame_def)
next
  case False
  moreover have "wakelock_count s \<ge> 0"
    using inv by (simp add: wake_inv_def)
  ultimately show ?thesis
    using cancel_release_inv [OF inv] v by (auto simp: releaseWakeLock_def)
qed

lemma timer_split: "timers_of s ts \<Longrightarrow> callbacks s a \<noteq> None \<Longrightarrow> \<exists>xs ys. ts = xs @ Ev a # ys"
  by (auto simp: timers_of_def in_set_conv_decomp [symmetric] dom_def)

text \<open>A timer that fires is forgotten; the armed one releases the lock.\<close>

lemma fire_inv:
  assumes inv: "wake_inv s" and v: "version s \<ge> 13" and a: "callbacks s a \<noteq> None"
  shows "\<exists>s'. fire_timer a s = Inr s' \<and> wake_inv s' \<and> same_frame s s' \<and> callbacks s' = (callbacks s)(a := None) \<and>
    (if armed s a then \<not> wake_held s' \<and> wakelock_count s' = 0
     else wake_held s' = wake_held s \<and> wakelock_count s' = wakelock_count s)"
proof -
  obtain i where i: "callbacks s a = Some i"
    using a by auto
  obtain ts where ts: "timers_of s ts"
    using inv by (auto simp: wake_inv_def)
  obtain xs ys where split: "ts = xs @ Ev a # ys"
    using timer_split [OF ts a] by blast
  obtain e where e: "removeFromList (Ev a) (ev s) = Some e" "ev_ok e (xs @ ys) []" "watch_table e = watch_table (ev s)"
    using ev_ok_remove [of "ev s" xs "Ev a" ys "[]"] ts by (auto simp: timers_of_def split)
  have "distinct ts"
    using ts by (auto simp: timers_of_def ev_ok_def lists_def dll_def)
  then have "set (xs @ ys) = set ts - {Ev a}"
    by (auto simp: split)
  also have "\<dots> = Ev ` dom ((callbacks s)(a := None))"
    using ts by (auto simp: timers_of_def)
  finally have set': "set (xs @ ys) = Ev ` dom ((callbacks s)(a := None))" .
  define s1 where "s1 = (if armed s a then s\<lparr>wakelock_count := 0, wake_held := False\<rparr>
      else case p_callback i of VendorCallback f \<Rightarrow> send (Called f (userParam i)) s | WakeTimeout \<Rightarrow> s)\<lparr>ev := e\<rparr>"
  define s' where "s' = (if last_wake_timeout_info s1 = Some a then s1\<lparr>last_wake_timeout_info := None\<rparr> else s1)
      \<lparr>callbacks := (callbacks s)(a := None)\<rparr>"
  have same: "callbacks s1 = callbacks s" "last_wake_timeout_info s1 = last_wake_timeout_info s" "ev s1 = e" "version s1 = version s"
    by (auto simp: s1_def send_def split: timed_callback.split)
  have "run_callback (p_callback i) (userParam i) (s\<lparr>ev := e\<rparr>) = Inr s1"
    using i v by (auto simp: run_callback_def wakeTimeoutCallback_def s1_def armed_def send_def split: timed_callback.split)
  then have "userTimerCallback a (s\<lparr>ev := e\<rparr>) = Inr s'"
    using i same by (simp add: userTimerCallback_def Let_def s'_def)
  then have run: "fire_timer a s = Inr s'"
    using e(1) by (simp add: fire_timer_def)
  have cb: "callbacks s' = (callbacks s)(a := None)" "ev s' = e"
    "last_wake_timeout_info s' = (if last_wake_timeout_info s = Some a then None else last_wake_timeout_info s)"
    by (simp_all add: s'_def same)
  have cnt: "wakelock_count s' = (if armed s a then 0 else wakelock_count s)" "wake_held s' = (if armed s a then False else wake_held s)"
    by (auto simp: s'_def s1_def send_def split: timed_callback.split)
  have arm: "armed s' b \<longleftrightarrow> b \<noteq> a \<and> armed s b" for b
    by (auto simp: armed_def cb)
  have "timers_of s' (xs @ ys)"
    using e(2) set' by (simp add: timers_of_def cb)
  then have "wake_inv s'"
    using inv unfolding wake_inv_def arm cnt cb(1,3) by (auto split: if_splits)
  then show ?thesis
    using run e(3) cb cnt by (auto simp: same_frame_def s'_def same)
qed

section \<open>Handlers\<close>

text \<open>The part of the state that the wake lock lives in.\<close>

definition wake_part :: "ril_state \<Rightarrow> int \<times> (nat \<rightharpoonup> UserCallbackInfo) \<times> nat option \<times> ev_state \<times> int \<times> bool" where
  "wake_part s = (version s, callbacks s, last_wake_timeout_info s, ev s, wakelock_count s, wake_held s)"

lemma wake_part_inv: "wake_part s' = wake_part s \<Longrightarrow> wake_inv s' = wake_inv s"
  by (simp add: wake_part_def wake_inv_def timers_of_def armed_def)

text \<open>A step of the wake lock that uses at most the timer records \<open>A\<close> anew.\<close>

definition wake_step :: "nat set \<Rightarrow> ril_state \<Rightarrow> ril_state \<Rightarrow> bool" where
  "wake_step A s s' \<longleftrightarrow> (wake_inv s \<and> version s \<ge> 13 \<and> (\<forall>a \<in> A. fresh_timer a s) \<longrightarrow>
     wake_inv s' \<and> same_frame s s' \<and> dom (callbacks s') \<subseteq> A \<union> dom (callbacks s))"

lemma wake_step_part: "wake_part s' = wake_part s \<Longrightarrow> wake_step A s s'"
  using wake_part_inv [of s' s] by (auto simp: wake_step_def wake_part_def same_frame_def)

lemma wake_step_trans:
  assumes "wake_step A s s1" "wake_step B s1 s2" "A \<inter> B = {}" "A \<subseteq> C" "B \<subseteq> C"
  shows "wake_step C s s2"
  unfolding wake_step_def
proof
  assume s: "wake_inv s \<and> version s \<ge> 13 \<and> (\<forall>a \<in> C. fresh_timer a s)"
  then have s1: "wake_inv s1" "same_frame s s1" "dom (callbacks s1) \<subseteq> A \<union> dom (callbacks s)"
    using assms(1,4) by (auto simp: wake_step_def)
  then have "\<forall>b \<in> B. fresh_timer b s1"
    using s assms(3,5) by (fastforce simp: fresh_timer_def same_frame_def)
  then have "wake_inv s2" "same_frame s1 s2" "dom (callbacks s2) \<subseteq> B \<union> dom (callbacks s1)"
    using assms(2) s s1 by (auto simp: wake_step_def same_frame_def)
  then show "wake_inv s2 \<and> same_frame s s2 \<and> dom (callbacks s2) \<subseteq> C \<union> dom (callbacks s)"
    using s1 assms(4,5) by (simp add: same_frame_def) blast
qed

lemma wake_step_version: "wake_step A s s' \<Longrightarrow> wake_inv s \<Longrightarrow> version s \<ge> 13 \<Longrightarrow> \<forall>a \<in> A. fresh_timer a s \<Longrightarrow> version s' \<ge> 13"
  by (auto simp: wake_step_def same_frame_def)

lemma and_then_Inr: "and_then r f = Inr y \<longleftrightarrow> (\<exists>x. r = Inr x \<and> f x = Inr y)"
  by (auto simp: and_then_def split: sum.splits)

lemma deref_Inr: "deref h p = Inr v \<longleftrightarrow> (\<exists>a. p = Some a \<and> h a = Some v)"
  by (auto simp: deref_def split: option.splits)

lemma grab_step: "grabPartialWakeLock (Some a) clock s = Inr s' \<Longrightarrow> wake_step {a} s s'"
  unfolding wake_step_def using grab_inv [of s a clock] by force

lemma release_step: "releaseWakeLock s = Inr s' \<Longrightarrow> wake_step {} s s'"
  unfolding wake_step_def using release_inv [of s] by force

lemma fire_step: "fire_timer a s = Inr s' \<Longrightarrow> wake_step {} s s'"
proof -
  assume run: "fire_timer a s = Inr s'"
  have "callbacks s a \<noteq> None"
    using run by (auto simp: fire_timer_def userTimerCallback_def and_then_Inr deref_Inr split: option.splits)
  then show ?thesis
    unfolding wake_step_def using fire_inv [of s a] run by force
qed

lemma dequeue_part: "checkAndDequeueRequestInfoIfAck t b s = Inr (f, s') \<Longrightarrow> wake_part s' = wake_part s"
  by (auto simp: checkAndDequeueRequestInfoIfAck_def and_then_Inr wake_part_def split: option.splits if_splits)

lemma send_part [simp]: "wake_part (send m s) = wake_part s"
  by (simp add: wake_part_def send_def)

lemma nitz_part: "nitzTimeReceivedInd slot ty d s = Inr (r, s') \<Longrightarrow> wake_part s' = wake_part s"
  by (auto simp: nitzTimeReceivedInd_def and_then_Inr Let_def split: if_splits)

lemma indication_part: "indication f slot ty d s = Inr (r, s') \<Longrightarrow> wake_part s' = wake_part s"
  by (auto simp: indication_def dest: nitz_part split: option.splits if_splits)

lemma ack_step: "RIL_onRequestAck t s = Inr s' \<Longrightarrow> wake_step A s s'"
  by (rule wake_step_part)
    (auto simp: RIL_onRequestAck_def and_then_Inr acknowledgeRequest_def dest!: dequeue_part split: if_splits)

lemma complete_step:
  assumes "RIL_onRequestComplete (Some a) clock t e response s = Inr s'"
  shows "wake_step {a} s s'"
proof -
  obtain f s1 where s1: "checkAndDequeueRequestInfoIfAck t False s = Inr (f, s1)"
    using assms by (auto simp: RIL_onRequestComplete_def and_then_Inr)
  have part: "wake_part s1 = wake_part s"
    using dequeue_part [OF s1] .
  have free: "wake_part (s\<lparr>infos := x\<rparr>) = wake_part s" for s x
    by (simp add: wake_part_def)
  consider "wake_part s' = wake_part s1"
    | s2 where "grabPartialWakeLock (Some a) clock s1 = Inr s2" "wake_part s' = wake_part s2"
  proof (cases "\<exists>i. f \<and> deref (infos s1) t = Inr i \<and> \<not> ri_local i \<and> \<not> ri_cancelled i \<and> version s1 \<ge> 13 \<and> wasAckSent i")
    case True
    then obtain i where i: "f" "deref (infos s1) t = Inr i" "\<not> ri_local i" "\<not> ri_cancelled i" "version s1 \<ge> 13" "wasAckSent i"
      by blast
    obtain s2 g where "grabPartialWakeLock (Some a) clock s1 = Inr s2"
      "s' = (send g s2)\<lparr>infos := (infos (send g s2))(the t := None)\<rparr>"
      using assms i by (auto simp: RIL_onRequestComplete_def s1 and_then_Inr Let_def)
    then show thesis
      using that(2) by (simp add: free)
  next
    case False
    have "wake_part s' = wake_part s1"
    proof (cases f)
      case True
      obtain i where i: "deref (infos s1) t = Inr i"
        using assms True by (auto simp: RIL_onRequestComplete_def s1 and_then_Inr)
      then have "\<not> (\<not> ri_local i \<and> \<not> ri_cancelled i \<and> version s1 \<ge> 13 \<and> wasAckSent i)"
        using True False by blast
      then show ?thesis
        using assms True i by (cases "ri_local i"; cases "ri_cancelled i") (auto simp: RIL_onRequestComplete_def s1 and_then_Inr Let_def free)
    next
      case False
      then show ?thesis
        using assms by (simp add: RIL_onRequestComplete_def s1)
    qed
    then show thesis using that(1) by blast
  qed
  then show ?thesis
  proof cases
    case 1
    then show ?thesis using part by (simp add: wake_step_part)
  next
    case 2
    have "wake_step {a} s s2"
      using wake_step_trans [OF wake_step_part [OF part, of "{}"] grab_step [OF 2(1)]] by simp
    then show ?thesis
      using wake_step_trans [OF _ wake_step_part [OF 2(2), of "{}"]] by blast
  qed
qed

lemma finish_step:
  assumes run: "unsol_finish p m clock w u d r s = Inr s'" and v: "version s \<ge> 13"
  shows "wake_step {} s s'"
proof -
  have nitz: "wake_step {} s (s\<lparr>lastNITZTimeData := x\<rparr>)" for x
    by (rule wake_step_part) (simp add: wake_part_def)
  have "wake_step {} s s'" if "releaseWakeLock (s\<lparr>lastNITZTimeData := None\<rparr>) = Inr s'"
    using wake_step_trans [OF nitz release_step [OF that]] by blast
  then show ?thesis
    using run v nitz by (auto simp: unsol_finish_def Let_def intro: wake_step_part split: if_splits)
qed

lemma unsol_known:
  assumes "registerCalled s" "0 \<le> u - RIL_UNSOL_RESPONSE_BASE" "u - RIL_UNSOL_RESPONSE_BASE < int (length s_unsolResponses)"
    and "s_unsolResponses ! nat (u - RIL_UNSOL_RESPONSE_BASE) = (x, n, f, w)"
  shows "RIL_onUnsolicitedResponse p m clock u d slot s =
    and_then (if w = WAKE_PARTIAL then grabPartialWakeLock p clock s else Inr s) (\<lambda>s1.
    and_then (indication f slot (if version s \<ge> 13 \<and> w = WAKE_PARTIAL then RESPONSE_UNSOLICITED_ACK_EXP
        else RESPONSE_UNSOLICITED) d s1) (\<lambda>(r, s2). unsol_finish p m clock (w = WAKE_PARTIAL) u d r s2))"
  using assms by (simp add: RIL_onUnsolicitedResponse_def Let_def)

lemma unsol_unknown:
  "\<not> registerCalled s \<or> u - RIL_UNSOL_RESPONSE_BASE < 0 \<or> u - RIL_UNSOL_RESPONSE_BASE \<ge> int (length s_unsolResponses) \<Longrightarrow>
    RIL_onUnsolicitedResponse p m clock u d slot s = Inr s"
  by (elim disjE) (simp_all add: RIL_onUnsolicitedResponse_def Let_def)

lemma unsol_step:
  assumes run: "RIL_onUnsolicitedResponse (Some a) m clock u d slot s = Inr s'"
  shows "wake_step {a} s s'"
proof (cases "wake_inv s \<and> fresh_timer a s \<and> version s \<ge> 13")
  case False
  then show ?thesis by (auto simp: wake_step_def)
next
  case s: True
  let ?i = "u - RIL_UNSOL_RESPONSE_BASE"
  obtain x n f w where row: "s_unsolResponses ! nat ?i = (x, n, f, w)"
    by (cases "s_unsolResponses ! nat ?i")
  show ?thesis
  proof (cases "\<not> registerCalled s \<or> ?i < 0 \<or> ?i \<ge> int (length s_unsolResponses)")
    case True
    then show ?thesis
      using run unsol_unknown by (auto intro: wake_step_part)
  next
    case False
    then have known: "registerCalled s" "0 \<le> ?i" "?i < int (length s_unsolResponses)"
      by auto
    obtain s1 ty q where s1: "(if w = WAKE_PARTIAL then grabPartialWakeLock (Some a) clock s else Inr s) = Inr s1"
      and q: "indication f slot ty d s1 = Inr q"
        "(case q of (r, s2) \<Rightarrow> unsol_finish (Some a) m clock (w = WAKE_PARTIAL) u d r s2) = Inr s'"
      using run unfolding unsol_known [OF known row] and_then_Inr by blast
    obtain r s2 where s2: "indication f slot ty d s1 = Inr (r, s2)"
      and fin: "unsol_finish (Some a) m clock (w = WAKE_PARTIAL) u d r s2 = Inr s'"
      using q by (cases q) auto
    have "wake_step {a} s s1"
      using s1 grab_step [of a clock s s1] by (auto intro: wake_step_part split: if_splits)
    from wake_step_trans [OF this wake_step_part [OF indication_part [OF s2], of "{}"]]
    have 2: "wake_step {a} s s2"
      by blast
    then have "version s2 \<ge> 13"
      using wake_step_version [OF 2] s by simp
    then show ?thesis
      using wake_step_trans [OF 2 finish_step [OF fin]] by blast
  qed
qed

lemma resend_step:
  assumes run: "resendLastNITZTimeData slot s = Inr s'"
  shows "wake_step {} s s'"
proof (cases "lastNITZTimeData s")
  case None
  then show ?thesis
    using run by (simp add: resendLastNITZTimeData_def wake_step_part)
next
  case (Some d)
  define ty where "ty = (if version s \<ge> 13 then RESPONSE_UNSOLICITED_ACK_EXP else RESPONSE_UNSOLICITED)"
  have eq: "resendLastNITZTimeData slot s = and_then (nitzTimeReceivedInd slot ty d s) (\<lambda>(r, s1).
      Inr (if r = 0 then s1\<lparr>lastNITZTimeData := None\<rparr> else s1))"
    unfolding resendLastNITZTimeData_def Some option.case Let_def ty_def ..
  obtain r s1 where "nitzTimeReceivedInd slot ty d s = Inr (r, s1)"
    and s': "s' = (if r = 0 then s1\<lparr>lastNITZTimeData := None\<rparr> else s1)"
    using run unfolding eq by (cases "nitzTimeReceivedInd slot ty d s") (auto split: prod.splits)
  then have "wake_part s1 = wake_part s"
    using nitz_part by blast
  then show ?thesis
    by (intro wake_step_part) (simp add: s' wake_part_def)
qed

lemma connect_step:
  assumes "setResponseFunctions (Some a) (Some b) clock ver slot s = Inr s'" "a \<noteq> b"
  shows "wake_step {a, b} s s'"
proof -
  define s0 where "s0 = s\<lparr>connected := (connected s)(slot := True)\<rparr>"
  obtain s1 s2 where u: "RIL_onUnsolicitedResponse (Some a) True clock RIL_UNSOL_RIL_CONNECTED ver slot s0 = Inr s1"
    "RIL_onUnsolicitedResponse (Some b) True clock RIL_UNSOL_RESPONSE_RADIO_STATE_CHANGED [] slot s1 = Inr s2"
    and r: "resendLastNITZTimeData slot s2 = Inr s' \<or> s2 = s'"
    using assms(1) by (auto simp: setResponseFunctions_def onNewCommandConnect_def and_then_Inr s0_def split: if_splits)
  have "wake_step {} s s0"
    by (rule wake_step_part) (simp add: wake_part_def s0_def)
  from wake_step_trans [OF this unsol_step [OF u(1)]] have "wake_step {a} s s1"
    by simp
  from wake_step_trans [OF this unsol_step [OF u(2)], of "{a, b}"] have 2: "wake_step {a, b} s s2"
    using assms(2) by simp
  have "wake_step {} s2 s'"
    using r resend_step by (auto intro: wake_step_part)
  then show ?thesis
    using wake_step_trans [OF 2] by blast
qed

lemma timed_step:
  assumes "RIL_requestTimedCallback (Some a) clock f p rt s = Inr s'"
  shows "wake_step {a} s s'"
  unfolding wake_step_def
proof
  assume s: "wake_inv s \<and> version s \<ge> 13 \<and> (\<forall>b \<in> {a}. fresh_timer b s)"
  then obtain ts where ts: "timers_of s ts" and a: "fresh_timer a s"
    by (auto simp: wake_inv_def)
  obtain e ts' where e: "s' = s\<lparr>callbacks := (callbacks s)(a \<mapsto> \<lparr>p_callback = VendorCallback f, userParam = p\<rparr>), ev := e\<rparr>"
    "ev_ok e ts' []" "set ts' = insert (Ev a) (set ts)" "watch_table e = watch_table (ev s)"
    using timed_callback_adds [OF ts a, of clock "VendorCallback f" p rt] assms by (auto simp: RIL_requestTimedCallback_def)
  have a0: "callbacks s a = None"
    using a by (simp add: fresh_timer_def)
  have arm: "armed s' b = armed s b" for b
    using a0 by (auto simp: armed_def e(1))
  have "timers_of s' ts'"
    using ts e by (auto simp: timers_of_def)
  moreover have "\<exists>i. callbacks s' l = Some i \<and> p_callback i = WakeTimeout" if "last_wake_timeout_info s' = Some l" for l
  proof -
    have "\<exists>i. callbacks s l = Some i \<and> p_callback i = WakeTimeout"
      using s that by (auto simp: wake_inv_def e(1))
    then show ?thesis using a0 by (auto simp: e(1))
  qed
  ultimately have "wake_inv s'"
    using s unfolding wake_inv_def arm by (auto simp: e(1))
  then show "wake_inv s' \<and> same_frame s s' \<and> dom (callbacks s') \<subseteq> {a} \<union> dom (callbacks s)"
    using e by (auto simp: same_frame_def)
qed

section \<open>Reachable states\<close>

text \<open>The steps of the daemon. Records come from fresh memory.\<close>

inductive ril_step :: "ril_state \<Rightarrow> ril_state \<Rightarrow> bool" where
  unsolicited: "fresh_timer a s \<Longrightarrow> RIL_onUnsolicitedResponse (Some a) m clock u d slot s = Inr s' \<Longrightarrow> ril_step s s'"
| complete: "fresh_timer a s \<Longrightarrow> RIL_onRequestComplete (Some a) clock t e d s = Inr s' \<Longrightarrow> ril_step s s'"
| ack: "RIL_onRequestAck t s = Inr s' \<Longrightarrow> ril_step s s'"
| client_ack: "responseAcknowledgement s = Inr s' \<Longrightarrow> ril_step s s'"
| client: "fresh_timer a s \<Longrightarrow> fresh_timer b s \<Longrightarrow> a \<noteq> b \<Longrightarrow>
    setResponseFunctions (Some a) (Some b) clock ver slot s = Inr s' \<Longrightarrow> ril_step s s'"
| client_dies: "ril_step s (s\<lparr>connected := (connected s)(slot := False)\<rparr>)"
| request: "addRequestToList p serial slot req s = (q, s') \<Longrightarrow> ril_step s s'"
| timed: "fresh_timer a s \<Longrightarrow> RIL_requestTimedCallback (Some a) clock f x rt s = Inr s' \<Longrightarrow> ril_step s s'"
| timer: "fire_timer a s = Inr s' \<Longrightarrow> ril_step s s'"

inductive ril_reach :: "ril_state \<Rightarrow> ril_state \<Rightarrow> bool" for s0 where
  start: "ril_reach s0 s0"
| step: "ril_reach s0 s \<Longrightarrow> ril_step s s' \<Longrightarrow> ril_reach s0 s'"

definition ril_start :: "nat \<Rightarrow> int \<Rightarrow> ev_state \<Rightarrow> ril_state" where
  "ril_start n v e = \<lparr>sim_count = n, version = v, registerCalled = True, infos = Map.empty, pendingRequests = (\<lambda>_. []),
     wakelock_count = 0, wake_held = False, callbacks = Map.empty, last_wake_timeout_info = None, ev = e,
     lastNITZTimeData = None, connected = (\<lambda>_. False), sent = [], vendor = []\<rparr>"

lemma start_inv: "ev_inv e [] \<Longrightarrow> wake_inv (ril_start n v e)"
  by (auto simp: wake_inv_def ril_start_def timers_of_def armed_def)

lemma step_inv:
  assumes "ril_step s s'" "wake_inv s" "version s \<ge> 13"
  shows "wake_inv s' \<and> version s' \<ge> 13"
proof -
  have "\<exists>A. wake_step A s s' \<and> (\<forall>a \<in> A. fresh_timer a s)"
    using assms(1)
  proof cases
    case (unsolicited a) then show ?thesis using unsol_step by blast
  next
    case (complete a) then show ?thesis using complete_step by blast
  next
    case ack then show ?thesis using ack_step by blast
  next
    case client_ack then show ?thesis using release_step by (auto simp: responseAcknowledgement_def)
  next
    case (client a b) then show ?thesis using connect_step [of a b] by blast
  next
    case client_dies then show ?thesis by (intro exI [of _ "{}"]) (simp add: wake_step_part wake_part_def)
  next
    case (request p) then show ?thesis
      by (intro exI [of _ "{}"]) (auto simp: addRequestToList_def Let_def wake_part_def intro!: wake_step_part split: option.splits)
  next
    case (timed a) then show ?thesis using timed_step by blast
  next
    case timer then show ?thesis using fire_step by blast
  qed
  then show ?thesis
    using assms(2,3) by (auto simp: wake_step_def same_frame_def)
qed

lemma reach_inv: "ril_reach s0 s \<Longrightarrow> wake_inv s0 \<Longrightarrow> version s0 \<ge> 13 \<Longrightarrow> wake_inv s \<and> version s \<ge> 13"
  by (induction rule: ril_reach.induct) (auto dest: step_inv)

section \<open>Properties\<close>


lemma unsol_row: "s_unsolResponses ! 18 = (1018, ''RIL_UNSOL_CALL_RING'', Some ''callRingInd'', WAKE_PARTIAL)"
  "s_unsolResponses ! 8 = (1008, ''RIL_UNSOL_NITZ_TIME_RECEIVED'', Some ''nitzTimeReceivedInd'', WAKE_PARTIAL)"
  "s_unsolResponses ! 34 = (1034, ''RIL_UNSOL_RIL_CONNECTED'', Some ''rilConnectedInd'', WAKE_PARTIAL)"
  "s_unsolResponses ! 0 = (1000, ''RIL_UNSOL_RESPONSE_RADIO_STATE_CHANGED'', Some ''radioStateChangedInd'', WAKE_PARTIAL)"
  by (simp_all add: s_unsolResponses_def)

text \<open>A daemon with one ringing call: the lock is held.\<close>

definition idle_daemon :: ril_state where
  "idle_daemon = ril_start 1 13 (ril_event_init zero_state)"

lemma idle_daemon_inv: "wake_inv idle_daemon" "version idle_daemon = 13" "registerCalled idle_daemon" "fresh_timer a idle_daemon"
  "connected idle_daemon = (\<lambda>_. False)" "wakelock_count idle_daemon = 0" "sent idle_daemon = []"
  using start_inv [OF init_ok] by (auto simp: idle_daemon_def ril_start_def fresh_timer_def ril_event_init_def)

lemma ringing:
  "\<exists>s. RIL_onUnsolicitedResponse (Some 7) True (3, 0) 1018 [] 0 idle_daemon = Inr s \<and> wake_inv s \<and> version s = 13 \<and>
    wakelock_count s = 1 \<and> lastNITZTimeData s = None"
proof -
  obtain s where s: "grabPartialWakeLock (Some 7) (3, 0) idle_daemon = Inr s" "wake_inv s" "same_frame idle_daemon s"
    "wakelock_count s = 1" "connected s = (\<lambda>_. False)" "lastNITZTimeData s = lastNITZTimeData idle_daemon"
    using grab_inv [of idle_daemon 7 "(3, 0)"] idle_daemon_inv by auto
  have row: "s_unsolResponses ! nat (1018 - RIL_UNSOL_RESPONSE_BASE) = (1018, ''RIL_UNSOL_CALL_RING'', Some ''callRingInd'', WAKE_PARTIAL)"
    using unsol_row(1) by (simp add: RIL_UNSOL_RESPONSE_BASE_def)
  have "RIL_onUnsolicitedResponse (Some 7) True (3, 0) 1018 [] 0 idle_daemon = Inr s"
    using s idle_daemon_inv
    by (subst unsol_known [OF _ _ _ row])
      (simp_all add: RIL_UNSOL_RESPONSE_BASE_def table_lengths indication_def unsol_finish_def same_frame_def)
  then show ?thesis
    using s idle_daemon_inv by (auto simp: same_frame_def idle_daemon_def ril_start_def)
qed

text \<open>When the timer record cannot be allocated, the lock is given back although earlier answers
  still hold it: the count stays positive, but the phone may sleep.\<close>

theorem failed_grab_drops_wake_lock:
  assumes "version s \<ge> 13" "wake_inv s" "wakelock_count s > 0"
  shows "\<exists>s'. wake_held s \<and> grabPartialWakeLock None clock s = Inr s' \<and> \<not> wake_held s' \<and> wakelock_count s' > 0"
  using assms by (auto simp: grabPartialWakeLock_def internalRequestTimedCallback_def wake_inv_def)


theorem failed_grab_drops_wake_lock_witness:
  "\<exists>s s'. wake_held s \<and> grabPartialWakeLock None (4, 0) s = Inr s' \<and> \<not> wake_held s' \<and> wakelock_count s' > 0"
proof -
  obtain s where "wake_inv s" "version s = 13" "wakelock_count s = 1"
    using ringing by blast
  then show ?thesis
    using failed_grab_drops_wake_lock [of s "(4, 0)"] by auto
qed

section \<open>Network time\<close>

lemma comma_after_bound: "comma_after cs n = Some p \<Longrightarrow> n \<le> p \<and> p < n + length cs"
  by (induction cs n rule: comma_after.induct) (auto split: if_splits)

lemma third_comma_ok: "tmp < length resp \<Longrightarrow> \<exists>r. third_comma resp tmp i = Inr r"
proof (induction i arbitrary: tmp)
  case (Suc i)
  show ?case
  proof (cases "comma_after (drop (tmp + 1) resp) (tmp + 1)")
    case (Some p)
    then have "p < length resp"
      using comma_after_bound [OF Some] Suc.prems unfolding length_drop by linarith
    then show ?thesis
      using Suc Some by simp
  qed (use Suc.prems in simp)
qed simp

text \<open>The text that is sent for network time.\<close>

definition nitz_text :: "u8 list \<Rightarrow> u8 list" where
  "nitz_text d = (let resp = takeWhile (\<lambda>b. b \<noteq> 0) d in
     case third_comma resp 0 3 of Inr (Some p) \<Rightarrow> take p resp | _ \<Rightarrow> resp)"

lemma nitz_send:
  assumes "connected s slot" "takeWhile (\<lambda>b. b \<noteq> 0) d \<noteq> []"
  shows "nitzTimeReceivedInd slot ty d s = Inr (0, send (Answer ''nitzTimeReceivedInd'' slot ty 0 0 (nitz_text d)) s)"
proof -
  obtain r where "third_comma (takeWhile (\<lambda>b. b \<noteq> 0) d) 0 3 = Inr r"
    using third_comma_ok [of 0 "takeWhile (\<lambda>b. b \<noteq> 0) d" 3] assms(2) by auto
  moreover have "d \<noteq> []"
    using assms(2) by auto
  ultimately show ?thesis
    using assms(1) by (cases r) (simp_all add: nitzTimeReceivedInd_def nitz_text_def Let_def)
qed

lemma unsol_run:
  assumes inv: "wake_inv s" "version s \<ge> 13" "registerCalled s" "fresh_timer a s"
    and u: "0 \<le> u - RIL_UNSOL_RESPONSE_BASE" "u - RIL_UNSOL_RESPONSE_BASE < int (length s_unsolResponses)"
    and row: "s_unsolResponses ! nat (u - RIL_UNSOL_RESPONSE_BASE) = (x, n, Some f, WAKE_PARTIAL)"
    and f: "f = ''nitzTimeReceivedInd'' \<Longrightarrow> \<not> connected s slot" "f = ''nitzTimeReceivedInd'' \<longleftrightarrow> u = RIL_UNSOL_NITZ_TIME_RECEIVED"
  shows "\<exists>s'. RIL_onUnsolicitedResponse (Some a) True clock u d slot s = Inr s' \<and> wake_inv s' \<and> same_frame s s' \<and>
    wakelock_count s' = wakelock_count s + 1 \<and> dom (callbacks s') = insert a (dom (callbacks s)) \<and>
    registerCalled s' \<and> connected s' = connected s \<and>
    sent s' = (if connected s slot then sent s @ [Answer f slot RESPONSE_UNSOLICITED_ACK_EXP 0 0 d] else sent s) \<and>
    lastNITZTimeData s' = (if u = RIL_UNSOL_NITZ_TIME_RECEIVED then Some d else lastNITZTimeData s)"
proof -
  obtain s1 where g: "grabPartialWakeLock (Some a) clock s = Inr s1" "wake_inv s1" "same_frame s s1"
    "wakelock_count s1 = wakelock_count s + 1" "dom (callbacks s1) = insert a (dom (callbacks s))"
    "sent s1 = sent s" "connected s1 = connected s" "lastNITZTimeData s1 = lastNITZTimeData s" "registerCalled s1"
    using grab_inv [OF inv(1,4,2), of clock] inv(3) by auto
  define s2 where "s2 = (if connected s slot then send (Answer f slot RESPONSE_UNSOLICITED_ACK_EXP 0 0 d) s1 else s1)"
  have ind: "indication (Some f) slot RESPONSE_UNSOLICITED_ACK_EXP d s1 = Inr (if u = RIL_UNSOL_NITZ_TIME_RECEIVED then - 1 else 0, s2)"
    using f g(7) by (auto simp: indication_def nitzTimeReceivedInd_def s2_def)
  have v2: "version s2 \<ge> 13"
    using g(3) inv(2) by (simp add: s2_def same_frame_def)
  define s3 where "s3 = (if u = RIL_UNSOL_NITZ_TIME_RECEIVED then s2\<lparr>lastNITZTimeData := Some d\<rparr> else s2)"
  have "RIL_onUnsolicitedResponse (Some a) True clock u d slot s = Inr s3"
    using g(1) ind v2 inv(2) by (simp add: unsol_known [OF inv(3) u row] unsol_finish_def s3_def)
  moreover have "wake_inv s3"
    using g(2) by (simp add: s3_def s2_def)
  ultimately show ?thesis
    using g by (auto simp: s3_def s2_def same_frame_def send_def)
qed

text \<open>C34. Network time that no client is there to receive is kept and not lost: when a client connects it
  gets, in this order, the version, the radio state and the network time up to its third comma,
  and the saved time is deleted.\<close>

theorem nitz_kept_for_client:
  assumes inv: "wake_inv s" "version s \<ge> 13" "registerCalled s" "\<not> connected s slot"
    and fr: "fresh_timer a s" "fresh_timer b s" "fresh_timer c s" "a \<noteq> b" "a \<noteq> c" "b \<noteq> c"
    and d: "takeWhile (\<lambda>x. x \<noteq> 0) d \<noteq> []"
  shows "\<exists>s1 s2. RIL_onUnsolicitedResponse (Some a) True clock RIL_UNSOL_NITZ_TIME_RECEIVED d slot s = Inr s1 \<and>
    lastNITZTimeData s1 = Some d \<and> sent s1 = sent s \<and>
    setResponseFunctions (Some b) (Some c) clock2 ver slot s1 = Inr s2 \<and> lastNITZTimeData s2 = None \<and>
    sent s2 = sent s @ [Answer ''rilConnectedInd'' slot RESPONSE_UNSOLICITED_ACK_EXP 0 0 ver,
      Answer ''radioStateChangedInd'' slot RESPONSE_UNSOLICITED_ACK_EXP 0 0 [],
      Answer ''nitzTimeReceivedInd'' slot RESPONSE_UNSOLICITED_ACK_EXP 0 0 (nitz_text d)]"
proof -
  note numbers = RIL_UNSOL_RESPONSE_BASE_def table_lengths RIL_UNSOL_NITZ_TIME_RECEIVED_def RIL_UNSOL_RIL_CONNECTED_def
    RIL_UNSOL_RESPONSE_RADIO_STATE_CHANGED_def
  obtain s1 where s1: "RIL_onUnsolicitedResponse (Some a) True clock RIL_UNSOL_NITZ_TIME_RECEIVED d slot s = Inr s1"
    "wake_inv s1" "same_frame s s1" "dom (callbacks s1) = insert a (dom (callbacks s))" "registerCalled s1"
    "sent s1 = sent s" "lastNITZTimeData s1 = Some d"
    using unsol_run [OF inv(1-3) fr(1), of RIL_UNSOL_NITZ_TIME_RECEIVED _ _ "''nitzTimeReceivedInd''" slot clock d] inv(4)
    by (auto simp: numbers unsol_row)
  define t0 where "t0 = s1\<lparr>connected := (connected s1)(slot := True)\<rparr>"
  have t0: "wake_inv t0" "version t0 \<ge> 13" "registerCalled t0" "fresh_timer b t0" "connected t0 slot"
    using s1 inv(2) fr by (auto simp: t0_def same_frame_def fresh_timer_def)
  obtain t1 where t1: "RIL_onUnsolicitedResponse (Some b) True clock2 RIL_UNSOL_RIL_CONNECTED ver slot t0 = Inr t1"
    "wake_inv t1" "same_frame t0 t1" "dom (callbacks t1) = insert b (dom (callbacks t0))" "registerCalled t1"
    "connected t1 = connected t0" "sent t1 = sent s @ [Answer ''rilConnectedInd'' slot RESPONSE_UNSOLICITED_ACK_EXP 0 0 ver]"
    "lastNITZTimeData t1 = Some d"
    using unsol_run [OF t0(1-4), of RIL_UNSOL_RIL_CONNECTED _ _ "''rilConnectedInd''" slot clock2 ver] t0(5) s1(6,7)
    by (auto simp: numbers unsol_row) (auto simp: t0_def)
  have "fresh_timer c t1"
    using fr s1(3,4) t1(3,4) by (auto simp: fresh_timer_def same_frame_def t0_def)
  then obtain t2 where t2: "RIL_onUnsolicitedResponse (Some c) True clock2 RIL_UNSOL_RESPONSE_RADIO_STATE_CHANGED [] slot t1 = Inr t2"
    "same_frame t1 t2" "connected t2 = connected t1" "lastNITZTimeData t2 = Some d"
    "sent t2 = sent t1 @ [Answer ''radioStateChangedInd'' slot RESPONSE_UNSOLICITED_ACK_EXP 0 0 []]"
    using unsol_run [of t1 c RIL_UNSOL_RESPONSE_RADIO_STATE_CHANGED _ _ "''radioStateChangedInd''" slot clock2 "[]"] t0 t1
    by (auto simp: numbers unsol_row same_frame_def)
  have "resendLastNITZTimeData slot t2 = Inr ((send (Answer ''nitzTimeReceivedInd'' slot RESPONSE_UNSOLICITED_ACK_EXP 0 0 (nitz_text d)) t2)
      \<lparr>lastNITZTimeData := None\<rparr>)"
    using nitz_send [OF _ d, of t2 slot] t0(2,5) t1(3,6) t2(2-4) by (auto simp: resendLastNITZTimeData_def same_frame_def)
  then have "setResponseFunctions (Some b) (Some c) clock2 ver slot s1 =
      Inr ((send (Answer ''nitzTimeReceivedInd'' slot RESPONSE_UNSOLICITED_ACK_EXP 0 0 (nitz_text d)) t2)\<lparr>lastNITZTimeData := None\<rparr>)"
    using t1(1) t2(1,4) by (simp add: setResponseFunctions_def onNewCommandConnect_def t0_def)
  then show ?thesis
    using s1 t1(7) t2(5) by (auto simp: send_def)
qed

theorem nitz_kept_for_client_witness:
  "\<exists>s1 s2. RIL_onUnsolicitedResponse (Some 1) True (1, 0) RIL_UNSOL_NITZ_TIME_RECEIVED [49, 44, 50, 44, 51, 44, 52] 0 idle_daemon = Inr s1 \<and>
    setResponseFunctions (Some 2) (Some 3) (2, 0) [13, 0, 0, 0] 0 s1 = Inr s2 \<and>
    sent s2 = [Answer ''rilConnectedInd'' 0 4 0 0 [13, 0, 0, 0], Answer ''radioStateChangedInd'' 0 4 0 0 [],
      Answer ''nitzTimeReceivedInd'' 0 4 0 0 [49, 44, 50, 44, 51]]"
proof -
  have "nitz_text [49, 44, 50, 44, 51, 44, 52] = [49, 44, 50, 44, 51]"
    by (simp add: nitz_text_def numeral_3_eq_3)
  then show ?thesis
    using nitz_kept_for_client [OF idle_daemon_inv(1), of 0 1 2 3 "[49, 44, 50, 44, 51, 44, 52]" "(1, 0)" "(2, 0)" "[13, 0, 0, 0]"]
      idle_daemon_inv by (auto simp: RESPONSE_UNSOLICITED_ACK_EXP_def)
qed

text \<open>Saved network time is sent again with a request for an acknowledgement, but no wake lock is
  grabbed for it: the acknowledgement releases the lock that another message still holds.\<close>

theorem resent_nitz_drops_wake_lock:
  assumes "version s \<ge> 13" "wake_inv s" "wakelock_count s = 1" "connected s slot" "lastNITZTimeData s = Some d"
    and d: "takeWhile (\<lambda>x. x \<noteq> 0) d \<noteq> []"
  shows "\<exists>s1 s2. resendLastNITZTimeData slot s = Inr s1 \<and> wakelock_count s1 = 1 \<and>
    sent s1 = sent s @ [Answer ''nitzTimeReceivedInd'' slot RESPONSE_UNSOLICITED_ACK_EXP 0 0 (nitz_text d)] \<and>
    responseAcknowledgement s1 = Inr s2 \<and> \<not> wake_held s2"
proof -
  define s1 where "s1 = (send (Answer ''nitzTimeReceivedInd'' slot RESPONSE_UNSOLICITED_ACK_EXP 0 0 (nitz_text d)) s)\<lparr>lastNITZTimeData := None\<rparr>"
  have "resendLastNITZTimeData slot s = Inr s1"
    using nitz_send [OF assms(4) d] assms(1,5) by (simp add: resendLastNITZTimeData_def s1_def)
  moreover have "wake_inv s1" "version s1 \<ge> 13" "wakelock_count s1 = 1"
    using assms by (simp_all add: s1_def)
  moreover from release_inv [OF this(1,2)] this(3) obtain s2 where "releaseWakeLock s1 = Inr s2" "wake_inv s2" "wakelock_count s2 = 0"
    by auto
  ultimately show ?thesis
    by (auto simp: responseAcknowledgement_def s1_def send_def wake_inv_def)
qed

theorem resent_nitz_drops_wake_lock_witness:
  "\<exists>s s1 s2. wake_held s \<and> resendLastNITZTimeData 0 s = Inr s1 \<and> wakelock_count s1 = 1 \<and>
    responseAcknowledgement s1 = Inr s2 \<and> \<not> wake_held s2"
proof -
  obtain r where r: "wake_inv r" "version r = 13" "wakelock_count r = 1"
    using ringing by blast
  let ?s = "r\<lparr>connected := (\<lambda>_. True), lastNITZTimeData := Some [49]\<rparr>"
  have "wake_inv ?s" "wake_held ?s"
    using r by (auto simp: wake_inv_def timers_of_def armed_def)
  moreover from this obtain s1 s2 where "resendLastNITZTimeData 0 ?s = Inr s1" "wakelock_count s1 = 1"
    "responseAcknowledgement s1 = Inr s2" "\<not> wake_held s2"
    using resent_nitz_drops_wake_lock [of ?s 0 "[49]"] r by auto
  ultimately show ?thesis by blast
qed

end
