(* ===== verification/Ril_Requests.thy ===== *)
theory Ril_Requests
  imports Ril_Service Ril_Wake
begin

text \<open>
  The life of a request of the radio interface, from the client's call through the pending list and the
  vendor library to its answer: it is answered once, with the serial number of the client, and then
  forgotten. Requests that the daemon answers itself with an error are not forgotten.
\<close>

section \<open>Calls that depend on the version\<close>

definition RIL_E_REQUEST_NOT_SUPPORTED :: int where "RIL_E_REQUEST_NOT_SUPPORTED = 6"

text \<open>A request that is entered and answered with an error at once; the pointer is not checked.\<close>

definition reject :: "nat option \<Rightarrow> int \<Rightarrow> nat \<Rightarrow> int \<Rightarrow> ril_state \<Rightarrow> ril_state rrun" where
  "reject new serial slotId request s =
     (case addRequestToList new serial slotId request s of
        (None, s1) \<Rightarrow> Inl NullPointer
      | (Some pRI, s1) \<Rightarrow> sendErrorResponse pRI RIL_E_REQUEST_NOT_SUPPORTED s1)"

definition setIndicationFilter :: "nat option \<Rightarrow> (nat \<Rightarrow> bool) \<Rightarrow> int \<Rightarrow> nat \<Rightarrow> int \<Rightarrow> ril_state \<Rightarrow> ril_state rrun" where
  "setIndicationFilter new oks serial slotId indicationFilter s =
     (if version s < 15 then reject new serial slotId 139 s
      else and_then (dispatchInts new oks serial slotId 139 [indicationFilter] s) (\<lambda>(_, s1). Inr s1))"

text \<open>\<open>low\<close> is the number of \<^verbatim>\<open>LOW_DATA_EXPECTED\<close> in the interface.\<close>

definition sendDeviceState :: "int \<Rightarrow> nat option \<Rightarrow> (nat \<Rightarrow> bool) \<Rightarrow> int \<Rightarrow> nat \<Rightarrow> int \<Rightarrow> bool \<Rightarrow> ril_state \<Rightarrow> ril_state rrun" where
  "sendDeviceState low new oks serial slotId deviceStateType state s =
     (if version s < 15
      then if deviceStateType = low
           then and_then (dispatchInts new oks serial slotId 61 [if \<not> state then 1 else 0] s) (\<lambda>(_, s1). Inr s1)
           else reject new serial slotId 138 s
      else and_then (dispatchInts new oks serial slotId 138 [deviceStateType, if state then 1 else 0] s) (\<lambda>(_, s1). Inr s1))"

section \<open>Invariant\<close>

text \<open>Every pending request is live, stands once in the list of its slot, and in no other.\<close>

definition req_inv :: "ril_state \<Rightarrow> bool" where
  "req_inv s \<longleftrightarrow> (\<forall>h. distinct (pendingRequests s h) \<and>
     (\<forall>a \<in> set (pendingRequests s h). \<exists>i. infos s a = Some i \<and> hook (sim_count s) (ri_socket i) = h))"

definition entered :: "nat \<Rightarrow> int \<Rightarrow> nat \<Rightarrow> int \<Rightarrow> ril_state \<Rightarrow> ril_state" where
  "entered a serial slotId request s = snd (addRequestToList (Some a) serial slotId request s)"

lemma add_entered: "addRequestToList (Some a) serial slot r s = (Some a, entered a serial slot r s)"
  by (simp add: entered_def addRequestToList_def Let_def)

lemma entered_simps [simp]:
  "infos (entered a serial slot r s) = (infos s)(a \<mapsto> \<lparr>ri_token = serial, ri_pCI = r, ri_cancelled = False,
     ri_local = False, ri_socket = slot, wasAckSent = False\<rparr>)"
  "pendingRequests (entered a serial slot r s) = (pendingRequests s)
     (hook (sim_count s) slot := a # pendingRequests s (hook (sim_count s) slot))"
  "sim_count (entered a serial slot r s) = sim_count s" "version (entered a serial slot r s) = version s"
  "sent (entered a serial slot r s) = sent s" "vendor (entered a serial slot r s) = vendor s"
  by (simp_all add: entered_def addRequestToList_def Let_def)

lemma entered_inv:
  assumes "req_inv s" "infos s a = None"
  shows "req_inv (entered a serial slot r s)"
proof -
  have fresh: "a \<notin> set (pendingRequests s h)" for h
    using assms by (force simp: req_inv_def)
  have live: "\<exists>i. infos s b = Some i \<and> hook (sim_count s) (ri_socket i) = h" if "b \<in> set (pendingRequests s h)" for b h
    using assms(1) that by (simp add: req_inv_def)
  show ?thesis
    unfolding req_inv_def
  proof (intro allI conjI ballI)
    fix h
    show "distinct (pendingRequests (entered a serial slot r s) h)"
      using assms(1) fresh by (auto simp: req_inv_def)
    fix b assume b: "b \<in> set (pendingRequests (entered a serial slot r s) h)"
    show "\<exists>i. infos (entered a serial slot r s) b = Some i \<and> hook (sim_count (entered a serial slot r s)) (ri_socket i) = h"
    proof (cases "b = a")
      case True
      then show ?thesis using b fresh by (auto split: if_splits)
    next
      case False
      then have "b \<in> set (pendingRequests s h)"
        using b by (auto split: if_splits)
      then show ?thesis using live False by simp
    qed
  qed
qed

section \<open>Dispatching with enough memory\<close>

definition copied :: "bool \<Rightarrow> u8 list \<Rightarrow> u8 list option" where
  "copied allowEmpty x = (if x = [] \<and> \<not> allowEmpty then None else Some (cstr_of x))"

fun payload_of :: "dispatch_call \<Rightarrow> payload" where
  "payload_of CVoid = NoData"
| "payload_of (CString x) = Str (copied False x)"
| "payload_of (CStrings e xs) = Strs (map (copied e) xs)"
| "payload_of (CStringVec xs) = Strs (map (copied False) xs)"
| "payload_of (CInts ns) = Ints ns"
| "payload_of (CCallForward c) = CallForward (cf_status c) (cf_reason c) (cf_serviceClass c) (cf_toa c)
     (copied False (cf_number c)) (cf_timeSeconds c)"
| "payload_of (CRaw d) = RawBytes d"
| "payload_of (CApdu a) = Apdu (sessionId a) (cla a) (instruction a) (apdu_p1 a) (apdu_p2 a) (apdu_p3 a)
     (copied False (apdu_data a))"

lemma copy_ok: "copyHidlStringToRil True x p e s = Inr (Some (copied e x), s)"
proof -
  have "length (cstr_of x) < length x + 1"
    unfolding cstr_of_def using length_takeWhile_le [of "\<lambda>b. b \<noteq> 0" x] by linarith
  then show ?thesis
    by (simp add: copyHidlStringToRil_def copied_def Let_def)
qed

lemma copy_strings_ok: "copy_strings (\<lambda>_. True) k xs p e s = Inr (Some (map (copied e) xs), s)"
  by (induction xs arbitrary: k) (simp_all add: copy_ok)

lemma perform_ok:
  "perform (Some a) (\<lambda>_. True) serial slot (r, c) s =
    Inr (True, CALL_ONREQUEST r (payload_of c) a slot (entered a serial slot r s))"
  by (cases c) (simp_all add: dispatchVoid_def dispatchString_def dispatchStrings_def dispatchStrings_vec_def
      dispatchInts_def dispatchCallForwardStatus_def dispatchRaw_def dispatchIccApdu_def add_entered copy_ok copy_strings_ok)

section \<open>Completion\<close>

definition forgotten :: "nat \<Rightarrow> nat \<Rightarrow> ril_state \<Rightarrow> ril_state" where
  "forgotten a h s = s\<lparr>infos := (infos s)(a := None), pendingRequests := (pendingRequests s)(h := remove1 a (pendingRequests s h))\<rparr>"

lemma hook_single: "n < 2 \<Longrightarrow> hook n i = 0"
  by (simp add: hook_def)

lemma dequeue_pending:
  assumes "infos s a = Some i" "a \<in> set (pendingRequests s (hook (sim_count s) (ri_socket i)))"
  shows "checkAndDequeueRequestInfoIfAck (Some a) False s =
    Inr (True, s\<lparr>pendingRequests := (pendingRequests s)(hook (sim_count s) (ri_socket i) :=
      remove1 a (pendingRequests s (hook (sim_count s) (ri_socket i))))\<rparr>)"
  using assms by (cases "sim_count s \<ge> 2") (auto simp: checkAndDequeueRequestInfoIfAck_def hook_single)

lemma complete_run:
  assumes i: "infos s a = Some i" "a \<in> set (pendingRequests s (hook (sim_count s) (ri_socket i)))"
    and plain: "\<not> ri_local i" "\<not> ri_cancelled i" "\<not> wasAckSent i" and f: "responseFunction (ri_pCI i) = Inr f"
  shows "RIL_onRequestComplete p clock (Some a) e r s =
    Inr (forgotten a (hook (sim_count s) (ri_socket i)) (send (Answer f (ri_socket i) RESPONSE_SOLICITED (ri_token i) e r) s))"
  using i(1) plain f
  by (simp add: RIL_onRequestComplete_def dequeue_pending [OF i] Let_def forgotten_def send_def)

lemma forgotten_inv:
  assumes "req_inv s" "infos s a = Some i" "h = hook (sim_count s) (ri_socket i)"
  shows "req_inv (forgotten a h s)" "a \<notin> set (pendingRequests (forgotten a h s) h')"
proof -
  have only: "a \<in> set (pendingRequests s k) \<Longrightarrow> k = h" for k
    using assms by (force simp: req_inv_def)
  have dist: "distinct (pendingRequests s k)" for k
    using assms(1) by (simp add: req_inv_def)
  show no: "a \<notin> set (pendingRequests (forgotten a h s) h')" for h'
    using only [of h'] dist by (auto simp: forgotten_def)
  have "\<exists>i. infos (forgotten a h s) b = Some i \<and> hook (sim_count s) (ri_socket i) = k"
    if b: "b \<in> set (pendingRequests (forgotten a h s) k)" for b k
  proof -
    have "b \<noteq> a"
      using no b by blast
    moreover have "b \<in> set (pendingRequests s k)"
      using b set_remove1_subset [of a "pendingRequests s h"] by (auto simp: forgotten_def split: if_splits)
    ultimately show ?thesis
      using assms(1) by (simp add: req_inv_def forgotten_def)
  qed
  then show "req_inv (forgotten a h s)"
    using dist by (auto simp: req_inv_def) (simp_all add: forgotten_def)
qed

section \<open>Properties\<close>

lemma request_cycle:
  assumes inv: "req_inv s" and a: "infos s a = None" and f: "responseFunction r = Inr f"
  shows "\<exists>s1 s2. perform (Some a) (\<lambda>_. True) serial slot (r, c) s = Inr (True, s1) \<and> req_inv s1 \<and>
    vendor s1 = vendor s @ [(r, payload_of c, a, slot)] \<and> sent s1 = sent s \<and>
    RIL_onRequestComplete p clock (Some a) e d s1 = Inr s2 \<and> req_inv s2 \<and>
    sent s2 = sent s @ [Answer f slot RESPONSE_SOLICITED serial e d] \<and>
    infos s2 = infos s \<and> (\<forall>h. a \<notin> set (pendingRequests s2 h)) \<and>
    (sim_count s < 2 \<longrightarrow> RIL_onRequestComplete p clock (Some a) e d s2 = Inr s2)"
proof -
  define s1 where "s1 = CALL_ONREQUEST r (payload_of c) a slot (entered a serial slot r s)"
  let ?i = "\<lparr>ri_token = serial, ri_pCI = r, ri_cancelled = False, ri_local = False, ri_socket = slot, wasAckSent = False\<rparr>"
  let ?h = "hook (sim_count s) slot" and ?m = "Answer f slot RESPONSE_SOLICITED serial e d"
  have fields: "infos s1 a = Some ?i" "sim_count s1 = sim_count s" "a \<in> set (pendingRequests s1 ?h)"
    "sent s1 = sent s" "vendor s1 = vendor s @ [(r, payload_of c, a, slot)]"
    by (simp_all add: s1_def CALL_ONREQUEST_def)
  have inv1: "req_inv s1"
    using entered_inv [OF inv a, of serial slot r] by (simp add: s1_def CALL_ONREQUEST_def req_inv_def)
  define s2 where "s2 = forgotten a ?h (send ?m s1)"
  have run: "RIL_onRequestComplete p clock (Some a) e d s1 = Inr s2"
    using complete_run [of s1 a ?i f p clock e d] fields f by (simp add: s2_def)
  have "req_inv (send ?m s1)" "infos (send ?m s1) a = Some ?i" "sim_count (send ?m s1) = sim_count s"
    using inv1 fields by (simp_all add: send_def req_inv_def)
  then have inv2: "req_inv s2" "\<And>h. a \<notin> set (pendingRequests s2 h)"
    using forgotten_inv [of "send ?m s1" a ?i ?h] by (simp_all add: s2_def)
  have "RIL_onRequestComplete p clock (Some a) e d s2 = Inr s2" if "sim_count s < 2"
  proof -
    have "sim_count s2 < 2"
      using that fields(2) by (simp add: s2_def forgotten_def send_def)
    then show ?thesis
      using inv2(2) by (simp add: RIL_onRequestComplete_def checkAndDequeueRequestInfoIfAck_def)
  qed
  moreover have "infos s2 = infos s" "sent s2 = sent s @ [?m]"
    using a by (auto simp: s2_def forgotten_def send_def s1_def CALL_ONREQUEST_def)
  ultimately show ?thesis
    using perform_ok [of a serial slot r c s] run inv1 inv2 fields(4,5) by (auto simp: s1_def [symmetric])
qed


lemma idle_req_inv: "req_inv idle_daemon" "infos idle_daemon = Map.empty" "sim_count idle_daemon = 1" "vendor idle_daemon = []"
  "pendingRequests idle_daemon = (\<lambda>_. [])"
  by (simp_all add: req_inv_def idle_daemon_def ril_start_def)

lemma answer_examples: "responseFunction 23 = Inr ''setRadioPowerResponse''"
  "responseFunction 139 = Inr ''setIndicationFilterResponse''"
  by (simp_all add: responseFunction_def table_lengths) (simp_all add: s_commands_def)


text \<open>With several slots a second completion of the same request reads the freed record before it looks
  whether the request is pending.\<close>

theorem second_completion_reads_freed:
  assumes "sim_count s \<ge> 2" "infos s a = None"
  shows "RIL_onRequestComplete p clock (Some a) e d s = Inl DanglingPointer \<and> RIL_onRequestAck (Some a) s = Inl DanglingPointer"
  using assms by (simp add: RIL_onRequestComplete_def RIL_onRequestAck_def checkAndDequeueRequestInfoIfAck_def)

theorem second_completion_reads_freed_witness:
  "RIL_onRequestComplete None (0, 0) (Some 4) 0 [] (ril_start 2 13 zero_state) = Inl DanglingPointer"
  using second_completion_reads_freed [of "ril_start 2 13 zero_state" 4] by (simp add: ril_start_def)

text \<open>C35. Requests that the daemon answers itself leak: \<^verbatim>\<open>setIndicationFilter\<close> before version 15 sends the
  error, but each call leaves one more record in the pending list, which nothing takes out (and
  without memory for the record it follows a NULL pointer).\<close>

theorem rejected_requests_leak:
  assumes "version s < 15"
  shows "(\<exists>s'. foldl (\<lambda>r (a, serial). and_then r (\<lambda>s. setIndicationFilter (Some a) oks serial slot x s)) (Inr s) calls = Inr s' \<and>
      sent s' = sent s @ map (\<lambda>(a, serial). Answer ''setIndicationFilterResponse'' slot RESPONSE_SOLICITED serial
        RIL_E_REQUEST_NOT_SUPPORTED []) calls \<and>
      vendor s' = vendor s \<and>
      pendingRequests s' (hook (sim_count s) slot) = rev (map fst calls) @ pendingRequests s (hook (sim_count s) slot)) \<and>
    setIndicationFilter None oks serial slot x s = Inl NullPointer"
proof
  show "setIndicationFilter None oks serial slot x s = Inl NullPointer"
    using assms by (simp add: setIndicationFilter_def reject_def addRequestToList_def)
  have one: "setIndicationFilter (Some a) oks serial slot x s = Inr (send (Answer ''setIndicationFilterResponse'' slot
      RESPONSE_SOLICITED serial RIL_E_REQUEST_NOT_SUPPORTED []) (entered a serial slot 139 s))" if "version s < 15" for a serial s
    using that by (simp add: setIndicationFilter_def reject_def add_entered sendErrorResponse_def answer_examples)
  show "\<exists>s'. foldl (\<lambda>r (a, serial). and_then r (\<lambda>s. setIndicationFilter (Some a) oks serial slot x s)) (Inr s) calls = Inr s' \<and>
      sent s' = sent s @ map (\<lambda>(a, serial). Answer ''setIndicationFilterResponse'' slot RESPONSE_SOLICITED serial
        RIL_E_REQUEST_NOT_SUPPORTED []) calls \<and> vendor s' = vendor s \<and>
      pendingRequests s' (hook (sim_count s) slot) = rev (map fst calls) @ pendingRequests s (hook (sim_count s) slot)"
    using assms
  proof (induction calls arbitrary: s)
    case (Cons c calls)
    obtain a serial where c: "c = (a, serial)"
      by (cases c)
    define s1 where "s1 = send (Answer ''setIndicationFilterResponse'' slot RESPONSE_SOLICITED serial
        RIL_E_REQUEST_NOT_SUPPORTED []) (entered a serial slot 139 s)"
    have s1: "version s1 < 15" "sim_count s1 = sim_count s" "vendor s1 = vendor s"
      "pendingRequests s1 (hook (sim_count s) slot) = a # pendingRequests s (hook (sim_count s) slot)"
      "sent s1 = sent s @ [Answer ''setIndicationFilterResponse'' slot RESPONSE_SOLICITED serial RIL_E_REQUEST_NOT_SUPPORTED []]"
      using Cons.prems by (simp_all add: s1_def send_def)
    show ?case
      using Cons.IH [OF s1(1)] s1(2-5) one [OF Cons.prems, of a serial] by (auto simp: c s1_def [symmetric])
  qed simp
qed

theorem rejected_requests_leak_witness:
  "\<exists>s'. setIndicationFilter (Some 5) (\<lambda>_. True) 9 0 1 idle_daemon = Inr s' \<and> pendingRequests s' 0 = [5]"
  using rejected_requests_leak [of idle_daemon "\<lambda>_. True" 0 1 "[(5, 9)]" 9] idle_daemon_inv(2)
  by (auto simp: idle_req_inv hook_def)

end
