(* ===== verification/Ril_Radio.thy ===== *)
theory Ril_Radio
  imports Ril_Service
begin

text \<open>
  The methods of the radio interface, \<^verbatim>\<open>RadioImpl\<close> and \<^verbatim>\<open>OemHookImpl\<close> of \<^verbatim>\<open>ril/libril/ril_service.cpp\<close>, that make
  one dispatching call, in the order of the source. The argument \<open>serial\<close> that every method passes on
  and the slot are those of \<open>perform\<close>. Enumerations of the interface are integers. Shown here: which
  function answers each of them.
\<close>

section \<open>Methods\<close>

definition getIccCardStatus :: "int \<times> dispatch_call" where
  "getIccCardStatus = (1, CVoid)"

definition supplyIccPinForApp :: "hidl_string \<Rightarrow> hidl_string \<Rightarrow> int \<times> dispatch_call" where
  "supplyIccPinForApp pin aid = (2, CStrings True [cstr_of pin, cstr_of aid])"

definition supplyIccPukForApp :: "hidl_string \<Rightarrow> hidl_string \<Rightarrow> hidl_string \<Rightarrow> int \<times> dispatch_call" where
  "supplyIccPukForApp puk pin aid = (3, CStrings True [cstr_of puk, cstr_of pin, cstr_of aid])"

definition supplyIccPin2ForApp :: "hidl_string \<Rightarrow> hidl_string \<Rightarrow> int \<times> dispatch_call" where
  "supplyIccPin2ForApp pin2 aid = (4, CStrings True [cstr_of pin2, cstr_of aid])"

definition supplyIccPuk2ForApp :: "hidl_string \<Rightarrow> hidl_string \<Rightarrow> hidl_string \<Rightarrow> int \<times> dispatch_call" where
  "supplyIccPuk2ForApp puk2 pin2 aid = (5, CStrings True [cstr_of puk2, cstr_of pin2, cstr_of aid])"

definition changeIccPinForApp :: "hidl_string \<Rightarrow> hidl_string \<Rightarrow> hidl_string \<Rightarrow> int \<times> dispatch_call" where
  "changeIccPinForApp oldPin newPin aid = (6, CStrings True [cstr_of oldPin, cstr_of newPin, cstr_of aid])"

definition changeIccPin2ForApp :: "hidl_string \<Rightarrow> hidl_string \<Rightarrow> hidl_string \<Rightarrow> int \<times> dispatch_call" where
  "changeIccPin2ForApp oldPin2 newPin2 aid = (7, CStrings True [cstr_of oldPin2, cstr_of newPin2, cstr_of aid])"

definition supplyNetworkDepersonalization :: "hidl_string \<Rightarrow> int \<times> dispatch_call" where
  "supplyNetworkDepersonalization netPin = (8, CStrings True [cstr_of netPin])"

definition getCurrentCalls :: "int \<times> dispatch_call" where
  "getCurrentCalls = (9, CVoid)"

definition getImsiForApp :: "hidl_string \<Rightarrow> int \<times> dispatch_call" where
  "getImsiForApp aid = (11, CStrings False [cstr_of aid])"

definition hangup :: "int \<Rightarrow> int \<times> dispatch_call" where
  "hangup gsmIndex = (12, CInts [gsmIndex])"

definition hangupWaitingOrBackground :: "int \<times> dispatch_call" where
  "hangupWaitingOrBackground = (13, CVoid)"

definition hangupForegroundResumeBackground :: "int \<times> dispatch_call" where
  "hangupForegroundResumeBackground = (14, CVoid)"

definition switchWaitingOrHoldingAndActive :: "int \<times> dispatch_call" where
  "switchWaitingOrHoldingAndActive = (15, CVoid)"

definition conference :: "int \<times> dispatch_call" where
  "conference = (16, CVoid)"

definition rejectCall :: "int \<times> dispatch_call" where
  "rejectCall = (17, CVoid)"

definition getLastCallFailCause :: "int \<times> dispatch_call" where
  "getLastCallFailCause = (18, CVoid)"

definition getSignalStrength :: "int \<times> dispatch_call" where
  "getSignalStrength = (19, CVoid)"

definition getVoiceRegistrationState :: "int \<times> dispatch_call" where
  "getVoiceRegistrationState = (20, CVoid)"

definition getDataRegistrationState :: "int \<times> dispatch_call" where
  "getDataRegistrationState = (21, CVoid)"

definition getOperator :: "int \<times> dispatch_call" where
  "getOperator = (22, CVoid)"

definition setRadioPower :: "bool \<Rightarrow> int \<times> dispatch_call" where
  "setRadioPower on = (23, CInts [BOOL_TO_INT on])"

definition sendDtmf :: "hidl_string \<Rightarrow> int \<times> dispatch_call" where
  "sendDtmf str = (24, CString (cstr_of str))"

definition sendSms :: "GsmSmsMessage \<Rightarrow> int \<times> dispatch_call" where
  "sendSms message = (25, CStrings False [cstr_of (smscPdu message), cstr_of (pdu message)])"

definition sendSMSExpectMore :: "GsmSmsMessage \<Rightarrow> int \<times> dispatch_call" where
  "sendSMSExpectMore message = (26, CStrings False [cstr_of (smscPdu message), cstr_of (pdu message)])"

definition sendUssd :: "hidl_string \<Rightarrow> int \<times> dispatch_call" where
  "sendUssd ussd = (29, CString (cstr_of ussd))"

definition cancelPendingUssd :: "int \<times> dispatch_call" where
  "cancelPendingUssd = (30, CVoid)"

definition getClir :: "int \<times> dispatch_call" where
  "getClir = (31, CVoid)"

definition setClir :: "int \<Rightarrow> int \<times> dispatch_call" where
  "setClir status = (32, CInts [status])"

definition getCallForwardStatus :: "CallForwardInfo \<Rightarrow> int \<times> dispatch_call" where
  "getCallForwardStatus callInfo = (33, CCallForward callInfo)"

definition setCallForward :: "CallForwardInfo \<Rightarrow> int \<times> dispatch_call" where
  "setCallForward callInfo = (34, CCallForward callInfo)"

definition getCallWaiting :: "int \<Rightarrow> int \<times> dispatch_call" where
  "getCallWaiting serviceClass = (35, CInts [serviceClass])"

definition setCallWaiting :: "bool \<Rightarrow> int \<Rightarrow> int \<times> dispatch_call" where
  "setCallWaiting enable serviceClass = (36, CInts [BOOL_TO_INT enable, serviceClass])"

definition acknowledgeLastIncomingGsmSms :: "bool \<Rightarrow> int \<Rightarrow> int \<times> dispatch_call" where
  "acknowledgeLastIncomingGsmSms success cause = (37, CInts [BOOL_TO_INT success, cause])"

definition acceptCall :: "int \<times> dispatch_call" where
  "acceptCall = (40, CVoid)"

definition deactivateDataCall :: "int \<Rightarrow> bool \<Rightarrow> int \<times> dispatch_call" where
  "deactivateDataCall cid reasonRadioShutDown = (41, CStrings False [to_string cid, flag_string reasonRadioShutDown])"

definition getFacilityLockForApp :: "hidl_string \<Rightarrow> hidl_string \<Rightarrow> int \<Rightarrow> hidl_string \<Rightarrow> int \<times> dispatch_call" where
  "getFacilityLockForApp facility password serviceClass appId = (42, CStrings True [cstr_of facility, cstr_of password, to_string serviceClass, cstr_of appId])"

definition setFacilityLockForApp :: "hidl_string \<Rightarrow> bool \<Rightarrow> hidl_string \<Rightarrow> int \<Rightarrow> hidl_string \<Rightarrow> int \<times> dispatch_call" where
  "setFacilityLockForApp facility lockState password serviceClass appId = (43, CStrings True [cstr_of facility, flag_string lockState, cstr_of password, to_string serviceClass, cstr_of appId])"

definition setBarringPassword :: "hidl_string \<Rightarrow> hidl_string \<Rightarrow> hidl_string \<Rightarrow> int \<times> dispatch_call" where
  "setBarringPassword facility oldPassword newPassword = (44, CStrings True [cstr_of facility, cstr_of oldPassword, cstr_of newPassword])"

definition getNetworkSelectionMode :: "int \<times> dispatch_call" where
  "getNetworkSelectionMode = (45, CVoid)"

definition setNetworkSelectionModeAutomatic :: "int \<times> dispatch_call" where
  "setNetworkSelectionModeAutomatic = (46, CVoid)"

definition setNetworkSelectionModeManual :: "hidl_string \<Rightarrow> int \<times> dispatch_call" where
  "setNetworkSelectionModeManual operatorNumeric = (47, CString (cstr_of operatorNumeric))"

definition getAvailableNetworks :: "int \<times> dispatch_call" where
  "getAvailableNetworks = (48, CVoid)"

definition stopNetworkScan :: "int \<times> dispatch_call" where
  "stopNetworkScan = (143, CVoid)"

definition startDtmf :: "hidl_string \<Rightarrow> int \<times> dispatch_call" where
  "startDtmf str = (49, CString (cstr_of str))"

definition stopDtmf :: "int \<times> dispatch_call" where
  "stopDtmf = (50, CVoid)"

definition getBasebandVersion :: "int \<times> dispatch_call" where
  "getBasebandVersion = (51, CVoid)"

definition separateConnection :: "int \<Rightarrow> int \<times> dispatch_call" where
  "separateConnection gsmIndex = (52, CInts [gsmIndex])"

definition setMute :: "bool \<Rightarrow> int \<times> dispatch_call" where
  "setMute enable = (53, CInts [BOOL_TO_INT enable])"

definition getMute :: "int \<times> dispatch_call" where
  "getMute = (54, CVoid)"

definition getClip :: "int \<times> dispatch_call" where
  "getClip = (55, CVoid)"

definition getDataCallList :: "int \<times> dispatch_call" where
  "getDataCallList = (57, CVoid)"

definition setSuppServiceNotifications :: "bool \<Rightarrow> int \<times> dispatch_call" where
  "setSuppServiceNotifications enable = (62, CInts [BOOL_TO_INT enable])"

definition deleteSmsOnSim :: "int \<Rightarrow> int \<times> dispatch_call" where
  "deleteSmsOnSim idx = (64, CInts [idx])"

definition setBandMode :: "int \<Rightarrow> int \<times> dispatch_call" where
  "setBandMode mode = (65, CInts [mode])"

definition getAvailableBandModes :: "int \<times> dispatch_call" where
  "getAvailableBandModes = (66, CVoid)"

definition sendEnvelope :: "hidl_string \<Rightarrow> int \<times> dispatch_call" where
  "sendEnvelope command = (69, CString (cstr_of command))"

definition sendTerminalResponseToSim :: "hidl_string \<Rightarrow> int \<times> dispatch_call" where
  "sendTerminalResponseToSim commandResponse = (70, CString (cstr_of commandResponse))"

definition handleStkCallSetupRequestFromSim :: "bool \<Rightarrow> int \<times> dispatch_call" where
  "handleStkCallSetupRequestFromSim accept = (71, CInts [BOOL_TO_INT accept])"

definition explicitCallTransfer :: "int \<times> dispatch_call" where
  "explicitCallTransfer = (72, CVoid)"

definition setPreferredNetworkType :: "int \<Rightarrow> int \<times> dispatch_call" where
  "setPreferredNetworkType nwType = (73, CInts [nwType])"

definition getPreferredNetworkType :: "int \<times> dispatch_call" where
  "getPreferredNetworkType = (74, CVoid)"

definition getNeighboringCids :: "int \<times> dispatch_call" where
  "getNeighboringCids = (75, CVoid)"

definition setLocationUpdates :: "bool \<Rightarrow> int \<times> dispatch_call" where
  "setLocationUpdates enable = (76, CInts [BOOL_TO_INT enable])"

definition setCdmaSubscriptionSource :: "int \<Rightarrow> int \<times> dispatch_call" where
  "setCdmaSubscriptionSource cdmaSub = (77, CInts [cdmaSub])"

definition setCdmaRoamingPreference :: "int \<Rightarrow> int \<times> dispatch_call" where
  "setCdmaRoamingPreference ty = (78, CInts [ty])"

definition getCdmaRoamingPreference :: "int \<times> dispatch_call" where
  "getCdmaRoamingPreference = (79, CVoid)"

definition setTTYMode :: "int \<Rightarrow> int \<times> dispatch_call" where
  "setTTYMode mode = (80, CInts [mode])"

definition getTTYMode :: "int \<times> dispatch_call" where
  "getTTYMode = (81, CVoid)"

definition setPreferredVoicePrivacy :: "bool \<Rightarrow> int \<times> dispatch_call" where
  "setPreferredVoicePrivacy enable = (82, CInts [BOOL_TO_INT enable])"

definition getPreferredVoicePrivacy :: "int \<times> dispatch_call" where
  "getPreferredVoicePrivacy = (83, CVoid)"

definition sendCDMAFeatureCode :: "hidl_string \<Rightarrow> int \<times> dispatch_call" where
  "sendCDMAFeatureCode featureCode = (84, CString (cstr_of featureCode))"

definition sendBurstDtmf :: "hidl_string \<Rightarrow> int \<Rightarrow> int \<Rightarrow> int \<times> dispatch_call" where
  "sendBurstDtmf dtmf on off = (85, CStrings False [cstr_of dtmf, to_string on, to_string off])"

definition getGsmBroadcastConfig :: "int \<times> dispatch_call" where
  "getGsmBroadcastConfig = (89, CVoid)"

definition setGsmBroadcastActivation :: "bool \<Rightarrow> int \<times> dispatch_call" where
  "setGsmBroadcastActivation activate = (91, CInts [BOOL_TO_INT (\<not> activate)])"

definition getCdmaBroadcastConfig :: "int \<times> dispatch_call" where
  "getCdmaBroadcastConfig = (92, CVoid)"

definition setCdmaBroadcastActivation :: "bool \<Rightarrow> int \<times> dispatch_call" where
  "setCdmaBroadcastActivation activate = (94, CInts [BOOL_TO_INT (\<not> activate)])"

definition getCDMASubscription :: "int \<times> dispatch_call" where
  "getCDMASubscription = (95, CVoid)"

definition deleteSmsOnRuim :: "int \<Rightarrow> int \<times> dispatch_call" where
  "deleteSmsOnRuim idx = (97, CInts [idx])"

definition getDeviceIdentity :: "int \<times> dispatch_call" where
  "getDeviceIdentity = (98, CVoid)"

definition exitEmergencyCallbackMode :: "int \<times> dispatch_call" where
  "exitEmergencyCallbackMode = (99, CVoid)"

definition getSmscAddress :: "int \<times> dispatch_call" where
  "getSmscAddress = (100, CVoid)"

definition setSmscAddress :: "hidl_string \<Rightarrow> int \<times> dispatch_call" where
  "setSmscAddress smsc = (101, CString (cstr_of smsc))"

definition reportSmsMemoryStatus :: "bool \<Rightarrow> int \<times> dispatch_call" where
  "reportSmsMemoryStatus available = (102, CInts [BOOL_TO_INT available])"

definition reportStkServiceIsRunning :: "int \<times> dispatch_call" where
  "reportStkServiceIsRunning = (103, CVoid)"

definition getCdmaSubscriptionSource :: "int \<times> dispatch_call" where
  "getCdmaSubscriptionSource = (104, CVoid)"

definition requestIsimAuthentication :: "hidl_string \<Rightarrow> int \<times> dispatch_call" where
  "requestIsimAuthentication challenge = (105, CString (cstr_of challenge))"

definition acknowledgeIncomingGsmSmsWithPdu :: "bool \<Rightarrow> hidl_string \<Rightarrow> int \<times> dispatch_call" where
  "acknowledgeIncomingGsmSmsWithPdu success ackPdu = (106, CStrings False [flag_string success, cstr_of ackPdu])"

definition sendEnvelopeWithStatus :: "hidl_string \<Rightarrow> int \<times> dispatch_call" where
  "sendEnvelopeWithStatus contents = (107, CString (cstr_of contents))"

definition getVoiceRadioTechnology :: "int \<times> dispatch_call" where
  "getVoiceRadioTechnology = (108, CVoid)"

definition getCellInfoList :: "int \<times> dispatch_call" where
  "getCellInfoList = (109, CVoid)"

definition setCellInfoListRate :: "int \<Rightarrow> int \<times> dispatch_call" where
  "setCellInfoListRate rate = (110, CInts [rate])"

definition getImsRegistrationState :: "int \<times> dispatch_call" where
  "getImsRegistrationState = (112, CVoid)"

definition iccTransmitApduBasicChannel :: "SimApdu \<Rightarrow> int \<times> dispatch_call" where
  "iccTransmitApduBasicChannel message = (114, CApdu message)"

definition iccCloseLogicalChannel :: "int \<Rightarrow> int \<times> dispatch_call" where
  "iccCloseLogicalChannel channelId = (116, CInts [channelId])"

definition iccTransmitApduLogicalChannel :: "SimApdu \<Rightarrow> int \<times> dispatch_call" where
  "iccTransmitApduLogicalChannel message = (117, CApdu message)"

definition nvWriteCdmaPrl :: "u8 list \<Rightarrow> int \<times> dispatch_call" where
  "nvWriteCdmaPrl prl = (120, CRaw prl)"

definition setDataAllowed :: "bool \<Rightarrow> int \<times> dispatch_call" where
  "setDataAllowed allow = (123, CInts [BOOL_TO_INT allow])"

definition getHardwareConfig :: "int \<times> dispatch_call" where
  "getHardwareConfig = (124, CVoid)"

definition requestShutdown :: "int \<times> dispatch_call" where
  "requestShutdown = (129, CVoid)"

definition getRadioCapability :: "int \<times> dispatch_call" where
  "getRadioCapability = (130, CVoid)"

definition startLceService :: "int \<Rightarrow> bool \<Rightarrow> int \<times> dispatch_call" where
  "startLceService reportInterval pullMode = (132, CInts [reportInterval, BOOL_TO_INT pullMode])"

definition stopLceService :: "int \<times> dispatch_call" where
  "stopLceService = (133, CVoid)"

definition pullLceData :: "int \<times> dispatch_call" where
  "pullLceData = (134, CVoid)"

definition getModemActivityInfo :: "int \<times> dispatch_call" where
  "getModemActivityInfo = (135, CVoid)"

definition getAllowedCarriers :: "int \<times> dispatch_call" where
  "getAllowedCarriers = (137, CVoid)"

definition setSimCardPower :: "bool \<Rightarrow> int \<times> dispatch_call" where
  "setSimCardPower powerUp = (140, CInts [BOOL_TO_INT powerUp])"

definition setSimCardPower_1_1 :: "int \<Rightarrow> int \<times> dispatch_call" where
  "setSimCardPower_1_1 state = (140, CInts [state])"

definition sendRequestRaw :: "u8 list \<Rightarrow> int \<times> dispatch_call" where
  "sendRequestRaw data = (59, CRaw data)"

definition sendRequestStrings :: "hidl_string list \<Rightarrow> int \<times> dispatch_call" where
  "sendRequestStrings data = (60, CStringVec data)"

lemmas radio_defs = getIccCardStatus_def
  supplyIccPinForApp_def
  supplyIccPukForApp_def
  supplyIccPin2ForApp_def
  supplyIccPuk2ForApp_def
  changeIccPinForApp_def
  changeIccPin2ForApp_def
  supplyNetworkDepersonalization_def
  getCurrentCalls_def
  getImsiForApp_def
  hangup_def
  hangupWaitingOrBackground_def
  hangupForegroundResumeBackground_def
  switchWaitingOrHoldingAndActive_def
  conference_def
  rejectCall_def
  getLastCallFailCause_def
  getSignalStrength_def
  getVoiceRegistrationState_def
  getDataRegistrationState_def
  getOperator_def
  setRadioPower_def
  sendDtmf_def
  sendSms_def
  sendSMSExpectMore_def
  sendUssd_def
  cancelPendingUssd_def
  getClir_def
  setClir_def
  getCallForwardStatus_def
  setCallForward_def
  getCallWaiting_def
  setCallWaiting_def
  acknowledgeLastIncomingGsmSms_def
  acceptCall_def
  deactivateDataCall_def
  getFacilityLockForApp_def
  setFacilityLockForApp_def
  setBarringPassword_def
  getNetworkSelectionMode_def
  setNetworkSelectionModeAutomatic_def
  setNetworkSelectionModeManual_def
  getAvailableNetworks_def
  stopNetworkScan_def
  startDtmf_def
  stopDtmf_def
  getBasebandVersion_def
  separateConnection_def
  setMute_def
  getMute_def
  getClip_def
  getDataCallList_def
  setSuppServiceNotifications_def
  deleteSmsOnSim_def
  setBandMode_def
  getAvailableBandModes_def
  sendEnvelope_def
  sendTerminalResponseToSim_def
  handleStkCallSetupRequestFromSim_def
  explicitCallTransfer_def
  setPreferredNetworkType_def
  getPreferredNetworkType_def
  getNeighboringCids_def
  setLocationUpdates_def
  setCdmaSubscriptionSource_def
  setCdmaRoamingPreference_def
  getCdmaRoamingPreference_def
  setTTYMode_def
  getTTYMode_def
  setPreferredVoicePrivacy_def
  getPreferredVoicePrivacy_def
  sendCDMAFeatureCode_def
  sendBurstDtmf_def
  getGsmBroadcastConfig_def
  setGsmBroadcastActivation_def
  getCdmaBroadcastConfig_def
  setCdmaBroadcastActivation_def
  getCDMASubscription_def
  deleteSmsOnRuim_def
  getDeviceIdentity_def
  exitEmergencyCallbackMode_def
  getSmscAddress_def
  setSmscAddress_def
  reportSmsMemoryStatus_def
  reportStkServiceIsRunning_def
  getCdmaSubscriptionSource_def
  requestIsimAuthentication_def
  acknowledgeIncomingGsmSmsWithPdu_def
  sendEnvelopeWithStatus_def
  getVoiceRadioTechnology_def
  getCellInfoList_def
  setCellInfoListRate_def
  getImsRegistrationState_def
  iccTransmitApduBasicChannel_def
  iccCloseLogicalChannel_def
  iccTransmitApduLogicalChannel_def
  nvWriteCdmaPrl_def
  setDataAllowed_def
  getHardwareConfig_def
  requestShutdown_def
  getRadioCapability_def
  startLceService_def
  stopLceService_def
  pullLceData_def
  getModemActivityInfo_def
  getAllowedCarriers_def
  setSimCardPower_def
  setSimCardPower_1_1_def
  sendRequestRaw_def
  sendRequestStrings_def

section \<open>Answers\<close>

text \<open>The requests of the methods and the functions that send their answers.\<close>

definition answers :: "(int \<times> string) list" where
  "answers =
    [(1, ''getIccCardStatusResponse''),
     (2, ''supplyIccPinForAppResponse''),
     (3, ''supplyIccPukForAppResponse''),
     (4, ''supplyIccPin2ForAppResponse''),
     (5, ''supplyIccPuk2ForAppResponse''),
     (6, ''changeIccPinForAppResponse''),
     (7, ''changeIccPin2ForAppResponse''),
     (8, ''supplyNetworkDepersonalizationResponse''),
     (9, ''getCurrentCallsResponse''),
     (11, ''getIMSIForAppResponse''),
     (12, ''hangupConnectionResponse''),
     (13, ''hangupWaitingOrBackgroundResponse''),
     (14, ''hangupForegroundResumeBackgroundResponse''),
     (15, ''switchWaitingOrHoldingAndActiveResponse''),
     (16, ''conferenceResponse''),
     (17, ''rejectCallResponse''),
     (18, ''getLastCallFailCauseResponse''),
     (19, ''getSignalStrengthResponse''),
     (20, ''getVoiceRegistrationStateResponse''),
     (21, ''getDataRegistrationStateResponse''),
     (22, ''getOperatorResponse''),
     (23, ''setRadioPowerResponse''),
     (24, ''sendDtmfResponse''),
     (25, ''sendSmsResponse''),
     (26, ''sendSMSExpectMoreResponse''),
     (29, ''sendUssdResponse''),
     (30, ''cancelPendingUssdResponse''),
     (31, ''getClirResponse''),
     (32, ''setClirResponse''),
     (33, ''getCallForwardStatusResponse''),
     (34, ''setCallForwardResponse''),
     (35, ''getCallWaitingResponse''),
     (36, ''setCallWaitingResponse''),
     (37, ''acknowledgeLastIncomingGsmSmsResponse''),
     (40, ''acceptCallResponse''),
     (41, ''deactivateDataCallResponse''),
     (42, ''getFacilityLockForAppResponse''),
     (43, ''setFacilityLockForAppResponse''),
     (44, ''setBarringPasswordResponse''),
     (45, ''getNetworkSelectionModeResponse''),
     (46, ''setNetworkSelectionModeAutomaticResponse''),
     (47, ''setNetworkSelectionModeManualResponse''),
     (48, ''getAvailableNetworksResponse''),
     (143, ''stopNetworkScanResponse''),
     (49, ''startDtmfResponse''),
     (50, ''stopDtmfResponse''),
     (51, ''getBasebandVersionResponse''),
     (52, ''separateConnectionResponse''),
     (53, ''setMuteResponse''),
     (54, ''getMuteResponse''),
     (55, ''getClipResponse''),
     (57, ''getDataCallListResponse''),
     (62, ''setSuppServiceNotificationsResponse''),
     (64, ''deleteSmsOnSimResponse''),
     (65, ''setBandModeResponse''),
     (66, ''getAvailableBandModesResponse''),
     (69, ''sendEnvelopeResponse''),
     (70, ''sendTerminalResponseToSimResponse''),
     (71, ''handleStkCallSetupRequestFromSimResponse''),
     (72, ''explicitCallTransferResponse''),
     (73, ''setPreferredNetworkTypeResponse''),
     (74, ''getPreferredNetworkTypeResponse''),
     (75, ''getNeighboringCidsResponse''),
     (76, ''setLocationUpdatesResponse''),
     (77, ''setCdmaSubscriptionSourceResponse''),
     (78, ''setCdmaRoamingPreferenceResponse''),
     (79, ''getCdmaRoamingPreferenceResponse''),
     (80, ''setTTYModeResponse''),
     (81, ''getTTYModeResponse''),
     (82, ''setPreferredVoicePrivacyResponse''),
     (83, ''getPreferredVoicePrivacyResponse''),
     (84, ''sendCDMAFeatureCodeResponse''),
     (85, ''sendBurstDtmfResponse''),
     (89, ''getGsmBroadcastConfigResponse''),
     (91, ''setGsmBroadcastActivationResponse''),
     (92, ''getCdmaBroadcastConfigResponse''),
     (94, ''setCdmaBroadcastActivationResponse''),
     (95, ''getCDMASubscriptionResponse''),
     (97, ''deleteSmsOnRuimResponse''),
     (98, ''getDeviceIdentityResponse''),
     (99, ''exitEmergencyCallbackModeResponse''),
     (100, ''getSmscAddressResponse''),
     (101, ''setSmscAddressResponse''),
     (102, ''reportSmsMemoryStatusResponse''),
     (103, ''reportStkServiceIsRunningResponse''),
     (104, ''getCdmaSubscriptionSourceResponse''),
     (105, ''requestIsimAuthenticationResponse''),
     (106, ''acknowledgeIncomingGsmSmsWithPduResponse''),
     (107, ''sendEnvelopeWithStatusResponse''),
     (108, ''getVoiceRadioTechnologyResponse''),
     (109, ''getCellInfoListResponse''),
     (110, ''setCellInfoListRateResponse''),
     (112, ''getImsRegistrationStateResponse''),
     (114, ''iccTransmitApduBasicChannelResponse''),
     (116, ''iccCloseLogicalChannelResponse''),
     (117, ''iccTransmitApduLogicalChannelResponse''),
     (120, ''nvWriteCdmaPrlResponse''),
     (123, ''setDataAllowedResponse''),
     (124, ''getHardwareConfigResponse''),
     (129, ''requestShutdownResponse''),
     (130, ''getRadioCapabilityResponse''),
     (132, ''startLceServiceResponse''),
     (133, ''stopLceServiceResponse''),
     (134, ''pullLceDataResponse''),
     (135, ''getModemActivityInfoResponse''),
     (137, ''getAllowedCarriersResponse''),
     (140, ''setSimCardPowerResponse''),
     (140, ''setSimCardPowerResponse''),
     (59, ''sendRequestRawResponse''),
     (60, ''sendRequestStringsResponse'')]"

lemma answers_ok: "list_all (\<lambda>(r, f). responseFunction r = Inr f) answers"
  by code_simp

text \<open>Requests and answers are paired: the request that a method of the radio interface makes is a valid
  index of the command table, and the function found there is the answer of that method (its name with
  \<^verbatim>\<open>Response\<close> but for three), so no completed call runs into a NULL answer function.\<close>

theorem radio_calls_answered:
  "list_all (\<lambda>(r, f). responseFunction r = Inr f)
    [(fst getIccCardStatus, ''getIccCardStatusResponse''),
     (fst (supplyIccPinForApp x x), ''supplyIccPinForAppResponse''),
     (fst (supplyIccPukForApp x x x), ''supplyIccPukForAppResponse''),
     (fst (supplyIccPin2ForApp x x), ''supplyIccPin2ForAppResponse''),
     (fst (supplyIccPuk2ForApp x x x), ''supplyIccPuk2ForAppResponse''),
     (fst (changeIccPinForApp x x x), ''changeIccPinForAppResponse''),
     (fst (changeIccPin2ForApp x x x), ''changeIccPin2ForAppResponse''),
     (fst (supplyNetworkDepersonalization x), ''supplyNetworkDepersonalizationResponse''),
     (fst getCurrentCalls, ''getCurrentCallsResponse''),
     (fst (getImsiForApp x), ''getIMSIForAppResponse''),
     (fst (hangup n), ''hangupConnectionResponse''),
     (fst hangupWaitingOrBackground, ''hangupWaitingOrBackgroundResponse''),
     (fst hangupForegroundResumeBackground, ''hangupForegroundResumeBackgroundResponse''),
     (fst switchWaitingOrHoldingAndActive, ''switchWaitingOrHoldingAndActiveResponse''),
     (fst conference, ''conferenceResponse''),
     (fst rejectCall, ''rejectCallResponse''),
     (fst getLastCallFailCause, ''getLastCallFailCauseResponse''),
     (fst getSignalStrength, ''getSignalStrengthResponse''),
     (fst getVoiceRegistrationState, ''getVoiceRegistrationStateResponse''),
     (fst getDataRegistrationState, ''getDataRegistrationStateResponse''),
     (fst getOperator, ''getOperatorResponse''),
     (fst (setRadioPower b), ''setRadioPowerResponse''),
     (fst (sendDtmf x), ''sendDtmfResponse''),
     (fst (sendSms g), ''sendSmsResponse''),
     (fst (sendSMSExpectMore g), ''sendSMSExpectMoreResponse''),
     (fst (sendUssd x), ''sendUssdResponse''),
     (fst cancelPendingUssd, ''cancelPendingUssdResponse''),
     (fst getClir, ''getClirResponse''),
     (fst (setClir n), ''setClirResponse''),
     (fst (getCallForwardStatus c), ''getCallForwardStatusResponse''),
     (fst (setCallForward c), ''setCallForwardResponse''),
     (fst (getCallWaiting n), ''getCallWaitingResponse''),
     (fst (setCallWaiting b n), ''setCallWaitingResponse''),
     (fst (acknowledgeLastIncomingGsmSms b n), ''acknowledgeLastIncomingGsmSmsResponse''),
     (fst acceptCall, ''acceptCallResponse''),
     (fst (deactivateDataCall n b), ''deactivateDataCallResponse''),
     (fst (getFacilityLockForApp x x n x), ''getFacilityLockForAppResponse''),
     (fst (setFacilityLockForApp x b x n x), ''setFacilityLockForAppResponse''),
     (fst (setBarringPassword x x x), ''setBarringPasswordResponse''),
     (fst getNetworkSelectionMode, ''getNetworkSelectionModeResponse''),
     (fst setNetworkSelectionModeAutomatic, ''setNetworkSelectionModeAutomaticResponse''),
     (fst (setNetworkSelectionModeManual x), ''setNetworkSelectionModeManualResponse''),
     (fst getAvailableNetworks, ''getAvailableNetworksResponse''),
     (fst stopNetworkScan, ''stopNetworkScanResponse''),
     (fst (startDtmf x), ''startDtmfResponse''),
     (fst stopDtmf, ''stopDtmfResponse''),
     (fst getBasebandVersion, ''getBasebandVersionResponse''),
     (fst (separateConnection n), ''separateConnectionResponse''),
     (fst (setMute b), ''setMuteResponse''),
     (fst getMute, ''getMuteResponse''),
     (fst getClip, ''getClipResponse''),
     (fst getDataCallList, ''getDataCallListResponse''),
     (fst (setSuppServiceNotifications b), ''setSuppServiceNotificationsResponse''),
     (fst (deleteSmsOnSim n), ''deleteSmsOnSimResponse''),
     (fst (setBandMode n), ''setBandModeResponse''),
     (fst getAvailableBandModes, ''getAvailableBandModesResponse''),
     (fst (sendEnvelope x), ''sendEnvelopeResponse''),
     (fst (sendTerminalResponseToSim x), ''sendTerminalResponseToSimResponse''),
     (fst (handleStkCallSetupRequestFromSim b), ''handleStkCallSetupRequestFromSimResponse''),
     (fst explicitCallTransfer, ''explicitCallTransferResponse''),
     (fst (setPreferredNetworkType n), ''setPreferredNetworkTypeResponse''),
     (fst getPreferredNetworkType, ''getPreferredNetworkTypeResponse''),
     (fst getNeighboringCids, ''getNeighboringCidsResponse''),
     (fst (setLocationUpdates b), ''setLocationUpdatesResponse''),
     (fst (setCdmaSubscriptionSource n), ''setCdmaSubscriptionSourceResponse''),
     (fst (setCdmaRoamingPreference n), ''setCdmaRoamingPreferenceResponse''),
     (fst getCdmaRoamingPreference, ''getCdmaRoamingPreferenceResponse''),
     (fst (setTTYMode n), ''setTTYModeResponse''),
     (fst getTTYMode, ''getTTYModeResponse''),
     (fst (setPreferredVoicePrivacy b), ''setPreferredVoicePrivacyResponse''),
     (fst getPreferredVoicePrivacy, ''getPreferredVoicePrivacyResponse''),
     (fst (sendCDMAFeatureCode x), ''sendCDMAFeatureCodeResponse''),
     (fst (sendBurstDtmf x n n), ''sendBurstDtmfResponse''),
     (fst getGsmBroadcastConfig, ''getGsmBroadcastConfigResponse''),
     (fst (setGsmBroadcastActivation b), ''setGsmBroadcastActivationResponse''),
     (fst getCdmaBroadcastConfig, ''getCdmaBroadcastConfigResponse''),
     (fst (setCdmaBroadcastActivation b), ''setCdmaBroadcastActivationResponse''),
     (fst getCDMASubscription, ''getCDMASubscriptionResponse''),
     (fst (deleteSmsOnRuim n), ''deleteSmsOnRuimResponse''),
     (fst getDeviceIdentity, ''getDeviceIdentityResponse''),
     (fst exitEmergencyCallbackMode, ''exitEmergencyCallbackModeResponse''),
     (fst getSmscAddress, ''getSmscAddressResponse''),
     (fst (setSmscAddress x), ''setSmscAddressResponse''),
     (fst (reportSmsMemoryStatus b), ''reportSmsMemoryStatusResponse''),
     (fst reportStkServiceIsRunning, ''reportStkServiceIsRunningResponse''),
     (fst getCdmaSubscriptionSource, ''getCdmaSubscriptionSourceResponse''),
     (fst (requestIsimAuthentication x), ''requestIsimAuthenticationResponse''),
     (fst (acknowledgeIncomingGsmSmsWithPdu b x), ''acknowledgeIncomingGsmSmsWithPduResponse''),
     (fst (sendEnvelopeWithStatus x), ''sendEnvelopeWithStatusResponse''),
     (fst getVoiceRadioTechnology, ''getVoiceRadioTechnologyResponse''),
     (fst getCellInfoList, ''getCellInfoListResponse''),
     (fst (setCellInfoListRate n), ''setCellInfoListRateResponse''),
     (fst getImsRegistrationState, ''getImsRegistrationStateResponse''),
     (fst (iccTransmitApduBasicChannel a), ''iccTransmitApduBasicChannelResponse''),
     (fst (iccCloseLogicalChannel n), ''iccCloseLogicalChannelResponse''),
     (fst (iccTransmitApduLogicalChannel a), ''iccTransmitApduLogicalChannelResponse''),
     (fst (nvWriteCdmaPrl x), ''nvWriteCdmaPrlResponse''),
     (fst (setDataAllowed b), ''setDataAllowedResponse''),
     (fst getHardwareConfig, ''getHardwareConfigResponse''),
     (fst requestShutdown, ''requestShutdownResponse''),
     (fst getRadioCapability, ''getRadioCapabilityResponse''),
     (fst (startLceService n b), ''startLceServiceResponse''),
     (fst stopLceService, ''stopLceServiceResponse''),
     (fst pullLceData, ''pullLceDataResponse''),
     (fst getModemActivityInfo, ''getModemActivityInfoResponse''),
     (fst getAllowedCarriers, ''getAllowedCarriersResponse''),
     (fst (setSimCardPower b), ''setSimCardPowerResponse''),
     (fst (setSimCardPower_1_1 n), ''setSimCardPowerResponse''),
     (fst (sendRequestRaw x), ''sendRequestRawResponse''),
     (fst (sendRequestStrings xs), ''sendRequestStringsResponse'')]"
  using answers_ok by (simp only: answers_def radio_defs fst_conv)

end
