(* ===== verification/Sensor_Queue.thy ===== *)
theory Sensor_Queue
  imports Prelude "HOL-Library.Signed_Division"
begin

text \<open>
  The event queue between one sensor sub-HAL and the multiplexer,
  \<^verbatim>\<open>sensors/SensorEventQueue.cpp\<close>: a circular buffer whose writer fills a region of the array while
  the reader takes events out. The queue refines a bounded first-in first-out list; what its two users
  rely on is the locale \<open>shared_fifo\<close>.
\<close>

section \<open>The queue\<close>

text \<open>The condition variable is the number of broadcasts on it so far: a thread that began to wait at
  number \<open>c\<close> has been woken once the number differs from \<open>c\<close>. A pointer into the array is an index.\<close>

record 'e SensorEventQueue =
  mCapacity :: int
  mStart :: int
  mSize :: int
  mData :: "'e list"
  mSpaceAvailableCondition :: nat

text \<open>\<^verbatim>\<open>new sensors_event_t[mCapacity]\<close> leaves the array uninitialised; \<open>junk\<close> is what it holds.\<close>

definition new_SensorEventQueue :: "(nat \<Rightarrow> 'e) \<Rightarrow> int \<Rightarrow> 'e SensorEventQueue" where
  "new_SensorEventQueue junk capacity =
     \<lparr>mCapacity = capacity, mStart = 0, mSize = 0, mData = map junk [0..<nat capacity],
      mSpaceAvailableCondition = 0\<rparr>"

definition getWritableRegion :: "'e SensorEventQueue \<Rightarrow> int \<Rightarrow> int \<times> int option" where
  "getWritableRegion q requestedLength =
     (if mSize q = mCapacity q \<or> requestedLength \<le> 0 then (0, None)
      else let
        firstWritable = (mStart q + mSize q) smod mCapacity q;
        lastWritable = firstWritable + requestedLength - 1;
        lastWritable = (if lastWritable > mCapacity q - 1 then mCapacity q - 1 else lastWritable);
        lastWritable = (if firstWritable < mStart q \<and> lastWritable \<ge> mStart q then mStart q - 1
                        else lastWritable)
      in (lastWritable - firstWritable + 1, Some firstWritable))"

definition markAsWritten :: "int \<Rightarrow> 'e SensorEventQueue \<Rightarrow> 'e SensorEventQueue" where
  "markAsWritten count q = q\<lparr>mSize := mSize q + count\<rparr>"

definition getSize :: "'e SensorEventQueue \<Rightarrow> int" where
  "getSize q = mSize q"

definition peek :: "'e SensorEventQueue \<Rightarrow> int option" where
  "peek q = (if mSize q = 0 then None else Some (mStart q))"

definition dequeue :: "'e SensorEventQueue \<Rightarrow> 'e SensorEventQueue" where
  "dequeue q =
     (if mSize q = 0 then q
      else let q = (if mSize q = mCapacity q
                    then q\<lparr>mSpaceAvailableCondition := mSpaceAvailableCondition q + 1\<rparr> else q)
      in q\<lparr>mSize := mSize q - 1, mStart := (mStart q + 1) smod mCapacity q\<rparr>)"

text \<open>One test of the loop of \<^verbatim>\<open>waitForSpace\<close>: whether the caller sleeps on the condition variable.\<close>

definition waitForSpace_sleeps :: "'e SensorEventQueue \<Rightarrow> bool" where
  "waitForSpace_sleeps q \<longleftrightarrow> mSize q = mCapacity q"

text \<open>What the driver does to the array through the pointer it was handed.\<close>

definition store_events :: "int \<Rightarrow> 'e list \<Rightarrow> 'e SensorEventQueue \<Rightarrow> 'e SensorEventQueue" where
  "store_events p es q =
     q\<lparr>mData := take (nat p) (mData q) @ es @ drop (nat p + length es) (mData q)\<rparr>"

definition region_events :: "int \<Rightarrow> nat \<Rightarrow> 'e SensorEventQueue \<Rightarrow> 'e list" where
  "region_events p k q = take k (drop (nat p) (mData q))"

definition peeked :: "'e SensorEventQueue \<Rightarrow> 'e option" where
  "peeked q = (case peek q of None \<Rightarrow> None | Some i \<Rightarrow> Some (mData q ! nat i))"

section \<open>Abstraction\<close>

definition queue_inv :: "'e SensorEventQueue \<Rightarrow> bool" where
  "queue_inv q \<longleftrightarrow> 0 < mCapacity q \<and> 0 \<le> mStart q \<and> mStart q < mCapacity q \<and> 0 \<le> mSize q \<and>
     mSize q \<le> mCapacity q \<and> length (mData q) = nat (mCapacity q)"

definition contents :: "'e SensorEventQueue \<Rightarrow> 'e list" where
  "contents q = map (\<lambda>i. mData q ! nat ((mStart q + int i) mod mCapacity q)) [0..<nat (mSize q)]"

text \<open>A region the writer holds: it starts right behind the readable events, lies inside the array
  and does not reach round to them.\<close>

definition region_free :: "'e SensorEventQueue \<Rightarrow> int \<Rightarrow> int \<Rightarrow> bool" where
  "region_free q p n \<longleftrightarrow> p = (mStart q + mSize q) mod mCapacity q \<and> 0 \<le> n \<and> p + n \<le> mCapacity q \<and>
     n \<le> mCapacity q - mSize q"

lemma smod_nonneg: "0 \<le> a \<Longrightarrow> 0 < b \<Longrightarrow> a smod b = a mod (b::int)"
  by (simp add: signed_modulo_int_def sgn_if)

lemma length_contents [simp]: "length (contents q) = nat (mSize q)"
  by (simp add: contents_def)

lemma nth_contents: "i < nat (mSize q) \<Longrightarrow>
  contents q ! i = mData q ! nat ((mStart q + int i) mod mCapacity q)"
  by (simp add: contents_def)

text \<open>Wrap-around of an offset that is less than the capacity.\<close>

lemma wrap_offset: "0 \<le> s \<Longrightarrow> s < c \<Longrightarrow> 0 \<le> i \<Longrightarrow> i \<le> c \<Longrightarrow>
  (s + i) mod c = (if s + i < c then s + i else s + i - (c::int))"
  using mod_pos_pos_trivial [of "s + i - c" c] by (simp add: mod_pos_pos_trivial)

lemma queue_inv_new: "0 < capacity \<Longrightarrow> queue_inv (new_SensorEventQueue junk capacity)"
  by (simp add: queue_inv_def new_SensorEventQueue_def)

lemma contents_new: "contents (new_SensorEventQueue junk capacity) = []"
  by (simp add: contents_def new_SensorEventQueue_def)

section \<open>The writer's region\<close>

lemma getWritableRegion_free:
  assumes "queue_inv q" "\<not> waitForSpace_sleeps q" "0 < requestedLength"
  shows "\<exists>n p. getWritableRegion q requestedLength = (n, Some p) \<and> region_free q p n \<and>
    n = min requestedLength (min (mCapacity q - p) (mCapacity q - mSize q)) \<and> 0 < n"
proof -
  from assms have q: "0 \<le> mStart q" "mStart q < mCapacity q" "0 \<le> mSize q" "mSize q < mCapacity q"
    by (auto simp: queue_inv_def waitForSpace_sleeps_def)
  from q have "(mStart q + mSize q) smod mCapacity q =
    (if mStart q + mSize q < mCapacity q then mStart q + mSize q else mStart q + mSize q - mCapacity q)"
    by (simp add: smod_nonneg wrap_offset)
  with q assms(3) show ?thesis
    by (auto simp: getWritableRegion_def region_free_def Let_def wrap_offset min_def)
qed

lemma getWritableRegion_none:
  "waitForSpace_sleeps q \<or> requestedLength \<le> 0 \<Longrightarrow> getWritableRegion q requestedLength = (0, None)"
  by (auto simp: getWritableRegion_def waitForSpace_sleeps_def)

text \<open>The cells the reader looks at are outside the region.\<close>

lemma readable_outside:
  assumes "queue_inv q" "region_free q p n" "i < nat (mSize q)"
  shows "nat ((mStart q + int i) mod mCapacity q) < nat p \<or>
         nat (p + n) \<le> nat ((mStart q + int i) mod mCapacity q)"
    "nat ((mStart q + int i) mod mCapacity q) < length (mData q)"
  using assms by (auto simp: queue_inv_def region_free_def wrap_offset split: if_splits)

lemma nth_spliced: "j < p \<or> p + length es \<le> j \<Longrightarrow> p + length es \<le> length xs \<Longrightarrow> j < length xs \<Longrightarrow>
  (take p xs @ es @ drop (p + length es) xs) ! j = xs ! j"
  by (auto simp: nth_append)

lemma store_events_simps [simp]:
  "mSize (store_events p es q) = mSize q" "mStart (store_events p es q) = mStart q"
  "mCapacity (store_events p es q) = mCapacity q"
  "mSpaceAvailableCondition (store_events p es q) = mSpaceAvailableCondition q"
  "region_free (store_events p es q) p' n = region_free q p' n"
  "waitForSpace_sleeps (store_events p es q) = waitForSpace_sleeps q"
  by (simp_all add: store_events_def region_free_def waitForSpace_sleeps_def)

lemma region_bounds:
  assumes "queue_inv q" "region_free q p n" "length es \<le> nat n"
  shows "nat p + length es \<le> length (mData q)" "0 \<le> p"
  using assms by (auto simp: queue_inv_def region_free_def)

lemma queue_inv_store: "queue_inv q \<Longrightarrow> region_free q p n \<Longrightarrow> length es \<le> nat n \<Longrightarrow>
  queue_inv (store_events p es q)"
  using region_bounds [of q p n es] by (auto simp: queue_inv_def store_events_def)

lemma contents_store:
  assumes "queue_inv q" "region_free q p n" "length es \<le> nat n"
  shows "contents (store_events p es q) = contents q"
proof (rule nth_equalityI)
  fix i assume i: "i < length (contents (store_events p es q))"
  then have i': "i < nat (mSize q)" by simp
  have n: "nat p + length es \<le> nat (p + n)"
    using assms(3) region_bounds(2)[OF assms] assms(2) by (auto simp: region_free_def)
  show "contents (store_events p es q) ! i = contents q ! i"
    using readable_outside[OF assms(1,2) i'] region_bounds(1)[OF assms] n i'
    by (auto simp: nth_contents store_events_def intro!: nth_spliced)
qed simp

lemma region_events_store:
  assumes "queue_inv q" "region_free q p n" "length es \<le> nat n"
  shows "region_events p (length es) (store_events p es q) = es"
  using region_bounds(1)[OF assms] by (simp add: region_events_def store_events_def min_def)

lemma length_region_events:
  assumes "queue_inv q" "region_free q p n" "k \<le> nat n"
  shows "length (region_events p k q) = k"
  using region_bounds(1)[OF assms(1,2), of "replicate k undefined"] assms(3)
  by (simp add: region_events_def)

section \<open>Marking and taking\<close>

lemma contents_mark:
  assumes q: "queue_inv q" "region_free q p n" and k: "k \<le> nat n"
  shows "contents (markAsWritten (int k) q) = contents q @ region_events p k q"
    and "queue_inv (markAsWritten (int k) q)"
proof -
  show "queue_inv (markAsWritten (int k) q)"
    using q k by (auto simp: queue_inv_def region_free_def markAsWritten_def)
  have sz: "nat (mSize q + int k) = nat (mSize q) + k" using q by (simp add: queue_inv_def nat_add_distrib)
  have cell: "mData q ! nat ((mStart q + int i) mod mCapacity q) = region_events p k q ! (i - nat (mSize q))"
    if i: "nat (mSize q) \<le> i" "i < nat (mSize q) + k" for i
  proof -
    define j where "j = i - nat (mSize q)"
    have ij: "int i = mSize q + int j" using i q by (simp add: j_def queue_inv_def)
    have j: "j < k" using i by (simp add: j_def)
    have "(mStart q + int i) mod mCapacity q = (p + int j) mod mCapacity q"
      using q(2) unfolding region_free_def ij by (metis add.assoc mod_add_left_eq)
    moreover have "0 \<le> p" "p + int j < mCapacity q" using q k j by (auto simp: region_free_def queue_inv_def)
    ultimately show ?thesis
      using q j region_bounds(1)[OF q, of "replicate k undefined"] k
      by (simp add: region_events_def j_def [symmetric] nat_add_distrib mod_pos_pos_trivial)
  qed
  show "contents (markAsWritten (int k) q) = contents q @ region_events p k q"
    by (rule nth_equalityI)
      (use cell length_region_events[OF q k] in \<open>auto simp: nth_append nth_contents markAsWritten_def sz\<close>)
qed

lemma peeked_contents: "queue_inv q \<Longrightarrow>
  peeked q = (case contents q of [] \<Rightarrow> None | e # es \<Rightarrow> Some e)"
proof -
  assume q: "queue_inv q"
  show ?thesis
  proof (cases "contents q")
    case Nil
    then have "nat (mSize q) = 0" by (simp flip: length_contents)
    with q Nil show ?thesis by (simp add: peeked_def peek_def queue_inv_def)
  next
    case (Cons e es)
    then have "length (contents q) = Suc (length es)" by simp
    then have "0 < mSize q" by simp
    moreover from this have "e = mData q ! nat (mStart q mod mCapacity q)"
      using nth_contents[of 0 q] Cons by simp
    ultimately show ?thesis using q Cons by (simp add: peeked_def peek_def queue_inv_def)
  qed
qed

lemma dequeue_simps [simp]: "mCapacity (dequeue q) = mCapacity q" "mData (dequeue q) = mData q"
  by (simp_all add: dequeue_def Let_def)

lemma mSize_dequeue: "mSize q \<noteq> 0 \<Longrightarrow> mSize (dequeue q) = mSize q - 1"
  by (simp add: dequeue_def Let_def)

lemma mStart_dequeue: "queue_inv q \<Longrightarrow> mSize q \<noteq> 0 \<Longrightarrow> mStart (dequeue q) = (mStart q + 1) mod mCapacity q"
  by (simp add: dequeue_def Let_def smod_nonneg queue_inv_def)

lemma queue_inv_dequeue: "queue_inv q \<Longrightarrow> queue_inv (dequeue q)"
proof (cases "mSize q = 0")
  case True
  then show "queue_inv q \<Longrightarrow> ?thesis" by (simp add: dequeue_def)
next
  case False
  assume "queue_inv q"
  with False show ?thesis
    by (simp add: queue_inv_def mSize_dequeue mStart_dequeue[OF \<open>queue_inv q\<close> False])
qed

lemma contents_dequeue: "queue_inv q \<Longrightarrow> contents (dequeue q) = tl (contents q)"
proof (cases "mSize q = 0")
  case True
  then show ?thesis by (simp add: dequeue_def contents_def)
next
  case False
  assume q: "queue_inv q"
  show ?thesis
  proof (rule nth_equalityI)
    show "length (contents (dequeue q)) = length (tl (contents q))"
      using q False by (simp add: mSize_dequeue)
    fix i assume "i < length (contents (dequeue q))"
    then have i: "i < nat (mSize q) - 1" using False q by (auto simp: mSize_dequeue queue_inv_def)
    have "((mStart q + 1) mod mCapacity q + int i) mod mCapacity q = (mStart q + int (Suc i)) mod mCapacity q"
      by (metis add.assoc add.commute mod_add_left_eq of_nat_Suc)
    with i False q show "contents (dequeue q) ! i = tl (contents q) ! i"
      by (simp add: nth_contents nth_tl mStart_dequeue mSize_dequeue)
  qed
qed

text \<open>A region that is being written stays the writer's while the reader takes events out.\<close>

lemma region_free_dequeue: "queue_inv q \<Longrightarrow> region_free q p n \<Longrightarrow> region_free (dequeue q) p n"
proof (cases "mSize q = 0")
  case True
  then show "region_free q p n \<Longrightarrow> ?thesis" by (simp add: dequeue_def)
next
  case False
  assume q: "queue_inv q" "region_free q p n"
  have "((mStart q + 1) mod mCapacity q + (mSize q - 1)) mod mCapacity q = (mStart q + mSize q) mod mCapacity q"
    by (metis add.assoc add.commute add_diff_cancel_left' diff_add_cancel mod_add_left_eq)
  with q False show ?thesis by (simp add: region_free_def mSize_dequeue mStart_dequeue)
qed

text \<open>A sleeping writer is woken by the first event that is taken out of a full queue.\<close>

lemma dequeue_wakes: "queue_inv q \<Longrightarrow> waitForSpace_sleeps q \<Longrightarrow>
  mSpaceAvailableCondition (dequeue q) = mSpaceAvailableCondition q + 1"
  by (auto simp: dequeue_def waitForSpace_sleeps_def queue_inv_def Let_def)

lemma dequeue_condition_mono: "mSpaceAvailableCondition q \<le> mSpaceAvailableCondition (dequeue q)"
  by (simp add: dequeue_def Let_def)

section \<open>What the writer and the reader rely on\<close>

text \<open>A queue shared by one writer, who fills a region it holds and then marks a part of it as
  written, and one reader. \<open>put\<close> may happen at any time between the two, also between the reader's
  steps.\<close>

locale shared_fifo =
  fixes inv :: "'q \<Rightarrow> bool" and cont :: "'q \<Rightarrow> 'e list" and held :: "'q \<Rightarrow> int \<Rightarrow> int \<Rightarrow> bool"
    and put :: "int \<Rightarrow> 'e list \<Rightarrow> 'q \<Rightarrow> 'q" and written :: "int \<Rightarrow> nat \<Rightarrow> 'q \<Rightarrow> 'e list"
    and mark :: "int \<Rightarrow> 'q \<Rightarrow> 'q" and take_one :: "'q \<Rightarrow> 'q" and first :: "'q \<Rightarrow> 'e option"
  assumes put_keeps: "inv q \<Longrightarrow> held q p n \<Longrightarrow> length es \<le> nat n \<Longrightarrow>
      inv (put p es q) \<and> cont (put p es q) = cont q \<and> held (put p es q) p n \<and>
      written p (length es) (put p es q) = es"
    and mark_appends: "inv q \<Longrightarrow> held q p n \<Longrightarrow> k \<le> nat n \<Longrightarrow>
      inv (mark (int k) q) \<and> cont (mark (int k) q) = cont q @ written p k q"
    and take_one_tl: "inv q \<Longrightarrow> inv (take_one q) \<and> cont (take_one q) = tl (cont q)"
    and take_one_held: "inv q \<Longrightarrow> held q p n \<Longrightarrow> held (take_one q) p n"
    and first_cont: "inv q \<Longrightarrow> first q = (case cont q of [] \<Rightarrow> None | e # es \<Rightarrow> Some e)"
begin

lemma take_many: "inv q \<Longrightarrow> inv ((take_one ^^ k) q) \<and> cont ((take_one ^^ k) q) = drop k (cont q) \<and>
  (held q p n \<longrightarrow> held ((take_one ^^ k) q) p n)"
  by (induction k) (auto simp: take_one_tl take_one_held drop_Suc tl_drop)

lemma deliver: "inv q \<Longrightarrow> held q p n \<Longrightarrow> length es \<le> nat n \<Longrightarrow>
  cont (mark (int (length es)) (put p es ((take_one ^^ k) q))) = drop k (cont q) @ es"
  using take_many [of q k p n] put_keeps [of "(take_one ^^ k) q" p n es]
    mark_appends [of "put p es ((take_one ^^ k) q)" p n "length es"] by simp

lemma first_None: "inv q \<Longrightarrow> first q = None \<longleftrightarrow> cont q = []"
  by (simp add: first_cont split: list.split)

lemma first_Some: "inv q \<Longrightarrow> first q = Some e \<Longrightarrow> cont q = e # cont (take_one q)"
  by (simp add: first_cont take_one_tl split: list.splits)

end

text \<open>The sleeping writer's side: the number of broadcasts grows at the first event taken out of a full
  queue.\<close>

locale waking_fifo = shared_fifo +
  fixes full :: "'a \<Rightarrow> bool" and signals :: "'a \<Rightarrow> nat"
  assumes wakes: "inv q \<Longrightarrow> full q \<Longrightarrow> signals q < signals (take_one q)"
    and signals_mono: "signals q \<le> signals (take_one q)"
begin

lemma signals_mono_many: "signals q \<le> signals ((take_one ^^ k) q)"
  by (induction k) (auto intro: le_trans signals_mono)

lemma full_until_signalled: "inv q \<Longrightarrow> full q \<Longrightarrow> signals ((take_one ^^ k) q) = signals q \<Longrightarrow> k = 0"
proof (cases k)
  case (Suc j)
  assume q: "inv q" "full q" and eq: "signals ((take_one ^^ k) q) = signals q"
  have "signals (take_one q) \<le> signals ((take_one ^^ j) (take_one q))" by (rule signals_mono_many)
  with wakes [OF q] eq Suc show ?thesis by (simp add: funpow_swap1)
qed

end

interpretation seq: shared_fifo queue_inv contents region_free store_events region_events markAsWritten
  dequeue peeked
  by unfold_locales
    (auto simp: queue_inv_store contents_store region_events_store contents_mark queue_inv_dequeue
      contents_dequeue region_free_dequeue peeked_contents)

interpretation seq: waking_fifo queue_inv contents region_free store_events region_events markAsWritten
  dequeue peeked waitForSpace_sleeps mSpaceAvailableCondition
  by unfold_locales (auto simp: dequeue_wakes dequeue_condition_mono)

end
