(* ===== verification/Multihal.thy ===== *)
theory Multihal
  imports Sensor_Queue Complex_Main
begin

text \<open>
  The sensor multiplexer \<^verbatim>\<open>sensors/multihal.cpp\<close>: it loads the sub-HALs named in a configuration file,
  numbers all their sensors with global handles, fans the calls of the framework out to the sub-HALs'
  devices and merges their events. This theory holds the model and the lemmas on handles, routing and
  the scan of the queues; the interleaving of the writer threads with the reader is in
  \<open>Multihal_Threads\<close>.
\<close>

section \<open>Sensors and events\<close>

text \<open>The structures come from \<^verbatim>\<open>hardware/sensors.h\<close>; these are the members the sources name. The
  tags of the types are named, not numbered, and the two flag bits are the argument \<open>flag_bits\<close>.\<close>

datatype sensor_type = SENSOR_TYPE_META_DATA | SENSOR_TYPE_PROXIMITY | SENSOR_TYPE_TILT_DETECTOR
  | SENSOR_TYPE_DYNAMIC_SENSOR_META | SENSOR_TYPE_other int

record flag_bits =
  SENSOR_FLAG_WAKE_UP :: u32
  SENSOR_FLAG_ON_CHANGE_MODE :: u32

record sensor_t =
  s_name :: string
  handle :: int
  s_type :: sensor_type
  maxRange :: real
  flags :: u32
  fifoReservedEventCount :: u32
  fifoMaxEventCount :: u32

record sensors_event_t =
  sensor :: int
  e_type :: sensor_type
  meta_data_sensor :: int
  dynamic_connected :: bool
  dynamic_handle :: int
  dynamic_sensor :: "sensor_t option"
  e_data :: "u8 list"

section \<open>Handles\<close>

datatype FullHandle = FullHandle (moduleIndex: int) (localHandle: int)

lemma FullHandle_eq_iff: "f = g \<longleftrightarrow> moduleIndex f = moduleIndex g \<and> localHandle f = localHandle g"
  by (cases f; cases g) simp

text \<open>\<^verbatim>\<open>operator<\<close> orders the handles, so that \<^verbatim>\<open>std::map\<close> keeps one entry per handle.\<close>

instantiation FullHandle :: linorder
begin

definition less_FullHandle :: "FullHandle \<Rightarrow> FullHandle \<Rightarrow> bool" where
  "less_FullHandle this that \<longleftrightarrow>
     (if moduleIndex this < moduleIndex that then True
      else if moduleIndex this > moduleIndex that then False
      else localHandle this < localHandle that)"

definition less_eq_FullHandle :: "FullHandle \<Rightarrow> FullHandle \<Rightarrow> bool" where
  "less_eq_FullHandle this that \<longleftrightarrow> this < that \<or> this = that"

instance
  by standard (auto simp: less_FullHandle_def less_eq_FullHandle_def FullHandle_eq_iff split: if_splits)

end

text \<open>The static state of the module.\<close>

record 'm multihal =
  sub_hw_modules :: "'m list option"
  global_to_full :: "int \<rightharpoonup> FullHandle"
  full_to_global :: "FullHandle \<rightharpoonup> int"
  next_global_handle :: int
  global_sensors_list :: "sensor_t list option"
  global_sensors_count :: int

definition multihal_loaded :: "'m multihal" where
  "multihal_loaded = \<lparr>sub_hw_modules = None, global_to_full = Map.empty, full_to_global = Map.empty,
     next_global_handle = 1, global_sensors_list = None, global_sensors_count = -1\<rparr>"

definition assign_global_handle :: "int \<Rightarrow> int \<Rightarrow> 'm multihal \<Rightarrow> int \<times> 'm multihal" where
  "assign_global_handle module_index local_handle s =
     (let global_handle = next_global_handle s; full_handle = FullHandle module_index local_handle
      in (global_handle,
          s\<lparr>next_global_handle := next_global_handle s + 1,
            full_to_global := (full_to_global s)(full_handle \<mapsto> global_handle),
            global_to_full := (global_to_full s)(global_handle \<mapsto> full_handle)\<rparr>))"

definition get_local_handle :: "'m multihal \<Rightarrow> int \<Rightarrow> int" where
  "get_local_handle s global_handle =
     (case global_to_full s global_handle of None \<Rightarrow> -1 | Some f \<Rightarrow> localHandle f)"

definition get_module_index :: "'m multihal \<Rightarrow> int \<Rightarrow> int" where
  "get_module_index s global_handle =
     (case global_to_full s global_handle of None \<Rightarrow> -1 | Some f \<Rightarrow> moduleIndex f)"

definition get_global_handle :: "'m multihal \<Rightarrow> FullHandle \<Rightarrow> int" where
  "get_global_handle s full_handle =
     (case full_to_global s full_handle of None \<Rightarrow> -1 | Some g \<Rightarrow> g)"

section \<open>Loading the sub-HALs\<close>

definition MULTI_HAL_CONFIG_FILE_PATH :: string where
  "MULTI_HAL_CONFIG_FILE_PATH = ''/vendor/etc/sensors/_hals.conf''"

definition DEPRECATED_MULTI_HAL_CONFIG_FILE_PATH :: string where
  "DEPRECATED_MULTI_HAL_CONFIG_FILE_PATH = ''/system/etc/sensors/_hals.conf''"

text \<open>\<^verbatim>\<open>std::getline\<close> until it fails: lines end at a newline, the last one perhaps at the end of the
  file, and nothing is read behind a final newline.\<close>

function getlines :: "string \<Rightarrow> string list" where
  "getlines [] = []"
| "getlines (c # cs) =
     takeWhile (\<lambda>x. x \<noteq> CHR 0x0A) (c # cs) #
     getlines (drop 1 (dropWhile (\<lambda>x. x \<noteq> CHR 0x0A) (c # cs)))"
  by pat_completeness auto
termination
proof (relation "measure length")
  fix c :: char and cs
  show "(drop 1 (dropWhile (\<lambda>x. x \<noteq> CHR 0x0A) (c # cs)), c # cs) \<in> measure length"
    using length_dropWhile_le [of "\<lambda>x. x \<noteq> CHR 0x0A" "c # cs"] by (auto simp: le_Suc_eq less_Suc_eq_le)
qed simp

text \<open>\<open>files\<close> gives the contents of the files that can be opened.\<close>

definition get_so_paths :: "(string \<rightharpoonup> string) \<Rightarrow> string list" where
  "get_so_paths files =
     (case files MULTI_HAL_CONFIG_FILE_PATH of Some stream \<Rightarrow> getlines stream
      | None \<Rightarrow> (case files DEPRECATED_MULTI_HAL_CONFIG_FILE_PATH of Some stream \<Rightarrow> getlines stream
          | None \<Rightarrow> []))"

text \<open>What the dynamic linker answers for one path: no library, an error or a null pointer for the
  symbol, or the module.\<close>

datatype 'm dl_answer = dlopen_failed | dlsym_error | dlsym_null | Module 'm

definition lazy_init_modules :: "(string \<rightharpoonup> string) \<Rightarrow> (string \<Rightarrow> 'm dl_answer) \<Rightarrow> 'm multihal \<Rightarrow> 'm multihal" where
  "lazy_init_modules files dl s =
     (if sub_hw_modules s \<noteq> None then s
      else s\<lparr>sub_hw_modules :=
        Some (List.maps (\<lambda>path. case dl path of Module m \<Rightarrow> [m] | _ \<Rightarrow> []) (get_so_paths files))\<rparr>)"

section \<open>The list of sensors\<close>

definition fix_sensor_fields :: "flag_bits \<Rightarrow> sensor_t \<Rightarrow> sensor_t" where
  "fix_sensor_fields fb s =
     (let s = s\<lparr>fifoReservedEventCount := 0, fifoMaxEventCount := 0\<rparr>
      in case s_type s of
           SENSOR_TYPE_TILT_DETECTOR \<Rightarrow> s\<lparr>flags := SENSOR_FLAG_WAKE_UP fb OR SENSOR_FLAG_ON_CHANGE_MODE fb\<rparr>
         | SENSOR_TYPE_PROXIMITY \<Rightarrow>
             s\<lparr>flags := SENSOR_FLAG_WAKE_UP fb OR SENSOR_FLAG_ON_CHANGE_MODE fb, maxRange := 5\<rparr>
         | _ \<Rightarrow> s)"

fun copy_sensors :: "flag_bits \<Rightarrow> int \<Rightarrow> sensor_t list \<Rightarrow> sensor_t list \<times> 'm multihal \<Rightarrow> sensor_t list \<times> 'm multihal" where
  "copy_sensors fb module_index [] (out, s) = (out, s)"
| "copy_sensors fb module_index (local_sensor # rest) (out, s) =
     (let (global_handle, s) = assign_global_handle module_index (handle local_sensor) s
      in copy_sensors fb module_index rest
           (out @ [fix_sensor_fields fb (local_sensor\<lparr>handle := global_handle\<rparr>)], s))"

fun copy_modules :: "flag_bits \<Rightarrow> ('m \<Rightarrow> sensor_t list) \<Rightarrow> int \<Rightarrow> 'm list \<Rightarrow> sensor_t list \<times> 'm multihal \<Rightarrow>
    sensor_t list \<times> 'm multihal" where
  "copy_modules fb get_list module_index [] acc = acc"
| "copy_modules fb get_list module_index (m # ms) acc =
     copy_modules fb get_list (module_index + 1) ms (copy_sensors fb module_index (get_list m) acc)"

text \<open>\<open>get_list\<close> is the sub-HALs' \<^verbatim>\<open>get_sensors_list\<close>, whose contract is to return the same list at every
  call: the function is called once to count the sensors and once to copy them.\<close>

definition lazy_init_sensors_list :: "flag_bits \<Rightarrow> (string \<rightharpoonup> string) \<Rightarrow> (string \<Rightarrow> 'm dl_answer) \<Rightarrow>
    ('m \<Rightarrow> sensor_t list) \<Rightarrow> 'm multihal \<Rightarrow> 'm multihal" where
  "lazy_init_sensors_list fb files dl get_list s =
     (if global_sensors_list s \<noteq> None then s
      else let s = lazy_init_modules files dl s;
               modules = (case sub_hw_modules s of None \<Rightarrow> [] | Some ms \<Rightarrow> ms);
               s = s\<lparr>global_sensors_count := (\<Sum>m\<leftarrow>modules. int (length (get_list m)))\<rparr>;
               (mutable_sensor_list, s) = copy_modules fb get_list 0 modules ([], s)
           in s\<lparr>global_sensors_list := Some mutable_sensor_list\<rparr>)"

definition module__get_sensors_list :: "flag_bits \<Rightarrow> (string \<rightharpoonup> string) \<Rightarrow> (string \<Rightarrow> 'm dl_answer) \<Rightarrow>
    ('m \<Rightarrow> sensor_t list) \<Rightarrow> 'm multihal \<Rightarrow> (int \<times> sensor_t list option) \<times> 'm multihal" where
  "module__get_sensors_list fb files dl get_list s =
     (let s = lazy_init_sensors_list fb files dl get_list s
      in ((global_sensors_count s, global_sensors_list s), s))"

section \<open>The proxy device\<close>

text \<open>The devices of the sub-HALs are values of a type \<open>'d\<close>; the argument \<open>run\<close> is what a device answers
  to a call. Every operation also returns the calls it made.\<close>

datatype dev_call = Activate int int | SetDelay int int | Batch int int int int | Flush int
  | InjectSensorData sensors_event_t | Close

datatype hal_fault = NullDevice | AtOutOfRange

record 'd sensors_poll_context_t =
  sub_hw_devices :: "'d list"
  queues :: "sensors_event_t SensorEventQueue list"
  nextReadIndex :: int

type_synonym 'd calls = "('d \<times> dev_call) list"

definition SENSOR_EVENT_QUEUE_CAPACITY :: int where
  "SENSOR_EVENT_QUEUE_CAPACITY = 36"

definition EINVAL :: int where
  "EINVAL = 22"

text \<open>The writer thread of the new device starts in \<open>Multihal_Threads\<close>.\<close>

definition addSubHwDevice :: "(nat \<Rightarrow> sensors_event_t) \<Rightarrow> 'd \<Rightarrow> 'd sensors_poll_context_t \<Rightarrow> 'd sensors_poll_context_t" where
  "addSubHwDevice junk sub_hw_device ctx =
     ctx\<lparr>sub_hw_devices := sub_hw_devices ctx @ [sub_hw_device],
         queues := queues ctx @ [new_SensorEventQueue junk SENSOR_EVENT_QUEUE_CAPACITY]\<rparr>"

definition get_device_by_handle :: "'m multihal \<Rightarrow> 'd sensors_poll_context_t \<Rightarrow> int \<Rightarrow> 'd option" where
  "get_device_by_handle s ctx global_handle =
     (let sub_index = get_module_index s global_handle
      in if sub_index < 0 \<or> sub_index \<ge> int (length (sub_hw_devices ctx)) then None
         else Some (sub_hw_devices ctx ! nat sub_index))"

definition get_v0_device_by_handle :: "'m multihal \<Rightarrow> 'd sensors_poll_context_t \<Rightarrow> int \<Rightarrow> 'd option" where
  "get_v0_device_by_handle = get_device_by_handle"

definition get_v1_device_by_handle :: "'m multihal \<Rightarrow> 'd sensors_poll_context_t \<Rightarrow> int \<Rightarrow> 'd option" where
  "get_v1_device_by_handle = get_device_by_handle"

definition get_device_version_by_handle :: "('d \<Rightarrow> int) \<Rightarrow> 'm multihal \<Rightarrow> 'd sensors_poll_context_t \<Rightarrow> int \<Rightarrow> int" where
  "get_device_version_by_handle version s ctx h =
     (case get_v0_device_by_handle s ctx h of Some v0 \<Rightarrow> version v0 | None \<Rightarrow> -1)"

text \<open>A method call through the device pointer, which the callers do not test for NULL.\<close>

definition call_device :: "('d \<Rightarrow> dev_call \<Rightarrow> int) \<Rightarrow> 'd option \<Rightarrow> dev_call \<Rightarrow> hal_fault + int \<times> 'd calls" where
  "call_device run dev c = (case dev of None \<Rightarrow> Inl NullDevice | Some d \<Rightarrow> Inr (run d c, [(d, c)]))"

definition activate :: "('d \<Rightarrow> dev_call \<Rightarrow> int) \<Rightarrow> 'm multihal \<Rightarrow> 'd sensors_poll_context_t \<Rightarrow> int \<Rightarrow> int \<Rightarrow>
    hal_fault + int \<times> 'd calls" where
  "activate run s ctx h enabled =
     (let local_handle = get_local_handle s h; v0 = get_v0_device_by_handle s ctx h
      in call_device run v0 (Activate local_handle enabled))"

definition setDelay :: "('d \<Rightarrow> dev_call \<Rightarrow> int) \<Rightarrow> 'm multihal \<Rightarrow> 'd sensors_poll_context_t \<Rightarrow> int \<Rightarrow> int \<Rightarrow>
    hal_fault + int \<times> 'd calls" where
  "setDelay run s ctx h ns =
     (let local_handle = get_local_handle s h; v0 = get_v0_device_by_handle s ctx h
      in call_device run v0 (SetDelay local_handle ns))"

definition batch :: "('d \<Rightarrow> dev_call \<Rightarrow> int) \<Rightarrow> 'm multihal \<Rightarrow> 'd sensors_poll_context_t \<Rightarrow> int \<Rightarrow> int \<Rightarrow> int \<Rightarrow> int \<Rightarrow>
    hal_fault + int \<times> 'd calls" where
  "batch run s ctx h flgs period_ns tmo =
     (let local_handle = get_local_handle s h; v1 = get_v1_device_by_handle s ctx h
      in call_device run v1 (Batch local_handle flgs period_ns tmo))"

definition flush :: "('d \<Rightarrow> dev_call \<Rightarrow> int) \<Rightarrow> 'm multihal \<Rightarrow> 'd sensors_poll_context_t \<Rightarrow> int \<Rightarrow>
    hal_fault + int \<times> 'd calls" where
  "flush run s ctx h =
     (let local_handle = get_local_handle s h; v1 = get_v1_device_by_handle s ctx h
      in call_device run v1 (Flush local_handle))"

text \<open>The event is handed on with the global handle it came with.\<close>

definition inject_sensor_data :: "('d \<Rightarrow> dev_call \<Rightarrow> int) \<Rightarrow> 'm multihal \<Rightarrow> 'd sensors_poll_context_t \<Rightarrow>
    sensors_event_t \<Rightarrow> hal_fault + int \<times> 'd calls" where
  "inject_sensor_data run s ctx data =
     call_device run (get_v1_device_by_handle s ctx (sensor data)) (InjectSensorData data)"

definition close_devices :: "'d sensors_poll_context_t \<Rightarrow> int \<times> 'd calls" where
  "close_devices ctx = (0, map (\<lambda>dev. (dev, Close)) (sub_hw_devices ctx))"

definition device__close :: "'d sensors_poll_context_t option \<Rightarrow> int \<times> 'd calls" where
  "device__close dev = (case dev of Some ctx \<Rightarrow> close_devices ctx | None \<Rightarrow> (0, []))"

definition device__activate :: "('d \<Rightarrow> dev_call \<Rightarrow> int) \<Rightarrow> 'm multihal \<Rightarrow> 'd sensors_poll_context_t \<Rightarrow> int \<Rightarrow> int \<Rightarrow>
    hal_fault + int \<times> 'd calls" where
  "device__activate run s ctx h enabled = activate run s ctx h enabled"

definition device__setDelay :: "('d \<Rightarrow> dev_call \<Rightarrow> int) \<Rightarrow> 'm multihal \<Rightarrow> 'd sensors_poll_context_t \<Rightarrow> int \<Rightarrow> int \<Rightarrow>
    hal_fault + int \<times> 'd calls" where
  "device__setDelay run s ctx h ns = setDelay run s ctx h ns"

definition device__batch :: "('d \<Rightarrow> dev_call \<Rightarrow> int) \<Rightarrow> 'm multihal \<Rightarrow> 'd sensors_poll_context_t \<Rightarrow> int \<Rightarrow> int \<Rightarrow> int \<Rightarrow> int \<Rightarrow>
    hal_fault + int \<times> 'd calls" where
  "device__batch run s ctx h flgs period_ns tmo =
     (case setDelay run s ctx h period_ns of Inl e \<Rightarrow> Inl e | Inr (retval, cs) \<Rightarrow> Inr (0, cs))"

definition device__flush :: "'d sensors_poll_context_t \<Rightarrow> int \<Rightarrow> hal_fault + int \<times> 'd calls" where
  "device__flush dev h = Inr (- EINVAL, [])"

definition device__inject_sensor_data :: "('d \<Rightarrow> dev_call \<Rightarrow> int) \<Rightarrow> 'm multihal \<Rightarrow> 'd sensors_poll_context_t \<Rightarrow>
    sensors_event_t \<Rightarrow> hal_fault + int \<times> 'd calls" where
  "device__inject_sensor_data run s ctx data = inject_sensor_data run s ctx data"

text \<open>\<open>open_sub\<close> is the \<^verbatim>\<open>open\<close> method of a sub-HAL: an error number or a device.\<close>

fun open_modules :: "('m \<Rightarrow> string \<Rightarrow> int + 'd) \<Rightarrow> (nat \<Rightarrow> sensors_event_t) \<Rightarrow> string \<Rightarrow> 'm list \<Rightarrow>
    'd sensors_poll_context_t \<Rightarrow> 'd sensors_poll_context_t" where
  "open_modules open_sub junk name [] dev = dev"
| "open_modules open_sub junk name (m # ms) dev =
     open_modules open_sub junk name ms
       (case open_sub m name of Inl sub_open_result \<Rightarrow> dev
        | Inr sub_hw_device \<Rightarrow> addSubHwDevice junk sub_hw_device dev)"

definition open_sensors :: "(string \<rightharpoonup> string) \<Rightarrow> (string \<Rightarrow> 'm dl_answer) \<Rightarrow> ('m \<Rightarrow> string \<Rightarrow> int + 'd) \<Rightarrow>
    (nat \<Rightarrow> sensors_event_t) \<Rightarrow> string \<Rightarrow> 'm multihal \<Rightarrow> 'd sensors_poll_context_t \<times> 'm multihal" where
  "open_sensors files dl open_sub junk name s =
     (let s = lazy_init_modules files dl s;
          modules = (case sub_hw_modules s of None \<Rightarrow> [] | Some ms \<Rightarrow> ms);
          dev = \<lparr>sub_hw_devices = [], queues = [], nextReadIndex = 0\<rparr>
      in (open_modules open_sub junk name modules dev, s))"

section \<open>Reading events\<close>

definition copy_event_remap_handle :: "'m multihal \<Rightarrow> sensors_event_t \<Rightarrow> int \<Rightarrow> sensors_event_t" where
  "copy_event_remap_handle s src sub_index =
     (if e_type src = SENSOR_TYPE_META_DATA
      then src\<lparr>meta_data_sensor := get_global_handle s (FullHandle sub_index (meta_data_sensor src))\<rparr>
      else src\<lparr>sensor := get_global_handle s (FullHandle sub_index (sensor src))\<rparr>)"

definition queue_at :: "'q list \<Rightarrow> int \<Rightarrow> 'q option" where
  "queue_at qs i = (if 0 \<le> i \<and> i < int (length qs) then Some (qs ! nat i) else None)"

definition advance :: "int \<Rightarrow> 'd sensors_poll_context_t \<Rightarrow> 'd sensors_poll_context_t" where
  "advance queueCount ctx = ctx\<lparr>nextReadIndex := (nextReadIndex ctx + 1) smod queueCount\<rparr>"

text \<open>The inner loop of \<^verbatim>\<open>poll\<close>; \<open>None\<close> is a loop that does not end.\<close>

partial_function (option) poll_scan :: "'m multihal \<Rightarrow> int \<Rightarrow> int \<Rightarrow> 'd sensors_poll_context_t \<Rightarrow>
    sensors_event_t list \<Rightarrow> int \<Rightarrow> int \<Rightarrow>
    (hal_fault + 'd sensors_poll_context_t \<times> sensors_event_t list \<times> int) option" where
  "poll_scan s queueCount maxReads ctx data empties eventsRead =
     (if empties < queueCount \<and> eventsRead < maxReads then
        (case queue_at (queues ctx) (nextReadIndex ctx) of
           None \<Rightarrow> Some (Inl AtOutOfRange)
         | Some queue \<Rightarrow>
            (case peek queue of
               None \<Rightarrow> poll_scan s queueCount maxReads (advance queueCount ctx) data (empties + 1) eventsRead
             | Some i \<Rightarrow>
                (let dest = copy_event_remap_handle s (mData queue ! nat i) (nextReadIndex ctx)
                 in poll_scan s queueCount maxReads
                      (advance queueCount
                         (ctx\<lparr>queues := (queues ctx)[nat (nextReadIndex ctx) := dequeue queue]\<rparr>))
                      (data[nat eventsRead := dest]) 0
                      (if sensor dest = -1 then eventsRead else eventsRead + 1))))
      else Some (Inr (ctx, data, eventsRead)))"

text \<open>One round of the outer loop, entered with \<^verbatim>\<open>empties\<close> and \<^verbatim>\<open>eventsRead\<close> zero.\<close>

definition poll_round :: "'m multihal \<Rightarrow> 'd sensors_poll_context_t \<Rightarrow> sensors_event_t list \<Rightarrow> int \<Rightarrow>
    (hal_fault + 'd sensors_poll_context_t \<times> sensors_event_t list \<times> int) option" where
  "poll_round s ctx data maxReads = poll_scan s (int (length (queues ctx))) maxReads ctx data 0 0"

declare poll_scan.simps [code]

end
