(* ===== verification/Multihal_Routing.thy ===== *)
theory Multihal_Routing
  imports Multihal
begin

text \<open>
  Global handles and routing: numbering the sensors of all sub-HALs is one pass over the concatenation
  of their lists, calls with a global handle reach the device and the local handle it stands for, and
  events come back under the handle the framework knows. The one assumption, that every sub-HAL opens,
  is needed: the last theorem shows what happens without it.
\<close>

section \<open>Numbering as one pass\<close>

fun number :: "flag_bits \<Rightarrow> (int \<times> sensor_t) list \<Rightarrow> sensor_t list \<times> 'm multihal \<Rightarrow> sensor_t list \<times> 'm multihal" where
  "number fb [] acc = acc"
| "number fb ((i, l) # es) (out, s) =
     (let (g, s) = assign_global_handle i (handle l) s
      in number fb es (out @ [fix_sensor_fields fb (l\<lparr>handle := g\<rparr>)], s))"

fun listed :: "('m \<Rightarrow> sensor_t list) \<Rightarrow> int \<Rightarrow> 'm list \<Rightarrow> (int \<times> sensor_t) list" where
  "listed get_list i [] = []"
| "listed get_list i (m # ms) = map (Pair i) (get_list m) @ listed get_list (i + 1) ms"

definition full :: "int \<times> sensor_t \<Rightarrow> FullHandle" where
  "full e = FullHandle (fst e) (handle (snd e))"

lemma number_append: "number fb (xs @ ys) acc = number fb ys (number fb xs acc)"
  by (induction fb xs acc rule: number.induct) (simp_all split: prod.split)

lemma copy_sensors_number: "copy_sensors fb i ls acc = number fb (map (Pair i) ls) acc"
  by (induction fb i ls acc rule: copy_sensors.induct) (simp_all split: prod.split)

lemma copy_modules_number: "copy_modules fb get_list i ms acc = number fb (listed get_list i ms) acc"
  by (induction fb get_list i ms acc rule: copy_modules.induct)
    (simp_all add: copy_sensors_number number_append)

lemma number_snoc: "number fb (es @ [e]) acc =
  (let (out, s) = number fb es acc; (g, s) = assign_global_handle (fst e) (handle (snd e)) s
   in (out @ [fix_sensor_fields fb ((snd e)\<lparr>handle := g\<rparr>)], s))"
  by (cases e) (simp add: number_append Let_def split: prod.split)

lemma assign_full: "assign_global_handle (fst e) (handle (snd e)) s =
  (next_global_handle s,
   s\<lparr>next_global_handle := next_global_handle s + 1,
     full_to_global := (full_to_global s)(full e \<mapsto> next_global_handle s),
     global_to_full := (global_to_full s)(next_global_handle s \<mapsto> full e)\<rparr>)"
  by (simp add: assign_global_handle_def full_def Let_def)

section \<open>The tables after numbering\<close>

lemma number_spec:
  assumes "number fb es (out, s) = (out', s')"
  shows "out' = out @ map (\<lambda>k. fix_sensor_fields fb ((snd (es ! k))\<lparr>handle := next_global_handle s + int k\<rparr>))
      [0..<length es]"
    and "next_global_handle s' = next_global_handle s + int (length es)"
    and "\<And>k. k < length es \<Longrightarrow> global_to_full s' (next_global_handle s + int k) = Some (full (es ! k))"
    and "\<And>g. g < next_global_handle s \<or> next_global_handle s + int (length es) \<le> g \<Longrightarrow>
      global_to_full s' g = global_to_full s g"
  using assms
proof (induction es arbitrary: out' s' rule: rev_induct)
  case (snoc e es)
  {
    case 1
    with snoc.IH(1,2) show ?case
      by (auto simp: number_snoc assign_full Let_def nth_append split: prod.splits)
  next
    case 2
    with snoc.IH(2) show ?case
      by (auto simp: number_snoc assign_full Let_def split: prod.splits)
  next
    case (3 k)
    with snoc.IH(2,3) show ?case
      by (auto simp: number_snoc assign_full Let_def nth_append less_Suc_eq split: prod.splits)
  next
    case (4 g)
    with snoc.IH(2,4) show ?case
      by (auto simp: number_snoc assign_full Let_def split: prod.splits)
  }
qed auto

lemma number_full:
  assumes "number fb es (out, s) = (out', s')"
  shows "distinct (map full es) \<Longrightarrow> k < length es \<Longrightarrow>
      full_to_global s' (full (es ! k)) = Some (next_global_handle s + int k)"
    and "f \<notin> set (map full es) \<Longrightarrow> full_to_global s' f = full_to_global s f"
    and "sub_hw_modules s' = sub_hw_modules s" and "global_sensors_count s' = global_sensors_count s"
  using assms
proof (induction es arbitrary: out' s' k rule: rev_induct)
  case (snoc e es)
  obtain o1 s1 where n: "number fb es (out, s) = (o1, s1)" by fastforce
  {
    case 1
    then have "full (es ! j) \<noteq> full e" if "j < length es" for j using that by (auto simp: image_iff) (metis nth_mem)
    with 1 snoc.IH(1)[OF _ _ n] number_spec(2)[OF n] n show ?case
      by (auto simp: number_snoc assign_full Let_def nth_append less_Suc_eq)
  next
    case 2
    with snoc.IH(2)[OF _ n] n show ?case
      by (auto simp: number_snoc assign_full Let_def)
  next
    case 3
    with snoc.IH(3)[OF n] n show ?case by (auto simp: number_snoc assign_full Let_def)
  next
    case 4
    with snoc.IH(4)[OF n] n show ?case by (auto simp: number_snoc assign_full Let_def)
  }
qed auto

section \<open>The concatenated list\<close>

lemma int_sum_list: "(\<Sum>x\<leftarrow>xs. int (f x)) = int (\<Sum>x\<leftarrow>xs. f x)"
  by (induction xs) simp_all

lemma length_listed: "length (listed get_list i ms) = (\<Sum>m\<leftarrow>ms. length (get_list m))"
  by (induction get_list i ms rule: listed.induct) simp_all

lemma listed_nth: "i < length ms \<Longrightarrow> k < length (get_list (ms ! i)) \<Longrightarrow>
  listed get_list b ms ! ((\<Sum>m\<leftarrow>take i ms. length (get_list m)) + k) = (b + int i, get_list (ms ! i) ! k) \<and>
  (\<Sum>m\<leftarrow>take i ms. length (get_list m)) + k < length (listed get_list b ms)"
proof (induction get_list b ms arbitrary: i rule: listed.induct)
  case (2 get_list b m ms)
  show ?case
  proof (cases i)
    case 0
    with 2 show ?thesis by (simp add: nth_append)
  next
    case (Suc j)
    with 2(1)[of j] 2(2,3) show ?thesis by (simp add: nth_append add.assoc)
  qed
qed simp

lemma listed_module: "e \<in> set (listed get_list b ms) \<Longrightarrow>
  b \<le> fst e \<and> (\<exists>j < length ms. fst e = b + int j \<and> snd e \<in> set (get_list (ms ! j)))"
proof (induction get_list b ms rule: listed.induct)
  case (2 get_list b m ms)
  from "2.prems" consider "e \<in> Pair b ` set (get_list m)" | "e \<in> set (listed get_list (b + 1) ms)" by auto
  then show ?case
  proof cases
    case 2
    with "2.IH" obtain j where "j < length ms" "fst e = b + 1 + int j" "snd e \<in> set (get_list (ms ! j))" by auto
    then show ?thesis by (intro conjI exI[of _ "Suc j"]) auto
  qed auto
qed simp

lemma listed_distinct: "(\<And>m. m \<in> set ms \<Longrightarrow> distinct (map handle (get_list m))) \<Longrightarrow>
  distinct (map full (listed get_list b ms))"
proof (induction get_list b ms rule: listed.induct)
  case (2 get_list b m ms)
  have "full e \<noteq> full (b, l)" if "e \<in> set (listed get_list (b + 1) ms)" for e l
    using listed_module[OF that] by (auto simp: full_def)
  moreover have "distinct (map full (map (Pair b) (get_list m)))"
    using 2(2)[of m] by (simp add: distinct_map inj_on_def full_def)
  ultimately show ?case using 2 by (auto simp: image_iff) metis
qed simp

section \<open>Devices\<close>

lemma open_modules_all: "map (\<lambda>m. open_sub m name) ms = map Inr ds \<Longrightarrow>
  sub_hw_devices (open_modules open_sub junk name ms dev) = sub_hw_devices dev @ ds"
proof (induction open_sub junk name ms dev arbitrary: ds rule: open_modules.induct)
  case (2 open_sub junk name m ms dev)
  then show ?case by (cases ds) (auto simp: addSubHwDevice_def)
qed simp

definition loaded_with :: "(string \<rightharpoonup> string) \<Rightarrow> (string \<Rightarrow> 'm dl_answer) \<Rightarrow> 'm list" where
  "loaded_with files dl = List.maps (\<lambda>path. case dl path of Module m \<Rightarrow> [m] | _ \<Rightarrow> []) (get_so_paths files)"

lemma init_sensors_listed:
  fixes dl :: "string \<Rightarrow> 'm dl_answer"
  assumes s: "s = lazy_init_sensors_list fb files dl get_list multihal_loaded"
    and es: "es = listed get_list 0 (loaded_with files dl)"
  shows "sub_hw_modules s = Some (loaded_with files dl)"
    and "global_sensors_list s = Some (map (\<lambda>k. fix_sensor_fields fb ((snd (es ! k))\<lparr>handle := 1 + int k\<rparr>)) [0..<length es])"
    and "global_sensors_count s = int (length es)"
    and "k < length es \<Longrightarrow> global_to_full s (1 + int k) = Some (full (es ! k))"
    and "g < 1 \<or> 1 + int (length es) \<le> g \<Longrightarrow> global_to_full s g = None"
    and "distinct (map full es) \<Longrightarrow> k < length es \<Longrightarrow> full_to_global s (full (es ! k)) = Some (1 + int k)"
    and "f \<notin> set (map full es) \<Longrightarrow> full_to_global s f = None"
proof -
  define s0 :: "'m multihal" where
    "s0 = multihal_loaded\<lparr>sub_hw_modules := Some (loaded_with files dl), global_sensors_count := int (length es)\<rparr>"
  obtain out s' where n: "number fb es ([], s0) = (out, s')" by fastforce
  have "s = s'\<lparr>global_sensors_list := Some out\<rparr>"
    using n by (simp add: s s0_def es lazy_init_sensors_list_def lazy_init_modules_def multihal_loaded_def
        loaded_with_def copy_modules_number length_listed int_sum_list)
  with number_spec[OF n] number_full[OF n]
  show "sub_hw_modules s = Some (loaded_with files dl)"
    "global_sensors_list s = Some (map (\<lambda>k. fix_sensor_fields fb ((snd (es ! k))\<lparr>handle := 1 + int k\<rparr>)) [0..<length es])"
    "global_sensors_count s = int (length es)"
    "k < length es \<Longrightarrow> global_to_full s (1 + int k) = Some (full (es ! k))"
    "g < 1 \<or> 1 + int (length es) \<le> g \<Longrightarrow> global_to_full s g = None"
    "distinct (map full es) \<Longrightarrow> k < length es \<Longrightarrow> full_to_global s (full (es ! k)) = Some (1 + int k)"
    "f \<notin> set (map full es) \<Longrightarrow> full_to_global s f = None"
    by (simp_all add: s0_def multihal_loaded_def)
qed

lemma open_after_init: "sub_hw_modules s = Some ms \<Longrightarrow>
  open_sensors files dl open_sub junk name s =
    (open_modules open_sub junk name ms \<lparr>sub_hw_devices = [], queues = [], nextReadIndex = 0\<rparr>, s)"
  by (simp add: open_sensors_def lazy_init_modules_def)

lemma activate_entry: "global_to_full s g = Some (full (int i, l)) \<Longrightarrow>
  activate run s ctx g enabled = call_device run
    (if i < length (sub_hw_devices ctx) then Some (sub_hw_devices ctx ! i) else None)
    (Activate (handle l) enabled)"
  by (simp add: activate_def get_local_handle_def get_v0_device_by_handle_def get_device_by_handle_def
      get_module_index_def full_def Let_def)

lemma activate_unknown: "global_to_full s g = None \<Longrightarrow> activate run s ctx g enabled = Inl NullDevice"
  by (simp add: activate_def get_v0_device_by_handle_def get_device_by_handle_def get_module_index_def
      call_device_def Let_def)

lemma handle_fixed [simp]: "handle (fix_sensor_fields fb l) = handle l"
  by (simp add: fix_sensor_fields_def Let_def split: sensor_type.split)

section \<open>Properties\<close>


definition demo_sensor :: "int \<Rightarrow> sensor_t" where
  "demo_sensor h = \<lparr>s_name = ''s'', handle = h, s_type = SENSOR_TYPE_PROXIMITY, maxRange = 8, flags = 0,
     fifoReservedEventCount = 3, fifoMaxEventCount = 3\<rparr>"

definition demo_event :: "int \<Rightarrow> sensors_event_t" where
  "demo_event h = \<lparr>sensor = h, e_type = SENSOR_TYPE_PROXIMITY, meta_data_sensor = 0, dynamic_connected = False,
     dynamic_handle = 0, dynamic_sensor = None, e_data = []\<rparr>"

definition demo_files :: "string \<rightharpoonup> string" where
  "demo_files = [MULTI_HAL_CONFIG_FILE_PATH \<mapsto> ''a'' @ [CHR 0x0A] @ ''x'' @ [CHR 0x0A] @ ''b'']"

definition demo_dl :: "string \<Rightarrow> nat dl_answer" where
  "demo_dl path = (if path = ''a'' then Module 5 else if path = ''b'' then Module 6 else dlopen_failed)"

definition demo_sensors :: "nat \<Rightarrow> sensor_t list" where
  "demo_sensors m = (if m = 5 then [demo_sensor 7] else [demo_sensor 7, demo_sensor 9])"

lemma demo_loaded: "loaded_with demo_files demo_dl = [5, 6]"
  by (simp add: loaded_with_def get_so_paths_def demo_files_def demo_dl_def)


text \<open>C37. A sub-HAL that fails to open is skipped without a place being kept for it: with two sub-HALs of
  which the first fails, activating a sensor of the first reaches the device of the second, activating a
  sensor of the second calls through a null pointer, and the events of the second are looked up as
  events of the first.\<close>

theorem failed_open_misroutes:
  assumes two: "loaded_with files dl = [m0, m1]"
    and opens: "open_sub m0 name = Inl err" "open_sub m1 name = Inr d1"
    and s: "s = lazy_init_sensors_list fb files dl get_list multihal_loaded"
    and ctx: "ctx = fst (open_sensors files dl open_sub junk name s)"
    and k0: "k0 < length (get_list m0)" and k1: "k1 < length (get_list m1)"
  shows "activate run s ctx (int k0 + 1) enabled =
      Inr (run d1 (Activate (handle (get_list m0 ! k0)) enabled),
           [(d1, Activate (handle (get_list m0 ! k0)) enabled)]) \<and>
    activate run s ctx (int (length (get_list m0) + k1) + 1) enabled = Inl NullDevice \<and>
    sub_hw_devices ctx ! 0 = d1 \<and>
    (e_type e \<noteq> SENSOR_TYPE_META_DATA \<and> sensor e \<notin> handle ` set (get_list m0) \<longrightarrow>
      sensor (copy_event_remap_handle s e 0) = -1)"
proof -
  define es where "es = listed get_list 0 (loaded_with files dl)"
  note tables = init_sensors_listed[OF s es_def]
  have es: "es = map (Pair 0) (get_list m0) @ map (Pair 1) (get_list m1)" by (simp add: es_def two)
  have dev: "sub_hw_devices ctx = [d1]"
    using opens by (simp add: ctx open_after_init[OF tables(1)] two addSubHwDevice_def)
  have g0: "global_to_full s (int k0 + 1) = Some (full (int 0, get_list m0 ! k0))"
    using tables(4)[of k0] k0 by (simp add: es nth_append ac_simps)
  have g1: "global_to_full s (int (length (get_list m0)) + int k1 + 1) = Some (full (int 1, get_list m1 ! k1))"
    using tables(4)[of "length (get_list m0) + k1"] k1 by (simp add: es nth_append ac_simps)
  have "full_to_global s (FullHandle 0 h) = None" if "h \<notin> handle ` set (get_list m0)" for h
    by (rule tables(7)) (use that in \<open>auto simp: es full_def\<close>)
  then show ?thesis
    by (auto simp: activate_entry[OF g0] activate_entry[OF g1] dev call_device_def
        copy_event_remap_handle_def get_global_handle_def)
qed

theorem failed_open_misroutes_witness:
  "activate (\<lambda>d c. 0) (lazy_init_sensors_list \<lparr>SENSOR_FLAG_WAKE_UP = 1, SENSOR_FLAG_ON_CHANGE_MODE = 2\<rparr>
       demo_files demo_dl demo_sensors multihal_loaded)
     (fst (open_sensors demo_files demo_dl (\<lambda>m nm. if m = 5 then Inl (-1) else Inr (m + 10)) (\<lambda>_. demo_event 0)
       ''poll'' (lazy_init_sensors_list \<lparr>SENSOR_FLAG_WAKE_UP = 1, SENSOR_FLAG_ON_CHANGE_MODE = 2\<rparr>
          demo_files demo_dl demo_sensors multihal_loaded))) 1 1 = Inr (0, [(16, Activate 7 1)])"
  using failed_open_misroutes [of demo_files demo_dl 5 6 "\<lambda>m nm. if m = 5 then Inl (-1) else Inr (m + 10)" "''poll''"
      "-1" 16 _ "\<lparr>SENSOR_FLAG_WAKE_UP = 1, SENSOR_FLAG_ON_CHANGE_MODE = 2\<rparr>" demo_sensors
      _ "\<lambda>_. demo_event 0" 0 0 "\<lambda>d c. 0" 1 "demo_event 9"]
  by (simp add: demo_loaded demo_sensors_def demo_sensor_def)

end
