(* ===== verification/Multihal_Threads.thy ===== *)
theory Multihal_Threads
  imports Multihal_Routing
begin

text \<open>
  The threads of the sensor multiplexer: one writer thread per sub-HAL, \<^verbatim>\<open>writerTask\<close>, and the framework
  thread in \<^verbatim>\<open>poll\<close>, all sharing \<^verbatim>\<open>queue_mutex\<close>. A step is what a thread does while it holds the mutex, or
  a store of a driver into the region it was handed, which happens without the mutex. The scan of the
  queues ends and takes events in order; over all interleavings no event is lost, repeated or reordered,
  and no thread sleeps on without a reason.
\<close>

section \<open>The scan of the queues\<close>

definition ctx_ok :: "'d sensors_poll_context_t \<Rightarrow> bool" where
  "ctx_ok ctx \<longleftrightarrow> (\<forall>q \<in> set (queues ctx). queue_inv q) \<and> 0 \<le> nextReadIndex ctx \<and>
     (queues ctx \<noteq> [] \<longrightarrow> nextReadIndex ctx < int (length (queues ctx)))"

text \<open>The events among \<open>taken\<close> that came from queue \<open>i\<close>, and those that are passed on.\<close>

definition from_queue :: "nat \<Rightarrow> (nat \<times> sensors_event_t) list \<Rightarrow> sensors_event_t list" where
  "from_queue i taken = map snd (filter (\<lambda>x. fst x = i) taken)"

definition passed_on :: "'m multihal \<Rightarrow> (nat \<times> sensors_event_t) list \<Rightarrow> sensors_event_t list" where
  "passed_on s taken =
     filter (\<lambda>e. sensor e \<noteq> -1) (map (\<lambda>x. copy_event_remap_handle s (snd x) (int (fst x))) taken)"

lemma from_queue_simps [simp]: "from_queue i [] = []"
  "from_queue i ((j, e) # taken) = (if j = i then e # from_queue i taken else from_queue i taken)"
  "from_queue i (t1 @ t2) = from_queue i t1 @ from_queue i t2"
  by (simp_all add: from_queue_def)

lemma passed_on_simps [simp]: "passed_on s [] = []"
  "passed_on s ((j, e) # taken) = (if sensor (copy_event_remap_handle s e (int j)) = -1 then passed_on s taken
     else copy_event_remap_handle s e (int j) # passed_on s taken)"
  "passed_on s (t1 @ t2) = passed_on s t1 @ passed_on s t2"
  by (simp_all add: passed_on_def)

text \<open>The last \<open>empties\<close> queues that were looked at are empty.\<close>

definition scanned :: "'d sensors_poll_context_t \<Rightarrow> int \<Rightarrow> bool" where
  "scanned ctx empties \<longleftrightarrow> (\<forall>j. 1 \<le> j \<and> j \<le> empties \<longrightarrow>
     contents (queues ctx ! nat ((nextReadIndex ctx - j) mod int (length (queues ctx)))) = [])"

lemma scanned_0 [simp]: "scanned ctx 0"
  by (auto simp: scanned_def)

lemma scanned_all:
  assumes "ctx_ok ctx" "scanned ctx (int (length (queues ctx)))" "i < length (queues ctx)"
  shows "contents (queues ctx ! i) = []"
proof -
  define n where "n = int (length (queues ctx))"
  define j where "j = (if int i < nextReadIndex ctx then nextReadIndex ctx - int i else nextReadIndex ctx - int i + n)"
  have b: "0 \<le> nextReadIndex ctx" "nextReadIndex ctx < n" "int i < n"
    using assms by (auto simp: ctx_ok_def n_def)
  then have "1 \<le> j" "j \<le> n" by (auto simp: j_def)
  moreover have "(nextReadIndex ctx - j) mod n = int i"
    using b by (auto simp: j_def)
  ultimately show ?thesis using assms(2) by (auto simp: scanned_def n_def)
qed

lemma ctx_ok_next: "ctx_ok ctx \<Longrightarrow> i < length (queues ctx) \<Longrightarrow>
  0 \<le> nextReadIndex ctx \<and> nextReadIndex ctx < int (length (queues ctx)) \<and>
  queue_inv (queues ctx ! nat (nextReadIndex ctx))"
  by (auto simp: ctx_ok_def)

lemma advance_simps [simp]: "queues (advance n ctx) = queues ctx"
  "sub_hw_devices (advance n ctx) = sub_hw_devices ctx"
  by (simp_all add: advance_def)

lemma next_advance: "ctx_ok ctx \<Longrightarrow> n = int (length (queues ctx)) \<Longrightarrow> 0 < n \<Longrightarrow>
  nextReadIndex (advance n ctx) = (nextReadIndex ctx + 1) mod n"
  by (auto simp: advance_def ctx_ok_def smod_nonneg)

lemma ctx_ok_advance: "ctx_ok ctx \<Longrightarrow> n = int (length (queues ctx)) \<Longrightarrow> 0 < n \<Longrightarrow> ctx_ok (advance n ctx)"
  by (auto simp: ctx_ok_def next_advance[simplified ctx_ok_def])

lemma ctx_ok_dequeue: "ctx_ok ctx \<Longrightarrow> i < length (queues ctx) \<Longrightarrow>
  ctx_ok (ctx\<lparr>queues := (queues ctx)[i := dequeue (queues ctx ! i)]\<rparr>)"
  by (auto simp: ctx_ok_def queue_inv_dequeue dest!: set_update_subset_insert[THEN subsetD])

lemma scanned_advance:
  assumes "ctx_ok ctx" "n = int (length (queues ctx))" "0 < n" "0 \<le> empties" "scanned ctx empties"
    and "contents (queues ctx ! nat (nextReadIndex ctx)) = []"
  shows "scanned (advance n ctx) (empties + 1)"
  unfolding scanned_def
proof (intro allI impI)
  fix j assume j: "1 \<le> j \<and> j \<le> empties + 1"
  have "((nextReadIndex ctx + 1) mod n - j) mod n = (nextReadIndex ctx - (j - 1)) mod n"
    by (simp add: mod_diff_left_eq algebra_simps)
  moreover have "contents (queues ctx ! nat ((nextReadIndex ctx - (j - 1)) mod n)) = []"
  proof (cases "j = 1")
    case True
    with assms show ?thesis by (auto simp: ctx_ok_def)
  next
    case False
    with assms(2,5) j show ?thesis by (auto simp: scanned_def)
  qed
  ultimately show "contents (queues (advance n ctx) !
      nat ((nextReadIndex (advance n ctx) - j) mod int (length (queues (advance n ctx))))) = []"
    using assms by (simp add: next_advance)
qed

definition waiting_events :: "'d sensors_poll_context_t \<Rightarrow> nat" where
  "waiting_events ctx = (\<Sum>q\<leftarrow>queues ctx. length (contents q))"

lemma sum_list_replace: "i < length xs \<Longrightarrow>
  (\<Sum>x\<leftarrow>xs[i := y]. f x) + f (xs ! i) = (\<Sum>x\<leftarrow>xs. f x) + (f y :: nat)"
  by (induction xs arbitrary: i) (auto split: nat.split)

lemma waiting_events_dequeue:
  assumes "ctx_ok ctx" "i < length (queues ctx)" "contents (queues ctx ! i) \<noteq> []"
  shows "waiting_events (ctx\<lparr>queues := (queues ctx)[i := dequeue (queues ctx ! i)]\<rparr>) < waiting_events ctx"
proof -
  have "queue_inv (queues ctx ! i)" using assms by (auto simp: ctx_ok_def)
  then have "length (contents (dequeue (queues ctx ! i))) < length (contents (queues ctx ! i))"
    using assms(3) by (cases "contents (queues ctx ! i)") (simp_all only: contents_dequeue list.sel list.size, simp)
  with sum_list_replace[OF assms(2), of "\<lambda>q. length (contents q)" "dequeue (queues ctx ! i)"]
  show ?thesis by (simp add: waiting_events_def del: length_contents)
qed

text \<open>The result of a scan, related to the state it started from.\<close>

definition scan_result :: "'m multihal \<Rightarrow> int \<Rightarrow> 'd sensors_poll_context_t \<Rightarrow> sensors_event_t list \<Rightarrow> int \<Rightarrow>
    (nat \<times> sensors_event_t) list \<Rightarrow> 'd sensors_poll_context_t \<Rightarrow> sensors_event_t list \<Rightarrow> int \<Rightarrow> bool" where
  "scan_result s maxReads ctx data eventsRead taken ctx' data' eventsRead' \<longleftrightarrow>
     ctx_ok ctx' \<and> length (queues ctx') = length (queues ctx) \<and> sub_hw_devices ctx' = sub_hw_devices ctx \<and>
     (\<forall>i < length (queues ctx). \<exists>k. queues ctx' ! i = (dequeue ^^ k) (queues ctx ! i)) \<and>
     (\<forall>i < length (queues ctx). contents (queues ctx ! i) = from_queue i taken @ contents (queues ctx' ! i)) \<and>
     eventsRead' = eventsRead + int (length (passed_on s taken)) \<and> length data' = length data \<and>
     (maxReads \<le> int (length data) \<longrightarrow> take (nat eventsRead') data' = take (nat eventsRead) data @ passed_on s taken) \<and>
     eventsRead' \<le> max eventsRead maxReads \<and>
     (eventsRead' < maxReads \<longrightarrow> (\<forall>i < length (queues ctx). contents (queues ctx' ! i) = []))"

lemma take_snoc_update: "take (nat (r + 1)) (xs[nat r := x]) = take (nat r) xs @ [x]"
  if "0 \<le> r" "r < int (length xs)"
  using that by (simp add: nat_add_distrib take_Suc_update)

lemma scan_result_take:
  fixes ctx :: "'d sensors_poll_context_t"
  assumes ok: "ctx_ok ctx" and i: "i < length (queues ctx)" and c: "contents (queues ctx ! i) = e # es"
    and dest: "dest = copy_event_remap_handle s e (int i)"
    and r: "0 \<le> r" "r < maxReads"
    and ctx1: "queues ctx1 = (queues ctx)[i := dequeue (queues ctx ! i)]" "sub_hw_devices ctx1 = sub_hw_devices ctx"
    and rec: "scan_result s maxReads ctx1 (data[nat r := dest]) (if sensor dest = -1 then r else r + 1)
      taken ctx' data' r'"
  shows "scan_result s maxReads ctx data r ((i, e) # taken) ctx' data' r'"
proof -
  have q: "queue_inv (queues ctx ! i)" using ok i by (auto simp: ctx_ok_def)
  from rec have deq: "\<exists>k. queues ctx' ! j = (dequeue ^^ k) (queues ctx1 ! j)"
    and cont: "contents (queues ctx1 ! j) = from_queue j taken @ contents (queues ctx' ! j)"
    if "j < length (queues ctx)" for j using that by (simp_all only: scan_result_def ctx1 length_list_update)
  from rec have r': "r' = (if sensor dest = -1 then r else r + 1) + int (length (passed_on s taken))"
    and data: "maxReads \<le> int (length data) \<Longrightarrow> take (nat r') data' =
      take (nat (if sensor dest = -1 then r else r + 1)) (data[nat r := dest]) @ passed_on s taken"
    unfolding scan_result_def by auto
  have "\<exists>k. queues ctx' ! j = (dequeue ^^ k) (queues ctx ! j)" if j: "j < length (queues ctx)" for j
  proof -
    obtain k where "queues ctx' ! j = (dequeue ^^ k) (queues ctx1 ! j)" using deq[OF j] by blast
    then have "queues ctx' ! j = (dequeue ^^ (if j = i then Suc k else k)) (queues ctx ! j)"
      using i by (simp add: ctx1 funpow_swap1)
    then show ?thesis by blast
  qed
  moreover have "contents (queues ctx ! j) = from_queue j ((i, e) # taken) @ contents (queues ctx' ! j)"
    if j: "j < length (queues ctx)" for j
    using cont[OF j] c contents_dequeue[OF q] i by (cases "j = i") (simp_all add: ctx1)
  moreover have "take (nat r') data' = take (nat r) data @ passed_on s ((i, e) # taken)"
    if d: "maxReads \<le> int (length data)"
    using data[OF d] d r take_snoc_update[of r data dest] by (simp flip: dest)
  moreover have "r' = r + int (length (passed_on s ((i, e) # taken)))" using r' by (simp flip: dest)
  moreover from rec have "ctx_ok ctx'" "length (queues ctx') = length (queues ctx)"
    "sub_hw_devices ctx' = sub_hw_devices ctx" "length data' = length data" "r' \<le> max r maxReads"
    "r' < maxReads \<longrightarrow> (\<forall>i < length (queues ctx). contents (queues ctx' ! i) = [])"
    unfolding scan_result_def using r by (auto simp: ctx1 split: if_splits)
  ultimately show ?thesis unfolding scan_result_def by blast
qed

lemma scan_result_done:
  assumes "ctx_ok ctx" "0 \<le> eventsRead" "empties \<le> int (length (queues ctx))" "scanned ctx empties"
    and "\<not> (empties < int (length (queues ctx)) \<and> eventsRead < maxReads)"
  shows "scan_result s maxReads ctx data eventsRead [] ctx data eventsRead"
proof -
  have "contents (queues ctx ! i) = []" if "eventsRead < maxReads" "i < length (queues ctx)" for i
    using assms that scanned_all[of ctx i] by simp
  moreover have "\<exists>k. queues ctx ! i = (dequeue ^^ k) (queues ctx ! i)" for i by (rule exI[of _ 0]) simp
  ultimately show ?thesis using assms by (auto simp: scan_result_def)
qed

text \<open>The scan ends, whatever the queues hold, and never reads outside the vector of queues.\<close>

lemma poll_scan_result:
  assumes "ctx_ok ctx" "0 \<le> empties" "empties \<le> int (length (queues ctx))" "scanned ctx empties"
    and "0 \<le> eventsRead" "n = int (length (queues ctx))"
  shows "\<exists>taken ctx' data' eventsRead'.
    poll_scan s n maxReads ctx data empties eventsRead = Some (Inr (ctx', data', eventsRead')) \<and>
    scan_result s maxReads ctx data eventsRead taken ctx' data' eventsRead'"
  using assms
proof (induction "waiting_events ctx * nat (n + 1) + nat (n - empties)" arbitrary: ctx data empties eventsRead
    rule: less_induct)
  case less
  note ok = less.prems(1)
  show ?case
  proof (cases "empties < n \<and> eventsRead < maxReads")
    case False
    then have "poll_scan s n maxReads ctx data empties eventsRead = Some (Inr (ctx, data, eventsRead))"
      by (subst poll_scan.simps) (rule if_not_P)
    moreover have "scan_result s maxReads ctx data eventsRead [] ctx data eventsRead"
      using False less.prems by (intro scan_result_done) auto
    ultimately show ?thesis by blast
  next
    case True
    define i where "i = nat (nextReadIndex ctx)"
    note len = less.prems(6)
    have pos: "0 < n" using True less.prems(2) by linarith
    then have "0 < length (queues ctx)" by (simp add: len)
    from ctx_ok_next[OF ok this]
    have i: "i < length (queues ctx)" "nextReadIndex ctx = int i" and q: "queue_inv (queues ctx ! i)"
      by (auto simp: i_def)
    have at: "queue_at (queues ctx) (nextReadIndex ctx) = Some (queues ctx ! i)"
      using i by (simp add: queue_at_def)
    show ?thesis
    proof (cases "contents (queues ctx ! i)")
      case Nil
      then have p: "peek (queues ctx ! i) = None"
        using peeked_contents[OF q] by (simp add: peeked_def split: option.splits)
      have "\<exists>taken ctx' data' r'.
        poll_scan s n maxReads (advance n ctx) data (empties + 1) eventsRead = Some (Inr (ctx', data', r')) \<and>
        scan_result s maxReads (advance n ctx) data eventsRead taken ctx' data' r'"
        using less.prems True ctx_ok_advance[OF ok len pos]
          scanned_advance[OF ok len pos less.prems(2,4)] Nil i
        by (intro less.hyps) (simp_all add: waiting_events_def)
      moreover have "poll_scan s n maxReads ctx data empties eventsRead =
        poll_scan s n maxReads (advance n ctx) data (empties + 1) eventsRead"
        using True at p by (subst poll_scan.simps) simp
      ultimately show ?thesis by (simp add: scan_result_def)
    next
      case (Cons e es)
      then have p: "peek (queues ctx ! i) = Some (mStart (queues ctx ! i))"
        "mData (queues ctx ! i) ! nat (mStart (queues ctx ! i)) = e"
        using peeked_contents[OF q] by (auto simp: peeked_def peek_def split: option.splits if_splits)
      define dest where "dest = copy_event_remap_handle s e (int i)"
      define c0 where "c0 = ctx\<lparr>queues := (queues ctx)[i := dequeue (queues ctx ! i)]\<rparr>"
      let ?r = "if sensor dest = -1 then eventsRead else eventsRead + 1"
      have c0: "ctx_ok c0" "length (queues c0) = length (queues ctx)"
        using ctx_ok_dequeue[OF ok i(1)] by (simp_all add: c0_def)
      have "waiting_events c0 < waiting_events ctx"
        using waiting_events_dequeue[OF ok i(1)] Cons by (simp add: c0_def)
      then have "Suc (waiting_events c0) * nat (n + 1) \<le> waiting_events ctx * nat (n + 1)"
        by (intro mult_le_mono1) simp
      then have "waiting_events (advance n c0) * nat (n + 1) + nat (n - 0) <
          waiting_events ctx * nat (n + 1) + nat (n - empties)"
        using True less.prems by (simp add: waiting_events_def)
      then have "\<exists>taken ctx' data' r'.
        poll_scan s n maxReads (advance n c0) (data[nat eventsRead := dest]) 0 ?r = Some (Inr (ctx', data', r')) \<and>
        scan_result s maxReads (advance n c0) (data[nat eventsRead := dest]) ?r taken ctx' data' r'"
        using less.prems c0 ctx_ok_advance[OF c0(1) _ pos] by (intro less.hyps) simp_all
      then obtain taken ctx' data' r' where
        run: "poll_scan s n maxReads (advance n c0) (data[nat eventsRead := dest]) 0 ?r = Some (Inr (ctx', data', r'))"
        and res: "scan_result s maxReads (advance n c0) (data[nat eventsRead := dest]) ?r taken ctx' data' r'"
        by blast
      have "poll_scan s n maxReads ctx data empties eventsRead = Some (Inr (ctx', data', r'))"
        using True at p run i by (subst poll_scan.simps) (simp add: Let_def dest_def c0_def)
      moreover have "scan_result s maxReads ctx data eventsRead ((i, e) # taken) ctx' data' r'"
        by (rule scan_result_take[OF ok i(1) Cons dest_def _ _ _ _ res])
          (use less.prems True in \<open>simp_all add: c0_def\<close>)
      ultimately show ?thesis by blast
    qed
  qed
qed

lemma poll_round_result:
  assumes "ctx_ok ctx"
  shows "\<exists>taken ctx' data' eventsRead. poll_round s ctx data maxReads = Some (Inr (ctx', data', eventsRead)) \<and>
    scan_result s maxReads ctx data 0 taken ctx' data' eventsRead"
  using assms unfolding poll_round_def by (intro poll_scan_result) auto

section \<open>Threads\<close>

text \<open>Where a writer thread is: between two rounds, asleep in \<^verbatim>\<open>waitForSpace\<close> since the given number of
  broadcasts, or in the blocking \<^verbatim>\<open>poll\<close> of its driver with a buffer of the given start and size. The
  reader is idle or asleep in \<^verbatim>\<open>poll\<close> with its arguments.\<close>

datatype writer_pc = W_idle | W_sleeping nat | W_polling "int option" int

datatype reader_pc = R_idle | R_waiting int "sensors_event_t list" nat

record 'd mh_threads =
  poll_ctx :: "'d sensors_poll_context_t"
  writers :: "writer_pc list"
  reader :: reader_pc
  waiting_for_data :: bool
  data_available_cond :: nat

text \<open>The first half of a round of \<^verbatim>\<open>writerTask\<close>, also taken when the thread wakes up in \<^verbatim>\<open>waitForSpace\<close>.\<close>

definition writer_enter :: "nat \<Rightarrow> 'd mh_threads \<Rightarrow> 'd mh_threads" where
  "writer_enter i t =
     (let queue = queues (poll_ctx t) ! i
      in if waitForSpace_sleeps queue
         then t\<lparr>writers := (writers t)[i := W_sleeping (mSpaceAvailableCondition queue)]\<rparr>
         else let (bufferSize, buffer) = getWritableRegion queue SENSOR_EVENT_QUEUE_CAPACITY
              in t\<lparr>writers := (writers t)[i := W_polling buffer bufferSize]\<rparr>)"

definition on_queue :: "nat \<Rightarrow> (sensors_event_t SensorEventQueue \<Rightarrow> sensors_event_t SensorEventQueue) \<Rightarrow>
    'd mh_threads \<Rightarrow> 'd mh_threads" where
  "on_queue i f t =
     t\<lparr>poll_ctx := (poll_ctx t)\<lparr>queues := (queues (poll_ctx t))[i := f (queues (poll_ctx t) ! i)]\<rparr>\<rparr>"

text \<open>The second half, after the driver returned \<open>eventsPolled\<close>.\<close>

definition writer_return :: "nat \<Rightarrow> int \<Rightarrow> 'd mh_threads \<Rightarrow> 'd mh_threads" where
  "writer_return i eventsPolled t =
     (let t = t\<lparr>writers := (writers t)[i := W_idle]\<rparr>
      in if eventsPolled \<le> 0 then t
         else let t = on_queue i (markAsWritten eventsPolled) t
              in if waiting_for_data t then t\<lparr>data_available_cond := data_available_cond t + 1\<rparr> else t)"

text \<open>One round of the outer loop of \<^verbatim>\<open>poll\<close>: it returns the events it read or goes to sleep.\<close>

definition reader_round :: "'m multihal \<Rightarrow> int \<Rightarrow> sensors_event_t list \<Rightarrow> 'd mh_threads \<Rightarrow>
    (hal_fault + 'd mh_threads \<times> sensors_event_t list) option" where
  "reader_round s maxReads data t =
     (case poll_round s (poll_ctx t) data maxReads of
        None \<Rightarrow> None
      | Some (Inl e) \<Rightarrow> Some (Inl e)
      | Some (Inr (ctx, data, eventsRead)) \<Rightarrow>
          (if eventsRead = 0
           then Some (Inr (t\<lparr>poll_ctx := ctx, waiting_for_data := True,
                             reader := R_waiting maxReads data (data_available_cond t)\<rparr>, []))
           else Some (Inr (t\<lparr>poll_ctx := ctx, reader := R_idle\<rparr>, take (nat eventsRead) data))))"

datatype mh_event = Silent | Delivered nat "sensors_event_t list" | Returned "sensors_event_t list"

text \<open>A sleeping thread may wake up at any time, as the condition variables allow. The drivers keep to
  their contract: they write only into the buffer and report at most its size.\<close>

inductive mh_step :: "'m multihal \<Rightarrow> 'd mh_threads \<Rightarrow> mh_event \<Rightarrow> 'd mh_threads \<Rightarrow> bool" for s where
  enter: "i < length (writers t) \<Longrightarrow> writers t ! i = W_idle \<or> writers t ! i = W_sleeping c \<Longrightarrow>
    mh_step s t Silent (writer_enter i t)"
| store: "i < length (writers t) \<Longrightarrow> writers t ! i = W_polling (Some p) n \<Longrightarrow> length es \<le> nat n \<Longrightarrow>
    mh_step s t Silent (on_queue i (store_events p es) t)"
| driver_returns: "i < length (writers t) \<Longrightarrow> writers t ! i = W_polling (Some p) n \<Longrightarrow> eventsPolled \<le> n \<Longrightarrow>
    mh_step s t (Delivered i (region_events p (nat eventsPolled) (queues (poll_ctx t) ! i)))
      (writer_return i eventsPolled t)"
| poll_called: "reader t = R_idle \<Longrightarrow> maxReads \<le> int (length data) \<Longrightarrow>
    reader_round s maxReads data t = Some (Inr (t', es)) \<Longrightarrow> mh_step s t (Returned es) t'"
| poll_wakes: "reader t = R_waiting maxReads data c \<Longrightarrow>
    reader_round s maxReads data (t\<lparr>waiting_for_data := False\<rparr>) = Some (Inr (t', es)) \<Longrightarrow>
    mh_step s t (Returned es) t'"

definition threads_started :: "'d sensors_poll_context_t \<Rightarrow> 'd mh_threads" where
  "threads_started ctx = \<lparr>poll_ctx = ctx, writers = replicate (length (queues ctx)) W_idle, reader = R_idle,
     waiting_for_data = False, data_available_cond = 0\<rparr>"

inductive mh_run :: "'m multihal \<Rightarrow> 'd sensors_poll_context_t \<Rightarrow> mh_event list \<Rightarrow> 'd mh_threads \<Rightarrow> bool" for s ctx where
  start: "mh_run s ctx [] (threads_started ctx)"
| more: "mh_run s ctx h t \<Longrightarrow> mh_step s t e t' \<Longrightarrow> mh_run s ctx (h @ [e]) t'"

inductive_cases mh_stepE [elim]: "mh_step s t e t'"

section \<open>Invariant\<close>

definition writer_ok :: "sensors_event_t SensorEventQueue \<Rightarrow> writer_pc \<Rightarrow> bool" where
  "writer_ok q w = (case w of
     W_idle \<Rightarrow> True
   | W_sleeping c \<Rightarrow> c \<le> mSpaceAvailableCondition q \<and> (c = mSpaceAvailableCondition q \<longrightarrow> waitForSpace_sleeps q)
   | W_polling None n \<Rightarrow> False
   | W_polling (Some p) n \<Rightarrow> region_free q p n \<and> 0 < n)"

definition reader_ok :: "'d mh_threads \<Rightarrow> bool" where
  "reader_ok t = (case reader t of
     R_idle \<Rightarrow> \<not> waiting_for_data t
   | R_waiting maxReads data c \<Rightarrow> waiting_for_data t \<and> maxReads \<le> int (length data) \<and> c \<le> data_available_cond t \<and>
       (c = data_available_cond t \<and> 0 < maxReads \<longrightarrow> (\<forall>q \<in> set (queues (poll_ctx t)). contents q = [])))"

definition threads_ok :: "'d mh_threads \<Rightarrow> bool" where
  "threads_ok t \<longleftrightarrow> ctx_ok (poll_ctx t) \<and> length (writers t) = length (queues (poll_ctx t)) \<and>
     (\<forall>i < length (writers t). writer_ok (queues (poll_ctx t) ! i) (writers t ! i)) \<and> reader_ok t"

text \<open>Taking events out keeps what a writer relies on: a region stays free, and a writer that has not
  been woken still has a full queue.\<close>

lemma writer_ok_dequeues:
  assumes q: "queue_inv q" and w: "writer_ok q w"
  shows "writer_ok ((dequeue ^^ k) q) w"
proof (cases w)
  case (W_sleeping c)
  from w W_sleeping have c: "c \<le> mSpaceAvailableCondition q" "c = mSpaceAvailableCondition q \<longrightarrow> waitForSpace_sleeps q"
    by (simp_all add: writer_ok_def)
  have mono: "mSpaceAvailableCondition q \<le> mSpaceAvailableCondition ((dequeue ^^ k) q)" by (rule seq.signals_mono_many)
  have "k = 0" if "c = mSpaceAvailableCondition ((dequeue ^^ k) q)"
    using that c mono seq.full_until_signalled[OF q, of k] by simp
  with c mono W_sleeping show ?thesis by (auto simp: writer_ok_def)
next
  case (W_polling b n)
  with w seq.take_many[OF q, of k] show ?thesis by (cases b) (auto simp: writer_ok_def)
qed (simp add: writer_ok_def)

lemma writer_ok_idle [simp]: "writer_ok q W_idle"
  by (simp add: writer_ok_def)

lemma queue_inv_nth: "threads_ok t \<Longrightarrow> i < length (writers t) \<Longrightarrow> queue_inv (queues (poll_ctx t) ! i)"
  by (auto simp: threads_ok_def ctx_ok_def)

lemma on_queue_simps [simp]: "writers (on_queue i f t) = writers t" "reader (on_queue i f t) = reader t"
  "waiting_for_data (on_queue i f t) = waiting_for_data t"
  "data_available_cond (on_queue i f t) = data_available_cond t"
  "queues (poll_ctx (on_queue i f t)) = (queues (poll_ctx t))[i := f (queues (poll_ctx t) ! i)]"
  "nextReadIndex (poll_ctx (on_queue i f t)) = nextReadIndex (poll_ctx t)"
  by (simp_all add: on_queue_def)

lemma ctx_ok_on_queue: "ctx_ok (poll_ctx t) \<Longrightarrow> queue_inv (f (queues (poll_ctx t) ! i)) \<Longrightarrow>
  ctx_ok (poll_ctx (on_queue i f t))"
  by (auto simp: ctx_ok_def dest!: set_update_subset_insert[THEN subsetD])

lemma threads_ok_enter:
  assumes t: "threads_ok t" and i: "i < length (writers t)"
  shows "threads_ok (writer_enter i t)" "poll_ctx (writer_enter i t) = poll_ctx t"
proof -
  let ?q = "queues (poll_ctx t) ! i"
  show same: "poll_ctx (writer_enter i t) = poll_ctx t" by (simp add: writer_enter_def Let_def split: prod.split)
  have "\<exists>w. writer_enter i t = t\<lparr>writers := (writers t)[i := w]\<rparr> \<and> writer_ok ?q w"
  proof (cases "waitForSpace_sleeps ?q")
    case True
    then show ?thesis by (auto simp: writer_enter_def writer_ok_def Let_def)
  next
    case False
    with getWritableRegion_free[OF queue_inv_nth[OF t i] False, of SENSOR_EVENT_QUEUE_CAPACITY] show ?thesis
      by (auto simp: writer_enter_def writer_ok_def Let_def SENSOR_EVENT_QUEUE_CAPACITY_def)
  qed
  then show "threads_ok (writer_enter i t)"
    using t i by (auto simp: threads_ok_def reader_ok_def nth_list_update split: reader_pc.splits)
qed

lemma threads_ok_store:
  assumes t: "threads_ok t" and i: "i < length (writers t)" and w: "writers t ! i = W_polling (Some p) n"
    and es: "length es \<le> nat n"
  shows "threads_ok (on_queue i (store_events p es) t)"
    and "contents (store_events p es (queues (poll_ctx t) ! i)) = contents (queues (poll_ctx t) ! i)"
proof -
  let ?q = "queues (poll_ctx t) ! i"
  have q: "queue_inv ?q" and f: "region_free ?q p n"
    using t i w queue_inv_nth[OF t i] by (auto simp: threads_ok_def writer_ok_def)
  show c: "contents (store_events p es ?q) = contents ?q" by (rule contents_store[OF q f es])
  have "reader_ok (on_queue i (store_events p es) t)"
    using t i c by (auto simp: threads_ok_def reader_ok_def split: reader_pc.splits
        dest!: set_update_subset_insert[THEN subsetD])
  moreover have "writer_ok (store_events p es ?q) (writers t ! i)"
    using t i w by (auto simp: threads_ok_def writer_ok_def)
  ultimately show "threads_ok (on_queue i (store_events p es) t)"
    using t i ctx_ok_on_queue[of t "store_events p es" i] queue_inv_store[OF q f es] by (auto simp: threads_ok_def nth_list_update)
qed

lemma threads_ok_return:
  assumes t: "threads_ok t" and i: "i < length (writers t)" and w: "writers t ! i = W_polling (Some p) n"
    and k: "k \<le> n"
  shows "threads_ok (writer_return i k t)"
    and "length (queues (poll_ctx (writer_return i k t))) = length (queues (poll_ctx t))"
    and "j < length (writers t) \<Longrightarrow> contents (queues (poll_ctx (writer_return i k t)) ! j) =
      contents (queues (poll_ctx t) ! j) @ (if i = j then region_events p (nat k) (queues (poll_ctx t) ! i) else [])"
proof -
  let ?q = "queues (poll_ctx t) ! i"
  have q: "queue_inv ?q" and f: "region_free ?q p n"
    using t i w queue_inv_nth[OF t i] by (auto simp: threads_ok_def writer_ok_def)
  have m: "contents (markAsWritten k ?q) = contents ?q @ region_events p (nat k) ?q"
    "queue_inv (markAsWritten k ?q)" if "0 < k"
    using contents_mark[OF q f, of "nat k"] that k by simp_all
  show "length (queues (poll_ctx (writer_return i k t))) = length (queues (poll_ctx t))"
    by (simp add: writer_return_def Let_def)
  show "threads_ok (writer_return i k t)"
  proof (cases "0 < k")
    case True
    then show ?thesis
      using t i m(2) ctx_ok_on_queue[of "t\<lparr>writers := (writers t)[i := W_idle]\<rparr>" "markAsWritten k" i]
      by (auto simp: writer_return_def threads_ok_def reader_ok_def nth_list_update Let_def split: reader_pc.splits)
  next
    case False
    with t i show ?thesis
      by (auto simp: writer_return_def threads_ok_def reader_ok_def nth_list_update split: reader_pc.splits)
  qed
  show "j < length (writers t) \<Longrightarrow> contents (queues (poll_ctx (writer_return i k t)) ! j) =
      contents (queues (poll_ctx t) ! j) @ (if i = j then region_events p (nat k) ?q else [])"
    using i t m(1) by (auto simp: writer_return_def threads_ok_def Let_def region_events_def)
qed

text \<open>A round of the reader neither faults nor runs forever, and gives the events it took.\<close>

lemma reader_round_ok:
  assumes t: "threads_ok t" and d: "maxReads \<le> int (length data)"
    and t0: "t0 = t \<and> reader t = R_idle \<or> t0 = t\<lparr>waiting_for_data := False\<rparr>"
  shows "\<exists>t' es taken. reader_round s maxReads data t0 = Some (Inr (t', es)) \<and> threads_ok t' \<and>
    writers t' = writers t \<and> es = passed_on s taken \<and>
    (\<forall>i < length (writers t). contents (queues (poll_ctx t) ! i) = from_queue i taken @ contents (queues (poll_ctx t') ! i))"
proof -
  have same: "poll_ctx t0 = poll_ctx t" "writers t0 = writers t" "\<not> waiting_for_data t0"
    "data_available_cond t0 = data_available_cond t"
    using t t0 by (auto simp: threads_ok_def reader_ok_def)
  from t have ok: "ctx_ok (poll_ctx t)" and len: "length (writers t) = length (queues (poll_ctx t))"
    and w: "\<And>i. i < length (writers t) \<Longrightarrow> writer_ok (queues (poll_ctx t) ! i) (writers t ! i)"
    by (simp_all add: threads_ok_def)
  obtain taken ctx' data' r where run: "poll_round s (poll_ctx t) data maxReads = Some (Inr (ctx', data', r))"
    and res: "scan_result s maxReads (poll_ctx t) data 0 taken ctx' data' r"
    using poll_round_result[OF ok] by blast
  from res d have ctx': "ctx_ok ctx'" "length (queues ctx') = length (queues (poll_ctx t))" "length data' = length data"
    and r: "r = int (length (passed_on s taken))" "take (nat r) data' = passed_on s taken"
    and cont: "\<And>i. i < length (writers t) \<Longrightarrow> contents (queues (poll_ctx t) ! i) = from_queue i taken @ contents (queues ctx' ! i)"
    and deq: "\<And>i. i < length (writers t) \<Longrightarrow> \<exists>k. queues ctx' ! i = (dequeue ^^ k) (queues (poll_ctx t) ! i)"
    and none: "r < maxReads \<Longrightarrow> i < length (queues ctx') \<Longrightarrow> contents (queues ctx' ! i) = []" for i
    by (auto simp: scan_result_def len)
  have w': "writer_ok (queues ctx' ! i) (writers t ! i)" if i: "i < length (writers t)" for i
    using deq[OF i] writer_ok_dequeues[OF queue_inv_nth[OF t i] w[OF i]] by auto
  have empty: "\<forall>q \<in> set (queues ctx'). contents q = []" if "r < maxReads"
    using none[OF that] by (metis in_set_conv_nth)
  show ?thesis
  proof (cases "r = 0")
    case True
    with run same r ctx' d w' empty cont len show ?thesis
      by (auto simp: reader_round_def threads_ok_def reader_ok_def intro!: exI[of _ taken])
  next
    case False
    with run same r ctx' w' cont len show ?thesis
      by (auto simp: reader_round_def threads_ok_def reader_ok_def intro!: exI[of _ taken])
  qed
qed

section \<open>Histories\<close>

definition delivered_by :: "nat \<Rightarrow> mh_event \<Rightarrow> sensors_event_t list" where
  "delivered_by i e = (case e of Delivered j es \<Rightarrow> if j = i then es else [] | _ \<Rightarrow> [])"

definition returned_by :: "mh_event \<Rightarrow> sensors_event_t list" where
  "returned_by e = (case e of Returned es \<Rightarrow> es | _ \<Rightarrow> [])"

text \<open>Everything the driver of sub-HAL \<open>i\<close> delivered, and everything \<^verbatim>\<open>poll\<close> returned.\<close>

definition delivered :: "nat \<Rightarrow> mh_event list \<Rightarrow> sensors_event_t list" where
  "delivered i h = List.maps (delivered_by i) h"

definition returned :: "mh_event list \<Rightarrow> sensors_event_t list" where
  "returned h = List.maps returned_by h"

lemma history_snoc [simp]: "delivered i (h @ [e]) = delivered i h @ delivered_by i e" "delivered i [] = []"
  "returned (h @ [e]) = returned h @ returned_by e" "returned [] = []"
  by (simp_all add: delivered_def returned_def)

lemma event_simps [simp]: "delivered_by i Silent = []" "delivered_by i (Returned es) = []"
  "delivered_by i (Delivered j es) = (if j = i then es else [])"
  "returned_by Silent = []" "returned_by (Returned es) = es" "returned_by (Delivered j es) = []"
  by (simp_all add: delivered_by_def returned_by_def)

lemma mh_step_ok:
  assumes "mh_step s t e t'" "threads_ok t"
  shows "\<exists>taken. threads_ok t' \<and> length (writers t') = length (writers t) \<and> returned_by e = passed_on s taken \<and>
    (\<forall>j < length (writers t). contents (queues (poll_ctx t) ! j) @ delivered_by j e =
      from_queue j taken @ contents (queues (poll_ctx t') ! j))"
  using assms
proof (induction rule: mh_step.induct)
  case (enter i t c)
  with threads_ok_enter[OF enter(3,1)] show ?case
    by (intro exI[of _ "[]"]) (auto simp: threads_ok_def)
next
  case (store i t p n es)
  with threads_ok_store[OF store(4,1,2,3)] show ?case
    by (intro exI[of _ "[]"]) (auto simp: threads_ok_def nth_list_update)
next
  case (driver_returns i t p n k)
  with threads_ok_return[OF driver_returns(4,1,2,3)] show ?case
    by (intro exI[of _ "[]"]) (auto simp: threads_ok_def)
next
  case (poll_called t maxReads data t' es)
  with reader_round_ok[of t maxReads data t s] show ?case by auto
next
  case (poll_wakes t maxReads data c t' es)
  have "maxReads \<le> int (length data)" using poll_wakes(1,3) by (simp add: threads_ok_def reader_ok_def)
  with poll_wakes reader_round_ok[of t maxReads data "t\<lparr>waiting_for_data := False\<rparr>" s] show ?case by auto
qed

lemma open_modules_fresh: "set (queues dev) \<subseteq> {new_SensorEventQueue junk SENSOR_EVENT_QUEUE_CAPACITY} \<Longrightarrow>
  set (queues (open_modules open_sub junk name ms dev)) \<subseteq> {new_SensorEventQueue junk SENSOR_EVENT_QUEUE_CAPACITY} \<and>
  nextReadIndex (open_modules open_sub junk name ms dev) = nextReadIndex dev"
proof (induction open_sub junk name ms dev rule: open_modules.induct)
  case (2 open_sub junk name m ms dev)
  then show ?case by (cases "open_sub m name") (simp_all add: addSubHwDevice_def)
qed simp

lemma open_sensors_fresh:
  assumes "ctx = fst (open_sensors files dl open_sub junk name s)"
  shows "threads_ok (threads_started ctx)" "i < length (queues ctx) \<Longrightarrow> contents (queues ctx ! i) = []"
proof -
  have fresh: "set (queues ctx) \<subseteq> {new_SensorEventQueue junk SENSOR_EVENT_QUEUE_CAPACITY}" "nextReadIndex ctx = 0"
    using open_modules_fresh[of "\<lparr>sub_hw_devices = [], queues = [], nextReadIndex = 0\<rparr>" junk open_sub name]
    by (simp_all add: assms open_sensors_def Let_def)
  then have "ctx_ok ctx" by (auto simp: ctx_ok_def queue_inv_new SENSOR_EVENT_QUEUE_CAPACITY_def)
  then show "threads_ok (threads_started ctx)"
    by (simp add: threads_ok_def threads_started_def reader_ok_def)
  assume "i < length (queues ctx)"
  then have "queues ctx ! i \<in> {new_SensorEventQueue junk SENSOR_EVENT_QUEUE_CAPACITY}" using fresh(1) nth_mem by blast
  then show "contents (queues ctx ! i) = []" by (simp add: contents_new)
qed

lemma mh_run_ok:
  assumes "mh_run s ctx h t" "ctx = fst (open_sensors files dl open_sub junk name s0)"
  shows "threads_ok t \<and> length (writers t) = length (queues ctx) \<and>
    (\<exists>taken. returned h = passed_on s taken \<and>
      (\<forall>i < length (queues ctx). delivered i h = from_queue i taken @ contents (queues (poll_ctx t) ! i)))"
  using assms
proof (induction rule: mh_run.induct)
  case start
  show ?case
    using open_sensors_fresh[OF start] by (intro conjI exI[of _ "[]"]) (simp_all add: threads_started_def)
next
  case (more h t e t')
  then obtain taken where IH: "threads_ok t" "length (writers t) = length (queues ctx)"
    "returned h = passed_on s taken"
    "\<forall>i < length (queues ctx). delivered i h = from_queue i taken @ contents (queues (poll_ctx t) ! i)" by auto
  with mh_step_ok[OF more(2)] obtain taken' where "threads_ok t'" "length (writers t') = length (writers t)"
    "returned_by e = passed_on s taken'"
    "\<forall>j < length (writers t). contents (queues (poll_ctx t) ! j) @ delivered_by j e =
      from_queue j taken' @ contents (queues (poll_ctx t') ! j)" by auto
  with IH show ?case by (intro conjI exI[of _ "taken @ taken'"]) simp_all
qed

section \<open>Properties\<close>

text \<open>C3. In every interleaving of the writer threads, the drivers' stores and the reader, the events that
  poll has returned are, in order, the events taken out of the queues, remapped to global handles, without
  those whose sensor is unknown; and what was taken from the queue of a sub-HAL, followed by what the queue
  still holds, is exactly what its driver delivered, in its order. No event is lost, repeated or overwritten
  while it waits.\<close>

theorem events_conserved:
  assumes "mh_run s ctx h t" and "ctx = fst (open_sensors files dl open_sub junk name s0)"
  shows "\<exists>taken. returned h = passed_on s taken \<and>
    (\<forall>i < length (queues ctx). delivered i h = from_queue i taken @ contents (queues (poll_ctx t) ! i))"
  using mh_run_ok[OF assms] by blast

definition demo_ctx :: "nat sensors_poll_context_t" where
  "demo_ctx = fst (open_sensors demo_files demo_dl (\<lambda>m nm. if m = 5 then Inr 15 else Inl (-1)) (\<lambda>_. demo_event 0)
     ''poll'' multihal_loaded)"

definition demo_threads :: "nat mh_threads" where
  "demo_threads = writer_return 0 1 (on_queue 0 (store_events 0 [demo_event 7])
     (writer_enter 0 (threads_started demo_ctx)))"

lemma demo_queues: "queues demo_ctx = [new_SensorEventQueue (\<lambda>_. demo_event 0) 36]"
  using demo_loaded by (simp add: demo_ctx_def open_sensors_def lazy_init_modules_def multihal_loaded_def
      loaded_with_def addSubHwDevice_def SENSOR_EVENT_QUEUE_CAPACITY_def)

lemma demo_run: "mh_run multihal_loaded demo_ctx [Silent, Silent, Delivered 0 [demo_event 7]] demo_threads"
proof -
  let ?t0 = "threads_started demo_ctx"
  have w0: "length (writers ?t0) = 1" "writers ?t0 ! 0 = W_idle" by (simp_all add: threads_started_def demo_queues)
  have t1: "writer_enter 0 ?t0 = ?t0\<lparr>writers := [W_polling (Some 0) 36]\<rparr>"
    by (simp add: writer_enter_def threads_started_def demo_queues new_SensorEventQueue_def waitForSpace_sleeps_def
        getWritableRegion_def SENSOR_EVENT_QUEUE_CAPACITY_def Let_def)
  have q1: "queues (poll_ctx (writer_enter 0 ?t0)) = [new_SensorEventQueue (\<lambda>_. demo_event 0) 36]"
    by (simp add: t1, simp add: threads_started_def demo_queues)
  have "mh_run multihal_loaded demo_ctx ([] @ [Silent]) (writer_enter 0 ?t0)"
    by (rule mh_run.more[OF mh_run.start], rule mh_step.enter) (use w0 in auto)
  moreover have "mh_step multihal_loaded (writer_enter 0 ?t0) Silent
      (on_queue 0 (store_events 0 [demo_event 7]) (writer_enter 0 ?t0))"
    by (rule mh_step.store[where n = 36]) (simp_all add: t1)
  ultimately have "mh_run multihal_loaded demo_ctx ([Silent] @ [Silent]) (on_queue 0 (store_events 0 [demo_event 7]) (writer_enter 0 ?t0))"
    using mh_run.more by fastforce
  moreover have "mh_step multihal_loaded (on_queue 0 (store_events 0 [demo_event 7]) (writer_enter 0 ?t0))
      (Delivered 0 (region_events 0 (nat 1) (queues (poll_ctx (on_queue 0 (store_events 0 [demo_event 7]) (writer_enter 0 ?t0))) ! 0)))
      demo_threads"
    unfolding demo_threads_def by (rule mh_step.driver_returns[where n = 36]) (simp_all add: t1)
  moreover have "region_events 0 (nat 1) (queues (poll_ctx (on_queue 0 (store_events 0 [demo_event 7]) (writer_enter 0 ?t0))) ! 0) = [demo_event 7]"
    by (simp add: q1 region_events_def store_events_def)
  ultimately show ?thesis using mh_run.more by fastforce
qed

theorem events_conserved_witness:
  "\<exists>taken. returned [Silent, Silent, Delivered 0 [demo_event 7]] = passed_on multihal_loaded taken \<and>
    (\<forall>i < length (queues demo_ctx). delivered i [Silent, Silent, Delivered 0 [demo_event 7]] =
       from_queue i taken @ contents (queues (poll_ctx demo_threads) ! i))"
  by (rule events_conserved[OF demo_run demo_ctx_def])

text \<open>C11. No wake-up is lost: in every reachable state, a reader asleep in poll that no broadcast has woken
  has only empty queues in front of it, a writer asleep in waitForSpace that no broadcast has woken has a
  full queue, so the two never sleep for each other; and a reader that is called or woken finds its way
  through the queues without a fault and within finitely many steps.\<close>

theorem no_lost_wakeup:
  assumes run: "mh_run s ctx h t" and ctx: "ctx = fst (open_sensors files dl open_sub junk name s0)"
    and i: "i < length (queues ctx)"
  shows "(\<forall>maxReads data. reader t = R_waiting maxReads data (data_available_cond t) \<and> 0 < maxReads \<longrightarrow>
      contents (queues (poll_ctx t) ! i) = []) \<and>
    (writers t ! i = W_sleeping (mSpaceAvailableCondition (queues (poll_ctx t) ! i)) \<longrightarrow>
      mSize (queues (poll_ctx t) ! i) = mCapacity (queues (poll_ctx t) ! i) \<and>
      contents (queues (poll_ctx t) ! i) \<noteq> []) \<and>
    (\<forall>maxReads data. maxReads \<le> int (length data) \<longrightarrow>
      (\<exists>t' es. reader_round s maxReads data (t\<lparr>waiting_for_data := False\<rparr>) = Some (Inr (t', es))))"
proof -
  from mh_run_ok[OF run ctx] i have t: "threads_ok t" and iw: "i < length (writers t)"
    and iq: "i < length (queues (poll_ctx t))" by (auto simp: threads_ok_def)
  have "contents (queues (poll_ctx t) ! i) = []"
    if "reader t = R_waiting maxReads data (data_available_cond t)" "0 < maxReads" for maxReads data
    using t that iq by (auto simp: threads_ok_def reader_ok_def)
  moreover have "waitForSpace_sleeps (queues (poll_ctx t) ! i)"
    if "writers t ! i = W_sleeping (mSpaceAvailableCondition (queues (poll_ctx t) ! i))"
    using t iw that by (auto simp: threads_ok_def writer_ok_def)
  moreover have "contents q \<noteq> []" if "waitForSpace_sleeps q" "queue_inv q" for q :: "sensors_event_t SensorEventQueue"
  proof -
    have "length (contents q) > 0" using that by (simp add: waitForSpace_sleeps_def queue_inv_def)
    then show ?thesis unfolding length_greater_0_conv .
  qed
  ultimately show ?thesis
    using queue_inv_nth[OF t iw] reader_round_ok[OF t, of _ _ "t\<lparr>waiting_for_data := False\<rparr>" s]
    by (fastforce simp: waitForSpace_sleeps_def)
qed

theorem no_lost_wakeup_witness:
  "\<exists>t' es. reader_round multihal_loaded 1 [demo_event 0] (demo_threads\<lparr>waiting_for_data := False\<rparr>) = Some (Inr (t', es))"
proof -
  have "1 \<le> int (length [demo_event 0])" "0 < length (queues demo_ctx)" by (simp_all add: demo_queues)
  with no_lost_wakeup[OF demo_run demo_ctx_def, of 0] show ?thesis by blast
qed

end
