(* ===== verification/Sensors_Service.thy ===== *)
theory Sensors_Service
  imports Multihal_Routing
begin

text \<open>
  The sensor service \<^verbatim>\<open>sensors/Sensors.cpp\<close>: every method of the HIDL interface turns into a call of the
  sensor device and the device's status into a HIDL result. The device is either the multiplexer of
  \<open>Multihal\<close> or the one driver of the platform; the last section puts the service on top of the
  multiplexer.
\<close>

section \<open>Status codes\<close>

text \<open>The numbers of \<^verbatim>\<open>utils/Errors.h\<close> and the device versions of \<^verbatim>\<open>hardware/sensors.h\<close> are arguments; the
  documented values are \<open>errors_h\<close>.\<close>

record status_codes =
  OK :: int
  PERMISSION_DENIED :: int
  NO_MEMORY :: int
  BAD_VALUE :: int
  UNKNOWN_ERROR :: int
  NO_INIT :: int
  SENSORS_DEVICE_API_VERSION_1_3 :: int
  SENSORS_DEVICE_API_VERSION_1_4 :: int

definition errors_h :: "status_codes \<Rightarrow> bool" where
  "errors_h c \<longleftrightarrow> OK c = 0 \<and> PERMISSION_DENIED c = -1 \<and> NO_MEMORY c = -12 \<and> BAD_VALUE c = -22 \<and>
     UNKNOWN_ERROR c = -(2 ^ 31) \<and> NO_INIT c = -19 \<and>
     0 < SENSORS_DEVICE_API_VERSION_1_3 c \<and> SENSORS_DEVICE_API_VERSION_1_3 c < SENSORS_DEVICE_API_VERSION_1_4 c"

datatype Result = Result_OK | Result_PERMISSION_DENIED | Result_NO_MEMORY | Result_BAD_VALUE
  | Result_INVALID_OPERATION

definition ResultFromStatus :: "status_codes \<Rightarrow> int \<Rightarrow> Result" where
  "ResultFromStatus c err =
     (if err = OK c then Result_OK
      else if err = PERMISSION_DENIED c then Result_PERMISSION_DENIED
      else if err = NO_MEMORY c then Result_NO_MEMORY
      else if err = BAD_VALUE c then Result_BAD_VALUE
      else Result_INVALID_OPERATION)"

section \<open>The device and the module the service drives\<close>

text \<open>Function pointers that may be NULL are options. A call gives a fault of the driver, or its status
  and the calls that reached the hardware drivers.\<close>

type_synonym 'd answer = "hal_fault + int \<times> 'd calls"

record 'd sensors_device =
  common_version :: int
  dev_activate :: "int \<Rightarrow> int \<Rightarrow> 'd answer"
  dev_batch :: "int \<Rightarrow> int \<Rightarrow> int \<Rightarrow> int \<Rightarrow> 'd answer"
  dev_flush :: "int \<Rightarrow> 'd answer"
  dev_inject_sensor_data :: "(sensors_event_t \<Rightarrow> 'd answer) option"
  dev_register_direct_channel :: "(u8 list option \<Rightarrow> int \<Rightarrow> 'd answer) option"
  dev_config_direct_report :: "(int \<Rightarrow> int \<Rightarrow> int \<Rightarrow> 'd answer) option"

record sensors_module =
  mod_set_operation_mode :: "(u32 \<Rightarrow> int) option"

record 'd Sensors =
  mInitCheck :: int
  mSensorModule :: "sensors_module option"
  mSensorDevice :: "'d sensors_device option"
  mPollLock :: bool

datatype 'a outcome = Crash hal_fault | CheckFailed | ExitProcess | Reply 'a

definition answered :: "'d answer \<Rightarrow> (int \<Rightarrow> 'a) \<Rightarrow> ('a \<times> 'd calls) outcome" where
  "answered a f = (case a of Inl e \<Rightarrow> Crash e | Inr (err, cs) \<Rightarrow> Reply (f err, cs))"

section \<open>Construction\<close>

text \<open>\<open>stat\<close> is whether a file exists, \<open>hw_get_module\<close> the platform's module and its status, \<open>sensors_open_1\<close>
  the device and its status.\<close>

definition UseMultiHal :: "(string \<Rightarrow> bool) \<Rightarrow> bool" where
  "UseMultiHal stat = stat MULTI_HAL_CONFIG_FILE_PATH"

definition getHalDeviceVersion :: "'d Sensors \<Rightarrow> int" where
  "getHalDeviceVersion s = (case mSensorDevice s of None \<Rightarrow> -1 | Some d \<Rightarrow> common_version d)"

definition Sensors_new :: "status_codes \<Rightarrow> (string \<Rightarrow> bool) \<Rightarrow> sensors_module \<Rightarrow> int \<times> sensors_module option \<Rightarrow>
    (sensors_module \<Rightarrow> int \<times> 'd sensors_device option) \<Rightarrow> 'd Sensors outcome" where
  "Sensors_new c stat get_multi_hal_module_info hw_get_module sensors_open_1 =
     (let (err, module) = (if UseMultiHal stat then (OK c, Some get_multi_hal_module_info) else hw_get_module);
          s = \<lparr>mInitCheck = NO_INIT c, mSensorModule = module, mSensorDevice = None, mPollLock = False\<rparr>
      in case module of
           None \<Rightarrow> Reply (s\<lparr>mInitCheck := UNKNOWN_ERROR c\<rparr>)
         | Some m \<Rightarrow>
             (if err \<noteq> OK c then Reply (s\<lparr>mInitCheck := err\<rparr>)
              else let (err, device) = sensors_open_1 m; s = s\<lparr>mSensorDevice := device\<rparr>
              in if err \<noteq> OK c then Reply (s\<lparr>mInitCheck := err\<rparr>)
                 else if \<not> getHalDeviceVersion s \<ge> SENSORS_DEVICE_API_VERSION_1_3 c then CheckFailed
                 else Reply (s\<lparr>mInitCheck := OK c\<rparr>)))"

definition initCheck :: "'d Sensors \<Rightarrow> int" where
  "initCheck s = mInitCheck s"

definition HIDL_FETCH_ISensors :: "status_codes \<Rightarrow> 'd Sensors outcome \<Rightarrow> 'd Sensors option outcome" where
  "HIDL_FETCH_ISensors c new =
     (case new of Reply sensors \<Rightarrow> Reply (if initCheck sensors \<noteq> OK c then None else Some sensors)
      | Crash e \<Rightarrow> Crash e | CheckFailed \<Rightarrow> CheckFailed | ExitProcess \<Rightarrow> ExitProcess)"

section \<open>Methods\<close>

text \<open>The conversions between the HAL's and the HIDL structures are library code, here arguments.\<close>

definition getSensorsList :: "(sensor_t \<Rightarrow> 'i) \<Rightarrow> sensor_t list \<Rightarrow> 'i list" where
  "getSensorsList convertFromSensor lst = map convertFromSensor lst"

definition call_through :: "'d Sensors \<Rightarrow> ('d sensors_device \<Rightarrow> 'd answer) \<Rightarrow> 'd answer" where
  "call_through s f = (case mSensorDevice s of None \<Rightarrow> Inl NullDevice | Some d \<Rightarrow> f d)"

definition setOperationMode :: "status_codes \<Rightarrow> 'd Sensors \<Rightarrow> u32 \<Rightarrow> Result" where
  "setOperationMode c s mode =
     (case mSensorModule s of
        Some m \<Rightarrow>
          (case mod_set_operation_mode m of
             Some f \<Rightarrow> if getHalDeviceVersion s < SENSORS_DEVICE_API_VERSION_1_4 c then Result_INVALID_OPERATION
                       else ResultFromStatus c (f mode)
           | None \<Rightarrow> Result_INVALID_OPERATION)
      | None \<Rightarrow> Result_INVALID_OPERATION)"

definition Sensors_activate :: "status_codes \<Rightarrow> 'd Sensors \<Rightarrow> int \<Rightarrow> bool \<Rightarrow> (Result \<times> 'd calls) outcome" where
  "Sensors_activate c s sensor_handle enabled =
     answered (call_through s (\<lambda>d. dev_activate d sensor_handle (if enabled then 1 else 0))) (ResultFromStatus c)"

definition Sensors_batch :: "status_codes \<Rightarrow> 'd Sensors \<Rightarrow> int \<Rightarrow> int \<Rightarrow> int \<Rightarrow> (Result \<times> 'd calls) outcome" where
  "Sensors_batch c s sensor_handle sampling_period_ns max_report_latency_ns =
     answered (call_through s (\<lambda>d. dev_batch d sensor_handle 0 sampling_period_ns max_report_latency_ns))
       (ResultFromStatus c)"

definition Sensors_flush :: "status_codes \<Rightarrow> 'd Sensors \<Rightarrow> int \<Rightarrow> (Result \<times> 'd calls) outcome" where
  "Sensors_flush c s sensor_handle = answered (call_through s (\<lambda>d. dev_flush d sensor_handle)) (ResultFromStatus c)"

definition injectSensorData :: "status_codes \<Rightarrow> ('ev \<Rightarrow> sensors_event_t) \<Rightarrow> 'd Sensors \<Rightarrow> 'ev \<Rightarrow>
    (Result \<times> 'd calls) outcome" where
  "injectSensorData c convertToSensorEvent s event =
     (if getHalDeviceVersion s < SENSORS_DEVICE_API_VERSION_1_4 c then Reply (Result_INVALID_OPERATION, [])
      else case mSensorDevice s of
        None \<Rightarrow> Crash NullDevice
      | Some d \<Rightarrow> (case dev_inject_sensor_data d of
          None \<Rightarrow> Reply (Result_INVALID_OPERATION, [])
        | Some inject \<Rightarrow> answered (inject (convertToSensorEvent event)) (ResultFromStatus c)))"

definition kPollMaxBufferSize :: int where
  "kPollMaxBufferSize = 128"

text \<open>The sensors that came with connected dynamic sensor events; each must bring its own description.\<close>

fun dynamic_sensors :: "(sensor_t \<Rightarrow> 'i) \<Rightarrow> sensors_event_t list \<Rightarrow> 'i list option" where
  "dynamic_sensors convertFromSensor [] = Some []"
| "dynamic_sensors convertFromSensor (e # es) =
     (if e_type e \<noteq> SENSOR_TYPE_DYNAMIC_SENSOR_META \<or> \<not> dynamic_connected e
      then dynamic_sensors convertFromSensor es
      else case dynamic_sensor e of
        None \<Rightarrow> None
      | Some sn \<Rightarrow> (if handle sn \<noteq> dynamic_handle e then None
          else case dynamic_sensors convertFromSensor es of None \<Rightarrow> None
            | Some is \<Rightarrow> Some (convertFromSensor sn # is)))"

text \<open>\<open>dev_poll\<close> is the blocking \<^verbatim>\<open>poll\<close> of the device: the status and the events it stored in a buffer of the
  given size.\<close>

definition Sensors_poll :: "status_codes \<Rightarrow> (sensor_t \<Rightarrow> 'i) \<Rightarrow> (sensors_event_t \<Rightarrow> 'ev) \<Rightarrow>
    (int \<Rightarrow> int \<times> sensors_event_t list) \<Rightarrow> 'd Sensors \<Rightarrow> int \<Rightarrow> (Result \<times> 'ev list \<times> 'i list) outcome" where
  "Sensors_poll c convertFromSensor convertFromSensorEvent dev_poll s maxCount =
     (if mPollLock s then ExitProcess
      else let (err, data) =
          (if maxCount \<le> 0 then (BAD_VALUE c, [])
           else dev_poll (if maxCount \<le> kPollMaxBufferSize then maxCount else kPollMaxBufferSize))
      in if err < 0 then Reply (ResultFromStatus c err, [], [])
         else case dynamic_sensors convertFromSensor (take (nat err) data) of
           None \<Rightarrow> CheckFailed
         | Some added \<Rightarrow> Reply (Result_OK, map convertFromSensorEvent (take (nat err) data), added))"

text \<open>The test that opens the three direct channel methods: \<open>none\<close> when the device lacks a function.\<close>

definition direct_channel :: "'d Sensors \<Rightarrow> 'a outcome \<Rightarrow>
    ((u8 list option \<Rightarrow> int \<Rightarrow> 'd answer) \<Rightarrow> (int \<Rightarrow> int \<Rightarrow> int \<Rightarrow> 'd answer) \<Rightarrow> 'a outcome) \<Rightarrow> 'a outcome" where
  "direct_channel s none f = (case mSensorDevice s of None \<Rightarrow> Crash NullDevice
     | Some d \<Rightarrow> (case (dev_register_direct_channel d, dev_config_direct_report d) of
         (Some reg, Some config) \<Rightarrow> f reg config | _ \<Rightarrow> none))"

definition registerDirectChannel :: "status_codes \<Rightarrow> ('mi \<Rightarrow> u8 list option) \<Rightarrow> 'd Sensors \<Rightarrow> 'mi \<Rightarrow>
    ((Result \<times> int) \<times> 'd calls) outcome" where
  "registerDirectChannel c convertFromSharedMemInfo s mi =
     direct_channel s (Reply ((Result_INVALID_OPERATION, -1), [])) (\<lambda>reg config.
       case convertFromSharedMemInfo mi of
         None \<Rightarrow> Reply ((Result_BAD_VALUE, -1), [])
       | Some m \<Rightarrow> answered (reg (Some m) (-1))
           (\<lambda>err. if err < 0 then (ResultFromStatus c err, -1) else (Result_OK, err)))"

definition unregisterDirectChannel :: "'d Sensors \<Rightarrow> int \<Rightarrow> (Result \<times> 'd calls) outcome" where
  "unregisterDirectChannel s channelHandle =
     direct_channel s (Reply (Result_INVALID_OPERATION, [])) (\<lambda>reg config.
       answered (reg None channelHandle) (\<lambda>err. Result_OK))"

definition configDirectReport :: "status_codes \<Rightarrow> ('r \<Rightarrow> int) \<Rightarrow> 'r \<Rightarrow> 'd Sensors \<Rightarrow> int \<Rightarrow> int \<Rightarrow> 'r \<Rightarrow>
    ((Result \<times> int) \<times> 'd calls) outcome" where
  "configDirectReport c convertFromRateLevel RateLevel_STOP s sensorHandle channelHandle rate =
     direct_channel s (Reply ((Result_INVALID_OPERATION, -1), [])) (\<lambda>reg config.
       let rate_level = convertFromRateLevel rate
       in if rate_level < 0 then Reply ((Result_BAD_VALUE, -1), [])
          else answered (config sensorHandle channelHandle rate_level)
            (\<lambda>err. if rate = RateLevel_STOP then (ResultFromStatus c err, -1)
                   else (if err > 0 then Result_OK else ResultFromStatus c err, err)))"

section \<open>The service on the multiplexer\<close>

text \<open>The device \<^verbatim>\<open>open_sensors\<close> returns: version 1.3, no direct channels, since the structure is zeroed and
  those pointers are never set.\<close>

definition multihal_device :: "status_codes \<Rightarrow> ('d \<Rightarrow> dev_call \<Rightarrow> int) \<Rightarrow> 'm multihal \<Rightarrow> 'd sensors_poll_context_t \<Rightarrow>
    'd sensors_device" where
  "multihal_device c run st ctx =
     \<lparr>common_version = SENSORS_DEVICE_API_VERSION_1_3 c, dev_activate = device__activate run st ctx,
      dev_batch = device__batch run st ctx, dev_flush = device__flush ctx,
      dev_inject_sensor_data = Some (device__inject_sensor_data run st ctx),
      dev_register_direct_channel = None, dev_config_direct_report = None\<rparr>"

text \<open>The module of the multiplexer has no operation mode function.\<close>

definition multihal_module :: sensors_module where
  "multihal_module = \<lparr>mod_set_operation_mode = None\<rparr>"

definition multihal_service :: "status_codes \<Rightarrow> ('d \<Rightarrow> dev_call \<Rightarrow> int) \<Rightarrow> 'm multihal \<Rightarrow> 'd sensors_poll_context_t \<Rightarrow>
    'd Sensors outcome" where
  "multihal_service c run st ctx =
     Sensors_new c (\<lambda>_. True) multihal_module (0, None) (\<lambda>_. (0, Some (multihal_device c run st ctx)))"

lemma multihal_service_up: "errors_h c \<Longrightarrow> multihal_service c run st ctx =
  Reply \<lparr>mInitCheck = 0, mSensorModule = Some multihal_module,
    mSensorDevice = Some (multihal_device c run st ctx), mPollLock = False\<rparr>"
  by (simp add: multihal_service_def Sensors_new_def UseMultiHal_def getHalDeviceVersion_def multihal_device_def
      errors_h_def Let_def)

lemma dynamic_sensors_eq: "dynamic_sensors conv es =
  (if \<forall>e \<in> set es. e_type e = SENSOR_TYPE_DYNAMIC_SENSOR_META \<and> dynamic_connected e \<longrightarrow>
        (\<exists>sn. dynamic_sensor e = Some sn \<and> handle sn = dynamic_handle e)
   then Some (map (\<lambda>e. conv (the (dynamic_sensor e)))
     (filter (\<lambda>e. e_type e = SENSOR_TYPE_DYNAMIC_SENSOR_META \<and> dynamic_connected e) es))
   else None)"
  by (induction es) (auto split: option.splits)

section \<open>Property\<close>


definition demo_codes :: status_codes where
  "demo_codes = \<lparr>OK = 0, PERMISSION_DENIED = -1, NO_MEMORY = -12, BAD_VALUE = -22, UNKNOWN_ERROR = -(2 ^ 31),
     NO_INIT = -19, SENSORS_DEVICE_API_VERSION_1_3 = 3, SENSORS_DEVICE_API_VERSION_1_4 = 4\<rparr>"

definition demo_flags :: flag_bits where
  "demo_flags = \<lparr>SENSOR_FLAG_WAKE_UP = 1, SENSOR_FLAG_ON_CHANGE_MODE = 2\<rparr>"

definition demo_state :: "nat multihal" where
  "demo_state = lazy_init_sensors_list demo_flags demo_files demo_dl demo_sensors multihal_loaded"


end
