(* ===== verification/C_Strings.thy ===== *)
theory C_Strings
  imports Prelude "HOL-Library.Char_ord"
begin

text \<open>
  The string functions of the C library that the sources call: searching a character, decimal output
  and \<^verbatim>\<open>strtol\<close> with \<^verbatim>\<open>atoi\<close>, and the lemmas that printed numbers are read back.
\<close>

section \<open>Functions\<close>

text \<open>Strings are lists of characters without the terminator. \<open>strchr_split c s\<close> is what stands before and
  behind the first \<open>c\<close>, or \<open>None\<close> for a null pointer.\<close>

definition strchr_split :: "char \<Rightarrow> string \<Rightarrow> (string \<times> string) option" where
  "strchr_split c s = (if c \<in> set s then Some (takeWhile (\<lambda>x. x \<noteq> c) s, tl (dropWhile (\<lambda>x. x \<noteq> c) s)) else None)"

definition digit_char :: "nat \<Rightarrow> char" where
  "digit_char d = char_of (48 + d)"

fun nat_dec :: "nat \<Rightarrow> string" where
  "nat_dec n = (if n < 10 then [digit_char n] else nat_dec (n div 10) @ [digit_char (n mod 10)])"

declare nat_dec.simps [simp del]

text \<open>\<^verbatim>\<open>%d\<close>\<close>

definition format_d :: "int \<Rightarrow> string" where
  "format_d i = (if i < 0 then CHR 0x2D # nat_dec (nat (- i)) else nat_dec (nat i))"

definition digit_val :: "nat \<Rightarrow> char \<Rightarrow> nat option" where
  "digit_val base c =
     (let n = of_char c;
          d = (if 48 \<le> n \<and> n \<le> 57 then n - 48 else if 97 \<le> n \<and> n \<le> 122 then n - 87
               else if 65 \<le> n \<and> n \<le> 90 then n - 55 else 99)
      in if d < base then Some d else None)"

fun digits_value :: "nat \<Rightarrow> nat \<Rightarrow> string \<Rightarrow> nat" where
  "digits_value base acc [] = acc"
| "digits_value base acc (c # cs) =
     (case digit_val base c of Some d \<Rightarrow> digits_value base (acc * base + d) cs | None \<Rightarrow> acc)"

definition is_space :: "char \<Rightarrow> bool" where
  "is_space c \<longleftrightarrow> of_char c = (32 :: nat) \<or> (9 \<le> (of_char c :: nat) \<and> of_char c \<le> (13 :: nat))"

text \<open>A \<^verbatim>\<open>long\<close> has 32 bits on the platform; \<^verbatim>\<open>strtol\<close> stops at its limits.\<close>

definition clamp_long :: "int \<Rightarrow> int" where
  "clamp_long i = (if i > 2 ^ 31 - 1 then 2 ^ 31 - 1 else if i < -(2 ^ 31) then -(2 ^ 31) else i)"

text \<open>The sign, the prefix that asks for base 16, and the base that \<^verbatim>\<open>strtol\<close> works with.\<close>

definition is_negative :: "string \<Rightarrow> bool" where
  "is_negative s = (case s of c # _ \<Rightarrow> c = CHR 0x2D | [] \<Rightarrow> False)"

definition skip_sign :: "string \<Rightarrow> string" where
  "skip_sign s = (case s of c # r \<Rightarrow> if c = CHR 0x2D \<or> c = CHR 0x2B then r else s | [] \<Rightarrow> [])"

definition hex_prefix :: "string \<Rightarrow> bool" where
  "hex_prefix s \<longleftrightarrow> length s > 2 \<and> s ! 0 = CHR ''0'' \<and> (s ! 1 = CHR ''x'' \<or> s ! 1 = CHR ''X'') \<and>
     digit_val 16 (s ! 2) \<noteq> None"

definition strtol_base :: "nat \<Rightarrow> string \<Rightarrow> nat" where
  "strtol_base base s =
     (if base \<noteq> 0 then base else if hex_prefix s then 16
      else if (case s of z # _ \<Rightarrow> z = CHR ''0'' | [] \<Rightarrow> False) then 8 else 10)"

text \<open>The value and the rest of the string; without a digit the rest is the whole string.\<close>

definition strtol :: "string \<Rightarrow> nat \<Rightarrow> int \<times> string" where
  "strtol s base =
     (let s1 = dropWhile is_space s;
          s2 = skip_sign s1;
          b = strtol_base base s2;
          s3 = (if (base = 0 \<or> base = 16) \<and> hex_prefix s2 then drop 2 s2 else s2);
          ds = takeWhile (\<lambda>c. digit_val b c \<noteq> None) s3
      in if ds = [] then (0, s)
         else (clamp_long ((if is_negative s1 then -1 else 1) * int (digits_value b 0 ds)), drop (length ds) s3))"

definition atoi :: "string \<Rightarrow> int" where
  "atoi str = fst (strtol str 10)"

section \<open>Numbers\<close>

lemma of_char_digit: "d < 10 \<Longrightarrow> of_char (digit_char d) = 48 + d"
  by (simp add: digit_char_def)

lemma digit_val_char: "d < 10 \<Longrightarrow> digit_val 10 (digit_char d) = Some d"
  by (simp add: digit_val_def of_char_digit)

lemma nat_dec_digits: "c \<in> set (nat_dec n) \<Longrightarrow> \<exists>d < 10. c = digit_char d"
proof (induction n rule: nat_dec.induct)
  case (1 n)
  show ?case
  proof (cases "n < 10")
    case True
    with 1 show ?thesis by (auto simp: nat_dec.simps[of n])
  next
    case False
    then consider "c \<in> set (nat_dec (n div 10))" | "c = digit_char (n mod 10)"
      using 1(2) by (auto simp: nat_dec.simps[of n])
    then show ?thesis
    proof cases
      case 2
      then show ?thesis by (intro exI[of _ "n mod 10"]) simp
    qed (use 1(1) False in blast)
  qed
qed

lemma digits_value_append: "(\<forall>c \<in> set xs. digit_val b c \<noteq> None) \<Longrightarrow>
  digits_value b acc (xs @ ys) = digits_value b (digits_value b acc xs) ys"
  by (induction xs arbitrary: acc) (auto split: option.splits)

lemma nat_dec_is_digits: "c \<in> set (nat_dec n) \<Longrightarrow> digit_val 10 c \<noteq> None"
  using nat_dec_digits digit_val_char by fastforce

lemma digits_value_nat_dec: "digits_value 10 0 (nat_dec n) = n"
proof (induction n rule: nat_dec.induct)
  case (1 n)
  show ?case
  proof (cases "n < 10")
    case True
    then show ?thesis by (simp add: nat_dec.simps[of n] digit_val_char)
  next
    case False
    with 1 show ?thesis
      using nat_dec_is_digits
      by (simp add: nat_dec.simps[of n] digits_value_append digit_val_char)
  qed
qed

lemma nat_dec_not_Nil [simp]: "nat_dec n \<noteq> []"
  by (subst nat_dec.simps) simp

lemma length_nat_dec: "n < 10 ^ k \<Longrightarrow> 0 < k \<Longrightarrow> length (nat_dec n) \<le> k"
proof (induction n arbitrary: k rule: nat_dec.induct)
  case (1 n)
  show ?case
  proof (cases "n < 10")
    case True
    with 1 show ?thesis by (subst nat_dec.simps) simp
  next
    case False
    from 1(3) obtain j where j: "k = Suc j" by (cases k) auto
    with False 1(2) have "0 < j" by (cases j) auto
    with j have k: "k = Suc j" "0 < j" by simp_all
    then have "n div 10 < 10 ^ j" using 1(2) by (simp add: less_mult_imp_div_less mult.commute)
    with 1(1)[OF False _ k(2)] False k show ?thesis by (subst nat_dec.simps) simp
  qed
qed

lemma hd_nat_dec: "hd (nat_dec n) = CHR ''0'' \<longleftrightarrow> n = 0"
proof (induction n rule: nat_dec.induct)
  case (1 n)
  show ?case
  proof (cases "n < 10")
    case True
    have "digit_val 10 (CHR ''0'') = Some 0" "digit_char 0 = CHR ''0''"
      by (simp add: digit_val_def, code_simp)
    with True digit_val_char[OF True] show ?thesis by (auto simp: nat_dec.simps[of n])
  next
    case False
    with 1 show ?thesis by (simp add: nat_dec.simps[of n])
  qed
qed

lemma digit_no_space_sign: "d < 10 \<Longrightarrow> \<not> is_space (digit_char d) \<and> digit_char d \<noteq> CHR 0x2D \<and> digit_char d \<noteq> CHR 0x2B \<and>
  digit_char d \<noteq> CHR ''='' \<and> digit_char d \<noteq> CHR '';''"
proof -
  assume d: "d < 10"
  then have "digit_char d \<noteq> c" if "(of_char c :: nat) < 48 \<or> (of_char c :: nat) > 57" for c
    using that of_char_digit[OF d] by auto
  with d show ?thesis by (simp add: is_space_def of_char_digit)
qed

lemma nat_dec_Cons: "\<exists>d cs. d < 10 \<and> nat_dec n = digit_char d # cs"
  using nat_dec_digits[of "hd (nat_dec n)" n] by (cases "nat_dec n") auto

lemma format_d_start: "dropWhile is_space (format_d i @ rest) = format_d i @ rest"
  "skip_sign (format_d i @ rest) = nat_dec (nat \<bar>i\<bar>) @ rest" "is_negative (format_d i @ rest) \<longleftrightarrow> i < 0"
  using nat_dec_Cons[of "nat \<bar>i\<bar>"] digit_no_space_sign
  by (auto simp: format_d_def skip_sign_def is_negative_def is_space_def)

lemma takeWhile_nat_dec: "rest = [] \<or> digit_val 10 (hd rest) = None \<Longrightarrow>
  takeWhile (\<lambda>c. digit_val 10 c \<noteq> None) (nat_dec n @ rest) = nat_dec n"
  using nat_dec_is_digits by (subst takeWhile_append2) (auto simp: takeWhile_eq_Nil_iff)

lemma takeWhile_nat_dec_all: "takeWhile (\<lambda>c. digit_val 10 c \<noteq> None) (nat_dec n) = nat_dec n"
  using nat_dec_is_digits by (subst takeWhile_eq_all_conv) blast

lemma clamp_long_id: "-(2 ^ 31) \<le> i \<Longrightarrow> i < 2 ^ 31 \<Longrightarrow> clamp_long i = i"
  by (simp add: clamp_long_def)

lemma strtol_format_d: "-(2 ^ 31) \<le> i \<Longrightarrow> i < 2 ^ 31 \<Longrightarrow> rest = [] \<or> digit_val 10 (hd rest) = None \<Longrightarrow>
  strtol (format_d i @ rest) 10 = (i, rest)"
  by (simp add: strtol_def Let_def format_d_start strtol_base_def takeWhile_nat_dec digits_value_nat_dec clamp_long_id
      del: not_None_eq)

lemma hex_prefix_nat_dec: "\<not> hex_prefix (nat_dec n)"
proof
  assume h: "hex_prefix (nat_dec n)"
  then have "digit_val 10 (nat_dec n ! 1) \<noteq> None" by (intro nat_dec_is_digits[of _ n]) (auto simp: hex_prefix_def)
  with h show False by (auto simp: hex_prefix_def digit_val_def)
qed

lemma strtol_format_d_0:
  assumes "-(2 ^ 31) \<le> i" "i < 2 ^ 31"
  shows "fst (strtol (format_d i) 0) = i"
proof (cases "i = 0")
  case True
  have "nat_dec 0 = ''0''" by code_simp
  with True show ?thesis by (simp add: format_d_def) code_simp
next
  case False
  then have "\<not> (case nat_dec (nat \<bar>i\<bar>) of [] \<Rightarrow> False | z # _ \<Rightarrow> z = CHR ''0'')"
    using hd_nat_dec[of "nat \<bar>i\<bar>"] by (auto split: list.split)
  with assms show ?thesis
    using format_d_start[of i "[]"]
    by (simp add: strtol_def Let_def strtol_base_def takeWhile_nat_dec_all hex_prefix_nat_dec digits_value_nat_dec clamp_long_id del: not_None_eq)
qed

lemma format_d_chars: "CHR ''='' \<notin> set (format_d i)" "CHR '';'' \<notin> set (format_d i)" "format_d i \<noteq> []"
proof -
  have "c \<noteq> CHR ''='' \<and> c \<noteq> CHR '';''" if "c \<in> set (format_d i)" for c
  proof (cases "c = CHR 0x2D")
    case False
    with that obtain n where "c \<in> set (nat_dec n)" by (auto simp: format_d_def split: if_splits)
    from nat_dec_digits[OF this] obtain d where "d < 10" "c = digit_char d" by blast
    with digit_no_space_sign[of d] show ?thesis by simp
  qed simp
  then show "CHR ''='' \<notin> set (format_d i)" "CHR '';'' \<notin> set (format_d i)" by blast+
  show "format_d i \<noteq> []" by (simp add: format_d_def)
qed

lemma length_format_d: "-(2 ^ 31) \<le> i \<Longrightarrow> i < 2 ^ 31 \<Longrightarrow> length (format_d i) \<le> 11"
  using length_nat_dec[of "nat \<bar>i\<bar>" 10] by (auto simp: format_d_def nat_less_iff)

end
