(* ===== verification/Camera_Params.thy ===== *)
theory Camera_Params
  imports C_Strings "HOL-Library.List_Lexorder" "HOL-Library.Signed_Division"
begin

text \<open>
  Camera parameters, \<^verbatim>\<open>camera/CameraParameters.cpp\<close>: a map from keys to values that travels between the
  framework and the camera drivers as one string \<^verbatim>\<open>k=v;k=v\<close>, with typed views of some values (sizes,
  frame rates, formats). The map is a \<^verbatim>\<open>DefaultKeyedVector\<close> of the platform library, an argument of the
  operations whose contract is the locale \<open>keyed_vector\<close>.
\<close>

section \<open>The keyed vector\<close>

text \<open>Of the vector the sources use adding (which replaces), replacing, removing, looking up with the
  empty string as default, and going through the items in order.\<close>

record 'm kv_ops =
  kv_clear :: 'm
  kv_add :: "string \<Rightarrow> string \<Rightarrow> 'm \<Rightarrow> 'm"
  kv_replaceValueFor :: "string \<Rightarrow> string \<Rightarrow> 'm \<Rightarrow> 'm"
  kv_removeItem :: "string \<Rightarrow> 'm \<Rightarrow> 'm"
  kv_valueFor :: "'m \<Rightarrow> string \<Rightarrow> string"
  kv_items :: "'m \<Rightarrow> (string \<times> string) list"

section \<open>Keys and values\<close>

text \<open>All strings of the class, by name: those of Android and those of Samsung and Qualcomm.\<close>

definition class_strings :: "(string \<times> string) list" where
  "class_strings = [
     (''KEY_PREVIEW_SIZE'', ''preview-size''),
     (''KEY_SUPPORTED_PREVIEW_SIZES'', ''preview-size-values''),
     (''KEY_PREVIEW_FORMAT'', ''preview-format''),
     (''KEY_SUPPORTED_PREVIEW_FORMATS'', ''preview-format-values''),
     (''KEY_PREVIEW_FRAME_RATE'', ''preview-frame-rate''),
     (''KEY_SUPPORTED_PREVIEW_FRAME_RATES'', ''preview-frame-rate-values''),
     (''KEY_PREVIEW_FPS_RANGE'', ''preview-fps-range''),
     (''KEY_SUPPORTED_PREVIEW_FPS_RANGE'', ''preview-fps-range-values''),
     (''KEY_PICTURE_SIZE'', ''picture-size''),
     (''KEY_SUPPORTED_PICTURE_SIZES'', ''picture-size-values''),
     (''KEY_PICTURE_FORMAT'', ''picture-format''),
     (''KEY_SUPPORTED_PICTURE_FORMATS'', ''picture-format-values''),
     (''KEY_JPEG_THUMBNAIL_WIDTH'', ''jpeg-thumbnail-width''),
     (''KEY_JPEG_THUMBNAIL_HEIGHT'', ''jpeg-thumbnail-height''),
     (''KEY_SUPPORTED_JPEG_THUMBNAIL_SIZES'', ''jpeg-thumbnail-size-values''),
     (''KEY_JPEG_THUMBNAIL_QUALITY'', ''jpeg-thumbnail-quality''),
     (''KEY_JPEG_QUALITY'', ''jpeg-quality''),
     (''KEY_ROTATION'', ''rotation''),
     (''KEY_GPS_LATITUDE'', ''gps-latitude''),
     (''KEY_GPS_LONGITUDE'', ''gps-longitude''),
     (''KEY_GPS_ALTITUDE'', ''gps-altitude''),
     (''KEY_GPS_TIMESTAMP'', ''gps-timestamp''),
     (''KEY_GPS_PROCESSING_METHOD'', ''gps-processing-method''),
     (''KEY_WHITE_BALANCE'', ''whitebalance''),
     (''KEY_SUPPORTED_WHITE_BALANCE'', ''whitebalance-values''),
     (''KEY_EFFECT'', ''effect''),
     (''KEY_SUPPORTED_EFFECTS'', ''effect-values''),
     (''KEY_ANTIBANDING'', ''antibanding''),
     (''KEY_SUPPORTED_ANTIBANDING'', ''antibanding-values''),
     (''KEY_SCENE_MODE'', ''scene-mode''),
     (''KEY_SUPPORTED_SCENE_MODES'', ''scene-mode-values''),
     (''KEY_FLASH_MODE'', ''flash-mode''),
     (''KEY_SUPPORTED_FLASH_MODES'', ''flash-mode-values''),
     (''KEY_FOCUS_MODE'', ''focus-mode''),
     (''KEY_SUPPORTED_FOCUS_MODES'', ''focus-mode-values''),
     (''KEY_MAX_NUM_FOCUS_AREAS'', ''max-num-focus-areas''),
     (''KEY_FOCUS_AREAS'', ''focus-areas''),
     (''KEY_FOCAL_LENGTH'', ''focal-length''),
     (''KEY_HORIZONTAL_VIEW_ANGLE'', ''horizontal-view-angle''),
     (''KEY_VERTICAL_VIEW_ANGLE'', ''vertical-view-angle''),
     (''KEY_EXPOSURE_COMPENSATION'', ''exposure-compensation''),
     (''KEY_MAX_EXPOSURE_COMPENSATION'', ''max-exposure-compensation''),
     (''KEY_MIN_EXPOSURE_COMPENSATION'', ''min-exposure-compensation''),
     (''KEY_EXPOSURE_COMPENSATION_STEP'', ''exposure-compensation-step''),
     (''KEY_AUTO_EXPOSURE_LOCK'', ''auto-exposure-lock''),
     (''KEY_AUTO_EXPOSURE_LOCK_SUPPORTED'', ''auto-exposure-lock-supported''),
     (''KEY_AUTO_WHITEBALANCE_LOCK'', ''auto-whitebalance-lock''),
     (''KEY_AUTO_WHITEBALANCE_LOCK_SUPPORTED'', ''auto-whitebalance-lock-supported''),
     (''KEY_MAX_NUM_METERING_AREAS'', ''max-num-metering-areas''),
     (''KEY_METERING_AREAS'', ''metering-areas''),
     (''KEY_ZOOM'', ''zoom''),
     (''KEY_MAX_ZOOM'', ''max-zoom''),
     (''KEY_ZOOM_RATIOS'', ''zoom-ratios''),
     (''KEY_ZOOM_SUPPORTED'', ''zoom-supported''),
     (''KEY_SMOOTH_ZOOM_SUPPORTED'', ''smooth-zoom-supported''),
     (''KEY_FOCUS_DISTANCES'', ''focus-distances''),
     (''KEY_VIDEO_FRAME_FORMAT'', ''video-frame-format''),
     (''KEY_VIDEO_SIZE'', ''video-size''),
     (''KEY_SUPPORTED_VIDEO_SIZES'', ''video-size-values''),
     (''KEY_PREFERRED_PREVIEW_SIZE_FOR_VIDEO'', ''preferred-preview-size-for-video''),
     (''KEY_MAX_NUM_DETECTED_FACES_HW'', ''max-num-detected-faces-hw''),
     (''KEY_MAX_NUM_DETECTED_FACES_SW'', ''max-num-detected-faces-sw''),
     (''KEY_RECORDING_HINT'', ''recording-hint''),
     (''KEY_VIDEO_SNAPSHOT_SUPPORTED'', ''video-snapshot-supported''),
     (''KEY_VIDEO_STABILIZATION'', ''video-stabilization''),
     (''KEY_VIDEO_STABILIZATION_SUPPORTED'', ''video-stabilization-supported''),
     (''KEY_LIGHTFX'', ''light-fx''),
     (''TRUE'', ''true''),
     (''FALSE'', ''false''),
     (''FOCUS_DISTANCE_INFINITY'', ''Infinity''),
     (''WHITE_BALANCE_AUTO'', ''auto''),
     (''WHITE_BALANCE_INCANDESCENT'', ''incandescent''),
     (''WHITE_BALANCE_FLUORESCENT'', ''fluorescent''),
     (''WHITE_BALANCE_WARM_FLUORESCENT'', ''warm-fluorescent''),
     (''WHITE_BALANCE_DAYLIGHT'', ''daylight''),
     (''WHITE_BALANCE_CLOUDY_DAYLIGHT'', ''cloudy-daylight''),
     (''WHITE_BALANCE_TWILIGHT'', ''twilight''),
     (''WHITE_BALANCE_SHADE'', ''shade''),
     (''EFFECT_NONE'', ''none''),
     (''EFFECT_MONO'', ''mono''),
     (''EFFECT_NEGATIVE'', ''negative''),
     (''EFFECT_SOLARIZE'', ''solarize''),
     (''EFFECT_SEPIA'', ''sepia''),
     (''EFFECT_POSTERIZE'', ''posterize''),
     (''EFFECT_WHITEBOARD'', ''whiteboard''),
     (''EFFECT_BLACKBOARD'', ''blackboard''),
     (''EFFECT_AQUA'', ''aqua''),
     (''ANTIBANDING_AUTO'', ''auto''),
     (''ANTIBANDING_50HZ'', ''50hz''),
     (''ANTIBANDING_60HZ'', ''60hz''),
     (''ANTIBANDING_OFF'', ''off''),
     (''FLASH_MODE_OFF'', ''off''),
     (''FLASH_MODE_AUTO'', ''auto''),
     (''FLASH_MODE_ON'', ''on''),
     (''FLASH_MODE_RED_EYE'', ''red-eye''),
     (''FLASH_MODE_TORCH'', ''torch''),
     (''SCENE_MODE_AUTO'', ''auto''),
     (''SCENE_MODE_ACTION'', ''action''),
     (''SCENE_MODE_PORTRAIT'', ''portrait''),
     (''SCENE_MODE_LANDSCAPE'', ''landscape''),
     (''SCENE_MODE_NIGHT'', ''night''),
     (''SCENE_MODE_NIGHT_PORTRAIT'', ''night-portrait''),
     (''SCENE_MODE_THEATRE'', ''theatre''),
     (''SCENE_MODE_BEACH'', ''beach''),
     (''SCENE_MODE_SNOW'', ''snow''),
     (''SCENE_MODE_SUNSET'', ''sunset''),
     (''SCENE_MODE_STEADYPHOTO'', ''steadyphoto''),
     (''SCENE_MODE_FIREWORKS'', ''fireworks''),
     (''SCENE_MODE_SPORTS'', ''sports''),
     (''SCENE_MODE_PARTY'', ''party''),
     (''SCENE_MODE_CANDLELIGHT'', ''candlelight''),
     (''SCENE_MODE_BARCODE'', ''barcode''),
     (''SCENE_MODE_HDR'', ''hdr''),
     (''PIXEL_FORMAT_YUV422SP'', ''yuv422sp''),
     (''PIXEL_FORMAT_YUV420SP'', ''yuv420sp''),
     (''PIXEL_FORMAT_YUV422I'', ''yuv422i-yuyv''),
     (''PIXEL_FORMAT_YUV420P'', ''yuv420p''),
     (''PIXEL_FORMAT_RGB565'', ''rgb565''),
     (''PIXEL_FORMAT_RGBA8888'', ''rgba8888''),
     (''PIXEL_FORMAT_JPEG'', ''jpeg''),
     (''PIXEL_FORMAT_BAYER_RGGB'', ''bayer-rggb''),
     (''PIXEL_FORMAT_ANDROID_OPAQUE'', ''android-opaque''),
     (''FOCUS_MODE_AUTO'', ''auto''),
     (''FOCUS_MODE_INFINITY'', ''infinity''),
     (''FOCUS_MODE_MACRO'', ''macro''),
     (''FOCUS_MODE_FIXED'', ''fixed''),
     (''FOCUS_MODE_EDOF'', ''edof''),
     (''FOCUS_MODE_CONTINUOUS_VIDEO'', ''continuous-video'')]"

definition class_strings_ext :: "(string \<times> string) list" where
  "class_strings_ext = [
     (''FOCUS_MODE_CONTINUOUS_PICTURE'', ''continuous-picture''),
     (''LIGHTFX_LOWLIGHT'', ''low-light''),
     (''LIGHTFX_HDR'', ''high-dynamic-range''),
     (''KEY_DIS'', ''dis''),
     (''DIS_DISABLE'', ''disable''),
     (''KEY_OIS'', ''ois''),
     (''OIS_OFF'', ''off''),
     (''KEY_OIS_SUPPORTED'', ''ois_supported''),
     (''KEY_SUPPORTED_OIS_MODES'', ''ois_modes''),
     (''OIS_ON_STILL'', ''ois-on-still''),
     (''OIS_ON_VIDEO'', ''ois-on-video''),
     (''OIS_ON_ZOOM'', ''ois-on-zoom''),
     (''OIS_ON_SINE_X'', ''ois-on-sin-x''),
     (''OIS_ON_SINE_Y'', ''ois-on-sin-y''),
     (''KEY_DYNAMIC_RANGE_CONTROL'', ''dynamic-range-control''),
     (''KEY_SUPPORTED_DYNAMIC_RANGE_CONTROL'', ''dynamic-range-control-values''),
     (''DRC_ON'', ''on''),
     (''DRC_OFF'', ''off''),
     (''KEY_PHASE_AF'', ''phase-af''),
     (''KEY_SUPPORTED_PHASE_AF'', ''phase-af-values''),
     (''PAF_ON'', ''on''),
     (''PAF_OFF'', ''off''),
     (''KEY_RT_HDR'', ''rt-hdr''),
     (''KEY_SUPPORTED_RT_HDR'', ''rt-hdr-values''),
     (''RTHDR_ON'', ''on''),
     (''RTHDR_OFF'', ''off''),
     (''KEY_SUPPORTED_ISO_MODES'', ''iso-values''),
     (''KEY_FACE_DETECTION'', ''face-detection''),
     (''KEY_SUPPORTED_FACE_DETECTION'', ''face-detection-values''),
     (''FACE_DETECTION_OFF'', ''off''),
     (''FACE_DETECTION_ON'', ''on''),
     (''KEY_ZSL'', ''zsl''),
     (''KEY_SUPPORTED_ZSL_MODES'', ''zsl-values''),
     (''ZSL_OFF'', ''off''),
     (''ZSL_ON'', ''on''),
     (''KEY_ISO_MODE'', ''iso''),
     (''KEY_CAMERA_MODE'', ''camera-mode''),
     (''KEY_SAMSUNG_CAMERA_MODE'', ''cam_mode''),
     (''KEY_SELECTABLE_ZONE_AF'', ''selectable-zone-af''),
     (''KEY_SUPPORTED_SELECTABLE_ZONE_AF'', ''selectable-zone-af-values''),
     (''SELECTABLE_ZONE_AF_AUTO'', ''auto''),
     (''SELECTABLE_ZONE_AF_SPOT_METERING'', ''spot-metering''),
     (''SELECTABLE_ZONE_AF_CENTER_WEIGHTED'', ''center-weighted''),
     (''SELECTABLE_ZONE_AF_FRAME_AVERAGE'', ''frame-average''),
     (''KEY_PREVIEW_FRAME_RATE_MODE'', ''preview-frame-rate-mode''),
     (''KEY_SUPPORTED_PREVIEW_FRAME_RATE_MODES'', ''preview-frame-rate-modes''),
     (''KEY_PREVIEW_FRAME_RATE_AUTO_MODE'', ''frame-rate-auto''),
     (''KEY_PREVIEW_FRAME_RATE_FIXED_MODE'', ''frame-rate-fixed''),
     (''KEY_SHARPNESS'', ''sharpness''),
     (''KEY_SATURATION'', ''saturation''),
     (''KEY_CONTRAST'', ''contrast''),
     (''KEY_SCENE_DETECT'', ''scene-detect''),
     (''KEY_SUPPORTED_SCENE_DETECT'', ''scene-detect-values''),
     (''SCENE_DETECT_OFF'', ''off''),
     (''SCENE_DETECT_ON'', ''on''),
     (''KEY_WEATHER'', ''weather''),
     (''KEY_CITYID'', ''contextualtag-cityid''),
     (''KEY_TOUCH_AF_AEC'', ''touch-af-aec''),
     (''KEY_SUPPORTED_TOUCH_AF_AEC'', ''touch-af-aec-values''),
     (''TOUCH_AF_AEC_OFF'', ''touch-off''),
     (''TOUCH_AF_AEC_ON'', ''touch-on''),
     (''KEY_MEMORY_COLOR_ENHANCEMENT'', ''mce''),
     (''KEY_LENSSHADE'', ''lensshade''),
     (''KEY_REDEYE_REDUCTION'', ''redeye-reduction''),
     (''KEY_SUPPORTED_REDEYE_REDUCTION'', ''redeye-reduction-values''),
     (''REDEYE_REDUCTION_ENABLE'', ''enable''),
     (''REDEYE_REDUCTION_DISABLE'', ''disable''),
     (''KEY_GPS_LATITUDE_REF'', ''gps-latitude-ref''),
     (''KEY_GPS_LONGITUDE_REF'', ''gps-longitude-ref''),
     (''KEY_GPS_ALTITUDE_REF'', ''gps-altitude-ref''),
     (''KEY_GPS_STATUS'', ''gps-status''),
     (''KEY_EXIF_DATETIME'', ''exif-datetime''),
     (''KEY_AUTO_EXPOSURE'', ''auto-exposure''),
     (''KEY_SUPPORTED_AUTO_EXPOSURE'', ''auto-exposure-values''),
     (''KEY_SUPPORTED_LENSSHADE_MODES'', ''lensshade-values''),
     (''LENSSHADE_ENABLE'', ''enable''),
     (''LENSSHADE_DISABLE'', ''disable''),
     (''MCE_ENABLE'', ''enable''),
     (''MCE_DISABLE'', ''disable''),
     (''ISO_AUTO'', ''auto''),
     (''ISO_HJR'', ''ISO_HJR''),
     (''ISO_100'', ''ISO100''),
     (''ISO_200'', ''ISO200''),
     (''ISO_400'', ''ISO400''),
     (''ISO_800'', ''ISO800''),
     (''ISO_1600'', ''ISO1600''),
     (''ISO_3200'', ''ISO3200''),
     (''ISO_6400'', ''ISO6400''),
     (''KEY_SUPPORTED_HFR_SIZES'', ''hfr-size-values''),
     (''KEY_SUPPORTED_MEM_COLOR_ENHANCE_MODES'', ''mce-values''),
     (''VIDEO_HFR_OFF'', ''off''),
     (''VIDEO_HFR_2X'', ''60''),
     (''VIDEO_HFR_3X'', ''90''),
     (''VIDEO_HFR_4X'', ''120''),
     (''KEY_VIDEO_HIGH_FRAME_RATE'', ''video-hfr''),
     (''KEY_VIDEO_HFR_VALUES'', ''video-hfr-values''),
     (''KEY_HISTOGRAM'', ''histogram''),
     (''KEY_SUPPORTED_HISTOGRAM_MODES'', ''histogram-values''),
     (''HISTOGRAM_ENABLE'', ''enable''),
     (''HISTOGRAM_DISABLE'', ''disable''),
     (''SKIN_TONE_ENHANCEMENT_ENABLE'', ''enable''),
     (''SKIN_TONE_ENHANCEMENT_DISABLE'', ''disable''),
     (''KEY_SKIN_TONE_ENHANCEMENT'', ''skinToneEnhancement''),
     (''KEY_SUPPORTED_SKIN_TONE_ENHANCEMENT_MODES'', ''skinToneEnhancement-values''),
     (''DENOISE_OFF'', ''denoise-off''),
     (''DENOISE_ON'', ''denoise-on''),
     (''KEY_DENOISE'', ''denoise''),
     (''KEY_SUPPORTED_DENOISE'', ''denoise-values''),
     (''EFFECT_EMBOSS'', ''emboss''),
     (''EFFECT_SKETCH'', ''sketch''),
     (''EFFECT_NEON'', ''neon''),
     (''SCENE_MODE_FLOWERS'', ''flowers''),
     (''SCENE_MODE_AR'', ''AR''),
     (''PIXEL_FORMAT_YUV420SP_ADRENO'', ''yuv420sp-adreno''),
     (''PIXEL_FORMAT_RAW'', ''raw''),
     (''PIXEL_FORMAT_YV12'', ''yuv420p''),
     (''PIXEL_FORMAT_NV12'', ''nv12'')]"

text \<open>The strings of the class that its methods use.\<close>

definition KEY_PREVIEW_SIZE :: string where "KEY_PREVIEW_SIZE = ''preview-size''"
definition KEY_SUPPORTED_PREVIEW_SIZES :: string where "KEY_SUPPORTED_PREVIEW_SIZES = ''preview-size-values''"
definition KEY_PREVIEW_FORMAT :: string where "KEY_PREVIEW_FORMAT = ''preview-format''"
definition KEY_SUPPORTED_PREVIEW_FORMATS :: string where "KEY_SUPPORTED_PREVIEW_FORMATS = ''preview-format-values''"
definition KEY_PREVIEW_FRAME_RATE :: string where "KEY_PREVIEW_FRAME_RATE = ''preview-frame-rate''"
definition KEY_PREVIEW_FPS_RANGE :: string where "KEY_PREVIEW_FPS_RANGE = ''preview-fps-range''"
definition KEY_PICTURE_SIZE :: string where "KEY_PICTURE_SIZE = ''picture-size''"
definition KEY_SUPPORTED_PICTURE_SIZES :: string where "KEY_SUPPORTED_PICTURE_SIZES = ''picture-size-values''"
definition KEY_PICTURE_FORMAT :: string where "KEY_PICTURE_FORMAT = ''picture-format''"
definition KEY_VIDEO_SIZE :: string where "KEY_VIDEO_SIZE = ''video-size''"
definition KEY_SUPPORTED_VIDEO_SIZES :: string where "KEY_SUPPORTED_VIDEO_SIZES = ''video-size-values''"
definition KEY_PREFERRED_PREVIEW_SIZE_FOR_VIDEO :: string where
  "KEY_PREFERRED_PREVIEW_SIZE_FOR_VIDEO = ''preferred-preview-size-for-video''"
definition PIXEL_FORMAT_YUV422SP :: string where "PIXEL_FORMAT_YUV422SP = ''yuv422sp''"
definition PIXEL_FORMAT_YUV420SP :: string where "PIXEL_FORMAT_YUV420SP = ''yuv420sp''"
definition PIXEL_FORMAT_YUV422I :: string where "PIXEL_FORMAT_YUV422I = ''yuv422i-yuyv''"
definition PIXEL_FORMAT_YUV420P :: string where "PIXEL_FORMAT_YUV420P = ''yuv420p''"
definition PIXEL_FORMAT_RGB565 :: string where "PIXEL_FORMAT_RGB565 = ''rgb565''"
definition PIXEL_FORMAT_RGBA8888 :: string where "PIXEL_FORMAT_RGBA8888 = ''rgba8888''"
definition PIXEL_FORMAT_BAYER_RGGB :: string where "PIXEL_FORMAT_BAYER_RGGB = ''bayer-rggb''"

section \<open>The parameter map\<close>

definition flatten :: "'m kv_ops \<Rightarrow> 'm \<Rightarrow> string" where
  "flatten K mMap =
     (let items = kv_items K mMap; size = length items
      in List.maps (\<lambda>i. fst (items ! i) @ ''='' @ snd (items ! i) @ (if i \<noteq> size - 1 then '';'' else '''')) [0..<size])"

function unflatten_loop :: "'m kv_ops \<Rightarrow> string \<Rightarrow> 'm \<Rightarrow> 'm" where
  "unflatten_loop K a mMap =
     (case strchr_split (CHR ''='') a of
        None \<Rightarrow> mMap
      | Some (k, a) \<Rightarrow>
          (case strchr_split (CHR '';'') a of
             None \<Rightarrow> kv_add K k a mMap
           | Some (v, a) \<Rightarrow> unflatten_loop K a (kv_add K k v mMap)))"
  by pat_completeness auto

lemma strchr_split_length: "strchr_split c s = Some (a, b) \<Longrightarrow> length a + length b < length s"
proof -
  assume "strchr_split c s = Some (a, b)"
  then have "a = takeWhile (\<lambda>x. x \<noteq> c) s" "b = tl (dropWhile (\<lambda>x. x \<noteq> c) s)" "c \<in> set s"
    by (auto simp: strchr_split_def split: if_splits)
  moreover have "dropWhile (\<lambda>x. x \<noteq> c) s \<noteq> []" using \<open>c \<in> set s\<close> by (simp add: dropWhile_eq_Nil_conv)
  moreover have "length (takeWhile (\<lambda>x. x \<noteq> c) s) + length (dropWhile (\<lambda>x. x \<noteq> c) s) = length s"
    by (metis length_append takeWhile_dropWhile_id)
  ultimately show ?thesis by (cases "dropWhile (\<lambda>x. x \<noteq> c) s") auto
qed

termination unflatten_loop
  by (relation "measure (\<lambda>(K, a, m). length a)") (auto dest!: strchr_split_length)

declare unflatten_loop.simps [simp del]

definition unflatten :: "'m kv_ops \<Rightarrow> string \<Rightarrow> 'm" where
  "unflatten K params = unflatten_loop K params (kv_clear K)"

text \<open>The build does not define \<^verbatim>\<open>QCOM_HARDWARE\<close>, so \<^verbatim>\<open>set\<close> adds no entry of its own. A null pointer is
  \<open>None\<close>.\<close>

definition set_param :: "'m kv_ops \<Rightarrow> string option \<Rightarrow> string option \<Rightarrow> 'm \<Rightarrow> 'm" where
  "set_param K k v mMap =
     (case (k, v) of
        (Some k, Some v) \<Rightarrow>
          if CHR ''='' \<in> set k \<or> CHR '';'' \<in> set k then mMap
          else if CHR ''='' \<in> set v \<or> CHR '';'' \<in> set v then mMap
          else kv_replaceValueFor K k v mMap
      | _ \<Rightarrow> mMap)"

definition set_int :: "'m kv_ops \<Rightarrow> string \<Rightarrow> int \<Rightarrow> 'm \<Rightarrow> 'm" where
  "set_int K k v mMap = set_param K (Some k) (Some (format_d v)) mMap"

definition get_param :: "'m kv_ops \<Rightarrow> 'm \<Rightarrow> string \<Rightarrow> string option" where
  "get_param K mMap k = (let v = kv_valueFor K mMap k in if length v = 0 then None else Some v)"

definition getInt :: "'m kv_ops \<Rightarrow> 'm \<Rightarrow> string \<Rightarrow> int" where
  "getInt K mMap k = (case get_param K mMap k of None \<Rightarrow> -1 | Some v \<Rightarrow> fst (strtol v 0))"

definition remove_param :: "'m kv_ops \<Rightarrow> string \<Rightarrow> 'm \<Rightarrow> 'm" where
  "remove_param K k mMap = kv_removeItem K k mMap"

definition isEmpty :: "'m kv_ops \<Rightarrow> 'm \<Rightarrow> bool" where
  "isEmpty K mMap \<longleftrightarrow> kv_items K mMap = []"

section \<open>Sizes and formats\<close>

record Size =
  width :: int
  height :: int

text \<open>\<open>None\<close> is the result -1; otherwise both numbers and the end pointer.\<close>

definition parse_pair :: "string \<Rightarrow> char \<Rightarrow> (int \<times> int \<times> string) option" where
  "parse_pair str delim =
     (let (w, end) = strtol str 10
      in case end of
           [] \<Rightarrow> None
         | c # rest \<Rightarrow> if c \<noteq> delim then None else let (h, end) = strtol rest 10 in Some (w, h, end))"

lemma length_skip_sign: "length (skip_sign s) \<le> length s"
  by (simp add: skip_sign_def split: list.split)

lemma strtol_length: "length (snd (strtol s base)) \<le> length s"
  using length_skip_sign[of "dropWhile is_space s"] length_dropWhile_le[of is_space s]
  by (auto simp: strtol_def Let_def intro: le_trans[OF diff_le_self])

lemma parse_pair_length: "parse_pair s d = Some (w, h, r) \<Longrightarrow> length r < length s"
  using strtol_length[of s 10] strtol_length[of "tl (snd (strtol s 10))" 10]
  by (auto simp: parse_pair_def Let_def split: prod.splits list.splits if_splits)

function parseSizesList :: "string \<Rightarrow> Size list" where
  "parseSizesList sizeStartPtr =
     (case parse_pair sizeStartPtr (CHR ''x'') of
        None \<Rightarrow> []
      | Some (w, h, []) \<Rightarrow> [\<lparr>width = w, height = h\<rparr>]
      | Some (w, h, c # rest) \<Rightarrow>
          (if c \<noteq> CHR '','' then [] else \<lparr>width = w, height = h\<rparr> # parseSizesList rest))"
  by pat_completeness auto
termination
  by (relation "measure length") (auto dest!: parse_pair_length)

declare parseSizesList.simps [simp del]

definition set_size :: "'m kv_ops \<Rightarrow> string \<Rightarrow> int \<Rightarrow> int \<Rightarrow> 'm \<Rightarrow> 'm" where
  "set_size K k w h mMap = set_param K (Some k) (Some (format_d w @ ''x'' @ format_d h)) mMap"

text \<open>Both output arguments are set to -1 first and stay so when nothing can be parsed.\<close>

definition get_pair :: "'m kv_ops \<Rightarrow> string \<Rightarrow> char \<Rightarrow> 'm \<Rightarrow> int \<times> int" where
  "get_pair K k delim mMap =
     (case get_param K mMap k of
        None \<Rightarrow> (-1, -1)
      | Some p \<Rightarrow> (case parse_pair p delim of None \<Rightarrow> (-1, -1) | Some (w, h, _) \<Rightarrow> (w, h)))"

definition get_sizes :: "'m kv_ops \<Rightarrow> string \<Rightarrow> 'm \<Rightarrow> Size list" where
  "get_sizes K k mMap = (case get_param K mMap k of None \<Rightarrow> [] | Some p \<Rightarrow> parseSizesList p)"

definition setPreviewSize :: "'m kv_ops \<Rightarrow> int \<Rightarrow> int \<Rightarrow> 'm \<Rightarrow> 'm" where
  "setPreviewSize K = set_size K KEY_PREVIEW_SIZE"

definition getPreviewSize :: "'m kv_ops \<Rightarrow> 'm \<Rightarrow> int \<times> int" where
  "getPreviewSize K = get_pair K KEY_PREVIEW_SIZE (CHR ''x'')"

definition getPreferredPreviewSizeForVideo :: "'m kv_ops \<Rightarrow> 'm \<Rightarrow> int \<times> int" where
  "getPreferredPreviewSizeForVideo K = get_pair K KEY_PREFERRED_PREVIEW_SIZE_FOR_VIDEO (CHR ''x'')"

definition getSupportedPreviewSizes :: "'m kv_ops \<Rightarrow> 'm \<Rightarrow> Size list" where
  "getSupportedPreviewSizes K = get_sizes K KEY_SUPPORTED_PREVIEW_SIZES"

definition setVideoSize :: "'m kv_ops \<Rightarrow> int \<Rightarrow> int \<Rightarrow> 'm \<Rightarrow> 'm" where
  "setVideoSize K = set_size K KEY_VIDEO_SIZE"

definition getVideoSize :: "'m kv_ops \<Rightarrow> 'm \<Rightarrow> int \<times> int" where
  "getVideoSize K = get_pair K KEY_VIDEO_SIZE (CHR ''x'')"

definition getSupportedVideoSizes :: "'m kv_ops \<Rightarrow> 'm \<Rightarrow> Size list" where
  "getSupportedVideoSizes K = get_sizes K KEY_SUPPORTED_VIDEO_SIZES"

definition setPreviewFrameRate :: "'m kv_ops \<Rightarrow> int \<Rightarrow> 'm \<Rightarrow> 'm" where
  "setPreviewFrameRate K fps = set_int K KEY_PREVIEW_FRAME_RATE fps"

definition getPreviewFrameRate :: "'m kv_ops \<Rightarrow> 'm \<Rightarrow> int" where
  "getPreviewFrameRate K mMap = getInt K mMap KEY_PREVIEW_FRAME_RATE"

definition getPreviewFpsRange :: "'m kv_ops \<Rightarrow> 'm \<Rightarrow> int \<times> int" where
  "getPreviewFpsRange K = get_pair K KEY_PREVIEW_FPS_RANGE (CHR '','')"

definition setPreviewFormat :: "'m kv_ops \<Rightarrow> string option \<Rightarrow> 'm \<Rightarrow> 'm" where
  "setPreviewFormat K fmt = set_param K (Some KEY_PREVIEW_FORMAT) fmt"

definition getPreviewFormat :: "'m kv_ops \<Rightarrow> 'm \<Rightarrow> string option" where
  "getPreviewFormat K mMap = get_param K mMap KEY_PREVIEW_FORMAT"

definition setPictureSize :: "'m kv_ops \<Rightarrow> int \<Rightarrow> int \<Rightarrow> 'm \<Rightarrow> 'm" where
  "setPictureSize K = set_size K KEY_PICTURE_SIZE"

definition getPictureSize :: "'m kv_ops \<Rightarrow> 'm \<Rightarrow> int \<times> int" where
  "getPictureSize K = get_pair K KEY_PICTURE_SIZE (CHR ''x'')"

definition getSupportedPictureSizes :: "'m kv_ops \<Rightarrow> 'm \<Rightarrow> Size list" where
  "getSupportedPictureSizes K = get_sizes K KEY_SUPPORTED_PICTURE_SIZES"

definition setPictureFormat :: "'m kv_ops \<Rightarrow> string option \<Rightarrow> 'm \<Rightarrow> 'm" where
  "setPictureFormat K fmt = set_param K (Some KEY_PICTURE_FORMAT) fmt"

definition getPictureFormat :: "'m kv_ops \<Rightarrow> 'm \<Rightarrow> string option" where
  "getPictureFormat K mMap = get_param K mMap KEY_PICTURE_FORMAT"

text \<open>The pixel formats of \<^verbatim>\<open>system/graphics.h\<close> by name.\<close>

datatype hal_pixel_format = HAL_PIXEL_FORMAT_YCbCr_422_SP | HAL_PIXEL_FORMAT_YCrCb_420_SP
  | HAL_PIXEL_FORMAT_YCbCr_422_I | HAL_PIXEL_FORMAT_YV12 | HAL_PIXEL_FORMAT_RGB_565
  | HAL_PIXEL_FORMAT_RGBA_8888 | HAL_PIXEL_FORMAT_RAW16

definition previewFormatToEnum :: "string option \<Rightarrow> hal_pixel_format option" where
  "previewFormatToEnum fmt = (case fmt of
     None \<Rightarrow> Some HAL_PIXEL_FORMAT_YCrCb_420_SP
   | Some f \<Rightarrow>
       if f = PIXEL_FORMAT_YUV422SP then Some HAL_PIXEL_FORMAT_YCbCr_422_SP
       else if f = PIXEL_FORMAT_YUV420SP then Some HAL_PIXEL_FORMAT_YCrCb_420_SP
       else if f = PIXEL_FORMAT_YUV422I then Some HAL_PIXEL_FORMAT_YCbCr_422_I
       else if f = PIXEL_FORMAT_YUV420P then Some HAL_PIXEL_FORMAT_YV12
       else if f = PIXEL_FORMAT_RGB565 then Some HAL_PIXEL_FORMAT_RGB_565
       else if f = PIXEL_FORMAT_RGBA8888 then Some HAL_PIXEL_FORMAT_RGBA_8888
       else if f = PIXEL_FORMAT_BAYER_RGGB then Some HAL_PIXEL_FORMAT_RAW16
       else None)"

text \<open>\<^verbatim>\<open>strtok_r\<close> with one delimiter: the nonempty pieces.\<close>

fun strtok_pieces :: "char \<Rightarrow> string \<Rightarrow> string \<Rightarrow> string list" where
  "strtok_pieces d piece [] = (if piece = [] then [] else [piece])"
| "strtok_pieces d piece (c # cs) =
     (if c = d then (if piece = [] then strtok_pieces d [] cs else piece # strtok_pieces d [] cs)
      else strtok_pieces d (piece @ [c]) cs)"

definition getSupportedPreviewFormats :: "'m kv_ops \<Rightarrow> 'm \<Rightarrow> hal_pixel_format list" where
  "getSupportedPreviewFormats K mMap =
     (case get_param K mMap KEY_SUPPORTED_PREVIEW_FORMATS of
        None \<Rightarrow> []
      | Some fmts \<Rightarrow> List.map_filter (\<lambda>fmt. previewFormatToEnum (Some fmt)) (strtok_pieces (CHR '','') [] fmts))"

section \<open>Samsung's additions\<close>

text \<open>These methods work on the object behind the member \<^verbatim>\<open>mParams\<close>, which no constructor sets: the first
  argument is what the pointer happens to point to, \<open>None\<close> when it points to no such object.\<close>

definition getInt64 :: "string \<Rightarrow> int" where
  "getInt64 k = -1"

definition getPreviewFrameRateMode :: "'m kv_ops \<Rightarrow> 'm option \<Rightarrow> string option option" where
  "getPreviewFrameRateMode K mParams = map_option (\<lambda>p. get_param K p ''preview-frame-rate-mode'') mParams"

definition setPreviewFrameRateMode :: "'m kv_ops \<Rightarrow> string option \<Rightarrow> 'm option \<Rightarrow> 'm option" where
  "setPreviewFrameRateMode K mode mParams = map_option (set_param K (Some ''preview-frame-rate-mode'') mode) mParams"

text \<open>\<open>None\<close> is a crash: the string is parsed without a test for NULL.\<close>

definition getMeteringAreaCenter :: "'m kv_ops \<Rightarrow> 'm option \<Rightarrow> (int \<times> int) option" where
  "getMeteringAreaCenter K mParams =
     Option.bind mParams (\<lambda>p. Option.bind (get_param K p ''metering-areas'') (\<lambda>str.
       let (x, y) = (case parse_pair str (CHR ''x'') of None \<Rightarrow> (-2000, -2000) | Some (w, h, _) \<Rightarrow> (w, h))
       in Some (x sdiv 2, y sdiv 2)))"

definition setTouchIndexAec :: "'m kv_ops \<Rightarrow> int \<Rightarrow> int \<Rightarrow> 'm option \<Rightarrow> 'm option" where
  "setTouchIndexAec K x y mParams = map_option (set_size K ''touch-index-aec'' x y) mParams"

definition setTouchIndexAf :: "'m kv_ops \<Rightarrow> int \<Rightarrow> int \<Rightarrow> 'm option \<Rightarrow> 'm option" where
  "setTouchIndexAf K x y mParams = map_option (set_size K ''touch-index-af'' x y) mParams"

definition setPreviewFpsRange :: "'m kv_ops \<Rightarrow> int \<Rightarrow> int \<Rightarrow> 'm option \<Rightarrow> 'm option" where
  "setPreviewFpsRange K mn mx mParams =
     map_option (set_param K (Some ''preview-fps-range'') (Some (format_d mn @ '','' @ format_d mx))) mParams"

end
