(* ===== verification/Camera_Correct.thy ===== *)
theory Camera_Correct
  imports Camera_Params
begin

text \<open>
  The contract of the keyed vector and what follows from it for camera parameters: the string form is a
  faithful copy of the map, and numbers, sizes and lists of sizes are read back as they were written.
\<close>

section \<open>The contract\<close>

locale keyed_vector =
  fixes K :: "'m kv_ops" and valid :: "'m \<Rightarrow> bool"
  assumes valid_clear: "valid (kv_clear K)" and items_clear: "kv_items K (kv_clear K) = []"
    and valid_add: "valid m \<Longrightarrow> valid (kv_add K k v m)"
    and items_add: "valid m \<Longrightarrow> map_of (kv_items K (kv_add K k v m)) = (map_of (kv_items K m))(k \<mapsto> v)"
    and replace_is_add: "kv_replaceValueFor K k v m = kv_add K k v m"
    and valid_remove: "valid m \<Longrightarrow> valid (kv_removeItem K k m)"
    and items_remove: "valid m \<Longrightarrow> map_of (kv_items K (kv_removeItem K k m)) = (map_of (kv_items K m))(k := None)"
    and value_for: "valid m \<Longrightarrow>
      kv_valueFor K m k = (case map_of (kv_items K m) k of None \<Rightarrow> '''' | Some v \<Rightarrow> v)"
    and items_sorted: "valid m \<Longrightarrow> sorted_wrt (<) (map fst (kv_items K m))"

text \<open>Keys and values that survive the string form.\<close>

definition clean :: "(string \<times> string) list \<Rightarrow> bool" where
  "clean es \<longleftrightarrow> (\<forall>(k, v) \<in> set es. CHR ''='' \<notin> set k \<and> CHR '';'' \<notin> set v)"

fun flat :: "(string \<times> string) list \<Rightarrow> string" where
  "flat [] = ''''"
| "flat [(k, v)] = k @ ''='' @ v"
| "flat ((k, v) # e # es) = k @ ''='' @ v @ '';'' @ flat (e # es)"

lemma flat_indexed: "concat (map (\<lambda>i. fst (es ! i) @ ''='' @ snd (es ! i) @
  (if i \<noteq> length es - 1 then '';'' else '''')) [0..<length es]) = flat es"
proof (induction es rule: flat.induct)
  case (3 k v e es)
  have "[0..<length ((k, v) # e # es)] = 0 # map Suc [0..<length (e # es)]"
    by (simp add: map_Suc_upt upt_conv_Cons del: upt_Suc)
  with 3 show ?case by (simp add: comp_def del: upt_Suc)
qed simp_all

lemma flatten_flat: "flatten K m = flat (kv_items K m)"
  by (simp add: flatten_def Let_def flat_indexed[symmetric])

lemma strchr_split_append: "c \<notin> set a \<Longrightarrow> strchr_split c (a @ c # b) = Some (a, b)"
  by (auto simp: strchr_split_def takeWhile_append dropWhile_append)

lemma strchr_split_None: "c \<notin> set s \<Longrightarrow> strchr_split c s = None"
  by (simp add: strchr_split_def)

lemma strchr_split_SomeD: "strchr_split c s = Some (a, b) \<Longrightarrow> c \<notin> set a"
  by (auto simp: strchr_split_def split: if_splits dest: set_takeWhileD)

lemma unflatten_flat: "clean es \<Longrightarrow> unflatten_loop K (flat es) m = fold (\<lambda>(k, v). kv_add K k v) es m"
proof (induction es arbitrary: m rule: flat.induct)
  case 1
  show ?case by (simp add: unflatten_loop.simps strchr_split_None)
next
  case (2 k v)
  then show ?case
    by (simp add: unflatten_loop.simps[of K "k @ _"] clean_def strchr_split_append strchr_split_None)
next
  case (3 k v e es)
  then show ?case
    by (simp add: unflatten_loop.simps[of K "k @ _"] clean_def strchr_split_append)
qed

lemma unflatten_loop_invariant:
  "P m \<Longrightarrow> (\<And>k v m. P m \<Longrightarrow> CHR ''='' \<notin> set k \<Longrightarrow> CHR '';'' \<notin> set v \<Longrightarrow> P (kv_add K k v m)) \<Longrightarrow>
   P (unflatten_loop K a m)"
proof (induction K a m rule: unflatten_loop.induct)
  case (1 K a m)
  have "CHR '';'' \<notin> set v" if "strchr_split (CHR '';'') v = None" for v
    using that by (simp add: strchr_split_def split: if_splits)
  note last = this
  show ?case
  proof (cases "strchr_split (CHR ''='') a")
    case None
    with 1 show ?thesis by (simp add: unflatten_loop.simps)
  next
    case (Some kr)
    obtain k r where kr: "strchr_split (CHR ''='') a = Some (k, r)" using Some by (cases kr) simp
    show ?thesis
    proof (cases "strchr_split (CHR '';'') r")
      case None
      with kr 1 last strchr_split_SomeD[OF kr] show ?thesis by (simp add: unflatten_loop.simps)
    next
      case (Some vr)
      obtain v r' where vr: "strchr_split (CHR '';'') r = Some (v, r')" using Some by (cases vr) simp
      have "P (kv_add K k v m)" using 1(2,3) strchr_split_SomeD[OF kr] strchr_split_SomeD[OF vr] by simp
      with "1.IH"[OF kr refl vr refl] 1(3) kr vr show ?thesis by (simp add: unflatten_loop.simps)
    qed
  qed
qed

lemma map_of_rev: "distinct (map fst es) \<Longrightarrow> map_of (rev es) = map_of es"
  by (simp add: map_of_inject_set flip: rev_map)

text \<open>Parameters as the code keeps them.\<close>

definition good_params :: "'m kv_ops \<Rightarrow> ('m \<Rightarrow> bool) \<Rightarrow> 'm \<Rightarrow> bool" where
  "good_params K valid m \<longleftrightarrow> valid m \<and> clean (kv_items K m)"

context keyed_vector
begin

lemma distinct_items: "valid m \<Longrightarrow> distinct (map fst (kv_items K m))"
  using items_sorted by (simp add: strict_sorted_iff)

lemma same_items:
  assumes "valid m" "valid m'" "map_of (kv_items K m) = map_of (kv_items K m')"
  shows "kv_items K m = kv_items K m'"
proof -
  have "set (kv_items K m) = set (kv_items K m')"
    using assms map_of_inject_set distinct_items by blast
  moreover from this have "inj_on fst (set (kv_items K m) \<union> set (kv_items K m'))"
    using distinct_items[OF assms(2)] by (simp add: distinct_map)
  ultimately show ?thesis
    using items_sorted assms map_sorted_distinct_set_unique by (metis strict_sorted_iff)
qed

lemma fold_add: "valid m \<Longrightarrow> valid (fold (\<lambda>(k, v). kv_add K k v) es m) \<and>
  map_of (kv_items K (fold (\<lambda>(k, v). kv_add K k v) es m)) = map_of (kv_items K m) ++ map_of (rev es)"
  by (induction es arbitrary: m) (auto simp: valid_add items_add)

lemma clean_iff: "valid m \<Longrightarrow> clean (kv_items K m) \<longleftrightarrow>
  (\<forall>k v. map_of (kv_items K m) k = Some v \<longrightarrow> CHR ''='' \<notin> set k \<and> CHR '';'' \<notin> set v)"
  by (auto simp: clean_def map_of_eq_Some_iff[OF distinct_items])

lemma good_add: "good_params K valid m \<Longrightarrow> CHR ''='' \<notin> set k \<Longrightarrow> CHR '';'' \<notin> set v \<Longrightarrow> good_params K valid (kv_add K k v m)"
  by (auto simp: good_params_def clean_iff valid_add items_add split: if_splits)

lemma good_unflatten [simp]: "good_params K valid (unflatten K s)"
  unfolding unflatten_def
  by (rule unflatten_loop_invariant) (auto simp: good_params_def valid_clear items_clear clean_def good_add[unfolded good_params_def clean_def])

lemma good_set [simp]: "good_params K valid m \<Longrightarrow> good_params K valid (set_param K k v m)"
  by (simp add: set_param_def replace_is_add good_add split: option.split)

lemma good_remove [simp]: "good_params K valid m \<Longrightarrow> good_params K valid (remove_param K k m)"
  by (auto simp: remove_param_def good_params_def clean_iff valid_remove items_remove split: if_splits)

lemma unflatten_flatten:
  assumes "good_params K valid m"
  shows "kv_items K (unflatten K (flatten K m)) = kv_items K m"
proof (rule same_items)
  show "map_of (kv_items K (unflatten K (flatten K m))) = map_of (kv_items K m)"
    using fold_add[OF valid_clear, of "kv_items K m"] assms distinct_items[of m]
    by (simp add: good_params_def unflatten_def flatten_flat unflatten_flat items_clear map_of_rev)
  show "valid (unflatten K (flatten K m))" "valid m" using assms good_unflatten by (simp_all add: good_params_def)
qed

lemma get_items: "good_params K valid m \<Longrightarrow> get_param K m k =
  (case map_of (kv_items K m) k of None \<Rightarrow> None | Some v \<Rightarrow> if v = '''' then None else Some v)"
  by (simp add: get_param_def value_for good_params_def Let_def split: option.split)

lemma get_set: "good_params K valid m \<Longrightarrow> CHR ''='' \<notin> set k \<Longrightarrow> CHR '';'' \<notin> set k \<Longrightarrow> CHR ''='' \<notin> set v \<Longrightarrow> CHR '';'' \<notin> set v \<Longrightarrow>
  get_param K (set_param K (Some k) (Some v) m) k' = (if k' = k then if v = '''' then None else Some v else get_param K m k')"
  by (simp add: get_param_def set_param_def replace_is_add value_for valid_add items_add good_params_def Let_def)

end

section \<open>Sizes\<close>

lemma parse_pair_format:
  assumes "-(2 ^ 31) \<le> w" "w < 2 ^ 31" "-(2 ^ 31) \<le> h" "h < 2 ^ 31" "digit_val 10 d = None"
    and "rest = [] \<or> digit_val 10 (hd rest) = None"
  shows "parse_pair (format_d w @ d # format_d h @ rest) d = Some (w, h, rest)"
  using assms strtol_format_d[of w "d # format_d h @ rest"] strtol_format_d[of h rest]
  by (simp add: parse_pair_def)

text \<open>A list of sizes as the drivers write it.\<close>

fun sizes_string :: "Size list \<Rightarrow> string" where
  "sizes_string [] = ''''"
| "sizes_string [s] = format_d (width s) @ ''x'' @ format_d (height s)"
| "sizes_string (s # t # ss) = format_d (width s) @ ''x'' @ format_d (height s) @ '','' @ sizes_string (t # ss)"

lemma parse_sizes_string:
  "szs \<noteq> [] \<Longrightarrow> \<forall>s \<in> set szs. -(2 ^ 31) \<le> width s \<and> width s < 2 ^ 31 \<and> -(2 ^ 31) \<le> height s \<and> height s < 2 ^ 31 \<Longrightarrow>
   parseSizesList (sizes_string szs) = szs"
proof (induction szs rule: sizes_string.induct)
  case (2 s)
  then show ?case
    using parse_pair_format[of "width s" "height s" "CHR ''x''" "[]"]
    by (simp add: parseSizesList.simps digit_val_def)
next
  case (3 s t ss)
  then show ?case
    using parse_pair_format[of "width s" "height s" "CHR ''x''" "CHR '','' # sizes_string (t # ss)"]
    by (subst parseSizesList.simps) (simp add: digit_val_def)
qed simp

section \<open>A keyed vector\<close>

text \<open>A sorted list of pairs keeps the contract.\<close>

fun kv_put :: "string \<Rightarrow> string \<Rightarrow> (string \<times> string) list \<Rightarrow> (string \<times> string) list" where
  "kv_put k v [] = [(k, v)]"
| "kv_put k v ((k', v') # es) =
     (if k < k' then (k, v) # (k', v') # es else if k = k' then (k, v) # es else (k', v') # kv_put k v es)"

definition sorted_vector :: "(string \<times> string) list kv_ops" where
  "sorted_vector = \<lparr>kv_clear = [], kv_add = kv_put, kv_replaceValueFor = kv_put,
     kv_removeItem = (\<lambda>k. filter (\<lambda>e. fst e \<noteq> k)),
     kv_valueFor = (\<lambda>m k. case map_of m k of None \<Rightarrow> '''' | Some v \<Rightarrow> v), kv_items = (\<lambda>m. m)\<rparr>"

lemma set_kv_put: "fst ` set (kv_put k v m) = insert k (fst ` set m)"
  by (induction k v m rule: kv_put.induct) auto

lemma sorted_kv_put: "sorted_wrt (<) (map fst m) \<Longrightarrow> sorted_wrt (<) (map fst (kv_put k v m))"
proof (induction k v m rule: kv_put.induct)
  case (2 k v k' v' es)
  have "\<forall>x \<in> fst ` set (kv_put k v es). k' < x" if "\<not> k < k'" "k \<noteq> k'"
    using 2(2) that by (simp add: set_kv_put)
  with 2 show ?case by auto
qed simp

lemma map_of_kv_put: "map_of (kv_put k v m) = (map_of m)(k \<mapsto> v)"
  by (induction k v m rule: kv_put.induct) auto

lemma map_of_filter_key: "map_of (filter (\<lambda>e. fst e \<noteq> k) m) = (map_of m)(k := None)"
  by (induction m) auto

interpretation sv: keyed_vector sorted_vector "\<lambda>m. sorted_wrt (<) (map fst m)"
  by unfold_locales
    (simp_all add: sorted_vector_def sorted_kv_put[unfolded sorted_wrt_map] map_of_kv_put map_of_filter_key sorted_wrt_map sorted_wrt_filter)

section \<open>Properties\<close>

text \<open>C21. Writing parameters to a string and reading them back gives the same keys and values in the same
  order, whatever string they were first read from and whatever was set in between: nothing that \<^verbatim>\<open>set\<close> or
  \<^verbatim>\<open>unflatten\<close> lets into the map can be lost, split or merged on the way to the driver.\<close>

theorem parameters_roundtrip:
  assumes "keyed_vector K valid"
    and "m = fold (\<lambda>(k, v). set_param K k v) sets (unflatten K s)"
  shows "kv_items K (unflatten K (flatten K m)) = kv_items K m \<and>
    get_param K (unflatten K (flatten K m)) k = get_param K m k"
proof -
  have "good_params K valid (fold (\<lambda>(k, v). set_param K k v) sets m0)" if "good_params K valid m0" for m0
    using that by (induction sets arbitrary: m0) (auto simp: keyed_vector.good_set[OF assms(1)])
  then have g: "good_params K valid m" using assms(2) keyed_vector.good_unflatten[OF assms(1)] by blast
  show ?thesis
    using keyed_vector.unflatten_flatten[OF assms(1) g] keyed_vector.get_items[OF assms(1)] g
      keyed_vector.good_unflatten[OF assms(1)] by simp
qed

theorem parameters_roundtrip_witness:
  "kv_items sorted_vector (unflatten sorted_vector (flatten sorted_vector
     (set_param sorted_vector (Some ''zsl'') (Some ''on'') (unflatten sorted_vector ''iso=100;a=b=c;x'')))) =
   [(''a'', ''b=c''), (''iso'', ''100''), (''zsl'', ''on'')]"
proof -
  have "set_param sorted_vector (Some ''zsl'') (Some ''on'') (unflatten sorted_vector ''iso=100;a=b=c;x'') =
    [(''a'', ''b=c''), (''iso'', ''100''), (''zsl'', ''on'')]"
    by (simp add: unflatten_def unflatten_loop.simps strchr_split_def sorted_vector_def set_param_def)
  with parameters_roundtrip[OF sv.keyed_vector_axioms, where sets = "[(Some ''zsl'', Some ''on'')]" and s = "''iso=100;a=b=c;x''",
      OF refl]
  show ?thesis by (simp add: sorted_vector_def)
qed

text \<open>Every pair of 32-bit numbers set as preview, picture or video size is read back as it was set, and
  so is every frame rate; the text fits the buffers of 32 and 16 bytes it is printed into; a list of sizes in
  the drivers' form is read back whole; and setting one size leaves every other parameter alone.\<close>

theorem sizes_roundtrip:
  assumes K: "keyed_vector K valid" and m: "good_params K valid m"
    and w: "-(2 ^ 31) \<le> w" "w < 2 ^ 31" and h: "-(2 ^ 31) \<le> h" "h < 2 ^ 31"
    and szs: "szs \<noteq> []" "\<forall>s \<in> set szs. -(2 ^ 31) \<le> width s \<and> width s < 2 ^ 31 \<and> -(2 ^ 31) \<le> height s \<and> height s < 2 ^ 31"
  shows "getPreviewSize K (setPreviewSize K w h m) = (w, h) \<and> getPictureSize K (setPictureSize K w h m) = (w, h) \<and>
    getVideoSize K (setVideoSize K w h m) = (w, h) \<and>
    getPreviewFrameRate K (setPreviewFrameRate K w m) = w \<and>
    length (format_d w @ ''x'' @ format_d h) < 32 \<and> length (format_d w) < 16 \<and>
    parseSizesList (sizes_string szs) = szs \<and>
    (k \<noteq> KEY_PREVIEW_SIZE \<longrightarrow> get_param K (setPreviewSize K w h m) k = get_param K m k)"
proof -
  have clean: "CHR ''='' \<notin> set (format_d w @ ''x'' @ format_d h)" "CHR '';'' \<notin> set (format_d w @ ''x'' @ format_d h)"
    using format_d_chars by auto
  have p: "parse_pair (format_d w @ ''x'' @ format_d h) (CHR ''x'') = Some (w, h, [])"
    using parse_pair_format[OF w h, of "CHR ''x''" "[]"] by (simp add: digit_val_def)
  have "get_param K (set_size K ky w h m) k' = (if k' = ky then Some (format_d w @ ''x'' @ format_d h) else get_param K m k')"
    if "CHR ''='' \<notin> set ky" "CHR '';'' \<notin> set ky" for ky k'
    using keyed_vector.get_set[OF K m that clean] by (simp add: set_size_def)
  moreover have "get_param K (set_int K ky w m) ky = Some (format_d w)"
    if "CHR ''='' \<notin> set ky" "CHR '';'' \<notin> set ky" for ky
    using keyed_vector.get_set[OF K m that format_d_chars(1,2)[of w]] format_d_chars(3) by (simp add: set_int_def)
  ultimately show ?thesis
    using p length_format_d[OF w] length_format_d[OF h] parse_sizes_string[OF szs] strtol_format_d_0[OF w]
    by (simp add: getPreviewSize_def setPreviewSize_def getPictureSize_def setPictureSize_def getVideoSize_def
        setVideoSize_def getPreviewFrameRate_def setPreviewFrameRate_def get_pair_def getInt_def KEY_PREVIEW_SIZE_def
        KEY_PICTURE_SIZE_def KEY_VIDEO_SIZE_def KEY_PREVIEW_FRAME_RATE_def)
qed

theorem sizes_roundtrip_witness:
  "getPreviewSize sorted_vector (setPreviewSize sorted_vector 1920 (-1) [(''zsl'', ''on'')]) = (1920, -1)"
proof -
  have "good_params sorted_vector (\<lambda>m. sorted_wrt (<) (map fst m)) [(''zsl'', ''on'')]"
    by (simp add: good_params_def clean_def sorted_vector_def)
  from sizes_roundtrip[OF sv.keyed_vector_axioms this, of 1920 "-1" "[\<lparr>width = 1, height = 2\<rparr>]"]
  show ?thesis by simp
qed

end
