(* ===== verification/Camera_Wrapper.thy ===== *)
theory Camera_Wrapper
  imports Camera_Correct "HOL-Library.Sublist"
begin

text \<open>
  The camera wrapper \<^verbatim>\<open>camera/CameraWrapper.cpp\<close>: a camera module in front of the vendor's that passes every
  call on and rewrites the parameters on their way in and out. The vendor's module and its devices are
  arguments; null pointers, accesses outside the table of saved parameters and freed devices are faults.
\<close>

section \<open>State\<close>

datatype cam_fault = NullPointer | OutOfBounds | UseAfterFree

text \<open>The calls that reach the vendor's device.\<close>

datatype vcall = set_preview_window nat | set_callbacks nat | enable_msg_type int | disable_msg_type int
  | msg_type_enabled int | start_preview | stop_preview | preview_enabled | store_meta_data_in_buffers int
  | start_recording | stop_recording | recording_enabled | release_recording_frame nat | auto_focus
  | cancel_auto_focus | take_picture | cancel_picture | set_parameters string | get_parameters
  | put_parameters string | send_command int int int | release | dump int | close

record 'v wrapper_camera_device =
  cam_id :: int
  cam_vendor :: 'v

text \<open>The user's callbacks, which the vendor reaches through those of the wrapper.\<close>

record user_callbacks =
  gUserNotifyCb :: nat
  gUserDataCb :: nat
  gUserDataCbTimestamp :: nat
  gUserGetMemory :: nat
  gUserCameraDevice :: nat

record 'v cam_state =
  gVendorModule :: bool
  num_cameras :: int
  fixed_set_params :: "string option list option"
  devices :: "nat \<rightharpoonup> 'v wrapper_camera_device"
  callbacks :: "user_callbacks option"
  vendor_calls :: "('v \<times> vcall) list"

text \<open>What the surroundings answer: the vendor's module, its devices and the allocator.\<close>

record 'v cam_env =
  hw_get_module_by_class :: int
  get_number_of_cameras :: int
  vendor_open :: "string \<Rightarrow> int \<times> 'v"
  vendor_answer :: "'v \<Rightarrow> vcall \<Rightarrow> int"
  vendor_params :: "'v \<Rightarrow> string"
  vendor_info :: "int \<Rightarrow> int"
  calloc_fixed :: bool
  calloc_device :: "nat option"
  calloc_ops :: bool

type_synonym 'a cam_run = "cam_fault + 'a"

definition CAM_EINVAL :: int where "CAM_EINVAL = 22"
definition CAM_ENOMEM :: int where "CAM_ENOMEM = 12"

section \<open>Strings\<close>

definition W_KEY_DIS :: string where "W_KEY_DIS = ''dis''"
definition W_DIS_DISABLE :: string where "W_DIS_DISABLE = ''disable''"
definition W_KEY_ZSL :: string where "W_KEY_ZSL = ''zsl''"
definition W_ON :: string where "W_ON = ''on''"
definition W_OFF :: string where "W_OFF = ''off''"
definition W_KEY_VIDEO_HFR_VALUES :: string where "W_KEY_VIDEO_HFR_VALUES = ''video-hfr-values''"
definition W_KEY_VIDEO_SNAPSHOT_SUPPORTED :: string where "W_KEY_VIDEO_SNAPSHOT_SUPPORTED = ''video-snapshot-supported''"
definition W_KEY_FLASH_MODE :: string where "W_KEY_FLASH_MODE = ''flash-mode''"
definition W_FLASH_MODE_TORCH :: string where "W_FLASH_MODE_TORCH = ''mode-torch''"
definition W_KEY_RECORDING_HINT :: string where "W_KEY_RECORDING_HINT = ''recording-hint''"
definition W_KEY_PREVIEW_FPS_RANGE :: string where "W_KEY_PREVIEW_FPS_RANGE = ''preview-fps-range''"
definition W_KEY_PHASE_AF :: string where "W_KEY_PHASE_AF = ''phase-af''"
definition W_KEY_DYNAMIC_RANGE_CONTROL :: string where "W_KEY_DYNAMIC_RANGE_CONTROL = ''dynamic-range-control''"
definition W_KEY_RT_HDR :: string where "W_KEY_RT_HDR = ''rt-hdr''"
definition W_KEY_SUPPORTED_RT_HDR :: string where "W_KEY_SUPPORTED_RT_HDR = ''rt-hdr-values''"
definition W_KEY_QC_VIDEO_HDR :: string where "W_KEY_QC_VIDEO_HDR = ''video-hdr''"
definition W_KEY_QC_VIDEO_HDR_VALUES :: string where "W_KEY_QC_VIDEO_HDR_VALUES = ''video-hdr-values''"
definition PIXEL_FORMAT_NV12_VENUS :: string where "PIXEL_FORMAT_NV12_VENUS = ''nv12-venus''"

definition BACK_CAMERA_ID :: int where "BACK_CAMERA_ID = 0"
definition FRONT_CAMERA_ID :: int where "FRONT_CAMERA_ID = 1"

lemmas wrapper_strings = W_KEY_DIS_def W_DIS_DISABLE_def W_KEY_ZSL_def W_ON_def W_OFF_def W_KEY_VIDEO_HFR_VALUES_def
  W_KEY_VIDEO_SNAPSHOT_SUPPORTED_def W_KEY_FLASH_MODE_def W_FLASH_MODE_TORCH_def W_KEY_RECORDING_HINT_def
  W_KEY_PREVIEW_FPS_RANGE_def W_KEY_PHASE_AF_def W_KEY_DYNAMIC_RANGE_CONTROL_def W_KEY_RT_HDR_def
  W_KEY_SUPPORTED_RT_HDR_def W_KEY_QC_VIDEO_HDR_def W_KEY_QC_VIDEO_HDR_VALUES_def PIXEL_FORMAT_NV12_VENUS_def

section \<open>Rewriting parameters\<close>

definition camera_fixup_getparams :: "'m kv_ops \<Rightarrow> int \<Rightarrow> string \<Rightarrow> string" where
  "camera_fixup_getparams K cid settings =
     (let params = unflatten K settings;
          recordHint = get_param K params W_KEY_RECORDING_HINT;
          videoMode = (case recordHint of Some h \<Rightarrow> h = ''true'' | None \<Rightarrow> False);
          preview_fmt = getPreviewFormat K params;
          params = (if (case preview_fmt of None \<Rightarrow> True | Some f \<Rightarrow> f = PIXEL_FORMAT_NV12_VENUS)
                    then setPreviewFormat K (Some PIXEL_FORMAT_YUV420SP) params else params);
          hfrModeValues = get_param K params W_KEY_VIDEO_HFR_VALUES;
          params = (case hfrModeValues of
                      Some vs \<Rightarrow> if \<not> sublist W_OFF vs
                                then set_param K (Some W_KEY_VIDEO_HFR_VALUES) (Some (W_OFF @ '','' @ vs)) params
                                else params
                    | None \<Rightarrow> params);
          params = (if videoMode then set_param K (Some W_KEY_VIDEO_SNAPSHOT_SUPPORTED) (Some ''true'') params else params);
          vhdr_vals = get_param K params W_KEY_SUPPORTED_RT_HDR;
          params = (case vhdr_vals of Some v \<Rightarrow> set_param K (Some W_KEY_QC_VIDEO_HDR_VALUES) (Some v) params
                    | None \<Rightarrow> params)
      in flatten K params)"

text \<open>Whether the flash mode of the parameters is torch.\<close>

definition torch_mode :: "'m kv_ops \<Rightarrow> 'm \<Rightarrow> bool" where
  "torch_mode K params = (case get_param K params W_KEY_FLASH_MODE of Some f \<Rightarrow> f = W_FLASH_MODE_TORCH | None \<Rightarrow> False)"

definition table_at :: "string option list option \<Rightarrow> int \<Rightarrow> string option cam_run" where
  "table_at tab i = (case tab of None \<Rightarrow> Inl NullPointer
     | Some xs \<Rightarrow> if 0 \<le> i \<and> i < int (length xs) then Inr (xs ! nat i) else Inl OutOfBounds)"

text \<open>The result is both returned and kept in the table.\<close>

definition camera_fixup_setparams :: "'m kv_ops \<Rightarrow> int \<Rightarrow> string \<Rightarrow> 'v cam_state \<Rightarrow> (string \<times> 'v cam_state) cam_run" where
  "camera_fixup_setparams K cid settings s =
     (case table_at (fixed_set_params s) cid of
        Inl e \<Rightarrow> Inl e
      | Inr old \<Rightarrow>
          (let params = unflatten K settings;
               wasTorch = (case old of Some str \<Rightarrow> torch_mode K (unflatten K str) | None \<Rightarrow> False);
               isVideo = (case get_param K params W_KEY_RECORDING_HINT of Some h \<Rightarrow> h = ''true'' | None \<Rightarrow> False);
               isTorch = torch_mode K params;
               params = (if \<not> isTorch \<and> \<not> wasTorch
                         then if isVideo
                              then set_param K (Some W_KEY_ZSL) (Some W_OFF)
                                     (set_param K (Some W_KEY_DIS) (Some W_DIS_DISABLE) params)
                              else set_param K (Some W_KEY_ZSL) (Some W_ON) params
                         else params);
               params = (if cid = BACK_CAMERA_ID
                         then set_param K (Some W_KEY_DYNAMIC_RANGE_CONTROL) (Some W_ON)
                                (set_param K (Some W_KEY_PHASE_AF) (Some W_ON) params)
                         else params);
               params = (if isVideo
                         then set_param K (Some W_KEY_RT_HDR)
                                (case get_param K params W_KEY_QC_VIDEO_HDR of Some v \<Rightarrow> Some v | None \<Rightarrow> Some W_OFF) params
                         else params);
               params = (if cid = FRONT_CAMERA_ID
                         then set_param K (Some W_KEY_PREVIEW_FPS_RANGE) (Some ''7000,30000'') params else params);
               ret = flatten K params
           in Inr (ret, s\<lparr>fixed_set_params :=
                map_option (\<lambda>xs. xs[nat cid := Some ret]) (fixed_set_params s)\<rparr>)))"

section \<open>Device operations\<close>

text \<open>A call through the wrapper's device; a null device is answered with \<open>null\<close>.\<close>

definition with_device :: "nat option \<Rightarrow> 'a \<Rightarrow> ('v wrapper_camera_device \<Rightarrow> 'v cam_state \<Rightarrow> ('a \<times> 'v cam_state) cam_run) \<Rightarrow>
    'v cam_state \<Rightarrow> ('a \<times> 'v cam_state) cam_run" where
  "with_device device null f s =
     (case device of
        None \<Rightarrow> Inr (null, s)
      | Some d \<Rightarrow> (case devices s d of None \<Rightarrow> Inl UseAfterFree | Some w \<Rightarrow> f w s))"

definition VENDOR_CALL :: "'v cam_env \<Rightarrow> vcall \<Rightarrow> 'v wrapper_camera_device \<Rightarrow> 'v cam_state \<Rightarrow> (int \<times> 'v cam_state) cam_run" where
  "VENDOR_CALL E c w s = Inr (vendor_answer E (cam_vendor w) c, s\<lparr>vendor_calls := vendor_calls s @ [(cam_vendor w, c)]\<rparr>)"

type_synonym 'v int_op = "'v cam_state \<Rightarrow> (int \<times> 'v cam_state) cam_run"

definition camera_set_preview_window :: "'v cam_env \<Rightarrow> nat option \<Rightarrow> nat \<Rightarrow> 'v int_op" where
  "camera_set_preview_window E device window = with_device device (- CAM_EINVAL) (VENDOR_CALL E (set_preview_window window))"

definition camera_set_callbacks :: "'v cam_env \<Rightarrow> nat option \<Rightarrow> user_callbacks \<Rightarrow> 'v int_op" where
  "camera_set_callbacks E device cbs =
     with_device device 0 (\<lambda>w s. VENDOR_CALL E (set_callbacks (gUserCameraDevice cbs)) w (s\<lparr>callbacks := Some cbs\<rparr>))"

definition camera_enable_msg_type :: "'v cam_env \<Rightarrow> nat option \<Rightarrow> int \<Rightarrow> 'v int_op" where
  "camera_enable_msg_type E device msg_type = with_device device 0 (VENDOR_CALL E (enable_msg_type msg_type))"

definition camera_disable_msg_type :: "'v cam_env \<Rightarrow> nat option \<Rightarrow> int \<Rightarrow> 'v int_op" where
  "camera_disable_msg_type E device msg_type = with_device device 0 (VENDOR_CALL E (disable_msg_type msg_type))"

definition camera_msg_type_enabled :: "'v cam_env \<Rightarrow> nat option \<Rightarrow> int \<Rightarrow> 'v int_op" where
  "camera_msg_type_enabled E device msg_type = with_device device 0 (VENDOR_CALL E (msg_type_enabled msg_type))"

definition camera_start_preview :: "'v cam_env \<Rightarrow> nat option \<Rightarrow> 'v int_op" where
  "camera_start_preview E device = with_device device (- CAM_EINVAL) (VENDOR_CALL E start_preview)"

definition camera_stop_preview :: "'v cam_env \<Rightarrow> nat option \<Rightarrow> 'v int_op" where
  "camera_stop_preview E device = with_device device 0 (VENDOR_CALL E stop_preview)"

definition camera_preview_enabled :: "'v cam_env \<Rightarrow> nat option \<Rightarrow> 'v int_op" where
  "camera_preview_enabled E device = with_device device (- CAM_EINVAL) (VENDOR_CALL E preview_enabled)"

definition camera_store_meta_data_in_buffers :: "'v cam_env \<Rightarrow> nat option \<Rightarrow> int \<Rightarrow> 'v int_op" where
  "camera_store_meta_data_in_buffers E device enable =
     with_device device (- CAM_EINVAL) (VENDOR_CALL E (store_meta_data_in_buffers enable))"

definition camera_stop_recording :: "'v cam_env \<Rightarrow> nat option \<Rightarrow> 'v int_op" where
  "camera_stop_recording E device = with_device device 0 (VENDOR_CALL E stop_recording)"

definition camera_recording_enabled :: "'v cam_env \<Rightarrow> nat option \<Rightarrow> 'v int_op" where
  "camera_recording_enabled E device = with_device device (- CAM_EINVAL) (VENDOR_CALL E recording_enabled)"

definition camera_release_recording_frame :: "'v cam_env \<Rightarrow> nat option \<Rightarrow> nat \<Rightarrow> 'v int_op" where
  "camera_release_recording_frame E device opaque = with_device device 0 (VENDOR_CALL E (release_recording_frame opaque))"

definition camera_auto_focus :: "'v cam_env \<Rightarrow> nat option \<Rightarrow> 'v int_op" where
  "camera_auto_focus E device = with_device device (- CAM_EINVAL) (VENDOR_CALL E auto_focus)"

definition camera_cancel_auto_focus :: "'v cam_env \<Rightarrow> nat option \<Rightarrow> 'v int_op" where
  "camera_cancel_auto_focus E device = with_device device (- CAM_EINVAL) (VENDOR_CALL E cancel_auto_focus)"

definition camera_take_picture :: "'v cam_env \<Rightarrow> nat option \<Rightarrow> 'v int_op" where
  "camera_take_picture E device = with_device device (- CAM_EINVAL) (VENDOR_CALL E take_picture)"

definition camera_cancel_picture :: "'v cam_env \<Rightarrow> nat option \<Rightarrow> 'v int_op" where
  "camera_cancel_picture E device = with_device device (- CAM_EINVAL) (VENDOR_CALL E cancel_picture)"

definition camera_set_parameters :: "'m kv_ops \<Rightarrow> 'v cam_env \<Rightarrow> nat option \<Rightarrow> string \<Rightarrow> 'v int_op" where
  "camera_set_parameters K E device params =
     with_device device (- CAM_EINVAL) (\<lambda>w s.
       case camera_fixup_setparams K (cam_id w) params s of
         Inl e \<Rightarrow> Inl e
       | Inr (fixed_params, s) \<Rightarrow> VENDOR_CALL E (set_parameters fixed_params) w s)"

definition camera_get_parameters :: "'m kv_ops \<Rightarrow> 'v cam_env \<Rightarrow> nat option \<Rightarrow> 'v cam_state \<Rightarrow>
    (string option \<times> 'v cam_state) cam_run" where
  "camera_get_parameters K E device =
     with_device device None (\<lambda>w s.
       let params = vendor_params E (cam_vendor w);
           fixed_params = camera_fixup_getparams K (cam_id w) params
       in Inr (Some fixed_params, s\<lparr>vendor_calls := vendor_calls s @
            [(cam_vendor w, get_parameters), (cam_vendor w, put_parameters params)]\<rparr>))"

text \<open>\<^verbatim>\<open>camera_start_recording\<close> reads the parameters and drops them; the string is not freed.\<close>

definition camera_start_recording :: "'m kv_ops \<Rightarrow> 'v cam_env \<Rightarrow> nat option \<Rightarrow> 'v int_op" where
  "camera_start_recording K E device =
     with_device device (- CAM_EINVAL) (\<lambda>w s.
       case camera_get_parameters K E device s of
         Inl e \<Rightarrow> Inl e
       | Inr (parameters, s) \<Rightarrow> VENDOR_CALL E start_recording w s)"

definition camera_send_command :: "'v cam_env \<Rightarrow> nat option \<Rightarrow> int \<Rightarrow> int \<Rightarrow> int \<Rightarrow> 'v int_op" where
  "camera_send_command E device cmd arg1 arg2 =
     with_device device (- CAM_EINVAL) (VENDOR_CALL E (send_command cmd arg1 arg2))"

definition camera_release :: "'v cam_env \<Rightarrow> nat option \<Rightarrow> 'v int_op" where
  "camera_release E device = with_device device 0 (VENDOR_CALL E release)"

definition camera_dump :: "'v cam_env \<Rightarrow> nat option \<Rightarrow> int \<Rightarrow> 'v int_op" where
  "camera_dump E device fd = with_device device (- CAM_EINVAL) (VENDOR_CALL E (dump fd))"

definition camera_device_close :: "'v cam_env \<Rightarrow> nat option \<Rightarrow> 'v int_op" where
  "camera_device_close E device s =
     (case device of
        None \<Rightarrow> Inr (- CAM_EINVAL, s)
      | Some d \<Rightarrow>
          (case devices s d of
             None \<Rightarrow> Inl UseAfterFree
           | Some w \<Rightarrow>
               (let after = (\<lambda>s. Inr (0, s\<lparr>vendor_calls := vendor_calls s @ [(cam_vendor w, close)],
                                           devices := (devices s)(d := None)\<rparr>))
                in case fixed_set_params s of
                     None \<Rightarrow> after s
                   | Some xs \<Rightarrow>
                       (case table_at (Some xs) (cam_id w) of
                          Inl e \<Rightarrow> Inl e
                        | Inr None \<Rightarrow> after s
                        | Inr (Some p) \<Rightarrow> after (s\<lparr>fixed_set_params := Some (xs[nat (cam_id w) := None])\<rparr>)))))"

section \<open>Module operations\<close>

definition check_vendor_module :: "'v cam_env \<Rightarrow> 'v cam_state \<Rightarrow> int \<times> 'v cam_state" where
  "check_vendor_module E s =
     (if gVendorModule s then (0, s)
      else let rv = hw_get_module_by_class E in (rv, s\<lparr>gVendorModule := (rv = 0)\<rparr>))"

text \<open>The result and what is stored through \<^verbatim>\<open>device\<close>: \<open>None\<close> when nothing is stored.\<close>

definition camera_device_open :: "'v cam_env \<Rightarrow> string option \<Rightarrow> 'v cam_state \<Rightarrow> (int \<times> nat option option) \<times> 'v cam_state" where
  "camera_device_open E name s =
     (case name of
        None \<Rightarrow> ((0, None), s)
      | Some nm \<Rightarrow>
          (let (rv, s) = check_vendor_module E s
           in if rv \<noteq> 0 then ((- CAM_EINVAL, None), s)
              else let s = (if num_cameras s = 0 then s\<lparr>num_cameras := get_number_of_cameras E\<rparr> else s)
              in if fixed_set_params s = None \<and> \<not> calloc_fixed E then ((- CAM_ENOMEM, Some None), s)
                 else let s = (if fixed_set_params s = None
                               then s\<lparr>fixed_set_params := Some (replicate (nat (num_cameras s)) None)\<rparr> else s);
                          camera_id = atoi nm
                 in if camera_id < 0 \<or> camera_id > num_cameras s then ((- CAM_EINVAL, Some None), s)
                    else case calloc_device E of
                           None \<Rightarrow> ((- CAM_ENOMEM, Some None), s)
                         | Some d \<Rightarrow>
                             (case vendor_open E nm of (rv, v) \<Rightarrow>
                                if rv \<noteq> 0 then ((rv, Some None), s)
                                else if \<not> calloc_ops E then ((- CAM_ENOMEM, Some None), s)
                                else ((0, Some (Some d)),
                                      s\<lparr>devices := (devices s)(d \<mapsto> \<lparr>cam_id = camera_id, cam_vendor = v\<rparr>)\<rparr>))))"

definition camera_get_number_of_cameras :: "'v cam_env \<Rightarrow> 'v cam_state \<Rightarrow> int \<times> 'v cam_state" where
  "camera_get_number_of_cameras E s =
     (if num_cameras s = 0
      then let (rv, s) = check_vendor_module E s
           in if rv = 0 then (get_number_of_cameras E, s\<lparr>num_cameras := get_number_of_cameras E\<rparr>) else (num_cameras s, s)
      else (num_cameras s, s))"

definition camera_get_camera_info :: "'v cam_env \<Rightarrow> int \<Rightarrow> 'v cam_state \<Rightarrow> int \<times> 'v cam_state" where
  "camera_get_camera_info E camera_id s =
     (let (rv, s) = check_vendor_module E s in if rv \<noteq> 0 then (0, s) else (vendor_info E camera_id, s))"

text \<open>The callbacks the vendor gets: they call the user's with the user's device.\<close>

definition camera_notify_cb :: "'v cam_state \<Rightarrow> (nat \<times> nat) option" where
  "camera_notify_cb s = map_option (\<lambda>c. (gUserNotifyCb c, gUserCameraDevice c)) (callbacks s)"

definition camera_data_cb :: "'v cam_state \<Rightarrow> (nat \<times> nat) option" where
  "camera_data_cb s = map_option (\<lambda>c. (gUserDataCb c, gUserCameraDevice c)) (callbacks s)"

definition camera_data_cb_timestamp :: "'v cam_state \<Rightarrow> (nat \<times> nat) option" where
  "camera_data_cb_timestamp s = map_option (\<lambda>c. (gUserDataCbTimestamp c, gUserCameraDevice c)) (callbacks s)"

definition camera_get_memory :: "'v cam_state \<Rightarrow> (nat \<times> nat) option" where
  "camera_get_memory s = map_option (\<lambda>c. (gUserGetMemory c, gUserCameraDevice c)) (callbacks s)"

end
