(* ===== verification/Camera_Fixups.thy ===== *)
theory Camera_Fixups
  imports Camera_Wrapper
begin

text \<open>
  What the camera wrapper does to parameters, as overrides of single keys, and which camera numbers it
  accepts.
\<close>

section \<open>Overrides\<close>

definition apply_sets :: "'m kv_ops \<Rightarrow> (string \<times> string) list \<Rightarrow> 'm \<Rightarrow> 'm" where
  "apply_sets K ovs m = fold (\<lambda>(k, v). set_param K (Some k) (Some v)) ovs m"

definition settable :: "(string \<times> string) list \<Rightarrow> bool" where
  "settable ovs \<longleftrightarrow> (\<forall>(k, v) \<in> set ovs. CHR ''='' \<notin> set k \<and> CHR '';'' \<notin> set k \<and>
     CHR ''='' \<notin> set v \<and> CHR '';'' \<notin> set v \<and> v \<noteq> [])"

lemma apply_sets_simps [simp]: "apply_sets K [] m = m"
  "apply_sets K ((k, v) # ovs) m = apply_sets K ovs (set_param K (Some k) (Some v) m)"
  "apply_sets K (ovs @ ovs') m = apply_sets K ovs' (apply_sets K ovs m)"
  by (simp_all add: apply_sets_def)

context keyed_vector
begin

lemma good_apply [simp]: "good_params K valid m \<Longrightarrow> good_params K valid (apply_sets K ovs m)"
  by (induction ovs arbitrary: m) auto

lemma get_apply: "good_params K valid m \<Longrightarrow> settable ovs \<Longrightarrow>
  get_param K (apply_sets K ovs m) k = (case map_of (rev ovs) k of Some v \<Rightarrow> Some v | None \<Rightarrow> get_param K m k)"
proof (induction ovs arbitrary: m)
  case (Cons e ovs)
  obtain k1 v1 where e: "e = (k1, v1)" by (cases e)
  with Cons show ?case
    using get_set[OF Cons.prems(1), of k1 v1 k] by (auto simp: settable_def map_add_def split: option.split)
qed simp

lemma get_string: "good_params K valid m \<Longrightarrow> get_param K (unflatten K (flatten K m)) k = get_param K m k"
  by (simp add: get_items unflatten_flatten)

lemma get_clean: "good_params K valid m \<Longrightarrow> get_param K m k = Some v \<Longrightarrow> CHR '';'' \<notin> set v \<and> v \<noteq> []"
  by (auto simp: get_items good_params_def clean_iff split: option.splits if_splits)

end

section \<open>Parameters for the vendor\<close>

definition setparams_overrides :: "bool \<Rightarrow> bool \<Rightarrow> int \<Rightarrow> string option \<Rightarrow> (string \<times> string) list" where
  "setparams_overrides torch video cid hdr =
     (if torch then [] else if video then [(''dis'', ''disable''), (''zsl'', ''off'')] else [(''zsl'', ''on'')]) @
     (if cid = 0 then [(''phase-af'', ''on''), (''dynamic-range-control'', ''on'')] else []) @
     (if video then [(''rt-hdr'', case hdr of Some v \<Rightarrow> v | None \<Rightarrow> ''off'')] else []) @
     (if cid = 1 then [(''preview-fps-range'', ''7000,30000'')] else [])"

definition is_video :: "'m kv_ops \<Rightarrow> 'm \<Rightarrow> bool" where
  "is_video K params \<longleftrightarrow> get_param K params ''recording-hint'' = Some ''true''"

definition torch_before :: "'m kv_ops \<Rightarrow> string option \<Rightarrow> bool" where
  "torch_before K old \<longleftrightarrow> (\<exists>str. old = Some str \<and> torch_mode K (unflatten K str))"

context keyed_vector
begin

lemma hdr_unchanged:
  assumes "good_params K valid m"
  shows "get_param K (apply_sets K ((if torch then [] else if video then [(''dis'', ''disable''), (''zsl'', ''off'')] else [(''zsl'', ''on'')]) @
     (if cid = 0 then [(''phase-af'', ''on''), (''dynamic-range-control'', ''on'')] else [])) m) ''video-hdr'' =
    get_param K m ''video-hdr''"
  by (subst get_apply[OF assms]) (auto simp: settable_def)

lemma fixup_setparams_overrides:
  assumes "table_at (fixed_set_params s) cid = Inr old"
  shows "camera_fixup_setparams K cid settings s =
    (let p = unflatten K settings;
         ret = flatten K (apply_sets K (setparams_overrides (torch_mode K p \<or> torch_before K old) (is_video K p) cid
                 (get_param K p ''video-hdr'')) p)
     in Inr (ret, s\<lparr>fixed_set_params := map_option (\<lambda>xs. xs[nat cid := Some ret]) (fixed_set_params s)\<rparr>))"
proof -
  let ?p = "unflatten K settings"
  have g: "good_params K valid ?p" by simp
  have w: "(case old of Some str \<Rightarrow> torch_mode K (unflatten K str) | None \<Rightarrow> False) = torch_before K old"
    by (simp add: torch_before_def split: option.split)
  have v: "(case get_param K ?p ''recording-hint'' of Some h \<Rightarrow> h = ''true'' | None \<Rightarrow> False) = is_video K ?p"
    by (simp add: is_video_def split: option.split)
  have o: "(case x of Some v \<Rightarrow> Some v | None \<Rightarrow> Some W_OFF) = Some (case x of Some v \<Rightarrow> v | None \<Rightarrow> ''off'')" for x
    by (simp add: W_OFF_def split: option.split)
  show ?thesis
    using assms hdr_unchanged[OF g, of "torch_mode K ?p \<or> torch_before K old" "is_video K ?p" cid]
    by (cases "torch_mode K ?p"; cases "torch_before K old"; cases "is_video K ?p"; cases "cid = 0")
      (simp_all add: camera_fixup_setparams_def Let_def w v o setparams_overrides_def wrapper_strings
        BACK_CAMERA_ID_def FRONT_CAMERA_ID_def)
qed

end

lemma settable_setparams: "(\<And>v. hdr = Some v \<Longrightarrow> CHR ''='' \<notin> set v \<and> CHR '';'' \<notin> set v \<and> v \<noteq> []) \<Longrightarrow>
  settable (setparams_overrides torch video cid hdr)"
  by (cases hdr) (auto simp: setparams_overrides_def settable_def)

lemma setparams_zsl: "map_of (rev (setparams_overrides False False cid hdr)) ''zsl'' = Some ''on''"
  by (simp add: setparams_overrides_def)

context keyed_vector
begin

lemma set_parameters_run:
  assumes s: "fixed_set_params s = Some xs" "0 \<le> cam_id w" "cam_id w < int (length xs)" and d: "devices s d = Some w"
    and hdr: "\<And>v. get_param K (unflatten K settings) ''video-hdr'' = Some v \<Longrightarrow> CHR ''='' \<notin> set v"
    and ovs: "ovs = setparams_overrides (torch_mode K (unflatten K settings) \<or> torch_before K (xs ! nat (cam_id w)))
      (is_video K (unflatten K settings)) (cam_id w) (get_param K (unflatten K settings) ''video-hdr'')"
    and ret: "ret = flatten K (apply_sets K ovs (unflatten K settings))"
  shows "camera_set_parameters K E (Some d) settings s =
      Inr (vendor_answer E (cam_vendor w) (set_parameters ret),
        s\<lparr>fixed_set_params := Some (xs[nat (cam_id w) := Some ret]),
          vendor_calls := vendor_calls s @ [(cam_vendor w, set_parameters ret)]\<rparr>)"
    and "get_param K (unflatten K ret) k =
      (case map_of (rev ovs) k of Some v \<Rightarrow> Some v | None \<Rightarrow> get_param K (unflatten K settings) k)"
proof -
  have "table_at (fixed_set_params s) (cam_id w) = Inr (xs ! nat (cam_id w))" using s by (simp add: table_at_def)
  then show "camera_set_parameters K E (Some d) settings s =
      Inr (vendor_answer E (cam_vendor w) (set_parameters ret),
        s\<lparr>fixed_set_params := Some (xs[nat (cam_id w) := Some ret]),
          vendor_calls := vendor_calls s @ [(cam_vendor w, set_parameters ret)]\<rparr>)"
    using s d by (simp add: camera_set_parameters_def with_device_def fixup_setparams_overrides VENDOR_CALL_def
        Let_def ovs ret)
  have "settable ovs" unfolding ovs using hdr get_clean[OF good_unflatten] by (intro settable_setparams) blast
  then show "get_param K (unflatten K ret) k =
      (case map_of (rev ovs) k of Some v \<Rightarrow> Some v | None \<Rightarrow> get_param K (unflatten K settings) k)"
    by (simp add: ret get_string get_apply)
qed

end

section \<open>Parameters for the framework\<close>

definition getparams_overrides :: "string option \<Rightarrow> string option \<Rightarrow> bool \<Rightarrow> string option \<Rightarrow> (string \<times> string) list" where
  "getparams_overrides fmt hfr video hdr =
     (if fmt = None \<or> fmt = Some ''nv12-venus'' then [(''preview-format'', ''yuv420sp'')] else []) @
     (case hfr of Some vs \<Rightarrow> if sublist ''off'' vs then [] else [(''video-hfr-values'', ''off,'' @ vs)] | None \<Rightarrow> []) @
     (if video then [(''video-snapshot-supported'', ''true'')] else []) @
     (case hdr of Some v \<Rightarrow> [(''video-hdr-values'', v)] | None \<Rightarrow> [])"

context keyed_vector
begin

lemma get_set_other: "good_params K valid m \<Longrightarrow> k' \<noteq> k \<Longrightarrow> get_param K (set_param K (Some k) v m) k' = get_param K m k'"
  by (simp add: get_param_def set_param_def replace_is_add value_for valid_add items_add good_params_def Let_def
      split: option.split)

lemma fixup_getparams_overrides:
  "camera_fixup_getparams K cid settings =
    (let p = unflatten K settings
     in flatten K (apply_sets K (getparams_overrides (get_param K p ''preview-format'') (get_param K p ''video-hfr-values'')
          (is_video K p) (get_param K p ''rt-hdr-values'')) p))"
proof -
  let ?p = "unflatten K settings"
  have v: "(case get_param K ?p W_KEY_RECORDING_HINT of Some h \<Rightarrow> h = ''true'' | None \<Rightarrow> False) = is_video K ?p"
    by (simp add: is_video_def W_KEY_RECORDING_HINT_def split: option.split)
  have f: "(case getPreviewFormat K ?p of None \<Rightarrow> True | Some f \<Rightarrow> f = PIXEL_FORMAT_NV12_VENUS) =
      (get_param K ?p ''preview-format'' = None \<or> get_param K ?p ''preview-format'' = Some ''nv12-venus'')"
    by (simp add: getPreviewFormat_def KEY_PREVIEW_FORMAT_def PIXEL_FORMAT_NV12_VENUS_def split: option.split)
  define p1 where "p1 = (if get_param K ?p ''preview-format'' = None \<or> get_param K ?p ''preview-format'' = Some ''nv12-venus''
    then setPreviewFormat K (Some PIXEL_FORMAT_YUV420SP) ?p else ?p)"
  have p1: "good_params K valid p1" "get_param K p1 ''video-hfr-values'' = get_param K ?p ''video-hfr-values''"
      "get_param K p1 ''rt-hdr-values'' = get_param K ?p ''rt-hdr-values''"
    by (simp_all add: p1_def setPreviewFormat_def KEY_PREVIEW_FORMAT_def get_set_other)
  show ?thesis
    unfolding camera_fixup_getparams_def Let_def v f p1_def[symmetric]
    using p1 by (cases "get_param K ?p ''video-hfr-values''"; cases "get_param K ?p ''rt-hdr-values''"; cases "is_video K ?p")
      (simp_all add: wrapper_strings getparams_overrides_def get_set_other,
       simp_all add: p1_def setPreviewFormat_def KEY_PREVIEW_FORMAT_def PIXEL_FORMAT_YUV420SP_def)
qed

end

lemma getparams_lookup: "map_of (rev (getparams_overrides fmt hfr video hdr)) k =
  (if k = ''video-hdr-values'' then hdr
   else if k = ''video-snapshot-supported'' then if video then Some ''true'' else None
   else if k = ''video-hfr-values''
     then case hfr of Some vs \<Rightarrow> if sublist ''off'' vs then None else Some (''off,'' @ vs) | None \<Rightarrow> None
   else if k = ''preview-format'' \<and> (fmt = None \<or> fmt = Some ''nv12-venus'') then Some ''yuv420sp'' else None)"
  by (auto simp: getparams_overrides_def split: option.split)

section \<open>Properties\<close>

text \<open>C20. The parameters that reach the vendor are those of the framework with these keys overridden and no
  other: outside torch mode zero shutter lag is off and stabilisation disabled for video and it is on for
  pictures; the rear camera gets phase autofocus and dynamic range control; video gets the framework's video
  HDR setting, or off, as its real-time HDR; the front camera gets its frame rate range. What the vendor
  receives is what the wrapper keeps for the next call.\<close>

theorem vendor_parameters:
  assumes K: "keyed_vector K valid" and s: "fixed_set_params s = Some xs" "0 \<le> cam_id w" "cam_id w < int (length xs)"
    and d: "devices s d = Some w" and p: "p = unflatten K settings"
    and hdr: "\<And>v. get_param K p ''video-hdr'' = Some v \<Longrightarrow> CHR ''='' \<notin> set v"
    and ovs: "ovs = setparams_overrides (torch_mode K p \<or> torch_before K (xs ! nat (cam_id w))) (is_video K p) (cam_id w)
      (get_param K p ''video-hdr'')"
  shows "\<exists>ret. camera_set_parameters K E (Some d) settings s =
      Inr (vendor_answer E (cam_vendor w) (set_parameters ret),
        s\<lparr>fixed_set_params := Some (xs[nat (cam_id w) := Some ret]),
          vendor_calls := vendor_calls s @ [(cam_vendor w, set_parameters ret)]\<rparr>) \<and>
    (\<forall>k. get_param K (unflatten K ret) k =
      (case map_of (rev ovs) k of Some v \<Rightarrow> Some v | None \<Rightarrow> get_param K p k))"
  unfolding p using keyed_vector.set_parameters_run[OF K s d hdr[unfolded p] ovs[unfolded p] refl] by blast

text \<open>C39. The framework never sees the vendor's private preview format: the parameters it reads name a
  preview format, and not that one. High frame rate lists always offer off, video recording always offers
  snapshots, the vendor's real-time HDR modes are shown as video HDR modes, and every other key is as the
  vendor gave it.\<close>

theorem framework_parameters:
  assumes K: "keyed_vector K valid" and d: "devices s d = Some w" and v: "v = unflatten K (vendor_params E (cam_vendor w))"
    and hfr: "\<forall>vs. get_param K v ''video-hfr-values'' = Some vs \<longrightarrow> CHR ''='' \<notin> set vs"
    and hdr: "\<forall>hs. get_param K v ''rt-hdr-values'' = Some hs \<longrightarrow> CHR ''='' \<notin> set hs"
  shows "\<exists>ret s'. camera_get_parameters K E (Some d) s = Inr (Some ret, s') \<and>
    (\<exists>f. getPreviewFormat K (unflatten K ret) = Some f \<and> f \<noteq> ''nv12-venus'') \<and>
    (\<forall>vs. get_param K (unflatten K ret) ''video-hfr-values'' = Some vs \<longrightarrow> sublist ''off'' vs) \<and>
    (is_video K v \<longrightarrow> get_param K (unflatten K ret) ''video-snapshot-supported'' = Some ''true'') \<and>
    (\<forall>hs. get_param K v ''rt-hdr-values'' = Some hs \<longrightarrow> get_param K (unflatten K ret) ''video-hdr-values'' = Some hs) \<and>
    (\<forall>k. k \<notin> {''preview-format'', ''video-hfr-values'', ''video-snapshot-supported'', ''video-hdr-values''} \<longrightarrow>
      get_param K (unflatten K ret) k = get_param K v k)"
proof -
  have g: "good_params K valid v" using keyed_vector.good_unflatten[OF K] v by simp
  define ovs where "ovs = getparams_overrides (get_param K v ''preview-format'') (get_param K v ''video-hfr-values'')
    (is_video K v) (get_param K v ''rt-hdr-values'')"
  have ne: "Some [] \<noteq> get_param K v k" for k using keyed_vector.get_clean[OF K g] by metis
  have "settable ovs"
    using hfr hdr ne keyed_vector.get_clean[OF K g] by (auto simp: ovs_def getparams_overrides_def settable_def split: option.splits)
  then have get: "get_param K (unflatten K (flatten K (apply_sets K ovs v))) k =
      (case map_of (rev ovs) k of Some x \<Rightarrow> Some x | None \<Rightarrow> get_param K v k)" for k
    using keyed_vector.get_string[OF K keyed_vector.good_apply[OF K g]] keyed_vector.get_apply[OF K g] by metis
  have off: "sublist ''off'' (''off,'' @ vs)" for vs by (simp add: sublist_def) (metis append_Nil append_Cons)
  have run: "\<exists>s'. camera_get_parameters K E (Some d) s = Inr (Some (flatten K (apply_sets K ovs v)), s')"
    using d by (simp add: camera_get_parameters_def with_device_def keyed_vector.fixup_getparams_overrides[OF K] Let_def ovs_def v)
  obtain ret s' where ret: "camera_get_parameters K E (Some d) s = Inr (Some ret, s')"
    and get: "\<And>k. get_param K (unflatten K ret) k = (case map_of (rev ovs) k of Some x \<Rightarrow> Some x | None \<Rightarrow> get_param K v k)"
    using run get by blast
  have "\<exists>f. getPreviewFormat K (unflatten K ret) = Some f \<and> f \<noteq> ''nv12-venus''"
    by (cases "get_param K v ''preview-format''")
      (auto simp: getPreviewFormat_def KEY_PREVIEW_FORMAT_def get ovs_def getparams_lookup)
  moreover have "sublist ''off'' vs" if "get_param K (unflatten K ret) ''video-hfr-values'' = Some vs" for vs
    using that off by (auto simp: get ovs_def getparams_lookup split: option.splits if_splits)
  moreover have "get_param K (unflatten K ret) k = get_param K v k"
    if "k \<notin> {''preview-format'', ''video-hfr-values'', ''video-snapshot-supported'', ''video-hdr-values''}" for k
    using that by (simp add: get ovs_def getparams_lookup)
  ultimately show ?thesis
    using ret by (intro exI[of _ ret] exI[of _ s']) (simp add: get ovs_def getparams_lookup)
qed

text \<open>The comment says that zero shutter lag must not be touched when torch mode is on or was just on,
  since the camera service crashes otherwise. The wrapper looks for a value that is not the one the class
  defines for torch mode: with the framework's torch value, now and in the call before, zero shutter lag is
  overridden all the same.\<close>

theorem torch_not_recognised:
  assumes K: "keyed_vector K valid" and s: "fixed_set_params s = Some xs" "0 \<le> cam_id w" "cam_id w < int (length xs)"
    and d: "devices s d = Some w" and p: "p = unflatten K settings"
    and torch: "map_of class_strings ''FLASH_MODE_TORCH'' = Some torch" "get_param K p ''flash-mode'' = Some torch"
    and before: "xs ! nat (cam_id w) = Some old" "get_param K (unflatten K old) ''flash-mode'' = Some torch"
    and picture: "\<not> is_video K p" and hdr: "\<And>v. get_param K p ''video-hdr'' = Some v \<Longrightarrow> CHR ''='' \<notin> set v"
  shows "\<exists>ret s'. camera_set_parameters K E (Some d) settings s =
      Inr (vendor_answer E (cam_vendor w) (set_parameters ret), s') \<and>
    get_param K (unflatten K ret) ''zsl'' = Some ''on''"
proof -
  have "torch = ''torch''" using torch(1) by (simp add: class_strings_def)
  then have no: "\<not> torch_mode K p" "\<not> torch_before K (xs ! nat (cam_id w))"
    using torch(2) before by (simp_all add: torch_mode_def torch_before_def wrapper_strings)
  note run = keyed_vector.set_parameters_run[OF K s d, of settings, OF hdr[unfolded p] refl refl]
  show ?thesis using run(1)[of E] run(2)[of "''zsl''"] no picture by (auto simp: setparams_zsl p)
qed

text \<open>The saved parameters have one slot per camera.\<close>

definition table_ok :: "'v cam_state \<Rightarrow> bool" where
  "table_ok s \<longleftrightarrow> 0 \<le> num_cameras s \<and>
     (\<forall>xs. fixed_set_params s = Some xs \<longrightarrow> 0 < num_cameras s \<and> int (length xs) = num_cameras s)"

text \<open>A camera opens only under a number from 0 up to and including the number of cameras, one too many:
  for the last of these, setting parameters and closing the camera reach outside the table of saved
  parameters; for every smaller number setting parameters succeeds with the vendor's answer and closing
  releases the device.\<close>

theorem camera_number_bounds:
  assumes opened: "camera_device_open E (Some nm) s = ((0, Some (Some d)), s')"
    and ok: "table_ok s" "0 < get_number_of_cameras E"
  shows "0 \<le> atoi nm \<and> atoi nm \<le> num_cameras s' \<and>
    (atoi nm = num_cameras s' \<longrightarrow>
      camera_set_parameters K E (Some d) settings s' = Inl OutOfBounds \<and>
      camera_device_close E (Some d) s' = Inl OutOfBounds) \<and>
    (atoi nm < num_cameras s' \<longrightarrow>
      (\<exists>ret s''. camera_set_parameters K E (Some d) settings s' =
         Inr (vendor_answer E (snd (vendor_open E nm)) (set_parameters ret), s'') \<and> table_ok s'') \<and>
      (\<exists>s''. camera_device_close E (Some d) s' = Inr (0, s'') \<and> devices s'' d = None \<and> table_ok s''))"
proof -
  from opened ok obtain xs where xs: "fixed_set_params s' = Some xs" "int (length xs) = num_cameras s'" "0 < num_cameras s'"
    and w: "devices s' d = Some \<lparr>cam_id = atoi nm, cam_vendor = snd (vendor_open E nm)\<rparr>"
    and i: "0 \<le> atoi nm" "atoi nm \<le> num_cameras s'"
    by (auto simp: camera_device_open_def check_vendor_module_def table_ok_def Let_def split: if_splits option.splits prod.splits)
  have over: "table_at (Some xs) (atoi nm) = Inl OutOfBounds" if "atoi nm = num_cameras s'"
    using that xs by (simp add: table_at_def)
  have inside: "table_at (Some xs) (atoi nm) = Inr (xs ! nat (atoi nm))" if "atoi nm < num_cameras s'"
    using that xs i by (simp add: table_at_def)
  have "camera_set_parameters K E (Some d) settings s' = Inl OutOfBounds \<and> camera_device_close E (Some d) s' = Inl OutOfBounds"
    if "atoi nm = num_cameras s'"
    using over[OF that] w xs
    by (simp add: camera_set_parameters_def with_device_def camera_fixup_setparams_def camera_device_close_def Let_def)
  moreover have "\<exists>ret s''. camera_set_parameters K E (Some d) settings s' =
      Inr (vendor_answer E (snd (vendor_open E nm)) (set_parameters ret), s'') \<and> table_ok s''" if "atoi nm < num_cameras s'"
    using inside[OF that] w xs
    by (auto simp: camera_set_parameters_def with_device_def camera_fixup_setparams_def VENDOR_CALL_def table_ok_def Let_def)
  moreover have "\<exists>s''. camera_device_close E (Some d) s' = Inr (0, s'') \<and> devices s'' d = None \<and> table_ok s''"
    if "atoi nm < num_cameras s'"
    using inside[OF that] w xs by (auto simp: camera_device_close_def table_ok_def Let_def split: option.split)
  ultimately show ?thesis using i by blast
qed

section \<open>Witnesses\<close>

definition demo_cam :: "nat cam_state" where
  "demo_cam = \<lparr>gVendorModule = True, num_cameras = 2, fixed_set_params = Some [None, Some ''flash-mode=torch''],
     devices = [7 \<mapsto> \<lparr>cam_id = 1, cam_vendor = 3\<rparr>], callbacks = None, vendor_calls = []\<rparr>"

definition demo_cam_env :: "nat cam_env" where
  "demo_cam_env = \<lparr>hw_get_module_by_class = 0, get_number_of_cameras = 2, vendor_open = (\<lambda>nm. (0, 4)),
     vendor_answer = (\<lambda>v c. 0), vendor_params = (\<lambda>v. ''preview-format=nv12-venus;video-hfr-values=60''),
     vendor_info = (\<lambda>i. 0), calloc_fixed = True, calloc_device = Some 8, calloc_ops = True\<rparr>"

lemma get_sv: "get_param sorted_vector m k = (case map_of m k of None \<Rightarrow> None | Some v \<Rightarrow> if v = [] then None else Some v)"
  by (simp add: get_param_def sorted_vector_def split: option.split)

lemma demo_strings:
  "unflatten sorted_vector ''flash-mode=torch'' = [(''flash-mode'', ''torch'')]"
  "unflatten sorted_vector ''iso=100'' = [(''iso'', ''100'')]"
  "unflatten sorted_vector ''preview-format=nv12-venus;video-hfr-values=60'' =
     [(''preview-format'', ''nv12-venus''), (''video-hfr-values'', ''60'')]"
  by (simp_all add: unflatten_def unflatten_loop.simps strchr_split_def sorted_vector_def)

lemma demo_cam_device: "fixed_set_params demo_cam = Some [None, Some ''flash-mode=torch'']"
  "devices demo_cam 7 = Some \<lparr>cam_id = 1, cam_vendor = 3\<rparr>"
  "0 \<le> cam_id \<lparr>cam_id = 1, cam_vendor = 3\<rparr>"
  "cam_id \<lparr>cam_id = 1, cam_vendor = 3\<rparr> < int (length [None, Some ''flash-mode=torch''])"
  by (simp_all add: demo_cam_def)

lemma demo_before: "\<not> torch_before sorted_vector (Some ''flash-mode=torch'')"
  by (simp add: torch_before_def torch_mode_def wrapper_strings demo_strings get_sv)

theorem vendor_parameters_witness:
  "\<exists>ret. camera_set_parameters sorted_vector demo_cam_env (Some 7) ''iso=100'' demo_cam =
      Inr (0, demo_cam\<lparr>fixed_set_params := Some [None, Some ret], vendor_calls := [(3, set_parameters ret)]\<rparr>) \<and>
    get_param sorted_vector (unflatten sorted_vector ret) ''zsl'' = Some ''on'' \<and>
    get_param sorted_vector (unflatten sorted_vector ret) ''iso'' = Some ''100''"
proof -
  have p: "[(''iso'', ''100'')] = unflatten sorted_vector ''iso=100''" by (simp add: demo_strings)
  have get: "get_param sorted_vector [(''iso'', ''100'')] k = (if k = ''iso'' then Some ''100'' else None)" for k
    by (simp add: get_sv)
  have "\<And>v. get_param sorted_vector [(''iso'', ''100'')] ''video-hdr'' = Some v \<Longrightarrow> CHR ''='' \<notin> set v" by (simp add: get)
  from vendor_parameters[OF sv.keyed_vector_axioms demo_cam_device(1,3,4,2) p this refl, of demo_cam_env] show ?thesis
    by (auto simp: get demo_before setparams_overrides_def torch_mode_def is_video_def wrapper_strings demo_cam_env_def
        demo_cam_def)
qed

theorem framework_parameters_witness:
  "\<exists>ret s'. camera_get_parameters sorted_vector demo_cam_env (Some 7) demo_cam = Inr (Some ret, s') \<and>
    (\<exists>f. getPreviewFormat sorted_vector (unflatten sorted_vector ret) = Some f \<and> f \<noteq> ''nv12-venus'')"
proof -
  let ?v = "unflatten sorted_vector (vendor_params demo_cam_env (cam_vendor \<lparr>cam_id = 1, cam_vendor = 3\<rparr>))"
  have "?v = [(''preview-format'', ''nv12-venus''), (''video-hfr-values'', ''60'')]"
    by (simp add: demo_cam_env_def demo_strings)
  then have get: "get_param sorted_vector ?v ''video-hfr-values'' = Some ''60''" "get_param sorted_vector ?v ''rt-hdr-values'' = None"
    by (simp_all add: get_sv)
  have hfr: "\<forall>vs. get_param sorted_vector ?v ''video-hfr-values'' = Some vs \<longrightarrow> CHR ''='' \<notin> set vs"
    and hdr: "\<forall>hs. get_param sorted_vector ?v ''rt-hdr-values'' = Some hs \<longrightarrow> CHR ''='' \<notin> set hs"
    unfolding get by (simp_all add: eq_commute)
  from framework_parameters[OF sv.keyed_vector_axioms demo_cam_device(2) refl hfr hdr] show ?thesis
    by (elim exE conjE) (intro exI conjI; assumption)
qed

theorem torch_not_recognised_witness:
  "\<exists>ret s'. camera_set_parameters sorted_vector demo_cam_env (Some 7) ''flash-mode=torch'' demo_cam =
      Inr (0, s') \<and> get_param sorted_vector (unflatten sorted_vector ret) ''zsl'' = Some ''on''"
proof -
  have t: "map_of class_strings ''FLASH_MODE_TORCH'' = Some ''torch''" by (simp add: class_strings_def)
  have get: "get_param sorted_vector (unflatten sorted_vector ''flash-mode=torch'') k = (if k = ''flash-mode'' then Some ''torch'' else None)" for k
    by (simp add: demo_strings get_sv)
  have f: "get_param sorted_vector (unflatten sorted_vector ''flash-mode=torch'') ''flash-mode'' = Some ''torch''"
    "\<not> is_video sorted_vector (unflatten sorted_vector ''flash-mode=torch'')"
    "\<And>v. get_param sorted_vector (unflatten sorted_vector ''flash-mode=torch'') ''video-hdr'' = Some v \<Longrightarrow> CHR ''='' \<notin> set v"
    by (simp_all add: get is_video_def)
  have b: "[None, Some ''flash-mode=torch''] ! nat (cam_id \<lparr>cam_id = 1, cam_vendor = 3\<rparr>) = Some ''flash-mode=torch''" by simp
  from torch_not_recognised[OF sv.keyed_vector_axioms demo_cam_device(1,3,4,2) refl t f(1) b f(1,2,3), of demo_cam_env]
  show ?thesis by (auto simp: demo_cam_env_def)
qed

theorem camera_number_bounds_witness:
  "\<exists>s'. camera_device_open demo_cam_env (Some ''2'') demo_cam = ((0, Some (Some 8)), s') \<and>
    camera_set_parameters sorted_vector demo_cam_env (Some 8) ''iso=100'' s' = Inl OutOfBounds"
proof -
  have two: "atoi ''2'' = 2" by code_simp
  obtain s' where o: "camera_device_open demo_cam_env (Some ''2'') demo_cam = ((0, Some (Some 8)), s')" "num_cameras s' = 2"
    by (simp add: camera_device_open_def check_vendor_module_def demo_cam_env_def demo_cam_def two)
  have "table_ok demo_cam" "0 < get_number_of_cameras demo_cam_env" by (simp_all add: table_ok_def demo_cam_def demo_cam_env_def)
  from camera_number_bounds[OF o(1) this, of sorted_vector "''iso=100''"] o two show ?thesis by auto
qed

end
