(* ===== verification/C_Memory.thy ===== *)
theory C_Memory
  imports C_Strings "HOL-Library.Monad_Syntax"
begin

text \<open>
  Memory of a 32-bit process as the C sources see it: readable bytes at addresses, the layout of
  structures after the rules of the platform (32-bit integers, enumerations and pointers, unsigned
  characters), reading and writing of scalar fields, and strings that end with a NUL. A read of memory
  that is not there, as through a null pointer, has no result.
\<close>

section \<open>Types and their layout\<close>

text \<open>Signed and unsigned 32-bit integers, characters, 64-bit integers, pointers, arrays, structures and
  unions. A field without a name is an anonymous union.\<close>

datatype cty = CI | CU | CC | CL | CP | CA cty nat | CS "(string \<times> cty) list" | CN "(string \<times> cty) list"

definition round_up :: "nat \<Rightarrow> nat \<Rightarrow> nat" where
  "round_up n a = (n + a - 1) div a * a"

fun alignof :: "cty \<Rightarrow> nat" and alignofs :: "(string \<times> cty) list \<Rightarrow> nat" where
  "alignof CI = 4"
| "alignof CU = 4"
| "alignof CC = 1"
| "alignof CL = 8"
| "alignof CP = 4"
| "alignof (CA t n) = alignof t"
| "alignof (CS fs) = alignofs fs"
| "alignof (CN fs) = alignofs fs"
| "alignofs [] = 1"
| "alignofs ((n, t) # fs) = max (alignof t) (alignofs fs)"

fun sizeof :: "cty \<Rightarrow> nat" and struct_end :: "nat \<Rightarrow> (string \<times> cty) list \<Rightarrow> nat" and union_size :: "(string \<times> cty) list \<Rightarrow> nat" where
  "sizeof CI = 4"
| "sizeof CU = 4"
| "sizeof CC = 1"
| "sizeof CL = 8"
| "sizeof CP = 4"
| "sizeof (CA t n) = n * sizeof t"
| "sizeof (CS fs) = round_up (struct_end 0 fs) (alignofs fs)"
| "sizeof (CN fs) = round_up (union_size fs) (alignofs fs)"
| "struct_end off [] = off"
| "struct_end off ((n, t) # fs) = struct_end (round_up off (alignof t) + sizeof t) fs"
| "union_size [] = 0"
| "union_size ((n, t) # fs) = max (sizeof t) (union_size fs)"

text \<open>A member of a structure: its offset and type.\<close>

fun member :: "nat \<Rightarrow> (string \<times> cty) list \<Rightarrow> string \<Rightarrow> (nat \<times> cty) option" where
  "member off [] f = None"
| "member off ((n, t) # fs) f =
     (if n = f then Some (round_up off (alignof t), t) else member (round_up off (alignof t) + sizeof t) fs f)"

fun subobject :: "cty \<Rightarrow> string \<Rightarrow> (nat \<times> cty) option" where
  "subobject (CS fs) f = member 0 fs f"
| "subobject (CN fs) f = map_option (\<lambda>t. (0, t)) (map_of fs f)"
| "subobject _ f = None"

fun field :: "cty \<Rightarrow> string list \<Rightarrow> (nat \<times> cty) option" where
  "field t [] = Some (0, t)"
| "field t (f # fs) = do { (o1, t1) \<leftarrow> subobject t f; (o2, t2) \<leftarrow> field t1 fs; Some (o1 + o2, t2) }"

section \<open>Memory\<close>

type_synonym vmem = "nat \<Rightarrow> u8 option"

text \<open>The first page is never mapped.\<close>

definition byte_at :: "vmem \<Rightarrow> nat \<Rightarrow> u8 option" where
  "byte_at M a = (if a < 4096 then None else M a)"

fun bytes_at :: "vmem \<Rightarrow> nat \<Rightarrow> nat \<Rightarrow> u8 list option" where
  "bytes_at M a 0 = Some []"
| "bytes_at M a (Suc n) = do { b \<leftarrow> byte_at M a; bs \<leftarrow> bytes_at M (Suc a) n; Some (b # bs) }"

fun le_nat :: "u8 list \<Rightarrow> nat" where
  "le_nat [] = 0"
| "le_nat (b # bs) = unat b + 256 * le_nat bs"

definition to_signed :: "nat \<Rightarrow> int" where
  "to_signed n = (if n < 2 ^ 31 then int n else int n - 2 ^ 32)"

fun load :: "vmem \<Rightarrow> nat \<Rightarrow> cty \<Rightarrow> int option" where
  "load M a CI = map_option (\<lambda>bs. to_signed (le_nat bs)) (bytes_at M a 4)"
| "load M a CU = map_option (\<lambda>bs. int (le_nat bs)) (bytes_at M a 4)"
| "load M a CP = map_option (\<lambda>bs. int (le_nat bs)) (bytes_at M a 4)"
| "load M a CC = map_option (\<lambda>bs. int (le_nat bs)) (bytes_at M a 1)"
| "load M a CL = map_option (\<lambda>bs. int (le_nat bs)) (bytes_at M a 8)"
| "load M a _ = None"

text \<open>A field \<open>p->f.g\<close> of the structure \<open>T\<close> at \<open>p\<close>, its address, and an element \<open>p[i]\<close> of an array of \<open>T\<close>.\<close>

definition fld :: "vmem \<Rightarrow> cty \<Rightarrow> nat \<Rightarrow> string list \<Rightarrow> int option" where
  "fld M T p path = do { (off, t) \<leftarrow> field T path; load M (p + off) t }"

definition addr_of :: "cty \<Rightarrow> nat \<Rightarrow> string list \<Rightarrow> nat" where
  "addr_of T p path = (case field T path of Some (off, _) \<Rightarrow> p + off | None \<Rightarrow> p)"

definition elem :: "cty \<Rightarrow> nat \<Rightarrow> nat \<Rightarrow> nat" where
  "elem T p i = p + i * sizeof T"

definition ptr_fld :: "vmem \<Rightarrow> cty \<Rightarrow> nat \<Rightarrow> string list \<Rightarrow> nat option" where
  "ptr_fld M T p path = map_option nat (fld M T p path)"

definition int_elem :: "vmem \<Rightarrow> nat \<Rightarrow> nat \<Rightarrow> int option" where
  "int_elem M p i = load M (elem CI p i) CI"

definition ptr_elem :: "vmem \<Rightarrow> nat \<Rightarrow> nat \<Rightarrow> nat option" where
  "ptr_elem M p i = map_option nat (load M (elem CP p i) CP)"

text \<open>Writing an integer; memory that is not there cannot be written.\<close>

fun le_bytes :: "nat \<Rightarrow> nat \<Rightarrow> u8 list" where
  "le_bytes 0 n = []"
| "le_bytes (Suc k) n = word_of_nat n # le_bytes k (n div 256)"

fun put_bytes :: "vmem \<Rightarrow> nat \<Rightarrow> u8 list \<Rightarrow> vmem" where
  "put_bytes M a [] = M"
| "put_bytes M a (b # bs) = (put_bytes M (Suc a) bs)(a := Some b)"

definition store_int :: "vmem \<Rightarrow> nat \<Rightarrow> int \<Rightarrow> vmem option" where
  "store_int M a v = do { _ \<leftarrow> bytes_at M a 4; Some (put_bytes M a (le_bytes 4 (nat (v mod 2 ^ 32)))) }"

text \<open>The string at an address, up to the first NUL; addresses have 32 bits.\<close>

function cstr :: "vmem \<Rightarrow> nat \<Rightarrow> u8 list option" where
  "cstr M a =
     (if 2 ^ 32 \<le> a then None
      else case byte_at M a of
        None \<Rightarrow> None
      | Some b \<Rightarrow> if b = 0 then Some [] else map_option (\<lambda>s. b # s) (cstr M (Suc a)))"
  by pat_completeness auto

termination by (relation "measure (\<lambda>(M, a). 2 ^ 32 - a)") auto

declare cstr.simps [simp del]

text \<open>\<^verbatim>\<open>strndup\<close>: at most \<open>n\<close> bytes, up to the first NUL.\<close>

fun cstrn :: "vmem \<Rightarrow> nat \<Rightarrow> nat \<Rightarrow> u8 list option" where
  "cstrn M a 0 = Some []"
| "cstrn M a (Suc n) = do { b \<leftarrow> byte_at M a; if b = 0 then Some [] else do { s \<leftarrow> cstrn M (Suc a) n; Some (b # s) } }"

definition chars_of :: "u8 list \<Rightarrow> string" where
  "chars_of bs = map (\<lambda>b. char_of (unat b)) bs"

definition bytes_of :: "string \<Rightarrow> u8 list" where
  "bytes_of s = map (\<lambda>c. word_of_nat (of_char c)) s"

definition atoi_at :: "vmem \<Rightarrow> nat \<Rightarrow> int option" where
  "atoi_at M p = map_option (\<lambda>s. atoi (chars_of s)) (cstr M p)"

text \<open>Going through a list with a step that may fault.\<close>

fun mapM :: "('a \<Rightarrow> 'b option) \<Rightarrow> 'a list \<Rightarrow> 'b list option" where
  "mapM f [] = Some []"
| "mapM f (x # xs) = do { y \<leftarrow> f x; ys \<leftarrow> mapM f xs; Some (y # ys) }"

section \<open>Properties of memory\<close>

text \<open>Evaluation of reads at numerals.\<close>

named_theorems mem_eval "evaluation of memory"

lemma bytes_at_numeral [mem_eval]:
  "bytes_at M a (numeral k) = do { b \<leftarrow> byte_at M a; bs \<leftarrow> bytes_at M (Suc a) (pred_numeral k); Some (b # bs) }"
  by (simp add: numeral_eq_Suc)

lemma le_bytes_numeral [mem_eval]: "le_bytes (numeral k) n = word_of_nat n # le_bytes (pred_numeral k) (n div 256)"
  by (subst numeral_eq_Suc) (rule le_bytes.simps)

lemmas mem_eval_defs [mem_eval] = byte_at_def to_signed_def fld_def addr_of_def elem_def round_up_def

definition readable :: "vmem \<Rightarrow> nat \<Rightarrow> nat \<Rightarrow> bool" where
  "readable M a n \<longleftrightarrow> 4096 \<le> a \<and> (\<forall>i < n. M (a + i) \<noteq> None)"

lemma unat_u8: "unat (b :: u8) < 256"
  using unsigned_less[of b, where 'a = nat] by simp

lemma bytes_at_readable: "readable M a n \<Longrightarrow> \<exists>bs. bytes_at M a n = Some bs \<and> length bs = n"
proof (induction n arbitrary: a)
  case (Suc n)
  then obtain b where b: "M a = Some b"
    unfolding readable_def by (auto dest!: spec[of _ 0])
  have "M (Suc a + i) \<noteq> None" if "i < n" for i
    using Suc.prems that unfolding readable_def by (auto dest!: spec[of _ "Suc i"])
  then have r: "readable M (Suc a) n"
    using Suc.prems by (simp add: readable_def)
  obtain bs where "bytes_at M (Suc a) n = Some bs" "length bs = n"
    using Suc.IH[OF r] by blast
  with b Suc.prems show ?case
    by (simp add: byte_at_def readable_def)
qed simp

lemma bytes_at_cong: "(\<And>i. i < n \<Longrightarrow> M (a + i) = M' (a + i)) \<Longrightarrow> bytes_at M a n = bytes_at M' a n"
proof (induction n arbitrary: a)
  case (Suc n)
  have "bytes_at M (Suc a) n = bytes_at M' (Suc a) n"
    using Suc.prems[of "Suc _"] by (intro Suc.IH) simp
  with Suc.prems[of 0] show ?case by (simp add: byte_at_def)
qed simp

lemma readable_sub: "readable M a n \<Longrightarrow> off + k \<le> n \<Longrightarrow> readable M (a + off) k"
  by (auto simp: readable_def add.assoc)

lemma put_bytes_other: "b < a \<or> a + length bs \<le> b \<Longrightarrow> put_bytes M a bs b = M b"
  by (induction bs arbitrary: a) auto

lemma put_bytes_nth: "i < length bs \<Longrightarrow> put_bytes M a bs (a + i) = Some (bs ! i)"
proof (induction bs arbitrary: a i)
  case (Cons x xs)
  show ?case
  proof (cases i)
    case (Suc j)
    with Cons.prems Cons.IH[of j "Suc a"] show ?thesis by simp
  qed simp
qed simp

lemma length_le_bytes [simp]: "length (le_bytes k n) = k"
  by (induction k arbitrary: n) auto

lemma le_nat_le_bytes: "n < 256 ^ k \<Longrightarrow> le_nat (le_bytes k n) = n"
proof (induction k arbitrary: n)
  case (Suc k)
  then have "n div 256 < 256 ^ k"
    by (simp add: less_mult_imp_div_less mult.commute)
  with Suc.IH show ?case by (simp add: unat_of_nat)
qed simp

lemma bytes_at_put_same: "4096 \<le> a \<Longrightarrow> bytes_at (put_bytes M a bs) a (length bs) = Some bs"
proof (induction bs arbitrary: a M)
  case (Cons b bs)
  have "bytes_at (put_bytes M a (b # bs)) (Suc a) (length bs) = bytes_at (put_bytes M (Suc a) bs) (Suc a) (length bs)"
    by (rule bytes_at_cong) simp
  with Cons show ?case by (simp add: byte_at_def del: put_bytes.simps) simp
qed simp

lemma bytes_at_put_other: "b + n \<le> a \<or> a + length bs \<le> b \<Longrightarrow> bytes_at (put_bytes M a bs) b n = bytes_at M b n"
  by (rule bytes_at_cong) (auto intro: put_bytes_other)

definition int32 :: "int \<Rightarrow> bool" where
  "int32 v \<longleftrightarrow> - (2 ^ 31) \<le> v \<and> v < 2 ^ 31"

lemma to_signed_mod: "int32 v \<Longrightarrow> to_signed (nat (v mod 2 ^ 32)) = v"
proof -
  assume v: "int32 v"
  show ?thesis
  proof (cases "v < 0")
    case True
    then have "v mod 2 ^ 32 = v + 2 ^ 32"
      using v mod_pos_pos_trivial[of "v + 2 ^ 32" "2 ^ 32"] by (simp add: int32_def)
    with True v show ?thesis by (simp add: to_signed_def int32_def nat_less_iff)
  next
    case False
    with v have "v mod 2 ^ 32 = v" by (intro mod_pos_pos_trivial) (auto simp: int32_def)
    with False v show ?thesis by (simp add: to_signed_def int32_def nat_less_iff)
  qed
qed

end
