(* ===== verification/Ril_Structs.thy ===== *)
theory Ril_Structs
  imports C_Memory
begin

text \<open>
  The structures of \<^verbatim>\<open>ril/include/telephony/ril.h\<close> and \<^verbatim>\<open>ril_cdma_sms.h\<close> in which the vendor library hands its
  answers and notices to the daemon and takes requests, with their fields in order. Enumerations are integers. Shown here:
  their sizes, on which the length checks of the service depend.
\<close>

section \<open>Structures\<close>

definition RIL_AppStatus :: cty where
  "RIL_AppStatus = CS [
    (''app_type'', CI), (''app_state'', CI), (''perso_substate'', CI), (''aid_ptr'', CP),
    (''app_label_ptr'', CP), (''pin1_replaced'', CI), (''pin1'', CI), (''pin2'', CI),
    (''pin1_num_retries'', CI), (''puk1_num_retries'', CI), (''pin2_num_retries'', CI),
    (''puk2_num_retries'', CI), (''perso_unblock_retries'', CI)]"

definition RIL_CardStatus_v6 :: cty where
  "RIL_CardStatus_v6 = CS [
    (''card_state'', CI), (''universal_pin_state'', CI), (''gsm_umts_subscription_app_index'', CI),
    (''cdma_subscription_app_index'', CI), (''ims_subscription_app_index'', CI),
    (''num_applications'', CI), (''applications'', CA RIL_AppStatus 8)]"

definition RIL_Call :: cty where
  "RIL_Call = CS [
    (''state'', CI), (''index'', CC), (''call_id'', CC), (''pad'', CC), (''pad1'', CC), (''toa'', CI),
    (''isMpty'', CC), (''isMT'', CC), (''als'', CC), (''isVoice'', CC), (''isVoicePrivacy'', CC),
    (''number'', CP), (''numberPresentation'', CI), (''name'', CP), (''namePresentation'', CI),
    (''call_details1'', CP), (''call_details2'', CP), (''uusInfo'', CP)]"

definition RIL_UUS_Info :: cty where
  "RIL_UUS_Info = CS [
    (''uusType'', CI), (''uusDcs'', CI), (''uusLength'', CI), (''uusData'', CP)]"

definition RIL_LastCallFailCauseInfo :: cty where
  "RIL_LastCallFailCauseInfo = CS [
    (''cause_code'', CI), (''vendor_cause'', CP)]"

definition RIL_GW_SignalStrength :: cty where
  "RIL_GW_SignalStrength = CS [
    (''signalStrength'', CI), (''bitErrorRate'', CI)]"

definition RIL_CDMA_SignalStrength :: cty where
  "RIL_CDMA_SignalStrength = CS [
    (''dbm'', CI), (''ecio'', CI)]"

definition RIL_EVDO_SignalStrength :: cty where
  "RIL_EVDO_SignalStrength = CS [
    (''dbm'', CI), (''ecio'', CI), (''signalNoiseRatio'', CI)]"

definition RIL_LTE_SignalStrength_v8 :: cty where
  "RIL_LTE_SignalStrength_v8 = CS [
    (''signalStrength'', CI), (''rsrp'', CI), (''rsrq'', CI), (''rssnr'', CI), (''cqi'', CI),
    (''timingAdvance'', CI)]"

definition RIL_SignalStrength_v8 :: cty where
  "RIL_SignalStrength_v8 = CS [
    (''GW_SignalStrength'', RIL_GW_SignalStrength), (''CDMA_SignalStrength'', RIL_CDMA_SignalStrength),
    (''EVDO_SignalStrength'', RIL_EVDO_SignalStrength), (''LTE_SignalStrength'', RIL_LTE_SignalStrength_v8)]"

definition RIL_TD_SCDMA_SignalStrength :: cty where
  "RIL_TD_SCDMA_SignalStrength = CS [
    (''rscp'', CI)]"

definition RIL_SignalStrength_v10 :: cty where
  "RIL_SignalStrength_v10 = CS [
    (''GW_SignalStrength'', RIL_GW_SignalStrength), (''CDMA_SignalStrength'', RIL_CDMA_SignalStrength),
    (''EVDO_SignalStrength'', RIL_EVDO_SignalStrength),
    (''LTE_SignalStrength'', RIL_LTE_SignalStrength_v8),
    (''TD_SCDMA_SignalStrength'', RIL_TD_SCDMA_SignalStrength)]"

definition RIL_CellIdentityGsm_v12 :: cty where
  "RIL_CellIdentityGsm_v12 = CS [
    (''mcc'', CI), (''mnc'', CI), (''lac'', CI), (''cid'', CI), (''arfcn'', CI), (''bsic'', CC)]"

definition RIL_CellIdentityWcdma_v12 :: cty where
  "RIL_CellIdentityWcdma_v12 = CS [
    (''mcc'', CI), (''mnc'', CI), (''lac'', CI), (''cid'', CI), (''psc'', CI), (''uarfcn'', CI)]"

definition RIL_CellIdentityLte_v12 :: cty where
  "RIL_CellIdentityLte_v12 = CS [
    (''mcc'', CI), (''mnc'', CI), (''ci'', CI), (''pci'', CI), (''tac'', CI), (''earfcn'', CI)]"

definition RIL_CellIdentityTdscdma :: cty where
  "RIL_CellIdentityTdscdma = CS [
    (''mcc'', CI), (''mnc'', CI), (''lac'', CI), (''cid'', CI), (''cpid'', CI)]"

definition RIL_CellIdentityCdma :: cty where
  "RIL_CellIdentityCdma = CS [
    (''networkId'', CI), (''systemId'', CI), (''basestationId'', CI), (''longitude'', CI),
    (''latitude'', CI)]"

definition RIL_CellIdentity_v16 :: cty where
  "RIL_CellIdentity_v16 = CS [
    (''cellInfoType'', CI), ('''', CN [(''cellIdentityGsm'', RIL_CellIdentityGsm_v12),
    (''cellIdentityWcdma'', RIL_CellIdentityWcdma_v12), (''cellIdentityLte'', RIL_CellIdentityLte_v12),
    (''cellIdentityTdscdma'', RIL_CellIdentityTdscdma), (''cellIdentityCdma'', RIL_CellIdentityCdma)])]"

definition RIL_VoiceRegistrationStateResponse :: cty where
  "RIL_VoiceRegistrationStateResponse = CS [
    (''regState'', CI), (''rat'', CI), (''cssSupported'', CI), (''roamingIndicator'', CI),
    (''systemIsInPrl'', CI), (''defaultRoamingIndicator'', CI), (''reasonForDenial'', CI),
    (''cellIdentity'', RIL_CellIdentity_v16)]"

definition RIL_DataRegistrationStateResponse :: cty where
  "RIL_DataRegistrationStateResponse = CS [
    (''regState'', CI), (''rat'', CI), (''reasonDataDenied'', CI), (''maxDataCalls'', CI),
    (''cellIdentity'', RIL_CellIdentity_v16)]"

definition RIL_SMS_Response :: cty where
  "RIL_SMS_Response = CS [
    (''messageRef'', CI), (''ackPDU'', CP), (''errorCode'', CI)]"

definition RIL_SMS_Response_Ext :: cty where
  "RIL_SMS_Response_Ext = CS [
    (''response'', RIL_SMS_Response), (''retryCount'', CI)]"

definition RIL_Data_Call_Response_v6 :: cty where
  "RIL_Data_Call_Response_v6 = CS [
    (''status'', CI), (''suggestedRetryTime'', CI), (''cid'', CI), (''active'', CI), (''type'', CP),
    (''ifname'', CP), (''addresses'', CP), (''dnses'', CP), (''gateways'', CP)]"

definition RIL_Data_Call_Response_v9 :: cty where
  "RIL_Data_Call_Response_v9 = CS [
    (''status'', CI), (''suggestedRetryTime'', CI), (''cid'', CI), (''active'', CI), (''type'', CP),
    (''ifname'', CP), (''addresses'', CP), (''dnses'', CP), (''gateways'', CP), (''pcscf'', CP)]"

definition RIL_Data_Call_Response_v11 :: cty where
  "RIL_Data_Call_Response_v11 = CS [
    (''status'', CI), (''suggestedRetryTime'', CI), (''cid'', CI), (''active'', CI), (''type'', CP),
    (''ifname'', CP), (''addresses'', CP), (''dnses'', CP), (''gateways'', CP), (''pcscf'', CP),
    (''mtu'', CI)]"

definition RIL_SIM_IO_Response :: cty where
  "RIL_SIM_IO_Response = CS [
    (''sw1'', CI), (''sw2'', CI), (''simResponse'', CP)]"

definition RIL_CallForwardInfo :: cty where
  "RIL_CallForwardInfo = CS [
    (''status'', CI), (''reason'', CI), (''serviceClass'', CI), (''toa'', CI), (''number'', CP),
    (''timeSeconds'', CI), (''startTime'', CP), (''endTime'', CP)]"

definition RIL_NeighboringCell :: cty where
  "RIL_NeighboringCell = CS [
    (''cid'', CP), (''rssi'', CI)]"

definition RIL_GSM_BroadcastSmsConfigInfo :: cty where
  "RIL_GSM_BroadcastSmsConfigInfo = CS [
    (''fromServiceId'', CI), (''toServiceId'', CI), (''fromCodeScheme'', CI), (''toCodeScheme'', CI),
    (''selected'', CC)]"

definition RIL_CDMA_BroadcastSmsConfigInfo :: cty where
  "RIL_CDMA_BroadcastSmsConfigInfo = CS [
    (''service_category'', CI), (''language'', CI), (''selected'', CC)]"

definition RIL_GSM_SignalStrength_v12 :: cty where
  "RIL_GSM_SignalStrength_v12 = CS [
    (''signalStrength'', CI), (''bitErrorRate'', CI), (''timingAdvance'', CI)]"

definition RIL_CellInfoGsm_v12 :: cty where
  "RIL_CellInfoGsm_v12 = CS [
    (''cellIdentityGsm'', RIL_CellIdentityGsm_v12), (''signalStrengthGsm'', RIL_GSM_SignalStrength_v12)]"

definition RIL_CellInfoCdma :: cty where
  "RIL_CellInfoCdma = CS [
    (''cellIdentityCdma'', RIL_CellIdentityCdma), (''signalStrengthCdma'', RIL_CDMA_SignalStrength),
    (''signalStrengthEvdo'', RIL_EVDO_SignalStrength)]"

definition RIL_CellInfoLte_v12 :: cty where
  "RIL_CellInfoLte_v12 = CS [
    (''cellIdentityLte'', RIL_CellIdentityLte_v12), (''signalStrengthLte'', RIL_LTE_SignalStrength_v8)]"

definition RIL_SignalStrengthWcdma :: cty where
  "RIL_SignalStrengthWcdma = CS [
    (''signalStrength'', CI), (''bitErrorRate'', CI)]"

definition RIL_CellInfoWcdma_v12 :: cty where
  "RIL_CellInfoWcdma_v12 = CS [
    (''cellIdentityWcdma'', RIL_CellIdentityWcdma_v12), (''signalStrengthWcdma'', RIL_SignalStrengthWcdma)]"

definition RIL_CellInfoTdscdma :: cty where
  "RIL_CellInfoTdscdma = CS [
    (''cellIdentityTdscdma'', RIL_CellIdentityTdscdma),
    (''signalStrengthTdscdma'', RIL_TD_SCDMA_SignalStrength)]"

definition RIL_CellInfo_v12 :: cty where
  "RIL_CellInfo_v12 = CS [
    (''cellInfoType'', CI), (''registered'', CI), (''timeStampType'', CI), (''timeStamp'', CL),
    (''CellInfo'', CN [(''gsm'', RIL_CellInfoGsm_v12), (''cdma'', RIL_CellInfoCdma),
    (''lte'', RIL_CellInfoLte_v12), (''wcdma'', RIL_CellInfoWcdma_v12), (''tdscdma'', RIL_CellInfoTdscdma)])]"

definition RIL_HardwareConfig_Modem :: cty where
  "RIL_HardwareConfig_Modem = CS [
    (''rilModel'', CI), (''rat'', CU), (''maxVoice'', CI), (''maxData'', CI), (''maxStandby'', CI)]"

definition RIL_HardwareConfig_Sim :: cty where
  "RIL_HardwareConfig_Sim = CS [
    (''modemUuid'', CA CC 64)]"

definition RIL_HardwareConfig :: cty where
  "RIL_HardwareConfig = CS [
    (''type'', CI), (''uuid'', CA CC 64), (''state'', CI),
    (''cfg'', CN [(''modem'', RIL_HardwareConfig_Modem), (''sim'', RIL_HardwareConfig_Sim)])]"

definition RIL_RadioCapability :: cty where
  "RIL_RadioCapability = CS [
    (''version'', CI), (''session'', CI), (''phase'', CI), (''rat'', CI), (''logicalModemUuid'', CA CC 64),
    (''status'', CI)]"

definition RIL_LceStatusInfo :: cty where
  "RIL_LceStatusInfo = CS [
    (''lce_status'', CC), (''actual_interval_ms'', CU)]"

definition RIL_LceDataInfo :: cty where
  "RIL_LceDataInfo = CS [
    (''last_hop_capacity_kbps'', CU), (''confidence_level'', CC), (''lce_suspended'', CC)]"

definition RIL_ActivityStatsInfo :: cty where
  "RIL_ActivityStatsInfo = CS [
    (''sleep_mode_time_ms'', CU), (''idle_mode_time_ms'', CU), (''tx_mode_time_ms'', CA CU 5),
    (''rx_mode_time_ms'', CU)]"

definition RIL_Carrier :: cty where
  "RIL_Carrier = CS [
    (''mcc'', CP), (''mnc'', CP), (''match_type'', CI), (''match_data'', CP)]"

definition RIL_CarrierRestrictions :: cty where
  "RIL_CarrierRestrictions = CS [
    (''len_allowed_carriers'', CI), (''len_excluded_carriers'', CI), (''allowed_carriers'', CP),
    (''excluded_carriers'', CP)]"

definition RIL_KeepaliveStatus :: cty where
  "RIL_KeepaliveStatus = CS [
    (''sessionHandle'', CU), (''code'', CI)]"

definition RIL_SuppSvcNotification :: cty where
  "RIL_SuppSvcNotification = CS [
    (''notificationType'', CI), (''code'', CI), (''index'', CI), (''type'', CI), (''number'', CP)]"

definition RIL_SimRefreshResponse_v7 :: cty where
  "RIL_SimRefreshResponse_v7 = CS [
    (''result'', CI), (''ef_id'', CI), (''aid'', CP)]"

definition RIL_CDMA_SignalInfoRecord :: cty where
  "RIL_CDMA_SignalInfoRecord = CS [
    (''isPresent'', CC), (''signalType'', CC), (''alertPitch'', CC), (''signal'', CC)]"

definition RIL_CDMA_SMS_Address :: cty where
  "RIL_CDMA_SMS_Address = CS [
    (''digit_mode'', CI), (''number_mode'', CI), (''number_type'', CI), (''number_plan'', CI),
    (''number_of_digits'', CC), (''digits'', CA CC 36)]"

definition RIL_CDMA_SMS_Subaddress :: cty where
  "RIL_CDMA_SMS_Subaddress = CS [
    (''subaddressType'', CI), (''odd'', CC), (''number_of_digits'', CC), (''digits'', CA CC 36)]"

definition RIL_CDMA_SMS_Message :: cty where
  "RIL_CDMA_SMS_Message = CS [
    (''uTeleserviceID'', CI), (''bIsServicePresent'', CC), (''uServicecategory'', CI),
    (''sAddress'', RIL_CDMA_SMS_Address), (''sSubAddress'', RIL_CDMA_SMS_Subaddress),
    (''uBearerDataLen'', CI), (''aBearerData'', CA CC 255)]"

definition RIL_CDMA_CallWaiting_v6 :: cty where
  "RIL_CDMA_CallWaiting_v6 = CS [
    (''number'', CP), (''numberPresentation'', CI), (''name'', CP),
    (''signalInfoRecord'', RIL_CDMA_SignalInfoRecord), (''number_type'', CI), (''number_plan'', CI)]"

definition RIL_CDMA_DisplayInfoRecord :: cty where
  "RIL_CDMA_DisplayInfoRecord = CS [
    (''alpha_len'', CC), (''alpha_buf'', CA CC 64)]"

definition RIL_CDMA_NumberInfoRecord :: cty where
  "RIL_CDMA_NumberInfoRecord = CS [
    (''len'', CC), (''buf'', CA CC 81), (''number_type'', CC), (''number_plan'', CC), (''pi'', CC),
    (''si'', CC)]"

definition RIL_CDMA_RedirectingNumberInfoRecord :: cty where
  "RIL_CDMA_RedirectingNumberInfoRecord = CS [
    (''redirectingNumber'', RIL_CDMA_NumberInfoRecord), (''redirectingReason'', CI)]"

definition RIL_CDMA_LineControlInfoRecord :: cty where
  "RIL_CDMA_LineControlInfoRecord = CS [
    (''lineCtrlPolarityIncluded'', CC), (''lineCtrlToggle'', CC), (''lineCtrlReverse'', CC),
    (''lineCtrlPowerDenial'', CC)]"

definition RIL_CDMA_T53_CLIRInfoRecord :: cty where
  "RIL_CDMA_T53_CLIRInfoRecord = CS [
    (''cause'', CC)]"

definition RIL_CDMA_T53_AudioControlInfoRecord :: cty where
  "RIL_CDMA_T53_AudioControlInfoRecord = CS [
    (''upLink'', CC), (''downLink'', CC)]"

definition RIL_CDMA_InformationRecord :: cty where
  "RIL_CDMA_InformationRecord = CS [
    (''name'', CI), (''rec'', CN [(''display'', RIL_CDMA_DisplayInfoRecord),
    (''number'', RIL_CDMA_NumberInfoRecord), (''signal'', RIL_CDMA_SignalInfoRecord),
    (''redir'', RIL_CDMA_RedirectingNumberInfoRecord), (''lineCtrl'', RIL_CDMA_LineControlInfoRecord),
    (''clir'', RIL_CDMA_T53_CLIRInfoRecord), (''audioCtrl'', RIL_CDMA_T53_AudioControlInfoRecord)])]"

definition RIL_CDMA_InformationRecords :: cty where
  "RIL_CDMA_InformationRecords = CS [
    (''numberOfInfoRecs'', CC), (''infoRec'', CA RIL_CDMA_InformationRecord 10)]"

definition RIL_CfData :: cty where
  "RIL_CfData = CS [
    (''numValidIndexes'', CI), (''cfInfo'', CA RIL_CallForwardInfo 7)]"

definition RIL_StkCcUnsolSsResponse :: cty where
  "RIL_StkCcUnsolSsResponse = CS [
    (''serviceType'', CI), (''requestType'', CI), (''teleserviceType'', CI), (''serviceClass'', CI),
    (''result'', CI), ('''', CN [(''ssInfo'', CA CI 4), (''cfData'', RIL_CfData)])]"

definition RIL_PCO_Data :: cty where
  "RIL_PCO_Data = CS [
    (''cid'', CI), (''bearer_proto'', CP), (''pco_id'', CI), (''contents_length'', CI), (''contents'', CP)]"

definition RIL_NetworkScanResult :: cty where
  "RIL_NetworkScanResult = CS [
    (''status'', CI), (''network_infos_length'', CU), (''network_infos'', CP)]"

definition RIL_Dial :: cty where
  "RIL_Dial = CS [
    (''address'', CP), (''clir'', CI), (''uusInfo'', CP)]"

definition RIL_SIM_IO_v6 :: cty where
  "RIL_SIM_IO_v6 = CS [
    (''command'', CI), (''fileid'', CI), (''path'', CP), (''p1'', CI), (''p2'', CI), (''p3'', CI),
    (''data'', CP), (''pin2'', CP), (''aidPtr'', CP)]"

definition RIL_RadioAccessSpecifier :: cty where
  "RIL_RadioAccessSpecifier = CS [
    (''radio_access_network'', CI), (''bands_length'', CU), (''bands'', CN [(''geran_bands'', CA CI 8),
    (''utran_bands'', CA CI 8), (''eutran_bands'', CA CI 8)]), (''channels_length'', CU),
    (''channels'', CA CU 32)]"

definition RIL_NetworkScanRequest :: cty where
  "RIL_NetworkScanRequest = CS [
    (''type'', CI), (''interval'', CI), (''specifiers_length'', CU),
    (''specifiers'', CA RIL_RadioAccessSpecifier 8)]"

definition RIL_SMS_WriteArgs :: cty where
  "RIL_SMS_WriteArgs = CS [
    (''status'', CI), (''pdu'', CP), (''smsc'', CP)]"

definition RIL_CDMA_SMS_Ack :: cty where
  "RIL_CDMA_SMS_Ack = CS [
    (''uErrorClass'', CI), (''uSMSCauseCode'', CI)]"

definition RIL_CDMA_SMS_WriteArgs :: cty where
  "RIL_CDMA_SMS_WriteArgs = CS [
    (''status'', CI), (''message'', RIL_CDMA_SMS_Message)]"

definition RIL_InitialAttachApn :: cty where
  "RIL_InitialAttachApn = CS [
    (''apn'', CP), (''protocol'', CP), (''authtype'', CI), (''username'', CP), (''password'', CP)]"

definition RIL_InitialAttachApn_v15 :: cty where
  "RIL_InitialAttachApn_v15 = CS [
    (''apn'', CP), (''protocol'', CP), (''roamingProtocol'', CP), (''authtype'', CI), (''username'', CP),
    (''password'', CP), (''supportedTypesBitmask'', CI), (''bearerBitmask'', CI), (''modemCognitive'', CI),
    (''mtu'', CI), (''mvnoType'', CP), (''mvnoMatchData'', CP)]"

definition RIL_IMS_SMS_Message :: cty where
  "RIL_IMS_SMS_Message = CS [
    (''tech'', CI), (''retry'', CC), (''messageRef'', CI), (''message'', CN [(''cdmaMessage'', CP),
    (''gsmMessage'', CP)])]"

definition RIL_OpenChannelParams :: cty where
  "RIL_OpenChannelParams = CS [
    (''aidPtr'', CP), (''p2'', CI)]"

definition RIL_NV_ReadItem :: cty where
  "RIL_NV_ReadItem = CS [
    (''itemID'', CI)]"

definition RIL_NV_WriteItem :: cty where
  "RIL_NV_WriteItem = CS [
    (''itemID'', CI), (''value'', CP)]"

definition RIL_SimAuthentication :: cty where
  "RIL_SimAuthentication = CS [
    (''authContext'', CI), (''authData'', CP), (''aid'', CP)]"

definition RIL_DataProfileInfo :: cty where
  "RIL_DataProfileInfo = CS [
    (''profileId'', CI), (''apn'', CP), (''protocol'', CP), (''authType'', CI), (''user'', CP),
    (''password'', CP), (''type'', CI), (''maxConnsTime'', CI), (''maxConns'', CI), (''waitTime'', CI),
    (''enabled'', CI)]"

definition RIL_DataProfileInfo_v15 :: cty where
  "RIL_DataProfileInfo_v15 = CS [
    (''profileId'', CI), (''apn'', CP), (''protocol'', CP), (''roamingProtocol'', CP), (''authType'', CI),
    (''user'', CP), (''password'', CP), (''type'', CI), (''maxConnsTime'', CI), (''maxConns'', CI),
    (''waitTime'', CI), (''enabled'', CI), (''supportedTypesBitmask'', CI), (''bearerBitmask'', CI),
    (''mtu'', CI), (''mvnoType'', CP), (''mvnoMatchData'', CP)]"

definition RIL_CarrierInfoForImsiEncryption :: cty where
  "RIL_CarrierInfoForImsiEncryption = CS [
    (''mcc'', CP), (''mnc'', CP), (''carrierKey'', CP), (''carrierKeyLength'', CI),
    (''keyIdentifier'', CP), (''expirationTime'', CL)]"

definition RIL_KeepaliveRequest :: cty where
  "RIL_KeepaliveRequest = CS [
    (''type'', CI), (''sourceAddress'', CA CC 16), (''sourcePort'', CI),
    (''destinationAddress'', CA CC 16), (''destinationPort'', CI), (''maxKeepaliveIntervalMillis'', CI),
    (''cid'', CI)]"

lemmas struct_defs = RIL_AppStatus_def
  RIL_CardStatus_v6_def
  RIL_Call_def
  RIL_UUS_Info_def
  RIL_LastCallFailCauseInfo_def
  RIL_GW_SignalStrength_def
  RIL_CDMA_SignalStrength_def
  RIL_EVDO_SignalStrength_def
  RIL_LTE_SignalStrength_v8_def
  RIL_SignalStrength_v8_def
  RIL_TD_SCDMA_SignalStrength_def
  RIL_SignalStrength_v10_def
  RIL_CellIdentityGsm_v12_def
  RIL_CellIdentityWcdma_v12_def
  RIL_CellIdentityLte_v12_def
  RIL_CellIdentityTdscdma_def
  RIL_CellIdentityCdma_def
  RIL_CellIdentity_v16_def
  RIL_VoiceRegistrationStateResponse_def
  RIL_DataRegistrationStateResponse_def
  RIL_SMS_Response_def
  RIL_SMS_Response_Ext_def
  RIL_Data_Call_Response_v6_def
  RIL_Data_Call_Response_v9_def
  RIL_Data_Call_Response_v11_def
  RIL_SIM_IO_Response_def
  RIL_CallForwardInfo_def
  RIL_NeighboringCell_def
  RIL_GSM_BroadcastSmsConfigInfo_def
  RIL_CDMA_BroadcastSmsConfigInfo_def
  RIL_GSM_SignalStrength_v12_def
  RIL_CellInfoGsm_v12_def
  RIL_CellInfoCdma_def
  RIL_CellInfoLte_v12_def
  RIL_SignalStrengthWcdma_def
  RIL_CellInfoWcdma_v12_def
  RIL_CellInfoTdscdma_def
  RIL_CellInfo_v12_def
  RIL_HardwareConfig_Modem_def
  RIL_HardwareConfig_Sim_def
  RIL_HardwareConfig_def
  RIL_RadioCapability_def
  RIL_LceStatusInfo_def
  RIL_LceDataInfo_def
  RIL_ActivityStatsInfo_def
  RIL_Carrier_def
  RIL_CarrierRestrictions_def
  RIL_KeepaliveStatus_def
  RIL_SuppSvcNotification_def
  RIL_SimRefreshResponse_v7_def
  RIL_CDMA_SignalInfoRecord_def
  RIL_CDMA_SMS_Address_def
  RIL_CDMA_SMS_Subaddress_def
  RIL_CDMA_SMS_Message_def
  RIL_CDMA_CallWaiting_v6_def
  RIL_CDMA_DisplayInfoRecord_def
  RIL_CDMA_NumberInfoRecord_def
  RIL_CDMA_RedirectingNumberInfoRecord_def
  RIL_CDMA_LineControlInfoRecord_def
  RIL_CDMA_T53_CLIRInfoRecord_def
  RIL_CDMA_T53_AudioControlInfoRecord_def
  RIL_CDMA_InformationRecord_def
  RIL_CDMA_InformationRecords_def
  RIL_CfData_def
  RIL_StkCcUnsolSsResponse_def
  RIL_PCO_Data_def
  RIL_NetworkScanResult_def
  RIL_Dial_def
  RIL_SIM_IO_v6_def
  RIL_RadioAccessSpecifier_def
  RIL_NetworkScanRequest_def
  RIL_SMS_WriteArgs_def
  RIL_CDMA_SMS_Ack_def
  RIL_CDMA_SMS_WriteArgs_def
  RIL_InitialAttachApn_def
  RIL_InitialAttachApn_v15_def
  RIL_IMS_SMS_Message_def
  RIL_OpenChannelParams_def
  RIL_NV_ReadItem_def
  RIL_NV_WriteItem_def
  RIL_SimAuthentication_def
  RIL_DataProfileInfo_def
  RIL_DataProfileInfo_v15_def
  RIL_CarrierInfoForImsiEncryption_def
  RIL_KeepaliveRequest_def

section \<open>Sizes\<close>

lemma sizeof_structs [simp]:
  "sizeof RIL_AppStatus = 52"
  "sizeof RIL_CardStatus_v6 = 440"
  "sizeof RIL_Call = 48"
  "sizeof RIL_UUS_Info = 16"
  "sizeof RIL_LastCallFailCauseInfo = 8"
  "sizeof RIL_GW_SignalStrength = 8"
  "sizeof RIL_CDMA_SignalStrength = 8"
  "sizeof RIL_EVDO_SignalStrength = 12"
  "sizeof RIL_LTE_SignalStrength_v8 = 24"
  "sizeof RIL_SignalStrength_v8 = 52"
  "sizeof RIL_TD_SCDMA_SignalStrength = 4"
  "sizeof RIL_SignalStrength_v10 = 56"
  "sizeof RIL_CellIdentityGsm_v12 = 24"
  "sizeof RIL_CellIdentityWcdma_v12 = 24"
  "sizeof RIL_CellIdentityLte_v12 = 24"
  "sizeof RIL_CellIdentityTdscdma = 20"
  "sizeof RIL_CellIdentityCdma = 20"
  "sizeof RIL_CellIdentity_v16 = 28"
  "sizeof RIL_VoiceRegistrationStateResponse = 56"
  "sizeof RIL_DataRegistrationStateResponse = 44"
  "sizeof RIL_SMS_Response = 12"
  "sizeof RIL_SMS_Response_Ext = 16"
  "sizeof RIL_Data_Call_Response_v6 = 36"
  "sizeof RIL_Data_Call_Response_v9 = 40"
  "sizeof RIL_Data_Call_Response_v11 = 44"
  "sizeof RIL_SIM_IO_Response = 12"
  "sizeof RIL_CallForwardInfo = 32"
  "sizeof RIL_NeighboringCell = 8"
  "sizeof RIL_GSM_BroadcastSmsConfigInfo = 20"
  "sizeof RIL_CDMA_BroadcastSmsConfigInfo = 12"
  "sizeof RIL_GSM_SignalStrength_v12 = 12"
  "sizeof RIL_CellInfoGsm_v12 = 36"
  "sizeof RIL_CellInfoCdma = 40"
  "sizeof RIL_CellInfoLte_v12 = 48"
  "sizeof RIL_SignalStrengthWcdma = 8"
  "sizeof RIL_CellInfoWcdma_v12 = 32"
  "sizeof RIL_CellInfoTdscdma = 24"
  "sizeof RIL_CellInfo_v12 = 72"
  "sizeof RIL_HardwareConfig_Modem = 20"
  "sizeof RIL_HardwareConfig_Sim = 64"
  "sizeof RIL_HardwareConfig = 136"
  "sizeof RIL_RadioCapability = 84"
  "sizeof RIL_LceStatusInfo = 8"
  "sizeof RIL_LceDataInfo = 8"
  "sizeof RIL_ActivityStatsInfo = 32"
  "sizeof RIL_Carrier = 16"
  "sizeof RIL_CarrierRestrictions = 16"
  "sizeof RIL_KeepaliveStatus = 8"
  "sizeof RIL_SuppSvcNotification = 20"
  "sizeof RIL_SimRefreshResponse_v7 = 12"
  "sizeof RIL_CDMA_SignalInfoRecord = 4"
  "sizeof RIL_CDMA_SMS_Address = 56"
  "sizeof RIL_CDMA_SMS_Subaddress = 44"
  "sizeof RIL_CDMA_SMS_Message = 372"
  "sizeof RIL_CDMA_CallWaiting_v6 = 24"
  "sizeof RIL_CDMA_DisplayInfoRecord = 65"
  "sizeof RIL_CDMA_NumberInfoRecord = 86"
  "sizeof RIL_CDMA_RedirectingNumberInfoRecord = 92"
  "sizeof RIL_CDMA_LineControlInfoRecord = 4"
  "sizeof RIL_CDMA_T53_CLIRInfoRecord = 1"
  "sizeof RIL_CDMA_T53_AudioControlInfoRecord = 2"
  "sizeof RIL_CDMA_InformationRecord = 96"
  "sizeof RIL_CDMA_InformationRecords = 964"
  "sizeof RIL_CfData = 228"
  "sizeof RIL_StkCcUnsolSsResponse = 248"
  "sizeof RIL_PCO_Data = 20"
  "sizeof RIL_NetworkScanResult = 12"
  "sizeof RIL_Dial = 12"
  "sizeof RIL_SIM_IO_v6 = 36"
  "sizeof RIL_RadioAccessSpecifier = 172"
  "sizeof RIL_NetworkScanRequest = 1388"
  "sizeof RIL_SMS_WriteArgs = 12"
  "sizeof RIL_CDMA_SMS_Ack = 8"
  "sizeof RIL_CDMA_SMS_WriteArgs = 376"
  "sizeof RIL_InitialAttachApn = 20"
  "sizeof RIL_InitialAttachApn_v15 = 48"
  "sizeof RIL_IMS_SMS_Message = 16"
  "sizeof RIL_OpenChannelParams = 8"
  "sizeof RIL_NV_ReadItem = 4"
  "sizeof RIL_NV_WriteItem = 8"
  "sizeof RIL_SimAuthentication = 12"
  "sizeof RIL_DataProfileInfo = 44"
  "sizeof RIL_DataProfileInfo_v15 = 68"
  "sizeof RIL_CarrierInfoForImsiEncryption = 32"
  "sizeof RIL_KeepaliveRequest = 52"
  by (code_simp)+

end
