(* ===== verification/Ril_Client.thy ===== *)
theory Ril_Client
  imports Ril_Structs
begin

text \<open>
  The client side of \<^verbatim>\<open>ril/libril/ril_service.cpp\<close>: the callback objects a client registers, calls through
  them, and what happens when a call fails because the client has died. Then the pieces that the answer
  and indication functions share: the header of an answer and the conversion of structures of the
  vendor library into values of the interface. Shown here: a failed call never takes away callbacks
  other than those it was made through.
\<close>

section \<open>Callbacks\<close>

text \<open>Values of the interface: numbers, named enumerators, strings, vectors and structures. Implicit
  conversions to the declared types of the interface, which is not part of the sources, are left out.\<close>

datatype hval = HI int | HE string | HB bool | HS "u8 list" | HV "hval list" | HR "(string \<times> hval) list"

datatype RadioResponseType = UNSET | SOLICITED | SOLICITED_ACK_EXP

datatype RadioError = Errno int | INVALID_RESPONSE

record RadioResponseInfo =
  info_type :: RadioResponseType
  info_serial :: int
  info_error :: RadioError

datatype RadioIndicationType = UNSOLICITED | UNSOLICITED_ACK_EXP

text \<open>A call of the client: the object, the method and the arguments.\<close>

datatype client_call =
    Response nat string RadioResponseInfo "hval list"
  | Indication nat string RadioIndicationType "hval list"

record radio_services =
  radioService :: "nat \<Rightarrow> bool"
  oemHookService :: "nat \<Rightarrow> bool"
  mRadioResponse :: "nat \<Rightarrow> nat option"
  mRadioIndication :: "nat \<Rightarrow> nat option"
  mRadioResponseV1_1 :: "nat \<Rightarrow> nat option"
  mRadioIndicationV1_1 :: "nat \<Rightarrow> nat option"
  mOemHookResponse :: "nat \<Rightarrow> nat option"
  mOemHookIndication :: "nat \<Rightarrow> nat option"
  mCounterRadio :: "nat \<Rightarrow> int"
  mCounterOemHook :: "nat \<Rightarrow> int"
  client_log :: "client_call list"

text \<open>What the daemon is told from outside: whether a call through an object succeeds, the version of the
  vendor library and the radio state it reports, the property \<^verbatim>\<open>qan_resp_strings\<close>, the view of an object as
  one of the newer interface (\<open>None\<close> when the question fails, \<open>Some None\<close> when it is none), the size of \<^verbatim>\<open>V1_1::KeepaliveStatus\<close>, whether
  the vendor hook is compiled in, which allocations succeed, and the value of a variable without one.\<close>

record cli_env =
  call_ok :: "nat \<Rightarrow> bool"
  vendor_version :: int
  onStateRequest :: "nat \<Rightarrow> int"
  qan_resp_strings :: int
  as_v1_1 :: "nat \<Rightarrow> nat option option"
  sizeof_KeepaliveStatus :: nat
  kOemHookEnabled :: bool
  malloc_ok :: "nat \<Rightarrow> bool"
  uninitialised :: hval

text \<open>The second half of \<^verbatim>\<open>checkReturnStatus\<close>, under the write lock: the callbacks are dropped unless they were
  changed since the counter was read.\<close>

definition reset_callbacks :: "nat \<Rightarrow> bool \<Rightarrow> int \<Rightarrow> radio_services \<Rightarrow> radio_services" where
  "reset_callbacks slotId isRadioService counter S =
     (if counter = (if isRadioService then mCounterRadio S slotId else mCounterOemHook S slotId)
      then if isRadioService
           then S\<lparr>mRadioResponse := (mRadioResponse S)(slotId := None), mRadioIndication := (mRadioIndication S)(slotId := None),
             mRadioResponseV1_1 := (mRadioResponseV1_1 S)(slotId := None), mRadioIndicationV1_1 := (mRadioIndicationV1_1 S)(slotId := None),
             mCounterRadio := (mCounterRadio S)(slotId := mCounterRadio S slotId + 1)\<rparr>
           else S\<lparr>mOemHookResponse := (mOemHookResponse S)(slotId := None), mOemHookIndication := (mOemHookIndication S)(slotId := None),
             mCounterOemHook := (mCounterOemHook S)(slotId := mCounterOemHook S slotId + 1)\<rparr>
      else S)"

text \<open>The whole function when no other thread comes between its two locks.\<close>

definition checkReturnStatus :: "nat \<Rightarrow> bool \<Rightarrow> bool \<Rightarrow> radio_services \<Rightarrow> radio_services" where
  "checkReturnStatus slotId isOk isRadioService S =
     (if isOk then S
      else reset_callbacks slotId isRadioService (if isRadioService then mCounterRadio S slotId else mCounterOemHook S slotId) S)"

text \<open>\<open>r1\<close> and \<open>i1\<close> are the views of the objects as ones of the newer interface; without both, neither is used.\<close>

definition RadioImpl_setResponseFunctions :: "nat \<Rightarrow> nat option \<Rightarrow> nat option \<Rightarrow> nat option \<Rightarrow> nat option \<Rightarrow> radio_services \<Rightarrow> radio_services" where
  "RadioImpl_setResponseFunctions slotId radioResponseParam radioIndicationParam r1 i1 S =
     S\<lparr>mRadioResponse := (mRadioResponse S)(slotId := radioResponseParam),
       mRadioIndication := (mRadioIndication S)(slotId := radioIndicationParam),
       mRadioResponseV1_1 := (mRadioResponseV1_1 S)(slotId := if r1 = None \<or> i1 = None then None else r1),
       mRadioIndicationV1_1 := (mRadioIndicationV1_1 S)(slotId := if r1 = None \<or> i1 = None then None else i1),
       mCounterRadio := (mCounterRadio S)(slotId := mCounterRadio S slotId + 1)\<rparr>"

definition OemHookImpl_setResponseFunctions :: "nat \<Rightarrow> nat option \<Rightarrow> nat option \<Rightarrow> radio_services \<Rightarrow> radio_services" where
  "OemHookImpl_setResponseFunctions slotId oemHookResponseParam oemHookIndicationParam S =
     S\<lparr>mOemHookResponse := (mOemHookResponse S)(slotId := oemHookResponseParam),
       mOemHookIndication := (mOemHookIndication S)(slotId := oemHookIndicationParam),
       mCounterOemHook := (mCounterOemHook S)(slotId := mCounterOemHook S slotId + 1)\<rparr>"

text \<open>The start of the services: every slot gets new objects without callbacks. The lock of a slot is chosen
  by comparing the slot, which counts from 0, with numbers that count from 2.\<close>

definition registerService :: "nat \<Rightarrow> cli_env \<Rightarrow> radio_services \<Rightarrow> radio_services" where
  "registerService simCount E S = (let here = \<lambda>i. i < simCount; oem = \<lambda>i. i < simCount \<and> kOemHookEnabled E in
     S\<lparr>radioService := (\<lambda>i. here i \<or> radioService S i), oemHookService := (\<lambda>i. oem i \<or> oemHookService S i),
       mRadioResponse := (\<lambda>i. if here i then None else mRadioResponse S i),
       mRadioIndication := (\<lambda>i. if here i then None else mRadioIndication S i),
       mRadioResponseV1_1 := (\<lambda>i. if here i then None else mRadioResponseV1_1 S i),
       mRadioIndicationV1_1 := (\<lambda>i. if here i then None else mRadioIndicationV1_1 S i),
       mOemHookResponse := (\<lambda>i. if oem i then None else mOemHookResponse S i),
       mOemHookIndication := (\<lambda>i. if oem i then None else mOemHookIndication S i)\<rparr>)"

definition getRadioServiceRwlock :: "nat \<Rightarrow> nat \<Rightarrow> nat" where
  "getRadioServiceRwlock SIM_COUNT i =
     (if i = 4 \<and> SIM_COUNT \<ge> 4 then 4 else if i = 3 \<and> SIM_COUNT \<ge> 3 then 3 else if i = 2 \<and> SIM_COUNT \<ge> 2 then 2 else 1)"

lemma locks_of_slots: "getRadioServiceRwlock n 0 = getRadioServiceRwlock n 1" "i < n \<Longrightarrow> n \<le> 4 \<Longrightarrow> getRadioServiceRwlock n i \<noteq> 4"
  by (simp_all add: getRadioServiceRwlock_def)

section \<open>Answers\<close>

text \<open>The arguments of an answer or indication function; an address 0 is NULL.\<close>

record vendor_answer =
  slotId :: nat
  responseType :: int
  serial :: int
  errno :: int
  response :: nat
  responseLen :: nat

type_synonym answer_fun = "cli_env \<Rightarrow> vmem \<Rightarrow> vendor_answer \<Rightarrow> radio_services \<Rightarrow> radio_services option"

definition populateResponseInfo :: "vendor_answer \<Rightarrow> RadioResponseInfo" where
  "populateResponseInfo a =
     \<lparr>info_type = (if responseType a = 0 then SOLICITED else if responseType a = 3 then SOLICITED_ACK_EXP else UNSET),
      info_serial = serial a, info_error = Errno (errno a)\<rparr>"

text \<open>The header when the answer is not as expected: an error of the vendor library is kept.\<close>

definition invalid_response :: "vendor_answer \<Rightarrow> RadioResponseInfo" where
  "invalid_response a =
     (if errno a = 0 then (populateResponseInfo a)\<lparr>info_error := INVALID_RESPONSE\<rparr> else populateResponseInfo a)"

text \<open>An answer through the object \<open>ob\<close> of the slot: header and arguments, then the check of the call.\<close>

definition answer_through :: "cli_env \<Rightarrow> nat option \<Rightarrow> string \<Rightarrow> (RadioResponseInfo \<times> hval list) option \<Rightarrow> bool \<Rightarrow> vendor_answer \<Rightarrow>
    radio_services \<Rightarrow> radio_services option" where
  "answer_through E ob m args isRadioService a S =
     (case ob of
        None \<Rightarrow> Some S
      | Some b \<Rightarrow> do { (info, xs) \<leftarrow> args;
          Some (checkReturnStatus (slotId a) (call_ok E b) isRadioService (S\<lparr>client_log := client_log S @ [Response b m info xs]\<rparr>)) })"

definition respond :: "string \<Rightarrow> (RadioResponseInfo \<times> hval list) option \<Rightarrow> cli_env \<Rightarrow> vendor_answer \<Rightarrow> radio_services \<Rightarrow> radio_services option" where
  "respond m args E a S =
     (if radioService S (slotId a) then answer_through E (mRadioResponse S (slotId a)) m args True a S else None)"

definition respond_V1_1 :: "string \<Rightarrow> (RadioResponseInfo \<times> hval list) option \<Rightarrow> cli_env \<Rightarrow> vendor_answer \<Rightarrow> radio_services \<Rightarrow> radio_services option" where
  "respond_V1_1 m args E a S =
     (if radioService S (slotId a) then answer_through E (mRadioResponseV1_1 S (slotId a)) m args True a S else None)"

definition respond_oem :: "string \<Rightarrow> (RadioResponseInfo \<times> hval list) option \<Rightarrow> cli_env \<Rightarrow> vendor_answer \<Rightarrow> radio_services \<Rightarrow> radio_services option" where
  "respond_oem m args E a S =
     (if oemHookService S (slotId a) then answer_through E (mOemHookResponse S (slotId a)) m args False a S else None)"

section \<open>Conversions\<close>

definition convertCharPtrToHidlString :: "vmem \<Rightarrow> nat \<Rightarrow> hval option" where
  "convertCharPtrToHidlString M ptr = (if ptr = 0 then Some (HS []) else map_option HS (cstr M ptr))"

text \<open>Where a field of an interface structure comes from: an integer field, a pointer to a string, an
  embedded array with a string, a number as decimal text, or a truth value of a comparison with 1.\<close>

datatype source = Int_of "string list" | Str_of "string list" | Buf_of "string list" | Dec_of "string list" | Is1_of "string list"

fun convert :: "vmem \<Rightarrow> cty \<Rightarrow> nat \<Rightarrow> source \<Rightarrow> hval option" where
  "convert M T p (Int_of f) = map_option HI (fld M T p f)"
| "convert M T p (Str_of f) = do { q \<leftarrow> ptr_fld M T p f; convertCharPtrToHidlString M q }"
| "convert M T p (Buf_of f) = convertCharPtrToHidlString M (addr_of T p f)"
| "convert M T p (Dec_of f) = map_option (\<lambda>v. HS (bytes_of (format_d v))) (fld M T p f)"
| "convert M T p (Is1_of f) = map_option (\<lambda>v. HB (v = 1)) (fld M T p f)"

definition fields_of :: "vmem \<Rightarrow> cty \<Rightarrow> nat \<Rightarrow> (string \<times> source) list \<Rightarrow> (string \<times> hval) list option" where
  "fields_of M T p fs = mapM (\<lambda>(f, s). map_option (\<lambda>v. (f, v)) (convert M T p s)) fs"

definition struct_of :: "vmem \<Rightarrow> cty \<Rightarrow> nat \<Rightarrow> (string \<times> source) list \<Rightarrow> hval option" where
  "struct_of M T p fs = map_option HR (fields_of M T p fs)"

text \<open>The value of a structure right after \<^verbatim>\<open>= {}\<close>.\<close>

definition zero_fields :: "(string \<times> source) list \<Rightarrow> (string \<times> hval) list" where
  "zero_fields fs = map (\<lambda>(f, s). (f, case s of Int_of _ \<Rightarrow> HI 0 | Is1_of _ \<Rightarrow> HB False | _ \<Rightarrow> HS [])) fs"

definition zero_of :: "(string \<times> source) list \<Rightarrow> hval" where
  "zero_of fs = HR (zero_fields fs)"

definition zero_struct :: "(string \<times> source) list \<Rightarrow> (string \<times> hval) list \<Rightarrow> hval" where
  "zero_struct fs gs = HR (zero_fields fs @ gs)"

text \<open>Resizing a vector to a negative number of elements does not succeed.\<close>

definition vec_size :: "int \<Rightarrow> nat option" where
  "vec_size n = (if n < 0 then None else Some (nat n))"

text \<open>The usual checks of a response, and an answer with default arguments when the check fails.\<close>

definition bad_struct :: "vendor_answer \<Rightarrow> cty \<Rightarrow> bool" where
  "bad_struct a T \<longleftrightarrow> response a = 0 \<or> responseLen a \<noteq> sizeof T"

definition bad_list :: "vendor_answer \<Rightarrow> nat \<Rightarrow> bool" where
  "bad_list a n \<longleftrightarrow> (response a = 0 \<and> responseLen a \<noteq> 0) \<or> responseLen a mod n \<noteq> 0"

definition checked :: "vendor_answer \<Rightarrow> bool \<Rightarrow> hval list \<Rightarrow> hval list option \<Rightarrow> (RadioResponseInfo \<times> hval list) option" where
  "checked a bad dflt args = (if bad then Some (invalid_response a, dflt) else map_option (\<lambda>xs. (populateResponseInfo a, xs)) args)"

text \<open>\<open>n\<close> structures one after the other, and \<open>n\<close> pointers to structures.\<close>

definition structs_at :: "vmem \<Rightarrow> cty \<Rightarrow> nat \<Rightarrow> nat \<Rightarrow> (nat \<Rightarrow> hval option) \<Rightarrow> hval option" where
  "structs_at M T p n f = map_option HV (mapM (\<lambda>i. f (elem T p i)) [0..<n])"

definition pointed_structs :: "vmem \<Rightarrow> nat \<Rightarrow> nat \<Rightarrow> (nat \<Rightarrow> hval option) \<Rightarrow> hval option" where
  "pointed_structs M p n f = map_option HV (mapM (\<lambda>i. do { q \<leftarrow> ptr_elem M p i; f q }) [0..<n])"

definition string_elem :: "vmem \<Rightarrow> nat \<Rightarrow> nat \<Rightarrow> hval option" where
  "string_elem M p i = do { q \<leftarrow> ptr_elem M p i; convertCharPtrToHidlString M q }"

definition responseIntOrEmpty :: "vmem \<Rightarrow> vendor_answer \<Rightarrow> (RadioResponseInfo \<times> int) option" where
  "responseIntOrEmpty M a =
     (if response a = 0 \<and> responseLen a = 0 then Some (populateResponseInfo a, -1)
      else if response a = 0 \<or> responseLen a mod 4 \<noteq> 0 then Some (invalid_response a, -1)
      else map_option (\<lambda>v. (populateResponseInfo a, v)) (int_elem M (response a) 0))"

definition responseInt :: "vmem \<Rightarrow> vendor_answer \<Rightarrow> (RadioResponseInfo \<times> int) option" where
  "responseInt M a =
     (if response a = 0 \<or> responseLen a mod 4 \<noteq> 0 then Some (invalid_response a, -1)
      else map_option (\<lambda>v. (populateResponseInfo a, v)) (int_elem M (response a) 0))"

end
