(* ===== verification/Ril_Answers.thy ===== *)
theory Ril_Answers
  imports Ril_Client
begin

text \<open>
  The answer functions of \<^verbatim>\<open>ril/libril/ril_service.cpp\<close>, in the order of the source: each checks what the
  vendor library hands over, converts it and calls the method of the client. Conversions that several
  functions use stand before the first of them. The table at the end lists the functions by name.
\<close>

section \<open>Functions\<close>

text \<open>The number of applications is not compared with the size of the array in the structure.\<close>

definition appStatus_fields :: "(string \<times> source) list" where
  "appStatus_fields = [(''appType'', Int_of [''app_type'']), (''appState'', Int_of [''app_state'']),
     (''persoSubstate'', Int_of [''perso_substate'']), (''aidPtr'', Str_of [''aid_ptr'']),
     (''appLabelPtr'', Str_of [''app_label_ptr'']), (''pin1Replaced'', Int_of [''pin1_replaced'']),
     (''pin1'', Int_of [''pin1'']), (''pin2'', Int_of [''pin2''])]"

definition cardStatus_fields :: "(string \<times> source) list" where
  "cardStatus_fields = [(''cardState'', Int_of [''card_state'']), (''universalPinState'', Int_of [''universal_pin_state'']),
     (''gsmUmtsSubscriptionAppIndex'', Int_of [''gsm_umts_subscription_app_index'']),
     (''cdmaSubscriptionAppIndex'', Int_of [''cdma_subscription_app_index'']),
     (''imsSubscriptionAppIndex'', Int_of [''ims_subscription_app_index''])]"

definition getIccCardStatusResponse :: answer_fun where
  "getIccCardStatusResponse E M a = respond ''getIccCardStatusResponse''
     (let p = response a; bad = Some (invalid_response a, [zero_struct cardStatus_fields [(''applications'', HV [])]]) in
      if bad_struct a RIL_CardStatus_v6 then bad
      else do { n \<leftarrow> fld M RIL_CardStatus_v6 p [''num_applications''];
        g \<leftarrow> fld M RIL_CardStatus_v6 p [''gsm_umts_subscription_app_index''];
        if g \<ge> n then bad
        else do { c \<leftarrow> fld M RIL_CardStatus_v6 p [''cdma_subscription_app_index''];
          if c \<ge> n then bad
          else do { i \<leftarrow> fld M RIL_CardStatus_v6 p [''ims_subscription_app_index''];
            if i \<ge> n then bad
            else do { fs \<leftarrow> fields_of M RIL_CardStatus_v6 p cardStatus_fields;
              k \<leftarrow> vec_size n;
              apps \<leftarrow> structs_at M RIL_AppStatus (addr_of RIL_CardStatus_v6 p [''applications'']) k
                (\<lambda>q. struct_of M RIL_AppStatus q appStatus_fields);
              Some (populateResponseInfo a, [HR (fs @ [(''applications'', apps)])]) } } } }) E a"

definition supplyIccPinForAppResponse :: answer_fun where
  "supplyIccPinForAppResponse E M a =
     respond ''supplyIccPinForAppResponse'' (map_option (\<lambda>(i, v). (i, [HI v])) (responseIntOrEmpty M a)) E a"

definition supplyIccPukForAppResponse :: answer_fun where
  "supplyIccPukForAppResponse E M a =
     respond ''supplyIccPukForAppResponse'' (map_option (\<lambda>(i, v). (i, [HI v])) (responseIntOrEmpty M a)) E a"

definition supplyIccPin2ForAppResponse :: answer_fun where
  "supplyIccPin2ForAppResponse E M a =
     respond ''supplyIccPin2ForAppResponse'' (map_option (\<lambda>(i, v). (i, [HI v])) (responseIntOrEmpty M a)) E a"

definition supplyIccPuk2ForAppResponse :: answer_fun where
  "supplyIccPuk2ForAppResponse E M a =
     respond ''supplyIccPuk2ForAppResponse'' (map_option (\<lambda>(i, v). (i, [HI v])) (responseIntOrEmpty M a)) E a"

definition changeIccPinForAppResponse :: answer_fun where
  "changeIccPinForAppResponse E M a =
     respond ''changeIccPinForAppResponse'' (map_option (\<lambda>(i, v). (i, [HI v])) (responseIntOrEmpty M a)) E a"

definition changeIccPin2ForAppResponse :: answer_fun where
  "changeIccPin2ForAppResponse E M a =
     respond ''changeIccPin2ForAppResponse'' (map_option (\<lambda>(i, v). (i, [HI v])) (responseIntOrEmpty M a)) E a"

definition supplyNetworkDepersonalizationResponse :: answer_fun where
  "supplyNetworkDepersonalizationResponse E M a =
     respond ''supplyNetworkDepersonalizationResponse'' (map_option (\<lambda>(i, v). (i, [HI v])) (responseIntOrEmpty M a)) E a"

definition call_fields :: "(string \<times> source) list" where
  "call_fields = [(''state'', Int_of [''state'']), (''index'', Int_of [''index'']), (''toa'', Int_of [''toa'']),
     (''isMpty'', Int_of [''isMpty'']), (''isMT'', Int_of [''isMT'']), (''als'', Int_of [''als'']),
     (''isVoice'', Int_of [''isVoice'']), (''isVoicePrivacy'', Int_of [''isVoicePrivacy'']), (''number'', Str_of [''number'']),
     (''numberPresentation'', Int_of [''numberPresentation'']), (''name'', Str_of [''name'']),
     (''namePresentation'', Int_of [''namePresentation''])]"

definition uusInfo_of :: "vmem \<Rightarrow> nat \<Rightarrow> hval option" where
  "uusInfo_of M u =
     (if u = 0 then Some (HV [])
      else do { d \<leftarrow> ptr_fld M RIL_UUS_Info u [''uusData''];
        if d = 0 then Some (HV [])
        else do { t \<leftarrow> fld M RIL_UUS_Info u [''uusType'']; c \<leftarrow> fld M RIL_UUS_Info u [''uusDcs''];
          n \<leftarrow> fld M RIL_UUS_Info u [''uusLength'']; s \<leftarrow> cstrn M d (nat (n mod 2 ^ 32));
          Some (HV [HR [(''uusType'', HI t), (''uusDcs'', HI c), (''uusData'', HS s)]]) } })"

definition getCurrentCallsResponse :: answer_fun where
  "getCurrentCallsResponse E M a = respond ''getCurrentCallsResponse''
     (checked a (bad_list a 4) [HV []] (do { calls \<leftarrow> pointed_structs M (response a) (responseLen a div 4) (\<lambda>p.
          do { fs \<leftarrow> fields_of M RIL_Call p call_fields; u \<leftarrow> ptr_fld M RIL_Call p [''uusInfo'']; uus \<leftarrow> uusInfo_of M u;
            Some (HR (fs @ [(''uusInfo'', uus)])) });
        Some [calls] })) E a"

definition dialResponse :: answer_fun where
  "dialResponse E M a = respond ''dialResponse'' (Some (populateResponseInfo a, [])) E a"

definition getIMSIForAppResponse :: answer_fun where
  "getIMSIForAppResponse E M a =
     respond ''getIMSIForAppResponse'' (do { s \<leftarrow> convertCharPtrToHidlString M (response a); Some (populateResponseInfo a, [s]) }) E a"

definition hangupConnectionResponse :: answer_fun where
  "hangupConnectionResponse E M a = respond ''hangupConnectionResponse'' (Some (populateResponseInfo a, [])) E a"

definition hangupWaitingOrBackgroundResponse :: answer_fun where
  "hangupWaitingOrBackgroundResponse E M a =
     respond ''hangupWaitingOrBackgroundResponse'' (Some (populateResponseInfo a, [])) E a"

text \<open>This function calls another method of the client.\<close>

definition hangupForegroundResumeBackgroundResponse :: answer_fun where
  "hangupForegroundResumeBackgroundResponse E M a =
     respond ''hangupWaitingOrBackgroundResponse'' (Some (populateResponseInfo a, [])) E a"

definition switchWaitingOrHoldingAndActiveResponse :: answer_fun where
  "switchWaitingOrHoldingAndActiveResponse E M a =
     respond ''switchWaitingOrHoldingAndActiveResponse'' (Some (populateResponseInfo a, [])) E a"

definition conferenceResponse :: answer_fun where
  "conferenceResponse E M a = respond ''conferenceResponse'' (Some (populateResponseInfo a, [])) E a"

definition rejectCallResponse :: answer_fun where
  "rejectCallResponse E M a = respond ''rejectCallResponse'' (Some (populateResponseInfo a, [])) E a"

text \<open>An integer is read when the length is not a multiple of its size.\<close>

definition getLastCallFailCauseResponse :: answer_fun where
  "getLastCallFailCauseResponse E M a = respond ''getLastCallFailCauseResponse''
     (let info = (\<lambda>c v. [HR [(''causeCode'', HI c), (''vendorCause'', v)]]) in
      if response a = 0 then Some (invalid_response a, info 0 (HS []))
      else if responseLen a = sizeof RIL_LastCallFailCauseInfo
      then do { c \<leftarrow> fld M RIL_LastCallFailCauseInfo (response a) [''cause_code''];
        v \<leftarrow> convert M RIL_LastCallFailCauseInfo (response a) (Str_of [''vendor_cause'']);
        Some (populateResponseInfo a, info c v) }
      else if responseLen a mod 4 \<noteq> 0 then do { c \<leftarrow> int_elem M (response a) 0; Some (populateResponseInfo a, info c (HS [])) }
      else Some (invalid_response a, info 0 (HS []))) E a"

text \<open>The fixups of the LTE values are made in the memory of the vendor library before the values are read.
  Negating the least integer has no result.\<close>

definition fix_field :: "cty \<Rightarrow> string list \<Rightarrow> (int \<Rightarrow> int option) \<Rightarrow> nat \<Rightarrow> vmem \<Rightarrow> vmem option" where
  "fix_field T path f p M = do { v \<leftarrow> fld M T p path; v' \<leftarrow> f v; if v' = v then Some M else store_int M (addr_of T p path) v' }"

definition INT_MAX :: int where "INT_MAX = 2 ^ 31 - 1"

definition fix_lte :: "cty \<Rightarrow> nat \<Rightarrow> vmem \<Rightarrow> vmem option" where
  "fix_lte T p M = do {
     M1 \<leftarrow> fix_field T [''LTE_SignalStrength'', ''signalStrength''] (\<lambda>v. Some (if v = -1 then 99 else v)) p M;
     M2 \<leftarrow> fix_field T [''LTE_SignalStrength'', ''rsrp'']
       (\<lambda>v. if v = -1 then Some INT_MAX else if v < -1 then if v = -(2 ^ 31) then None else Some (- v) else Some v) p M1;
     M3 \<leftarrow> fix_field T [''LTE_SignalStrength'', ''rsrq''] (\<lambda>v. Some (if v = -1 then INT_MAX else v)) p M2;
     fix_field T [''LTE_SignalStrength'', ''cqi''] (\<lambda>v. Some (if v = -1 then INT_MAX else v)) p M3 }"

definition gw_fields :: "(string \<times> source) list" where
  "gw_fields = [(''signalStrength'', Int_of [''GW_SignalStrength'', ''signalStrength'']),
     (''bitErrorRate'', Int_of [''GW_SignalStrength'', ''bitErrorRate''])]"

definition cdma_fields :: "(string \<times> source) list" where
  "cdma_fields = [(''dbm'', Int_of [''CDMA_SignalStrength'', ''dbm'']), (''ecio'', Int_of [''CDMA_SignalStrength'', ''ecio''])]"

definition evdo_fields :: "(string \<times> source) list" where
  "evdo_fields = [(''dbm'', Int_of [''EVDO_SignalStrength'', ''dbm'']), (''ecio'', Int_of [''EVDO_SignalStrength'', ''ecio'']),
     (''signalNoiseRatio'', Int_of [''EVDO_SignalStrength'', ''signalNoiseRatio''])]"

definition lte_fields :: "(string \<times> source) list" where
  "lte_fields = [(''signalStrength'', Int_of [''LTE_SignalStrength'', ''signalStrength'']),
     (''rsrp'', Int_of [''LTE_SignalStrength'', ''rsrp'']), (''rsrq'', Int_of [''LTE_SignalStrength'', ''rsrq'']),
     (''rssnr'', Int_of [''LTE_SignalStrength'', ''rssnr'']), (''cqi'', Int_of [''LTE_SignalStrength'', ''cqi'']),
     (''timingAdvance'', Int_of [''LTE_SignalStrength'', ''timingAdvance''])]"

definition signal_strength :: "hval \<Rightarrow> hval \<Rightarrow> hval \<Rightarrow> hval \<Rightarrow> int \<Rightarrow> hval" where
  "signal_strength g c e l rscp = HR [(''gw'', g), (''cdma'', c), (''evdo'', e), (''lte'', l), (''tdScdma'', HR [(''rscp'', HI rscp)])]"

definition convertRilSignalStrengthToHalV8 :: "vmem \<Rightarrow> nat \<Rightarrow> hval option" where
  "convertRilSignalStrengthToHalV8 M0 p = do { M \<leftarrow> fix_lte RIL_SignalStrength_v8 p M0;
     g \<leftarrow> struct_of M RIL_SignalStrength_v8 p gw_fields; c \<leftarrow> struct_of M RIL_SignalStrength_v8 p cdma_fields;
     e \<leftarrow> struct_of M RIL_SignalStrength_v8 p evdo_fields; l \<leftarrow> struct_of M RIL_SignalStrength_v8 p lte_fields;
     Some (signal_strength g c e l INT_MAX) }"

definition convertRilSignalStrengthToHalV10 :: "vmem \<Rightarrow> nat \<Rightarrow> hval option" where
  "convertRilSignalStrengthToHalV10 M0 p = do { M \<leftarrow> fix_lte RIL_SignalStrength_v10 p M0;
     g \<leftarrow> struct_of M RIL_SignalStrength_v10 p gw_fields; c \<leftarrow> struct_of M RIL_SignalStrength_v10 p cdma_fields;
     e \<leftarrow> struct_of M RIL_SignalStrength_v10 p evdo_fields; l \<leftarrow> struct_of M RIL_SignalStrength_v10 p lte_fields;
     r \<leftarrow> fld M RIL_SignalStrength_v10 p [''TD_SCDMA_SignalStrength'', ''rscp''];
     Some (signal_strength g c e l r) }"

definition convertRilSignalStrengthToHal :: "vmem \<Rightarrow> nat \<Rightarrow> nat \<Rightarrow> hval option" where
  "convertRilSignalStrengthToHal M p len =
     (if len = sizeof RIL_SignalStrength_v8 then convertRilSignalStrengthToHalV8 M p else convertRilSignalStrengthToHalV10 M p)"

definition zero_signal_strength :: hval where
  "zero_signal_strength = signal_strength (zero_of gw_fields) (zero_of cdma_fields) (zero_of evdo_fields) (zero_of lte_fields) 0"

definition bad_signal_strength :: "vendor_answer \<Rightarrow> bool" where
  "bad_signal_strength a \<longleftrightarrow> response a = 0 \<or>
     (responseLen a \<noteq> sizeof RIL_SignalStrength_v10 \<and> responseLen a \<noteq> sizeof RIL_SignalStrength_v8)"

definition getSignalStrengthResponse :: answer_fun where
  "getSignalStrengthResponse E M a = respond ''getSignalStrengthResponse''
     (checked a (bad_signal_strength a) [zero_signal_strength]
       (do { s \<leftarrow> convertRilSignalStrengthToHal M (response a) (responseLen a); Some [s] })) E a"

definition getCellInfoTypeRadioTechnology :: "vmem \<Rightarrow> nat \<Rightarrow> int option" where
  "getCellInfoTypeRadioTechnology M rat =
     (if rat = 0 then Some 0
      else do { radioTech \<leftarrow> atoi_at M rat;
        Some (if radioTech \<in> {1, 2, 16} then 1
              else if radioTech \<in> {3, 9, 10, 11, 15} then 4
              else if radioTech \<in> {4, 5, 6, 7, 8, 12, 13} then 2
              else if radioTech \<in> {14, 19} then 3
              else if radioTech = 17 then 5
              else 0) })"

text \<open>The identity is filled from the fields that \<open>get\<close> reads, those of a structure in memory or those of a
  local variable.\<close>

definition ints_from :: "(string list \<Rightarrow> int option) \<Rightarrow> string \<Rightarrow> (string \<times> string) list \<Rightarrow> (string \<times> hval) list option" where
  "ints_from get s fs = mapM (\<lambda>(f, g). map_option (\<lambda>v. (f, HI v)) (get ['''', s, g])) fs"

definition mcc_mnc_from :: "(string list \<Rightarrow> int option) \<Rightarrow> string \<Rightarrow> (string \<times> hval) list option" where
  "mcc_mnc_from get s = mapM (\<lambda>f. map_option (\<lambda>v. (f, HS (bytes_of (format_d v)))) (get ['''', s, f])) [''mcc'', ''mnc'']"

definition cell_identity :: "int \<Rightarrow> hval list \<Rightarrow> hval list \<Rightarrow> hval list \<Rightarrow> hval list \<Rightarrow> hval list \<Rightarrow> hval" where
  "cell_identity t g w c l td = HR [(''cellInfoType'', HI t), (''cellIdentityGsm'', HV g), (''cellIdentityWcdma'', HV w),
     (''cellIdentityCdma'', HV c), (''cellIdentityLte'', HV l), (''cellIdentityTdscdma'', HV td)]"

definition fillCellIdentityResponse :: "(string list \<Rightarrow> int option) \<Rightarrow> hval option" where
  "fillCellIdentityResponse get = do { t \<leftarrow> get [''cellInfoType''];
     if t = 1
     then do { m \<leftarrow> mcc_mnc_from get ''cellIdentityGsm'';
       fs \<leftarrow> ints_from get ''cellIdentityGsm'' [(''lac'', ''lac''), (''cid'', ''cid''), (''arfcn'', ''arfcn''), (''bsic'', ''bsic'')];
       Some (cell_identity t [HR (m @ fs)] [] [] [] []) }
     else if t = 4
     then do { m \<leftarrow> mcc_mnc_from get ''cellIdentityWcdma'';
       fs \<leftarrow> ints_from get ''cellIdentityWcdma'' [(''lac'', ''lac''), (''cid'', ''cid''), (''psc'', ''psc''), (''uarfcn'', ''uarfcn'')];
       Some (cell_identity t [] [HR (m @ fs)] [] [] []) }
     else if t = 2
     then do { fs \<leftarrow> ints_from get ''cellIdentityCdma'' [(''networkId'', ''networkId''), (''systemId'', ''systemId''),
         (''baseStationId'', ''basestationId''), (''longitude'', ''longitude''), (''latitude'', ''latitude'')];
       Some (cell_identity t [] [] [HR fs] [] []) }
     else if t = 3
     then do { m \<leftarrow> mcc_mnc_from get ''cellIdentityLte'';
       fs \<leftarrow> ints_from get ''cellIdentityLte'' [(''ci'', ''ci''), (''pci'', ''pci''), (''tac'', ''tac''), (''earfcn'', ''earfcn'')];
       Some (cell_identity t [] [] [] [HR (m @ fs)] []) }
     else if t = 5
     then do { m \<leftarrow> mcc_mnc_from get ''cellIdentityTdscdma'';
       fs \<leftarrow> ints_from get ''cellIdentityTdscdma'' [(''lac'', ''lac''), (''cid'', ''cid''), (''cpid'', ''cpid'')];
       Some (cell_identity t [] [] [] [] [HR (m @ fs)]) }
     else Some (cell_identity t [] [] [] [] []) }"

definition convertResponseStringEntryToInt :: "vmem \<Rightarrow> nat \<Rightarrow> nat \<Rightarrow> nat \<Rightarrow> int option" where
  "convertResponseStringEntryToInt M resp idx numStrings =
     (if resp \<noteq> 0 \<and> numStrings > idx then do { q \<leftarrow> ptr_elem M resp idx; if q \<noteq> 0 then atoi_at M q else Some (-1) }
      else Some (-1))"

definition convertResponseHexStringEntryToInt :: "vmem \<Rightarrow> nat \<Rightarrow> nat \<Rightarrow> nat \<Rightarrow> int option" where
  "convertResponseHexStringEntryToInt M resp idx numStrings =
     (if resp \<noteq> 0 \<and> numStrings > idx
      then do { q \<leftarrow> ptr_elem M resp idx; if q \<noteq> 0 then map_option (\<lambda>s. fst (strtol (chars_of s) 16)) (cstr M q) else Some (-1) }
      else Some (-1))"

text \<open>The local structure: its bytes are all set to 0xff first, then the type and some fields are assigned.\<close>

definition local_cell :: "int \<Rightarrow> (string list \<times> int) list \<Rightarrow> string list \<Rightarrow> int option" where
  "local_cell t vs path =
     (if path = [''cellInfoType''] then Some t
      else case map_of vs path of Some v \<Rightarrow> Some v | None \<Rightarrow> Some (if last path = ''bsic'' then 255 else -1))"

definition lac_cid :: "vmem \<Rightarrow> nat \<Rightarrow> nat \<Rightarrow> string \<Rightarrow> string \<Rightarrow> string \<Rightarrow> (string list \<times> int) list option" where
  "lac_cid M resp numStrings s f g = do { l \<leftarrow> convertResponseHexStringEntryToInt M resp 1 numStrings;
     c \<leftarrow> convertResponseHexStringEntryToInt M resp 2 numStrings; Some [(['''', s, f], l), (['''', s, g], c)] }"

definition fillCellIdentityFromVoiceRegStateResponseString :: "vmem \<Rightarrow> nat \<Rightarrow> nat \<Rightarrow> hval option" where
  "fillCellIdentityFromVoiceRegStateResponseString M numStrings resp = do {
     rat \<leftarrow> ptr_elem M resp 3; t \<leftarrow> getCellInfoTypeRadioTechnology M rat;
     vs \<leftarrow> (if t = 1 then lac_cid M resp numStrings ''cellIdentityGsm'' ''lac'' ''cid''
       else if t = 4 then do { vs \<leftarrow> lac_cid M resp numStrings ''cellIdentityWcdma'' ''lac'' ''cid'';
         p \<leftarrow> convertResponseStringEntryToInt M resp 14 numStrings; Some (vs @ [(['''', ''cellIdentityWcdma'', ''psc''], p)]) }
       else if t = 5 then lac_cid M resp numStrings ''cellIdentityTdscdma'' ''lac'' ''cid''
       else if t = 2 then mapM (\<lambda>(f, i). map_option (\<lambda>v. (['''', ''cellIdentityCdma'', f], v)) (convertResponseStringEntryToInt M resp i numStrings))
         [(''basestationId'', 4), (''latitude'', 5), (''longitude'', 6), (''systemId'', 8), (''networkId'', 9)]
       else if t = 3 then lac_cid M resp numStrings ''cellIdentityLte'' ''tac'' ''ci''
       else Some []);
     fillCellIdentityResponse (local_cell t vs) }"

definition fillCellIdentityFromDataRegStateResponseString :: "vmem \<Rightarrow> nat \<Rightarrow> nat \<Rightarrow> hval option" where
  "fillCellIdentityFromDataRegStateResponseString M numStrings resp = do {
     rat \<leftarrow> ptr_elem M resp 3; t \<leftarrow> getCellInfoTypeRadioTechnology M rat;
     vs \<leftarrow> (if t = 1 then lac_cid M resp numStrings ''cellIdentityGsm'' ''lac'' ''cid''
       else if t = 4 then lac_cid M resp numStrings ''cellIdentityWcdma'' ''lac'' ''cid''
       else if t = 5 then lac_cid M resp numStrings ''cellIdentityTdscdma'' ''lac'' ''cid''
       else if t = 3 then mapM (\<lambda>(f, i). map_option (\<lambda>v. (['''', ''cellIdentityLte'', f], v)) (convertResponseStringEntryToInt M resp i numStrings))
         [(''tac'', 6), (''pci'', 7), (''ci'', 8)]
       else Some []);
     fillCellIdentityResponse (local_cell t vs) }"

definition ATOI_NULL_HANDLED_DEF :: "vmem \<Rightarrow> nat \<Rightarrow> nat \<Rightarrow> int \<Rightarrow> int option" where
  "ATOI_NULL_HANDLED_DEF M resp idx d = do { q \<leftarrow> ptr_elem M resp idx; if q \<noteq> 0 then atoi_at M q else Some d }"

text \<open>The fields of the result in order, each from an entry of the string array with its default, or from
  the structure.\<close>

definition voiceReg_strings :: "(string \<times> nat \<times> int) list" where
  "voiceReg_strings = [(''regState'', 0, 4), (''rat'', 3, -1), (''cssSupported'', 7, 0), (''roamingIndicator'', 10, -1),
     (''systemIsInPrl'', 11, 0), (''defaultRoamingIndicator'', 12, 0), (''reasonForDenial'', 13, 0)]"

definition dataReg_strings :: "(string \<times> nat \<times> int) list" where
  "dataReg_strings = [(''regState'', 0, 4), (''rat'', 3, 0), (''reasonDataDenied'', 4, -1), (''maxDataCalls'', 5, 1)]"

definition from_strings :: "vmem \<Rightarrow> nat \<Rightarrow> (string \<times> nat \<times> int) list \<Rightarrow> (string \<times> hval) list option" where
  "from_strings M resp fs = mapM (\<lambda>(f, i, d). map_option (\<lambda>v. (f, HI v)) (ATOI_NULL_HANDLED_DEF M resp i d)) fs"

definition voiceReg_fields :: "(string \<times> source) list" where
  "voiceReg_fields = [(''regState'', Int_of [''regState'']), (''rat'', Int_of [''rat'']), (''cssSupported'', Int_of [''cssSupported'']),
     (''roamingIndicator'', Int_of [''roamingIndicator'']), (''systemIsInPrl'', Int_of [''systemIsInPrl'']),
     (''defaultRoamingIndicator'', Int_of [''defaultRoamingIndicator'']), (''reasonForDenial'', Int_of [''reasonForDenial''])]"

definition dataReg_fields :: "(string \<times> source) list" where
  "dataReg_fields = [(''regState'', Int_of [''regState'']), (''rat'', Int_of [''rat'']),
     (''reasonDataDenied'', Int_of [''reasonDataDenied'']), (''maxDataCalls'', Int_of [''maxDataCalls''])]"

definition zero_cell :: hval where "zero_cell = cell_identity 0 [] [] [] [] []"

definition getVoiceRegistrationStateResponse :: answer_fun where
  "getVoiceRegistrationStateResponse E M a = respond ''getVoiceRegistrationStateResponse''
     (let p = response a; n = responseLen a div 4;
          bad = Some (invalid_response a, [zero_struct voiceReg_fields [(''cellIdentity'', zero_cell)]]) in
      if p = 0 then bad
      else if vendor_version E \<le> 14
      then if n < 15 then bad
           else do { fs \<leftarrow> from_strings M p voiceReg_strings; c \<leftarrow> fillCellIdentityFromVoiceRegStateResponseString M 15 p;
             Some (populateResponseInfo a, [HR (fs @ [(''cellIdentity'', c)])]) }
      else if responseLen a \<noteq> sizeof RIL_VoiceRegistrationStateResponse then bad
      else do { fs \<leftarrow> fields_of M RIL_VoiceRegistrationStateResponse p voiceReg_fields;
        c \<leftarrow> fillCellIdentityResponse (\<lambda>path. fld M RIL_VoiceRegistrationStateResponse p (''cellIdentity'' # path));
        Some (populateResponseInfo a, [HR (fs @ [(''cellIdentity'', c)])]) }) E a"

definition getDataRegistrationStateResponse :: answer_fun where
  "getDataRegistrationStateResponse E M a = respond ''getDataRegistrationStateResponse''
     (let p = response a; n = responseLen a div 4;
          bad = Some (invalid_response a, [zero_struct dataReg_fields [(''cellIdentity'', zero_cell)]]) in
      if p = 0 then bad
      else if vendor_version E \<le> 14
      then if n < 6 then bad
           else do { fs \<leftarrow> from_strings M p dataReg_strings;
             c \<leftarrow> fillCellIdentityFromDataRegStateResponseString M (if n < 11 then 6 else 11) p;
             Some (populateResponseInfo a, [HR (fs @ [(''cellIdentity'', c)])]) }
      else if responseLen a \<noteq> sizeof RIL_DataRegistrationStateResponse then bad
      else do { fs \<leftarrow> fields_of M RIL_DataRegistrationStateResponse p dataReg_fields;
        c \<leftarrow> fillCellIdentityResponse (\<lambda>path. fld M RIL_DataRegistrationStateResponse p (''cellIdentity'' # path));
        Some (populateResponseInfo a, [HR (fs @ [(''cellIdentity'', c)])]) }) E a"

definition getOperatorResponse :: answer_fun where
  "getOperatorResponse E M a = respond ''getOperatorResponse''
     (checked a (response a = 0 \<or> responseLen a div 4 < 3) [HS [], HS [], HS []] (mapM (string_elem M (response a)) [0, 1, 2])) E a"

definition setRadioPowerResponse :: answer_fun where
  "setRadioPowerResponse E M a = respond ''setRadioPowerResponse'' (Some (populateResponseInfo a, [])) E a"

definition sendDtmfResponse :: answer_fun where
  "sendDtmfResponse E M a = respond ''sendDtmfResponse'' (Some (populateResponseInfo a, [])) E a"

definition sms_fields :: "(string \<times> source) list" where
  "sms_fields = [(''messageRef'', Int_of [''messageRef'']), (''ackPDU'', Str_of [''ackPDU'']), (''errorCode'', Int_of [''errorCode''])]"

definition makeSendSmsResult :: "vmem \<Rightarrow> vendor_answer \<Rightarrow> (RadioResponseInfo \<times> hval list) option" where
  "makeSendSmsResult M a =
     (if response a \<noteq> 0 \<and> responseLen a = sizeof RIL_SMS_Response
      then do { r \<leftarrow> struct_of M RIL_SMS_Response (response a) sms_fields; Some (populateResponseInfo a, [r]) }
      else if response a \<noteq> 0 \<and> responseLen a = sizeof RIL_SMS_Response_Ext
      then do { r \<leftarrow> struct_of M RIL_SMS_Response (addr_of RIL_SMS_Response_Ext (response a) [''response'']) sms_fields;
        Some (populateResponseInfo a, [r]) }
      else Some (invalid_response a, [zero_of sms_fields]))"

definition sendSmsResponse :: answer_fun where
  "sendSmsResponse E M a = respond ''sendSmsResponse'' (makeSendSmsResult M a) E a"

definition sendSMSExpectMoreResponse :: answer_fun where
  "sendSMSExpectMoreResponse E M a = respond ''sendSMSExpectMoreResponse'' (makeSendSmsResult M a) E a"

definition dataCall_fields :: "(string \<times> source) list" where
  "dataCall_fields = [(''status'', Int_of [''status'']), (''suggestedRetryTime'', Int_of [''suggestedRetryTime'']),
     (''cid'', Int_of [''cid'']), (''active'', Int_of [''active'']), (''type'', Str_of [''type'']), (''ifname'', Str_of [''ifname'']),
     (''addresses'', Str_of [''addresses'']), (''dnses'', Str_of [''dnses'']), (''gateways'', Str_of [''gateways''])]"

definition convertRilDataCallToHal_v6 :: "vmem \<Rightarrow> nat \<Rightarrow> hval option" where
  "convertRilDataCallToHal_v6 M p = do { fs \<leftarrow> fields_of M RIL_Data_Call_Response_v6 p dataCall_fields;
     Some (HR (fs @ [(''pcscf'', HS []), (''mtu'', HI 0)])) }"

definition convertRilDataCallToHal_v9 :: "vmem \<Rightarrow> nat \<Rightarrow> hval option" where
  "convertRilDataCallToHal_v9 M p = do { fs \<leftarrow> fields_of M RIL_Data_Call_Response_v9 p dataCall_fields;
     s \<leftarrow> convert M RIL_Data_Call_Response_v9 p (Str_of [''pcscf'']); Some (HR (fs @ [(''pcscf'', s), (''mtu'', HI 0)])) }"

definition convertRilDataCallToHal_v11 :: "vmem \<Rightarrow> nat \<Rightarrow> hval option" where
  "convertRilDataCallToHal_v11 M p = do { fs \<leftarrow> fields_of M RIL_Data_Call_Response_v11 p dataCall_fields;
     s \<leftarrow> convert M RIL_Data_Call_Response_v11 p (Str_of [''pcscf'']); m \<leftarrow> fld M RIL_Data_Call_Response_v11 p [''mtu''];
     Some (HR (fs @ [(''pcscf'', s), (''mtu'', HI m)])) }"

definition convertRilDataCallListToHal :: "vmem \<Rightarrow> nat \<Rightarrow> nat \<Rightarrow> hval option" where
  "convertRilDataCallListToHal M p len =
     (if len mod sizeof RIL_Data_Call_Response_v11 = 0
      then structs_at M RIL_Data_Call_Response_v11 p (len div sizeof RIL_Data_Call_Response_v11) (convertRilDataCallToHal_v11 M)
      else if len mod sizeof RIL_Data_Call_Response_v9 = 0
      then structs_at M RIL_Data_Call_Response_v9 p (len div sizeof RIL_Data_Call_Response_v9) (convertRilDataCallToHal_v9 M)
      else if len mod sizeof RIL_Data_Call_Response_v6 = 0
      then structs_at M RIL_Data_Call_Response_v6 p (len div sizeof RIL_Data_Call_Response_v6) (convertRilDataCallToHal_v6 M)
      else Some (HV []))"

definition no_data_call_size :: "nat \<Rightarrow> bool" where
  "no_data_call_size len \<longleftrightarrow> len mod sizeof RIL_Data_Call_Response_v11 \<noteq> 0 \<and> len mod sizeof RIL_Data_Call_Response_v9 \<noteq> 0 \<and>
     len mod sizeof RIL_Data_Call_Response_v6 \<noteq> 0"

definition failed_data_call :: hval where
  "failed_data_call = HR [(''status'', HE ''ERROR_UNSPECIFIED''), (''suggestedRetryTime'', HI 0), (''cid'', HI 0), (''active'', HI 0),
     (''type'', HS []), (''ifname'', HS []), (''addresses'', HS []), (''dnses'', HS []), (''gateways'', HS []), (''pcscf'', HS []), (''mtu'', HI 0)]"

definition setupDataCallResponse :: answer_fun where
  "setupDataCallResponse E M a = respond ''setupDataCallResponse''
     (let p = response a; len = responseLen a in
      if p = 0 then Some (populateResponseInfo a, [failed_data_call])
      else if no_data_call_size len then Some (invalid_response a, [failed_data_call])
      else do { r \<leftarrow> (if len mod sizeof RIL_Data_Call_Response_v11 = 0 then convertRilDataCallToHal_v11 M p
          else if len mod sizeof RIL_Data_Call_Response_v9 = 0 then convertRilDataCallToHal_v9 M p
          else convertRilDataCallToHal_v6 M p);
        Some (populateResponseInfo a, [r]) }) E a"

definition iccIo_fields :: "(string \<times> source) list" where
  "iccIo_fields = [(''sw1'', Int_of [''sw1'']), (''sw2'', Int_of [''sw2'']), (''simResponse'', Str_of [''simResponse''])]"

definition responseIccIo :: "vmem \<Rightarrow> vendor_answer \<Rightarrow> (RadioResponseInfo \<times> hval list) option" where
  "responseIccIo M a = checked a (bad_struct a RIL_SIM_IO_Response) [zero_of iccIo_fields]
     (do { r \<leftarrow> struct_of M RIL_SIM_IO_Response (response a) iccIo_fields; Some [r] })"

definition iccIOForAppResponse :: answer_fun where
  "iccIOForAppResponse E M a = respond ''iccIOForAppResponse'' (responseIccIo M a) E a"

definition sendUssdResponse :: answer_fun where
  "sendUssdResponse E M a = respond ''sendUssdResponse'' (Some (populateResponseInfo a, [])) E a"

definition cancelPendingUssdResponse :: answer_fun where
  "cancelPendingUssdResponse E M a = respond ''cancelPendingUssdResponse'' (Some (populateResponseInfo a, [])) E a"

definition getClirResponse :: answer_fun where
  "getClirResponse E M a = respond ''getClirResponse''
     (checked a (response a = 0 \<or> responseLen a div 4 < 2) [HI (-1), HI (-1)]
       (do { n \<leftarrow> int_elem M (response a) 0; m \<leftarrow> int_elem M (response a) 1; Some [HI n, HI m] })) E a"

definition setClirResponse :: answer_fun where
  "setClirResponse E M a = respond ''setClirResponse'' (Some (populateResponseInfo a, [])) E a"

definition callForward_fields :: "(string \<times> source) list" where
  "callForward_fields = [(''status'', Int_of [''status'']), (''reason'', Int_of [''reason'']), (''serviceClass'', Int_of [''serviceClass'']),
     (''toa'', Int_of [''toa'']), (''number'', Str_of [''number'']), (''timeSeconds'', Int_of [''timeSeconds''])]"

definition getCallForwardStatusResponse :: answer_fun where
  "getCallForwardStatusResponse E M a = respond ''getCallForwardStatusResponse''
     (checked a (bad_list a 4) [HV []] (do { v \<leftarrow> pointed_structs M (response a) (responseLen a div 4)
          (\<lambda>p. struct_of M RIL_CallForwardInfo p callForward_fields); Some [v] })) E a"

definition setCallForwardResponse :: answer_fun where
  "setCallForwardResponse E M a = respond ''setCallForwardResponse'' (Some (populateResponseInfo a, [])) E a"

definition getCallWaitingResponse :: answer_fun where
  "getCallWaitingResponse E M a = respond ''getCallWaitingResponse''
     (checked a (response a = 0 \<or> responseLen a div 4 < 2) [HB False, HI (-1)]
       (do { n \<leftarrow> int_elem M (response a) 0; m \<leftarrow> int_elem M (response a) 1; Some [HB (n = 1), HI m] })) E a"

definition setCallWaitingResponse :: answer_fun where
  "setCallWaitingResponse E M a = respond ''setCallWaitingResponse'' (Some (populateResponseInfo a, [])) E a"

definition acknowledgeLastIncomingGsmSmsResponse :: answer_fun where
  "acknowledgeLastIncomingGsmSmsResponse E M a =
     respond ''acknowledgeLastIncomingGsmSmsResponse'' (Some (populateResponseInfo a, [])) E a"

definition acceptCallResponse :: answer_fun where
  "acceptCallResponse E M a = respond ''acceptCallResponse'' (Some (populateResponseInfo a, [])) E a"

definition deactivateDataCallResponse :: answer_fun where
  "deactivateDataCallResponse E M a = respond ''deactivateDataCallResponse'' (Some (populateResponseInfo a, [])) E a"

definition getFacilityLockForAppResponse :: answer_fun where
  "getFacilityLockForAppResponse E M a =
     respond ''getFacilityLockForAppResponse'' (map_option (\<lambda>(i, v). (i, [HI v])) (responseInt M a)) E a"

definition setFacilityLockForAppResponse :: answer_fun where
  "setFacilityLockForAppResponse E M a =
     respond ''setFacilityLockForAppResponse'' (map_option (\<lambda>(i, v). (i, [HI v])) (responseIntOrEmpty M a)) E a"

definition setBarringPasswordResponse :: answer_fun where
  "setBarringPasswordResponse E M a = respond ''setBarringPasswordResponse'' (Some (populateResponseInfo a, [])) E a"

definition getNetworkSelectionModeResponse :: answer_fun where
  "getNetworkSelectionModeResponse E M a = respond ''getNetworkSelectionModeResponse''
     (checked a (response a = 0 \<or> responseLen a mod 4 \<noteq> 0) [HB False]
       (do { n \<leftarrow> int_elem M (response a) 0; Some [HB (n = 1)] })) E a"

definition setNetworkSelectionModeAutomaticResponse :: answer_fun where
  "setNetworkSelectionModeAutomaticResponse E M a =
     respond ''setNetworkSelectionModeAutomaticResponse'' (Some (populateResponseInfo a, [])) E a"

definition setNetworkSelectionModeManualResponse :: answer_fun where
  "setNetworkSelectionModeManualResponse E M a =
     respond ''setNetworkSelectionModeManualResponse'' (Some (populateResponseInfo a, [])) E a"

text \<open>\<^verbatim>\<open>strncmp(lit, str, n) == 0\<close>: the comparison ends at a difference, at a common NUL or after \<open>n\<close> bytes.\<close>

fun strncmp_eq :: "vmem \<Rightarrow> u8 list \<Rightarrow> nat \<Rightarrow> nat \<Rightarrow> bool option" where
  "strncmp_eq M lit p 0 = Some True"
| "strncmp_eq M lit p (Suc n) = do { b \<leftarrow> byte_at M p;
     case lit of [] \<Rightarrow> Some (b = 0) | c # cs \<Rightarrow> if b = c then strncmp_eq M cs (Suc p) n else Some False }"

definition convertOperatorStatusToInt :: "vmem \<Rightarrow> nat \<Rightarrow> hval option option" where
  "convertOperatorStatusToInt M str = do {
     u \<leftarrow> strncmp_eq M (bytes_of ''unknown'') str 9;
     if u then Some (Some (HE ''UNKNOWN''))
     else do { v \<leftarrow> strncmp_eq M (bytes_of ''available'') str 9;
       if v then Some (Some (HE ''AVAILABLE''))
       else do { c \<leftarrow> strncmp_eq M (bytes_of ''current'') str 9;
         if c then Some (Some (HE ''CURRENT''))
         else do { f \<leftarrow> strncmp_eq M (bytes_of ''forbidden'') str 9;
           Some (if f then Some (HE ''FORBIDDEN'') else None) } } } }"

text \<open>One network at entry \<open>i\<close>, and whether its status was understood. The fourth string is not checked
  for NULL, and whether there are four strings is not checked.\<close>

definition network_at :: "vmem \<Rightarrow> nat \<Rightarrow> nat \<Rightarrow> (hval \<times> bool) option" where
  "network_at M resp i = do { l \<leftarrow> string_elem M resp i; s \<leftarrow> string_elem M resp (i + 1); n \<leftarrow> string_elem M resp (i + 2);
     q \<leftarrow> ptr_elem M resp (i + 3); st \<leftarrow> convertOperatorStatusToInt M q;
     Some (HR [(''alphaLong'', l), (''alphaShort'', s), (''operatorNumeric'', n), (''status'', case st of Some v \<Rightarrow> v | None \<Rightarrow> HI 0)],
       st \<noteq> None) }"

definition getAvailableNetworksResponse :: answer_fun where
  "getAvailableNetworksResponse E M a = respond ''getAvailableNetworksResponse''
     (let q = qan_resp_strings E; d = nat (q * 4 mod 2 ^ 32); p = response a; len = responseLen a in
      if p = 0 \<and> len \<noteq> 0 then Some (invalid_response a, [HV []])
      else if d = 0 then None
      else if len mod d \<noteq> 0 then Some (invalid_response a, [HV []])
      else if q < 0 then if len div 4 = 0 then Some (populateResponseInfo a, [HV []]) else None
      else do { ns \<leftarrow> mapM (\<lambda>j. network_at M p (j * nat q)) [0..<len div 4 div nat q];
        Some (if list_all snd ns then populateResponseInfo a else invalid_response a, [HV (map fst ns)]) }) E a"

definition startDtmfResponse :: answer_fun where
  "startDtmfResponse E M a = respond ''startDtmfResponse'' (Some (populateResponseInfo a, [])) E a"

definition stopDtmfResponse :: answer_fun where
  "stopDtmfResponse E M a = respond ''stopDtmfResponse'' (Some (populateResponseInfo a, [])) E a"

definition getBasebandVersionResponse :: answer_fun where
  "getBasebandVersionResponse E M a =
     respond ''getBasebandVersionResponse'' (do { s \<leftarrow> convertCharPtrToHidlString M (response a); Some (populateResponseInfo a, [s]) }) E a"

definition separateConnectionResponse :: answer_fun where
  "separateConnectionResponse E M a = respond ''separateConnectionResponse'' (Some (populateResponseInfo a, [])) E a"

definition setMuteResponse :: answer_fun where
  "setMuteResponse E M a = respond ''setMuteResponse'' (Some (populateResponseInfo a, [])) E a"

definition getMuteResponse :: answer_fun where
  "getMuteResponse E M a = respond ''getMuteResponse''
     (checked a (response a = 0 \<or> responseLen a mod 4 \<noteq> 0) [HB False]
       (do { n \<leftarrow> int_elem M (response a) 0; Some [HB (n = 1)] })) E a"

definition getClipResponse :: answer_fun where
  "getClipResponse E M a =
     respond ''getClipResponse'' (map_option (\<lambda>(i, v). (i, [HI v])) (responseInt M a)) E a"

definition getDataCallListResponse :: answer_fun where
  "getDataCallListResponse E M a = respond ''getDataCallListResponse''
     (checked a ((response a = 0 \<and> responseLen a \<noteq> 0) \<or> no_data_call_size (responseLen a)) [HV []]
       (do { v \<leftarrow> convertRilDataCallListToHal M (response a) (responseLen a); Some [v] })) E a"

definition setSuppServiceNotificationsResponse :: answer_fun where
  "setSuppServiceNotificationsResponse E M a =
     respond ''setSuppServiceNotificationsResponse'' (Some (populateResponseInfo a, [])) E a"

definition deleteSmsOnSimResponse :: answer_fun where
  "deleteSmsOnSimResponse E M a = respond ''deleteSmsOnSimResponse'' (Some (populateResponseInfo a, [])) E a"

definition setBandModeResponse :: answer_fun where
  "setBandModeResponse E M a = respond ''setBandModeResponse'' (Some (populateResponseInfo a, [])) E a"

definition writeSmsToSimResponse :: answer_fun where
  "writeSmsToSimResponse E M a =
     respond ''writeSmsToSimResponse'' (map_option (\<lambda>(i, v). (i, [HI v])) (responseInt M a)) E a"

definition getAvailableBandModesResponse :: answer_fun where
  "getAvailableBandModesResponse E M a = respond ''getAvailableBandModesResponse''
     (checked a (bad_list a 4) [HV []]
       (do { vs \<leftarrow> mapM (int_elem M (response a)) [0..<responseLen a div 4]; Some [HV (map HI vs)] })) E a"

definition sendEnvelopeResponse :: answer_fun where
  "sendEnvelopeResponse E M a =
     respond ''sendEnvelopeResponse'' (do { s \<leftarrow> convertCharPtrToHidlString M (response a); Some (populateResponseInfo a, [s]) }) E a"

definition sendTerminalResponseToSimResponse :: answer_fun where
  "sendTerminalResponseToSimResponse E M a =
     respond ''sendTerminalResponseToSimResponse'' (Some (populateResponseInfo a, [])) E a"

definition handleStkCallSetupRequestFromSimResponse :: answer_fun where
  "handleStkCallSetupRequestFromSimResponse E M a =
     respond ''handleStkCallSetupRequestFromSimResponse'' (Some (populateResponseInfo a, [])) E a"

definition explicitCallTransferResponse :: answer_fun where
  "explicitCallTransferResponse E M a =
     respond ''explicitCallTransferResponse'' (Some (populateResponseInfo a, [])) E a"

definition setPreferredNetworkTypeResponse :: answer_fun where
  "setPreferredNetworkTypeResponse E M a =
     respond ''setPreferredNetworkTypeResponse'' (Some (populateResponseInfo a, [])) E a"

definition getPreferredNetworkTypeResponse :: answer_fun where
  "getPreferredNetworkTypeResponse E M a =
     respond ''getPreferredNetworkTypeResponse'' (map_option (\<lambda>(i, v). (i, [HI v])) (responseInt M a)) E a"

definition neighboringCell_fields :: "(string \<times> source) list" where
  "neighboringCell_fields = [(''cid'', Str_of [''cid'']), (''rssi'', Int_of [''rssi''])]"

definition getNeighboringCidsResponse :: answer_fun where
  "getNeighboringCidsResponse E M a = respond ''getNeighboringCidsResponse''
     (checked a (bad_list a 4) [HV []] (do { v \<leftarrow> pointed_structs M (response a) (responseLen a div 4)
          (\<lambda>p. struct_of M RIL_NeighboringCell p neighboringCell_fields); Some [v] })) E a"

definition setLocationUpdatesResponse :: answer_fun where
  "setLocationUpdatesResponse E M a = respond ''setLocationUpdatesResponse'' (Some (populateResponseInfo a, [])) E a"

definition setCdmaSubscriptionSourceResponse :: answer_fun where
  "setCdmaSubscriptionSourceResponse E M a =
     respond ''setCdmaSubscriptionSourceResponse'' (Some (populateResponseInfo a, [])) E a"

definition setCdmaRoamingPreferenceResponse :: answer_fun where
  "setCdmaRoamingPreferenceResponse E M a =
     respond ''setCdmaRoamingPreferenceResponse'' (Some (populateResponseInfo a, [])) E a"

definition getCdmaRoamingPreferenceResponse :: answer_fun where
  "getCdmaRoamingPreferenceResponse E M a =
     respond ''getCdmaRoamingPreferenceResponse'' (map_option (\<lambda>(i, v). (i, [HI v])) (responseInt M a)) E a"

definition setTTYModeResponse :: answer_fun where
  "setTTYModeResponse E M a = respond ''setTTYModeResponse'' (Some (populateResponseInfo a, [])) E a"

definition getTTYModeResponse :: answer_fun where
  "getTTYModeResponse E M a =
     respond ''getTTYModeResponse'' (map_option (\<lambda>(i, v). (i, [HI v])) (responseInt M a)) E a"

definition setPreferredVoicePrivacyResponse :: answer_fun where
  "setPreferredVoicePrivacyResponse E M a =
     respond ''setPreferredVoicePrivacyResponse'' (Some (populateResponseInfo a, [])) E a"

definition getPreferredVoicePrivacyResponse :: answer_fun where
  "getPreferredVoicePrivacyResponse E M a = respond ''getPreferredVoicePrivacyResponse''
     (checked a (response a = 0 \<or> responseLen a div 4 < 1) [HB False]
       (do { n \<leftarrow> int_elem M (response a) 0; Some [HB (n = 1)] })) E a"

definition sendCDMAFeatureCodeResponse :: answer_fun where
  "sendCDMAFeatureCodeResponse E M a =
     respond ''sendCDMAFeatureCodeResponse'' (Some (populateResponseInfo a, [])) E a"

definition sendBurstDtmfResponse :: answer_fun where
  "sendBurstDtmfResponse E M a = respond ''sendBurstDtmfResponse'' (Some (populateResponseInfo a, [])) E a"

definition sendCdmaSmsResponse :: answer_fun where
  "sendCdmaSmsResponse E M a = respond ''sendCdmaSmsResponse'' (makeSendSmsResult M a) E a"

definition acknowledgeLastIncomingCdmaSmsResponse :: answer_fun where
  "acknowledgeLastIncomingCdmaSmsResponse E M a =
     respond ''acknowledgeLastIncomingCdmaSmsResponse'' (Some (populateResponseInfo a, [])) E a"

definition gsmConfig_fields :: "(string \<times> source) list" where
  "gsmConfig_fields = [(''fromServiceId'', Int_of [''fromServiceId'']), (''toServiceId'', Int_of [''toServiceId'']),
     (''fromCodeScheme'', Int_of [''fromCodeScheme'']), (''toCodeScheme'', Int_of [''toCodeScheme'']), (''selected'', Is1_of [''selected''])]"

definition getGsmBroadcastConfigResponse :: answer_fun where
  "getGsmBroadcastConfigResponse E M a = respond ''getGsmBroadcastConfigResponse''
     (checked a (bad_list a 4) [HV []] (do { v \<leftarrow> pointed_structs M (response a) (responseLen a div 4)
          (\<lambda>p. struct_of M RIL_GSM_BroadcastSmsConfigInfo p gsmConfig_fields); Some [v] })) E a"

definition setGsmBroadcastConfigResponse :: answer_fun where
  "setGsmBroadcastConfigResponse E M a =
     respond ''setGsmBroadcastConfigResponse'' (Some (populateResponseInfo a, [])) E a"

definition setGsmBroadcastActivationResponse :: answer_fun where
  "setGsmBroadcastActivationResponse E M a =
     respond ''setGsmBroadcastActivationResponse'' (Some (populateResponseInfo a, [])) E a"

definition cdmaConfig_fields :: "(string \<times> source) list" where
  "cdmaConfig_fields = [(''serviceCategory'', Int_of [''service_category'']), (''language'', Int_of [''language'']),
     (''selected'', Is1_of [''selected''])]"

definition getCdmaBroadcastConfigResponse :: answer_fun where
  "getCdmaBroadcastConfigResponse E M a = respond ''getCdmaBroadcastConfigResponse''
     (checked a (bad_list a 4) [HV []] (do { v \<leftarrow> pointed_structs M (response a) (responseLen a div 4)
          (\<lambda>p. struct_of M RIL_CDMA_BroadcastSmsConfigInfo p cdmaConfig_fields); Some [v] })) E a"

definition setCdmaBroadcastConfigResponse :: answer_fun where
  "setCdmaBroadcastConfigResponse E M a =
     respond ''setCdmaBroadcastConfigResponse'' (Some (populateResponseInfo a, [])) E a"

definition setCdmaBroadcastActivationResponse :: answer_fun where
  "setCdmaBroadcastActivationResponse E M a =
     respond ''setCdmaBroadcastActivationResponse'' (Some (populateResponseInfo a, [])) E a"

definition getCDMASubscriptionResponse :: answer_fun where
  "getCDMASubscriptionResponse E M a = respond ''getCDMASubscriptionResponse''
     (checked a (response a = 0 \<or> responseLen a div 4 < 5) [HS [], HS [], HS [], HS [], HS []]
       (mapM (string_elem M (response a)) [0, 1, 2, 3, 4])) E a"

definition writeSmsToRuimResponse :: answer_fun where
  "writeSmsToRuimResponse E M a =
     respond ''writeSmsToRuimResponse'' (map_option (\<lambda>(i, v). (i, [HI v])) (responseInt M a)) E a"

definition deleteSmsOnRuimResponse :: answer_fun where
  "deleteSmsOnRuimResponse E M a = respond ''deleteSmsOnRuimResponse'' (Some (populateResponseInfo a, [])) E a"

definition getDeviceIdentityResponse :: answer_fun where
  "getDeviceIdentityResponse E M a = respond ''getDeviceIdentityResponse''
     (checked a (response a = 0 \<or> responseLen a div 4 < 4) [HS [], HS [], HS [], HS []]
       (mapM (string_elem M (response a)) [0, 1, 2, 3])) E a"

definition exitEmergencyCallbackModeResponse :: answer_fun where
  "exitEmergencyCallbackModeResponse E M a =
     respond ''exitEmergencyCallbackModeResponse'' (Some (populateResponseInfo a, [])) E a"

definition getSmscAddressResponse :: answer_fun where
  "getSmscAddressResponse E M a =
     respond ''getSmscAddressResponse'' (do { s \<leftarrow> convertCharPtrToHidlString M (response a); Some (populateResponseInfo a, [s]) }) E a"

definition setSmscAddressResponse :: answer_fun where
  "setSmscAddressResponse E M a = respond ''setSmscAddressResponse'' (Some (populateResponseInfo a, [])) E a"

definition reportSmsMemoryStatusResponse :: answer_fun where
  "reportSmsMemoryStatusResponse E M a =
     respond ''reportSmsMemoryStatusResponse'' (Some (populateResponseInfo a, [])) E a"

definition reportStkServiceIsRunningResponse :: answer_fun where
  "reportStkServiceIsRunningResponse E M a =
     respond ''reportStkServiceIsRunningResponse'' (Some (populateResponseInfo a, [])) E a"

definition getCdmaSubscriptionSourceResponse :: answer_fun where
  "getCdmaSubscriptionSourceResponse E M a =
     respond ''getCdmaSubscriptionSourceResponse'' (map_option (\<lambda>(i, v). (i, [HI v])) (responseInt M a)) E a"

definition requestIsimAuthenticationResponse :: answer_fun where
  "requestIsimAuthenticationResponse E M a =
     respond ''requestIsimAuthenticationResponse'' (do { s \<leftarrow> convertCharPtrToHidlString M (response a); Some (populateResponseInfo a, [s]) }) E a"

definition acknowledgeIncomingGsmSmsWithPduResponse :: answer_fun where
  "acknowledgeIncomingGsmSmsWithPduResponse E M a =
     respond ''acknowledgeIncomingGsmSmsWithPduResponse'' (Some (populateResponseInfo a, [])) E a"

definition sendEnvelopeWithStatusResponse :: answer_fun where
  "sendEnvelopeWithStatusResponse E M a = respond ''sendEnvelopeWithStatusResponse'' (responseIccIo M a) E a"

definition getVoiceRadioTechnologyResponse :: answer_fun where
  "getVoiceRadioTechnologyResponse E M a =
     respond ''getVoiceRadioTechnologyResponse'' (map_option (\<lambda>(i, v). (i, [HI v])) (responseInt M a)) E a"

text \<open>The part of a cell that depends on its type: identity and signal strength.\<close>

definition ci :: "string \<Rightarrow> string \<Rightarrow> string \<Rightarrow> string list" where
  "ci c s f = [''CellInfo'', c, s, f]"

definition gsm_cell_fields :: "(string \<times> source) list \<times> (string \<times> source) list" where
  "gsm_cell_fields = (
     [(''mcc'', Dec_of (ci ''gsm'' ''cellIdentityGsm'' ''mcc'')), (''mnc'', Dec_of (ci ''gsm'' ''cellIdentityGsm'' ''mnc'')),
      (''lac'', Int_of (ci ''gsm'' ''cellIdentityGsm'' ''lac'')), (''cid'', Int_of (ci ''gsm'' ''cellIdentityGsm'' ''cid'')),
      (''arfcn'', Int_of (ci ''gsm'' ''cellIdentityGsm'' ''arfcn'')), (''bsic'', Int_of (ci ''gsm'' ''cellIdentityGsm'' ''bsic''))],
     [(''signalStrength'', Int_of (ci ''gsm'' ''signalStrengthGsm'' ''signalStrength'')),
      (''bitErrorRate'', Int_of (ci ''gsm'' ''signalStrengthGsm'' ''bitErrorRate'')),
      (''timingAdvance'', Int_of (ci ''gsm'' ''signalStrengthGsm'' ''timingAdvance''))])"

definition wcdma_cell_fields :: "(string \<times> source) list \<times> (string \<times> source) list" where
  "wcdma_cell_fields = (
     [(''mcc'', Dec_of (ci ''wcdma'' ''cellIdentityWcdma'' ''mcc'')), (''mnc'', Dec_of (ci ''wcdma'' ''cellIdentityWcdma'' ''mnc'')),
      (''lac'', Int_of (ci ''wcdma'' ''cellIdentityWcdma'' ''lac'')), (''cid'', Int_of (ci ''wcdma'' ''cellIdentityWcdma'' ''cid'')),
      (''psc'', Int_of (ci ''wcdma'' ''cellIdentityWcdma'' ''psc'')), (''uarfcn'', Int_of (ci ''wcdma'' ''cellIdentityWcdma'' ''uarfcn''))],
     [(''signalStrength'', Int_of (ci ''wcdma'' ''signalStrengthWcdma'' ''signalStrength'')),
      (''bitErrorRate'', Int_of (ci ''wcdma'' ''signalStrengthWcdma'' ''bitErrorRate''))])"

definition cdma_cell_fields :: "(string \<times> source) list \<times> (string \<times> source) list \<times> (string \<times> source) list" where
  "cdma_cell_fields = (
     [(''networkId'', Int_of (ci ''cdma'' ''cellIdentityCdma'' ''networkId'')), (''systemId'', Int_of (ci ''cdma'' ''cellIdentityCdma'' ''systemId'')),
      (''baseStationId'', Int_of (ci ''cdma'' ''cellIdentityCdma'' ''basestationId'')),
      (''longitude'', Int_of (ci ''cdma'' ''cellIdentityCdma'' ''longitude'')), (''latitude'', Int_of (ci ''cdma'' ''cellIdentityCdma'' ''latitude''))],
     [(''dbm'', Int_of (ci ''cdma'' ''signalStrengthCdma'' ''dbm'')), (''ecio'', Int_of (ci ''cdma'' ''signalStrengthCdma'' ''ecio''))],
     [(''dbm'', Int_of (ci ''cdma'' ''signalStrengthEvdo'' ''dbm'')), (''ecio'', Int_of (ci ''cdma'' ''signalStrengthEvdo'' ''ecio'')),
      (''signalNoiseRatio'', Int_of (ci ''cdma'' ''signalStrengthEvdo'' ''signalNoiseRatio''))])"

definition lte_cell_fields :: "(string \<times> source) list \<times> (string \<times> source) list" where
  "lte_cell_fields = (
     [(''mcc'', Dec_of (ci ''lte'' ''cellIdentityLte'' ''mcc'')), (''mnc'', Dec_of (ci ''lte'' ''cellIdentityLte'' ''mnc'')),
      (''ci'', Int_of (ci ''lte'' ''cellIdentityLte'' ''ci'')), (''pci'', Int_of (ci ''lte'' ''cellIdentityLte'' ''pci'')),
      (''tac'', Int_of (ci ''lte'' ''cellIdentityLte'' ''tac'')), (''earfcn'', Int_of (ci ''lte'' ''cellIdentityLte'' ''earfcn''))],
     [(''signalStrength'', Int_of (ci ''lte'' ''signalStrengthLte'' ''signalStrength'')), (''rsrp'', Int_of (ci ''lte'' ''signalStrengthLte'' ''rsrp'')),
      (''rsrq'', Int_of (ci ''lte'' ''signalStrengthLte'' ''rsrq'')), (''rssnr'', Int_of (ci ''lte'' ''signalStrengthLte'' ''rssnr'')),
      (''cqi'', Int_of (ci ''lte'' ''signalStrengthLte'' ''cqi'')), (''timingAdvance'', Int_of (ci ''lte'' ''signalStrengthLte'' ''timingAdvance''))])"

definition tdscdma_cell_fields :: "(string \<times> source) list \<times> (string \<times> source) list" where
  "tdscdma_cell_fields = (
     [(''mcc'', Dec_of (ci ''tdscdma'' ''cellIdentityTdscdma'' ''mcc'')), (''mnc'', Dec_of (ci ''tdscdma'' ''cellIdentityTdscdma'' ''mnc'')),
      (''lac'', Int_of (ci ''tdscdma'' ''cellIdentityTdscdma'' ''lac'')), (''cid'', Int_of (ci ''tdscdma'' ''cellIdentityTdscdma'' ''cid'')),
      (''cpid'', Int_of (ci ''tdscdma'' ''cellIdentityTdscdma'' ''cpid''))],
     [(''rscp'', Int_of (ci ''tdscdma'' ''signalStrengthTdscdma'' ''rscp''))])"

definition cell_part :: "vmem \<Rightarrow> nat \<Rightarrow> string \<Rightarrow> string \<Rightarrow> (string \<times> source) list \<times> (string \<times> source) list \<Rightarrow> hval option" where
  "cell_part M p ident signal fs = do { i \<leftarrow> struct_of M RIL_CellInfo_v12 p (fst fs); s \<leftarrow> struct_of M RIL_CellInfo_v12 p (snd fs);
     Some (HR [(ident, i), (signal, s)]) }"

definition cell_info :: "(string \<times> hval) list \<Rightarrow> hval list \<Rightarrow> hval list \<Rightarrow> hval list \<Rightarrow> hval list \<Rightarrow> hval list \<Rightarrow> hval" where
  "cell_info fs g c l w td = HR (fs @ [(''gsm'', HV g), (''cdma'', HV c), (''lte'', HV l), (''wcdma'', HV w), (''tdscdma'', HV td)])"

definition cellInfo_fields :: "(string \<times> source) list" where
  "cellInfo_fields = [(''cellInfoType'', Int_of [''cellInfoType'']), (''registered'', Int_of [''registered'']),
     (''timeStampType'', Int_of [''timeStampType'']), (''timeStamp'', Int_of [''timeStamp''])]"

definition cellInfo_at :: "vmem \<Rightarrow> nat \<Rightarrow> hval option" where
  "cellInfo_at M p = do { fs \<leftarrow> fields_of M RIL_CellInfo_v12 p cellInfo_fields; t \<leftarrow> fld M RIL_CellInfo_v12 p [''cellInfoType''];
     if t = 1 then do { x \<leftarrow> cell_part M p ''cellIdentityGsm'' ''signalStrengthGsm'' gsm_cell_fields; Some (cell_info fs [x] [] [] [] []) }
     else if t = 4 then do { x \<leftarrow> cell_part M p ''cellIdentityWcdma'' ''signalStrengthWcdma'' wcdma_cell_fields; Some (cell_info fs [] [] [] [x] []) }
     else if t = 2 then do { i \<leftarrow> struct_of M RIL_CellInfo_v12 p (fst cdma_cell_fields);
       c \<leftarrow> struct_of M RIL_CellInfo_v12 p (fst (snd cdma_cell_fields)); e \<leftarrow> struct_of M RIL_CellInfo_v12 p (snd (snd cdma_cell_fields));
       Some (cell_info fs [] [HR [(''cellIdentityCdma'', i), (''signalStrengthCdma'', c), (''signalStrengthEvdo'', e)]] [] [] []) }
     else if t = 3 then do { x \<leftarrow> cell_part M p ''cellIdentityLte'' ''signalStrengthLte'' lte_cell_fields; Some (cell_info fs [] [] [x] [] []) }
     else if t = 5 then do { x \<leftarrow> cell_part M p ''cellIdentityTdscdma'' ''signalStrengthTdscdma'' tdscdma_cell_fields; Some (cell_info fs [] [] [] [] [x]) }
     else Some (cell_info fs [] [] [] [] []) }"

definition convertRilCellInfoListToHal :: "vmem \<Rightarrow> nat \<Rightarrow> nat \<Rightarrow> hval option" where
  "convertRilCellInfoListToHal M p len = structs_at M RIL_CellInfo_v12 p (len div sizeof RIL_CellInfo_v12) (cellInfo_at M)"

definition getCellInfoListResponse :: answer_fun where
  "getCellInfoListResponse E M a = respond ''getCellInfoListResponse''
     (checked a (bad_list a (sizeof RIL_CellInfo_v12)) [HV []]
       (do { v \<leftarrow> convertRilCellInfoListToHal M (response a) (responseLen a); Some [v] })) E a"

definition setCellInfoListRateResponse :: answer_fun where
  "setCellInfoListRateResponse E M a =
     respond ''setCellInfoListRateResponse'' (Some (populateResponseInfo a, [])) E a"

definition setInitialAttachApnResponse :: answer_fun where
  "setInitialAttachApnResponse E M a =
     respond ''setInitialAttachApnResponse'' (Some (populateResponseInfo a, [])) E a"

definition getImsRegistrationStateResponse :: answer_fun where
  "getImsRegistrationStateResponse E M a = respond ''getImsRegistrationStateResponse''
     (checked a (response a = 0 \<or> responseLen a div 4 < 2) [HB False, HI 0]
       (do { n \<leftarrow> int_elem M (response a) 0; m \<leftarrow> int_elem M (response a) 1; Some [HB (n = 1), HI m] })) E a"

definition sendImsSmsResponse :: answer_fun where
  "sendImsSmsResponse E M a = respond ''sendImsSmsResponse'' (makeSendSmsResult M a) E a"

definition iccTransmitApduBasicChannelResponse :: answer_fun where
  "iccTransmitApduBasicChannelResponse E M a =
     respond ''iccTransmitApduBasicChannelResponse'' (responseIccIo M a) E a"

text \<open>The first integer is the channel, the others are cut to bytes. A missing response is no error; a
  vector of a negative size cannot be made.\<close>

definition to_int8 :: "int \<Rightarrow> int" where
  "to_int8 v = (v + 128) mod 256 - 128"

definition iccOpenLogicalChannelResponse :: answer_fun where
  "iccOpenLogicalChannelResponse E M a = respond ''iccOpenLogicalChannelResponse''
     (let p = response a; n = responseLen a div 4 in
      if p = 0 then Some (populateResponseInfo a, [HI (-1), HV []])
      else if responseLen a mod 4 \<noteq> 0 then Some (invalid_response a, [HI (-1), HV []])
      else do { c \<leftarrow> int_elem M p 0; _ \<leftarrow> vec_size (int n - 1); vs \<leftarrow> mapM (int_elem M p) [1..<n];
        Some (populateResponseInfo a, [HI c, HV (map (\<lambda>v. HI (to_int8 v)) vs)]) }) E a"

definition iccCloseLogicalChannelResponse :: answer_fun where
  "iccCloseLogicalChannelResponse E M a =
     respond ''iccCloseLogicalChannelResponse'' (Some (populateResponseInfo a, [])) E a"

definition iccTransmitApduLogicalChannelResponse :: answer_fun where
  "iccTransmitApduLogicalChannelResponse E M a =
     respond ''iccTransmitApduLogicalChannelResponse'' (responseIccIo M a) E a"

definition nvReadItemResponse :: answer_fun where
  "nvReadItemResponse E M a =
     respond ''nvReadItemResponse'' (do { s \<leftarrow> convertCharPtrToHidlString M (response a); Some (populateResponseInfo a, [s]) }) E a"

definition nvWriteItemResponse :: answer_fun where
  "nvWriteItemResponse E M a = respond ''nvWriteItemResponse'' (Some (populateResponseInfo a, [])) E a"

definition nvWriteCdmaPrlResponse :: answer_fun where
  "nvWriteCdmaPrlResponse E M a = respond ''nvWriteCdmaPrlResponse'' (Some (populateResponseInfo a, [])) E a"

definition nvResetConfigResponse :: answer_fun where
  "nvResetConfigResponse E M a = respond ''nvResetConfigResponse'' (Some (populateResponseInfo a, [])) E a"

definition setUiccSubscriptionResponse :: answer_fun where
  "setUiccSubscriptionResponse E M a =
     respond ''setUiccSubscriptionResponse'' (Some (populateResponseInfo a, [])) E a"

definition setDataAllowedResponse :: answer_fun where
  "setDataAllowedResponse E M a = respond ''setDataAllowedResponse'' (Some (populateResponseInfo a, [])) E a"

definition hardwareConfig_at :: "vmem \<Rightarrow> nat \<Rightarrow> hval option" where
  "hardwareConfig_at M p = do {
     fs \<leftarrow> fields_of M RIL_HardwareConfig p [(''type'', Int_of [''type'']), (''uuid'', Buf_of [''uuid'']), (''state'', Int_of [''state''])];
     t \<leftarrow> fld M RIL_HardwareConfig p [''type''];
     if t = 0 then do { m \<leftarrow> struct_of M RIL_HardwareConfig p [(''rat'', Int_of [''cfg'', ''modem'', ''rat'']),
         (''maxVoice'', Int_of [''cfg'', ''modem'', ''maxVoice'']), (''maxData'', Int_of [''cfg'', ''modem'', ''maxData'']),
         (''maxStandby'', Int_of [''cfg'', ''modem'', ''maxStandby''])];
       Some (HR (fs @ [(''modem'', HV [m]), (''sim'', HV [])])) }
     else if t = 1 then do { u \<leftarrow> struct_of M RIL_HardwareConfig p [(''modemUuid'', Buf_of [''cfg'', ''sim'', ''modemUuid''])];
       Some (HR (fs @ [(''modem'', HV []), (''sim'', HV [u])])) }
     else Some (HR (fs @ [(''modem'', HV []), (''sim'', HV [])])) }"

definition convertRilHardwareConfigListToHal :: "vmem \<Rightarrow> nat \<Rightarrow> nat \<Rightarrow> hval option" where
  "convertRilHardwareConfigListToHal M p len = structs_at M RIL_HardwareConfig p (len div sizeof RIL_HardwareConfig) (hardwareConfig_at M)"

definition getHardwareConfigResponse :: answer_fun where
  "getHardwareConfigResponse E M a = respond ''getHardwareConfigResponse''
     (checked a (bad_list a (sizeof RIL_HardwareConfig)) [HV []]
       (do { v \<leftarrow> convertRilHardwareConfigListToHal M (response a) (responseLen a); Some [v] })) E a"

definition requestIccSimAuthenticationResponse :: answer_fun where
  "requestIccSimAuthenticationResponse E M a =
     respond ''requestIccSimAuthenticationResponse'' (responseIccIo M a) E a"

definition setDataProfileResponse :: answer_fun where
  "setDataProfileResponse E M a = respond ''setDataProfileResponse'' (Some (populateResponseInfo a, [])) E a"

definition requestShutdownResponse :: answer_fun where
  "requestShutdownResponse E M a = respond ''requestShutdownResponse'' (Some (populateResponseInfo a, [])) E a"

definition capability_fields :: "(string \<times> source) list" where
  "capability_fields = [(''session'', Int_of [''session'']), (''phase'', Int_of [''phase'']), (''raf'', Int_of [''rat'']),
     (''logicalModemUuid'', Buf_of [''logicalModemUuid'']), (''status'', Int_of [''status''])]"

definition convertRilRadioCapabilityToHal :: "vmem \<Rightarrow> nat \<Rightarrow> hval option" where
  "convertRilRadioCapabilityToHal M p = struct_of M RIL_RadioCapability p capability_fields"

definition responseRadioCapability :: "vmem \<Rightarrow> vendor_answer \<Rightarrow> (RadioResponseInfo \<times> hval list) option" where
  "responseRadioCapability M a = checked a (bad_struct a RIL_RadioCapability) [zero_of capability_fields]
     (do { r \<leftarrow> convertRilRadioCapabilityToHal M (response a); Some [r] })"

definition getRadioCapabilityResponse :: answer_fun where
  "getRadioCapabilityResponse E M a = respond ''getRadioCapabilityResponse'' (responseRadioCapability M a) E a"

definition setRadioCapabilityResponse :: answer_fun where
  "setRadioCapabilityResponse E M a = respond ''setRadioCapabilityResponse'' (responseRadioCapability M a) E a"

definition responseLceStatusInfo :: "vmem \<Rightarrow> vendor_answer \<Rightarrow> (RadioResponseInfo \<times> hval list) option" where
  "responseLceStatusInfo M a = checked a (bad_struct a RIL_LceStatusInfo) [HR [(''lceStatus'', HI 0), (''actualIntervalMs'', HI 0)]]
     (do { s \<leftarrow> fld M RIL_LceStatusInfo (response a) [''lce_status''];
       i \<leftarrow> fld M RIL_LceStatusInfo (response a) [''actual_interval_ms''];
       Some [HR [(''lceStatus'', HI s), (''actualIntervalMs'', HI (i mod 256))]] })"

definition startLceServiceResponse :: answer_fun where
  "startLceServiceResponse E M a = respond ''startLceServiceResponse'' (responseLceStatusInfo M a) E a"

definition stopLceServiceResponse :: answer_fun where
  "stopLceServiceResponse E M a = respond ''stopLceServiceResponse'' (responseLceStatusInfo M a) E a"

definition lceData_fields :: "(string \<times> source) list" where
  "lceData_fields = [(''lastHopCapacityKbps'', Int_of [''last_hop_capacity_kbps'']), (''confidenceLevel'', Int_of [''confidence_level'']),
     (''lceSuspended'', Int_of [''lce_suspended''])]"

definition convertRilLceDataInfoToHal :: "vmem \<Rightarrow> nat \<Rightarrow> hval option" where
  "convertRilLceDataInfoToHal M p = struct_of M RIL_LceDataInfo p lceData_fields"

definition pullLceDataResponse :: answer_fun where
  "pullLceDataResponse E M a = respond ''pullLceDataResponse''
     (checked a (bad_struct a RIL_LceDataInfo) [zero_of lceData_fields]
       (do { v \<leftarrow> convertRilLceDataInfoToHal M (response a); Some [v] })) E a"

text \<open>When the response is bad, the structure is sent without having been given a value.\<close>

definition getModemActivityInfoResponse :: answer_fun where
  "getModemActivityInfoResponse E M a = respond ''getModemActivityInfoResponse''
     (let p = response a in
      checked a (bad_struct a RIL_ActivityStatsInfo) [uninitialised E]
       (do { s \<leftarrow> fld M RIL_ActivityStatsInfo p [''sleep_mode_time_ms'']; i \<leftarrow> fld M RIL_ActivityStatsInfo p [''idle_mode_time_ms''];
         tx \<leftarrow> mapM (\<lambda>k. load M (elem CU (addr_of RIL_ActivityStatsInfo p [''tx_mode_time_ms'']) k) CU) [0..<5];
         r \<leftarrow> fld M RIL_ActivityStatsInfo p [''rx_mode_time_ms''];
         Some [HR [(''sleepModeTimeMs'', HI s), (''idleModeTimeMs'', HI i), (''txmModetimeMs'', HV (map HI tx)), (''rxModeTimeMs'', HI r)]] })) E a"

definition setAllowedCarriersResponse :: answer_fun where
  "setAllowedCarriersResponse E M a =
     respond ''setAllowedCarriersResponse'' (map_option (\<lambda>(i, v). (i, [HI v])) (responseInt M a)) E a"

definition carrier_fields :: "(string \<times> source) list" where
  "carrier_fields = [(''mcc'', Str_of [''mcc'']), (''mnc'', Str_of [''mnc'']), (''matchType'', Int_of [''match_type'']),
     (''matchData'', Str_of [''match_data''])]"

definition carriers_at :: "vmem \<Rightarrow> nat \<Rightarrow> int \<Rightarrow> hval option" where
  "carriers_at M p n = do { k \<leftarrow> vec_size n; structs_at M RIL_Carrier p k (\<lambda>q. struct_of M RIL_Carrier q carrier_fields) }"

definition getAllowedCarriersResponse :: answer_fun where
  "getAllowedCarriersResponse E M a = respond ''getAllowedCarriersResponse''
     (let p = response a; res = (\<lambda>al ex. HR [(''allowedCarriers'', al), (''excludedCarriers'', ex)]) in
      if p = 0 then Some (populateResponseInfo a, [HB True, res (HV []) (HV [])])
      else checked a (responseLen a \<noteq> sizeof RIL_CarrierRestrictions) [HB True, res (HV []) (HV [])]
        (do { n \<leftarrow> fld M RIL_CarrierRestrictions p [''len_allowed_carriers'']; m \<leftarrow> fld M RIL_CarrierRestrictions p [''len_excluded_carriers''];
          q \<leftarrow> ptr_fld M RIL_CarrierRestrictions p [''allowed_carriers'']; al \<leftarrow> carriers_at M q n;
          r \<leftarrow> ptr_fld M RIL_CarrierRestrictions p [''excluded_carriers'']; ex \<leftarrow> carriers_at M r m;
          Some [HB (\<not> (n > 0 \<or> m > 0)), res al ex] })) E a"

definition sendDeviceStateResponse :: answer_fun where
  "sendDeviceStateResponse E M a = respond ''sendDeviceStateResponse'' (Some (populateResponseInfo a, [])) E a"

definition setCarrierInfoForImsiEncryptionResponse :: answer_fun where
  "setCarrierInfoForImsiEncryptionResponse E M a =
     respond_V1_1 ''setCarrierInfoForImsiEncryptionResponse'' (Some (populateResponseInfo a, [])) E a"

definition setIndicationFilterResponse :: answer_fun where
  "setIndicationFilterResponse E M a =
     respond ''setIndicationFilterResponse'' (Some (populateResponseInfo a, [])) E a"

definition setSimCardPowerResponse :: answer_fun where
  "setSimCardPowerResponse E M a S =
     (if \<not> radioService S (slotId a) then None
      else if mRadioResponseV1_1 S (slotId a) \<noteq> None
      then respond_V1_1 ''setSimCardPowerResponse_1_1'' (Some (populateResponseInfo a, [])) E a S
      else respond ''setSimCardPowerResponse'' (Some (populateResponseInfo a, [])) E a S)"

definition startNetworkScanResponse :: answer_fun where
  "startNetworkScanResponse E M a = respond_V1_1 ''startNetworkScanResponse'' (Some (populateResponseInfo a, [])) E a"

definition stopNetworkScanResponse :: answer_fun where
  "stopNetworkScanResponse E M a = respond_V1_1 ''stopNetworkScanResponse'' (Some (populateResponseInfo a, [])) E a"

definition keepalive_fields :: "(string \<times> source) list" where
  "keepalive_fields = [(''sessionHandle'', Int_of [''sessionHandle'']), (''code'', Int_of [''code''])]"

definition convertRilKeepaliveStatusToHal :: "vmem \<Rightarrow> nat \<Rightarrow> hval option" where
  "convertRilKeepaliveStatusToHal M p = struct_of M RIL_KeepaliveStatus p keepalive_fields"

definition startKeepaliveResponse :: answer_fun where
  "startKeepaliveResponse E M a = respond_V1_1 ''startKeepaliveResponse''
     (checked a (response a = 0 \<or> responseLen a \<noteq> sizeof_KeepaliveStatus E) [zero_of keepalive_fields]
       (do { k \<leftarrow> convertRilKeepaliveStatusToHal M (response a); Some [k] })) E a"

definition stopKeepaliveResponse :: answer_fun where
  "stopKeepaliveResponse E M a = respond_V1_1 ''stopKeepaliveResponse'' (Some (populateResponseInfo a, [])) E a"

definition bytes_value :: "u8 list \<Rightarrow> hval" where
  "bytes_value bs = HV (map (\<lambda>b. HI (int (unat b))) bs)"

definition sendRequestRawResponse :: answer_fun where
  "sendRequestRawResponse E M a S =
     (if \<not> kOemHookEnabled E then Some S
      else respond_oem ''sendRequestRawResponse'' (checked a (response a = 0) [HV []]
        (do { bs \<leftarrow> bytes_at M (response a) (responseLen a); Some [bytes_value bs] })) E a S)"

definition sendRequestStringsResponse :: answer_fun where
  "sendRequestStringsResponse E M a S =
     (if \<not> kOemHookEnabled E then Some S
      else respond_oem ''sendRequestStringsResponse'' (checked a (bad_list a 4) [HV []]
        (do { vs \<leftarrow> mapM (string_elem M (response a)) [0..<responseLen a div 4]; Some [HV vs] })) E a S)"

section \<open>Table\<close>

definition answer_functions :: "(string \<times> answer_fun) list" where
  "answer_functions = [
     (''getIccCardStatusResponse'', getIccCardStatusResponse),
     (''supplyIccPinForAppResponse'', supplyIccPinForAppResponse),
     (''supplyIccPukForAppResponse'', supplyIccPukForAppResponse),
     (''supplyIccPin2ForAppResponse'', supplyIccPin2ForAppResponse),
     (''supplyIccPuk2ForAppResponse'', supplyIccPuk2ForAppResponse),
     (''changeIccPinForAppResponse'', changeIccPinForAppResponse),
     (''changeIccPin2ForAppResponse'', changeIccPin2ForAppResponse),
     (''supplyNetworkDepersonalizationResponse'', supplyNetworkDepersonalizationResponse),
     (''getCurrentCallsResponse'', getCurrentCallsResponse),
     (''dialResponse'', dialResponse),
     (''getIMSIForAppResponse'', getIMSIForAppResponse),
     (''hangupConnectionResponse'', hangupConnectionResponse),
     (''hangupWaitingOrBackgroundResponse'', hangupWaitingOrBackgroundResponse),
     (''hangupForegroundResumeBackgroundResponse'', hangupForegroundResumeBackgroundResponse),
     (''switchWaitingOrHoldingAndActiveResponse'', switchWaitingOrHoldingAndActiveResponse),
     (''conferenceResponse'', conferenceResponse),
     (''rejectCallResponse'', rejectCallResponse),
     (''getLastCallFailCauseResponse'', getLastCallFailCauseResponse),
     (''getSignalStrengthResponse'', getSignalStrengthResponse),
     (''getVoiceRegistrationStateResponse'', getVoiceRegistrationStateResponse),
     (''getDataRegistrationStateResponse'', getDataRegistrationStateResponse),
     (''getOperatorResponse'', getOperatorResponse),
     (''setRadioPowerResponse'', setRadioPowerResponse),
     (''sendDtmfResponse'', sendDtmfResponse),
     (''sendSmsResponse'', sendSmsResponse),
     (''sendSMSExpectMoreResponse'', sendSMSExpectMoreResponse),
     (''setupDataCallResponse'', setupDataCallResponse),
     (''iccIOForAppResponse'', iccIOForAppResponse),
     (''sendUssdResponse'', sendUssdResponse),
     (''cancelPendingUssdResponse'', cancelPendingUssdResponse),
     (''getClirResponse'', getClirResponse),
     (''setClirResponse'', setClirResponse),
     (''getCallForwardStatusResponse'', getCallForwardStatusResponse),
     (''setCallForwardResponse'', setCallForwardResponse),
     (''getCallWaitingResponse'', getCallWaitingResponse),
     (''setCallWaitingResponse'', setCallWaitingResponse),
     (''acknowledgeLastIncomingGsmSmsResponse'', acknowledgeLastIncomingGsmSmsResponse),
     (''acceptCallResponse'', acceptCallResponse),
     (''deactivateDataCallResponse'', deactivateDataCallResponse),
     (''getFacilityLockForAppResponse'', getFacilityLockForAppResponse),
     (''setFacilityLockForAppResponse'', setFacilityLockForAppResponse),
     (''setBarringPasswordResponse'', setBarringPasswordResponse),
     (''getNetworkSelectionModeResponse'', getNetworkSelectionModeResponse),
     (''setNetworkSelectionModeAutomaticResponse'', setNetworkSelectionModeAutomaticResponse),
     (''setNetworkSelectionModeManualResponse'', setNetworkSelectionModeManualResponse),
     (''getAvailableNetworksResponse'', getAvailableNetworksResponse),
     (''startDtmfResponse'', startDtmfResponse),
     (''stopDtmfResponse'', stopDtmfResponse),
     (''getBasebandVersionResponse'', getBasebandVersionResponse),
     (''separateConnectionResponse'', separateConnectionResponse),
     (''setMuteResponse'', setMuteResponse),
     (''getMuteResponse'', getMuteResponse),
     (''getClipResponse'', getClipResponse),
     (''getDataCallListResponse'', getDataCallListResponse),
     (''setSuppServiceNotificationsResponse'', setSuppServiceNotificationsResponse),
     (''deleteSmsOnSimResponse'', deleteSmsOnSimResponse),
     (''setBandModeResponse'', setBandModeResponse),
     (''writeSmsToSimResponse'', writeSmsToSimResponse),
     (''getAvailableBandModesResponse'', getAvailableBandModesResponse),
     (''sendEnvelopeResponse'', sendEnvelopeResponse),
     (''sendTerminalResponseToSimResponse'', sendTerminalResponseToSimResponse),
     (''handleStkCallSetupRequestFromSimResponse'', handleStkCallSetupRequestFromSimResponse),
     (''explicitCallTransferResponse'', explicitCallTransferResponse),
     (''setPreferredNetworkTypeResponse'', setPreferredNetworkTypeResponse),
     (''getPreferredNetworkTypeResponse'', getPreferredNetworkTypeResponse),
     (''getNeighboringCidsResponse'', getNeighboringCidsResponse),
     (''setLocationUpdatesResponse'', setLocationUpdatesResponse),
     (''setCdmaSubscriptionSourceResponse'', setCdmaSubscriptionSourceResponse),
     (''setCdmaRoamingPreferenceResponse'', setCdmaRoamingPreferenceResponse),
     (''getCdmaRoamingPreferenceResponse'', getCdmaRoamingPreferenceResponse),
     (''setTTYModeResponse'', setTTYModeResponse),
     (''getTTYModeResponse'', getTTYModeResponse),
     (''setPreferredVoicePrivacyResponse'', setPreferredVoicePrivacyResponse),
     (''getPreferredVoicePrivacyResponse'', getPreferredVoicePrivacyResponse),
     (''sendCDMAFeatureCodeResponse'', sendCDMAFeatureCodeResponse),
     (''sendBurstDtmfResponse'', sendBurstDtmfResponse),
     (''sendCdmaSmsResponse'', sendCdmaSmsResponse),
     (''acknowledgeLastIncomingCdmaSmsResponse'', acknowledgeLastIncomingCdmaSmsResponse),
     (''getGsmBroadcastConfigResponse'', getGsmBroadcastConfigResponse),
     (''setGsmBroadcastConfigResponse'', setGsmBroadcastConfigResponse),
     (''setGsmBroadcastActivationResponse'', setGsmBroadcastActivationResponse),
     (''getCdmaBroadcastConfigResponse'', getCdmaBroadcastConfigResponse),
     (''setCdmaBroadcastConfigResponse'', setCdmaBroadcastConfigResponse),
     (''setCdmaBroadcastActivationResponse'', setCdmaBroadcastActivationResponse),
     (''getCDMASubscriptionResponse'', getCDMASubscriptionResponse),
     (''writeSmsToRuimResponse'', writeSmsToRuimResponse),
     (''deleteSmsOnRuimResponse'', deleteSmsOnRuimResponse),
     (''getDeviceIdentityResponse'', getDeviceIdentityResponse),
     (''exitEmergencyCallbackModeResponse'', exitEmergencyCallbackModeResponse),
     (''getSmscAddressResponse'', getSmscAddressResponse),
     (''setSmscAddressResponse'', setSmscAddressResponse),
     (''reportSmsMemoryStatusResponse'', reportSmsMemoryStatusResponse),
     (''reportStkServiceIsRunningResponse'', reportStkServiceIsRunningResponse),
     (''getCdmaSubscriptionSourceResponse'', getCdmaSubscriptionSourceResponse),
     (''requestIsimAuthenticationResponse'', requestIsimAuthenticationResponse),
     (''acknowledgeIncomingGsmSmsWithPduResponse'', acknowledgeIncomingGsmSmsWithPduResponse),
     (''sendEnvelopeWithStatusResponse'', sendEnvelopeWithStatusResponse),
     (''getVoiceRadioTechnologyResponse'', getVoiceRadioTechnologyResponse),
     (''getCellInfoListResponse'', getCellInfoListResponse),
     (''setCellInfoListRateResponse'', setCellInfoListRateResponse),
     (''setInitialAttachApnResponse'', setInitialAttachApnResponse),
     (''getImsRegistrationStateResponse'', getImsRegistrationStateResponse),
     (''sendImsSmsResponse'', sendImsSmsResponse),
     (''iccTransmitApduBasicChannelResponse'', iccTransmitApduBasicChannelResponse),
     (''iccOpenLogicalChannelResponse'', iccOpenLogicalChannelResponse),
     (''iccCloseLogicalChannelResponse'', iccCloseLogicalChannelResponse),
     (''iccTransmitApduLogicalChannelResponse'', iccTransmitApduLogicalChannelResponse),
     (''nvReadItemResponse'', nvReadItemResponse),
     (''nvWriteItemResponse'', nvWriteItemResponse),
     (''nvWriteCdmaPrlResponse'', nvWriteCdmaPrlResponse),
     (''nvResetConfigResponse'', nvResetConfigResponse),
     (''setUiccSubscriptionResponse'', setUiccSubscriptionResponse),
     (''setDataAllowedResponse'', setDataAllowedResponse),
     (''getHardwareConfigResponse'', getHardwareConfigResponse),
     (''requestIccSimAuthenticationResponse'', requestIccSimAuthenticationResponse),
     (''setDataProfileResponse'', setDataProfileResponse),
     (''requestShutdownResponse'', requestShutdownResponse),
     (''getRadioCapabilityResponse'', getRadioCapabilityResponse),
     (''setRadioCapabilityResponse'', setRadioCapabilityResponse),
     (''startLceServiceResponse'', startLceServiceResponse),
     (''stopLceServiceResponse'', stopLceServiceResponse),
     (''pullLceDataResponse'', pullLceDataResponse),
     (''getModemActivityInfoResponse'', getModemActivityInfoResponse),
     (''setAllowedCarriersResponse'', setAllowedCarriersResponse),
     (''getAllowedCarriersResponse'', getAllowedCarriersResponse),
     (''sendDeviceStateResponse'', sendDeviceStateResponse),
     (''setCarrierInfoForImsiEncryptionResponse'', setCarrierInfoForImsiEncryptionResponse),
     (''setIndicationFilterResponse'', setIndicationFilterResponse),
     (''setSimCardPowerResponse'', setSimCardPowerResponse),
     (''startNetworkScanResponse'', startNetworkScanResponse),
     (''stopNetworkScanResponse'', stopNetworkScanResponse),
     (''startKeepaliveResponse'', startKeepaliveResponse),
     (''stopKeepaliveResponse'', stopKeepaliveResponse),
     (''sendRequestRawResponse'', sendRequestRawResponse),
     (''sendRequestStringsResponse'', sendRequestStringsResponse)]"

lemmas answer_defs = getIccCardStatusResponse_def
  supplyIccPinForAppResponse_def
  supplyIccPukForAppResponse_def
  supplyIccPin2ForAppResponse_def
  supplyIccPuk2ForAppResponse_def
  changeIccPinForAppResponse_def
  changeIccPin2ForAppResponse_def
  supplyNetworkDepersonalizationResponse_def
  getCurrentCallsResponse_def
  dialResponse_def
  getIMSIForAppResponse_def
  hangupConnectionResponse_def
  hangupWaitingOrBackgroundResponse_def
  hangupForegroundResumeBackgroundResponse_def
  switchWaitingOrHoldingAndActiveResponse_def
  conferenceResponse_def
  rejectCallResponse_def
  getLastCallFailCauseResponse_def
  getSignalStrengthResponse_def
  getVoiceRegistrationStateResponse_def
  getDataRegistrationStateResponse_def
  getOperatorResponse_def
  setRadioPowerResponse_def
  sendDtmfResponse_def
  sendSmsResponse_def
  sendSMSExpectMoreResponse_def
  setupDataCallResponse_def
  iccIOForAppResponse_def
  sendUssdResponse_def
  cancelPendingUssdResponse_def
  getClirResponse_def
  setClirResponse_def
  getCallForwardStatusResponse_def
  setCallForwardResponse_def
  getCallWaitingResponse_def
  setCallWaitingResponse_def
  acknowledgeLastIncomingGsmSmsResponse_def
  acceptCallResponse_def
  deactivateDataCallResponse_def
  getFacilityLockForAppResponse_def
  setFacilityLockForAppResponse_def
  setBarringPasswordResponse_def
  getNetworkSelectionModeResponse_def
  setNetworkSelectionModeAutomaticResponse_def
  setNetworkSelectionModeManualResponse_def
  getAvailableNetworksResponse_def
  startDtmfResponse_def
  stopDtmfResponse_def
  getBasebandVersionResponse_def
  separateConnectionResponse_def
  setMuteResponse_def
  getMuteResponse_def
  getClipResponse_def
  getDataCallListResponse_def
  setSuppServiceNotificationsResponse_def
  deleteSmsOnSimResponse_def
  setBandModeResponse_def
  writeSmsToSimResponse_def
  getAvailableBandModesResponse_def
  sendEnvelopeResponse_def
  sendTerminalResponseToSimResponse_def
  handleStkCallSetupRequestFromSimResponse_def
  explicitCallTransferResponse_def
  setPreferredNetworkTypeResponse_def
  getPreferredNetworkTypeResponse_def
  getNeighboringCidsResponse_def
  setLocationUpdatesResponse_def
  setCdmaSubscriptionSourceResponse_def
  setCdmaRoamingPreferenceResponse_def
  getCdmaRoamingPreferenceResponse_def
  setTTYModeResponse_def
  getTTYModeResponse_def
  setPreferredVoicePrivacyResponse_def
  getPreferredVoicePrivacyResponse_def
  sendCDMAFeatureCodeResponse_def
  sendBurstDtmfResponse_def
  sendCdmaSmsResponse_def
  acknowledgeLastIncomingCdmaSmsResponse_def
  getGsmBroadcastConfigResponse_def
  setGsmBroadcastConfigResponse_def
  setGsmBroadcastActivationResponse_def
  getCdmaBroadcastConfigResponse_def
  setCdmaBroadcastConfigResponse_def
  setCdmaBroadcastActivationResponse_def
  getCDMASubscriptionResponse_def
  writeSmsToRuimResponse_def
  deleteSmsOnRuimResponse_def
  getDeviceIdentityResponse_def
  exitEmergencyCallbackModeResponse_def
  getSmscAddressResponse_def
  setSmscAddressResponse_def
  reportSmsMemoryStatusResponse_def
  reportStkServiceIsRunningResponse_def
  getCdmaSubscriptionSourceResponse_def
  requestIsimAuthenticationResponse_def
  acknowledgeIncomingGsmSmsWithPduResponse_def
  sendEnvelopeWithStatusResponse_def
  getVoiceRadioTechnologyResponse_def
  getCellInfoListResponse_def
  setCellInfoListRateResponse_def
  setInitialAttachApnResponse_def
  getImsRegistrationStateResponse_def
  sendImsSmsResponse_def
  iccTransmitApduBasicChannelResponse_def
  iccOpenLogicalChannelResponse_def
  iccCloseLogicalChannelResponse_def
  iccTransmitApduLogicalChannelResponse_def
  nvReadItemResponse_def
  nvWriteItemResponse_def
  nvWriteCdmaPrlResponse_def
  nvResetConfigResponse_def
  setUiccSubscriptionResponse_def
  setDataAllowedResponse_def
  getHardwareConfigResponse_def
  requestIccSimAuthenticationResponse_def
  setDataProfileResponse_def
  requestShutdownResponse_def
  getRadioCapabilityResponse_def
  setRadioCapabilityResponse_def
  startLceServiceResponse_def
  stopLceServiceResponse_def
  pullLceDataResponse_def
  getModemActivityInfoResponse_def
  setAllowedCarriersResponse_def
  getAllowedCarriersResponse_def
  sendDeviceStateResponse_def
  setCarrierInfoForImsiEncryptionResponse_def
  setIndicationFilterResponse_def
  setSimCardPowerResponse_def
  startNetworkScanResponse_def
  stopNetworkScanResponse_def
  startKeepaliveResponse_def
  stopKeepaliveResponse_def
  sendRequestRawResponse_def
  sendRequestStringsResponse_def

end
