(* ===== verification/Ril_Answers_Correct.thy ===== *)
theory Ril_Answers_Correct
  imports Ril_Answers Ril_Callbacks
begin

text \<open>
  Properties of the answer functions: every answer carries the serial number of its request and the error
  of the vendor library, and reaches the client once.
\<close>

section \<open>Headers\<close>

definition good_info :: "vendor_answer \<Rightarrow> RadioResponseInfo \<Rightarrow> bool" where
  "good_info a i \<longleftrightarrow> info_serial i = serial a \<and> info_type i = info_type (populateResponseInfo a) \<and>
     (info_error i = Errno (errno a) \<or> errno a = 0 \<and> info_error i = INVALID_RESPONSE)"

lemma good_info_intros [simp]: "good_info a (populateResponseInfo a)" "good_info a (invalid_response a)"
  by (auto simp: good_info_def populateResponseInfo_def invalid_response_def)

definition well_header :: "vendor_answer \<Rightarrow> (RadioResponseInfo \<times> hval list) option \<Rightarrow> bool" where
  "well_header a r \<longleftrightarrow> (\<forall>i xs. r = Some (i, xs) \<longrightarrow> good_info a i)"

named_theorems headers "answers with the header of the request"

lemma header_none [headers]: "well_header a None"
  by (simp add: well_header_def)

lemma header_some [headers]: "well_header a (Some (populateResponseInfo a, xs))" "well_header a (Some (invalid_response a, xs))"
  "well_header a (Some (if b then populateResponseInfo a else invalid_response a, xs))"
  by (auto simp: well_header_def)

lemma header_bind [headers]: "(\<And>x. well_header a (f x)) \<Longrightarrow> well_header a (Option.bind m f)"
  by (cases m) (auto simp: well_header_def)

lemma header_if [headers]: "well_header a x \<Longrightarrow> well_header a y \<Longrightarrow> well_header a (if b then x else y)"
  by simp

lemma header_let [headers]: "well_header a (f v) \<Longrightarrow> well_header a (Let v f)"
  by (simp add: Let_def)

lemma header_checked [headers]: "well_header a (checked a bad d args)"
  by (auto simp: checked_def well_header_def)

lemma header_ints [headers]: "well_header a (map_option (\<lambda>(i, v). (i, [HI v])) (responseInt M a))"
  "well_header a (map_option (\<lambda>(i, v). (i, [HI v])) (responseIntOrEmpty M a))"
  by (auto simp: responseInt_def responseIntOrEmpty_def well_header_def)

lemma header_results [headers]: "well_header a (makeSendSmsResult M a)" "well_header a (responseIccIo M a)"
  "well_header a (responseRadioCapability M a)" "well_header a (responseLceStatusInfo M a)"
  unfolding makeSendSmsResult_def responseIccIo_def responseRadioCapability_def responseLceStatusInfo_def
  by (intro headers)+

section \<open>Delivery\<close>

text \<open>One answer through an object that is there, with the header of the request.\<close>

definition answered :: "string \<Rightarrow> vendor_answer \<Rightarrow> nat option \<Rightarrow> radio_services \<Rightarrow> radio_services \<Rightarrow> bool" where
  "answered m a ob S S' \<longleftrightarrow>
     (case ob of None \<Rightarrow> S' = S | Some b \<Rightarrow> \<exists>i xs. client_log S' = client_log S @ [Response b m i xs] \<and> good_info a i)"

lemma log_check [simp]: "client_log (checkReturnStatus slot isOk r S) = client_log S"
  by (simp add: checkReturnStatus_def reset_callbacks_def)

lemma answer_through_answered:
  "answer_through E ob m args r a S = Some S' \<Longrightarrow> well_header a args \<Longrightarrow> answered m a ob S S'"
  by (auto simp: answer_through_def answered_def well_header_def bind_eq_Some_conv split: option.splits)

text \<open>The method that a function calls, and the object through which it calls it.\<close>

definition client_method :: "string \<Rightarrow> radio_services \<Rightarrow> nat \<Rightarrow> string" where
  "client_method n S slot =
     (if n = ''hangupForegroundResumeBackgroundResponse'' then ''hangupWaitingOrBackgroundResponse''
      else if n = ''setSimCardPowerResponse'' \<and> mRadioResponseV1_1 S slot \<noteq> None then ''setSimCardPowerResponse_1_1'' else n)"

definition answers_V1_1 :: "string list" where
  "answers_V1_1 = [''setCarrierInfoForImsiEncryptionResponse'', ''startNetworkScanResponse'', ''stopNetworkScanResponse'',
     ''startKeepaliveResponse'', ''stopKeepaliveResponse'']"

definition answers_oem :: "string list" where
  "answers_oem = [''sendRequestRawResponse'', ''sendRequestStringsResponse'']"

definition client_object :: "string \<Rightarrow> radio_services \<Rightarrow> nat \<Rightarrow> nat option" where
  "client_object n S slot =
     (if n \<in> set answers_V1_1 \<or> n = ''setSimCardPowerResponse'' \<and> mRadioResponseV1_1 S slot \<noteq> None then mRadioResponseV1_1 S slot
      else if n \<in> set answers_oem then mOemHookResponse S slot else mRadioResponse S slot)"

definition reaches_client :: "string \<Rightarrow> answer_fun \<Rightarrow> bool" where
  "reaches_client n f \<longleftrightarrow> (\<forall>E M a S S'. radioService S (slotId a) \<and> oemHookService S (slotId a) \<and> kOemHookEnabled E \<and> f E M a S = Some S' \<longrightarrow>
     answered (client_method n S (slotId a)) a (client_object n S (slotId a)) S S')"

text \<open>A function of the usual form, by interface.\<close>

lemma reaches_radio:
  assumes "\<And>E M a. f E M a = respond n (g E M a) E a" "\<And>E M a. well_header a (g E M a)"
    and "n \<notin> set answers_V1_1 \<union> set answers_oem \<union> {''setSimCardPowerResponse'', ''hangupForegroundResumeBackgroundResponse''}"
  shows "reaches_client n f"
  unfolding reaches_client_def
  using assms by (auto simp: respond_def client_method_def client_object_def intro!: answer_through_answered)

lemma reaches_V1_1:
  assumes "\<And>E M a. f E M a = respond_V1_1 n (g E M a) E a" "\<And>E M a. well_header a (g E M a)" "n \<in> set answers_V1_1"
  shows "reaches_client n f"
proof -
  have "n \<notin> {''setSimCardPowerResponse'', ''hangupForegroundResumeBackgroundResponse''}"
    using assms(3) by (auto simp: answers_V1_1_def)
  then show ?thesis
    using assms unfolding reaches_client_def
    by (auto simp: respond_V1_1_def client_method_def client_object_def intro!: answer_through_answered)
qed

lemma reaches_oem:
  assumes "\<And>E M a S. f E M a S = (if \<not> kOemHookEnabled E then Some S else respond_oem n (g E M a) E a S)"
    and "\<And>E M a. well_header a (g E M a)" "n \<in> set answers_oem"
  shows "reaches_client n f"
proof -
  have "n \<notin> set answers_V1_1 \<union> {''setSimCardPowerResponse'', ''hangupForegroundResumeBackgroundResponse''}"
    using assms(3) by (auto simp: answers_oem_def answers_V1_1_def)
  then show ?thesis
    using assms unfolding reaches_client_def
    by (auto simp: respond_oem_def client_method_def client_object_def intro!: answer_through_answered)
qed

lemma reaches_special: "reaches_client ''hangupForegroundResumeBackgroundResponse'' hangupForegroundResumeBackgroundResponse"
  "reaches_client ''setSimCardPowerResponse'' setSimCardPowerResponse"
  unfolding reaches_client_def
  by (auto simp: answer_defs respond_def respond_V1_1_def client_method_def client_object_def answers_V1_1_def answers_oem_def
      intro!: answer_through_answered headers split: if_splits)

lemma answer_table: "list_all (\<lambda>(n, f). reaches_client n f) answer_functions"
  unfolding answer_functions_def list.pred_inject prod.case
  by (intro conjI;
      (rule reaches_special list.pred_inject(1)
        | (rule reaches_radio, rule answer_defs, (intro headers)[1], (simp add: answers_V1_1_def answers_oem_def; fail))
        | (rule reaches_V1_1, rule answer_defs, (intro headers)[1], (simp add: answers_V1_1_def; fail))
        | (rule reaches_oem, rule answer_defs, (intro headers)[1], (simp add: answers_oem_def; fail))))

section \<open>Property\<close>

text \<open>C7. Whatever the vendor library hands over, an answer function of the table makes exactly one call of the
  client, through the callback object registered for its interface, with the serial number of the request
  and the kind of the answer; the error of the vendor library is passed on unchanged, and only an answer
  without error can become an invalid response. Without a registered object nothing changes. The method has
  the name of the function, except that the newer interface has its own method for the power of the card
  and that one function calls the method of another.\<close>

theorem answers_reach_client:
  assumes "(n, f) \<in> set answer_functions" "f E M a S = Some S'"
    and "radioService S (slotId a)" "oemHookService S (slotId a)" "kOemHookEnabled E"
  shows "(client_object n S (slotId a) = None \<longrightarrow> S' = S) \<and>
    (\<forall>b. client_object n S (slotId a) = Some b \<longrightarrow>
      (\<exists>i xs. client_log S' = client_log S @ [Response b (client_method n S (slotId a)) i xs] \<and>
        info_serial i = serial a \<and> info_type i = info_type (populateResponseInfo a) \<and>
        (info_error i = Errno (errno a) \<or> errno a = 0 \<and> info_error i = INVALID_RESPONSE)))"
proof -
  have "reaches_client n f"
    using answer_table assms(1) by (auto simp: list_all_iff)
  then have "answered (client_method n S (slotId a)) a (client_object n S (slotId a)) S S'"
    using assms(2-5) by (auto simp: reaches_client_def)
  then show ?thesis
    by (auto simp: answered_def good_info_def)
qed

theorem answers_reach_client_witness:
  "\<exists>S' i xs. hangupConnectionResponse demo_cli (\<lambda>_. None) \<lparr>slotId = 0, responseType = 0, serial = 5, errno = 2, response = 0, responseLen = 0\<rparr> demo_services = Some S' \<and>
    client_log S' = [Response 7 ''hangupConnectionResponse'' i xs] \<and> info_serial i = 5 \<and> info_error i = Errno 2"
proof -
  let ?a = "\<lparr>slotId = 0, responseType = 0, serial = 5, errno = 2, response = 0, responseLen = 0\<rparr>"
  let ?n = "''hangupConnectionResponse''"
  obtain S' where S': "hangupConnectionResponse demo_cli (\<lambda>_. None) ?a demo_services = Some S'"
    by (simp add: answer_defs respond_def answer_through_def demo_services_def)
  have "(?n, hangupConnectionResponse) \<in> set answer_functions"
    unfolding answer_functions_def list.set by (rule insertI1 | rule insertI2)+
  moreover have "client_object ?n demo_services 0 = Some 7" "client_method ?n demo_services 0 = ?n"
    by (simp_all add: client_object_def client_method_def answers_V1_1_def answers_oem_def demo_services_def)
  moreover have "client_log demo_services = []" "radioService demo_services 0" "oemHookService demo_services 0" "kOemHookEnabled demo_cli"
    by (simp_all add: demo_services_def demo_cli_def)
  ultimately show ?thesis
    using answers_reach_client[where f = hangupConnectionResponse and n = ?n, OF _ S'] S' by auto
qed

end
