(* ===== verification/Ril_End_To_End.thy ===== *)
theory Ril_End_To_End
  imports Ril_Requests Ril_Answers_Correct
begin

text \<open>
  From the client's call to the client's answer: the request side, the command table of the core and the
  answer functions together.
\<close>

definition has_answer :: "string option \<Rightarrow> bool" where
  "has_answer f = (case f of None \<Rightarrow> True | Some n \<Rightarrow> \<exists>g. (n, g) \<in> set answer_functions)"

lemma has_answer_intros: "has_answer None" "(n, g) \<in> set answer_functions \<Longrightarrow> has_answer (Some n)"
  by (auto simp: has_answer_def)

lemma commands_have_answers: "list_all (\<lambda>(n, name, f). has_answer f) s_commands"
  unfolding s_commands_def list.pred_inject prod.case
  by (intro conjI; (rule has_answer_intros(1) list.pred_inject(1)
      | (rule has_answer_intros(2), unfold answer_functions_def list.set, (rule insertI1 | rule insertI2)+)))

lemma responseFunction_answer:
  assumes "responseFunction r = Inr f"
  shows "\<exists>g. (f, g) \<in> set answer_functions"
proof -
  have r: "0 \<le> r" "nat r < length s_commands" "snd (snd (s_commands ! nat r)) = Some f"
    using assms by (auto simp: responseFunction_def split: if_splits option.splits)
  have "has_answer (snd (snd (s_commands ! nat r)))"
    using commands_have_answers r(2) by (fastforce simp: list_all_length)
  then show ?thesis using r(3) by (simp add: has_answer_def)
qed



text \<open>The client that hung up the foreground call is told about another request: the answer to request 14
  arrives at the method for request 13, so the client's own method is never called.\<close>

theorem hangup_answer_misdirected:
  assumes "radioService S (slotId a)" "mRadioResponse S (slotId a) = Some b"
  shows "responseFunction 14 = Inr ''hangupForegroundResumeBackgroundResponse'' \<and>
    (\<exists>S'. hangupForegroundResumeBackgroundResponse E M a S = Some S' \<and>
      client_log S' = client_log S @ [Response b ''hangupWaitingOrBackgroundResponse'' (populateResponseInfo a) []])"
proof
  show "responseFunction 14 = Inr ''hangupForegroundResumeBackgroundResponse''"
    by (simp add: responseFunction_def table_lengths) (simp add: s_commands_def)
  show "\<exists>S'. hangupForegroundResumeBackgroundResponse E M a S = Some S' \<and>
      client_log S' = client_log S @ [Response b ''hangupWaitingOrBackgroundResponse'' (populateResponseInfo a) []]"
    using assms by (simp add: hangupForegroundResumeBackgroundResponse_def respond_def answer_through_def)
qed

theorem hangup_answer_misdirected_witness:
  "\<exists>S'. hangupForegroundResumeBackgroundResponse demo_cli (\<lambda>_. None)
      \<lparr>slotId = 0, responseType = 0, serial = 5, errno = 0, response = 0, responseLen = 0\<rparr> demo_services = Some S' \<and>
    client_log S' = [Response 7 ''hangupWaitingOrBackgroundResponse'' \<lparr>info_type = SOLICITED, info_serial = 5, info_error = Errno 0\<rparr> []]"
  using hangup_answer_misdirected[of demo_services "\<lparr>slotId = 0, responseType = 0, serial = 5, errno = 0, response = 0, responseLen = 0\<rparr>" 7
      demo_cli "\<lambda>_. None"]
  by (auto simp: demo_services_def populateResponseInfo_def)

end
