(* ===== verification/Ril_Indications.thy ===== *)
theory Ril_Indications
  imports Ril_Answers
begin

text \<open>
  The indication functions of \<^verbatim>\<open>ril/libril/ril_service.cpp\<close>, in the order of the source: notices of the vendor
  library that no request asked for. A notice that is not as expected is dropped. The function for network
  time is part of the core. Shown here: the conversion of short messages.
\<close>

section \<open>Calls\<close>

definition convertIntToRadioIndicationType :: "int \<Rightarrow> RadioIndicationType" where
  "convertIntToRadioIndicationType indicationType = (if indicationType = 1 then UNSOLICITED else UNSOLICITED_ACK_EXP)"

text \<open>The arguments of the call: no result for a fault, \<open>Some None\<close> for a notice that is dropped.\<close>

type_synonym notice = "hval list option option"

definition indicate_through :: "cli_env \<Rightarrow> nat option \<Rightarrow> string \<Rightarrow> notice \<Rightarrow> bool \<Rightarrow> vendor_answer \<Rightarrow> radio_services \<Rightarrow> radio_services option" where
  "indicate_through E ob m args isRadioService a S =
     (case ob of
        None \<Rightarrow> Some S
      | Some b \<Rightarrow> do { r \<leftarrow> args;
          case r of
            None \<Rightarrow> Some S
          | Some xs \<Rightarrow> Some (checkReturnStatus (slotId a) (call_ok E b) isRadioService
              (S\<lparr>client_log := client_log S @ [Indication b m (convertIntToRadioIndicationType (responseType a)) xs]\<rparr>)) })"

definition indicate :: "string \<Rightarrow> notice \<Rightarrow> cli_env \<Rightarrow> vendor_answer \<Rightarrow> radio_services \<Rightarrow> radio_services option" where
  "indicate m args E a S =
     (if radioService S (slotId a) then indicate_through E (mRadioIndication S (slotId a)) m args True a S else Some S)"

definition indicate_V1_1 :: "string \<Rightarrow> notice \<Rightarrow> cli_env \<Rightarrow> vendor_answer \<Rightarrow> radio_services \<Rightarrow> radio_services option" where
  "indicate_V1_1 m args E a S =
     (if radioService S (slotId a) then indicate_through E (mRadioIndicationV1_1 S (slotId a)) m args True a S else Some S)"

definition indicate_oem :: "string \<Rightarrow> notice \<Rightarrow> cli_env \<Rightarrow> vendor_answer \<Rightarrow> radio_services \<Rightarrow> radio_services option" where
  "indicate_oem m args E a S =
     (if oemHookService S (slotId a) then indicate_through E (mOemHookIndication S (slotId a)) m args False a S else Some S)"

definition dropped :: "bool \<Rightarrow> hval list option \<Rightarrow> notice" where
  "dropped bad args = (if bad then Some None else map_option Some args)"

definition no_data :: "vendor_answer \<Rightarrow> bool" where
  "no_data a \<longleftrightarrow> response a = 0 \<or> responseLen a = 0"

text \<open>Notices with one integer, with a string, and without arguments.\<close>

definition int_notice :: "vmem \<Rightarrow> vendor_answer \<Rightarrow> (int \<Rightarrow> hval) \<Rightarrow> notice" where
  "int_notice M a f = dropped (response a = 0 \<or> responseLen a mod 4 \<noteq> 0) (do { v \<leftarrow> int_elem M (response a) 0; Some [f v] })"

definition string_notice :: "vmem \<Rightarrow> vendor_answer \<Rightarrow> notice" where
  "string_notice M a = dropped (no_data a) (do { s \<leftarrow> convertCharPtrToHidlString M (response a); Some [s] })"

section \<open>Functions\<close>

definition radioStateChangedInd :: answer_fun where
  "radioStateChangedInd E M a = indicate ''radioStateChanged'' (Some (Some [HI (onStateRequest E (slotId a))])) E a"

definition callStateChangedInd :: answer_fun where
  "callStateChangedInd E M a = indicate ''callStateChanged'' (Some (Some [])) E a"

definition networkStateChangedInd :: answer_fun where
  "networkStateChangedInd E M a = indicate ''networkStateChanged'' (Some (Some [])) E a"

definition INVALID_HEX_CHAR :: nat where "INVALID_HEX_CHAR = 16"

definition hexCharToInt :: "u8 \<Rightarrow> nat" where
  "hexCharToInt c =
     (let n = unat c in
      if 48 \<le> n \<and> n \<le> 57 then n - 48 else if 65 \<le> n \<and> n \<le> 70 then n - 65 + 10
      else if 97 \<le> n \<and> n \<le> 102 then n - 97 + 10 else INVALID_HEX_CHAR)"

fun hex_loop :: "vmem \<Rightarrow> nat \<Rightarrow> nat \<Rightarrow> u8 list option option" where
  "hex_loop M p 0 = Some (Some [])"
| "hex_loop M p (Suc n) = do { c1 \<leftarrow> byte_at M p; c2 \<leftarrow> byte_at M (Suc p);
     if hexCharToInt c1 = INVALID_HEX_CHAR \<or> hexCharToInt c2 = INVALID_HEX_CHAR then Some None
     else do { r \<leftarrow> hex_loop M (p + 2) n; Some (map_option (\<lambda>bs. word_of_nat (hexCharToInt c1 * 16 + hexCharToInt c2) # bs) r) } }"

definition convertHexStringToBytes :: "cli_env \<Rightarrow> vmem \<Rightarrow> nat \<Rightarrow> nat \<Rightarrow> u8 list option option" where
  "convertHexStringToBytes E M p len =
     (if len mod 2 \<noteq> 0 then Some None else if \<not> malloc_ok E 0 then Some None else hex_loop M p (len div 2))"

definition sms_notice :: "cli_env \<Rightarrow> vmem \<Rightarrow> vendor_answer \<Rightarrow> notice" where
  "sms_notice E M a =
     (if no_data a then Some None
      else do { r \<leftarrow> convertHexStringToBytes E M (response a) (responseLen a); Some (map_option (\<lambda>bs. [bytes_value bs]) r) })"

definition newSmsInd :: answer_fun where
  "newSmsInd E M a = indicate ''newSms'' (sms_notice E M a) E a"

definition newSmsStatusReportInd :: answer_fun where
  "newSmsStatusReportInd E M a = indicate ''newSmsStatusReport'' (sms_notice E M a) E a"

definition newSmsOnSimInd :: answer_fun where
  "newSmsOnSimInd E M a = indicate ''newSmsOnSim'' (int_notice M a HI) E a"

text \<open>The mode string is used without a check.\<close>

definition onUssdInd :: answer_fun where
  "onUssdInd E M a = indicate ''onUssd''
     (dropped (response a = 0 \<or> responseLen a < 2 * 4)
       (do { md \<leftarrow> ptr_elem M (response a) 0; msg \<leftarrow> string_elem M (response a) 1; t \<leftarrow> atoi_at M md; Some [HI t, msg] })) E a"

definition currentSignalStrengthInd :: answer_fun where
  "currentSignalStrengthInd E M a = indicate ''currentSignalStrength''
     (dropped (bad_signal_strength a) (do { s \<leftarrow> convertRilSignalStrengthToHal M (response a) (responseLen a); Some [s] })) E a"

definition dataCallListChangedInd :: answer_fun where
  "dataCallListChangedInd E M a = indicate ''dataCallListChanged''
     (dropped ((response a = 0 \<and> responseLen a \<noteq> 0) \<or> no_data_call_size (responseLen a))
       (do { v \<leftarrow> convertRilDataCallListToHal M (response a) (responseLen a); Some [v] })) E a"

definition suppSvcNotifyInd :: answer_fun where
  "suppSvcNotifyInd E M a = indicate ''suppSvcNotify''
     (dropped (bad_struct a RIL_SuppSvcNotification) (do { s \<leftarrow> struct_of M RIL_SuppSvcNotification (response a)
          [(''isMT'', Int_of [''notificationType'']), (''code'', Int_of [''code'']), (''index'', Int_of [''index'']),
           (''type'', Int_of [''type'']), (''number'', Str_of [''number''])]; Some [s] })) E a"

definition stkSessionEndInd :: answer_fun where
  "stkSessionEndInd E M a = indicate ''stkSessionEnd'' (Some (Some [])) E a"

definition stkProactiveCommandInd :: answer_fun where
  "stkProactiveCommandInd E M a = indicate ''stkProactiveCommand'' (string_notice M a) E a"

definition stkEventNotifyInd :: answer_fun where
  "stkEventNotifyInd E M a = indicate ''stkEventNotify'' (string_notice M a) E a"

definition stkCallSetupInd :: answer_fun where
  "stkCallSetupInd E M a = indicate ''stkCallSetup'' (int_notice M a HI) E a"

definition simSmsStorageFullInd :: answer_fun where
  "simSmsStorageFullInd E M a = indicate ''simSmsStorageFull'' (Some (Some [])) E a"

definition simRefreshInd :: answer_fun where
  "simRefreshInd E M a = indicate ''simRefresh''
     (dropped (bad_struct a RIL_SimRefreshResponse_v7) (do { s \<leftarrow> struct_of M RIL_SimRefreshResponse_v7 (response a)
          [(''type'', Int_of [''result'']), (''efId'', Int_of [''ef_id'']), (''aid'', Str_of [''aid''])]; Some [s] })) E a"

definition signalInfo_fields :: "(string \<times> source) list" where
  "signalInfo_fields = [(''isPresent'', Int_of [''isPresent'']), (''signalType'', Int_of [''signalType'']),
     (''alertPitch'', Int_of [''alertPitch'']), (''signal'', Int_of [''signal''])]"

definition convertRilCdmaSignalInfoRecordToHal :: "vmem \<Rightarrow> nat \<Rightarrow> hval option" where
  "convertRilCdmaSignalInfoRecordToHal M p = struct_of M RIL_CDMA_SignalInfoRecord p signalInfo_fields"

definition callRingInd :: answer_fun where
  "callRingInd E M a = indicate ''callRing''
     (if no_data a then Some (Some [HB True, zero_of signalInfo_fields])
      else dropped (responseLen a \<noteq> sizeof RIL_CDMA_SignalInfoRecord)
        (do { r \<leftarrow> convertRilCdmaSignalInfoRecordToHal M (response a); Some [HB False, r] })) E a"

definition simStatusChangedInd :: answer_fun where
  "simStatusChangedInd E M a = indicate ''simStatusChanged'' (Some (Some [])) E a"

text \<open>The bytes that a vector set to external memory has: as many as the least of the given length and the
  size of the array, a negative length taken as a large number.\<close>

definition digits_at :: "vmem \<Rightarrow> nat \<Rightarrow> int \<Rightarrow> int \<Rightarrow> hval option" where
  "digits_at M p n limit = map_option bytes_value (bytes_at M p (nat (min n limit mod 2 ^ 32)))"

definition cdmaNewSmsInd :: answer_fun where
  "cdmaNewSmsInd E M a = indicate ''cdmaNewSms''
     (let p = response a; T = RIL_CDMA_SMS_Message in
      dropped (bad_struct a T)
       (do { fs \<leftarrow> fields_of M T p [(''teleserviceId'', Int_of [''uTeleserviceID'']), (''isServicePresent'', Int_of [''bIsServicePresent'']),
            (''serviceCategory'', Int_of [''uServicecategory''])];
          ad \<leftarrow> fields_of M T p [(''digitMode'', Int_of [''sAddress'', ''digit_mode'']), (''numberMode'', Int_of [''sAddress'', ''number_mode'']),
            (''numberType'', Int_of [''sAddress'', ''number_type'']), (''numberPlan'', Int_of [''sAddress'', ''number_plan''])];
          n \<leftarrow> fld M T p [''sAddress'', ''number_of_digits''];
          ds \<leftarrow> digits_at M (addr_of T p [''sAddress'', ''digits'']) n 36;
          su \<leftarrow> fields_of M T p [(''subaddressType'', Int_of [''sSubAddress'', ''subaddressType'']), (''odd'', Int_of [''sSubAddress'', ''odd''])];
          k \<leftarrow> fld M T p [''sSubAddress'', ''number_of_digits''];
          es \<leftarrow> digits_at M (addr_of T p [''sSubAddress'', ''digits'']) k 36;
          l \<leftarrow> fld M T p [''uBearerDataLen''];
          bs \<leftarrow> digits_at M (addr_of T p [''aBearerData'']) l 255;
          Some [HR (fs @ [(''address'', HR (ad @ [(''digits'', ds)])), (''subAddress'', HR (su @ [(''digits'', es)])), (''bearerData'', bs)])] })) E a"

definition newBroadcastSmsInd :: answer_fun where
  "newBroadcastSmsInd E M a = indicate ''newBroadcastSms''
     (dropped (no_data a) (do { bs \<leftarrow> bytes_at M (response a) (responseLen a); Some [bytes_value bs] })) E a"

definition cdmaRuimSmsStorageFullInd :: answer_fun where
  "cdmaRuimSmsStorageFullInd E M a = indicate ''cdmaRuimSmsStorageFull'' (Some (Some [])) E a"

definition restrictedStateChangedInd :: answer_fun where
  "restrictedStateChangedInd E M a = indicate ''restrictedStateChanged'' (int_notice M a HI) E a"

definition enterEmergencyCallbackModeInd :: answer_fun where
  "enterEmergencyCallbackModeInd E M a = indicate ''enterEmergencyCallbackMode'' (Some (Some [])) E a"

definition cdmaCallWaitingInd :: answer_fun where
  "cdmaCallWaitingInd E M a = indicate ''cdmaCallWaiting''
     (let p = response a; T = RIL_CDMA_CallWaiting_v6 in
      dropped (bad_struct a T)
       (do { fs \<leftarrow> fields_of M T p [(''number'', Str_of [''number'']), (''numberPresentation'', Int_of [''numberPresentation'']), (''name'', Str_of [''name''])];
          r \<leftarrow> convertRilCdmaSignalInfoRecordToHal M (addr_of T p [''signalInfoRecord'']);
          gs \<leftarrow> fields_of M T p [(''numberType'', Int_of [''number_type'']), (''numberPlan'', Int_of [''number_plan''])];
          Some [HR (fs @ [(''signalInfoRecord'', r)] @ gs)] })) E a"

definition cdmaOtaProvisionStatusInd :: answer_fun where
  "cdmaOtaProvisionStatusInd E M a = indicate ''cdmaOtaProvisionStatus'' (int_notice M a HI) E a"

section \<open>CDMA information records\<close>

text \<open>Text of a record: its length against the size of the buffer, an allocation, and the copy up to a NUL.
  \<open>Some None\<close> drops the whole notice.\<close>

definition record_text :: "cli_env \<Rightarrow> vmem \<Rightarrow> nat \<Rightarrow> int \<Rightarrow> int \<Rightarrow> nat \<Rightarrow> u8 list option option" where
  "record_text E M i len limit p =
     (if len > limit then Some None else if \<not> malloc_ok E i then Some None
      else map_option (\<lambda>bs. Some (takeWhile (\<lambda>b. b \<noteq> 0) bs)) (bytes_at M p (nat len)))"

definition number_record :: "cli_env \<Rightarrow> vmem \<Rightarrow> nat \<Rightarrow> nat \<Rightarrow> string list \<Rightarrow> hval option option" where
  "number_record E M i p path =
     (let T = RIL_CDMA_InformationRecord in
      do { n \<leftarrow> fld M T p (path @ [''len'']); t \<leftarrow> record_text E M i n 81 (addr_of T p (path @ [''buf'']));
        case t of
          None \<Rightarrow> Some None
        | Some s \<Rightarrow> do { fs \<leftarrow> fields_of M T p [(''numberType'', Int_of (path @ [''number_type''])), (''numberPlan'', Int_of (path @ [''number_plan''])),
              (''pi'', Int_of (path @ [''pi''])), (''si'', Int_of (path @ [''si'']))];
            Some (Some (HR ((''number'', HS s) # fs))) } })"

text \<open>All vectors of a record are empty except the one of its kind.\<close>

definition info_record :: "int \<Rightarrow> string \<Rightarrow> hval \<Rightarrow> hval" where
  "info_record name kind v = HR ((''name'', HI name) # map (\<lambda>k. (k, HV (if k = kind then [v] else [])))
     [''display'', ''number'', ''signal'', ''redir'', ''lineCtrl'', ''clir'', ''audioCtrl''])"

definition infoRec_at :: "cli_env \<Rightarrow> vmem \<Rightarrow> nat \<Rightarrow> nat \<Rightarrow> hval option option" where
  "infoRec_at E M i p =
     (let T = RIL_CDMA_InformationRecord; rec1 = (\<lambda>name kind fs. map_option (\<lambda>v. Some (info_record name kind v)) (struct_of M T p fs)) in
      do { name \<leftarrow> fld M T p [''name''];
        if name = 0 \<or> name = 7
        then do { n \<leftarrow> fld M T p [''rec'', ''display'', ''alpha_len''];
          t \<leftarrow> record_text E M i n 64 (addr_of T p [''rec'', ''display'', ''alpha_buf'']);
          Some (map_option (\<lambda>s. info_record name ''display'' (HR [(''alphaBuf'', HS s)])) t) }
        else if name = 1 \<or> name = 2 \<or> name = 3
        then do { r \<leftarrow> number_record E M i p [''rec'', ''number'']; Some (map_option (info_record name ''number'') r) }
        else if name = 4
        then do { vs \<leftarrow> mapM (\<lambda>f. fld M T p [''rec'', ''signal'', f]) [''isPresent'', ''signalType'', ''alertPitch'', ''signal''];
          if vs ! 0 \<noteq> 0 \<and> vs ! 1 = 2 \<and> vs ! 2 = 0 \<and> vs ! 3 = 1 then Some None
          else Some (Some (info_record name ''signal'' (HR [(''isPresent'', HI (vs ! 0)), (''signalType'', HI (vs ! 1)),
            (''alertPitch'', HI (vs ! 2)), (''signal'', HI (vs ! 3))]))) }
        else if name = 5
        then do { r \<leftarrow> number_record E M i p [''rec'', ''redir'', ''redirectingNumber''];
          case r of
            None \<Rightarrow> Some None
          | Some v \<Rightarrow> do { reason \<leftarrow> fld M T p [''rec'', ''redir'', ''redirectingReason''];
              Some (Some (info_record name ''redir'' (HR [(''redirectingNumber'', v), (''redirectingReason'', HI reason)]))) } }
        else if name = 6
        then rec1 name ''lineCtrl'' [(''lineCtrlPolarityIncluded'', Int_of [''rec'', ''lineCtrl'', ''lineCtrlPolarityIncluded'']),
          (''lineCtrlToggle'', Int_of [''rec'', ''lineCtrl'', ''lineCtrlToggle'']),
          (''lineCtrlReverse'', Int_of [''rec'', ''lineCtrl'', ''lineCtrlReverse'']),
          (''lineCtrlPowerDenial'', Int_of [''rec'', ''lineCtrl'', ''lineCtrlPowerDenial''])]
        else if name = 8 then rec1 name ''clir'' [(''cause'', Int_of [''rec'', ''clir'', ''cause''])]
        else if name = 10
        then rec1 name ''audioCtrl'' [(''upLink'', Int_of [''rec'', ''audioCtrl'', ''upLink'']), (''downLink'', Int_of [''rec'', ''audioCtrl'', ''downLink''])]
        else Some None })"

text \<open>The loop ends with the first record that drops the notice.\<close>

fun infoRecs :: "cli_env \<Rightarrow> vmem \<Rightarrow> nat \<Rightarrow> nat list \<Rightarrow> hval list option option" where
  "infoRecs E M p [] = Some (Some [])"
| "infoRecs E M p (i # is) = do { r \<leftarrow> infoRec_at E M i (elem RIL_CDMA_InformationRecord p i);
     case r of
       None \<Rightarrow> Some None
     | Some v \<Rightarrow> do { rs \<leftarrow> infoRecs E M p is; Some (map_option (\<lambda>vs. v # vs) rs) } }"

definition cdmaInfoRecInd :: answer_fun where
  "cdmaInfoRecInd E M a = indicate ''cdmaInfoRec''
     (let p = response a; T = RIL_CDMA_InformationRecords in
      if bad_struct a T then Some None
      else do { n \<leftarrow> fld M T p [''numberOfInfoRecs''];
        rs \<leftarrow> infoRecs E M (addr_of T p [''infoRec'']) [0..<nat (min n 10)];
        Some (map_option (\<lambda>vs. [HR [(''infoRec'', HV vs)]]) rs) }) E a"

section \<open>Further functions\<close>

definition indicateRingbackToneInd :: answer_fun where
  "indicateRingbackToneInd E M a = indicate ''indicateRingbackTone'' (int_notice M a (\<lambda>v. HB (v \<noteq> 0))) E a"

definition resendIncallMuteInd :: answer_fun where
  "resendIncallMuteInd E M a = indicate ''resendIncallMute'' (Some (Some [])) E a"

definition cdmaSubscriptionSourceChangedInd :: answer_fun where
  "cdmaSubscriptionSourceChangedInd E M a = indicate ''cdmaSubscriptionSourceChanged'' (int_notice M a HI) E a"

definition cdmaPrlChangedInd :: answer_fun where
  "cdmaPrlChangedInd E M a = indicate ''cdmaPrlChanged'' (int_notice M a HI) E a"

definition exitEmergencyCallbackModeInd :: answer_fun where
  "exitEmergencyCallbackModeInd E M a = indicate ''exitEmergencyCallbackMode'' (Some (Some [])) E a"

definition rilConnectedInd :: answer_fun where
  "rilConnectedInd E M a = indicate ''rilConnected'' (Some (Some [])) E a"

definition voiceRadioTechChangedInd :: answer_fun where
  "voiceRadioTechChangedInd E M a = indicate ''voiceRadioTechChanged'' (int_notice M a HI) E a"

definition cellInfoListInd :: answer_fun where
  "cellInfoListInd E M a = indicate ''cellInfoList''
     (dropped (bad_list a (sizeof RIL_CellInfo_v12)) (do { v \<leftarrow> convertRilCellInfoListToHal M (response a) (responseLen a); Some [v] })) E a"

definition imsNetworkStateChangedInd :: answer_fun where
  "imsNetworkStateChangedInd E M a = indicate ''imsNetworkStateChanged'' (Some (Some [])) E a"

definition subscriptionStatusChangedInd :: answer_fun where
  "subscriptionStatusChangedInd E M a = indicate ''subscriptionStatusChanged'' (int_notice M a (\<lambda>v. HB (v \<noteq> 0))) E a"

definition srvccStateNotifyInd :: answer_fun where
  "srvccStateNotifyInd E M a = indicate ''srvccStateNotify'' (int_notice M a HI) E a"

definition hardwareConfigChangedInd :: answer_fun where
  "hardwareConfigChangedInd E M a = indicate ''hardwareConfigChanged''
     (dropped (bad_list a (sizeof RIL_HardwareConfig)) (do { v \<leftarrow> convertRilHardwareConfigListToHal M (response a) (responseLen a); Some [v] })) E a"

definition radioCapabilityIndicationInd :: answer_fun where
  "radioCapabilityIndicationInd E M a = indicate ''radioCapabilityIndication''
     (dropped (bad_struct a RIL_RadioCapability) (do { v \<leftarrow> convertRilRadioCapabilityToHal M (response a); Some [v] })) E a"

definition isServiceTypeCfQuery :: "int \<Rightarrow> int \<Rightarrow> bool" where
  "isServiceTypeCfQuery serType reqType \<longleftrightarrow> reqType = 2 \<and> serType \<in> {0, 1, 2, 3, 4, 5}"

text \<open>Too large a number of entries is cut down in the memory of the vendor library.\<close>

definition cf_data :: "vmem \<Rightarrow> nat \<Rightarrow> hval option" where
  "cf_data M0 p =
     (let T = RIL_StkCcUnsolSsResponse; path = ['''', ''cfData'', ''numValidIndexes''] in
      do { n0 \<leftarrow> fld M0 T p path; M \<leftarrow> (if n0 > 7 then store_int M0 (addr_of T p path) 7 else Some M0);
        n \<leftarrow> fld M T p path; k \<leftarrow> vec_size n;
        cs \<leftarrow> structs_at M RIL_CallForwardInfo (addr_of T p ['''', ''cfData'', ''cfInfo'']) k (\<lambda>q. struct_of M RIL_CallForwardInfo q callForward_fields);
        Some (HR [(''cfInfo'', cs)]) })"

definition onSupplementaryServiceIndicationInd :: answer_fun where
  "onSupplementaryServiceIndicationInd E M a = indicate ''onSupplementaryServiceIndication''
     (let p = response a; T = RIL_StkCcUnsolSsResponse in
      dropped (bad_struct a T)
       (do { fs \<leftarrow> fields_of M T p [(''serviceType'', Int_of [''serviceType'']), (''requestType'', Int_of [''requestType'']),
            (''teleserviceType'', Int_of [''teleserviceType'']), (''serviceClass'', Int_of [''serviceClass'']), (''result'', Int_of [''result''])];
          st \<leftarrow> fld M T p [''serviceType'']; rt \<leftarrow> fld M T p [''requestType''];
          if isServiceTypeCfQuery st rt
          then do { c \<leftarrow> cf_data M p; Some [HR (fs @ [(''ssInfo'', HV []), (''cfData'', HV [c])])] }
          else do { vs \<leftarrow> mapM (int_elem M (addr_of T p ['''', ''ssInfo''])) [0..<4];
            Some [HR (fs @ [(''ssInfo'', HV [HR [(''ssInfo'', HV (map HI vs))]]), (''cfData'', HV [])])] } })) E a"

definition stkCallControlAlphaNotifyInd :: answer_fun where
  "stkCallControlAlphaNotifyInd E M a = indicate ''stkCallControlAlphaNotify'' (string_notice M a) E a"

definition lceDataInd :: answer_fun where
  "lceDataInd E M a = indicate ''lceData''
     (dropped (bad_struct a RIL_LceDataInfo) (do { v \<leftarrow> convertRilLceDataInfoToHal M (response a); Some [v] })) E a"

definition pcoDataInd :: answer_fun where
  "pcoDataInd E M a = indicate ''pcoData''
     (let p = response a; T = RIL_PCO_Data in
      dropped (bad_struct a T)
       (do { fs \<leftarrow> fields_of M T p [(''cid'', Int_of [''cid'']), (''bearerProto'', Str_of [''bearer_proto'']), (''pcoId'', Int_of [''pco_id''])];
          q \<leftarrow> ptr_fld M T p [''contents'']; n \<leftarrow> fld M T p [''contents_length''];
          bs \<leftarrow> bytes_at M q (nat (n mod 2 ^ 32));
          Some [HR (fs @ [(''contents'', bytes_value bs)])] })) E a"

definition modemResetInd :: answer_fun where
  "modemResetInd E M a = indicate ''modemReset'' (string_notice M a) E a"

text \<open>The length of the response is not compared with the size of the structure.\<close>

definition networkScanResultInd :: answer_fun where
  "networkScanResultInd E M a = indicate_V1_1 ''networkScanResult''
     (let p = response a; T = RIL_NetworkScanResult in
      dropped (no_data a)
       (do { st \<leftarrow> fld M T p [''status'']; q \<leftarrow> ptr_fld M T p [''network_infos'']; n \<leftarrow> fld M T p [''network_infos_length''];
          cs \<leftarrow> convertRilCellInfoListToHal M q (nat (n * int (sizeof RIL_CellInfo_v12) mod 2 ^ 32));
          Some [HR [(''status'', HI st), (''error'', HI (errno a)), (''networkInfos'', cs)]] })) E a"

definition carrierInfoForImsiEncryption :: answer_fun where
  "carrierInfoForImsiEncryption E M a = indicate_V1_1 ''carrierInfoForImsiEncryption'' (if no_data a then Some None else Some (Some [])) E a"

text \<open>Here the object is asked for the newer interface when the notice comes; an object of the older interface
  gives a null pointer, which is called.\<close>

definition keepaliveStatusInd :: answer_fun where
  "keepaliveStatusInd E M a S =
     (if \<not> radioService S (slotId a) then Some S
      else case mRadioIndication S (slotId a) of
        None \<Rightarrow> Some S
      | Some ob \<Rightarrow>
          (case as_v1_1 E ob of
             None \<Rightarrow> Some S
           | Some v \<Rightarrow>
               if response a = 0 \<or> responseLen a \<noteq> sizeof_KeepaliveStatus E then Some S
               else do { k \<leftarrow> convertRilKeepaliveStatusToHal M (response a);
                 b \<leftarrow> v;
                 indicate_through E (Some b) ''keepaliveStatus'' (Some (Some [k])) True a S }))"

definition oemHookRawInd :: answer_fun where
  "oemHookRawInd E M a S =
     (if \<not> kOemHookEnabled E then Some S
      else indicate_oem ''oemHookRaw'' (dropped (no_data a) (do { bs \<leftarrow> bytes_at M (response a) (responseLen a); Some [bytes_value bs] })) E a S)"

end
