(* ===== verification/Ril_Values.thy ===== *)
theory Ril_Values
  imports Ril_Indications Ril_Callbacks
begin

text \<open>
  What the conversions of answers and notices do with the memory of the vendor library: numbers, signal
  strengths, lists of data calls, short messages and the applications of the card, with the reads that
  go beyond what was handed over.
\<close>

section \<open>Reading\<close>

lemma bytes_at_Some: "bytes_at M a n = Some bs \<Longrightarrow> i < n \<Longrightarrow> 4096 \<le> a + i \<and> M (a + i) = Some (bs ! i)"
proof (induction n arbitrary: a bs i)
  case (Suc n)
  then obtain b bs' where b: "byte_at M a = Some b" "bytes_at M (Suc a) n = Some bs'" "bs = b # bs'"
    by (auto simp: bind_eq_Some_conv)
  show ?case
  proof (cases i)
    case 0
    then show ?thesis using b by (simp add: byte_at_def split: if_splits)
  next
    case (Suc j)
    then show ?thesis using Suc.IH[OF b(2), of j] Suc.prems(2) b(3) by simp
  qed
qed simp

lemma bytes_at_length: "bytes_at M a n = Some bs \<Longrightarrow> length bs = n"
  by (induction n arbitrary: a bs) (auto simp: bind_eq_Some_conv)

lemma bytes_at_None: "i < n \<Longrightarrow> M (a + i) = None \<Longrightarrow> bytes_at M a n = None"
  using bytes_at_Some[of M a n _ i] by (cases "bytes_at M a n") auto

lemma le_nat_less: "le_nat bs < 256 ^ length bs"
proof (induction bs)
  case (Cons b bs)
  with unat_u8[of b] show ?case by simp
qed simp

lemma load_CI:
  assumes "readable M a 4"
  shows "\<exists>v. load M a CI = Some v \<and> int32 v"
proof -
  obtain bs where bs: "bytes_at M a 4 = Some bs" "length bs = 4"
    using bytes_at_readable[OF assms] by blast
  have "le_nat bs < 2 ^ 32" using le_nat_less[of bs] bs(2) by simp
  with bs show ?thesis by (auto simp: to_signed_def int32_def)
qed

lemma load_CI_None: "i < 4 \<Longrightarrow> M (a + i) = None \<Longrightarrow> load M a CI = None"
  using bytes_at_None[of i 4 M a] by simp

section \<open>Numbers\<close>

text \<open>Where the vendor library hands over a number, a block of whole integers that is there is read as
  its first integer, a block of another length is an invalid response, and a missing block is one too, or
  -1 where the older vendor libraries send none. A block of length 0 passes the check: the integer is then
  read from beyond it, and the daemon faults when there is no memory.\<close>

theorem int_answers:
  assumes "readable M (response a) (responseLen a)"
  shows "(responseLen a \<noteq> 0 \<and> responseLen a mod 4 = 0 \<longrightarrow>
      (\<exists>v. int32 v \<and> load M (response a) CI = Some v \<and> responseInt M a = Some (populateResponseInfo a, v) \<and>
        responseIntOrEmpty M a = Some (populateResponseInfo a, v) \<and> int_notice M a HI = Some (Some [HI v]))) \<and>
    (responseLen a mod 4 \<noteq> 0 \<longrightarrow> responseInt M a = Some (invalid_response a, -1) \<and> int_notice M a HI = Some None) \<and>
    responseIntOrEmpty M (a\<lparr>response := 0, responseLen := 0\<rparr>) = Some (populateResponseInfo a, -1) \<and>
    (responseLen a = 0 \<and> M (response a) = None \<longrightarrow> responseInt M a = None \<and> int_notice M a HI = None)"
proof (intro conjI impI)
  assume l: "responseLen a \<noteq> 0 \<and> responseLen a mod 4 = 0"
  then have "4 \<le> responseLen a" by (cases "responseLen a < 4") auto
  then have "readable M (response a) 4"
    using readable_sub[OF assms, of 0 4] by simp
  moreover have "response a \<noteq> 0"
    using assms by (simp add: readable_def)
  ultimately show "\<exists>v. int32 v \<and> load M (response a) CI = Some v \<and> responseInt M a = Some (populateResponseInfo a, v) \<and>
      responseIntOrEmpty M a = Some (populateResponseInfo a, v) \<and> int_notice M a HI = Some (Some [HI v])"
    using load_CI[of M "response a"] l
    by (auto simp: responseInt_def responseIntOrEmpty_def int_notice_def dropped_def int_elem_def elem_def simp del: load.simps)
next
  assume "responseLen a mod 4 \<noteq> 0"
  then show "responseInt M a = Some (invalid_response a, - 1)" "int_notice M a HI = Some None"
    by (simp_all add: responseInt_def int_notice_def dropped_def)
next
  show "responseIntOrEmpty M (a\<lparr>response := 0, responseLen := 0\<rparr>) = Some (populateResponseInfo a, - 1)"
    by (simp add: responseIntOrEmpty_def populateResponseInfo_def)
next
  assume l: "responseLen a = 0 \<and> M (response a) = None"
  have "response a \<noteq> 0"
    using assms by (simp add: readable_def)
  with l show "responseInt M a = None" "int_notice M a HI = None"
    using load_CI_None[of 0 M "response a"] by (simp_all add: responseInt_def int_notice_def dropped_def int_elem_def elem_def del: load.simps)
qed

definition demo_answer :: "nat \<Rightarrow> vendor_answer" where
  "demo_answer len = \<lparr>slotId = 0, responseType = 0, serial = 5, errno = 0, response = 8192, responseLen = len\<rparr>"

theorem int_answers_witness:
  "responseInt (put_bytes (\<lambda>_. None) 8192 [7, 0, 0, 0]) (demo_answer 4) = Some (populateResponseInfo (demo_answer 4), 7) \<and>
    responseInt (\<lambda>_. None) (demo_answer 0) = None"
proof
  have l: "load (put_bytes (\<lambda>_. None) 8192 [7, 0, 0, 0]) 8192 CI = Some 7" by (simp add: mem_eval)
  have "readable (put_bytes (\<lambda>_. None) 8192 [7, 0, 0, 0]) 8192 4"
    unfolding readable_def by (auto simp: put_bytes_nth simp del: put_bytes.simps)
  then show "responseInt (put_bytes (\<lambda>_. None) 8192 [7, 0, 0, 0]) (demo_answer 4) = Some (populateResponseInfo (demo_answer 4), 7)"
    using int_answers[of "put_bytes (\<lambda>_. None) 8192 [7, 0, 0, 0]" "demo_answer 4"] l
    by (auto simp: demo_answer_def simp del: put_bytes.simps load.simps)
  show "responseInt (\<lambda>_. None) (demo_answer 0) = None"
    using int_answers[of "\<lambda>_. None" "demo_answer 0"] by (simp add: demo_answer_def readable_def)
qed

section \<open>Data calls\<close>

text \<open>The version of a list of data calls is guessed from its length, and for fewer than ten calls rightly:
  each of the three structures is read as it was written. Ten calls of the oldest version are read as nine of
  the next, eleven calls as nine or ten of the newest.\<close>

theorem data_call_versions:
  assumes "0 < k" "k < 10"
  shows "convertRilDataCallListToHal M p (k * sizeof RIL_Data_Call_Response_v6) =
      structs_at M RIL_Data_Call_Response_v6 p k (convertRilDataCallToHal_v6 M) \<and>
    convertRilDataCallListToHal M p (k * sizeof RIL_Data_Call_Response_v9) =
      structs_at M RIL_Data_Call_Response_v9 p k (convertRilDataCallToHal_v9 M) \<and>
    convertRilDataCallListToHal M p (k * sizeof RIL_Data_Call_Response_v11) =
      structs_at M RIL_Data_Call_Response_v11 p k (convertRilDataCallToHal_v11 M) \<and>
    convertRilDataCallListToHal M p (10 * sizeof RIL_Data_Call_Response_v6) =
      structs_at M RIL_Data_Call_Response_v9 p 9 (convertRilDataCallToHal_v9 M) \<and>
    convertRilDataCallListToHal M p (11 * sizeof RIL_Data_Call_Response_v6) =
      structs_at M RIL_Data_Call_Response_v11 p 9 (convertRilDataCallToHal_v11 M) \<and>
    convertRilDataCallListToHal M p (11 * sizeof RIL_Data_Call_Response_v9) =
      structs_at M RIL_Data_Call_Response_v11 p 10 (convertRilDataCallToHal_v11 M)"
proof -
  have "k \<in> {1, 2, 3, 4, 5, 6, 7, 8, 9}"
    using assms by auto
  then have "k * 36 mod 44 \<noteq> 0" "k * 36 mod 40 \<noteq> 0" "k * 40 mod 44 \<noteq> 0"
    by auto
  then show ?thesis
    by (simp add: convertRilDataCallListToHal_def)
qed

theorem data_call_versions_witness:
  "\<forall>M p. convertRilDataCallListToHal M p 36 = structs_at M RIL_Data_Call_Response_v6 p 1 (convertRilDataCallToHal_v6 M)"
  using data_call_versions[of 1] by simp

section \<open>Short messages\<close>

definition hex_digit :: "nat \<Rightarrow> u8" where
  "hex_digit d = word_of_nat (if d < 10 then 48 + d else 55 + d)"

definition hex_string :: "u8 list \<Rightarrow> u8 list" where
  "hex_string bs = concat (map (\<lambda>b. [hex_digit (unat b div 16), hex_digit (unat b mod 16)]) bs)"

lemma hex_digit_val: "d < 16 \<Longrightarrow> hexCharToInt (hex_digit d) = d \<and> d \<noteq> INVALID_HEX_CHAR"
proof -
  assume d: "d < 16"
  have "unat (hex_digit d) = (if d < 10 then 48 + d else 55 + d)"
    using d by (simp add: hex_digit_def unat_of_nat)
  with d show ?thesis by (simp add: hexCharToInt_def INVALID_HEX_CHAR_def)
qed

lemma hex_loop_string: "bytes_at M p (2 * length bs) = Some (hex_string bs) \<Longrightarrow> hex_loop M p (length bs) = Some (Some bs)"
proof (induction bs arbitrary: p)
  case (Cons b bs)
  let ?h = "hex_digit (unat b div 16)" and ?l = "hex_digit (unat b mod 16)"
  have n: "unat b div 16 < 16" "unat b mod 16 < 16"
    using unat_u8[of b] by (simp_all add: less_mult_imp_div_less)
  have "bytes_at M p (Suc (Suc (2 * length bs))) = Some (?h # ?l # hex_string bs)"
    using Cons.prems by (simp add: hex_string_def)
  then have m: "byte_at M p = Some ?h" "byte_at M (Suc p) = Some ?l" "bytes_at M (p + 2) (2 * length bs) = Some (hex_string bs)"
    by (auto simp: bind_eq_Some_conv)
  have "word_of_nat (unat b div 16 * 16 + unat b mod 16) = b"
    by (simp only: div_mult_mod_eq) simp
  then show ?case
    using m Cons.IH[OF m(3)] hex_digit_val[OF n(1)] hex_digit_val[OF n(2)] by simp
qed simp

lemma hex_loop_bad: "bytes_at M p (2 * n) = Some cs \<Longrightarrow> c \<in> set cs \<Longrightarrow> hexCharToInt c = INVALID_HEX_CHAR \<Longrightarrow> hex_loop M p n = Some None"
proof (induction n arbitrary: p cs)
  case (Suc n)
  from Suc.prems(1) obtain c1 c2 ds where m: "byte_at M p = Some c1" "byte_at M (Suc p) = Some c2"
    "bytes_at M (p + 2) (2 * n) = Some ds" "cs = c1 # c2 # ds"
    by (auto simp: bind_eq_Some_conv)
  show ?case
  proof (cases "hexCharToInt c1 = INVALID_HEX_CHAR \<or> hexCharToInt c2 = INVALID_HEX_CHAR")
    case False
    then have "c \<in> set ds" using m(4) Suc.prems(2,3) by auto
    with False m Suc.IH[OF m(3)] Suc.prems(3) show ?thesis by simp
  qed (use m in auto)
qed simp



end
