(* ===== verification/Ril_Signal.thy ===== *)
theory Ril_Signal
  imports Ril_Values
begin

text \<open>
  Signal strengths, whose LTE values are put right in the memory of the vendor library before they are read,
  and the applications of the card, whose number is trusted.
\<close>

section \<open>Writing and reading\<close>

lemma load_store:
  assumes "store_int M a v = Some M'" "int32 v"
  shows "load M' a CI = Some v" "b + 4 \<le> a \<or> a + 4 \<le> b \<Longrightarrow> load M' b CI = load M b CI"
proof -
  let ?bs = "le_bytes 4 (nat (v mod 2 ^ 32))"
  obtain cs where cs: "bytes_at M a 4 = Some cs" and M': "M' = put_bytes M a ?bs"
    using assms(1) by (auto simp: store_int_def bind_eq_Some_conv)
  have "4096 \<le> a" using bytes_at_Some[OF cs, of 0] by simp
  then have "bytes_at M' a 4 = Some ?bs"
    using bytes_at_put_same[of a M ?bs] by (simp add: M')
  moreover have "le_nat ?bs = nat (v mod 2 ^ 32)"
    by (rule le_nat_le_bytes) (simp add: nat_less_iff)
  ultimately show "load M' a CI = Some v"
    using to_signed_mod[OF assms(2)] by simp
  show "load M' b CI = load M b CI" if "b + 4 \<le> a \<or> a + 4 \<le> b"
    using bytes_at_put_other[of b 4 a ?bs M] that by (simp add: M')
qed

lemma fix_field_ok:
  assumes "field T path = Some (off, CI)" "load M (p + off) CI = Some v" "f v = Some v'" "int32 v'"
  obtains M' where "fix_field T path f p M = Some M'" "load M' (p + off) CI = Some v'"
    "\<And>i. i + 4 \<le> off \<or> off + 4 \<le> i \<Longrightarrow> load M' (p + i) CI = load M (p + i) CI"
proof (cases "v' = v")
  case True
  with assms that[of M] show ?thesis by (simp add: fix_field_def fld_def del: load.simps)
next
  case False
  obtain bs where "bytes_at M (p + off) 4 = Some bs" using assms(2) by auto
  then obtain M' where s: "store_int M (p + off) v' = Some M'" by (simp add: store_int_def)
  have "fix_field T path f p M = Some M'"
    using assms(1-3) False s by (simp add: fix_field_def fld_def addr_of_def del: load.simps)
  with load_store[OF s assms(4)] that[of M'] show ?thesis by simp
qed

section \<open>Signal strength\<close>

text \<open>The layout of both versions: the values of the radio technologies one after the other.\<close>

definition signal_layout :: "cty \<Rightarrow> bool" where
  "signal_layout T \<longleftrightarrow>
     field T [''GW_SignalStrength'', ''signalStrength''] = Some (0, CI) \<and> field T [''GW_SignalStrength'', ''bitErrorRate''] = Some (4, CI) \<and>
     field T [''CDMA_SignalStrength'', ''dbm''] = Some (8, CI) \<and> field T [''CDMA_SignalStrength'', ''ecio''] = Some (12, CI) \<and>
     field T [''EVDO_SignalStrength'', ''dbm''] = Some (16, CI) \<and> field T [''EVDO_SignalStrength'', ''ecio''] = Some (20, CI) \<and>
     field T [''EVDO_SignalStrength'', ''signalNoiseRatio''] = Some (24, CI) \<and>
     field T [''LTE_SignalStrength'', ''signalStrength''] = Some (28, CI) \<and> field T [''LTE_SignalStrength'', ''rsrp''] = Some (32, CI) \<and>
     field T [''LTE_SignalStrength'', ''rsrq''] = Some (36, CI) \<and> field T [''LTE_SignalStrength'', ''rssnr''] = Some (40, CI) \<and>
     field T [''LTE_SignalStrength'', ''cqi''] = Some (44, CI) \<and> field T [''LTE_SignalStrength'', ''timingAdvance''] = Some (48, CI)"

lemma signal_layouts: "signal_layout RIL_SignalStrength_v8" "signal_layout RIL_SignalStrength_v10"
  "field RIL_SignalStrength_v10 [''TD_SCDMA_SignalStrength'', ''rscp''] = Some (52, CI)"
  by (simp_all add: signal_layout_def struct_defs round_up_def)

text \<open>The words of the structure, and the LTE values as the client gets them.\<close>

definition words :: "vmem \<Rightarrow> nat \<Rightarrow> nat \<Rightarrow> (nat \<Rightarrow> int) \<Rightarrow> bool" where
  "words M p n w \<longleftrightarrow> (\<forall>i<n. load M (p + 4 * i) CI = Some (w i) \<and> int32 (w i))"

lemma readable_words: "readable M p (4 * n) \<Longrightarrow> words M p n (\<lambda>i. the (load M (p + 4 * i) CI))"
proof -
  assume r: "readable M p (4 * n)"
  have "readable M (p + 4 * i) 4" if "i < n" for i
    using readable_sub[OF r, of "4 * i" 4] that by simp
  from load_CI[OF this] show ?thesis
    unfolding words_def by fastforce
qed

lemma fix_field_words:
  assumes w: "words M p n w" and "field T path = Some (4 * k, CI)" "k < n" "f (w k) = Some v" "int32 v"
  shows "\<exists>M'. fix_field T path f p M = Some M' \<and> words M' p n (w(k := v))"
proof -
  have "load M (p + 4 * k) CI = Some (w k)" using assms(1,3) by (simp add: words_def)
  from fix_field_ok[where f = f, OF assms(2) this assms(4,5)] obtain M' where
    M': "fix_field T path f p M = Some M'" "load M' (p + 4 * k) CI = Some v"
      "\<And>i. i + 4 \<le> 4 * k \<or> 4 * k + 4 \<le> i \<Longrightarrow> load M' (p + i) CI = load M (p + i) CI" by blast
  have "load M' (p + 4 * i) CI = Some (w i)" if "i \<noteq> k" "i < n" for i
    using M'(3)[of "4 * i"] that w by (cases i k rule: linorder_cases) (simp_all add: words_def del: load.simps)
  with M' assms(5) w show ?thesis
    by (auto simp: words_def simp del: load.simps)
qed

definition fixed_rsrp :: "int \<Rightarrow> int" where
  "fixed_rsrp v = (if v = -1 then INT_MAX else if v < -1 then - v else v)"

definition unknown_max :: "int \<Rightarrow> int" where
  "unknown_max v = (if v = -1 then INT_MAX else v)"

definition unknown_99 :: "int \<Rightarrow> int" where
  "unknown_99 v = (if v = -1 then 99 else v)"

lemma fixed_int32: "int32 v \<Longrightarrow> int32 (unknown_max v)" "int32 v \<Longrightarrow> int32 (unknown_99 v)"
  "int32 v \<Longrightarrow> v \<noteq> - (2 ^ 31) \<Longrightarrow> int32 (fixed_rsrp v)"
  by (auto simp: int32_def unknown_max_def unknown_99_def fixed_rsrp_def INT_MAX_def)

lemma fix_lte_eq:
  "fix_lte T p M = do {
     M1 \<leftarrow> fix_field T [''LTE_SignalStrength'', ''signalStrength''] (\<lambda>v. Some (unknown_99 v)) p M;
     M2 \<leftarrow> fix_field T [''LTE_SignalStrength'', ''rsrp''] (\<lambda>v. if v = - (2 ^ 31) then None else Some (fixed_rsrp v)) p M1;
     M3 \<leftarrow> fix_field T [''LTE_SignalStrength'', ''rsrq''] (\<lambda>v. Some (unknown_max v)) p M2;
     fix_field T [''LTE_SignalStrength'', ''cqi''] (\<lambda>v. Some (unknown_max v)) p M3 }"
proof -
  have "(\<lambda>v::int. if v = -1 then Some INT_MAX else if v < -1 then if v = -(2 ^ 31) then None else Some (- v) else Some v) =
      (\<lambda>v. if v = - (2 ^ 31) then None else Some (fixed_rsrp v))"
    by (auto simp: fixed_rsrp_def fun_eq_iff)
  then show ?thesis
    by (simp add: fix_lte_def unknown_99_def unknown_max_def)
qed

lemma fix_lte_words:
  assumes T: "signal_layout T" and w: "words M p n w" "13 \<le> n" and v: "w 8 \<noteq> - (2 ^ 31)"
  shows "\<exists>M'. fix_lte T p M = Some M' \<and>
    words M' p n (w(7 := unknown_99 (w 7), 8 := fixed_rsrp (w 8), 9 := unknown_max (w 9), 11 := unknown_max (w 11)))"
proof -
  have i: "int32 (w i)" if "i < 13" for i using w that by (simp add: words_def)
  have l: "field T [''LTE_SignalStrength'', ''signalStrength''] = Some (4 * 7, CI)" "field T [''LTE_SignalStrength'', ''rsrp''] = Some (4 * 8, CI)"
    "field T [''LTE_SignalStrength'', ''rsrq''] = Some (4 * 9, CI)" "field T [''LTE_SignalStrength'', ''cqi''] = Some (4 * 11, CI)"
    using T by (simp_all add: signal_layout_def)
  have n: "7 < n" "8 < n" "9 < n" "11 < n" using w(2) by auto
  note g = fix_field_words[where f = "\<lambda>v. Some (unknown_99 v)"] fix_field_words[where f = "\<lambda>v. if v = - (2 ^ 31) then None else Some (fixed_rsrp v)"]
    fix_field_words[where f = "\<lambda>v. Some (unknown_max v)"]
  have i': "int32 (unknown_99 (w 7))" "int32 (fixed_rsrp (w 8))" "int32 (unknown_max (w 9))" "int32 (unknown_max (w 11))"
    using i v by (simp_all add: fixed_int32)
  obtain M1 where 1: "fix_field T [''LTE_SignalStrength'', ''signalStrength''] (\<lambda>v. Some (unknown_99 v)) p M = Some M1"
    "words M1 p n (w(7 := unknown_99 (w 7)))"
    using g(1)[OF w(1) l(1) n(1) refl i'(1)] by blast
  let ?w1 = "w(7 := unknown_99 (w 7))" let ?w2 = "?w1(8 := fixed_rsrp (w 8))" let ?w3 = "?w2(9 := unknown_max (w 9))"
  have v1: "(if ?w1 8 = - (2 ^ 31) then None else Some (fixed_rsrp (?w1 8))) = Some (fixed_rsrp (w 8))"
    and v2: "Some (unknown_max (?w2 9)) = Some (unknown_max (w 9))" and v3: "Some (unknown_max (?w3 11)) = Some (unknown_max (w 11))"
    using v by simp_all
  obtain M2 where 2: "fix_field T [''LTE_SignalStrength'', ''rsrp''] (\<lambda>v. if v = - (2 ^ 31) then None else Some (fixed_rsrp v)) p M1 = Some M2"
    "words M2 p n ?w2"
    using g(2)[where w = ?w1, OF 1(2) l(2) n(2) v1 i'(2)] by blast
  obtain M3 where 3: "fix_field T [''LTE_SignalStrength'', ''rsrq''] (\<lambda>v. Some (unknown_max v)) p M2 = Some M3" "words M3 p n ?w3"
    using g(3)[where w = ?w2, OF 2(2) l(3) n(3) v2 i'(3)] by blast
  obtain M4 where "fix_field T [''LTE_SignalStrength'', ''cqi''] (\<lambda>v. Some (unknown_max v)) p M3 = Some M4"
    "words M4 p n (?w3(11 := unknown_max (w 11)))"
    using g(3)[where w = ?w3, OF 3(2) l(4) n(4) v3 i'(4)] by blast
  with 1(1) 2(1) 3(1) show ?thesis by (simp add: fix_lte_eq)
qed

lemma fix_lte_overflow:
  assumes T: "signal_layout T" and w: "words M p n w" "13 \<le> n" and v: "w 8 = - (2 ^ 31)"
  shows "fix_lte T p M = None"
proof -
  have i: "int32 (unknown_99 (w 7))" and n: "7 < n" using w fixed_int32(2) by (simp_all add: words_def)
  have l: "field T [''LTE_SignalStrength'', ''signalStrength''] = Some (4 * 7, CI)" "field T [''LTE_SignalStrength'', ''rsrp''] = Some (4 * 8, CI)"
    using T by (simp_all add: signal_layout_def)
  obtain M1 where 1: "fix_field T [''LTE_SignalStrength'', ''signalStrength''] (\<lambda>v. Some (unknown_99 v)) p M = Some M1"
      "words M1 p n (w(7 := unknown_99 (w 7)))"
    using fix_field_words[where f = "\<lambda>v. Some (unknown_99 v)", OF w(1) l(1) n refl i] by blast
  have "load M1 (p + 4 * 8) CI = Some (- (2 ^ 31))"
    using 1(2) w(2) v unfolding words_def by (auto simp del: load.simps dest!: spec[of _ 8])
  then have "fld M1 T p [''LTE_SignalStrength'', ''rsrp''] = Some (- (2 ^ 31))"
    using l(2) by (simp add: fld_def del: load.simps)
  with 1(1) show ?thesis
    by (simp add: fix_lte_eq fix_field_def[of T "[''LTE_SignalStrength'', ''rsrp'']"])
qed

text \<open>The value that the client gets for the words of the structure.\<close>

definition signal_value :: "(nat \<Rightarrow> int) \<Rightarrow> int \<Rightarrow> hval" where
  "signal_value w rscp = signal_strength
     (HR [(''signalStrength'', HI (w 0)), (''bitErrorRate'', HI (w 1))])
     (HR [(''dbm'', HI (w 2)), (''ecio'', HI (w 3))])
     (HR [(''dbm'', HI (w 4)), (''ecio'', HI (w 5)), (''signalNoiseRatio'', HI (w 6))])
     (HR [(''signalStrength'', HI (unknown_99 (w 7))), (''rsrp'', HI (fixed_rsrp (w 8))), (''rsrq'', HI (unknown_max (w 9))),
          (''rssnr'', HI (w 10)), (''cqi'', HI (unknown_max (w 11))), (''timingAdvance'', HI (w 12))]) rscp"

lemma struct_words:
  assumes T: "signal_layout T" and w: "words M p n w" "13 \<le> n"
  shows "struct_of M T p gw_fields = Some (HR [(''signalStrength'', HI (w 0)), (''bitErrorRate'', HI (w 1))])"
    "struct_of M T p cdma_fields = Some (HR [(''dbm'', HI (w 2)), (''ecio'', HI (w 3))])"
    "struct_of M T p evdo_fields = Some (HR [(''dbm'', HI (w 4)), (''ecio'', HI (w 5)), (''signalNoiseRatio'', HI (w 6))])"
    "struct_of M T p lte_fields = Some (HR [(''signalStrength'', HI (w 7)), (''rsrp'', HI (w 8)), (''rsrq'', HI (w 9)),
          (''rssnr'', HI (w 10)), (''cqi'', HI (w 11)), (''timingAdvance'', HI (w 12))])"
proof -
  have l: "load M (p + 4 * i) CI = Some (w i)" if "i < 13" for i using w that by (simp add: words_def)
  note ls = l[of 0] l[of 1] l[of 2] l[of 3] l[of 4] l[of 5] l[of 6] l[of 7] l[of 8] l[of 9] l[of 10] l[of 11] l[of 12]
  note f = T[unfolded signal_layout_def]
  show "struct_of M T p gw_fields = Some (HR [(''signalStrength'', HI (w 0)), (''bitErrorRate'', HI (w 1))])"
    using f ls by (simp add: struct_of_def fields_of_def gw_fields_def fld_def del: load.simps field.simps)
  show "struct_of M T p cdma_fields = Some (HR [(''dbm'', HI (w 2)), (''ecio'', HI (w 3))])"
    using f ls by (simp add: struct_of_def fields_of_def cdma_fields_def fld_def del: load.simps field.simps)
  show "struct_of M T p evdo_fields = Some (HR [(''dbm'', HI (w 4)), (''ecio'', HI (w 5)), (''signalNoiseRatio'', HI (w 6))])"
    using f ls by (simp add: struct_of_def fields_of_def evdo_fields_def fld_def del: load.simps field.simps)
  show "struct_of M T p lte_fields = Some (HR [(''signalStrength'', HI (w 7)), (''rsrp'', HI (w 8)), (''rsrq'', HI (w 9)),
          (''rssnr'', HI (w 10)), (''cqi'', HI (w 11)), (''timingAdvance'', HI (w 12))])"
    using f ls by (simp add: struct_of_def fields_of_def lte_fields_def fld_def del: load.simps field.simps)
qed

lemma sizeof_signal: "sizeof RIL_SignalStrength_v8 = 52" "sizeof RIL_SignalStrength_v10 = 56"
  by (simp_all add: struct_defs round_up_def)

text \<open>C40. Both versions of the signal strength reach the client word for word, with the unknown LTE values put
  right: a strength of -1 becomes 99, an unknown reference power, quality or channel quality becomes the largest
  integer, and a negative reference power is negated. The version without the strength of TD-SCDMA reports the
  largest integer there. Only a reference power of the smallest integer, which has no negation, is not covered:
  there the subtraction overflows.\<close>

theorem signal_strength_values:
  assumes "words M p n w" "n = 13 \<or> n = 14"
  shows "convertRilSignalStrengthToHal M p (4 * n) =
    (if w 8 = - (2 ^ 31) then None else Some (signal_value w (if n = 13 then INT_MAX else w 13)))"
proof (cases "w 8 = - (2 ^ 31)")
  case True
  with assms fix_lte_overflow[OF signal_layouts(1) assms(1)] fix_lte_overflow[OF signal_layouts(2) assms(1)] show ?thesis
    by (auto simp: convertRilSignalStrengthToHal_def convertRilSignalStrengthToHalV8_def convertRilSignalStrengthToHalV10_def sizeof_signal)
next
  case False
  let ?w = "w(7 := unknown_99 (w 7), 8 := fixed_rsrp (w 8), 9 := unknown_max (w 9), 11 := unknown_max (w 11))"
  have n: "13 \<le> n" using assms(2) by auto
  obtain M8 where M8: "fix_lte RIL_SignalStrength_v8 p M = Some M8" "words M8 p n ?w"
    using fix_lte_words[OF signal_layouts(1) assms(1) n False] by blast
  obtain M10 where M10: "fix_lte RIL_SignalStrength_v10 p M = Some M10" "words M10 p n ?w"
    using fix_lte_words[OF signal_layouts(2) assms(1) n False] by blast
  have r: "fld M10 RIL_SignalStrength_v10 p [''TD_SCDMA_SignalStrength'', ''rscp''] = Some (w 13)" if "n = 14"
    using M10(2) that unfolding fld_def signal_layouts(3) words_def by (auto simp del: load.simps dest!: spec[of _ 13])
  show ?thesis
    using assms(2) False r M8(1) M10(1) struct_words[OF signal_layouts(1) M8(2) n] struct_words[OF signal_layouts(2) M10(2) n]
    by (auto simp: convertRilSignalStrengthToHal_def convertRilSignalStrengthToHalV8_def convertRilSignalStrengthToHalV10_def
        sizeof_signal signal_value_def)
qed

lemma replicate_eval: "replicate (numeral k) x = x # replicate (pred_numeral k) x"
  by (simp add: numeral_eq_Suc)

definition demo_signal :: "u8 list" where
  "demo_signal = [20, 0, 0, 0] @ replicate 24 0 @ replicate 4 255 @ [166, 255, 255, 255] @ replicate 4 255 @ replicate 12 0"

theorem signal_strength_values_witness:
  "convertRilSignalStrengthToHal (put_bytes (\<lambda>_. None) 8192 demo_signal) 8192 52 =
    Some (signal_value (\<lambda>i. if i = 0 then 20 else if i = 7 \<or> i = 9 then -1 else if i = 8 then -90 else 0) INT_MAX) \<and>
   unknown_99 (-1) = 99 \<and> fixed_rsrp (-90) = 90"
proof
  let ?w = "\<lambda>i::nat. if i = 0 then 20 else if i = 7 \<or> i = 9 then -1 else if i = 8 then -90 else (0::int)"
  have "words (put_bytes (\<lambda>_. None) 8192 demo_signal) 8192 13 ?w"
    unfolding words_def
  proof (intro allI impI)
    fix i :: nat
    assume "i < 13"
    then have "i \<in> set [0, 1, 2, 3, 4, 5, 6, 7, 8, 9, 10, 11, 12]" by (simp; presburger)
    then show "load (put_bytes (\<lambda>_. None) 8192 demo_signal) (8192 + 4 * i) CI = Some (?w i) \<and> int32 (?w i)"
      unfolding list.set insert_iff empty_iff
      by (elim disjE FalseE; simp add: demo_signal_def replicate_eval mem_eval int32_def)
  qed
  then show "convertRilSignalStrengthToHal (put_bytes (\<lambda>_. None) 8192 demo_signal) 8192 52 = Some (signal_value ?w INT_MAX)"
    using signal_strength_values[of "put_bytes (\<lambda>_. None) 8192 demo_signal" 8192 13 ?w] by simp
qed (simp add: unknown_99_def fixed_rsrp_def)

end
