(* ===== verification/Ril_Build.thy ===== *)
theory Ril_Build
  imports Ril_Requests Ril_Structs
begin

text \<open>
  The methods of the radio interface in \<^verbatim>\<open>ril/libril/ril_service.cpp\<close> that fill a structure of their own for
  the vendor library or choose by the version of the library what they send, in the order of the source.
  A method copies the strings of the client one by one, frees the copies made so far when one fails, and
  frees all of them after the vendor library has taken the request. An allocation is known by its number;
  \<open>oks\<close> says which of them succeed. Enumerations of the interface that are only cast are integers; where
  the code tells their values apart they are datatypes.
\<close>

section \<open>Copies\<close>

record builder =
  daemon :: ril_state
  nalloc :: nat
  live :: "nat list"

type_synonym copied = "(nat \<times> u8 list) option"
type_synonym build = "builder \<Rightarrow> builder rrun"

text \<open>A pointer is \<open>None\<close> for NULL, otherwise the number of its allocation and the string.\<close>

definition copyString :: "(nat \<Rightarrow> bool) \<Rightarrow> hidl_string \<Rightarrow> nat \<Rightarrow> bool \<Rightarrow> builder \<Rightarrow> (copied option \<times> builder) rrun" where
  "copyString oks src pRI allowEmpty b =
     and_then (copyHidlStringToRil (oks (nalloc b)) src pRI allowEmpty (daemon b)) (\<lambda>(r, s).
       case r of
         None \<Rightarrow> Inr (None, b\<lparr>daemon := s, nalloc := Suc (nalloc b), live := (if oks (nalloc b) then [nalloc b] else []) @ live b\<rparr>)
       | Some None \<Rightarrow> Inr (Some None, b\<lparr>daemon := s\<rparr>)
       | Some (Some c) \<Rightarrow> Inr (Some (Some (nalloc b, c)), b\<lparr>daemon := s, nalloc := Suc (nalloc b), live := nalloc b # live b\<rparr>))"

fun memsetAndFreeStrings :: "copied list \<Rightarrow> build" where
  "memsetAndFreeStrings [] b = Inr b"
| "memsetAndFreeStrings (None # ps) b = memsetAndFreeStrings ps b"
| "memsetAndFreeStrings (Some (i, _) # ps) b =
     (if i \<in> set (live b) then memsetAndFreeStrings ps (b\<lparr>live := remove1 i (live b)\<rparr>) else Inl DanglingPointer)"

text \<open>\<^verbatim>\<open>calloc\<close> of memory that is not a string; it is freed like one.\<close>

definition allocate :: "(nat \<Rightarrow> bool) \<Rightarrow> builder \<Rightarrow> copied \<times> builder" where
  "allocate oks b = (if oks (nalloc b) then (Some (nalloc b, []), b\<lparr>nalloc := Suc (nalloc b), live := nalloc b # live b\<rparr>)
     else (None, b\<lparr>nalloc := Suc (nalloc b)\<rparr>))"

text \<open>The pieces of a method: entering the request, one string with what is freed when it cannot be copied,
  an answer with an error, and the call of the vendor library with what is freed after it.\<close>

definition entering :: "nat option \<Rightarrow> int \<Rightarrow> nat \<Rightarrow> int \<Rightarrow> (nat \<Rightarrow> build) \<Rightarrow> build" where
  "entering new serial slot request k b =
     (case addRequestToList new serial slot request (daemon b) of
        (None, s) \<Rightarrow> Inr (b\<lparr>daemon := s\<rparr>)
      | (Some pRI, s) \<Rightarrow> k pRI (b\<lparr>daemon := s\<rparr>))"

definition with_string :: "(nat \<Rightarrow> bool) \<Rightarrow> nat \<Rightarrow> hidl_string \<Rightarrow> bool \<Rightarrow> copied list \<Rightarrow> (copied \<Rightarrow> build) \<Rightarrow> build" where
  "with_string oks pRI src allowEmpty frees k b =
     and_then (copyString oks src pRI allowEmpty b) (\<lambda>(r, b1).
       case r of None \<Rightarrow> memsetAndFreeStrings frees b1 | Some p \<Rightarrow> k p b1)"

definition refuse :: "nat \<Rightarrow> int \<Rightarrow> build" where
  "refuse pRI e b = and_then (sendErrorResponse pRI e (daemon b)) (\<lambda>s. Inr (b\<lparr>daemon := s\<rparr>))"

definition handed :: "int \<Rightarrow> rval \<Rightarrow> nat \<Rightarrow> nat \<Rightarrow> nat \<Rightarrow> copied list \<Rightarrow> build" where
  "handed request v len pRI slot frees b =
     memsetAndFreeStrings frees (b\<lparr>daemon := CALL_ONREQUEST request (Block v len) pRI slot (daemon b)\<rparr>)"

definition dispatching :: "(ril_state \<Rightarrow> (bool \<times> ril_state) rrun) \<Rightarrow> build" where
  "dispatching d b = and_then (d (daemon b)) (\<lambda>(_, s). Inr (b\<lparr>daemon := s\<rparr>))"

definition RIL_E_INVALID_ARGUMENTS :: int where "RIL_E_INVALID_ARGUMENTS = 44"

definition str :: "copied \<Rightarrow> rval" where
  "str p = RStr (map_option snd p)"

section \<open>Calls and data\<close>

record UusInfo =
  uusType :: int
  uusDcs :: int
  uusData :: hidl_string

record Dial =
  dial_address :: hidl_string
  dial_clir :: int
  dial_uusInfo :: "UusInfo list"

definition dial_value :: "copied \<Rightarrow> Dial \<Rightarrow> rval option \<Rightarrow> rval" where
  "dial_value address d uus = RStruct [(''address'', str address), (''clir'', RInt (dial_clir d)), (''uusInfo'', RPtr uus)]"

definition uus_value :: "UusInfo \<Rightarrow> int \<Rightarrow> copied \<Rightarrow> rval" where
  "uus_value u n p = RStruct [(''uusType'', RInt (uusType u)), (''uusDcs'', RInt (uusDcs u)), (''uusLength'', RInt n), (''uusData'', str p)]"

definition dial :: "nat option \<Rightarrow> (nat \<Rightarrow> bool) \<Rightarrow> int \<Rightarrow> nat \<Rightarrow> Dial \<Rightarrow> build" where
  "dial new oks serial slot d = entering new serial slot 10 (\<lambda>pRI.
     with_string oks pRI (dial_address d) False [] (\<lambda>address.
       case dial_uusInfo d of
         [] \<Rightarrow> handed 10 (dial_value address d None) (sizeof RIL_Dial) pRI slot [address, None]
       | u # _ \<Rightarrow>
           if uusData u = []
           then handed 10 (dial_value address d (Some (uus_value u 0 None))) (sizeof RIL_Dial) pRI slot [address, None]
           else with_string oks pRI (uusData u) False [address] (\<lambda>p.
             handed 10 (dial_value address d (Some (uus_value u (int (length (uusData u))) p))) (sizeof RIL_Dial) pRI slot [address, p])))"

datatype MvnoType = IMSI | GID | SPN | NONE | OtherMvno

fun convertMvnoTypeToString :: "MvnoType \<Rightarrow> u8 list option" where
  "convertMvnoTypeToString IMSI = Some (bytes_of ''imsi'')"
| "convertMvnoTypeToString GID = Some (bytes_of ''gid'')"
| "convertMvnoTypeToString SPN = Some (bytes_of ''spn'')"
| "convertMvnoTypeToString NONE = Some []"
| "convertMvnoTypeToString OtherMvno = None"

record DataProfileInfo =
  profileId :: int
  apn :: hidl_string
  protocol :: hidl_string
  roamingProtocol :: hidl_string
  authType :: int
  user :: hidl_string
  password :: hidl_string
  profile_type :: int
  maxConnsTime :: int
  maxConns :: int
  waitTime :: int
  enabled :: bool
  supportedApnTypesBitmap :: int
  bearerBitmap :: int
  mtu :: int
  mvnoType :: MvnoType
  mvnoMatchData :: hidl_string

definition setupDataCall :: "nat option \<Rightarrow> (nat \<Rightarrow> bool) \<Rightarrow> int \<Rightarrow> nat \<Rightarrow> int \<Rightarrow> DataProfileInfo \<Rightarrow> bool \<Rightarrow> bool \<Rightarrow> bool \<Rightarrow> build" where
  "setupDataCall new oks serial slot radioTechnology d modemCognitive roamingAllowed isRoaming b =
     (let v = version (daemon b) in
      if 4 \<le> v \<and> v \<le> 14
      then dispatching (dispatchStrings new oks serial slot 27 True
        [to_string (radioTechnology + 2), to_string (profileId d), cstr_of (apn d), cstr_of (user d), cstr_of (password d),
         to_string (authType d), cstr_of (if isRoaming then roamingProtocol d else protocol d)]) b
      else if v \<ge> 15
      then case convertMvnoTypeToString (mvnoType d) of
          None \<Rightarrow> entering new serial slot 27 (\<lambda>pRI. refuse pRI RIL_E_INVALID_ARGUMENTS) b
        | Some mvno \<Rightarrow> dispatching (dispatchStrings new oks serial slot 27 True
            [to_string (radioTechnology + 2), to_string (profileId d), cstr_of (apn d), cstr_of (user d), cstr_of (password d),
             to_string (authType d), cstr_of (protocol d), cstr_of (roamingProtocol d), to_string (supportedApnTypesBitmap d),
             to_string (bearerBitmap d), flag_string modemCognitive, to_string (mtu d), mvno, cstr_of (mvnoMatchData d),
             flag_string roamingAllowed]) b
      else entering new serial slot 27 (\<lambda>pRI. refuse pRI RIL_E_REQUEST_NOT_SUPPORTED) b)"

record IccIo =
  io_command :: int
  io_fileId :: int
  io_path :: hidl_string
  io_p1 :: int
  io_p2 :: int
  io_p3 :: int
  io_data :: hidl_string
  io_pin2 :: hidl_string
  io_aid :: hidl_string

definition iccIOForApp :: "nat option \<Rightarrow> (nat \<Rightarrow> bool) \<Rightarrow> int \<Rightarrow> nat \<Rightarrow> IccIo \<Rightarrow> build" where
  "iccIOForApp new oks serial slot c = entering new serial slot 28 (\<lambda>pRI.
     with_string oks pRI (io_path c) False [] (\<lambda>path.
     with_string oks pRI (io_data c) False [path] (\<lambda>d.
     with_string oks pRI (io_pin2 c) False [path, d] (\<lambda>pin2.
     with_string oks pRI (io_aid c) False [path, d, pin2] (\<lambda>aid.
       handed 28 (RStruct [(''command'', RInt (io_command c)), (''fileid'', RInt (io_fileId c)), (''path'', str path),
         (''p1'', RInt (io_p1 c)), (''p2'', RInt (io_p2 c)), (''p3'', RInt (io_p3 c)), (''data'', str d), (''pin2'', str pin2),
         (''aidPtr'', str aid)]) (sizeof RIL_SIM_IO_v6) pRI slot [path, d, pin2, aid])))))"

section \<open>Network scan\<close>

datatype RadioAccessNetworks = GERAN | UTRAN | EUTRAN | OtherNetwork

record RadioAccessSpecifier =
  radioAccessNetwork :: RadioAccessNetworks
  geranBands :: "int list"
  utranBands :: "int list"
  eutranBands :: "int list"
  channels :: "int list"

record NetworkScanRequest =
  scan_type :: int
  scan_interval :: int
  specifiers :: "RadioAccessSpecifier list"

definition MAX_BANDS :: nat where "MAX_BANDS = 8"
definition MAX_CHANNELS :: nat where "MAX_CHANNELS = 32"
definition MAX_RADIO_ACCESS_NETWORKS :: nat where "MAX_RADIO_ACCESS_NETWORKS = 8"

definition bands_of :: "RadioAccessSpecifier \<Rightarrow> int list option" where
  "bands_of r = (case radioAccessNetwork r of GERAN \<Rightarrow> Some (geranBands r) | UTRAN \<Rightarrow> Some (utranBands r) | EUTRAN \<Rightarrow> Some (eutranBands r)
     | OtherNetwork \<Rightarrow> None)"

text \<open>One round of the loop over the specifiers, \<open>None\<close> where the request is refused. \<open>num\<close> gives the number of
  a network. Arrays are given up to their last filled entry; the rest is zero.\<close>

definition specifier :: "(RadioAccessNetworks \<Rightarrow> int) \<Rightarrow> RadioAccessSpecifier \<Rightarrow> rval option" where
  "specifier num r =
     (if length (geranBands r) > MAX_BANDS \<or> length (utranBands r) > MAX_BANDS \<or> length (eutranBands r) > MAX_BANDS \<or>
         length (channels r) > MAX_CHANNELS then None
      else map_option (\<lambda>bands. RStruct [(''radio_access_network'', RInt (num (radioAccessNetwork r))),
          (''bands_length'', RInt (int (length bands))), (''bands'', RArr (map RInt bands)),
          (''channels_length'', RInt (int (length (channels r)))), (''channels'', RArr (map RInt (channels r)))]) (bands_of r))"

definition startNetworkScan :: "(RadioAccessNetworks \<Rightarrow> int) \<Rightarrow> nat option \<Rightarrow> int \<Rightarrow> nat \<Rightarrow> NetworkScanRequest \<Rightarrow> build" where
  "startNetworkScan num new serial slot request = entering new serial slot 142 (\<lambda>pRI.
     if length (specifiers request) > MAX_RADIO_ACCESS_NETWORKS then refuse pRI RIL_E_INVALID_ARGUMENTS
     else case those (map (specifier num) (specifiers request)) of
         None \<Rightarrow> refuse pRI RIL_E_INVALID_ARGUMENTS
       | Some ras \<Rightarrow> handed 142 (RStruct [(''type'', RInt (scan_type request)), (''interval'', RInt (scan_interval request)),
           (''specifiers_length'', RInt (int (length (specifiers request)))), (''specifiers'', RArr ras)])
           (sizeof RIL_NetworkScanRequest) pRI slot [])"

section \<open>Short messages\<close>

record SmsWriteArgs =
  sms_status :: int
  sms_pdu :: hidl_string
  sms_smsc :: hidl_string

definition writeSmsToSim :: "nat option \<Rightarrow> (nat \<Rightarrow> bool) \<Rightarrow> int \<Rightarrow> nat \<Rightarrow> SmsWriteArgs \<Rightarrow> build" where
  "writeSmsToSim new oks serial slot w = entering new serial slot 63 (\<lambda>pRI.
     with_string oks pRI (sms_pdu w) False [] (\<lambda>p.
     with_string oks pRI (sms_smsc w) False [p] (\<lambda>smsc.
       handed 63 (RStruct [(''status'', RInt (sms_status w)), (''pdu'', str p), (''smsc'', str smsc)])
         (sizeof RIL_SMS_WriteArgs) pRI slot [smsc, p])))"

record CdmaSmsMessage =
  teleserviceId :: int
  isServicePresent :: bool
  serviceCategory :: int
  digitMode :: int
  numberMode :: int
  numberType :: int
  numberPlan :: int
  address_digits :: "u8 list"
  subaddressType :: int
  subaddress_odd :: bool
  subaddress_digits :: "u8 list"
  bearerData :: "u8 list"

definition RIL_CDMA_SMS_ADDRESS_MAX :: nat where "RIL_CDMA_SMS_ADDRESS_MAX = 36"
definition RIL_CDMA_SMS_SUBADDRESS_MAX :: nat where "RIL_CDMA_SMS_SUBADDRESS_MAX = 36"
definition RIL_CDMA_SMS_BEARER_DATA_MAX :: nat where "RIL_CDMA_SMS_BEARER_DATA_MAX = 255"

text \<open>The numbers of digits are kept in bytes.\<close>

definition sms_digits :: "nat \<Rightarrow> u8 list \<Rightarrow> (string \<times> rval) list" where
  "sms_digits limit ds = (let n = length ds mod 256 in
     [(''number_of_digits'', RInt (int n)), (''digits'', RBytes (take (min n limit) ds))])"

definition constructCdmaSms :: "CdmaSmsMessage \<Rightarrow> rval" where
  "constructCdmaSms m = RStruct [(''uTeleserviceID'', RInt (teleserviceId m)),
     (''bIsServicePresent'', RInt (BOOL_TO_INT (isServicePresent m))), (''uServicecategory'', RInt (serviceCategory m)),
     (''sAddress'', RStruct ([(''digit_mode'', RInt (digitMode m)), (''number_mode'', RInt (numberMode m)),
        (''number_type'', RInt (numberType m)), (''number_plan'', RInt (numberPlan m))]
        @ sms_digits RIL_CDMA_SMS_ADDRESS_MAX (address_digits m))),
     (''sSubAddress'', RStruct ([(''subaddressType'', RInt (subaddressType m)), (''odd'', RInt (BOOL_TO_INT (subaddress_odd m)))]
        @ sms_digits RIL_CDMA_SMS_SUBADDRESS_MAX (subaddress_digits m))),
     (''uBearerDataLen'', RInt (int (length (bearerData m)))),
     (''aBearerData'', RBytes (take (min (length (bearerData m)) RIL_CDMA_SMS_BEARER_DATA_MAX) (bearerData m)))]"

definition sendCdmaSms :: "nat option \<Rightarrow> int \<Rightarrow> nat \<Rightarrow> CdmaSmsMessage \<Rightarrow> build" where
  "sendCdmaSms new serial slot sms = entering new serial slot 87 (\<lambda>pRI.
     handed 87 (constructCdmaSms sms) (sizeof RIL_CDMA_SMS_Message) pRI slot [])"

definition acknowledgeLastIncomingCdmaSms :: "nat option \<Rightarrow> int \<Rightarrow> nat \<Rightarrow> int \<Rightarrow> int \<Rightarrow> build" where
  "acknowledgeLastIncomingCdmaSms new serial slot errorClass smsCauseCode = entering new serial slot 88 (\<lambda>pRI.
     handed 88 (RStruct [(''uErrorClass'', RInt errorClass), (''uSMSCauseCode'', RInt smsCauseCode)]) (sizeof RIL_CDMA_SMS_Ack) pRI slot [])"

record GsmBroadcastSmsConfigInfo =
  fromServiceId :: int
  toServiceId :: int
  fromCodeScheme :: int
  toCodeScheme :: int
  gsm_selected :: bool

definition setGsmBroadcastConfig :: "nat option \<Rightarrow> int \<Rightarrow> nat \<Rightarrow> GsmBroadcastSmsConfigInfo list \<Rightarrow> build" where
  "setGsmBroadcastConfig new serial slot configInfo = entering new serial slot 90 (\<lambda>pRI.
     handed 90 (RArr (map (\<lambda>c. RPtr (Some (RStruct [(''fromServiceId'', RInt (fromServiceId c)), (''toServiceId'', RInt (toServiceId c)),
         (''fromCodeScheme'', RInt (fromCodeScheme c)), (''toCodeScheme'', RInt (toCodeScheme c)),
         (''selected'', RInt (BOOL_TO_INT (gsm_selected c)))]))) configInfo)) (length configInfo * sizeof CP) pRI slot [])"

record CdmaBroadcastSmsConfigInfo =
  cdma_serviceCategory :: int
  cdma_language :: int
  cdma_selected :: bool

definition setCdmaBroadcastConfig :: "nat option \<Rightarrow> int \<Rightarrow> nat \<Rightarrow> CdmaBroadcastSmsConfigInfo list \<Rightarrow> build" where
  "setCdmaBroadcastConfig new serial slot configInfo = entering new serial slot 93 (\<lambda>pRI.
     handed 93 (RArr (map (\<lambda>c. RPtr (Some (RStruct [(''service_category'', RInt (cdma_serviceCategory c)),
         (''language'', RInt (cdma_language c)), (''selected'', RInt (BOOL_TO_INT (cdma_selected c)))]))) configInfo))
       (length configInfo * sizeof CP) pRI slot [])"

definition writeSmsToRuim :: "nat option \<Rightarrow> int \<Rightarrow> nat \<Rightarrow> int \<Rightarrow> CdmaSmsMessage \<Rightarrow> build" where
  "writeSmsToRuim new serial slot status msg = entering new serial slot 96 (\<lambda>pRI.
     handed 96 (RStruct [(''status'', RInt status), (''message'', constructCdmaSms msg)]) (sizeof RIL_CDMA_SMS_WriteArgs) pRI slot [])"

section \<open>Attaching and messages over IMS\<close>

definition setInitialAttachApn :: "nat option \<Rightarrow> (nat \<Rightarrow> bool) \<Rightarrow> int \<Rightarrow> nat \<Rightarrow> DataProfileInfo \<Rightarrow> bool \<Rightarrow> bool \<Rightarrow> build" where
  "setInitialAttachApn new oks serial slot d modemCognitive isRoaming = entering new serial slot 111 (\<lambda>pRI b.
     if version (daemon b) \<le> 14
     then with_string oks pRI (apn d) True [] (\<lambda>a.
       with_string oks pRI (if isRoaming then roamingProtocol d else protocol d) False [a] (\<lambda>p.
       with_string oks pRI (user d) False [a, p] (\<lambda>u.
       with_string oks pRI (password d) False [a, p, u] (\<lambda>w.
         handed 111 (RStruct [(''apn'', str a), (''protocol'', str p), (''authtype'', RInt (authType d)), (''username'', str u),
           (''password'', str w)]) (sizeof RIL_InitialAttachApn) pRI slot [a, p, u, w])))) b
     else with_string oks pRI (apn d) True [] (\<lambda>a.
       with_string oks pRI (protocol d) False [a] (\<lambda>p.
       with_string oks pRI (roamingProtocol d) False [a, p] (\<lambda>r.
       with_string oks pRI (user d) False [a, p, r] (\<lambda>u.
       with_string oks pRI (password d) False [a, p, r, u] (\<lambda>w b1.
         case convertMvnoTypeToString (mvnoType d) of
           None \<Rightarrow> and_then (refuse pRI RIL_E_INVALID_ARGUMENTS b1) (memsetAndFreeStrings [a, p, r, u, w])
         | Some mvno \<Rightarrow> with_string oks pRI (mvnoMatchData d) False [a, p, r, u, w] (\<lambda>q.
             handed 111 (RStruct [(''apn'', str a), (''protocol'', str p), (''roamingProtocol'', str r),
               (''authtype'', RInt (authType d)), (''username'', str u), (''password'', str w),
               (''supportedTypesBitmask'', RInt (supportedApnTypesBitmap d)), (''bearerBitmask'', RInt (bearerBitmap d)),
               (''modemCognitive'', RInt (BOOL_TO_INT modemCognitive)), (''mtu'', RInt (mtu d)), (''mvnoType'', RStr (Some mvno)),
               (''mvnoMatchData'', str q)]) (sizeof RIL_InitialAttachApn_v15) pRI slot [a, p, r, u, w, q]) b1))))) b)"

record ImsSmsMessage =
  ims_tech :: int
  ims_retry :: bool
  ims_messageRef :: int
  ims_cdmaMessage :: "CdmaSmsMessage list"
  ims_gsmMessage :: "GsmSmsMessage list"

text \<open>The size of the header counts its fields without the gaps between them.\<close>

definition ims_value :: "int \<Rightarrow> ImsSmsMessage \<Rightarrow> string \<Rightarrow> rval \<Rightarrow> rval" where
  "ims_value tech m f v = RStruct [(''tech'', RInt tech), (''retry'', RInt (BOOL_TO_INT (ims_retry m))),
     (''messageRef'', RInt (ims_messageRef m)), (f, RPtr (Some v))]"

definition ims_header :: nat where
  "ims_header = sizeof CI + sizeof CC + sizeof CI"

definition dispatchImsGsmSms :: "(nat \<Rightarrow> bool) \<Rightarrow> nat \<Rightarrow> ImsSmsMessage \<Rightarrow> nat \<Rightarrow> build" where
  "dispatchImsGsmSms oks slot m pRI b =
     (case ims_gsmMessage m of
        [g] \<Rightarrow> (case allocate oks b of
            (None, b1) \<Rightarrow> refuse pRI RIL_E_NO_MEMORY b1
          | (pStrings, b1) \<Rightarrow>
              with_string oks pRI (smscPdu g) False [pStrings] (\<lambda>p.
              with_string oks pRI (pdu g) False [p, pStrings] (\<lambda>q.
                handed 113 (ims_value 1 m ''gsmMessage'' (RArr [str p, str q])) (ims_header + 2 * sizeof CP) pRI slot [p, q, pStrings])) b1)
      | _ \<Rightarrow> refuse pRI RIL_E_INVALID_ARGUMENTS b)"

definition dispatchImsCdmaSms :: "nat \<Rightarrow> ImsSmsMessage \<Rightarrow> nat \<Rightarrow> build" where
  "dispatchImsCdmaSms slot m pRI =
     (case ims_cdmaMessage m of
        [c] \<Rightarrow> handed 113 (ims_value 2 m ''cdmaMessage'' (constructCdmaSms c)) (ims_header + sizeof RIL_CDMA_SMS_Message) pRI slot []
      | _ \<Rightarrow> refuse pRI RIL_E_INVALID_ARGUMENTS)"

definition sendImsSms :: "nat option \<Rightarrow> (nat \<Rightarrow> bool) \<Rightarrow> int \<Rightarrow> nat \<Rightarrow> ImsSmsMessage \<Rightarrow> build" where
  "sendImsSms new oks serial slot m = entering new serial slot 113 (\<lambda>pRI.
     if ims_tech m = 1 then dispatchImsGsmSms oks slot m pRI
     else if ims_tech m = 2 then dispatchImsCdmaSms slot m pRI
     else refuse pRI RIL_E_INVALID_ARGUMENTS)"

section \<open>Card and modem\<close>

definition iccOpenLogicalChannel :: "nat option \<Rightarrow> (nat \<Rightarrow> bool) \<Rightarrow> int \<Rightarrow> nat \<Rightarrow> hidl_string \<Rightarrow> int \<Rightarrow> build" where
  "iccOpenLogicalChannel new oks serial slot aid p2 b =
     (if version (daemon b) < 15 then dispatching (dispatchString new oks serial slot 115 (cstr_of aid)) b
      else entering new serial slot 115 (\<lambda>pRI.
        with_string oks pRI aid False [] (\<lambda>a.
          handed 115 (RStruct [(''aidPtr'', str a), (''p2'', RInt p2)]) (sizeof RIL_OpenChannelParams) pRI slot [a])) b)"

definition nvReadItem :: "nat option \<Rightarrow> int \<Rightarrow> nat \<Rightarrow> int \<Rightarrow> build" where
  "nvReadItem new serial slot itemId = entering new serial slot 118 (\<lambda>pRI.
     handed 118 (RStruct [(''itemID'', RInt itemId)]) (sizeof RIL_NV_ReadItem) pRI slot [])"

definition nvWriteItem :: "nat option \<Rightarrow> (nat \<Rightarrow> bool) \<Rightarrow> int \<Rightarrow> nat \<Rightarrow> int \<Rightarrow> hidl_string \<Rightarrow> build" where
  "nvWriteItem new oks serial slot itemId v = entering new serial slot 119 (\<lambda>pRI.
     with_string oks pRI v False [] (\<lambda>p.
       handed 119 (RStruct [(''itemID'', RInt itemId), (''value'', str p)]) (sizeof RIL_NV_WriteItem) pRI slot [p]))"

datatype ResetNvType = RELOAD | ERASE | FACTORY_RESET | OtherReset

fun rilResetType :: "ResetNvType \<Rightarrow> int" where
  "rilResetType RELOAD = 1"
| "rilResetType ERASE = 2"
| "rilResetType FACTORY_RESET = 3"
| "rilResetType OtherReset = -1"

definition nvResetConfig :: "nat option \<Rightarrow> (nat \<Rightarrow> bool) \<Rightarrow> int \<Rightarrow> nat \<Rightarrow> ResetNvType \<Rightarrow> build" where
  "nvResetConfig new oks serial slot t = dispatching (dispatchInts new oks serial slot 121 [rilResetType t])"

text \<open>The structure of this request is declared in a header outside the sources; \<open>sz\<close> is its size.\<close>

definition setUiccSubscription :: "nat \<Rightarrow> nat option \<Rightarrow> int \<Rightarrow> nat \<Rightarrow> int \<Rightarrow> int \<Rightarrow> int \<Rightarrow> int \<Rightarrow> build" where
  "setUiccSubscription sz new serial slot uicc_slot app_index sub_type act_status = entering new serial slot 122 (\<lambda>pRI.
     handed 122 (RStruct [(''slot'', RInt uicc_slot), (''app_index'', RInt app_index), (''sub_type'', RInt sub_type),
       (''act_status'', RInt act_status)]) sz pRI slot [])"

definition requestIccSimAuthentication :: "nat option \<Rightarrow> (nat \<Rightarrow> bool) \<Rightarrow> int \<Rightarrow> nat \<Rightarrow> int \<Rightarrow> hidl_string \<Rightarrow> hidl_string \<Rightarrow> build" where
  "requestIccSimAuthentication new oks serial slot authContext authData aid = entering new serial slot 125 (\<lambda>pRI.
     with_string oks pRI authData False [] (\<lambda>d.
     with_string oks pRI aid False [d] (\<lambda>a.
       handed 125 (RStruct [(''authContext'', RInt authContext), (''authData'', str d), (''aid'', str a)])
         (sizeof RIL_SimAuthentication) pRI slot [d, a])))"

section \<open>Data profiles\<close>

text \<open>The strings of one profile, until one fails: whether all were copied, and the pointers, NULL for those
  that were not reached.\<close>

fun copy_fields :: "(nat \<Rightarrow> bool) \<Rightarrow> nat \<Rightarrow> (hidl_string \<times> bool) list \<Rightarrow> builder \<Rightarrow> (bool \<times> copied list \<times> builder) rrun" where
  "copy_fields oks pRI [] b = Inr (True, [], b)"
| "copy_fields oks pRI ((src, allowEmpty) # fs) b =
     and_then (copyString oks src pRI allowEmpty b) (\<lambda>(r, b1).
       case r of
         None \<Rightarrow> Inr (False, replicate (Suc (length fs)) None, b1)
       | Some p \<Rightarrow> and_then (copy_fields oks pRI fs b1) (\<lambda>(ok', ps, b2). Inr (ok', p # ps, b2)))"

text \<open>The loop over the profiles: \<open>flds\<close> are the strings of a profile, \<open>check\<close> is what is tested after them and
  \<open>val\<close> the structure. The result is the structures, \<open>None\<close> when a profile failed, and the pointers of all profiles.\<close>

fun copy_profiles :: "(nat \<Rightarrow> bool) \<Rightarrow> nat \<Rightarrow> (DataProfileInfo \<Rightarrow> (hidl_string \<times> bool) list) \<Rightarrow> (DataProfileInfo \<Rightarrow> bool) \<Rightarrow>
    (DataProfileInfo \<Rightarrow> copied list \<Rightarrow> rval) \<Rightarrow> DataProfileInfo list \<Rightarrow> builder \<Rightarrow> (rval list option \<times> copied list list \<times> builder) rrun" where
  "copy_profiles oks pRI flds check val [] b = Inr (Some [], [], b)"
| "copy_profiles oks pRI flds check val (d # ds) b =
     and_then (copy_fields oks pRI (flds d) b) (\<lambda>(success, ps, b1).
       let rest = map (\<lambda>d. replicate (length (flds d)) None) ds in
       if \<not> success then Inr (None, ps # rest, b1)
       else if \<not> check d then and_then (refuse pRI RIL_E_INVALID_ARGUMENTS b1) (\<lambda>b2. Inr (None, ps # rest, b2))
       else and_then (copy_profiles oks pRI flds check val ds b1) (\<lambda>(vs, pss, b2). Inr (map_option (\<lambda>vs. val d ps # vs) vs, ps # pss, b2)))"

definition freeSetDataProfileData :: "nat \<Rightarrow> copied list list \<Rightarrow> copied \<Rightarrow> copied \<Rightarrow> build" where
  "freeSetDataProfileData numfields pss dataProfiles dataProfilePtrs =
     memsetAndFreeStrings (concat (map (\<lambda>i. map (\<lambda>ps. ps ! i) pss) [0..<numfields]) @ [dataProfiles, dataProfilePtrs])"

definition profile_fields_v14 :: "bool \<Rightarrow> DataProfileInfo \<Rightarrow> (hidl_string \<times> bool) list" where
  "profile_fields_v14 isRoaming d = [(apn d, True), (if isRoaming then roamingProtocol d else protocol d, True), (user d, True), (password d, True)]"

definition profile_fields_v15 :: "DataProfileInfo \<Rightarrow> (hidl_string \<times> bool) list" where
  "profile_fields_v15 d = [(apn d, True), (protocol d, False), (roamingProtocol d, True), (user d, True), (password d, True), (mvnoMatchData d, True)]"

definition profile_numbers :: "DataProfileInfo \<Rightarrow> (string \<times> rval) list" where
  "profile_numbers d = [(''profileId'', RInt (profileId d)), (''authType'', RInt (authType d)), (''type'', RInt (profile_type d)),
     (''maxConnsTime'', RInt (maxConnsTime d)), (''maxConns'', RInt (maxConns d)), (''waitTime'', RInt (waitTime d)),
     (''enabled'', RInt (BOOL_TO_INT (enabled d)))]"

definition profile_v14 :: "DataProfileInfo \<Rightarrow> copied list \<Rightarrow> rval" where
  "profile_v14 d ps = RPtr (Some (RStruct (zip [''apn'', ''protocol'', ''user'', ''password''] (map str ps) @ profile_numbers d)))"

definition profile_v15 :: "DataProfileInfo \<Rightarrow> copied list \<Rightarrow> rval" where
  "profile_v15 d ps = RPtr (Some (RStruct (zip [''apn'', ''protocol'', ''roamingProtocol'', ''user'', ''password'', ''mvnoMatchData''] (map str ps)
     @ [(''mvnoType'', RStr (convertMvnoTypeToString (mvnoType d)))] @ profile_numbers d @
     [(''supportedTypesBitmask'', RInt (supportedApnTypesBitmap d)), (''bearerBitmask'', RInt (bearerBitmap d)), (''mtu'', RInt (mtu d))])))"

text \<open>The two versions differ in the structure and its strings only.\<close>

definition send_profiles :: "(nat \<Rightarrow> bool) \<Rightarrow> nat \<Rightarrow> nat \<Rightarrow> (DataProfileInfo \<Rightarrow> (hidl_string \<times> bool) list) \<Rightarrow> (DataProfileInfo \<Rightarrow> bool) \<Rightarrow>
    (DataProfileInfo \<Rightarrow> copied list \<Rightarrow> rval) \<Rightarrow> nat \<Rightarrow> DataProfileInfo list \<Rightarrow> build" where
  "send_profiles oks slot numfields flds check val pRI profiles b =
     (case allocate oks b of
        (None, b1) \<Rightarrow> refuse pRI RIL_E_NO_MEMORY b1
      | (dataProfiles, b1) \<Rightarrow> (case allocate oks b1 of
          (None, b2) \<Rightarrow> and_then (memsetAndFreeStrings [dataProfiles] b2) (refuse pRI RIL_E_NO_MEMORY)
        | (dataProfilePtrs, b2) \<Rightarrow>
            and_then (copy_profiles oks pRI flds check val profiles b2) (\<lambda>(vs, pss, b3).
              case vs of
                None \<Rightarrow> freeSetDataProfileData numfields pss dataProfiles dataProfilePtrs b3
              | Some vs \<Rightarrow> and_then (handed 128 (RArr vs) (length profiles * sizeof CP) pRI slot [] b3)
                  (freeSetDataProfileData numfields pss dataProfiles dataProfilePtrs))))"

definition setDataProfile :: "nat option \<Rightarrow> (nat \<Rightarrow> bool) \<Rightarrow> int \<Rightarrow> nat \<Rightarrow> DataProfileInfo list \<Rightarrow> bool \<Rightarrow> build" where
  "setDataProfile new oks serial slot profiles isRoaming = entering new serial slot 128 (\<lambda>pRI b.
     if version (daemon b) \<le> 14
     then send_profiles oks slot 4 (profile_fields_v14 isRoaming) (\<lambda>_. True) profile_v14 pRI profiles b
     else send_profiles oks slot 6 profile_fields_v15 (\<lambda>d. convertMvnoTypeToString (mvnoType d) \<noteq> None) profile_v15 pRI profiles b)"

section \<open>Capabilities, carriers and keepalive\<close>

definition MAX_UUID_LENGTH :: nat where "MAX_UUID_LENGTH = 64"

definition setRadioCapability :: "nat option \<Rightarrow> int \<Rightarrow> nat \<Rightarrow> int \<Rightarrow> int \<Rightarrow> int \<Rightarrow> hidl_string \<Rightarrow> int \<Rightarrow> build" where
  "setRadioCapability new serial slot session phase raf logicalModemUuid status = entering new serial slot 131 (\<lambda>pRI.
     handed 131 (RStruct [(''session'', RInt session), (''phase'', RInt phase), (''rat'', RInt raf), (''status'', RInt status),
       (''logicalModemUuid'', RBytes (take (MAX_UUID_LENGTH - 1) (cstr_of logicalModemUuid) @ [0]))]) (sizeof RIL_RadioCapability) pRI slot [])"

record Carrier =
  carrier_mcc :: hidl_string
  carrier_mnc :: hidl_string
  carrier_matchType :: int
  carrier_matchData :: hidl_string

definition carrier_value :: "Carrier \<Rightarrow> rval" where
  "carrier_value c = RStruct [(''mcc'', RStr (Some (cstr_of (carrier_mcc c)))), (''mnc'', RStr (Some (cstr_of (carrier_mnc c)))),
     (''match_type'', RInt (carrier_matchType c)), (''match_data'', RStr (Some (cstr_of (carrier_matchData c))))]"

definition setAllowedCarriers :: "nat option \<Rightarrow> (nat \<Rightarrow> bool) \<Rightarrow> int \<Rightarrow> nat \<Rightarrow> bool \<Rightarrow> Carrier list \<Rightarrow> Carrier list \<Rightarrow> build" where
  "setAllowedCarriers new oks serial slot allAllowed allowed excluded = entering new serial slot 136 (\<lambda>pRI b.
     case allocate oks b of
       (None, b1) \<Rightarrow> refuse pRI RIL_E_NO_MEMORY b1
     | (p, b1) \<Rightarrow> (case allocate oks b1 of
         (None, b2) \<Rightarrow> and_then (refuse pRI RIL_E_NO_MEMORY b2) (memsetAndFreeStrings [p])
       | (q, b2) \<Rightarrow> handed 136 (RStruct [(''len_allowed_carriers'', RInt (int (length allowed))),
             (''len_excluded_carriers'', RInt (int (length excluded))),
             (''allowed_carriers'', RPtr (Some (RArr (map carrier_value allowed)))),
             (''excluded_carriers'', RPtr (Some (RArr (map carrier_value excluded))))]) (sizeof RIL_CarrierRestrictions) pRI slot [p, q] b2))"

record ImsiEncryptionInfo =
  imsi_mcc :: hidl_string
  imsi_mnc :: hidl_string
  imsi_carrierKey :: "u8 list"
  imsi_keyIdentifier :: hidl_string
  imsi_expirationTime :: int

text \<open>\<^verbatim>\<open>new\<close> does not return NULL. Of what was allocated only the key is given back.\<close>

definition setCarrierInfoForImsiEncryption :: "nat option \<Rightarrow> (nat \<Rightarrow> bool) \<Rightarrow> int \<Rightarrow> nat \<Rightarrow> ImsiEncryptionInfo \<Rightarrow> build" where
  "setCarrierInfoForImsiEncryption new oks serial slot d = entering new serial slot 141 (\<lambda>pRI.
     with_string oks pRI (imsi_mnc d) False [] (\<lambda>mnc.
     with_string oks pRI (imsi_mcc d) False [mnc] (\<lambda>mcc.
     with_string oks pRI (imsi_keyIdentifier d) False [mnc, mcc] (\<lambda>k b.
       case allocate (\<lambda>_. True) b of (p, b1) \<Rightarrow>
         handed 141 (RStruct [(''mcc'', str mcc), (''mnc'', str mnc), (''carrierKey'', RPtr (Some (RBytes (imsi_carrierKey d)))),
           (''carrierKeyLength'', RInt (int (length (imsi_carrierKey d)))), (''keyIdentifier'', str k),
           (''expirationTime'', RInt (imsi_expirationTime d))]) (sizeof RIL_CarrierInfoForImsiEncryption) pRI slot [p] b1))))"

record KeepaliveRequest =
  ka_type :: int
  sourceAddress :: "u8 list"
  sourcePort :: int
  destinationAddress :: "u8 list"
  destinationPort :: int
  maxKeepaliveIntervalMillis :: int
  ka_cid :: int

definition keepalive_addresses :: "KeepaliveRequest \<Rightarrow> bool" where
  "keepalive_addresses k =
     (if ka_type k = 0 then length (sourceAddress k) = 4 \<and> length (destinationAddress k) = 4
      else if ka_type k = 1 then length (sourceAddress k) = 16 \<and> length (destinationAddress k) = 16
      else False)"

definition startKeepalive :: "nat option \<Rightarrow> int \<Rightarrow> nat \<Rightarrow> KeepaliveRequest \<Rightarrow> build" where
  "startKeepalive new serial slot k = entering new serial slot 144 (\<lambda>pRI.
     if \<not> keepalive_addresses k then refuse pRI RIL_E_INVALID_ARGUMENTS
     else handed 144 (RStruct [(''type'', RInt (ka_type k)), (''sourceAddress'', RBytes (sourceAddress k)), (''sourcePort'', RInt (sourcePort k)),
       (''destinationAddress'', RBytes (destinationAddress k)), (''destinationPort'', RInt (destinationPort k)),
       (''maxKeepaliveIntervalMillis'', RInt (maxKeepaliveIntervalMillis k)), (''cid'', RInt (ka_cid k))]) (sizeof RIL_KeepaliveRequest) pRI slot [])"

definition stopKeepalive :: "nat option \<Rightarrow> int \<Rightarrow> nat \<Rightarrow> int \<Rightarrow> build" where
  "stopKeepalive new serial slot sessionHandle = entering new serial slot 145 (\<lambda>pRI.
     handed 145 (RInt sessionHandle) (sizeof CU) pRI slot [])"

end
