(* ===== verification/Ril_Build_Correct.thy ===== *)
theory Ril_Build_Correct
  imports Ril_Build "HOL-Library.Multiset" "HOL-Library.Sublist"
begin

text \<open>
  Properties of the methods that fill structures: whatever allocations fail, a method ends with every copy
  freed once, and with either one call of the vendor library or one answer to the client.
\<close>

section \<open>Calls\<close>

datatype struct_call =
    CDial Dial
  | CSetupDataCall int DataProfileInfo bool bool bool
  | CIccIo IccIo
  | CNetworkScan NetworkScanRequest
  | CWriteSms SmsWriteArgs
  | CSendCdmaSms CdmaSmsMessage
  | CAckCdmaSms int int
  | CGsmBroadcast "GsmBroadcastSmsConfigInfo list"
  | CCdmaBroadcast "CdmaBroadcastSmsConfigInfo list"
  | CWriteRuim int CdmaSmsMessage
  | CInitialAttach DataProfileInfo bool bool
  | CImsSms ImsSmsMessage
  | COpenChannel hidl_string int
  | CNvRead int
  | CNvWrite int hidl_string
  | CNvReset ResetNvType
  | CUicc int int int int
  | CSimAuth int hidl_string hidl_string
  | CDataProfiles "DataProfileInfo list" bool
  | CRadioCapability int int int hidl_string int
  | CAllowedCarriers bool "Carrier list" "Carrier list"
  | CStartKeepalive KeepaliveRequest
  | CStopKeepalive int

text \<open>\<open>num\<close> and \<open>sz\<close> are the numbers of the networks and the size of the one structure that other headers declare.\<close>

fun run_call :: "(RadioAccessNetworks \<Rightarrow> int) \<Rightarrow> nat \<Rightarrow> nat option \<Rightarrow> (nat \<Rightarrow> bool) \<Rightarrow> int \<Rightarrow> nat \<Rightarrow> struct_call \<Rightarrow> build" where
  "run_call num sz new oks serial slot (CDial d) = dial new oks serial slot d"
| "run_call num sz new oks serial slot (CSetupDataCall t d c r i) = setupDataCall new oks serial slot t d c r i"
| "run_call num sz new oks serial slot (CIccIo d) = iccIOForApp new oks serial slot d"
| "run_call num sz new oks serial slot (CNetworkScan d) = startNetworkScan num new serial slot d"
| "run_call num sz new oks serial slot (CWriteSms d) = writeSmsToSim new oks serial slot d"
| "run_call num sz new oks serial slot (CSendCdmaSms d) = sendCdmaSms new serial slot d"
| "run_call num sz new oks serial slot (CAckCdmaSms e c) = acknowledgeLastIncomingCdmaSms new serial slot e c"
| "run_call num sz new oks serial slot (CGsmBroadcast d) = setGsmBroadcastConfig new serial slot d"
| "run_call num sz new oks serial slot (CCdmaBroadcast d) = setCdmaBroadcastConfig new serial slot d"
| "run_call num sz new oks serial slot (CWriteRuim s d) = writeSmsToRuim new serial slot s d"
| "run_call num sz new oks serial slot (CInitialAttach d c i) = setInitialAttachApn new oks serial slot d c i"
| "run_call num sz new oks serial slot (CImsSms d) = sendImsSms new oks serial slot d"
| "run_call num sz new oks serial slot (COpenChannel x n) = iccOpenLogicalChannel new oks serial slot x n"
| "run_call num sz new oks serial slot (CNvRead n) = nvReadItem new serial slot n"
| "run_call num sz new oks serial slot (CNvWrite n x) = nvWriteItem new oks serial slot n x"
| "run_call num sz new oks serial slot (CNvReset t) = nvResetConfig new oks serial slot t"
| "run_call num sz new oks serial slot (CUicc s a t c) = setUiccSubscription sz new serial slot s a t c"
| "run_call num sz new oks serial slot (CSimAuth n x y) = requestIccSimAuthentication new oks serial slot n x y"
| "run_call num sz new oks serial slot (CDataProfiles ds i) = setDataProfile new oks serial slot ds i"
| "run_call num sz new oks serial slot (CRadioCapability a p r x s) = setRadioCapability new serial slot a p r x s"
| "run_call num sz new oks serial slot (CAllowedCarriers a x y) = setAllowedCarriers new oks serial slot a x y"
| "run_call num sz new oks serial slot (CStartKeepalive k) = startKeepalive new serial slot k"
| "run_call num sz new oks serial slot (CStopKeepalive n) = stopKeepalive new serial slot n"

text \<open>The number of the request, and which arguments the daemon accepts for a vendor library of version \<open>v\<close>.\<close>

fun call_request :: "struct_call \<Rightarrow> int" where
  "call_request (CDial _) = 10" | "call_request (CSetupDataCall _ _ _ _ _) = 27" | "call_request (CIccIo _) = 28"
| "call_request (CNetworkScan _) = 142" | "call_request (CWriteSms _) = 63" | "call_request (CSendCdmaSms _) = 87"
| "call_request (CAckCdmaSms _ _) = 88" | "call_request (CGsmBroadcast _) = 90" | "call_request (CCdmaBroadcast _) = 93"
| "call_request (CWriteRuim _ _) = 96" | "call_request (CInitialAttach _ _ _) = 111" | "call_request (CImsSms _) = 113"
| "call_request (COpenChannel _ _) = 115" | "call_request (CNvRead _) = 118" | "call_request (CNvWrite _ _) = 119"
| "call_request (CNvReset _) = 121" | "call_request (CUicc _ _ _ _) = 122" | "call_request (CSimAuth _ _ _) = 125"
| "call_request (CDataProfiles _ _) = 128" | "call_request (CRadioCapability _ _ _ _ _) = 131"
| "call_request (CAllowedCarriers _ _ _) = 136" | "call_request (CStartKeepalive _) = 144" | "call_request (CStopKeepalive _) = 145"

fun accepted :: "int \<Rightarrow> struct_call \<Rightarrow> bool" where
  "accepted v (CSetupDataCall _ d _ _ _) \<longleftrightarrow> 4 \<le> v \<and> (v \<le> 14 \<or> mvnoType d \<noteq> OtherMvno)"
| "accepted v (CNetworkScan q) \<longleftrightarrow> length (specifiers q) \<le> 8 \<and>
     (\<forall>r \<in> set (specifiers q). radioAccessNetwork r \<noteq> OtherNetwork \<and> length (geranBands r) \<le> 8 \<and> length (utranBands r) \<le> 8 \<and>
       length (eutranBands r) \<le> 8 \<and> length (channels r) \<le> 32)"
| "accepted v (CInitialAttach d _ _) \<longleftrightarrow> v \<le> 14 \<or> mvnoType d \<noteq> OtherMvno"
| "accepted v (CImsSms m) \<longleftrightarrow> ims_tech m = 1 \<and> length (ims_gsmMessage m) = 1 \<or> ims_tech m = 2 \<and> length (ims_cdmaMessage m) = 1"
| "accepted v (CDataProfiles ds _) \<longleftrightarrow> v \<le> 14 \<or> (\<forall>d \<in> set ds. mvnoType d \<noteq> OtherMvno)"
| "accepted v (CStartKeepalive k) \<longleftrightarrow> keepalive_addresses k"
| "accepted v _ \<longleftrightarrow> True"

section \<open>Settled requests\<close>

text \<open>While a structure is filled, the daemon is unchanged since the request was entered and the live
  allocations are those of the pointers at hand.\<close>

definition ids :: "copied list \<Rightarrow> nat list" where
  "ids ps = concat (map (\<lambda>p. case p of None \<Rightarrow> [] | Some (i, _) \<Rightarrow> [i]) ps)"

lemma ids_simps [simp]: "ids [] = []" "ids (None # ps) = ids ps" "ids (Some (i, c) # ps) = i # ids ps" "ids (ps @ qs) = ids ps @ ids qs"
  by (simp_all add: ids_def)

definition holding :: "ril_state \<Rightarrow> copied list \<Rightarrow> builder \<Rightarrow> bool" where
  "holding s ps b \<longleftrightarrow> daemon b = s \<and> mset (live b) = mset (ids ps)"

lemma free_all: "mset (live b) = mset (ids ps) + X \<Longrightarrow> \<exists>l. memsetAndFreeStrings ps b = Inr (b\<lparr>live := l\<rparr>) \<and> mset l = X"
proof (induction ps arbitrary: b)
  case Nil
  then show ?case by (intro exI[of _ "live b"]) simp
next
  case (Cons p ps)
  show ?case
  proof (cases p)
    case None
    with Cons show ?thesis by simp
  next
    case (Some q)
    obtain i c where q: "q = (i, c)" by force
    have m: "mset (live b) = add_mset i (mset (ids ps) + X)"
      using Cons.prems by (simp add: Some q)
    then have "i \<in> set (live b)" by (metis set_mset_mset union_single_eq_member)
    moreover have "mset (live (b\<lparr>live := remove1 i (live b)\<rparr>)) = mset (ids ps) + X"
      using m by simp
    ultimately show ?thesis
      using Cons.IH[of "b\<lparr>live := remove1 i (live b)\<rparr>"] by (simp add: Some q)
  qed
qed

lemma free_held: "mset (live b) = mset (ids ps) \<Longrightarrow> memsetAndFreeStrings ps b = Inr (b\<lparr>live := []\<rparr>)"
  using free_all[of b ps "{#}"] by auto

lemma free_mset: "mset (live b) = mset (ids ps) \<Longrightarrow> mset (ids qs) = mset (ids ps) \<Longrightarrow> memsetAndFreeStrings qs b = Inr (b\<lparr>live := []\<rparr>)"
  using free_held[of b qs] by simp

text \<open>The end of a request that was entered as \<open>s\<close>: everything is freed, and the vendor library got the request, or the
  client got an error: that memory was missing, which some allocation shows, or that the arguments were not
  \<open>V\<close>alid.\<close>

definition settled :: "(nat \<Rightarrow> bool) \<Rightarrow> int \<Rightarrow> nat \<Rightarrow> nat \<Rightarrow> string \<Rightarrow> int \<Rightarrow> bool \<Rightarrow> ril_state \<Rightarrow> builder rrun \<Rightarrow> bool" where
  "settled oks r pRI slot f serial V s out \<longleftrightarrow> (\<exists>b. out = Inr b \<and> live b = [] \<and>
     (V \<and> (\<exists>d. daemon b = s\<lparr>vendor := vendor s @ [(r, d, pRI, slot)]\<rparr>) \<or>
      (\<exists>k. \<not> oks k) \<and> daemon b = send (Answer f slot RESPONSE_SOLICITED serial RIL_E_NO_MEMORY []) s \<or>
      \<not> V \<and> (\<exists>e \<in> {RIL_E_INVALID_ARGUMENTS, RIL_E_REQUEST_NOT_SUPPORTED}. daemon b = send (Answer f slot RESPONSE_SOLICITED serial e []) s)))"

lemma settled_vendor:
  "out = Inr b \<Longrightarrow> live b = [] \<Longrightarrow> V \<Longrightarrow> daemon b = CALL_ONREQUEST r d pRI slot s \<Longrightarrow> settled oks r pRI slot f serial V s out"
  by (auto simp: settled_def CALL_ONREQUEST_def)

lemma settled_memory:
  "out = Inr b \<Longrightarrow> live b = [] \<Longrightarrow> \<not> oks k \<Longrightarrow> daemon b = send (Answer f slot RESPONSE_SOLICITED serial RIL_E_NO_MEMORY []) s \<Longrightarrow>
    settled oks r pRI slot f serial V s out"
  by (auto simp: settled_def)

definition in_progress :: "ril_state \<Rightarrow> int \<Rightarrow> nat \<Rightarrow> nat \<Rightarrow> string \<Rightarrow> int \<Rightarrow> bool" where
  "in_progress s r pRI slot f serial \<longleftrightarrow> responseFunction r = Inr f \<and> infos s pRI = Some \<lparr>ri_token = serial, ri_pCI = r,
     ri_cancelled = False, ri_local = False, ri_socket = slot, wasAckSent = False\<rparr>"

lemma error_sent: "in_progress s r pRI slot f serial \<Longrightarrow> sendErrorResponse pRI e s = Inr (send (Answer f slot RESPONSE_SOLICITED serial e []) s)"
  by (simp add: in_progress_def sendErrorResponse_def)

lemma ids_Cons: "mset (ids (p # ps)) = mset (ids [p]) + mset (ids ps)"
  using ids_simps(4)[of "[p]" ps] by simp

lemma cstr_fits: "\<not> length (cstr_of x) \<ge> length x + 1"
  using length_takeWhile_le[of "\<lambda>b. b \<noteq> 0" x] by (simp add: cstr_of_def)

lemma copyString_cases:
  assumes "in_progress s r pRI slot f serial" "holding s ps b"
  shows "(\<exists>p b1. copyString oks src pRI ae b = Inr (Some p, b1) \<and> holding s (p # ps) b1) \<or>
    (\<exists>k. \<not> oks k) \<and> (\<exists>b1. copyString oks src pRI ae b = Inr (None, b1) \<and>
      daemon b1 = send (Answer f slot RESPONSE_SOLICITED serial RIL_E_NO_MEMORY []) s \<and> live b1 = live b)"
proof -
  have d: "daemon b = s" "mset (live b) = mset (ids ps)" using assms(2) by (auto simp: holding_def)
  consider "src = [] \<and> \<not> ae" | "\<not> (src = [] \<and> \<not> ae)" "oks (nalloc b)" | "\<not> (src = [] \<and> \<not> ae)" "\<not> oks (nalloc b)" by blast
  then show ?thesis
  proof cases
    case 1
    with d show ?thesis by (auto simp: copyString_def copyHidlStringToRil_def holding_def)
  next
    case 2
    with d cstr_fits[of src] show ?thesis
      by (intro disjI1 exI[of _ "Some (nalloc b, cstr_of src)"])
        (simp add: copyString_def copyHidlStringToRil_def holding_def Let_def)
  next
    case 3
    with d error_sent[OF assms(1)] show ?thesis
      by (intro disjI2 conjI) (auto simp: copyString_def copyHidlStringToRil_def Let_def)
  qed
qed

lemma settled_handed:
  "V \<Longrightarrow> holding s ps b \<Longrightarrow> mset (ids frees) = mset (ids ps) \<Longrightarrow> settled oks r pRI slot f serial V s (handed r v n pRI slot frees b)"
  using free_mset[of "b\<lparr>daemon := CALL_ONREQUEST r (Block v n) pRI slot (daemon b)\<rparr>" ps frees]
  by (auto simp: settled_def handed_def holding_def CALL_ONREQUEST_def)

lemma settled_string:
  assumes i: "in_progress s r pRI slot f serial" and h: "holding s ps b" and m: "mset (ids frees) = mset (ids ps)"
    and k: "\<And>p b1. holding s (p # ps) b1 \<Longrightarrow> settled oks r pRI slot f serial V s (k p b1)"
  shows "settled oks r pRI slot f serial V s (with_string oks pRI src ae frees k b)"
  using copyString_cases[OF i h, of oks src ae]
proof (elim disjE exE conjE)
  fix p b1 assume "copyString oks src pRI ae b = Inr (Some p, b1)" "holding s (p # ps) b1"
  with k show ?thesis by (simp add: with_string_def)
next
  fix k' b1
  assume "\<not> oks k'" and c: "copyString oks src pRI ae b = Inr (None, b1)" "daemon b1 = send (Answer f slot RESPONSE_SOLICITED serial RIL_E_NO_MEMORY []) s"
    "live b1 = live b"
  moreover have "memsetAndFreeStrings frees b1 = Inr (b1\<lparr>live := []\<rparr>)"
    using free_mset[of b1 ps frees] h m c(3) by (simp add: holding_def)
  ultimately show ?thesis by (auto simp: with_string_def settled_def)
qed

lemma refuse_run: "in_progress s r pRI slot f serial \<Longrightarrow> daemon b = s \<Longrightarrow>
    refuse pRI e b = Inr (b\<lparr>daemon := send (Answer f slot RESPONSE_SOLICITED serial e []) s\<rparr>)"
  by (simp add: refuse_def error_sent)

lemma settled_invalid:
  assumes "\<not> V" "in_progress s r pRI slot f serial" "holding s ps b" "mset (ids frees) = mset (ids ps)"
    and "e \<in> {RIL_E_INVALID_ARGUMENTS, RIL_E_REQUEST_NOT_SUPPORTED}"
  shows "settled oks r pRI slot f serial V s (and_then (refuse pRI e b) (memsetAndFreeStrings frees))"
  using assms refuse_run[OF assms(2), of b e] free_mset[of "b\<lparr>daemon := send (Answer f slot RESPONSE_SOLICITED serial e []) s\<rparr>" ps frees]
  by (auto simp: settled_def holding_def)

lemma settled_refuse:
  assumes "\<not> V" "in_progress s r pRI slot f serial" "holding s [] b" "e \<in> {RIL_E_INVALID_ARGUMENTS, RIL_E_REQUEST_NOT_SUPPORTED}"
  shows "settled oks r pRI slot f serial V s (refuse pRI e b)"
  using assms refuse_run[OF assms(2), of b e] by (auto simp: settled_def holding_def)

lemma settled_no_memory:
  assumes "\<not> oks k" "in_progress s r pRI slot f serial" "holding s ps b" "mset (ids frees) = mset (ids ps)"
  shows "settled oks r pRI slot f serial V s (and_then (refuse pRI RIL_E_NO_MEMORY b) (memsetAndFreeStrings frees))"
    "settled oks r pRI slot f serial V s (and_then (memsetAndFreeStrings frees b) (refuse pRI RIL_E_NO_MEMORY))"
    "ps = [] \<Longrightarrow> settled oks r pRI slot f serial V s (refuse pRI RIL_E_NO_MEMORY b)"
  using assms refuse_run[OF assms(2), of b RIL_E_NO_MEMORY] refuse_run[OF assms(2), of "b\<lparr>live := []\<rparr>" RIL_E_NO_MEMORY]
    free_mset[of "b\<lparr>daemon := send (Answer f slot RESPONSE_SOLICITED serial RIL_E_NO_MEMORY []) s\<rparr>" ps frees] free_mset[of b ps frees]
  by (auto simp: settled_def holding_def)

lemma allocate_cases:
  assumes "holding s ps b"
  obtains i b1 where "allocate oks b = (Some (i, []), b1)" "holding s (Some (i, []) # ps) b1"
    | b1 where "allocate oks b = (None, b1)" "holding s ps b1" "\<not> oks (nalloc b)"
  using assms by (cases "oks (nalloc b)") (auto simp: allocate_def holding_def)

lemma settled_alloc:
  assumes h: "holding s ps b"
    and "\<And>b1 k. \<not> oks k \<Longrightarrow> holding s ps b1 \<Longrightarrow> settled oks r pRI slot f serial V s (g b1)"
    and "\<And>p b1. holding s (p # ps) b1 \<Longrightarrow> settled oks r pRI slot f serial V s (k p b1)"
  shows "settled oks r pRI slot f serial V s (case allocate oks b of (None, b1) \<Rightarrow> g b1 | (Some q, b1) \<Rightarrow> k (Some q) b1)"
proof (rule allocate_cases[OF h, of oks])
  fix i b1 assume "allocate oks b = (Some (i, []), b1)" "holding s (Some (i, []) # ps) b1"
  with assms(3) show ?thesis by simp
next
  fix b1 assume "allocate oks b = (None, b1)" "holding s ps b1" "\<not> oks (nalloc b)"
  with assms(2) show ?thesis by simp
qed

section \<open>Methods\<close>

lemma entering_run:
  "entering (Some a) serial slot r k b = k a (b\<lparr>daemon := entered a serial slot r (daemon b)\<rparr>)"
  by (simp add: entering_def add_entered)

lemma entered_progress: "responseFunction r = Inr f \<Longrightarrow> in_progress (entered a serial slot r s) r a slot f serial"
  by (simp add: in_progress_def)

text \<open>The dispatching functions end the same way.\<close>

lemma copy_run:
  "in_progress s r pRI slot f serial \<Longrightarrow> copyHidlStringToRil got x pRI ae s = Inr (if x = [] \<and> \<not> ae then (Some None, s) else if got
      then (Some (Some (cstr_of x)), s) else (None, send (Answer f slot RESPONSE_SOLICITED serial RIL_E_NO_MEMORY []) s))"
  using cstr_fits[of x] error_sent[of s r pRI slot f serial] by (simp add: copyHidlStringToRil_def Let_def)

lemma copy_strings_cases:
  assumes i: "in_progress s r pRI slot f serial"
  shows "(\<exists>cs. copy_strings oks k xs pRI ae s = Inr (Some cs, s)) \<or>
    (\<exists>k. \<not> oks k) \<and> copy_strings oks k xs pRI ae s = Inr (None, send (Answer f slot RESPONSE_SOLICITED serial RIL_E_NO_MEMORY []) s)"
proof (induction xs arbitrary: k)
  case (Cons x xs)
  show ?case
    unfolding copy_strings.simps copy_run[OF i]
    using Cons[of "Suc k"] by (cases "x = [] \<and> \<not> ae"; cases "oks k") auto
qed simp

lemma settled_strings:
  assumes f: "responseFunction r = Inr f" and l: "live b = []"
  shows "settled oks r a slot f serial True (entered a serial slot r (daemon b))
    (dispatching (dispatchStrings (Some a) oks serial slot r ae xs) b)"
  using copy_strings_cases[OF entered_progress[OF f], of oks 1 xs a ae serial slot "daemon b"] error_sent[OF entered_progress[OF f]] l
  by (cases "oks 0") (auto simp: settled_def dispatching_def dispatchStrings_def add_entered CALL_ONREQUEST_def)

lemma settled_one_string:
  assumes f: "responseFunction r = Inr f" and l: "live b = []"
  shows "settled oks r a slot f serial True (entered a serial slot r (daemon b))
    (dispatching (dispatchString (Some a) oks serial slot r x) b)" (is "settled _ _ _ _ _ _ _ ?s ?out")
proof -
  note r = dispatching_def dispatchString_def add_entered copy_run[OF entered_progress[OF f]]
  consider "x = []" | "x \<noteq> []" "oks 0" | "x \<noteq> []" "\<not> oks 0" by blast
  then show ?thesis
  proof cases
    case 1
    then have "?out = Inr (b\<lparr>daemon := CALL_ONREQUEST r (Str None) a slot ?s\<rparr>)" by (simp add: r)
    then show ?thesis by (rule settled_vendor) (use l in simp_all)
  next
    case 2
    then have "?out = Inr (b\<lparr>daemon := CALL_ONREQUEST r (Str (Some (cstr_of x))) a slot ?s\<rparr>)" by (simp add: r)
    then show ?thesis by (rule settled_vendor) (use l in simp_all)
  next
    case 3
    then have "?out = Inr (b\<lparr>daemon := send (Answer f slot RESPONSE_SOLICITED serial RIL_E_NO_MEMORY []) ?s\<rparr>)" by (simp add: r)
    then show ?thesis by (rule settled_memory) (use l 3 in simp_all)
  qed
qed

lemma settled_ints:
  assumes f: "responseFunction r = Inr f" and l: "live b = []"
  shows "settled oks r a slot f serial True (entered a serial slot r (daemon b))
    (dispatching (dispatchInts (Some a) oks serial slot r xs) b)"
  using l error_sent[OF entered_progress[OF f]]
  by (cases "oks 0") (auto simp: settled_def dispatching_def dispatchInts_def add_entered CALL_ONREQUEST_def)

section \<open>Data profiles\<close>

lemma ids_mset: "mset xs = mset ys \<Longrightarrow> mset (ids xs) = mset (ids ys)"
proof -
  have s: "mset (ids zs) = sum_mset (image_mset (\<lambda>p. mset (ids [p])) (mset zs))" for zs
  proof (induction zs)
    case (Cons z zs)
    with ids_Cons[of z zs] show ?case by simp
  qed simp
  show "mset xs = mset ys \<Longrightarrow> mset (ids xs) = mset (ids ys)"
    using s[of xs] s[of ys] by simp
qed

lemma ids_none [simp]: "ids (replicate n None) = []"
  by (induction n) auto

lemma mset_columns:
  "\<forall>ps \<in> set pss. length ps = n \<Longrightarrow> mset (concat (map (\<lambda>i. map (\<lambda>ps. ps ! i) pss) [0..<n])) = mset (concat pss)"
proof (induction pss)
  case (Cons ps pss)
  have c: "mset (concat (map (\<lambda>i. x i # xs i) is)) = mset (map x is) + mset (concat (map xs is))" for x :: "nat \<Rightarrow> 'a" and xs "is"
    by (induction "is") auto
  have "map (\<lambda>i. ps ! i) [0..<n] = ps"
    using Cons.prems map_nth[of ps] by simp
  with Cons show ?case
    by (simp add: c)
qed simp

text \<open>What a failed copy leaves: the answer is sent, the copies made so far are at hand.\<close>

definition failed :: "(nat \<Rightarrow> bool) \<Rightarrow> nat \<Rightarrow> string \<Rightarrow> int \<Rightarrow> bool \<Rightarrow> ril_state \<Rightarrow> copied list \<Rightarrow> builder \<Rightarrow> bool" where
  "failed oks slot f serial V s ps b \<longleftrightarrow> mset (live b) = mset (ids ps) \<and>
     ((\<exists>k. \<not> oks k) \<and> daemon b = send (Answer f slot RESPONSE_SOLICITED serial RIL_E_NO_MEMORY []) s \<or>
      \<not> V \<and> daemon b = send (Answer f slot RESPONSE_SOLICITED serial RIL_E_INVALID_ARGUMENTS []) s)"

lemma copy_fields_cases:
  assumes i: "in_progress s r pRI slot f serial"
  shows "holding s ps b \<Longrightarrow> \<exists>success qs b1. copy_fields oks pRI fs b = Inr (success, qs, b1) \<and> length qs = length fs \<and>
    (if success then holding s (qs @ ps) b1 else failed oks slot f serial V s (qs @ ps) b1)"
proof (induction fs arbitrary: ps b)
  case Nil
  then show ?case by auto
next
  case (Cons x fs)
  obtain src ae where x: "x = (src, ae)" by force
  from copyString_cases[OF i Cons.prems, of oks src ae] show ?case
  proof (elim disjE exE conjE)
    fix p b1 assume c: "copyString oks src pRI ae b = Inr (Some p, b1)" and h: "holding s (p # ps) b1"
    obtain success qs b2 where q: "copy_fields oks pRI fs b1 = Inr (success, qs, b2)" "length qs = length fs"
      "if success then holding s (qs @ p # ps) b2 else failed oks slot f serial V s (qs @ p # ps) b2"
      using Cons.IH[OF h] by blast
    have "mset (ids (qs @ p # ps)) = mset (ids ((p # qs) @ ps))" by (rule ids_mset) simp
    with c q show ?thesis
      by (intro exI[of _ success] exI[of _ "p # qs"] exI[of _ b2]) (simp add: x holding_def failed_def split: if_splits)
  next
    fix k b1
    assume "\<not> oks k" "copyString oks src pRI ae b = Inr (None, b1)"
      "daemon b1 = send (Answer f slot RESPONSE_SOLICITED serial RIL_E_NO_MEMORY []) s" "live b1 = live b"
    with Cons.prems show ?thesis
      by (auto simp: x failed_def holding_def)
  qed
qed

lemma copy_profiles_cases:
  assumes i: "in_progress s r pRI slot f serial" and n: "\<And>d. length (flds d) = n"
  shows "holding s ps b \<Longrightarrow> \<exists>vs pss b1. copy_profiles oks pRI flds check val ds b = Inr (vs, pss, b1) \<and> (\<forall>qs \<in> set pss. length qs = n) \<and>
    (if vs = None then failed oks slot f serial (\<forall>d \<in> set ds. check d) s (concat pss @ ps) b1
     else holding s (concat pss @ ps) b1 \<and> (\<forall>d \<in> set ds. check d))"
proof (induction ds arbitrary: ps b)
  case Nil
  then show ?case by simp
next
  case (Cons d ds)
  obtain success qs b1 where q: "copy_fields oks pRI (flds d) b = Inr (success, qs, b1)" "length qs = n"
    "if success then holding s (qs @ ps) b1 else failed oks slot f serial (\<forall>d \<in> set (d # ds). check d) s (qs @ ps) b1"
    using copy_fields_cases[OF i Cons.prems, of oks "flds d" "\<forall>d \<in> set (d # ds). check d"] n[of d] by auto
  let ?rest = "map (\<lambda>d. replicate (length (flds d)) None) ds :: copied list list"
  have rest: "ids (concat ?rest) = []" by (induction ds) auto
  consider "\<not> success" | "success" "\<not> check d" | "success" "check d" by blast
  then show ?case
  proof cases
    case 1
    with q n rest show ?thesis by (auto simp: failed_def Let_def)
  next
    case 2
    then have h: "holding s (qs @ ps) b1" using q by simp
    with refuse_run[OF i, of b1 RIL_E_INVALID_ARGUMENTS] 2 q(1,2) n rest show ?thesis
      by (auto simp: failed_def holding_def Let_def)
  next
    case 3
    then have h: "holding s (qs @ ps) b1" using q by simp
    obtain vs pss b2 where v: "copy_profiles oks pRI flds check val ds b1 = Inr (vs, pss, b2)" "\<forall>qs \<in> set pss. length qs = n"
      "if vs = None then failed oks slot f serial (\<forall>d \<in> set ds. check d) s (concat pss @ qs @ ps) b2
       else holding s (concat pss @ qs @ ps) b2 \<and> (\<forall>d \<in> set ds. check d)"
      using Cons.IH[OF h] by blast
    have m: "mset (ids (concat pss @ qs @ ps)) = mset (ids (concat (qs # pss) @ ps))" by (rule ids_mset) simp
    have "copy_profiles oks pRI flds check val (d # ds) b = Inr (map_option (\<lambda>vs. val d qs # vs) vs, qs # pss, b2)"
      using 3 q(1) v(1) by (simp add: Let_def)
    with v(2,3) m q(2) 3 show ?thesis
      by (intro exI[of _ "map_option (\<lambda>vs. val d qs # vs) vs"] exI[of _ "qs # pss"] exI[of _ b2])
        (auto simp: failed_def holding_def split: if_splits)
  qed
qed

section \<open>Every method settles its request\<close>

lemma holding_start: "live b = [] \<Longrightarrow> holding s [] (b\<lparr>daemon := s\<rparr>)"
  by (simp add: holding_def)

lemmas settle_string = settled_string[OF _ _ ids_mset]
lemmas settle_handed = settled_handed[OF _ _ ids_mset]

lemma string_methods:
  assumes l: "live b = []"
  shows "responseFunction 28 = Inr f \<Longrightarrow> settled oks 28 a slot f serial True (entered a serial slot 28 (daemon b)) (iccIOForApp (Some a) oks serial slot io b)"
    "responseFunction 63 = Inr f \<Longrightarrow> settled oks 63 a slot f serial True (entered a serial slot 63 (daemon b)) (writeSmsToSim (Some a) oks serial slot w b)"
    "responseFunction 87 = Inr f \<Longrightarrow> settled oks 87 a slot f serial True (entered a serial slot 87 (daemon b)) (sendCdmaSms (Some a) serial slot m b)"
    "responseFunction 88 = Inr f \<Longrightarrow> settled oks 88 a slot f serial True (entered a serial slot 88 (daemon b)) (acknowledgeLastIncomingCdmaSms (Some a) serial slot n1 n2 b)"
    "responseFunction 90 = Inr f \<Longrightarrow> settled oks 90 a slot f serial True (entered a serial slot 90 (daemon b)) (setGsmBroadcastConfig (Some a) serial slot gs b)"
    "responseFunction 93 = Inr f \<Longrightarrow> settled oks 93 a slot f serial True (entered a serial slot 93 (daemon b)) (setCdmaBroadcastConfig (Some a) serial slot cs b)"
    "responseFunction 96 = Inr f \<Longrightarrow> settled oks 96 a slot f serial True (entered a serial slot 96 (daemon b)) (writeSmsToRuim (Some a) serial slot n1 m b)"
    "responseFunction 118 = Inr f \<Longrightarrow> settled oks 118 a slot f serial True (entered a serial slot 118 (daemon b)) (nvReadItem (Some a) serial slot n1 b)"
    "responseFunction 119 = Inr f \<Longrightarrow> settled oks 119 a slot f serial True (entered a serial slot 119 (daemon b)) (nvWriteItem (Some a) oks serial slot n1 x b)"
    "responseFunction 122 = Inr f \<Longrightarrow> settled oks 122 a slot f serial True (entered a serial slot 122 (daemon b)) (setUiccSubscription sz (Some a) serial slot n1 n2 n3 n4 b)"
    "responseFunction 125 = Inr f \<Longrightarrow> settled oks 125 a slot f serial True (entered a serial slot 125 (daemon b)) (requestIccSimAuthentication (Some a) oks serial slot n1 x y b)"
    "responseFunction 131 = Inr f \<Longrightarrow> settled oks 131 a slot f serial True (entered a serial slot 131 (daemon b)) (setRadioCapability (Some a) serial slot n1 n2 n3 x n4 b)"
    "responseFunction 145 = Inr f \<Longrightarrow> settled oks 145 a slot f serial True (entered a serial slot 145 (daemon b)) (stopKeepalive (Some a) serial slot n1 b)"
  unfolding iccIOForApp_def writeSmsToSim_def sendCdmaSms_def acknowledgeLastIncomingCdmaSms_def setGsmBroadcastConfig_def
    setCdmaBroadcastConfig_def writeSmsToRuim_def nvReadItem_def nvWriteItem_def setUiccSubscription_def requestIccSimAuthentication_def
    setRadioCapability_def stopKeepalive_def entering_run
  by (((rule settle_string, rule entered_progress, assumption, (rule holding_start[OF l] | assumption), simp)+)?,
      rule settle_handed, simp, (rule holding_start[OF l] | assumption), simp)+

text \<open>The methods that also refuse arguments.\<close>

lemma dial_settled:
  assumes l: "live b = []" and f: "responseFunction 10 = Inr f"
  shows "settled oks 10 a slot f serial True (entered a serial slot 10 (daemon b)) (dial (Some a) oks serial slot d b)"
proof -
  have n: "mset (ids [p, None]) = mset (ids [p])" for p by (cases p) auto
  show ?thesis
    unfolding dial_def entering_run
  proof (rule settle_string[OF entered_progress[OF f] holding_start[OF l]])
    fix p b1 assume h: "holding (entered a serial slot 10 (daemon b)) [p] b1"
    have two: "settled oks 10 a slot f serial True (entered a serial slot 10 (daemon b)) (with_string oks a x False [p] (\<lambda>q. handed 10 (g q) m a slot [p, q]) b1)" for x g m
      by (rule settle_string[OF entered_progress[OF f] h], simp, rule settle_handed, simp, assumption, simp)
    show "settled oks 10 a slot f serial True (entered a serial slot 10 (daemon b)) ((case dial_uusInfo d of
         [] \<Rightarrow> handed 10 (dial_value p d None) (sizeof RIL_Dial) a slot [p, None]
       | u # _ \<Rightarrow>
           if uusData u = []
           then handed 10 (dial_value p d (Some (uus_value u 0 None))) (sizeof RIL_Dial) a slot [p, None]
           else with_string oks a (uusData u) False [p] (\<lambda>q.
             handed 10 (dial_value p d (Some (uus_value u (int (length (uusData u))) q))) (sizeof RIL_Dial) a slot [p, q])) b1)"
      using settled_handed[OF TrueI h n] two by (auto split: list.split)
  qed simp
qed

lemma scan_accepted: "those (map (specifier num) rs) = None \<longleftrightarrow> \<not> (\<forall>r \<in> set rs. radioAccessNetwork r \<noteq> OtherNetwork \<and>
    length (geranBands r) \<le> 8 \<and> length (utranBands r) \<le> 8 \<and> length (eutranBands r) \<le> 8 \<and> length (channels r) \<le> 32)"
proof (induction rs)
  case (Cons r rs)
  have "specifier num r = None \<longleftrightarrow> \<not> (radioAccessNetwork r \<noteq> OtherNetwork \<and>
    length (geranBands r) \<le> 8 \<and> length (utranBands r) \<le> 8 \<and> length (eutranBands r) \<le> 8 \<and> length (channels r) \<le> 32)"
    by (cases "radioAccessNetwork r") (auto simp: specifier_def bands_of_def MAX_BANDS_def MAX_CHANNELS_def)
  with Cons show ?case by (auto split: option.splits)
qed simp

lemma scan_settled:
  assumes l: "live b = []" and f: "responseFunction 142 = Inr f"
  shows "settled oks 142 a slot f serial (accepted v (CNetworkScan q)) (entered a serial slot 142 (daemon b)) (startNetworkScan num (Some a) serial slot q b)"
proof (cases "accepted v (CNetworkScan q)")
  case True
  then obtain ras where "those (map (specifier num) (specifiers q)) = Some ras" "\<not> length (specifiers q) > MAX_RADIO_ACCESS_NETWORKS"
    using scan_accepted[of num "specifiers q"] by (auto simp: MAX_RADIO_ACCESS_NETWORKS_def)
  with True settled_handed[OF _ holding_start[OF l], of _ "[]"] show ?thesis
    by (simp add: startNetworkScan_def entering_run)
next
  case False
  note r = settled_refuse[OF False entered_progress[OF f] holding_start[OF l], of RIL_E_INVALID_ARGUMENTS]
  have "length (specifiers q) > MAX_RADIO_ACCESS_NETWORKS \<or> those (map (specifier num) (specifiers q)) = None"
    using False by (auto simp: scan_accepted MAX_RADIO_ACCESS_NETWORKS_def)
  with r show ?thesis
    by (auto simp: startNetworkScan_def entering_run)
qed

lemma keepalive_settled:
  assumes l: "live b = []" and f: "responseFunction 144 = Inr f"
  shows "settled oks 144 a slot f serial (keepalive_addresses k) (entered a serial slot 144 (daemon b)) (startKeepalive (Some a) serial slot k b)"
  using settled_handed[OF _ holding_start[OF l], of _ "[]"] settled_refuse[OF _ entered_progress[OF f] holding_start[OF l], of _ RIL_E_INVALID_ARGUMENTS]
  by (simp add: startKeepalive_def entering_run)

lemma carriers_settled:
  assumes l: "live b = []" and f: "responseFunction 136 = Inr f"
  shows "settled oks 136 a slot f serial True (entered a serial slot 136 (daemon b)) (setAllowedCarriers (Some a) oks serial slot al xs ys b)"
  unfolding setAllowedCarriers_def entering_run
proof (rule settled_alloc[OF holding_start[OF l]])
  fix b1 k assume "\<not> oks k" "holding (entered a serial slot 136 (daemon b)) [] b1"
  then show "settled oks 136 a slot f serial True (entered a serial slot 136 (daemon b)) (refuse a RIL_E_NO_MEMORY b1)"
    using settled_no_memory(3)[OF _ entered_progress[OF f], of oks k] by blast
qed (rule settled_alloc, assumption, rule settled_no_memory(1)[OF _ entered_progress[OF f]], assumption, assumption, simp,
    rule settle_handed, simp, assumption, simp)

lemma ims_settled:
  assumes l: "live b = []" and f: "responseFunction 113 = Inr f"
  shows "settled oks 113 a slot f serial (accepted v (CImsSms m)) (entered a serial slot 113 (daemon b)) (sendImsSms (Some a) oks serial slot m b)"
proof -
  let ?s = "entered a serial slot 113 (daemon b)" let ?b = "b\<lparr>daemon := ?s\<rparr>"
  note i = entered_progress[OF f, of a serial slot "daemon b"] and h = holding_start[OF l, of ?s]
  have bad: "settled oks 113 a slot f serial False ?s (refuse a RIL_E_INVALID_ARGUMENTS ?b)"
    by (rule settled_refuse[OF _ i h]) simp_all
  have gsm: "settled oks 113 a slot f serial True ?s (dispatchImsGsmSms oks slot m a ?b)" if "ims_gsmMessage m = [g]" for g
    unfolding dispatchImsGsmSms_def that list.case
  proof (rule settled_alloc[OF h])
    fix b1 k assume "\<not> oks k" "holding ?s [] b1"
    then show "settled oks 113 a slot f serial True ?s (refuse a RIL_E_NO_MEMORY b1)"
      using settled_no_memory(3)[OF _ i, of oks k] by blast
  qed (rule settle_string[OF i], assumption, simp, rule settle_string[OF i], assumption, simp, rule settle_handed, simp, assumption, simp)
  have cdma: "settled oks 113 a slot f serial True ?s (dispatchImsCdmaSms slot m a ?b)" if "ims_cdmaMessage m = [c]" for c
    unfolding dispatchImsCdmaSms_def that list.case by (rule settle_handed[OF _ h]) simp_all
  have one: "length xs = 1 \<Longrightarrow> \<exists>x. xs = [x]" for xs :: "'x list" by (cases xs) auto
  have other: "length (ims_gsmMessage m) \<noteq> 1 \<Longrightarrow> dispatchImsGsmSms oks slot m a ?b = refuse a RIL_E_INVALID_ARGUMENTS ?b"
    "length (ims_cdmaMessage m) \<noteq> 1 \<Longrightarrow> dispatchImsCdmaSms slot m a ?b = refuse a RIL_E_INVALID_ARGUMENTS ?b"
    by (auto simp: dispatchImsGsmSms_def dispatchImsCdmaSms_def split: list.splits)
  consider "ims_tech m = 1" | "ims_tech m = 2" | "ims_tech m \<noteq> 1" "ims_tech m \<noteq> 2" by blast
  then show ?thesis
  proof cases
    case 1
    with bad other(1) gsm one[of "ims_gsmMessage m"] show ?thesis
      by (cases "length (ims_gsmMessage m) = 1") (auto simp: sendImsSms_def entering_run)
  next
    case 2
    with bad other(2) cdma one[of "ims_cdmaMessage m"] show ?thesis
      by (cases "length (ims_cdmaMessage m) = 1") (auto simp: sendImsSms_def entering_run)
  next
    case 3
    with bad show ?thesis by (simp add: sendImsSms_def entering_run)
  qed
qed

lemma mvno_known: "convertMvnoTypeToString t = None \<longleftrightarrow> t = OtherMvno"
  by (cases t) auto

lemma attach_settled:
  assumes l: "live b = []" and f: "responseFunction 111 = Inr f"
  shows "settled oks 111 a slot f serial (version (daemon b) \<le> 14 \<or> mvnoType d \<noteq> OtherMvno) (entered a serial slot 111 (daemon b))
    (setInitialAttachApn (Some a) oks serial slot d c r b)"
proof -
  let ?s = "entered a serial slot 111 (daemon b)"
  note i = entered_progress[OF f, of a serial slot "daemon b"] and h = holding_start[OF l, of ?s]
  show ?thesis
  proof (cases "version (daemon b) \<le> 14")
    case True
    then have v: "version (daemon (b\<lparr>daemon := ?s\<rparr>)) \<le> 14" by simp
    show ?thesis
      unfolding setInitialAttachApn_def entering_run if_P[OF v]
      by ((rule settle_string[OF i], (rule h | assumption), simp)+, rule settle_handed, simp add: True, assumption, simp)
  next
    case False
    then have v: "\<not> version (daemon (b\<lparr>daemon := ?s\<rparr>)) \<le> 14" by simp
    have V: "(version (daemon b) \<le> 14 \<or> mvnoType d \<noteq> OtherMvno) = (convertMvnoTypeToString (mvnoType d) \<noteq> None)"
      using False by (simp add: mvno_known)
    show ?thesis
    proof (cases "convertMvnoTypeToString (mvnoType d)")
      case None
      show ?thesis
        unfolding setInitialAttachApn_def entering_run if_not_P[OF v] V None option.case
        by ((rule settle_string[OF i], (rule h | assumption), simp)+, intro settled_invalid[OF _ i _ ids_mset], simp, assumption, simp, simp)
    next
      case (Some x)
      show ?thesis
        unfolding setInitialAttachApn_def entering_run if_not_P[OF v] V Some option.case
        by ((rule settle_string[OF i], (rule h | assumption), simp)+, rule settle_handed, simp, assumption, simp)
    qed
  qed
qed

lemma profiles_settled:
  assumes i: "in_progress s 128 pRI slot f serial" and h: "holding s [] b" and n: "\<And>d. length (flds d) = n"
  shows "settled oks 128 pRI slot f serial (\<forall>d \<in> set ds. check d) s (send_profiles oks slot n flds check val pRI ds b)"
  unfolding send_profiles_def
proof (rule settled_alloc[OF h])
  fix b1 k assume "\<not> oks k" "holding s [] b1"
  then show "settled oks 128 pRI slot f serial (\<forall>d \<in> set ds. check d) s (refuse pRI RIL_E_NO_MEMORY b1)"
    using settled_no_memory(3)[OF _ i, of oks k] by blast
next
  fix p b1 assume "holding s [p] b1"
  then show "settled oks 128 pRI slot f serial (\<forall>d \<in> set ds. check d) s
    (case allocate oks b1 of (None, b2) \<Rightarrow> and_then (memsetAndFreeStrings [p] b2) (refuse pRI RIL_E_NO_MEMORY)
     | (Some q, b2) \<Rightarrow> and_then (copy_profiles oks pRI flds check val ds b2) (\<lambda>(vs, pss, b3).
        case vs of None \<Rightarrow> freeSetDataProfileData n pss p (Some q) b3
        | Some vs \<Rightarrow> and_then (handed 128 (RArr vs) (length ds * sizeof CP) pRI slot [] b3) (freeSetDataProfileData n pss p (Some q))))"
  proof (rule settled_alloc)
    fix b2 k assume "\<not> oks k" "holding s [p] b2"
    then show "settled oks 128 pRI slot f serial (\<forall>d \<in> set ds. check d) s (and_then (memsetAndFreeStrings [p] b2) (refuse pRI RIL_E_NO_MEMORY))"
      by (intro settled_no_memory(2)[OF _ i]) auto
  next
    fix q b2 assume h2: "holding s [q, p] b2"
    obtain vs pss b3 where c: "copy_profiles oks pRI flds check val ds b2 = Inr (vs, pss, b3)" "\<forall>qs \<in> set pss. length qs = n"
      "if vs = None then failed oks slot f serial (\<forall>d \<in> set ds. check d) s (concat pss @ [q, p]) b3
       else holding s (concat pss @ [q, p]) b3 \<and> (\<forall>d \<in> set ds. check d)"
      using copy_profiles_cases[where flds = flds, OF i n h2] by blast
    have m: "mset (live b3) = mset (ids (concat pss @ [q, p]))"
      using c(3) by (auto simp: failed_def holding_def split: if_splits)
    have e: "mset (ids (concat (map (\<lambda>i. map (\<lambda>ps. ps ! i) pss) [0..<n]) @ [p, q])) = mset (ids (concat pss @ [q, p]))"
      by (rule ids_mset) (simp add: mset_columns[OF c(2)])
    have fr: "freeSetDataProfileData n pss p q b' = Inr (b'\<lparr>live := []\<rparr>)" if "live b' = live b3" for b'
      unfolding freeSetDataProfileData_def by (rule free_mset[OF _ e]) (simp add: that m)
    show "settled oks 128 pRI slot f serial (\<forall>d \<in> set ds. check d) s (and_then (copy_profiles oks pRI flds check val ds b2) (\<lambda>(vs, pss, b3).
        case vs of None \<Rightarrow> freeSetDataProfileData n pss p q b3
        | Some vs \<Rightarrow> and_then (handed 128 (RArr vs) (length ds * sizeof CP) pRI slot [] b3) (freeSetDataProfileData n pss p q)))"
      using c(3) by (cases vs) (auto simp: c(1) fr failed_def holding_def settled_def handed_def CALL_ONREQUEST_def)
  qed
qed

lemma set_profiles_settled:
  assumes l: "live b = []" and f: "responseFunction 128 = Inr f"
  shows "settled oks 128 a slot f serial (version (daemon b) \<le> 14 \<or> (\<forall>d \<in> set ds. mvnoType d \<noteq> OtherMvno)) (entered a serial slot 128 (daemon b))
    (setDataProfile (Some a) oks serial slot ds r b)"
  using profiles_settled[where flds = "profile_fields_v14 r" and n = 4 and check = "\<lambda>_. True" and val = profile_v14, OF entered_progress[OF f] holding_start[OF l]]
    profiles_settled[where flds = profile_fields_v15 and n = 6 and check = "\<lambda>d. convertMvnoTypeToString (mvnoType d) \<noteq> None" and val = profile_v15,
      OF entered_progress[OF f] holding_start[OF l]]
  by (cases "version (daemon b) \<le> 14") (simp_all add: setDataProfile_def entering_run profile_fields_v14_def profile_fields_v15_def mvno_known)

lemma setup_settled:
  assumes l: "live b = []" and f: "responseFunction 27 = Inr f"
  shows "settled oks 27 a slot f serial (accepted (version (daemon b)) (CSetupDataCall t d c r i)) (entered a serial slot 27 (daemon b))
    (setupDataCall (Some a) oks serial slot t d c r i b)"
proof -
  have no: "settled oks 27 a slot f serial False (entered a serial slot 27 (daemon b)) (entering (Some a) serial slot 27 (\<lambda>pRI. refuse pRI e) b)"
    if "e \<in> {RIL_E_INVALID_ARGUMENTS, RIL_E_REQUEST_NOT_SUPPORTED}" for e
    unfolding entering_run by (rule settled_refuse[OF _ entered_progress[OF f] holding_start[OF l] that]) simp
  show ?thesis
    using settled_strings[OF f l] no[of RIL_E_INVALID_ARGUMENTS] no[of RIL_E_REQUEST_NOT_SUPPORTED]
    by (cases "mvnoType d") (auto simp: setupDataCall_def Let_def)
qed

lemma open_settled:
  assumes l: "live b = []" and f: "responseFunction 115 = Inr f"
  shows "settled oks 115 a slot f serial True (entered a serial slot 115 (daemon b)) (iccOpenLogicalChannel (Some a) oks serial slot x n b)"
proof (cases "version (daemon b) < 15")
  case True
  with settled_one_string[OF f l] show ?thesis by (simp add: iccOpenLogicalChannel_def)
next
  case False
  show ?thesis
    unfolding iccOpenLogicalChannel_def if_not_P[OF False] entering_run
    by (rule settle_string[OF entered_progress[OF f] holding_start[OF l]], simp, rule settle_handed, simp, assumption, simp)
qed

lemma call_settled:
  assumes l: "live b = []" and f: "responseFunction (call_request c) = Inr f"
  shows "settled oks (call_request c) a slot f serial (accepted (version (daemon b)) c) (entered a serial slot (call_request c) (daemon b))
    (run_call num sz (Some a) oks serial slot c b)"
  using l f string_methods[OF l] dial_settled[OF l] scan_settled[OF l] keepalive_settled[OF l] carriers_settled[OF l] ims_settled[OF l]
    attach_settled[OF l] set_profiles_settled[OF l] setup_settled[OF l] open_settled[OF l] settled_ints[OF _ l]
  by (cases c) (simp_all only: run_call.simps call_request.simps accepted.simps nvResetConfig_def)

lemma call_answers: "\<exists>f. responseFunction (call_request c) = Inr f"
  by (cases c) (simp_all add: responseFunction_def table_lengths, simp_all add: s_commands_def)

section \<open>Properties\<close>


definition demo_keepalive :: KeepaliveRequest where
  "demo_keepalive = \<lparr>ka_type = 0, sourceAddress = [10, 0, 0, 1], sourcePort = 4500, destinationAddress = [10, 0, 0], destinationPort = 4500,
     maxKeepaliveIntervalMillis = 20000, ka_cid = 1\<rparr>"


text \<open>The one method that is not among them keeps the copies of its three strings for ever.\<close>

theorem imsi_encryption_leaks:
  assumes "live b = []" "\<forall>k. oks k" "imsi_mnc d \<noteq> []" "imsi_mcc d \<noteq> []" "imsi_keyIdentifier d \<noteq> []"
  shows "\<exists>b'. setCarrierInfoForImsiEncryption (Some a) oks serial slot d b = Inr b' \<and> length (live b') = 3"
proof -
  have i: "in_progress (entered a serial slot 141 s) 141 a slot ''setCarrierInfoForImsiEncryptionResponse'' serial" for s
    by (rule entered_progress) (simp add: responseFunction_def table_lengths, simp add: s_commands_def)
  show ?thesis
    using assms copy_run[OF i]
    by (simp add: setCarrierInfoForImsiEncryption_def entering_run with_string_def copyString_def allocate_def handed_def CALL_ONREQUEST_def)
qed

text \<open>The digits of a CDMA address are copied into an array of 36 bytes and never beyond it. Up to 36 digits
  arrive as they are; with more, the array holds the first of them, but the number that goes with them is
  that of all digits, so that the vendor library is told of digits that are not there; from 256 digits on the
  number starts again at 0.\<close>

theorem cdma_digits_copied:
  assumes "limit \<le> 255"
  shows "\<exists>n xs. sms_digits limit ds = [(''number_of_digits'', RInt (int n)), (''digits'', RBytes xs)] \<and>
    length xs \<le> limit \<and> prefix xs ds \<and> n = length ds mod 256 \<and> n \<le> 255 \<and>
    (length ds \<le> limit \<longrightarrow> n = length ds \<and> xs = ds) \<and>
    (limit < length ds \<and> length ds < 256 \<longrightarrow> length xs = limit \<and> n > length xs)"
  using assms take_is_prefix[of "min (length ds mod 256) limit" ds] mod_less_divisor[of 256 "length ds"]
  by (auto simp: sms_digits_def Let_def)

theorem cdma_digits_copied_witness:
  "\<exists>n xs. sms_digits 36 (replicate 40 5) = [(''number_of_digits'', RInt (int n)), (''digits'', RBytes xs)] \<and> length xs = 36 \<and> n = 40"
  using cdma_digits_copied[of 36 "replicate 40 5"] by auto

end
