(* ===== verification/Sap_Service.thy ===== *)
theory Sap_Service
  imports Ril_Sap
begin

text \<open>
  The service for remote access to the SIM card, \<^verbatim>\<open>ril/libril/sap_service.cpp\<close>: a request of the client is
  encoded, put into a message and dispatched over the socket of its slot; a message of the vendor library is
  decoded and handed to the callback of the client. The encoding is that of a library: its encoders and
  decoders are arguments. An allocation is known by its number, and the blocks that the service has not yet
  freed or handed over are \<open>blocks\<close>.
\<close>

section \<open>State\<close>

datatype MsgId = SAP_CONNECT | SAP_DISCONNECT | SAP_APDU | SAP_TRANSFER_ATR | SAP_POWER | SAP_RESET_SIM | SAP_STATUS
  | SAP_TRANSFER_CARD_READER_STATUS | SAP_ERROR_RESP | SAP_SET_TRANSFER_PROTOCOL | SAP_OTHER

text \<open>The requests before they are encoded, and the messages of the vendor library after they are decoded;
  byte fields are \<open>None\<close> for NULL.\<close>

datatype sap_req =
    CONNECT_REQ int
  | DISCONNECT_REQ
  | APDU_REQ int "u8 list option"
  | TRANSFER_ATR_REQ
  | POWER_REQ bool
  | RESET_SIM_REQ
  | TRANSFER_CARD_READER_STATUS_REQ
  | SET_TRANSFER_PROTOCOL_REQ int

datatype rsp_code = RSP_SUCCESS | RSP_GENERIC_FAILURE | RSP_SIM_NOT_READY | RSP_SIM_ALREADY_POWERED_OFF | RSP_SIM_ALREADY_POWERED_ON
  | RSP_SIM_ABSENT | RSP_SIM_DATA_NOT_AVAILABLE | RSP_OTHER

datatype sap_rsp =
    CONNECT_RSP int int
  | DISCONNECT_RSP
  | DISCONNECT_IND int
  | APDU_RSP rsp_code "u8 list option"
  | TRANSFER_ATR_RSP rsp_code "u8 list option"
  | POWER_RSP rsp_code
  | RESET_SIM_RSP rsp_code
  | STATUS_IND int
  | TRANSFER_CARD_READER_STATUS_RSP rsp_code int
  | ERROR_RSP
  | SET_TRANSFER_PROTOCOL_RSP rsp_code

datatype SapResultCode = SUCCESS | GENERIC_FAILURE | CARD_NOT_ACCESSSIBLE | CARD_ALREADY_POWERED_OFF | CARD_ALREADY_POWERED_ON
  | CARD_REMOVED | DATA_NOT_AVAILABLE | NOT_SUPPORTED

datatype SapConnectRsp = CONNECT_FAILURE | ConnectRsp int

text \<open>The calls of the client, each with the token of its request.\<close>

datatype sap_call =
    connectResponse int SapConnectRsp int
  | disconnectResponse int
  | apduResponse int SapResultCode "u8 list"
  | transferAtrResponse int SapResultCode "u8 list"
  | powerResponse int SapResultCode
  | resetSimResponse int SapResultCode
  | transferCardReaderStatusResponse int SapResultCode int
  | transferProtocolResponse int SapResultCode
  | disconnectIndication int int
  | statusIndication int int
  | errorResponse int

fun call_token :: "sap_call \<Rightarrow> int" where
  "call_token (connectResponse t _ _) = t" | "call_token (disconnectResponse t) = t" | "call_token (apduResponse t _ _) = t"
| "call_token (transferAtrResponse t _ _) = t" | "call_token (powerResponse t _) = t" | "call_token (resetSimResponse t _) = t"
| "call_token (transferCardReaderStatusResponse t _ _) = t" | "call_token (transferProtocolResponse t _) = t"
| "call_token (disconnectIndication t _) = t" | "call_token (statusIndication t _) = t" | "call_token (errorResponse t) = t"

record sap_state =
  sapCallback :: "nat \<Rightarrow> nat option"
  sap_calls :: "(nat \<times> sap_call) list"
  sap_nalloc :: nat
  blocks :: "nat list"
  sockets :: "sap_socket list"

text \<open>\<open>sap_mem\<close>: which allocations succeed. \<open>sap_call_ok\<close>: whether a call of an object of the client arrives.
  \<open>msg_number\<close> are the numbers of the messages, \<open>encoded_size\<close> and \<open>encode\<close> the encoder, \<open>decode\<close> the decoder for the
  kind of message that its first two arguments name.\<close>

record sap_env =
  sap_mem :: "nat \<Rightarrow> bool"
  sap_call_ok :: "nat \<Rightarrow> bool"
  msg_number :: "MsgId \<Rightarrow> int"
  encoded_size :: "sap_req \<Rightarrow> nat option"
  encode :: "sap_req \<Rightarrow> u8 list option"
  decode :: "MsgId \<Rightarrow> MsgType \<Rightarrow> u8 list \<Rightarrow> sap_rsp option"

type_synonym sap_run = "heap_fault + sap_state"

section \<open>Callbacks and failures\<close>

definition sap_checkReturnStatus :: "nat \<Rightarrow> bool \<Rightarrow> sap_state \<Rightarrow> sap_state" where
  "sap_checkReturnStatus slot isOk st = (if \<not> isOk then st\<lparr>sapCallback := (sapCallback st)(slot := None)\<rparr> else st)"

definition setCallback :: "nat \<Rightarrow> nat option \<Rightarrow> sap_state \<Rightarrow> sap_state" where
  "setCallback slot cb st = st\<lparr>sapCallback := (sapCallback st)(slot := cb)\<rparr>"

text \<open>A call through the callback of a slot, followed by the check of its result.\<close>

definition call_client :: "sap_env \<Rightarrow> nat \<Rightarrow> sap_call \<Rightarrow> sap_state \<Rightarrow> sap_run" where
  "call_client E slot c st =
     (case sapCallback st slot of
        None \<Rightarrow> Inl NullPointer
      | Some cb \<Rightarrow> Inr (sap_checkReturnStatus slot (sap_call_ok E cb) (st\<lparr>sap_calls := sap_calls st @ [(cb, c)]\<rparr>)))"

definition sap_alloc :: "sap_env \<Rightarrow> sap_state \<Rightarrow> nat option \<times> sap_state" where
  "sap_alloc E st = (if sap_mem E (sap_nalloc st)
     then (Some (sap_nalloc st), st\<lparr>sap_nalloc := Suc (sap_nalloc st), blocks := sap_nalloc st # blocks st\<rparr>)
     else (None, st\<lparr>sap_nalloc := Suc (sap_nalloc st)\<rparr>))"

fun free_blocks :: "nat option list \<Rightarrow> sap_state \<Rightarrow> sap_run" where
  "free_blocks [] st = Inr st"
| "free_blocks (None # ps) st = free_blocks ps st"
| "free_blocks (Some p # ps) st = (if p \<in> set (blocks st) then free_blocks ps (st\<lparr>blocks := remove1 p (blocks st)\<rparr>) else Inl DanglingPointer)"

fun failed_call :: "MsgId \<Rightarrow> int \<Rightarrow> sap_call option" where
  "failed_call SAP_CONNECT t = Some (connectResponse t CONNECT_FAILURE 0)"
| "failed_call SAP_DISCONNECT t = Some (disconnectResponse t)"
| "failed_call SAP_APDU t = Some (apduResponse t GENERIC_FAILURE [])"
| "failed_call SAP_TRANSFER_ATR t = Some (transferAtrResponse t GENERIC_FAILURE [])"
| "failed_call SAP_POWER t = Some (powerResponse t GENERIC_FAILURE)"
| "failed_call SAP_RESET_SIM t = Some (resetSimResponse t GENERIC_FAILURE)"
| "failed_call SAP_TRANSFER_CARD_READER_STATUS t = Some (transferCardReaderStatusResponse t GENERIC_FAILURE 0)"
| "failed_call SAP_SET_TRANSFER_PROTOCOL t = Some (transferProtocolResponse t NOT_SUPPORTED)"
| "failed_call _ t = None"

definition sendFailedResponse :: "sap_env \<Rightarrow> nat \<Rightarrow> MsgId \<Rightarrow> int \<Rightarrow> nat option list \<Rightarrow> sap_state \<Rightarrow> sap_run" where
  "sendFailedResponse E slot msgId tok ptrs st =
     and_then (free_blocks ptrs st) (\<lambda>st1.
       case failed_call msgId tok of None \<Rightarrow> Inr st1 | Some c \<Rightarrow> call_client E slot c st1)"

section \<open>Requests\<close>

definition createMsgHeader :: "sap_env \<Rightarrow> MsgId \<Rightarrow> int \<Rightarrow> sap_state \<Rightarrow> (nat \<times> MsgHeader) option \<times> sap_state" where
  "createMsgHeader E msgId tok st =
     (case sap_alloc E st of
        (None, st1) \<Rightarrow> (None, st1)
      | (Some p, st1) \<Rightarrow> (Some (p, \<lparr>hdr_token = tok, hdr_type = MsgType_REQUEST, hdr_id = msg_number E msgId,
          hdr_error = Error_RIL_E_SUCCESS, hdr_payload = []\<rparr>), st1))"

text \<open>The payload has a length of 16 bits. Once dispatched, the message belongs to the socket. \<open>newp\<close> is the address of the record
  that the socket allocates for the request; without it the socket frees the message.\<close>

definition addPayloadAndDispatchRequest :: "sap_env \<Rightarrow> nat option \<Rightarrow> nat \<Rightarrow> MsgId \<Rightarrow> nat \<times> MsgHeader \<Rightarrow> u8 list \<Rightarrow> nat \<Rightarrow> sap_state \<Rightarrow> sap_run" where
  "addPayloadAndDispatchRequest E newp slot msgId msg bytes buffer st =
     (case sap_alloc E st of
        (None, st1) \<Rightarrow> sendFailedResponse E slot msgId (hdr_token (snd msg)) [Some buffer, Some (fst msg)] st1
      | (Some payload, st1) \<Rightarrow>
          let h = (snd msg)\<lparr>hdr_payload := take (length bytes mod 2 ^ 16) bytes\<rparr> in
          (case getSocketById (sockets st1) slot of
             None \<Rightarrow> sendFailedResponse E slot msgId (hdr_token h) [Some payload, Some buffer, Some (fst msg)] st1
           | Some s \<Rightarrow>
               and_then (dispatchRequest newp (fst msg) (s\<lparr>pending := (pending s)\<lparr>hdrs := (hdrs (pending s))(fst msg \<mapsto> h)\<rparr>\<rparr>)) (\<lambda>s'.
               free_blocks [Some payload, Some buffer]
                 (st1\<lparr>sockets := on_socket slot (\<lambda>_. s') (sockets st1), blocks := remove1 (fst msg) (blocks st1)\<rparr>))))"

text \<open>What all methods do: \<open>extra\<close> is memory of the request that is freed with the message when something fails.\<close>

definition encode_and_dispatch :: "sap_env \<Rightarrow> nat option \<Rightarrow> nat \<Rightarrow> MsgId \<Rightarrow> nat \<times> MsgHeader \<Rightarrow> int \<Rightarrow> sap_req \<Rightarrow> nat option \<Rightarrow> sap_state \<Rightarrow> sap_run" where
  "encode_and_dispatch E newp slot msgId msg tok req extra st =
     (case encoded_size E req of
        None \<Rightarrow> sendFailedResponse E slot msgId tok [extra, Some (fst msg)] st
      | Some encodedSize \<Rightarrow>
          (case sap_alloc E st of
             (None, st1) \<Rightarrow> sendFailedResponse E slot msgId tok [extra, Some (fst msg)] st1
           | (Some buffer, st1) \<Rightarrow>
               (case encode E req of
                  None \<Rightarrow> sendFailedResponse E slot msgId tok [extra, Some buffer, Some (fst msg)] st1
                | Some bytes \<Rightarrow> addPayloadAndDispatchRequest E newp slot msgId msg bytes buffer st1)))"

definition simple_request :: "sap_env \<Rightarrow> nat option \<Rightarrow> nat \<Rightarrow> MsgId \<Rightarrow> int \<Rightarrow> sap_req \<Rightarrow> sap_state \<Rightarrow> sap_run" where
  "simple_request E newp slot msgId tok req st =
     (case createMsgHeader E msgId tok st of
        (None, st1) \<Rightarrow> sendFailedResponse E slot msgId tok [] st1
      | (Some msg, st1) \<Rightarrow> encode_and_dispatch E newp slot msgId msg tok req None st1)"

definition connectReq :: "sap_env \<Rightarrow> nat option \<Rightarrow> nat \<Rightarrow> int \<Rightarrow> int \<Rightarrow> sap_state \<Rightarrow> sap_run" where
  "connectReq E newp slot tok maxMsgSize = simple_request E newp slot SAP_CONNECT tok (CONNECT_REQ maxMsgSize)"

definition disconnectReq :: "sap_env \<Rightarrow> nat option \<Rightarrow> nat \<Rightarrow> int \<Rightarrow> sap_state \<Rightarrow> sap_run" where
  "disconnectReq E newp slot tok = simple_request E newp slot SAP_DISCONNECT tok DISCONNECT_REQ"

text \<open>The command is copied into memory of its own, which nothing frees once the request is encoded.\<close>

definition apduReq :: "sap_env \<Rightarrow> nat option \<Rightarrow> nat \<Rightarrow> int \<Rightarrow> int \<Rightarrow> u8 list \<Rightarrow> sap_state \<Rightarrow> sap_run" where
  "apduReq E newp slot tok type command st =
     (case createMsgHeader E SAP_APDU tok st of
        (None, st1) \<Rightarrow> sendFailedResponse E slot SAP_APDU tok [] st1
      | (Some msg, st1) \<Rightarrow>
          if command = [] then encode_and_dispatch E newp slot SAP_APDU msg tok (APDU_REQ type None) None st1
          else (case sap_alloc E st1 of
              (None, st2) \<Rightarrow> sendFailedResponse E slot SAP_APDU tok [Some (fst msg)] st2
            | (Some c, st2) \<Rightarrow> encode_and_dispatch E newp slot SAP_APDU msg tok (APDU_REQ type (Some command)) (Some c) st2))"

definition transferAtrReq :: "sap_env \<Rightarrow> nat option \<Rightarrow> nat \<Rightarrow> int \<Rightarrow> sap_state \<Rightarrow> sap_run" where
  "transferAtrReq E newp slot tok = simple_request E newp slot SAP_TRANSFER_ATR tok TRANSFER_ATR_REQ"

definition powerReq :: "sap_env \<Rightarrow> nat option \<Rightarrow> nat \<Rightarrow> int \<Rightarrow> bool \<Rightarrow> sap_state \<Rightarrow> sap_run" where
  "powerReq E newp slot tok state = simple_request E newp slot SAP_POWER tok (POWER_REQ state)"

definition resetSimReq :: "sap_env \<Rightarrow> nat option \<Rightarrow> nat \<Rightarrow> int \<Rightarrow> sap_state \<Rightarrow> sap_run" where
  "resetSimReq E newp slot tok = simple_request E newp slot SAP_RESET_SIM tok RESET_SIM_REQ"

definition transferCardReaderStatusReq :: "sap_env \<Rightarrow> nat option \<Rightarrow> nat \<Rightarrow> int \<Rightarrow> sap_state \<Rightarrow> sap_run" where
  "transferCardReaderStatusReq E newp slot tok = simple_request E newp slot SAP_TRANSFER_CARD_READER_STATUS tok TRANSFER_CARD_READER_STATUS_REQ"

definition setTransferProtocolReq :: "sap_env \<Rightarrow> nat option \<Rightarrow> nat \<Rightarrow> int \<Rightarrow> int \<Rightarrow> sap_state \<Rightarrow> sap_run" where
  "setTransferProtocolReq E newp slot tok transferProtocol =
     simple_request E newp slot SAP_SET_TRANSFER_PROTOCOL tok (SET_TRANSFER_PROTOCOL_REQ transferProtocol)"

section \<open>Messages of the vendor library\<close>

text \<open>The decoded message, or NULL without memory or when it cannot be decoded. Nothing frees the memory.\<close>

definition sapDecodeMessage :: "sap_env \<Rightarrow> MsgId \<Rightarrow> MsgType \<Rightarrow> u8 list \<Rightarrow> sap_state \<Rightarrow> sap_rsp option \<times> sap_state" where
  "sapDecodeMessage E msgId msgType payload st =
     (if msgId = SAP_OTHER then (None, st)
      else case sap_alloc E st of
          (None, st1) \<Rightarrow> (None, st1)
        | (Some _, st1) \<Rightarrow> (decode E msgId msgType payload, st1))"

definition getSapImpl :: "nat \<Rightarrow> nat \<Rightarrow> nat option" where
  "getSapImpl SIM_COUNT sockid = (if sockid = 0 \<or> sockid < SIM_COUNT \<and> sockid < 4 then Some sockid else None)"

fun convertApduResponseProtoToHal :: "rsp_code \<Rightarrow> SapResultCode" where
  "convertApduResponseProtoToHal RSP_SUCCESS = SUCCESS"
| "convertApduResponseProtoToHal RSP_GENERIC_FAILURE = GENERIC_FAILURE"
| "convertApduResponseProtoToHal RSP_SIM_NOT_READY = CARD_NOT_ACCESSSIBLE"
| "convertApduResponseProtoToHal RSP_SIM_ALREADY_POWERED_OFF = CARD_ALREADY_POWERED_OFF"
| "convertApduResponseProtoToHal RSP_SIM_ABSENT = CARD_REMOVED"
| "convertApduResponseProtoToHal _ = GENERIC_FAILURE"

fun convertTransferAtrResponseProtoToHal :: "rsp_code \<Rightarrow> SapResultCode" where
  "convertTransferAtrResponseProtoToHal RSP_SUCCESS = SUCCESS"
| "convertTransferAtrResponseProtoToHal RSP_GENERIC_FAILURE = GENERIC_FAILURE"
| "convertTransferAtrResponseProtoToHal RSP_SIM_ALREADY_POWERED_OFF = CARD_ALREADY_POWERED_OFF"
| "convertTransferAtrResponseProtoToHal RSP_SIM_ABSENT = CARD_REMOVED"
| "convertTransferAtrResponseProtoToHal RSP_SIM_DATA_NOT_AVAILABLE = DATA_NOT_AVAILABLE"
| "convertTransferAtrResponseProtoToHal _ = GENERIC_FAILURE"

fun convertPowerResponseProtoToHal :: "rsp_code \<Rightarrow> SapResultCode" where
  "convertPowerResponseProtoToHal RSP_SUCCESS = SUCCESS"
| "convertPowerResponseProtoToHal RSP_GENERIC_FAILURE = GENERIC_FAILURE"
| "convertPowerResponseProtoToHal RSP_SIM_ABSENT = CARD_REMOVED"
| "convertPowerResponseProtoToHal RSP_SIM_ALREADY_POWERED_OFF = CARD_ALREADY_POWERED_OFF"
| "convertPowerResponseProtoToHal RSP_SIM_ALREADY_POWERED_ON = CARD_ALREADY_POWERED_ON"
| "convertPowerResponseProtoToHal _ = GENERIC_FAILURE"

fun convertResetSimResponseProtoToHal :: "rsp_code \<Rightarrow> SapResultCode" where
  "convertResetSimResponseProtoToHal RSP_SUCCESS = SUCCESS"
| "convertResetSimResponseProtoToHal RSP_GENERIC_FAILURE = GENERIC_FAILURE"
| "convertResetSimResponseProtoToHal RSP_SIM_ABSENT = CARD_REMOVED"
| "convertResetSimResponseProtoToHal RSP_SIM_NOT_READY = CARD_NOT_ACCESSSIBLE"
| "convertResetSimResponseProtoToHal RSP_SIM_ALREADY_POWERED_OFF = CARD_ALREADY_POWERED_OFF"
| "convertResetSimResponseProtoToHal _ = GENERIC_FAILURE"

fun convertTransferCardReaderStatusResponseProtoToHal :: "rsp_code \<Rightarrow> SapResultCode" where
  "convertTransferCardReaderStatusResponseProtoToHal RSP_SUCCESS = SUCCESS"
| "convertTransferCardReaderStatusResponseProtoToHal RSP_GENERIC_FAILURE = GENERIC_FAILURE"
| "convertTransferCardReaderStatusResponseProtoToHal RSP_SIM_DATA_NOT_AVAILABLE = DATA_NOT_AVAILABLE"
| "convertTransferCardReaderStatusResponseProtoToHal _ = GENERIC_FAILURE"

text \<open>The call for a decoded message; its kind is that of the message id and the type.\<close>

fun response_call :: "int \<Rightarrow> sap_rsp \<Rightarrow> sap_call" where
  "response_call t (CONNECT_RSP r n) = connectResponse t (ConnectRsp r) n"
| "response_call t DISCONNECT_RSP = disconnectResponse t"
| "response_call t (DISCONNECT_IND d) = disconnectIndication t d"
| "response_call t (APDU_RSP r x) = apduResponse t (convertApduResponseProtoToHal r) (case x of None \<Rightarrow> [] | Some bs \<Rightarrow> bs)"
| "response_call t (TRANSFER_ATR_RSP r x) = transferAtrResponse t (convertTransferAtrResponseProtoToHal r) (case x of None \<Rightarrow> [] | Some bs \<Rightarrow> bs)"
| "response_call t (POWER_RSP r) = powerResponse t (convertPowerResponseProtoToHal r)"
| "response_call t (RESET_SIM_RSP r) = resetSimResponse t (convertResetSimResponseProtoToHal r)"
| "response_call t (STATUS_IND s) = statusIndication t s"
| "response_call t (TRANSFER_CARD_READER_STATUS_RSP r s) = transferCardReaderStatusResponse t (convertTransferCardReaderStatusResponseProtoToHal r) s"
| "response_call t ERROR_RSP = errorResponse t"
| "response_call t (SET_TRANSFER_PROTOCOL_RSP r) = transferProtocolResponse t (if r = RSP_SUCCESS then SUCCESS else NOT_SUPPORTED)"

text \<open>\<open>msgId\<close> is the kind of message that the number in the header names.\<close>

definition processResponse :: "nat \<Rightarrow> sap_env \<Rightarrow> MsgId \<Rightarrow> MsgHeader \<Rightarrow> nat \<Rightarrow> MsgType \<Rightarrow> sap_state \<Rightarrow> sap_run" where
  "processResponse SIM_COUNT E msgId rsp sockid msgType st =
     (case sapDecodeMessage E msgId msgType (hdr_payload rsp) st of
        (m, st1) \<Rightarrow>
          (case getSapImpl SIM_COUNT sockid of
             None \<Rightarrow> Inl NullPointer
           | Some slot \<Rightarrow>
               if sapCallback st1 slot = None then Inr st1
               else case m of
                   None \<Rightarrow> sendFailedResponse E slot msgId (hdr_token rsp) [] st1
                 | Some r \<Rightarrow> call_client E slot (response_call (hdr_token rsp) r) st1))"

definition sap_registerService :: "nat \<Rightarrow> sap_state \<Rightarrow> sap_state" where
  "sap_registerService SIM_COUNT st = st\<lparr>sapCallback := (\<lambda>i. if i < max 1 SIM_COUNT then None else sapCallback st i)\<rparr>"

end
