(* ===== verification/Sap_Correct.thy ===== *)
theory Sap_Correct
  imports Sap_Service
begin

text \<open>
  Properties of the service for remote SIM access: what becomes of a request of the client and of its memory,
  and how the answer of the vendor library comes back to the client.
\<close>

section \<open>Requests by kind\<close>

fun sap_request :: "sap_env \<Rightarrow> nat option \<Rightarrow> nat \<Rightarrow> int \<Rightarrow> sap_req \<Rightarrow> sap_state \<Rightarrow> sap_run" where
  "sap_request E newp slot tok (CONNECT_REQ n) = connectReq E newp slot tok n"
| "sap_request E newp slot tok DISCONNECT_REQ = disconnectReq E newp slot tok"
| "sap_request E newp slot tok (APDU_REQ type x) = apduReq E newp slot tok type (case x of None \<Rightarrow> [] | Some c \<Rightarrow> c)"
| "sap_request E newp slot tok TRANSFER_ATR_REQ = transferAtrReq E newp slot tok"
| "sap_request E newp slot tok (POWER_REQ b) = powerReq E newp slot tok b"
| "sap_request E newp slot tok RESET_SIM_REQ = resetSimReq E newp slot tok"
| "sap_request E newp slot tok TRANSFER_CARD_READER_STATUS_REQ = transferCardReaderStatusReq E newp slot tok"
| "sap_request E newp slot tok (SET_TRANSFER_PROTOCOL_REQ n) = setTransferProtocolReq E newp slot tok n"

fun req_id :: "sap_req \<Rightarrow> MsgId" where
  "req_id (CONNECT_REQ _) = SAP_CONNECT" | "req_id DISCONNECT_REQ = SAP_DISCONNECT" | "req_id (APDU_REQ _ _) = SAP_APDU"
| "req_id TRANSFER_ATR_REQ = SAP_TRANSFER_ATR" | "req_id (POWER_REQ _) = SAP_POWER" | "req_id RESET_SIM_REQ = SAP_RESET_SIM"
| "req_id TRANSFER_CARD_READER_STATUS_REQ = SAP_TRANSFER_CARD_READER_STATUS"
| "req_id (SET_TRANSFER_PROTOCOL_REQ _) = SAP_SET_TRANSFER_PROTOCOL"

text \<open>The command of a request, which has memory of its own when it is not empty.\<close>

fun command_blocks :: "sap_req \<Rightarrow> nat" where
  "command_blocks (APDU_REQ _ (Some c)) = (if c = [] then 0 else 1)"
| "command_blocks _ = 0"

text \<open>An empty command is encoded like none.\<close>

fun encoded_req :: "sap_req \<Rightarrow> sap_req" where
  "encoded_req (APDU_REQ t (Some c)) = APDU_REQ t (if c = [] then None else Some c)"
| "encoded_req r = r"

section \<open>Outcomes\<close>

lemma failed_call_told: "\<exists>c. failed_call (req_id req) tok = Some c \<and> call_token c = tok"
  by (cases req) auto

text \<open>The client is told of the failure; memory and sockets are as before.\<close>

definition told :: "sap_env \<Rightarrow> nat \<Rightarrow> nat \<Rightarrow> MsgId \<Rightarrow> int \<Rightarrow> nat list \<Rightarrow> sap_state \<Rightarrow> sap_run \<Rightarrow> bool" where
  "told E slot cb msgId tok B st out \<longleftrightarrow> (\<exists>st' c. out = Inr st' \<and> failed_call msgId tok = Some c \<and> sap_calls st' = sap_calls st @ [(cb, c)] \<and>
     blocks st' = B \<and> sockets st' = sockets st \<and> sapCallback st' = (if sap_call_ok E cb then sapCallback st else (sapCallback st)(slot := None)))"

lemma told_failed:
  assumes "free_blocks ptrs st = Inr (st\<lparr>blocks := B\<rparr>)" "sapCallback st slot = Some cb" "\<exists>c. failed_call msgId tok = Some c"
    "sap_calls st = sap_calls st0" "sockets st = sockets st0" "sapCallback st = sapCallback st0"
  shows "told E slot cb msgId tok B st0 (sendFailedResponse E slot msgId tok ptrs st)"
  using assms by (auto simp: told_def sendFailedResponse_def call_client_def sap_checkReturnStatus_def)

text \<open>The request waits in the socket; the message is the block \<open>c\<close>.\<close>

definition sent_over :: "sap_env \<Rightarrow> nat \<Rightarrow> nat \<Rightarrow> nat \<Rightarrow> MsgHeader \<Rightarrow> nat list \<Rightarrow> sap_state \<Rightarrow> sap_run \<Rightarrow> bool" where
  "sent_over E a slot c h B st out \<longleftrightarrow> (\<exists>st' s s1. out = Inr st' \<and> getSocketById (sockets st) slot = Some s \<and>
     dispatchRequest (Some a) c (s\<lparr>pending := (pending s)\<lparr>hdrs := (hdrs (pending s))(c \<mapsto> h)\<rparr>\<rparr>) = Inr s1 \<and>
     sockets st' = on_socket slot (\<lambda>_. s1) (sockets st) \<and> sap_calls st' = sap_calls st \<and> sapCallback st' = sapCallback st \<and> blocks st' = B)"

lemma encode_cases:
  assumes b: "blocks st = xs @ c # B" "xs = (case extra of None \<Rightarrow> [] | Some x \<Rightarrow> [x])" "c < sap_nalloc st" "\<forall>x \<in> set xs. x < sap_nalloc st \<and> x \<noteq> c"
    and cb: "sapCallback st slot = Some cb" and f: "\<exists>k. failed_call msgId (hdr_token h) = Some k"
    and s: "getSocketById (sockets st) slot = Some s"
    and d: "\<And>p. \<exists>s1. dispatchRequest (Some a) c (s\<lparr>pending := (pending s)\<lparr>hdrs := (hdrs (pending s))(c \<mapsto> h\<lparr>hdr_payload := p\<rparr>)\<rparr>\<rparr>) = Inr s1"
  shows "(\<exists>bytes. encode E req = Some bytes \<and>
      sent_over E a slot c (h\<lparr>hdr_payload := take (length bytes mod 2 ^ 16) bytes\<rparr>) (xs @ B) st (encode_and_dispatch E (Some a) slot msgId (c, h) (hdr_token h) req extra st)) \<or>
    ((\<exists>k. \<not> sap_mem E k) \<or> encoded_size E req = None \<or> encode E req = None) \<and>
      (if encode E req \<noteq> None \<and> encoded_size E req \<noteq> None \<and> sap_mem E (sap_nalloc st)
       then told E slot cb msgId (hdr_token h) (xs @ B) st (encode_and_dispatch E (Some a) slot msgId (c, h) (hdr_token h) req extra st)
       else told E slot cb msgId (hdr_token h) B st (encode_and_dispatch E (Some a) slot msgId (c, h) (hdr_token h) req extra st))"
proof -
  let ?out = "encode_and_dispatch E (Some a) slot msgId (c, h) (hdr_token h) req extra st"
  let ?N = "sap_nalloc st"
  have x: "x \<noteq> ?N \<and> x \<noteq> Suc ?N" if "x \<in> set (c # xs)" for x using that b by auto
  have fr: "free_blocks [extra, Some c] (st\<lparr>sap_nalloc := n\<rparr>) = Inr (st\<lparr>sap_nalloc := n, blocks := B\<rparr>)" for n
    using b by (cases extra) auto
  have fr2: "free_blocks [extra, Some ?N, Some c] (st\<lparr>sap_nalloc := n, blocks := ?N # blocks st\<rparr>) = Inr (st\<lparr>sap_nalloc := n, blocks := B\<rparr>)" for n
    using b x by (cases extra) auto
  have fr3: "free_blocks [Some ?N, Some c] (st\<lparr>blocks := ?N # blocks st, sap_nalloc := n\<rparr>) = Inr (st\<lparr>blocks := xs @ B, sap_nalloc := n\<rparr>)" for n
    using b x by (cases extra) auto
  consider "encoded_size E req = None" | k where "encoded_size E req = Some k" "\<not> sap_mem E ?N"
    | k where "encoded_size E req = Some k" "sap_mem E ?N" "encode E req = None"
    | k bs where "encoded_size E req = Some k" "sap_mem E ?N" "encode E req = Some bs" "\<not> sap_mem E (Suc ?N)"
    | k bs where "encoded_size E req = Some k" "sap_mem E ?N" "encode E req = Some bs" "sap_mem E (Suc ?N)"
    by (cases "encoded_size E req"; cases "encode E req") auto
  then show ?thesis
  proof cases
    case 1
    have "told E slot cb msgId (hdr_token h) B st ?out"
      unfolding encode_and_dispatch_def 1 option.case fst_conv
      by (rule told_failed) (use fr[of ?N] cb f in simp_all)
    with 1 show ?thesis by simp
  next
    case 2
    have "told E slot cb msgId (hdr_token h) B st ?out"
      unfolding encode_and_dispatch_def 2 option.case sap_alloc_def if_not_P[OF 2(2)] prod.case fst_conv
      by (rule told_failed) (use fr[of "Suc ?N"] cb f in simp_all)
    with 2 show ?thesis by auto
  next
    case 3
    have "told E slot cb msgId (hdr_token h) B st ?out"
      unfolding encode_and_dispatch_def 3 option.case sap_alloc_def if_P[OF 3(2)] prod.case fst_conv
      by (rule told_failed) (use fr2[of "Suc ?N"] cb f in simp_all)
    with 3 show ?thesis by auto
  next
    case 4
    have "?out = sendFailedResponse E slot msgId (hdr_token h) [Some ?N, Some c] (st\<lparr>blocks := ?N # blocks st, sap_nalloc := Suc (Suc ?N)\<rparr>)"
      using 4 by (simp add: encode_and_dispatch_def sap_alloc_def addPayloadAndDispatchRequest_def)
    then have "told E slot cb msgId (hdr_token h) (xs @ B) st ?out"
      by (simp only:) (rule told_failed, use fr3[of "Suc (Suc ?N)"] cb f in simp_all)
    with 4 show ?thesis by auto
  next
    case 5
    let ?h = "h\<lparr>hdr_payload := take (length bs mod 2 ^ 16) bs\<rparr>"
    obtain s1 where s1: "dispatchRequest (Some a) c (s\<lparr>pending := (pending s)\<lparr>hdrs := (hdrs (pending s))(c \<mapsto> ?h)\<rparr>\<rparr>) = Inr s1"
      using d by blast
    have r: "remove1 c (Suc ?N # ?N # blocks st) = Suc ?N # ?N # xs @ B"
      using b x by (cases extra) auto
    have "sent_over E a slot c ?h (xs @ B) st ?out"
      unfolding sent_over_def using 5 s s1 r
      by (simp add: encode_and_dispatch_def sap_alloc_def addPayloadAndDispatchRequest_def Let_def)
    with 5 show ?thesis by blast
  qed
qed

section \<open>Every request\<close>

text \<open>A message that is not pending and whose id and token no pending request has can be dispatched.\<close>

definition can_send :: "sap_env \<Rightarrow> nat \<Rightarrow> nat \<Rightarrow> int \<Rightarrow> sap_req \<Rightarrow> sap_state \<Rightarrow> sap_socket \<Rightarrow> nat list \<Rightarrow> bool" where
  "can_send E a slot tok req st s as \<longleftrightarrow> getSocketById (sockets st) slot = Some s \<and> sap_inv s as \<and> reqs (pending s) a = None \<and>
     sap_nalloc st \<notin> msg_of (pending s) ` set as \<and> (msg_number E (req_id req), tok) \<notin> key (pending s) ` set as"

lemma header_inv:
  assumes "sap_inv s as" "c \<notin> msg_of (pending s) ` set as"
    and s0: "s0 = s\<lparr>pending := (pending s)\<lparr>hdrs := (hdrs (pending s))(c \<mapsto> h)\<rparr>\<rparr>"
  shows "sap_inv s0 as" "\<And>a. a \<in> set as \<Longrightarrow> key (pending s0) a = key (pending s) a" "msg_of (pending s0) = msg_of (pending s)"
proof -
  show m: "msg_of (pending s0) = msg_of (pending s)" by (simp add: s0 msg_of_def fun_eq_iff)
  show k: "key (pending s0) a = key (pending s) a" if "a \<in> set as" for a
  proof -
    have "msg_of (pending s) a \<noteq> c" using that assms(2) by auto
    then show ?thesis using sap_live[OF assms(1) that] by (auto simp: s0 key_def msg_of_def)
  qed
  have "queue_repr (pending s0) as"
    by (rule queue_repr_frame[of "pending s"]) (use assms in \<open>auto simp: sap_inv_def\<close>)
  moreover have "distinct (map (key (pending s0)) as)"
    using assms(1) k by (simp add: sap_inv_def cong: map_cong)
  moreover have "reqs (pending s0) = reqs (pending s)" by (simp add: s0)
  moreover have "hdrs (pending s0) (msg_of (pending s) a) = hdrs (pending s) (msg_of (pending s) a)" if "a \<in> set as" for a
    using that assms(2) by (auto simp: s0)
  ultimately show "sap_inv s0 as"
    using assms(1) unfolding sap_inv_def m by auto
qed

lemma dispatch_new:
  assumes c: "can_send E a slot tok req st s as" and h: "hdr_id h = msg_number E (req_id req)" "hdr_token h = tok"
  defines "s0 \<equiv> s\<lparr>pending := (pending s)\<lparr>hdrs := (hdrs (pending s))(sap_nalloc st \<mapsto> h)\<rparr>\<rparr>"
  shows "\<exists>s1. dispatchRequest (Some a) (sap_nalloc st) s0 = Inr s1 \<and> sap_inv s1 (a # as) \<and>
    requested s1 = (if uimFuncs s then requested s @ [(hdr_id h, hdr_payload h, a)] else requested s) \<and>
    key (pending s1) a = (hdr_id h, tok) \<and> msg_of (pending s1) a = sap_nalloc st"
proof -
  have inv: "sap_inv s as" "sap_nalloc st \<notin> msg_of (pending s) ` set as" using c by (auto simp: can_send_def)
  note hi = header_inv[OF inv, of s0 h, OF s0_def[THEN meta_eq_to_obj_eq]]
  have "key (pending s0) ` set as = key (pending s) ` set as" using hi(2) by force
  then have k: "(hdr_id h, hdr_token h) \<notin> set (map (key (pending s0)) as)" using c h by (auto simp: can_send_def)
  have "requested s0 = requested s" "uimFuncs s0 = uimFuncs s" "reqs (pending s0) a = None" "hdrs (pending s0) (sap_nalloc st) = Some h"
    using c by (simp_all add: s0_def can_send_def)
  moreover have "sap_nalloc st \<notin> set (map (msg_of (pending s0)) as)" using inv(2) hi(3) by simp
  ultimately show ?thesis
    using dispatch_inv[OF hi(1) _ _ _ k, of a "sap_nalloc st"] h by auto
qed

lemma socket_id: "getSocketById xs i = Some s \<Longrightarrow> sock_id s = i"
  by (induction xs) (auto split: if_splits)

lemma get_on_socket: "getSocketById xs i = Some s \<Longrightarrow> sock_id s1 = i \<Longrightarrow> getSocketById (on_socket i (\<lambda>_. s1) xs) i = Some s1"
  by (induction xs) (auto split: if_splits)

lemma dispatch_sock_id: "dispatchRequest m c s = Inr s1 \<Longrightarrow> sock_id s1 = sock_id s"
  by (auto simp: dispatchRequest_def Let_def and_then_def split: option.splits sum.splits prod.splits if_splits)

text \<open>The two endings of a request, with at most \<open>n\<close> blocks lost.\<close>

definition ends :: "sap_env \<Rightarrow> nat \<Rightarrow> nat \<Rightarrow> nat \<Rightarrow> int \<Rightarrow> sap_req \<Rightarrow> sap_socket \<Rightarrow> nat list \<Rightarrow> nat \<Rightarrow> sap_state \<Rightarrow> sap_run \<Rightarrow> bool" where
  "ends E a slot cb tok req s as n st out \<longleftrightarrow> (\<exists>st' L. out = Inr st' \<and> blocks st' = L @ blocks st \<and>
     ((\<exists>c. failed_call (req_id req) tok = Some c \<and> sap_calls st' = sap_calls st @ [(cb, c)] \<and> sockets st' = sockets st \<and> length L \<le> n \<and>
        ((\<exists>k. \<not> sap_mem E k) \<or> encoded_size E (encoded_req req) = None \<or> encode E (encoded_req req) = None)) \<or>
      (\<exists>bytes s1. encode E (encoded_req req) = Some bytes \<and> sap_calls st' = sap_calls st \<and> sapCallback st' = sapCallback st \<and> length L = n \<and>
        getSocketById (sockets st') slot = Some s1 \<and> sap_inv s1 (a # as) \<and>
        key (pending s1) a = (msg_number E (req_id req), tok) \<and>
        requested s1 = (if uimFuncs s then requested s @ [(msg_number E (req_id req), take (length bytes mod 2 ^ 16) bytes, a)] else requested s))))"

lemma ends_encode:
  assumes c: "can_send E a slot tok req st s as" and cb: "sapCallback st slot = Some cb"
    and h: "h = \<lparr>hdr_token = tok, hdr_type = MsgType_REQUEST, hdr_id = msg_number E (req_id req), hdr_error = Error_RIL_E_SUCCESS, hdr_payload = []\<rparr>"
    and st1: "blocks st1 = xs @ sap_nalloc st # blocks st" "xs = (case extra of None \<Rightarrow> [] | Some x \<Rightarrow> [x])" "sap_nalloc st < sap_nalloc st1"
      "\<forall>x \<in> set xs. x < sap_nalloc st1 \<and> x \<noteq> sap_nalloc st" "sockets st1 = sockets st" "sapCallback st1 = sapCallback st" "sap_calls st1 = sap_calls st"
  shows "ends E a slot cb tok req s as (length xs) st
    (encode_and_dispatch E (Some a) slot (req_id req) (sap_nalloc st, h) tok (encoded_req req) extra st1)"
proof -
  let ?out = "encode_and_dispatch E (Some a) slot (req_id req) (sap_nalloc st, h) tok (encoded_req req) extra st1"
  have s: "getSocketById (sockets st1) slot = Some s" using c st1(5) by (simp add: can_send_def)
  have d: "\<exists>s1. dispatchRequest (Some a) (sap_nalloc st) (s\<lparr>pending := (pending s)\<lparr>hdrs := (hdrs (pending s))(sap_nalloc st \<mapsto> h\<lparr>hdr_payload := p\<rparr>)\<rparr>\<rparr>) = Inr s1 \<and>
      sap_inv s1 (a # as) \<and> requested s1 = (if uimFuncs s then requested s @ [(msg_number E (req_id req), p, a)] else requested s) \<and>
      key (pending s1) a = (msg_number E (req_id req), tok)" for p
    using dispatch_new[OF c, of "h\<lparr>hdr_payload := p\<rparr>"] h by auto
  have tok: "hdr_token h = tok" by (simp add: h)
  have f: "\<exists>k. failed_call (req_id req) (hdr_token h) = Some k" using failed_call_told by blast
  have d': "\<exists>s1. dispatchRequest (Some a) (sap_nalloc st) (s\<lparr>pending := (pending s)\<lparr>hdrs := (hdrs (pending s))(sap_nalloc st \<mapsto> h\<lparr>hdr_payload := p\<rparr>)\<rparr>\<rparr>) = Inr s1" for p
    using d by blast
  have cb1: "sapCallback st1 slot = Some cb" using cb st1(6) by simp
  have "told E slot cb (req_id req) tok B st1 ?out \<Longrightarrow> B = xs @ blocks st \<or> B = blocks st \<Longrightarrow>
      (\<exists>k. \<not> sap_mem E k) \<or> encoded_size E (encoded_req req) = None \<or> encode E (encoded_req req) = None \<Longrightarrow> ?thesis" for B
    unfolding told_def ends_def using st1(5,7) by (elim exE disjE) (auto 4 4)
  moreover have "?thesis" if en: "encode E (encoded_req req) = Some bytes"
    and so: "sent_over E a slot (sap_nalloc st) (h\<lparr>hdr_payload := take (length bytes mod 2 ^ 16) bytes\<rparr>) (xs @ blocks st) st1 ?out" for bytes
  proof -
    obtain st' s1 where o: "?out = Inr st'" "dispatchRequest (Some a) (sap_nalloc st)
        (s\<lparr>pending := (pending s)\<lparr>hdrs := (hdrs (pending s))(sap_nalloc st \<mapsto> h\<lparr>hdr_payload := take (length bytes mod 2 ^ 16) bytes\<rparr>)\<rparr>\<rparr>) = Inr s1"
      "sockets st' = on_socket slot (\<lambda>_. s1) (sockets st1)" "sap_calls st' = sap_calls st1" "sapCallback st' = sapCallback st1" "blocks st' = xs @ blocks st"
      using so s by (auto simp: sent_over_def)
    have "sock_id s1 = slot" using dispatch_sock_id[OF o(2)] socket_id[OF s] by simp
    then have g: "getSocketById (sockets st') slot = Some s1" using get_on_socket[OF s] o(3) by simp
    have "sap_inv s1 (a # as) \<and> requested s1 = (if uimFuncs s then requested s @ [(msg_number E (req_id req), take (length bytes mod 2 ^ 16) bytes, a)] else requested s) \<and>
        key (pending s1) a = (msg_number E (req_id req), tok)"
      using d[of "take (length bytes mod 2 ^ 16) bytes"] o(2) by auto
    with o g en st1(6,7) show ?thesis
      unfolding ends_def by (intro exI[of _ st'] exI[of _ xs]) auto
  qed
  ultimately show ?thesis
    using encode_cases[OF st1(1,2,3,4) cb1 f s d', of E "encoded_req req"] unfolding tok by (auto split: if_splits)
qed

lemma ends_no_header:
  assumes "sapCallback st slot = Some cb" "\<not> sap_mem E (sap_nalloc st)"
  shows "ends E a slot cb tok req s as n st (sendFailedResponse E slot (req_id req) tok [] (st\<lparr>sap_nalloc := Suc (sap_nalloc st)\<rparr>))"
  using assms failed_call_told[of req tok]
  by (auto simp: ends_def sendFailedResponse_def call_client_def sap_checkReturnStatus_def)

lemma ends_simple:
  assumes c: "can_send E a slot tok req st s as" and cb: "sapCallback st slot = Some cb"
  shows "ends E a slot cb tok req s as 0 st (simple_request E (Some a) slot (req_id req) tok (encoded_req req) st)"
proof (cases "sap_mem E (sap_nalloc st)")
  case True
  then show ?thesis
    using ends_encode[OF c cb refl, of "st\<lparr>sap_nalloc := Suc (sap_nalloc st), blocks := sap_nalloc st # blocks st\<rparr>" "[]" None]
    by (simp add: simple_request_def createMsgHeader_def sap_alloc_def)
next
  case False
  then show ?thesis
    using ends_no_header[OF cb False] by (simp add: simple_request_def createMsgHeader_def sap_alloc_def)
qed

lemma ends_apdu:
  assumes c: "can_send E a slot tok (APDU_REQ ty (Some cmd)) st s as" and cb: "sapCallback st slot = Some cb" and ne: "cmd \<noteq> []"
  shows "ends E a slot cb tok (APDU_REQ ty (Some cmd)) s as 1 st (apduReq E (Some a) slot tok ty cmd st)"
proof -
  let ?N = "sap_nalloc st"
  consider "\<not> sap_mem E ?N" | "sap_mem E ?N" "\<not> sap_mem E (Suc ?N)" | "sap_mem E ?N" "sap_mem E (Suc ?N)" by blast
  then show ?thesis
  proof cases
    case 1
    then show ?thesis
      using ends_no_header[OF cb 1, of a tok "APDU_REQ ty (Some cmd)"] by (simp add: apduReq_def createMsgHeader_def sap_alloc_def)
  next
    case 2
    then show ?thesis
      using cb ne by (auto simp: apduReq_def createMsgHeader_def sap_alloc_def ends_def sendFailedResponse_def call_client_def sap_checkReturnStatus_def)
  next
    case 3
    let ?st = "st\<lparr>sap_nalloc := Suc (Suc ?N), blocks := Suc ?N # ?N # blocks st\<rparr>"
    let ?h = "\<lparr>hdr_token = tok, hdr_type = MsgType_REQUEST, hdr_id = msg_number E (req_id (APDU_REQ ty (Some cmd))),
      hdr_error = Error_RIL_E_SUCCESS, hdr_payload = []\<rparr>"
    have "apduReq E (Some a) slot tok ty cmd st =
        encode_and_dispatch E (Some a) slot (req_id (APDU_REQ ty (Some cmd))) (?N, ?h) tok (encoded_req (APDU_REQ ty (Some cmd))) (Some (Suc ?N)) ?st"
      using 3 ne by (simp add: apduReq_def createMsgHeader_def sap_alloc_def)
    moreover have "ends E a slot cb tok (APDU_REQ ty (Some cmd)) s as (length [Suc ?N]) st
        (encode_and_dispatch E (Some a) slot (req_id (APDU_REQ ty (Some cmd))) (?N, ?h) tok (encoded_req (APDU_REQ ty (Some cmd))) (Some (Suc ?N)) ?st)"
      by (rule ends_encode[OF c cb refl]) (simp_all only: sap_state.simps append.simps option.case list.set insert_iff empty_iff, auto)
    ultimately show ?thesis by simp
  qed
qed

lemma request_ends:
  assumes c: "can_send E a slot tok req st s as" and cb: "sapCallback st slot = Some cb"
  shows "ends E a slot cb tok req s as (command_blocks req) st (sap_request E (Some a) slot tok req st)"
proof (cases "\<exists>ty cmd. req = APDU_REQ ty (Some cmd) \<and> cmd \<noteq> []")
  case True
  then show ?thesis using c ends_apdu[OF _ cb] by auto
next
  case False
  have a: "apduReq E (Some a) slot tok ty [] st = simple_request E (Some a) slot SAP_APDU tok (APDU_REQ ty None) st" for ty
    by (simp add: apduReq_def simple_request_def split: option.split prod.split)
  show ?thesis
  proof (cases req)
    case (APDU_REQ ty x)
    then show ?thesis using False ends_simple[OF c cb] a by (cases x) auto
  qed (use ends_simple[OF c cb] in \<open>simp_all add: connectReq_def disconnectReq_def transferAtrReq_def powerReq_def resetSimReq_def
      transferCardReaderStatusReq_def setTransferProtocolReq_def\<close>)
qed

section \<open>Properties\<close>


definition demo_codec :: sap_env where
  "demo_codec = \<lparr>sap_mem = (\<lambda>_. True), sap_call_ok = (\<lambda>_. True), msg_number = (\<lambda>m. if m = SAP_POWER then 11 else if m = SAP_APDU then 9 else 0),
     encoded_size = (\<lambda>r. Some 2), encode = (\<lambda>r. case r of POWER_REQ b \<Rightarrow> Some [8, if b then 1 else 0] | _ \<Rightarrow> None),
     decode = (\<lambda>m t p. if m = SAP_POWER \<and> p = [8, 0] then Some (POWER_RSP RSP_SUCCESS) else None)\<rparr>"

definition demo_sap :: sap_state where
  "demo_sap = \<lparr>sapCallback = (\<lambda>_. Some 3), sap_calls = [], sap_nalloc = 40, blocks = [], sockets = [RilSapSocket ''slot1'' 0 True]\<rparr>"

lemma demo_can_send: "can_send demo_codec 5 0 tok req demo_sap (RilSapSocket ''slot1'' 0 True) []"
  by (simp add: can_send_def demo_sap_def RilSapSocket_def sap_inv_def queue_repr_def empty_heap_def Ril_queue_def)




text \<open>When the socket has no memory for the record of a request, it frees the message and says nothing: the
  request is neither sent nor answered. A request that fails while no callback is registered makes the
  daemon follow a null pointer.\<close>

theorem sap_request_lost:
  assumes "getSocketById (sockets st) slot = Some s" "\<forall>k. sap_mem E k" "encoded_size E (CONNECT_REQ n) \<noteq> None" "encode E (CONNECT_REQ n) \<noteq> None"
  shows "(\<exists>st'. connectReq E None slot tok n st = Inr st' \<and> sap_calls st' = sap_calls st \<and> blocks st' = blocks st \<and>
      (\<exists>s1. getSocketById (sockets st') slot = Some s1 \<and> requested s1 = requested s \<and> reqs (pending s1) = reqs (pending s))) \<and>
    (sapCallback st slot = None \<longrightarrow> connectReq (E\<lparr>sap_mem := \<lambda>_. False\<rparr>) newp slot tok n st = Inl NullPointer)"
proof -
  obtain k bs where e: "encoded_size E (CONNECT_REQ n) = Some k" "encode E (CONNECT_REQ n) = Some bs" using assms(3,4) by auto
  show ?thesis
    using assms(1,2) e socket_id[OF assms(1)]
    by (auto simp: connectReq_def simple_request_def createMsgHeader_def sap_alloc_def encode_and_dispatch_def addPayloadAndDispatchRequest_def
        dispatchRequest_def Let_def get_on_socket[OF assms(1)] free_header_def sendFailedResponse_def call_client_def)
qed

theorem sap_request_lost_witness:
  "\<exists>st'. connectReq (demo_codec\<lparr>encode := \<lambda>_. Some [1]\<rparr>) None 0 7 100 demo_sap = Inr st' \<and> sap_calls st' = []"
  using sap_request_lost[of demo_sap 0 "RilSapSocket ''slot1'' 0 True" "demo_codec\<lparr>encode := \<lambda>_. Some [1]\<rparr>" 100 7]
  by (auto simp: demo_codec_def demo_sap_def RilSapSocket_def)

end
