(* ===== verification/Gnss_Data.thy ===== *)
theory Gnss_Data
  imports C_Strings
begin

text \<open>
  Data of the satellite positioning service, \<^verbatim>\<open>gnss/\<close>: the structures that the vendor library hands over
  (\<^verbatim>\<open>include/hardware/gps.h\<close>), the values that the client of the service receives, and the conversions of
  \<^verbatim>\<open>GnssUtils.cpp\<close>. Numbers are kept at their width; a float or a double is its bit pattern, since the
  service only copies it or changes its sign. The \<^verbatim>\<open>size\<close> members, which the service does not read
  except in \<^verbatim>\<open>AGpsStatus\<close>, are left out.
\<close>

section \<open>Numbers\<close>

type_synonym u16 = "16 word"
type_synonym s16 = "16 word"
type_synonym s32 = "32 word"
type_synonym s64 = "64 word"
type_synonym f32 = "32 word"
type_synonym f64 = "64 word"

definition fneg :: "f64 \<Rightarrow> f64" where
  "fneg x = x XOR push_bit 63 1"

text \<open>What comes from headers outside the sources (\<^verbatim>\<open>gnss-base.h\<close>, \<^verbatim>\<open>fused_location.h\<close> and the generated interface):
  sizes, flags, and the conversion to the type of the member \<^verbatim>\<open>svid\<close>.\<close>

record gnss_base =
  SVS_COUNT :: nat
  GNSS_MAX_SVS :: nat
  to_svid :: "int \<Rightarrow> int"
  SV_NONE :: u8
  SV_HAS_EPHEMERIS_DATA :: u8
  SV_HAS_ALMANAC_DATA :: u8
  SV_USED_IN_FIX :: u8
  SV_HAS_CARRIER_FREQUENCY :: u8
  GNSS_ERROR_GENERIC :: int

record measure_base =
  STATE_TOW_DECODED :: u32
  STATE_TOW_KNOWN :: u32
  STATE_GLO_TOD_DECODED :: u32
  STATE_GLO_TOD_KNOWN :: u32
  HAS_SNR :: u32
  HAS_CARRIER_FREQUENCY :: u32
  HAS_CARRIER_PHASE :: u32
  HAS_CARRIER_PHASE_UNCERTAINTY :: u32

record agps_base =
  AF_INET :: u16
  AF_INET6 :: u16
  sizeof_AGpsStatus :: nat
  sizeof_AGpsStatus_v2 :: nat

text \<open>The flags of a location, in the order latitude and longitude, altitude, speed, bearing, accuracy, for
  the interface of the service and for that of the fused location library.\<close>

record flp_base =
  HAS_LAT_LONG :: u16
  HAS_ALTITUDE :: u16
  HAS_SPEED :: u16
  HAS_BEARING :: u16
  HAS_HORIZONTAL_ACCURACY :: u16
  FLP_HAS_LAT_LONG :: u16
  FLP_HAS_ALTITUDE :: u16
  FLP_HAS_SPEED :: u16
  FLP_HAS_BEARING :: u16
  FLP_HAS_ACCURACY :: u16

record batch_base =
  FLP_TECH_MASK_GNSS :: u16
  FLP_TECH_MASK_SENSORS :: u16
  FLP_RESULT_SUCCESS :: int
  CAPABILITY_GNSS :: s32
  FLP_BATCH_WAKEUP_ON_FIFO_FULL :: u32
  WAKEUP_ON_FIFO_FULL :: u8

text \<open>Lengths of the arrays of \<^verbatim>\<open>gps.h\<close>.\<close>

definition GPS_MAX_SVS :: nat where "GPS_MAX_SVS = 32"
definition GPS_MAX_MEASUREMENT :: nat where "GPS_MAX_MEASUREMENT = 32"

section \<open>Locations\<close>

record GpsLocation =
  gl_flags :: u16
  gl_latitude :: f64
  gl_longitude :: f64
  gl_altitude :: f64
  gl_speed :: f32
  gl_bearing :: f32
  gl_accuracy :: f32
  gl_timestamp :: s64

record FlpLocation =
  fl_flags :: u16
  fl_latitude :: f64
  fl_longitude :: f64
  fl_altitude :: f64
  fl_speed :: f32
  fl_bearing :: f32
  fl_accuracy :: f32
  fl_timestamp :: s64
  fl_sources_used :: u32

record GnssLocation =
  gnssLocationFlags :: u16
  latitudeDegrees :: f64
  longitudeDegrees :: f64
  altitudeMeters :: f64
  speedMetersPerSec :: f32
  bearingDegrees :: f32
  horizontalAccuracyMeters :: f32
  verticalAccuracyMeters :: f32
  speedAccuracyMetersPerSecond :: f32
  bearingAccuracyDegrees :: f32
  loc_timestamp :: s64

definition empty_location :: GnssLocation where
  "empty_location = \<lparr>gnssLocationFlags = 0, latitudeDegrees = 0, longitudeDegrees = 0, altitudeMeters = 0, speedMetersPerSec = 0,
     bearingDegrees = 0, horizontalAccuracyMeters = 0, verticalAccuracyMeters = 0, speedAccuracyMetersPerSecond = 0,
     bearingAccuracyDegrees = 0, loc_timestamp = 0\<rparr>"

definition convertToGnssLocation :: "GpsLocation option \<Rightarrow> GnssLocation" where
  "convertToGnssLocation location =
     (case location of
        None \<Rightarrow> empty_location
      | Some l \<Rightarrow>
          \<lparr>gnssLocationFlags = gl_flags l AND 0x1f,
           latitudeDegrees = gl_latitude l, longitudeDegrees = gl_longitude l, altitudeMeters = gl_altitude l,
           speedMetersPerSec = gl_speed l, bearingDegrees = gl_bearing l, horizontalAccuracyMeters = gl_accuracy l,
           verticalAccuracyMeters = 0, speedAccuracyMetersPerSecond = 0, bearingAccuracyDegrees = 0,
           loc_timestamp = gl_timestamp l\<rparr>)"

definition flag_if :: "u16 \<Rightarrow> u16 \<Rightarrow> u16 \<Rightarrow> u16 \<Rightarrow> u16" where
  "flag_if flags have give acc = (if flags AND have \<noteq> 0 then acc OR give else acc)"

definition convertFlpLocation :: "flp_base \<Rightarrow> FlpLocation option \<Rightarrow> GnssLocation" where
  "convertFlpLocation B flpLocation =
     (case flpLocation of
        None \<Rightarrow> empty_location
      | Some l \<Rightarrow>
          let f0 = flag_if (fl_flags l) (FLP_HAS_LAT_LONG B) (HAS_LAT_LONG B) 0;
              f1 = flag_if (fl_flags l) (FLP_HAS_ALTITUDE B) (HAS_ALTITUDE B) f0;
              f2 = flag_if (fl_flags l) (FLP_HAS_SPEED B) (HAS_SPEED B) f1;
              f3 = flag_if (fl_flags l) (FLP_HAS_BEARING B) (HAS_BEARING B) f2;
              f4 = flag_if (fl_flags l) (FLP_HAS_ACCURACY B) (HAS_HORIZONTAL_ACCURACY B) f3
          in \<lparr>gnssLocationFlags = f4,
              latitudeDegrees = fl_latitude l, longitudeDegrees = fl_longitude l, altitudeMeters = fl_altitude l,
              speedMetersPerSec = fl_speed l, bearingDegrees = fl_bearing l, horizontalAccuracyMeters = fl_accuracy l,
              verticalAccuracyMeters = 0, speedAccuracyMetersPerSecond = 0, bearingAccuracyDegrees = 0,
              loc_timestamp = fl_timestamp l\<rparr>)"

section \<open>Satellites\<close>

text \<open>The constellations that the service names itself; one that the vendor library names by its number is
  passed on.\<close>

datatype GnssConstellationType = UNKNOWN | GPS | SBAS | GLONASS | QZSS | BEIDOU | Constellation u8

record GpsSvInfo =
  prn :: s32
  snr :: f32
  elevation :: f32
  azimuth :: f32

record GpsSvStatus =
  num_svs :: s32
  sv_list :: "GpsSvInfo list"
  ephemeris_mask :: u32
  almanac_mask :: u32
  used_in_fix_mask :: u32

record LegacyGnssSvInfo =
  lsv_svid :: s16
  lsv_constellation :: u8
  lsv_c_n0_dbhz :: f32
  lsv_elevation :: f32
  lsv_azimuth :: f32
  lsv_flags :: u8

record LegacyGnssSvStatus =
  lsv_num_svs :: s32
  gnss_sv_list :: "LegacyGnssSvInfo list"

text \<open>\<open>None\<close> is a frequency that the service leaves without a value.\<close>

record GnssSvInfo =
  svid :: int
  constellation :: GnssConstellationType
  cN0Dbhz :: f32
  elevationDegrees :: f32
  azimuthDegrees :: f32
  svFlag :: u8
  carrierFrequencyHz :: "f32 option"

section \<open>Measurements\<close>

record GpsMeasurement =
  gm_flags :: u32
  gm_prn :: "8 word"
  gm_time_offset_ns :: f64
  gm_state :: u16
  gm_received_gps_tow_ns :: s64
  gm_received_gps_tow_uncertainty_ns :: s64
  gm_c_n0_dbhz :: f64
  gm_pseudorange_rate_mps :: f64
  gm_pseudorange_rate_uncertainty_mps :: f64
  gm_accumulated_delta_range_state :: u16
  gm_accumulated_delta_range_m :: f64
  gm_accumulated_delta_range_uncertainty_m :: f64
  gm_carrier_frequency_hz :: f32
  gm_carrier_phase :: f64
  gm_carrier_phase_uncertainty :: f64
  gm_multipath_indicator :: u8
  gm_snr_db :: f64

record LegacyGnssMeasurement =
  lm_flags :: u32
  lm_svid :: s16
  lm_constellation :: u8
  lm_time_offset_ns :: f64
  lm_state :: u32
  lm_received_sv_time_in_ns :: s64
  lm_received_sv_time_uncertainty_in_ns :: s64
  lm_c_n0_dbhz :: f64
  lm_pseudorange_rate_mps :: f64
  lm_pseudorange_rate_uncertainty_mps :: f64
  lm_accumulated_delta_range_state :: u16
  lm_accumulated_delta_range_m :: f64
  lm_accumulated_delta_range_uncertainty_m :: f64
  lm_carrier_frequency_hz :: f32
  lm_carrier_cycles :: s64
  lm_carrier_phase :: f64
  lm_carrier_phase_uncertainty :: f64
  lm_multipath_indicator :: u8
  lm_snr_db :: f64

text \<open>\<^verbatim>\<open>GPS_CLOCK_TYPE_*\<close>, with any other number as the last case.\<close>

datatype GpsClockType = CLOCK_UNKNOWN | CLOCK_LOCAL_HW_TIME | CLOCK_GPS_TIME | CLOCK_OTHER u8

definition GPS_CLOCK_HAS_FULL_BIAS :: u16 where "GPS_CLOCK_HAS_FULL_BIAS = push_bit 2 1"

record GpsClock =
  gc_flags :: u16
  gc_leap_second :: s16
  gc_type :: GpsClockType
  gc_time_ns :: s64
  gc_time_uncertainty_ns :: f64
  gc_full_bias_ns :: s64
  gc_bias_ns :: f64
  gc_bias_uncertainty_ns :: f64
  gc_drift_nsps :: f64
  gc_drift_uncertainty_nsps :: f64

record LegacyGnssClock =
  lc_flags :: u16
  lc_leap_second :: s16
  lc_time_ns :: s64
  lc_time_uncertainty_ns :: f64
  lc_full_bias_ns :: s64
  lc_bias_ns :: f64
  lc_bias_uncertainty_ns :: f64
  lc_drift_nsps :: f64
  lc_drift_uncertainty_nsps :: f64
  lc_hw_clock_discontinuity_count :: u32

record GpsData =
  gd_measurement_count :: nat
  gd_measurements :: "GpsMeasurement list"
  gd_clock :: GpsClock

record LegacyGnssData =
  ld_measurement_count :: nat
  ld_measurements :: "LegacyGnssMeasurement list"
  ld_clock :: LegacyGnssClock

text \<open>What the client receives; \<open>None\<close> is a member that the service leaves without a value.\<close>

record GnssMeasurement =
  m_flags :: u32
  m_svid :: int
  m_constellation :: GnssConstellationType
  m_timeOffsetNs :: f64
  m_state :: u32
  m_receivedSvTimeInNs :: s64
  m_receivedSvTimeUncertaintyInNs :: s64
  m_cN0DbHz :: f64
  m_pseudorangeRateMps :: f64
  m_pseudorangeRateUncertaintyMps :: f64
  m_accumulatedDeltaRangeState :: u16
  m_accumulatedDeltaRangeM :: f64
  m_accumulatedDeltaRangeUncertaintyM :: f64
  m_carrierFrequencyHz :: f32
  m_carrierCycles :: "s64 option"
  m_carrierPhase :: f64
  m_carrierPhaseUncertainty :: f64
  m_multipathIndicator :: u8
  m_snrDb :: f64

record GnssClock =
  gnssClockFlags :: u16
  leapSecond :: s16
  timeNs :: s64
  timeUncertaintyNs :: f64
  fullBiasNs :: s64
  biasNs :: f64
  biasUncertaintyNs :: f64
  driftNsps :: f64
  driftUncertaintyNsps :: f64
  hwClockDiscontinuityCount :: "u32 option"

section \<open>Other messages\<close>

text \<open>The status of assisted positioning. \<open>addr\<close> is the address as the family and the bytes behind it: four
  for IPv4, sixteen for IPv6; \<open>ipaddr\<close> is the member that older libraries fill, in host order.\<close>

record AGpsStatus =
  as_size :: nat
  as_type :: u16
  as_status :: u16
  as_ipaddr :: u32
  as_family :: u16
  as_v4 :: u32
  as_v6 :: "u8 list"

record GpsNiNotification =
  notification_id :: s32
  ni_type :: u32
  notify_flags :: u32
  ni_timeout :: s32
  default_response :: s32
  requestor_id :: "u8 list"
  ni_text :: "u8 list"
  requestor_id_encoding :: s32
  text_encoding :: s32

record LegacyGnssNavigationMessage =
  nm_svid :: s16
  nm_type :: s16
  nm_status :: u16
  nm_message_id :: s16
  nm_submessage_id :: s16
  nm_data_length :: nat
  nm_data :: "u8 list"

record AGpsRefLocationCellID =
  ci_type :: u16
  ci_mcc :: u16
  ci_mnc :: u16
  ci_lac :: u16
  ci_cid :: u32
  ci_tac :: u16
  ci_pcid :: u16

end
