(* ===== verification/Gnss_State.thy ===== *)
theory Gnss_State
  imports Gnss_Data
begin

text \<open>
  State of the satellite positioning service: the object \<^verbatim>\<open>Gnss\<close> with its extensions and the static members of
  their classes, the calls the service makes of the vendor library and of its clients, and the calls the
  vendor library makes of the service. Both kinds of outgoing calls are recorded in the order they are made.
\<close>

section \<open>Outgoing calls\<close>

text \<open>The classes whose objects \<^verbatim>\<open>Gnss\<close> hands out.\<close>

datatype ext = Xtra | Ril | Geofencing | Agnss | Ni | Measurement | Navigation | Debug | Config | Batching

text \<open>Calls of the clients' callback objects. The service ignores whether they arrive.\<close>

datatype gnss_call =
    gnssLocationCb GnssLocation
  | gnssStatusCb u16
  | gnssSvStatusCb "GnssSvInfo list"
  | gnssNmeaCb s64 "u8 list"
  | gnssSetCapabilitesCb u32
  | gnssAcquireWakelockCb
  | gnssReleaseWakelockCb
  | gnssRequestTimeCb
  | gnssSetSystemInfoCb u16
  | downloadRequestCb
  | agnssStatusIpV4Cb u16 u16 u32
  | agnssStatusIpV6Cb u16 u16 "u8 list"
  | requestSetIdCb u32
  | requestRefLocCb
  | gnssGeofenceTransitionCb s32 GnssLocation s32 s64
  | gnssGeofenceStatusCb s32 GnssLocation
  | gnssGeofenceAddCb s32 s32
  | gnssGeofenceRemoveCb s32 s32
  | gnssGeofencePauseCb s32 s32
  | gnssGeofenceResumeCb s32 s32
  | GnssMeasurementCb "GnssMeasurement list" GnssClock
  | gnssNavigationMessageCb s16 s16 u16 s16 s16 "u8 list"
  | niNotifyCb s32 u32 u32 u32 s32 "u8 list" "u8 list" s32 s32
  | gnssLocationBatchCb "GnssLocation list"

text \<open>Calls of the vendor library; strings end before their first zero byte.\<close>

datatype gps_call =
    Gps_init | Gps_start | Gps_stop | Gps_cleanup
  | Gps_inject_time s64 s64 s32
  | Gps_inject_location f64 f64 f32
  | Gps_delete_aiding_data u16
  | Gps_set_position_mode u32 u32 u32 u32 u32
  | Gps_get_extension string
  | Xtra_init | Xtra_inject_xtra_data "u8 list"
  | Agps_init | Agps_data_conn_closed | Agps_data_conn_failed
  | Agps_set_server u16 "u8 list" s32
  | Agps_data_conn_open_with_apn_ip_type "u8 list" u16
  | Ni_init | Ni_respond s32 s32
  | AgpsRil_init
  | AgpsRil_set_ref_location u16 AGpsRefLocationCellID
  | AgpsRil_set_set_id u16 "u8 list"
  | AgpsRil_update_network_state bool int bool
  | AgpsRil_update_network_availability bool "u8 list"
  | Geo_init
  | Geo_add_geofence_area s32 f64 f64 f64 s32 s32 s32 s32
  | Geo_pause_geofence s32 | Geo_resume_geofence s32 s32 | Geo_remove_geofence_area s32
  | Measure_init | Measure_close
  | Nav_init | Nav_close
  | Debug_get_internal_state nat
  | Config_update string nat
  | Flp_init | Flp_get_batch_size
  | Flp_start_batching u16 int u32 u32 s64 int
  | Flp_flush_batched_locations | Flp_stop_batching u16 | Flp_cleanup

section \<open>Incoming calls\<close>

text \<open>Calls of the vendor library; \<open>None\<close> is a null pointer. A thread is asked for by the table of callbacks of
  \<^verbatim>\<open>Gnss\<close> (\<open>None\<close>) or of an extension.\<close>

datatype vendor_event =
    LocationCb "GpsLocation option"
  | StatusCb "u16 option"
  | GpsSvStatusCb "GpsSvStatus option"
  | GnssSvStatusCb "LegacyGnssSvStatus option"
  | NmeaCb s64 "u8 list" s32
  | SetCapabilitiesCb u32
  | AcquireWakelockCb | ReleaseWakelockCb
  | RequestUtcTimeCb
  | SetSystemInfoCb "u16 option"
  | CreateThreadCb "ext option" nat nat
  | XtraDownloadRequestCb
  | AgpsStatusCb "AGpsStatus option"
  | RequestSetId u32 | RequestRefLoc u32
  | GfTransitionCb s32 "GpsLocation option" s32 s64
  | GfStatusCb s32 "GpsLocation option"
  | GfAddCb s32 s32 | GfRemoveCb s32 s32 | GfPauseCb s32 s32 | GfResumeCb s32 s32
  | LegacyMeasurementCb "LegacyGnssData option"
  | GpsMeasurementCb "GpsData option"
  | NavigationMessageCb "LegacyGnssNavigationMessage option"
  | NiNotifyCb "GpsNiNotification option"
  | FlpLocationCb s32 "FlpLocation option list option"
  | FlpAcquireWakelockCb | FlpReleaseWakelockCb
  | FlpSetThreadEventCb nat
  | FlpCapabilitiesCb s32
  | FlpStatusCb s32

section \<open>State\<close>

text \<open>\<open>members\<close> tells which extension objects \<^verbatim>\<open>Gnss\<close> holds; \<open>ext_exists\<close> and \<open>ext_cb\<close> are the static members
  \<^verbatim>\<open>sInterfaceExists\<close> and the callback object of each class, \<open>death_links\<close> the objects whose death is reported.\<close>

record gnss_state =
  mGnssIface :: bool
  sInterfaceExists :: bool
  sGnssCbIface :: "nat option"
  death_links :: "nat list"
  sWakelockHeldGnss :: bool
  sWakelockHeldFused :: bool
  sWakelockHeld :: bool
  sCapabilitiesCached :: u32
  sYearOfHwCached :: u16
  members :: "ext \<Rightarrow> bool"
  ext_exists :: "ext \<Rightarrow> bool"
  ext_cb :: "ext \<Rightarrow> nat option"
  sFlpSupportsBatching :: bool
  discontinuity_count :: u32
  sThreadFuncArgsList :: "ext option \<Rightarrow> (nat \<times> nat) list"
  threads :: "(nat \<times> nat) list"
  client_log :: "(nat \<times> gnss_call) list"
  hal_log :: "gps_call list"

definition gnss_boot :: gnss_state where
  "gnss_boot = \<lparr>mGnssIface = False, sInterfaceExists = False, sGnssCbIface = None, death_links = [], sWakelockHeldGnss = False,
     sWakelockHeldFused = False, sWakelockHeld = False, sCapabilitiesCached = 0, sYearOfHwCached = 0, members = (\<lambda>_. False),
     ext_exists = (\<lambda>_. False), ext_cb = (\<lambda>_. None), sFlpSupportsBatching = False, discontinuity_count = 0,
     sThreadFuncArgsList = (\<lambda>_. []), threads = [], client_log = [], hal_log = []\<rparr>"

datatype gnss_fault = OutOfBounds | NullPointer | Fatal

text \<open>What the outside decides: the constants of the headers, the result of the \<open>n\<close>-th call of the vendor library and
  the calls it makes of the service before it returns, which extensions it has, the outcome of loading the two
  libraries, and the outcome of starting a thread.\<close>

record gnss_env =
  base :: gnss_base
  measure :: measure_base
  agps :: agps_base
  flp :: flp_base
  batch :: batch_base
  vendor_ret :: "nat \<Rightarrow> gps_call \<Rightarrow> int"
  vendor_events :: "nat \<Rightarrow> gps_call \<Rightarrow> vendor_event list"
  has_extension :: "string \<Rightarrow> bool"
  gps_get_module :: int
  gps_open :: "int \<times> bool"
  gps_interface :: bool
  flp_get_module :: int
  flp_module :: "bool \<times> bool"
  flp_open :: int
  flp_interface :: bool
  pthread_create :: "ext option \<Rightarrow> nat \<Rightarrow> nat option"

type_synonym gnss_run = "gnss_fault + gnss_state"

definition run_bind :: "'e + 'a \<Rightarrow> ('a \<Rightarrow> 'e + 'b) \<Rightarrow> 'e + 'b" where
  "run_bind r f = (case r of Inl e \<Rightarrow> Inl e | Inr x \<Rightarrow> f x)"

lemma run_bind_simps [simp]: "run_bind (Inl e) f = Inl e" "run_bind (Inr x) f = f x"
  by (simp_all add: run_bind_def)

lemma run_bind_Inr: "run_bind r f = Inr y \<longleftrightarrow> (\<exists>x. r = Inr x \<and> f x = Inr y)"
  by (cases r) simp_all

definition tell :: "nat \<Rightarrow> gnss_call \<Rightarrow> gnss_state \<Rightarrow> gnss_state" where
  "tell cb c st = st\<lparr>client_log := client_log st @ [(cb, c)]\<rparr>"

text \<open>The first lines of every callback: without a client it does nothing.\<close>

definition with_client :: "nat option \<Rightarrow> (nat \<Rightarrow> gnss_run) \<Rightarrow> gnss_state \<Rightarrow> gnss_run" where
  "with_client cb f st = (case cb of None \<Rightarrow> Inr st | Some c \<Rightarrow> f c)"

lemma with_client_simps [simp]: "with_client None f st = Inr st" "with_client (Some c) f st = f c"
  by (simp_all add: with_client_def)

text \<open>A loop over the first \<open>n\<close> elements of an array.\<close>

fun convert_upto :: "('a \<Rightarrow> 'b) \<Rightarrow> nat \<Rightarrow> 'a list \<Rightarrow> gnss_fault + 'b list" where
  "convert_upto f 0 xs = Inr []"
| "convert_upto f (Suc n) [] = Inl OutOfBounds"
| "convert_upto f (Suc n) (x # xs) = run_bind (convert_upto f n xs) (\<lambda>ys. Inr (f x # ys))"

lemma convert_upto_eq: "convert_upto f n xs = (if n \<le> length xs then Inr (map f (take n xs)) else Inl OutOfBounds)"
  by (induction f n xs rule: convert_upto.induct) simp_all

text \<open>A string in an array of characters.\<close>

definition array_string :: "u8 list \<Rightarrow> gnss_fault + u8 list" where
  "array_string bs = (if 0 \<in> set bs then Inr (takeWhile (\<lambda>b. b \<noteq> 0) bs) else Inl OutOfBounds)"

definition string_arg :: "u8 list \<Rightarrow> u8 list" where
  "string_arg bs = takeWhile (\<lambda>b. b \<noteq> 0) bs"

end
