(* ===== verification/Gnss_Callbacks.thy ===== *)
theory Gnss_Callbacks
  imports Gnss_State
begin

text \<open>
  The calls that the vendor library makes of the service, each a function of the state: \<^verbatim>\<open>Gnss.cpp\<close> and the files of
  the extensions. Every one forwards to the callback object of its class after converting its argument.
\<close>

section \<open>Positions and satellites\<close>

definition Gnss_locationCb :: "GpsLocation option \<Rightarrow> gnss_state \<Rightarrow> gnss_run" where
  "Gnss_locationCb location st = with_client (sGnssCbIface st) (\<lambda>cb.
     case location of
       None \<Rightarrow> Inr st
     | Some _ \<Rightarrow> Inr (tell cb (gnssLocationCb (convertToGnssLocation location)) st)) st"

definition Gnss_statusCb :: "u16 option \<Rightarrow> gnss_state \<Rightarrow> gnss_run" where
  "Gnss_statusCb gnssStatus st = with_client (sGnssCbIface st) (\<lambda>cb.
     case gnssStatus of None \<Rightarrow> Inr st | Some s \<Rightarrow> Inr (tell cb (gnssStatusCb s) st)) st"

text \<open>The count is an \<^verbatim>\<open>int\<close> read as an unsigned number.\<close>

definition clamped_svs :: "gnss_base \<Rightarrow> s32 \<Rightarrow> nat" where
  "clamped_svs B n = (if unat n > SVS_COUNT B then SVS_COUNT B else unat n)"

definition gnss_sv_info :: "gnss_base \<Rightarrow> LegacyGnssSvInfo \<Rightarrow> GnssSvInfo" where
  "gnss_sv_info B svInfo =
     \<lparr>svid = sint (lsv_svid svInfo), constellation = Constellation (lsv_constellation svInfo), cN0Dbhz = lsv_c_n0_dbhz svInfo,
      elevationDegrees = lsv_elevation svInfo, azimuthDegrees = lsv_azimuth svInfo,
      svFlag = lsv_flags svInfo AND NOT (SV_HAS_CARRIER_FREQUENCY B), carrierFrequencyHz = Some 0\<rparr>"

definition Gnss_gnssSvStatusCb :: "gnss_base \<Rightarrow> LegacyGnssSvStatus option \<Rightarrow> gnss_state \<Rightarrow> gnss_run" where
  "Gnss_gnssSvStatusCb B status st = with_client (sGnssCbIface st) (\<lambda>cb.
     case status of
       None \<Rightarrow> Inr st
     | Some s \<Rightarrow> run_bind (convert_upto (gnss_sv_info B) (clamped_svs B (lsv_num_svs s)) (gnss_sv_list s))
         (\<lambda>svs. Inr (tell cb (gnssSvStatusCb svs) st))) st"

text \<open>\<^verbatim>\<open>SvidValues\<close>.\<close>

definition GLONASS_SVID_OFFSET :: int where "GLONASS_SVID_OFFSET = 64"
definition GLONASS_SVID_COUNT :: int where "GLONASS_SVID_COUNT = 24"
definition BEIDOU_SVID_OFFSET :: int where "BEIDOU_SVID_OFFSET = 200"
definition BEIDOU_SVID_COUNT :: int where "BEIDOU_SVID_COUNT = 35"
definition SBAS_SVID_MIN :: int where "SBAS_SVID_MIN = 33"
definition SBAS_SVID_MAX :: int where "SBAS_SVID_MAX = 64"
definition SBAS_SVID_ADD :: int where "SBAS_SVID_ADD = 87"
definition QZSS_SVID_MIN :: int where "QZSS_SVID_MIN = 193"
definition QZSS_SVID_MAX :: int where "QZSS_SVID_MAX = 200"

lemmas svid_values = GLONASS_SVID_OFFSET_def GLONASS_SVID_COUNT_def BEIDOU_SVID_OFFSET_def BEIDOU_SVID_COUNT_def
  SBAS_SVID_MIN_def SBAS_SVID_MAX_def SBAS_SVID_ADD_def QZSS_SVID_MIN_def QZSS_SVID_MAX_def

definition classify :: "gnss_base \<Rightarrow> int \<Rightarrow> GnssConstellationType \<times> int" where
  "classify B i =
     (if 1 \<le> i \<and> i \<le> 32 then (GPS, i)
      else if GLONASS_SVID_OFFSET < i \<and> i \<le> GLONASS_SVID_OFFSET + GLONASS_SVID_COUNT then (GLONASS, to_svid B (i - GLONASS_SVID_OFFSET))
      else if BEIDOU_SVID_OFFSET < i \<and> i \<le> BEIDOU_SVID_OFFSET + BEIDOU_SVID_COUNT then (BEIDOU, to_svid B (i - BEIDOU_SVID_OFFSET))
      else if SBAS_SVID_MIN \<le> i \<and> i \<le> SBAS_SVID_MAX then (SBAS, to_svid B (i + SBAS_SVID_ADD))
      else if QZSS_SVID_MIN \<le> i \<and> i \<le> QZSS_SVID_MAX then (QZSS, i)
      else (UNKNOWN, i))"

definition gps_sv_flags :: "gnss_base \<Rightarrow> GpsSvStatus \<Rightarrow> GnssConstellationType \<Rightarrow> int \<Rightarrow> u8" where
  "gps_sv_flags B S c i =
     (if c = GPS
      then let svidMask = push_bit (nat (i - 1)) (1 :: u32);
               f0 = SV_NONE B;
               f1 = (if ephemeris_mask S AND svidMask \<noteq> 0 then f0 OR SV_HAS_EPHEMERIS_DATA B else f0);
               f2 = (if almanac_mask S AND svidMask \<noteq> 0 then f1 OR SV_HAS_ALMANAC_DATA B else f1)
           in if used_in_fix_mask S AND svidMask \<noteq> 0 then f2 OR SV_USED_IN_FIX B else f2
      else SV_NONE B)"

definition gps_sv_info :: "gnss_base \<Rightarrow> GpsSvStatus \<Rightarrow> GpsSvInfo \<Rightarrow> GnssSvInfo" where
  "gps_sv_info B S sv = (let (c, i) = classify B (to_svid B (sint (prn sv))) in
     \<lparr>svid = i, constellation = c, cN0Dbhz = snr sv, elevationDegrees = elevation sv, azimuthDegrees = azimuth sv,
      svFlag = gps_sv_flags B S c i, carrierFrequencyHz = None\<rparr>)"

definition Gnss_gpsSvStatusCb :: "gnss_base \<Rightarrow> GpsSvStatus option \<Rightarrow> gnss_state \<Rightarrow> gnss_run" where
  "Gnss_gpsSvStatusCb B svInfo st = with_client (sGnssCbIface st) (\<lambda>cb.
     case svInfo of
       None \<Rightarrow> Inr st
     | Some S \<Rightarrow> run_bind (convert_upto (gps_sv_info B S) (clamped_svs B (num_svs S)) (sv_list S))
         (\<lambda>svs. Inr (tell cb (gnssSvStatusCb svs) st))) st"

definition Gnss_nmeaCb :: "s64 \<Rightarrow> u8 list \<Rightarrow> s32 \<Rightarrow> gnss_state \<Rightarrow> gnss_run" where
  "Gnss_nmeaCb timestamp nmea len st = with_client (sGnssCbIface st) (\<lambda>cb.
     if sint len < 0 \<or> length nmea < unat len then Inl OutOfBounds
     else Inr (tell cb (gnssNmeaCb timestamp (take (unat len) nmea)) st)) st"

section \<open>Capabilities, wake lock, time and threads\<close>

definition Gnss_setCapabilitiesCb :: "u32 \<Rightarrow> gnss_state \<Rightarrow> gnss_run" where
  "Gnss_setCapabilitiesCb capabilities st = with_client (sGnssCbIface st) (\<lambda>cb.
     Inr ((tell cb (gnssSetCapabilitesCb capabilities) st)\<lparr>sCapabilitiesCached := capabilities\<rparr>)) st"

definition updateWakelock :: "gnss_state \<Rightarrow> gnss_run" where
  "updateWakelock st = with_client (sGnssCbIface st) (\<lambda>cb.
     if sWakelockHeldGnss st \<or> sWakelockHeldFused st
     then if \<not> sWakelockHeld st then Inr (tell cb gnssAcquireWakelockCb (st\<lparr>sWakelockHeld := True\<rparr>)) else Inr st
     else Inr (tell cb gnssReleaseWakelockCb (st\<lparr>sWakelockHeld := False\<rparr>))) st"

definition acquireWakelockGnss :: "gnss_state \<Rightarrow> gnss_run" where
  "acquireWakelockGnss st = updateWakelock (st\<lparr>sWakelockHeldGnss := True\<rparr>)"

definition releaseWakelockGnss :: "gnss_state \<Rightarrow> gnss_run" where
  "releaseWakelockGnss st = updateWakelock (st\<lparr>sWakelockHeldGnss := False\<rparr>)"

definition acquireWakelockFused :: "gnss_state \<Rightarrow> gnss_run" where
  "acquireWakelockFused st = updateWakelock (st\<lparr>sWakelockHeldFused := True\<rparr>)"

definition releaseWakelockFused :: "gnss_state \<Rightarrow> gnss_run" where
  "releaseWakelockFused st = updateWakelock (st\<lparr>sWakelockHeldFused := False\<rparr>)"

definition Gnss_requestUtcTimeCb :: "gnss_state \<Rightarrow> gnss_run" where
  "Gnss_requestUtcTimeCb st = with_client (sGnssCbIface st) (\<lambda>cb. Inr (tell cb gnssRequestTimeCb st)) st"

text \<open>The argument of a thread is kept until its class is destroyed. The result is the thread, which has no
  value when no thread could be started.\<close>

definition createPthread :: "gnss_env \<Rightarrow> ext option \<Rightarrow> nat \<Rightarrow> nat \<Rightarrow> gnss_state \<Rightarrow> nat option \<times> gnss_state" where
  "createPthread E owner start arg st =
     (let n = length (sThreadFuncArgsList st owner);
          st1 = st\<lparr>sThreadFuncArgsList := (sThreadFuncArgsList st)(owner := sThreadFuncArgsList st owner @ [(start, arg)])\<rparr>
      in case pthread_create E owner n of
           None \<Rightarrow> (None, st1)
         | Some t \<Rightarrow> (Some t, st1\<lparr>threads := threads st @ [(start, arg)]\<rparr>))"

definition Gnss_setSystemInfoCb :: "u16 option \<Rightarrow> gnss_state \<Rightarrow> gnss_run" where
  "Gnss_setSystemInfoCb info st = with_client (sGnssCbIface st) (\<lambda>cb.
     case info of
       None \<Rightarrow> Inr st
     | Some year_of_hw \<Rightarrow> Inr ((tell cb (gnssSetSystemInfoCb year_of_hw) st)\<lparr>sYearOfHwCached := year_of_hw\<rparr>)) st"

section \<open>Callbacks of the extensions\<close>

definition Xtra_gnssXtraDownloadRequestCb :: "gnss_state \<Rightarrow> gnss_run" where
  "Xtra_gnssXtraDownloadRequestCb st = with_client (ext_cb st Xtra) (\<lambda>cb. Inr (tell cb downloadRequestCb st)) st"

definition htonl :: "u32 \<Rightarrow> u32" where
  "htonl w = push_bit 24 (w AND 0xFF) OR push_bit 8 (w AND 0xFF00) OR drop_bit 8 (w AND 0xFF0000) OR drop_bit 24 w"

definition AGnss_statusCb :: "agps_base \<Rightarrow> AGpsStatus option \<Rightarrow> gnss_state \<Rightarrow> gnss_run" where
  "AGnss_statusCb A status st = with_client (ext_cb st Agnss) (\<lambda>cb.
     case status of
       None \<Rightarrow> Inr st
     | Some s \<Rightarrow>
         if as_size s = sizeof_AGpsStatus A
         then if as_family s = AF_INET A then Inr (tell cb (agnssStatusIpV4Cb (as_type s) (as_status s) (as_v4 s)) st)
              else if as_family s = AF_INET6 A then Inr (tell cb (agnssStatusIpV6Cb (as_type s) (as_status s) (as_v6 s)) st)
              else Inr st
         else if as_size s \<ge> sizeof_AGpsStatus_v2 A
         then Inr (tell cb (agnssStatusIpV4Cb (AF_INET A) (as_status s) (htonl (as_ipaddr s))) st)
         else Inr st) st"

definition AGnssRil_requestSetId :: "u32 \<Rightarrow> gnss_state \<Rightarrow> gnss_run" where
  "AGnssRil_requestSetId flags st = with_client (ext_cb st Ril) (\<lambda>cb. Inr (tell cb (requestSetIdCb flags) st)) st"

definition AGnssRil_requestRefLoc :: "u32 \<Rightarrow> gnss_state \<Rightarrow> gnss_run" where
  "AGnssRil_requestRefLoc _ st = with_client (ext_cb st Ril) (\<lambda>cb. Inr (tell cb requestRefLocCb st)) st"

definition gnssGfTransitionCb :: "s32 \<Rightarrow> GpsLocation option \<Rightarrow> s32 \<Rightarrow> s64 \<Rightarrow> gnss_state \<Rightarrow> gnss_run" where
  "gnssGfTransitionCb geofenceId location transition timestamp st = with_client (ext_cb st Geofencing) (\<lambda>cb.
     case location of
       None \<Rightarrow> Inr st
     | Some _ \<Rightarrow> Inr (tell cb (gnssGeofenceTransitionCb geofenceId (convertToGnssLocation location) transition timestamp) st)) st"

definition gnssGfStatusCb :: "s32 \<Rightarrow> GpsLocation option \<Rightarrow> gnss_state \<Rightarrow> gnss_run" where
  "gnssGfStatusCb status location st = with_client (ext_cb st Geofencing) (\<lambda>cb.
     let gnssLocation = (case location of Some _ \<Rightarrow> convertToGnssLocation location | None \<Rightarrow> empty_location)
     in Inr (tell cb (gnssGeofenceStatusCb status gnssLocation) st)) st"

definition gnssGfAddCb :: "s32 \<Rightarrow> s32 \<Rightarrow> gnss_state \<Rightarrow> gnss_run" where
  "gnssGfAddCb geofenceId status st = with_client (ext_cb st Geofencing) (\<lambda>cb. Inr (tell cb (gnssGeofenceAddCb geofenceId status) st)) st"

definition gnssGfRemoveCb :: "s32 \<Rightarrow> s32 \<Rightarrow> gnss_state \<Rightarrow> gnss_run" where
  "gnssGfRemoveCb geofenceId status st = with_client (ext_cb st Geofencing) (\<lambda>cb. Inr (tell cb (gnssGeofenceRemoveCb geofenceId status) st)) st"

definition gnssGfPauseCb :: "s32 \<Rightarrow> s32 \<Rightarrow> gnss_state \<Rightarrow> gnss_run" where
  "gnssGfPauseCb geofenceId status st = with_client (ext_cb st Geofencing) (\<lambda>cb. Inr (tell cb (gnssGeofencePauseCb geofenceId status) st)) st"

definition gnssGfResumeCb :: "s32 \<Rightarrow> s32 \<Rightarrow> gnss_state \<Rightarrow> gnss_run" where
  "gnssGfResumeCb geofenceId status st = with_client (ext_cb st Geofencing) (\<lambda>cb. Inr (tell cb (gnssGeofenceResumeCb geofenceId status) st)) st"

section \<open>Measurements\<close>

definition known_state :: "measure_base \<Rightarrow> u32 \<Rightarrow> u32" where
  "known_state M s0 =
     (let s1 = (if s0 AND STATE_TOW_DECODED M \<noteq> 0 then s0 OR STATE_TOW_KNOWN M else s0)
      in if s1 AND STATE_GLO_TOD_DECODED M \<noteq> 0 then s1 OR STATE_GLO_TOD_KNOWN M else s1)"

definition gnss_measurement :: "measure_base \<Rightarrow> LegacyGnssMeasurement \<Rightarrow> GnssMeasurement" where
  "gnss_measurement M entry =
     \<lparr>m_flags = lm_flags entry, m_svid = sint (lm_svid entry), m_constellation = Constellation (lm_constellation entry),
      m_timeOffsetNs = lm_time_offset_ns entry, m_state = known_state M (lm_state entry),
      m_receivedSvTimeInNs = lm_received_sv_time_in_ns entry,
      m_receivedSvTimeUncertaintyInNs = lm_received_sv_time_uncertainty_in_ns entry, m_cN0DbHz = lm_c_n0_dbhz entry,
      m_pseudorangeRateMps = lm_pseudorange_rate_mps entry,
      m_pseudorangeRateUncertaintyMps = lm_pseudorange_rate_uncertainty_mps entry,
      m_accumulatedDeltaRangeState = lm_accumulated_delta_range_state entry,
      m_accumulatedDeltaRangeM = lm_accumulated_delta_range_m entry,
      m_accumulatedDeltaRangeUncertaintyM = lm_accumulated_delta_range_uncertainty_m entry,
      m_carrierFrequencyHz = lm_carrier_frequency_hz entry, m_carrierCycles = Some (lm_carrier_cycles entry),
      m_carrierPhase = lm_carrier_phase entry, m_carrierPhaseUncertainty = lm_carrier_phase_uncertainty entry,
      m_multipathIndicator = lm_multipath_indicator entry, m_snrDb = lm_snr_db entry\<rparr>"

definition gnss_clock :: "LegacyGnssClock \<Rightarrow> GnssClock" where
  "gnss_clock c =
     \<lparr>gnssClockFlags = lc_flags c, leapSecond = lc_leap_second c, timeNs = lc_time_ns c, timeUncertaintyNs = lc_time_uncertainty_ns c,
      fullBiasNs = lc_full_bias_ns c, biasNs = lc_bias_ns c, biasUncertaintyNs = lc_bias_uncertainty_ns c, driftNsps = lc_drift_nsps c,
      driftUncertaintyNsps = lc_drift_uncertainty_nsps c, hwClockDiscontinuityCount = Some (lc_hw_clock_discontinuity_count c)\<rparr>"

definition gnssMeasurementCb :: "gnss_base \<Rightarrow> measure_base \<Rightarrow> LegacyGnssData option \<Rightarrow> gnss_state \<Rightarrow> gnss_run" where
  "gnssMeasurementCb B M legacyGnssData st = with_client (ext_cb st Measurement) (\<lambda>cb.
     case legacyGnssData of
       None \<Rightarrow> Inr st
     | Some d \<Rightarrow> run_bind (convert_upto (gnss_measurement M) (min (ld_measurement_count d) (SVS_COUNT B)) (ld_measurements d))
         (\<lambda>ms. Inr (tell cb (GnssMeasurementCb ms (gnss_clock (ld_clock d))) st))) st"

definition gps_measurement :: "measure_base \<Rightarrow> GpsMeasurement \<Rightarrow> GnssMeasurement" where
  "gps_measurement M entry =
     \<lparr>m_flags = gm_flags entry, m_svid = sint (gm_prn entry),
      m_constellation = (if 1 \<le> sint (gm_prn entry) \<and> sint (gm_prn entry) \<le> 32 then GPS else UNKNOWN),
      m_timeOffsetNs = gm_time_offset_ns entry, m_state = ucast (gm_state entry),
      m_receivedSvTimeInNs = gm_received_gps_tow_ns entry,
      m_receivedSvTimeUncertaintyInNs = gm_received_gps_tow_uncertainty_ns entry, m_cN0DbHz = gm_c_n0_dbhz entry,
      m_pseudorangeRateMps = gm_pseudorange_rate_mps entry,
      m_pseudorangeRateUncertaintyMps = gm_pseudorange_rate_uncertainty_mps entry,
      m_accumulatedDeltaRangeState = gm_accumulated_delta_range_state entry,
      m_accumulatedDeltaRangeM = gm_accumulated_delta_range_m entry,
      m_accumulatedDeltaRangeUncertaintyM = gm_accumulated_delta_range_uncertainty_m entry,
      m_carrierFrequencyHz = (if gm_flags entry AND HAS_CARRIER_FREQUENCY M \<noteq> 0 then gm_carrier_frequency_hz entry else 0),
      m_carrierCycles = None,
      m_carrierPhase = (if gm_flags entry AND HAS_CARRIER_PHASE M \<noteq> 0 then gm_carrier_phase entry else 0),
      m_carrierPhaseUncertainty =
        (if gm_flags entry AND HAS_CARRIER_PHASE_UNCERTAINTY M \<noteq> 0 then gm_carrier_phase_uncertainty entry else 0),
      m_multipathIndicator = gm_multipath_indicator entry,
      m_snrDb = (if gm_flags entry AND HAS_SNR M \<noteq> 0 then gm_snr_db entry else 0)\<rparr>"

text \<open>A clock that counts GPS time is turned into a hardware clock that stands still at zero and is never
  continuous; the count of its interruptions is kept over the calls.\<close>

definition gps_clock :: "u32 \<Rightarrow> GpsClock \<Rightarrow> GnssClock \<times> u32" where
  "gps_clock count c =
     (let (flags, full, t, disc, count') =
        (case gc_type c of
           CLOCK_GPS_TIME \<Rightarrow> (gc_flags c OR GPS_CLOCK_HAS_FULL_BIAS, gc_time_ns c, 0, Some count, count + 1)
         | _ \<Rightarrow> (gc_flags c, gc_full_bias_ns c, gc_time_ns c, None, count))
      in (\<lparr>gnssClockFlags = flags, leapSecond = gc_leap_second c, timeNs = t, timeUncertaintyNs = gc_time_uncertainty_ns c,
           fullBiasNs = - full, biasNs = fneg (gc_bias_ns c), biasUncertaintyNs = gc_bias_uncertainty_ns c,
           driftNsps = gc_drift_nsps c, driftUncertaintyNsps = gc_drift_uncertainty_nsps c,
           hwClockDiscontinuityCount = disc\<rparr>, count'))"

definition gpsMeasurementCb :: "gnss_base \<Rightarrow> measure_base \<Rightarrow> GpsData option \<Rightarrow> gnss_state \<Rightarrow> gnss_run" where
  "gpsMeasurementCb B M gpsData st = with_client (ext_cb st Measurement) (\<lambda>cb.
     case gpsData of
       None \<Rightarrow> Inr st
     | Some d \<Rightarrow> run_bind (convert_upto (gps_measurement M) (min (gd_measurement_count d) (SVS_COUNT B)) (gd_measurements d))
         (\<lambda>ms. let (clock, count) = gps_clock (discontinuity_count st) (gd_clock d)
            in Inr ((tell cb (GnssMeasurementCb ms clock) st)\<lparr>discontinuity_count := count\<rparr>))) st"

section \<open>Messages, notices and batches\<close>

definition Navigation_messageCb :: "LegacyGnssNavigationMessage option \<Rightarrow> gnss_state \<Rightarrow> gnss_run" where
  "Navigation_messageCb message st = with_client (ext_cb st Navigation) (\<lambda>cb.
     case message of
       None \<Rightarrow> Inr st
     | Some m \<Rightarrow> if length (nm_data m) < nm_data_length m then Inl OutOfBounds
         else Inr (tell cb (gnssNavigationMessageCb (nm_svid m) (nm_type m) (nm_status m) (nm_message_id m) (nm_submessage_id m)
           (take (nm_data_length m) (nm_data m))) st)) st"

definition GnssNi_niNotifyCb :: "GpsNiNotification option \<Rightarrow> gnss_state \<Rightarrow> gnss_run" where
  "GnssNi_niNotifyCb notification st = with_client (ext_cb st Ni) (\<lambda>cb.
     case notification of
       None \<Rightarrow> Inr st
     | Some n \<Rightarrow> run_bind (array_string (requestor_id n)) (\<lambda>requestorId. run_bind (array_string (ni_text n)) (\<lambda>message.
         Inr (tell cb (niNotifyCb (notification_id n) (ni_type n) (notify_flags n) (ni_timeout n) (default_response n)
           requestorId message (requestor_id_encoding n) (text_encoding n)) st)))) st"

definition FLP_GNSS_BATCHING_CLIENT_ID :: u16 where "FLP_GNSS_BATCHING_CLIENT_ID = 4"
definition MAX_LOCATIONS_PER_BATCH :: int where "MAX_LOCATIONS_PER_BATCH = 1000"

definition FLP_TECH_MASK_GNSS_AND_SENSORS :: "batch_base \<Rightarrow> u16" where
  "FLP_TECH_MASK_GNSS_AND_SENSORS P = FLP_TECH_MASK_GNSS P OR FLP_TECH_MASK_SENSORS P"

definition wanted_location :: "batch_base \<Rightarrow> FlpLocation option \<Rightarrow> bool" where
  "wanted_location P l = (case l of None \<Rightarrow> False
     | Some x \<Rightarrow> fl_sources_used x AND NOT (ucast (FLP_TECH_MASK_GNSS_AND_SENSORS P)) = 0)"

text \<open>The loop over the batch; the array has as many elements as the list.\<close>

fun batch_loop :: "flp_base \<Rightarrow> batch_base \<Rightarrow> nat \<Rightarrow> FlpLocation option list \<Rightarrow> gnss_fault + GnssLocation list" where
  "batch_loop F P 0 ls = Inr []"
| "batch_loop F P (Suc n) [] = Inl OutOfBounds"
| "batch_loop F P (Suc n) (l # ls) = run_bind (batch_loop F P n ls)
     (\<lambda>gs. Inr (if wanted_location P l then convertFlpLocation F l # gs else gs))"

definition clamped_batch :: "s32 \<Rightarrow> nat" where
  "clamped_batch n = nat (if sint n < 0 then 0 else if sint n > MAX_LOCATIONS_PER_BATCH then MAX_LOCATIONS_PER_BATCH else sint n)"

definition GnssBatching_locationCb :: "flp_base \<Rightarrow> batch_base \<Rightarrow> s32 \<Rightarrow> FlpLocation option list option \<Rightarrow> gnss_state \<Rightarrow> gnss_run" where
  "GnssBatching_locationCb F P locationsCount locations st = with_client (ext_cb st Batching) (\<lambda>cb.
     case locations of
       None \<Rightarrow> Inr st
     | Some ls \<Rightarrow> run_bind (batch_loop F P (clamped_batch locationsCount) ls)
         (\<lambda>gs. Inr (tell cb (gnssLocationBatchCb gs) st))) st"

definition GnssBatching_flpCapabilitiesCb :: "batch_base \<Rightarrow> s32 \<Rightarrow> gnss_state \<Rightarrow> gnss_run" where
  "GnssBatching_flpCapabilitiesCb P capabilities st =
     Inr (if capabilities AND CAPABILITY_GNSS P \<noteq> 0 then st\<lparr>sFlpSupportsBatching := True\<rparr> else st)"

section \<open>All callbacks\<close>

text \<open>The tables of callbacks: what a call of the vendor library runs.\<close>

fun deliver :: "gnss_env \<Rightarrow> vendor_event \<Rightarrow> gnss_state \<Rightarrow> gnss_run" where
  "deliver E (LocationCb l) st = Gnss_locationCb l st"
| "deliver E (StatusCb s) st = Gnss_statusCb s st"
| "deliver E (GpsSvStatusCb s) st = Gnss_gpsSvStatusCb (base E) s st"
| "deliver E (GnssSvStatusCb s) st = Gnss_gnssSvStatusCb (base E) s st"
| "deliver E (NmeaCb t n k) st = Gnss_nmeaCb t n k st"
| "deliver E (SetCapabilitiesCb c) st = Gnss_setCapabilitiesCb c st"
| "deliver E AcquireWakelockCb st = acquireWakelockGnss st"
| "deliver E ReleaseWakelockCb st = releaseWakelockGnss st"
| "deliver E RequestUtcTimeCb st = Gnss_requestUtcTimeCb st"
| "deliver E (SetSystemInfoCb i) st = Gnss_setSystemInfoCb i st"
| "deliver E (CreateThreadCb owner f a) st = Inr (snd (createPthread E owner f a st))"
| "deliver E XtraDownloadRequestCb st = Xtra_gnssXtraDownloadRequestCb st"
| "deliver E (AgpsStatusCb s) st = AGnss_statusCb (agps E) s st"
| "deliver E (RequestSetId f) st = AGnssRil_requestSetId f st"
| "deliver E (RequestRefLoc f) st = AGnssRil_requestRefLoc f st"
| "deliver E (GfTransitionCb i l t s) st = gnssGfTransitionCb i l t s st"
| "deliver E (GfStatusCb s l) st = gnssGfStatusCb s l st"
| "deliver E (GfAddCb i s) st = gnssGfAddCb i s st"
| "deliver E (GfRemoveCb i s) st = gnssGfRemoveCb i s st"
| "deliver E (GfPauseCb i s) st = gnssGfPauseCb i s st"
| "deliver E (GfResumeCb i s) st = gnssGfResumeCb i s st"
| "deliver E (LegacyMeasurementCb d) st = gnssMeasurementCb (base E) (measure E) d st"
| "deliver E (GpsMeasurementCb d) st = gpsMeasurementCb (base E) (measure E) d st"
| "deliver E (NavigationMessageCb m) st = Navigation_messageCb m st"
| "deliver E (NiNotifyCb n) st = GnssNi_niNotifyCb n st"
| "deliver E (FlpLocationCb n ls) st = GnssBatching_locationCb (flp E) (batch E) n ls st"
| "deliver E FlpAcquireWakelockCb st = acquireWakelockFused st"
| "deliver E FlpReleaseWakelockCb st = releaseWakelockFused st"
| "deliver E (FlpSetThreadEventCb _) st = Inr st"
| "deliver E (FlpCapabilitiesCb c) st = GnssBatching_flpCapabilitiesCb (batch E) c st"
| "deliver E (FlpStatusCb _) st = Inr st"

fun deliver_all :: "gnss_env \<Rightarrow> vendor_event list \<Rightarrow> gnss_state \<Rightarrow> gnss_run" where
  "deliver_all E [] st = Inr st"
| "deliver_all E (e # es) st = run_bind (deliver E e st) (deliver_all E es)"

end
