(* ===== verification/Gnss_Service.thy ===== *)
theory Gnss_Service
  imports Gnss_Callbacks
begin

text \<open>
  The methods of the satellite positioning service that clients call: \<^verbatim>\<open>Gnss.cpp\<close> with its life cycle and the
  extensions \<^verbatim>\<open>AGnss.cpp\<close>, \<^verbatim>\<open>AGnssRil.cpp\<close>, \<^verbatim>\<open>GnssBatching.cpp\<close>, \<^verbatim>\<open>GnssConfiguration.cpp\<close>, \<^verbatim>\<open>GnssDebug.cpp\<close>,
  \<^verbatim>\<open>GnssGeofencing.cpp\<close>, \<^verbatim>\<open>GnssMeasurement.cpp\<close>, \<^verbatim>\<open>GnssNavigationMessage.cpp\<close>, \<^verbatim>\<open>GnssNi.cpp\<close> and \<^verbatim>\<open>GnssXtra.cpp\<close>. An
  extension object exists only with an interface of the vendor library, so the checks of its methods for a
  missing one are the checks whether there is an object. Enumerators of the interface come as their numbers.
\<close>

section \<open>Calling the vendor library\<close>

type_synonym 'a gnss_result = "gnss_fault + 'a \<times> gnss_state"

text \<open>Before a call returns, the library may make calls of the service.\<close>

definition vendor :: "gnss_env \<Rightarrow> gps_call \<Rightarrow> gnss_state \<Rightarrow> int gnss_result" where
  "vendor E c st =
     (let n = length (hal_log st)
      in run_bind (deliver_all E (vendor_events E n c) (st\<lparr>hal_log := hal_log st @ [c]\<rparr>)) (\<lambda>st'. Inr (vendor_ret E n c, st')))"

text \<open>The two shapes of a method: with a status and without.\<close>

definition checked_call :: "gnss_env \<Rightarrow> bool \<Rightarrow> gps_call \<Rightarrow> gnss_state \<Rightarrow> bool gnss_result" where
  "checked_call E present c st =
     (if \<not> present then Inr (False, st) else run_bind (vendor E c st) (\<lambda>(r, st'). Inr (r = 0, st')))"

definition plain_call :: "gnss_env \<Rightarrow> bool \<Rightarrow> gps_call \<Rightarrow> gnss_state \<Rightarrow> gnss_run" where
  "plain_call E present c st = (if \<not> present then Inr st else run_bind (vendor E c st) (\<lambda>(_, st'). Inr st'))"

definition accepted_call :: "gnss_env \<Rightarrow> bool \<Rightarrow> gps_call \<Rightarrow> gnss_state \<Rightarrow> bool gnss_result" where
  "accepted_call E present c st =
     (if \<not> present then Inr (False, st) else run_bind (vendor E c st) (\<lambda>(_, st'). Inr (True, st')))"

section \<open>The object\<close>

text \<open>\<open>device\<close> tells whether there is a device and whether it has an interface.\<close>

definition Gnss_new :: "bool \<Rightarrow> bool \<Rightarrow> gnss_state \<Rightarrow> gnss_run" where
  "Gnss_new device iface st =
     (if sInterfaceExists st then Inl Fatal
      else let st1 = st\<lparr>sInterfaceExists := True, mGnssIface := False, members := (\<lambda>_. False)\<rparr>
           in if \<not> device then Inr st1 else Inr (st1\<lparr>mGnssIface := iface\<rparr>))"

definition Gnss_delete :: "gnss_state \<Rightarrow> gnss_state" where
  "Gnss_delete st = st\<lparr>sInterfaceExists := False, sThreadFuncArgsList := (sThreadFuncArgsList st)(None := [])\<rparr>"

text \<open>The classes that allow one object only.\<close>

definition single :: "ext \<Rightarrow> bool" where
  "single x = (x \<in> {Xtra, Ril, Geofencing, Agnss, Ni})"

definition ext_new :: "ext \<Rightarrow> gnss_state \<Rightarrow> gnss_run" where
  "ext_new x st =
     (if single x \<and> ext_exists st x then Inl Fatal
      else Inr (if single x then st\<lparr>ext_exists := (ext_exists st)(x := True)\<rparr> else st))"

definition ext_delete :: "ext \<Rightarrow> gnss_state \<Rightarrow> gnss_state" where
  "ext_delete x st =
     (if single x
      then st\<lparr>ext_exists := (ext_exists st)(x := False), sThreadFuncArgsList := (sThreadFuncArgsList st)(Some x := [])\<rparr>
      else st)"

definition HIDL_FETCH_IGnss :: "gnss_env \<Rightarrow> gnss_state \<Rightarrow> bool gnss_result" where
  "HIDL_FETCH_IGnss E st =
     (if gps_get_module E = 0
      then if fst (gps_open E) = 0 then run_bind (Gnss_new (snd (gps_open E)) (gps_interface E) st) (\<lambda>st'. Inr (True, st'))
           else Inr (False, st)
      else Inr (False, st))"

section \<open>Methods of Gnss\<close>

definition Gnss_setCallback :: "gnss_env \<Rightarrow> nat option \<Rightarrow> gnss_state \<Rightarrow> bool gnss_result" where
  "Gnss_setCallback E callback st =
     (if \<not> mGnssIface st then Inr (False, st)
      else case callback of
             None \<Rightarrow> Inr (False, st)
           | Some cb \<Rightarrow>
               let st1 = (case sGnssCbIface st of Some old \<Rightarrow> st\<lparr>death_links := remove1 old (death_links st)\<rparr> | None \<Rightarrow> st);
                   st2 = st1\<lparr>sGnssCbIface := Some cb, death_links := cb # death_links st1\<rparr>
               in run_bind (if sCapabilitiesCached st2 \<noteq> 0 then Gnss_setCapabilitiesCb (sCapabilitiesCached st2) st2 else Inr st2)
                    (\<lambda>st3. run_bind (if sYearOfHwCached st3 \<noteq> 0 then Gnss_setSystemInfoCb (Some (sYearOfHwCached st3)) st3 else Inr st3)
                       (\<lambda>st4. run_bind (vendor E Gps_init st4) (\<lambda>(r, st5). Inr (r = 0, st5)))))"

definition Gnss_start :: "gnss_env \<Rightarrow> gnss_state \<Rightarrow> bool gnss_result" where
  "Gnss_start E st = checked_call E (mGnssIface st) Gps_start st"

definition Gnss_stop :: "gnss_env \<Rightarrow> gnss_state \<Rightarrow> bool gnss_result" where
  "Gnss_stop E st = checked_call E (mGnssIface st) Gps_stop st"

definition Gnss_cleanup :: "gnss_env \<Rightarrow> gnss_state \<Rightarrow> gnss_run" where
  "Gnss_cleanup E st = plain_call E (mGnssIface st) Gps_cleanup st"

definition Gnss_injectLocation :: "gnss_env \<Rightarrow> f64 \<Rightarrow> f64 \<Rightarrow> f32 \<Rightarrow> gnss_state \<Rightarrow> bool gnss_result" where
  "Gnss_injectLocation E latitude longitude accuracy st =
     checked_call E (mGnssIface st) (Gps_inject_location latitude longitude accuracy) st"

definition Gnss_injectTime :: "gnss_env \<Rightarrow> s64 \<Rightarrow> s64 \<Rightarrow> s32 \<Rightarrow> gnss_state \<Rightarrow> bool gnss_result" where
  "Gnss_injectTime E timeMs timeReferenceMs uncertaintyMs st =
     checked_call E (mGnssIface st) (Gps_inject_time timeMs timeReferenceMs uncertaintyMs) st"

definition Gnss_deleteAidingData :: "gnss_env \<Rightarrow> int \<Rightarrow> gnss_state \<Rightarrow> gnss_run" where
  "Gnss_deleteAidingData E aidingDataFlags st =
     plain_call E (mGnssIface st) (Gps_delete_aiding_data (of_int aidingDataFlags)) st"

definition Gnss_setPositionMode :: "gnss_env \<Rightarrow> int \<Rightarrow> int \<Rightarrow> u32 \<Rightarrow> u32 \<Rightarrow> u32 \<Rightarrow> gnss_state \<Rightarrow> bool gnss_result" where
  "Gnss_setPositionMode E mode recurrence minIntervalMs preferredAccuracyMeters preferredTimeMs st =
     checked_call E (mGnssIface st)
       (Gps_set_position_mode (of_int mode) (of_int recurrence) minIntervalMs preferredAccuracyMeters preferredTimeMs) st"

text \<open>An extension is looked for in the vendor library until there is one, and then kept.\<close>

definition getExtension :: "gnss_env \<Rightarrow> ext \<Rightarrow> string \<Rightarrow> gnss_state \<Rightarrow> bool gnss_result" where
  "getExtension E x name st =
     (if \<not> mGnssIface st then Inr (False, st)
      else run_bind
        (if \<not> members st x
         then run_bind (vendor E (Gps_get_extension name) st) (\<lambda>(_, st1).
                if \<not> has_extension E name then Inr st1
                else run_bind (ext_new x st1) (\<lambda>st2. Inr (st2\<lparr>members := (members st2)(x := True)\<rparr>)))
         else Inr st)
        (\<lambda>st3. Inr (members st3 x, st3)))"

definition getExtensionAGnssRil :: "gnss_env \<Rightarrow> gnss_state \<Rightarrow> bool gnss_result" where
  "getExtensionAGnssRil E st = getExtension E Ril ''agps_ril'' st"

definition getExtensionGnssConfiguration :: "gnss_env \<Rightarrow> gnss_state \<Rightarrow> bool gnss_result" where
  "getExtensionGnssConfiguration E st = getExtension E Config ''gnss_configuration'' st"

definition getExtensionGnssGeofencing :: "gnss_env \<Rightarrow> gnss_state \<Rightarrow> bool gnss_result" where
  "getExtensionGnssGeofencing E st = getExtension E Geofencing ''gps_geofencing'' st"

definition getExtensionAGnss :: "gnss_env \<Rightarrow> gnss_state \<Rightarrow> bool gnss_result" where
  "getExtensionAGnss E st = getExtension E Agnss ''agps'' st"

definition getExtensionGnssNi :: "gnss_env \<Rightarrow> gnss_state \<Rightarrow> bool gnss_result" where
  "getExtensionGnssNi E st = getExtension E Ni ''gps-ni'' st"

definition getExtensionGnssMeasurement :: "gnss_env \<Rightarrow> gnss_state \<Rightarrow> bool gnss_result" where
  "getExtensionGnssMeasurement E st = getExtension E Measurement ''gps_measurement'' st"

definition getExtensionGnssNavigationMessage :: "gnss_env \<Rightarrow> gnss_state \<Rightarrow> bool gnss_result" where
  "getExtensionGnssNavigationMessage E st = getExtension E Navigation ''gps_navigation_message'' st"

definition getExtensionXtra :: "gnss_env \<Rightarrow> gnss_state \<Rightarrow> bool gnss_result" where
  "getExtensionXtra E st = getExtension E Xtra ''gps-xtra'' st"

definition getExtensionGnssDebug :: "gnss_env \<Rightarrow> gnss_state \<Rightarrow> bool gnss_result" where
  "getExtensionGnssDebug E st = getExtension E Debug ''gps-debug'' st"

text \<open>The interface for batches comes from the library for fused locations. \<open>flp_module\<close> tells whether the module
  and its methods are present.\<close>

definition flp_found :: "gnss_env \<Rightarrow> bool" where
  "flp_found E =
     (if flp_get_module E \<noteq> 0 then False
      else if \<not> fst (flp_module E) then False
      else if \<not> snd (flp_module E) then False
      else if flp_open E \<noteq> 0 then False
      else flp_interface E)"

definition getExtensionGnssBatching :: "gnss_env \<Rightarrow> gnss_state \<Rightarrow> bool gnss_result" where
  "getExtensionGnssBatching E st =
     (if \<not> mGnssIface st then Inr (False, st)
      else run_bind
        (if \<not> members st Batching \<and> flp_found E
         then run_bind (ext_new Batching st) (\<lambda>st1. Inr (st1\<lparr>members := (members st1)(Batching := True)\<rparr>))
         else Inr st)
        (\<lambda>st2. Inr (members st2 Batching, st2)))"

section \<open>Assisted positioning\<close>

definition set_ext_cb :: "ext \<Rightarrow> nat option \<Rightarrow> gnss_state \<Rightarrow> gnss_state" where
  "set_ext_cb x callback st = st\<lparr>ext_cb := (ext_cb st)(x := callback)\<rparr>"

definition AGnss_setCallback :: "gnss_env \<Rightarrow> nat option \<Rightarrow> gnss_state \<Rightarrow> gnss_run" where
  "AGnss_setCallback E callback st =
     (if \<not> members st Agnss then Inr st else plain_call E True Agps_init (set_ext_cb Agnss callback st))"

definition AGnss_dataConnClosed :: "gnss_env \<Rightarrow> gnss_state \<Rightarrow> bool gnss_result" where
  "AGnss_dataConnClosed E st = checked_call E (members st Agnss) Agps_data_conn_closed st"

definition AGnss_dataConnFailed :: "gnss_env \<Rightarrow> gnss_state \<Rightarrow> bool gnss_result" where
  "AGnss_dataConnFailed E st = checked_call E (members st Agnss) Agps_data_conn_failed st"

definition AGnss_setServer :: "gnss_env \<Rightarrow> int \<Rightarrow> u8 list \<Rightarrow> s32 \<Rightarrow> gnss_state \<Rightarrow> bool gnss_result" where
  "AGnss_setServer E ty hostname port st =
     checked_call E (members st Agnss) (Agps_set_server (of_int ty) (string_arg hostname) port) st"

definition AGnss_dataConnOpen :: "gnss_env \<Rightarrow> u8 list \<Rightarrow> int \<Rightarrow> gnss_state \<Rightarrow> bool gnss_result" where
  "AGnss_dataConnOpen E apn apnIpType st =
     checked_call E (members st Agnss) (Agps_data_conn_open_with_apn_ip_type (string_arg apn) (of_int apnIpType)) st"

definition AGnssRil_setCallback :: "gnss_env \<Rightarrow> nat option \<Rightarrow> gnss_state \<Rightarrow> gnss_run" where
  "AGnssRil_setCallback E callback st =
     (if \<not> members st Ril then Inr st else plain_call E True AgpsRil_init (set_ext_cb Ril callback st))"

text \<open>The location always carries a cell, whatever its type.\<close>

definition AGnssRil_setRefLocation :: "gnss_env \<Rightarrow> int \<Rightarrow> AGpsRefLocationCellID \<Rightarrow> gnss_state \<Rightarrow> gnss_run" where
  "AGnssRil_setRefLocation E ty cellID st =
     plain_call E (members st Ril) (AgpsRil_set_ref_location (of_int ty) cellID) st"

definition AGnssRil_setSetId :: "gnss_env \<Rightarrow> int \<Rightarrow> u8 list \<Rightarrow> gnss_state \<Rightarrow> bool gnss_result" where
  "AGnssRil_setSetId E ty setid st = accepted_call E (members st Ril) (AgpsRil_set_set_id (of_int ty) (string_arg setid)) st"

definition AGnssRil_updateNetworkState :: "gnss_env \<Rightarrow> bool \<Rightarrow> int \<Rightarrow> bool \<Rightarrow> gnss_state \<Rightarrow> bool gnss_result" where
  "AGnssRil_updateNetworkState E connected ty roaming st =
     accepted_call E (members st Ril) (AgpsRil_update_network_state connected ty roaming) st"

definition AGnssRil_updateNetworkAvailability :: "gnss_env \<Rightarrow> bool \<Rightarrow> u8 list \<Rightarrow> gnss_state \<Rightarrow> bool gnss_result" where
  "AGnssRil_updateNetworkAvailability E available apn st =
     accepted_call E (members st Ril) (AgpsRil_update_network_availability available (string_arg apn)) st"

section \<open>Batches\<close>

definition GnssBatching_init :: "gnss_env \<Rightarrow> nat option \<Rightarrow> gnss_state \<Rightarrow> bool gnss_result" where
  "GnssBatching_init E callback st =
     (if \<not> members st Batching then Inr (False, st) else checked_call E True Flp_init (set_ext_cb Batching callback st))"

definition GnssBatching_getBatchSize :: "gnss_env \<Rightarrow> gnss_state \<Rightarrow> u16 gnss_result" where
  "GnssBatching_getBatchSize E st =
     (if \<not> members st Batching then Inr (0, st)
      else run_bind (vendor E Flp_get_batch_size st) (\<lambda>(r, st'). Inr (of_int r, st')))"

definition GnssBatching_start :: "gnss_env \<Rightarrow> s64 \<Rightarrow> u8 \<Rightarrow> gnss_state \<Rightarrow> bool gnss_result" where
  "GnssBatching_start E periodNanos flags st =
     (if \<not> members st Batching then Inr (False, st)
      else if \<not> sFlpSupportsBatching st then Inr (False, st)
      else let hw_flags = (if flags AND WAKEUP_ON_FIFO_FULL (batch E) \<noteq> 0 then FLP_BATCH_WAKEUP_ON_FIFO_FULL (batch E) else 0)
           in run_bind (vendor E (Flp_start_batching FLP_GNSS_BATCHING_CLIENT_ID 100
                (ucast (FLP_TECH_MASK_GNSS_AND_SENSORS (batch E))) hw_flags periodNanos 0) st)
                (\<lambda>(r, st'). Inr (r = FLP_RESULT_SUCCESS (batch E), st')))"

definition GnssBatching_flush :: "gnss_env \<Rightarrow> gnss_state \<Rightarrow> gnss_run" where
  "GnssBatching_flush E st = plain_call E (members st Batching) Flp_flush_batched_locations st"

definition GnssBatching_stop :: "gnss_env \<Rightarrow> gnss_state \<Rightarrow> bool gnss_result" where
  "GnssBatching_stop E st =
     (if \<not> members st Batching then Inr (False, st)
      else run_bind (vendor E (Flp_stop_batching FLP_GNSS_BATCHING_CLIENT_ID) st)
             (\<lambda>(r, st'). Inr (r = FLP_RESULT_SUCCESS (batch E), st')))"

definition GnssBatching_cleanup :: "gnss_env \<Rightarrow> gnss_state \<Rightarrow> gnss_run" where
  "GnssBatching_cleanup E st = plain_call E (members st Batching) Flp_cleanup st"

section \<open>Configuration and debugging\<close>

definition config_line :: "string \<Rightarrow> nat \<Rightarrow> string" where
  "config_line key n = key @ ''='' @ nat_dec n @ [CHR 0x0A]"

definition configuration_update :: "gnss_env \<Rightarrow> string \<Rightarrow> nat \<Rightarrow> gnss_state \<Rightarrow> bool gnss_result" where
  "configuration_update E key n st =
     (let config = config_line key n in accepted_call E (members st Config) (Config_update config (length config)) st)"

definition setSuplEs :: "gnss_env \<Rightarrow> bool \<Rightarrow> gnss_state \<Rightarrow> bool gnss_result" where
  "setSuplEs E enabled st = configuration_update E ''SUPL_ES'' (if enabled then 1 else 0) st"

definition setSuplVersion :: "gnss_env \<Rightarrow> u32 \<Rightarrow> gnss_state \<Rightarrow> bool gnss_result" where
  "setSuplVersion E version st = configuration_update E ''SUPL_VER'' (unat version) st"

definition setSuplMode :: "gnss_env \<Rightarrow> u8 \<Rightarrow> gnss_state \<Rightarrow> bool gnss_result" where
  "setSuplMode E mode st = configuration_update E ''SUPL_MODE'' (unat mode) st"

definition setLppProfile :: "gnss_env \<Rightarrow> u8 \<Rightarrow> gnss_state \<Rightarrow> bool gnss_result" where
  "setLppProfile E lppProfile st = configuration_update E ''LPP_PROFILE'' (unat lppProfile) st"

definition setGlonassPositioningProtocol :: "gnss_env \<Rightarrow> u8 \<Rightarrow> gnss_state \<Rightarrow> bool gnss_result" where
  "setGlonassPositioningProtocol E protocol st = configuration_update E ''A_GLONASS_POS_PROTOCOL_SELECT'' (unat protocol) st"

definition setGpsLock :: "gnss_env \<Rightarrow> u8 \<Rightarrow> gnss_state \<Rightarrow> bool gnss_result" where
  "setGpsLock E lock st = configuration_update E ''GPS_LOCK'' (unat lock) st"

definition setEmergencySuplPdn :: "gnss_env \<Rightarrow> bool \<Rightarrow> gnss_state \<Rightarrow> bool gnss_result" where
  "setEmergencySuplPdn E enabled st =
     configuration_update E ''USE_EMERGENCY_PDN_FOR_EMERGENCY_SUPL'' (if enabled then 1 else 0) st"

definition kMaxDebugStrLen :: nat where "kMaxDebugStrLen = 2047"

text \<open>The client gets empty data. The buffer for the log has one byte more than the library may fill; its end is
  written at the larger of the length and the size.\<close>

definition getDebugData :: "gnss_env \<Rightarrow> gnss_state \<Rightarrow> gnss_run" where
  "getDebugData E st =
     (if members st Debug
      then run_bind (vendor E (Debug_get_internal_state kMaxDebugStrLen) st) (\<lambda>(r, st').
             let len = max (nat r) kMaxDebugStrLen in if len < kMaxDebugStrLen + 1 then Inr st' else Inl OutOfBounds)
      else Inr st)"

section \<open>Geofences\<close>

definition GnssGeofencing_setCallback :: "gnss_env \<Rightarrow> nat option \<Rightarrow> gnss_state \<Rightarrow> gnss_run" where
  "GnssGeofencing_setCallback E callback st =
     (let st1 = set_ext_cb Geofencing callback st in plain_call E (members st1 Geofencing) Geo_init st1)"

definition addGeofence :: "gnss_env \<Rightarrow> s32 \<Rightarrow> f64 \<Rightarrow> f64 \<Rightarrow> f64 \<Rightarrow> int \<Rightarrow> s32 \<Rightarrow> u32 \<Rightarrow> u32 \<Rightarrow> gnss_state \<Rightarrow> gnss_run" where
  "addGeofence E geofenceId latitude longitude radiusMeters lastTransition monitorTransitions responsivenessMs unknownTimerMs st =
     plain_call E (members st Geofencing)
       (Geo_add_geofence_area geofenceId latitude longitude radiusMeters (of_int lastTransition) monitorTransitions
          responsivenessMs unknownTimerMs) st"

definition pauseGeofence :: "gnss_env \<Rightarrow> s32 \<Rightarrow> gnss_state \<Rightarrow> gnss_run" where
  "pauseGeofence E geofenceId st = plain_call E (members st Geofencing) (Geo_pause_geofence geofenceId) st"

definition resumeGeofence :: "gnss_env \<Rightarrow> s32 \<Rightarrow> s32 \<Rightarrow> gnss_state \<Rightarrow> gnss_run" where
  "resumeGeofence E geofenceId monitorTransitions st =
     plain_call E (members st Geofencing) (Geo_resume_geofence geofenceId monitorTransitions) st"

definition removeGeofence :: "gnss_env \<Rightarrow> s32 \<Rightarrow> gnss_state \<Rightarrow> gnss_run" where
  "removeGeofence E geofenceId st = plain_call E (members st Geofencing) (Geo_remove_geofence_area geofenceId) st"

section \<open>Measurements, messages and the rest\<close>

definition GnssMeasurement_setCallback :: "gnss_env \<Rightarrow> nat option \<Rightarrow> gnss_state \<Rightarrow> int gnss_result" where
  "GnssMeasurement_setCallback E callback st =
     (if \<not> members st Measurement then Inr (GNSS_ERROR_GENERIC (base E), st)
      else vendor E Measure_init (set_ext_cb Measurement callback st))"

definition GnssMeasurement_close :: "gnss_env \<Rightarrow> gnss_state \<Rightarrow> gnss_run" where
  "GnssMeasurement_close E st = plain_call E (members st Measurement) Measure_close st"

definition GnssNavigationMessage_setCallback :: "gnss_env \<Rightarrow> nat option \<Rightarrow> gnss_state \<Rightarrow> int gnss_result" where
  "GnssNavigationMessage_setCallback E callback st =
     (if \<not> members st Navigation then Inr (GNSS_ERROR_GENERIC (base E), st)
      else vendor E Nav_init (set_ext_cb Navigation callback st))"

definition GnssNavigationMessage_close :: "gnss_env \<Rightarrow> gnss_state \<Rightarrow> gnss_run" where
  "GnssNavigationMessage_close E st = plain_call E (members st Navigation) Nav_close st"

definition GnssNi_setCallback :: "gnss_env \<Rightarrow> nat option \<Rightarrow> gnss_state \<Rightarrow> gnss_run" where
  "GnssNi_setCallback E callback st =
     (if \<not> members st Ni then Inr st else plain_call E True Ni_init (set_ext_cb Ni callback st))"

definition GnssNi_respond :: "gnss_env \<Rightarrow> s32 \<Rightarrow> int \<Rightarrow> gnss_state \<Rightarrow> gnss_run" where
  "GnssNi_respond E notifId userResponse st = plain_call E (members st Ni) (Ni_respond notifId (of_int userResponse)) st"

definition GnssXtra_setCallback :: "gnss_env \<Rightarrow> nat option \<Rightarrow> gnss_state \<Rightarrow> bool gnss_result" where
  "GnssXtra_setCallback E callback st =
     (if \<not> members st Xtra then Inr (False, st) else checked_call E True Xtra_init (set_ext_cb Xtra callback st))"

definition injectXtraData :: "gnss_env \<Rightarrow> u8 list \<Rightarrow> gnss_state \<Rightarrow> bool gnss_result" where
  "injectXtraData E xtraData st = checked_call E (members st Xtra) (Xtra_inject_xtra_data xtraData) st"

section \<open>Death of a client\<close>

definition handleHidlDeath :: "gnss_env \<Rightarrow> gnss_state \<Rightarrow> gnss_run" where
  "handleHidlDeath E st =
     run_bind (Gnss_stop E st) (\<lambda>(_, st1).
     run_bind (if members st1 Measurement then GnssMeasurement_close E st1 else Inr st1) (\<lambda>st2.
     run_bind (if members st2 Navigation then GnssNavigationMessage_close E st2 else Inr st2) (\<lambda>st3.
     run_bind (if members st3 Batching
               then run_bind (GnssBatching_stop E st3) (\<lambda>(_, st4). GnssBatching_cleanup E st4)
               else Inr st3) (\<lambda>st5.
     run_bind (Gnss_cleanup E st5) (\<lambda>st6.
     Inr (st6\<lparr>sGnssCbIface := None\<rparr>))))))"

end
