(* ===== verification/Gnss_Correct.thy ===== *)
theory Gnss_Correct
  imports Gnss_Service
begin

text \<open>
  Correctness of the satellite positioning service. Shown here: every call of the vendor library that describes its
  arrays truthfully is handled without reading outside them, and no method fails; each callback reaches the object
  registered for its class; the wake lock that two vendor libraries share is held by the client exactly while
  one of them asks for it; satellites are named without mixing them up; the death of the client stops
  the vendor library and silences the service.
\<close>

section \<open>What callbacks keep\<close>

lemmas callback_defs = Gnss_locationCb_def Gnss_statusCb_def Gnss_gpsSvStatusCb_def Gnss_gnssSvStatusCb_def Gnss_nmeaCb_def
  Gnss_setCapabilitiesCb_def acquireWakelockGnss_def releaseWakelockGnss_def acquireWakelockFused_def releaseWakelockFused_def
  updateWakelock_def Gnss_requestUtcTimeCb_def Gnss_setSystemInfoCb_def createPthread_def Xtra_gnssXtraDownloadRequestCb_def
  AGnss_statusCb_def AGnssRil_requestSetId_def AGnssRil_requestRefLoc_def gnssGfTransitionCb_def gnssGfStatusCb_def gnssGfAddCb_def
  gnssGfRemoveCb_def gnssGfPauseCb_def gnssGfResumeCb_def gnssMeasurementCb_def gpsMeasurementCb_def Navigation_messageCb_def
  GnssNi_niNotifyCb_def GnssBatching_locationCb_def GnssBatching_flpCapabilitiesCb_def with_client_def

text \<open>The object that a call of a client is made through: that of \<^verbatim>\<open>Gnss\<close> or of an extension.\<close>

fun receiver :: "gnss_call \<Rightarrow> ext option" where
  "receiver (gnssLocationCb _) = None" | "receiver (gnssStatusCb _) = None" | "receiver (gnssSvStatusCb _) = None"
| "receiver (gnssNmeaCb _ _) = None" | "receiver (gnssSetCapabilitesCb _) = None" | "receiver gnssAcquireWakelockCb = None"
| "receiver gnssReleaseWakelockCb = None" | "receiver gnssRequestTimeCb = None" | "receiver (gnssSetSystemInfoCb _) = None"
| "receiver downloadRequestCb = Some Xtra" | "receiver (agnssStatusIpV4Cb _ _ _) = Some Agnss"
| "receiver (agnssStatusIpV6Cb _ _ _) = Some Agnss" | "receiver (requestSetIdCb _) = Some Ril" | "receiver requestRefLocCb = Some Ril"
| "receiver (gnssGeofenceTransitionCb _ _ _ _) = Some Geofencing" | "receiver (gnssGeofenceStatusCb _ _) = Some Geofencing"
| "receiver (gnssGeofenceAddCb _ _) = Some Geofencing" | "receiver (gnssGeofenceRemoveCb _ _) = Some Geofencing"
| "receiver (gnssGeofencePauseCb _ _) = Some Geofencing" | "receiver (gnssGeofenceResumeCb _ _) = Some Geofencing"
| "receiver (GnssMeasurementCb _ _) = Some Measurement" | "receiver (gnssNavigationMessageCb _ _ _ _ _ _) = Some Navigation"
| "receiver (niNotifyCb _ _ _ _ _ _ _ _ _) = Some Ni" | "receiver (gnssLocationBatchCb _) = Some Batching"

definition registered :: "gnss_state \<Rightarrow> gnss_call \<Rightarrow> nat option" where
  "registered st c = (case receiver c of None \<Rightarrow> sGnssCbIface st | Some x \<Rightarrow> ext_cb st x)"

definition same_objects :: "gnss_state \<Rightarrow> gnss_state \<Rightarrow> bool" where
  "same_objects st st' \<longleftrightarrow> mGnssIface st' = mGnssIface st \<and> sInterfaceExists st' = sInterfaceExists st \<and> members st' = members st \<and>
     ext_exists st' = ext_exists st \<and> ext_cb st' = ext_cb st \<and> sGnssCbIface st' = sGnssCbIface st \<and> death_links st' = death_links st"

definition calls_between :: "gnss_state \<Rightarrow> gnss_state \<Rightarrow> (nat \<times> gnss_call) list \<Rightarrow> bool" where
  "calls_between st st' new \<longleftrightarrow> client_log st' = client_log st @ new \<and> (\<forall>(cb, c) \<in> set new. registered st c = Some cb)"

text \<open>Each callback makes at most one call of a client, and wake locks are asked for by four of them only.\<close>

definition forwards :: "gnss_state \<Rightarrow> gnss_run \<Rightarrow> bool" where
  "forwards st r \<longleftrightarrow> (\<forall>st'. r = Inr st' \<longrightarrow> same_objects st st' \<and> hal_log st' = hal_log st \<and> (\<exists>new. calls_between st st' new))"

lemma deliver_forwards: "forwards st (deliver E e st)"
  by (cases e) (auto simp: forwards_def same_objects_def calls_between_def callback_defs tell_def registered_def run_bind_Inr Let_def
        case_prod_beta split: option.splits if_splits)

lemma same_objects_refl: "same_objects st st"
  by (simp add: same_objects_def)

lemma same_objects_trans: "same_objects st st1 \<Longrightarrow> same_objects st1 st2 \<Longrightarrow> same_objects st st2"
  by (simp add: same_objects_def)

lemma registered_same: "same_objects st st' \<Longrightarrow> registered st' = registered st"
  by (rule ext) (simp add: same_objects_def registered_def split: option.split)

lemma calls_between_append:
  "calls_between st st1 n1 \<Longrightarrow> calls_between st1 st2 n2 \<Longrightarrow> same_objects st st1 \<Longrightarrow> calls_between st st2 (n1 @ n2)"
  by (auto simp: calls_between_def registered_same)

lemma deliver_all_forwards: "forwards st (deliver_all E es st)"
proof (induction es arbitrary: st)
  case Nil
  then show ?case by (auto simp: forwards_def same_objects_refl calls_between_def)
next
  case (Cons e es)
  show ?case
    unfolding forwards_def
  proof (intro allI impI)
    fix st' assume "deliver_all E (e # es) st = Inr st'"
    then obtain st1 where 1: "deliver E e st = Inr st1" and 2: "deliver_all E es st1 = Inr st'"
      by (auto simp: run_bind_Inr)
    from 1 deliver_forwards [of st E e] obtain n1 where A: "same_objects st st1" "hal_log st1 = hal_log st" "calls_between st st1 n1"
      by (auto simp: forwards_def)
    from 2 Cons.IH [of st1] obtain n2 where B: "same_objects st1 st'" "hal_log st' = hal_log st1" "calls_between st1 st' n2"
      by (auto simp: forwards_def)
    show "same_objects st st' \<and> hal_log st' = hal_log st \<and> (\<exists>new. calls_between st st' new)"
      using same_objects_trans [OF A(1) B(1)] calls_between_append [OF A(3) B(3) A(1)] A(2) B(2) by auto
  qed
qed

lemma vendor_forwards:
  assumes "vendor E c st = Inr (r, st')"
  shows "same_objects st st' \<and> hal_log st' = hal_log st @ [c] \<and> (\<exists>new. calls_between st st' new)"
proof -
  let ?st1 = "st\<lparr>hal_log := hal_log st @ [c]\<rparr>"
  have "deliver_all E (vendor_events E (length (hal_log st)) c) ?st1 = Inr st'"
    using assms by (simp add: vendor_def run_bind_Inr Let_def)
  with deliver_all_forwards [of ?st1] obtain new
    where "same_objects ?st1 st'" "hal_log st' = hal_log st @ [c]" "calls_between ?st1 st' new"
    by (fastforce simp: forwards_def)
  moreover have "same_objects st ?st1" "calls_between st ?st1 []"
    by (simp_all add: same_objects_def calls_between_def)
  ultimately show ?thesis
    using same_objects_trans calls_between_append by blast
qed

section \<open>Wake lock\<close>

definition wants_lock :: "gnss_state \<Rightarrow> bool" where
  "wants_lock st = (sWakelockHeldGnss st \<or> sWakelockHeldFused st)"

text \<open>A lock of the client that counts its references, and what the two vendor libraries asked for last.\<close>

fun lock_count :: "nat \<Rightarrow> gnss_call \<Rightarrow> nat" where
  "lock_count n gnssAcquireWakelockCb = Suc n"
| "lock_count n gnssReleaseWakelockCb = n - 1"
| "lock_count n _ = n"

fun asked :: "bool \<times> bool \<Rightarrow> vendor_event \<Rightarrow> bool \<times> bool" where
  "asked (g, f) AcquireWakelockCb = (True, f)"
| "asked (g, f) ReleaseWakelockCb = (False, f)"
| "asked (g, f) FlpAcquireWakelockCb = (g, True)"
| "asked (g, f) FlpReleaseWakelockCb = (g, False)"
| "asked (g, f) _ = (g, f)"

definition lock_follows :: "gnss_state \<Rightarrow> gnss_state \<Rightarrow> bool" where
  "lock_follows st st' \<longleftrightarrow> sWakelockHeld st' = wants_lock st' \<and>
     (\<exists>new. client_log st' = client_log st @ new \<and>
        foldl lock_count (of_bool (wants_lock st)) (map snd new) = of_bool (wants_lock st'))"

definition lock_events :: "vendor_event set" where
  "lock_events = {AcquireWakelockCb, ReleaseWakelockCb, FlpAcquireWakelockCb, FlpReleaseWakelockCb}"

lemma deliver_other:
  assumes "deliver E e st = Inr st'" "e \<notin> lock_events"
  shows "sWakelockHeldGnss st' = sWakelockHeldGnss st" "sWakelockHeldFused st' = sWakelockHeldFused st"
    "sWakelockHeld st' = sWakelockHeld st"
    "\<exists>new. client_log st' = client_log st @ new \<and> (\<forall>n. foldl lock_count n (map snd new) = n)"
  using assms
  by (cases e; fastforce simp: lock_events_def callback_defs tell_def run_bind_Inr Let_def case_prod_beta split: option.splits if_splits)+

lemma asked_other: "e \<notin> lock_events \<Longrightarrow> asked gf e = gf"
  by (cases gf; cases e) (simp_all add: lock_events_def)

lemma deliver_lock:
  assumes "deliver E e st = Inr st'" "sGnssCbIface st = Some cb" "sWakelockHeld st = wants_lock st"
  shows "lock_follows st st' \<and> (sWakelockHeldGnss st', sWakelockHeldFused st') = asked (sWakelockHeldGnss st, sWakelockHeldFused st) e"
proof (cases "e \<in> lock_events")
  case True
  with assms show ?thesis
    by (auto simp: lock_events_def lock_follows_def callback_defs tell_def wants_lock_def split: if_splits)
next
  case False
  note other = deliver_other [OF assms(1) False]
  with assms(3) False show ?thesis
    by (auto simp: lock_follows_def wants_lock_def asked_other)
qed

lemma lock_follows_trans: "lock_follows st st1 \<Longrightarrow> lock_follows st1 st2 \<Longrightarrow> lock_follows st st2"
  by (auto simp: lock_follows_def)

lemma deliver_all_lock:
  "deliver_all E es st = Inr st' \<Longrightarrow> sGnssCbIface st = Some cb \<Longrightarrow> sWakelockHeld st = wants_lock st \<Longrightarrow>
   lock_follows st st' \<and> (sWakelockHeldGnss st', sWakelockHeldFused st') = foldl asked (sWakelockHeldGnss st, sWakelockHeldFused st) es"
proof (induction es arbitrary: st)
  case Nil
  then show ?case by (simp add: lock_follows_def)
next
  case (Cons e es)
  then obtain st1 where 1: "deliver E e st = Inr st1" and 2: "deliver_all E es st1 = Inr st'"
    by (auto simp: run_bind_Inr)
  have A: "lock_follows st st1" "(sWakelockHeldGnss st1, sWakelockHeldFused st1) = asked (sWakelockHeldGnss st, sWakelockHeldFused st) e"
    using deliver_lock [OF 1 Cons.prems(2,3)] by simp_all
  have "sGnssCbIface st1 = Some cb" "sWakelockHeld st1 = wants_lock st1"
    using deliver_forwards [of st E e] 1 Cons.prems(2) A(1) by (simp_all add: forwards_def same_objects_def lock_follows_def)
  with Cons.IH [OF 2] lock_follows_trans [OF A(1)] A(2) show ?case by simp
qed

section \<open>No method fails\<close>

text \<open>A message of the vendor library fits when its counts are those of its arrays and its strings end inside
  theirs.\<close>

fun event_fits :: "vendor_event \<Rightarrow> bool" where
  "event_fits (GpsSvStatusCb (Some S)) = (unat (num_svs S) \<le> length (sv_list S))"
| "event_fits (GnssSvStatusCb (Some S)) = (unat (lsv_num_svs S) \<le> length (gnss_sv_list S))"
| "event_fits (NmeaCb _ nmea n) = (0 \<le> sint n \<and> unat n \<le> length nmea)"
| "event_fits (LegacyMeasurementCb (Some d)) = (ld_measurement_count d \<le> length (ld_measurements d))"
| "event_fits (GpsMeasurementCb (Some d)) = (gd_measurement_count d \<le> length (gd_measurements d))"
| "event_fits (NavigationMessageCb (Some m)) = (nm_data_length m \<le> length (nm_data m))"
| "event_fits (NiNotifyCb (Some n)) = (0 \<in> set (requestor_id n) \<and> 0 \<in> set (ni_text n))"
| "event_fits (FlpLocationCb n (Some ls)) = (sint n \<le> int (length ls))"
| "event_fits _ = True"

lemma batch_loop_eq:
  "batch_loop F P n ls = (if n \<le> length ls then Inr (map (convertFlpLocation F) (filter (wanted_location P) (take n ls))) else Inl OutOfBounds)"
  by (induction F P n ls rule: batch_loop.induct) simp_all

lemma clamped_batch_le: "sint n \<le> int k \<Longrightarrow> clamped_batch n \<le> k"
  by (auto simp: clamped_batch_def MAX_LOCATIONS_PER_BATCH_def nat_le_iff)

lemma clamped_svs_le: "clamped_svs B n \<le> unat n" "clamped_svs B n \<le> SVS_COUNT B"
  by (simp_all add: clamped_svs_def)

lemma deliver_ok: "event_fits e \<Longrightarrow> \<exists>st'. deliver E e st = Inr st'"
proof (cases e)
  case (GpsSvStatusCb s)
  then show "event_fits e \<Longrightarrow> ?thesis"
    using clamped_svs_le(1) [of "base E"] by (cases s) (auto simp: callback_defs convert_upto_eq split: option.split intro: order_trans)
next
  case (GnssSvStatusCb s)
  then show "event_fits e \<Longrightarrow> ?thesis"
    using clamped_svs_le(1) [of "base E"] by (cases s) (auto simp: callback_defs convert_upto_eq split: option.split intro: order_trans)
next
  case (LegacyMeasurementCb d)
  then show "event_fits e \<Longrightarrow> ?thesis" by (cases d) (auto simp: callback_defs convert_upto_eq split: option.split)
next
  case (GpsMeasurementCb d)
  then show "event_fits e \<Longrightarrow> ?thesis" by (cases d) (auto simp: callback_defs convert_upto_eq case_prod_beta split: option.split)
next
  case (FlpLocationCb n ls)
  then show "event_fits e \<Longrightarrow> ?thesis" by (cases ls) (auto simp: callback_defs batch_loop_eq clamped_batch_le split: option.split)
next
  case (NiNotifyCb n)
  then show "event_fits e \<Longrightarrow> ?thesis" by (cases n) (auto simp: callback_defs array_string_def split: option.split)
next
  case (NavigationMessageCb n)
  then show "event_fits e \<Longrightarrow> ?thesis" by (cases n) (auto simp: callback_defs split: option.split)
next
  case (NmeaCb a b c)
  then show "event_fits e \<Longrightarrow> ?thesis" by (auto simp: callback_defs split: option.split)
qed (auto simp: callback_defs Let_def split: option.split)

lemma deliver_all_ok: "list_all event_fits es \<Longrightarrow> \<exists>st'. deliver_all E es st = Inr st'"
proof (induction es arbitrary: st)
  case (Cons e es)
  then show ?case using deliver_ok [of e E st] by fastforce
qed simp

text \<open>A vendor library whose messages fit, and whose description of its state fits the buffer it is given.\<close>

definition vendor_fits :: "gnss_env \<Rightarrow> bool" where
  "vendor_fits E \<longleftrightarrow> (\<forall>n c. list_all event_fits (vendor_events E n c) \<and> (\<forall>k. c = Debug_get_internal_state k \<longrightarrow> vendor_ret E n c \<le> int k))"

text \<open>Methods as functions of the state, without their results.\<close>

definition effect :: "(gnss_state \<Rightarrow> 'a gnss_result) \<Rightarrow> gnss_state \<Rightarrow> gnss_run" where
  "effect f st = run_bind (f st) (\<lambda>(_, st'). Inr st')"

inductive gnss_method :: "gnss_env \<Rightarrow> (gnss_state \<Rightarrow> gnss_run) \<Rightarrow> bool" for E where
  "gnss_method E (effect (Gnss_setCallback E cb))"
| "gnss_method E (effect (Gnss_start E))"
| "gnss_method E (effect (Gnss_stop E))"
| "gnss_method E (Gnss_cleanup E)"
| "gnss_method E (effect (Gnss_injectLocation E a b c))"
| "gnss_method E (effect (Gnss_injectTime E t r u))"
| "gnss_method E (Gnss_deleteAidingData E i)"
| "gnss_method E (effect (Gnss_setPositionMode E i j x y z))"
| "gnss_method E (effect (getExtensionAGnssRil E))"
| "gnss_method E (effect (getExtensionGnssConfiguration E))"
| "gnss_method E (effect (getExtensionGnssGeofencing E))"
| "gnss_method E (effect (getExtensionAGnss E))"
| "gnss_method E (effect (getExtensionGnssNi E))"
| "gnss_method E (effect (getExtensionGnssMeasurement E))"
| "gnss_method E (effect (getExtensionGnssNavigationMessage E))"
| "gnss_method E (effect (getExtensionXtra E))"
| "gnss_method E (effect (getExtensionGnssDebug E))"
| "gnss_method E (effect (getExtensionGnssBatching E))"
| "gnss_method E (AGnss_setCallback E cb)"
| "gnss_method E (effect (AGnss_dataConnClosed E))"
| "gnss_method E (effect (AGnss_dataConnFailed E))"
| "gnss_method E (effect (AGnss_setServer E i s p))"
| "gnss_method E (effect (AGnss_dataConnOpen E s i))"
| "gnss_method E (AGnssRil_setCallback E cb)"
| "gnss_method E (AGnssRil_setRefLocation E i cell)"
| "gnss_method E (effect (AGnssRil_setSetId E i s))"
| "gnss_method E (effect (AGnssRil_updateNetworkState E p i q))"
| "gnss_method E (effect (AGnssRil_updateNetworkAvailability E p s))"
| "gnss_method E (effect (GnssBatching_init E cb))"
| "gnss_method E (effect (GnssBatching_getBatchSize E))"
| "gnss_method E (effect (GnssBatching_start E t f))"
| "gnss_method E (GnssBatching_flush E)"
| "gnss_method E (effect (GnssBatching_stop E))"
| "gnss_method E (GnssBatching_cleanup E)"
| "gnss_method E (effect (setSuplEs E p))"
| "gnss_method E (effect (setSuplVersion E x))"
| "gnss_method E (effect (setSuplMode E f))"
| "gnss_method E (effect (setLppProfile E f))"
| "gnss_method E (effect (setGlonassPositioningProtocol E f))"
| "gnss_method E (effect (setGpsLock E f))"
| "gnss_method E (effect (setEmergencySuplPdn E p))"
| "gnss_method E (getDebugData E)"
| "gnss_method E (GnssGeofencing_setCallback E cb)"
| "gnss_method E (addGeofence E g a b d i tr x y)"
| "gnss_method E (pauseGeofence E g)"
| "gnss_method E (resumeGeofence E g tr)"
| "gnss_method E (removeGeofence E g)"
| "gnss_method E (effect (GnssMeasurement_setCallback E cb))"
| "gnss_method E (GnssMeasurement_close E)"
| "gnss_method E (effect (GnssNavigationMessage_setCallback E cb))"
| "gnss_method E (GnssNavigationMessage_close E)"
| "gnss_method E (GnssNi_setCallback E cb)"
| "gnss_method E (GnssNi_respond E g i)"
| "gnss_method E (effect (GnssXtra_setCallback E cb))"
| "gnss_method E (effect (injectXtraData E s))"
| "gnss_method E (handleHidlDeath E)"

text \<open>The service from its start on.\<close>

inductive gnss_reach :: "gnss_env \<Rightarrow> gnss_state \<Rightarrow> bool" for E where
  started: "HIDL_FETCH_IGnss E gnss_boot = Inr (True, st) \<Longrightarrow> gnss_reach E st"
| called: "gnss_reach E st \<Longrightarrow> gnss_method E f \<Longrightarrow> f st = Inr st' \<Longrightarrow> gnss_reach E st'"
| reported: "gnss_reach E st \<Longrightarrow> event_fits e \<Longrightarrow> deliver E e st = Inr st' \<Longrightarrow> gnss_reach E st'"

definition objects_ok :: "gnss_state \<Rightarrow> bool" where
  "objects_ok st \<longleftrightarrow> (\<forall>x. single x \<longrightarrow> ext_exists st x = members st x)"

definition ends_well :: "gnss_run \<Rightarrow> bool" where
  "ends_well r \<longleftrightarrow> (\<exists>st'. r = Inr st' \<and> objects_ok st')"

definition answers_well :: "'a gnss_result \<Rightarrow> bool" where
  "answers_well r \<longleftrightarrow> (\<exists>a st'. r = Inr (a, st') \<and> objects_ok st')"

lemma ends_well_intros:
  "objects_ok st \<Longrightarrow> ends_well (Inr st)"
  "objects_ok st \<Longrightarrow> answers_well (Inr (a, st))"
  "ends_well r \<Longrightarrow> (\<And>st. objects_ok st \<Longrightarrow> ends_well (f st)) \<Longrightarrow> ends_well (run_bind r f)"
  "ends_well r \<Longrightarrow> (\<And>st. objects_ok st \<Longrightarrow> answers_well (g st)) \<Longrightarrow> answers_well (run_bind r g)"
  "answers_well q \<Longrightarrow> (\<And>a st. objects_ok st \<Longrightarrow> ends_well (h (a, st))) \<Longrightarrow> ends_well (run_bind q h)"
  "answers_well q \<Longrightarrow> (\<And>a st. objects_ok st \<Longrightarrow> answers_well (k (a, st))) \<Longrightarrow> answers_well (run_bind q k)"
  "answers_well q \<Longrightarrow> ends_well (run_bind q (\<lambda>(_, st). Inr st))"
  by (auto simp: ends_well_def answers_well_def)

lemma objects_ok_kept: "same_objects st st' \<Longrightarrow> objects_ok st \<Longrightarrow> objects_ok st'"
  by (simp add: same_objects_def objects_ok_def)

lemma objects_ok_simps [simp]:
  "objects_ok (set_ext_cb x cb st) = objects_ok st"
  "objects_ok (st\<lparr>sGnssCbIface := c\<rparr>) = objects_ok st"
  "objects_ok (st\<lparr>death_links := ls\<rparr>) = objects_ok st"
  by (simp_all add: objects_ok_def set_ext_cb_def)

lemma deliver_all_well: "list_all event_fits es \<Longrightarrow> objects_ok st \<Longrightarrow> ends_well (deliver_all E es st)"
  using deliver_all_ok [of es E st] deliver_all_forwards [of st E es] objects_ok_kept
  by (auto simp: ends_well_def forwards_def)

lemma deliver_well: "event_fits e \<Longrightarrow> objects_ok st \<Longrightarrow> ends_well (deliver E e st)"
  using deliver_all_well [of "[e]" st E] by (cases "deliver E e st") (simp_all add: ends_well_def)

lemma vendor_well: "vendor_fits E \<Longrightarrow> objects_ok st \<Longrightarrow> answers_well (vendor E c st)"
  unfolding vendor_def Let_def
  by (intro ends_well_intros deliver_all_well) (auto simp: vendor_fits_def objects_ok_def)

lemma calls_well:
  assumes "vendor_fits E" "objects_ok st"
  shows "answers_well (checked_call E p c st)" "ends_well (plain_call E p c st)" "answers_well (accepted_call E p c st)"
  using vendor_well [OF assms, of c] assms(2)
  by (auto simp: checked_call_def plain_call_def accepted_call_def answers_well_def ends_well_def)

lemma ext_new_well: "objects_ok st \<Longrightarrow> \<not> members st x \<Longrightarrow>
    ends_well (run_bind (ext_new x st) (\<lambda>st2. Inr (st2\<lparr>members := (members st2)(x := True)\<rparr>)))"
  by (auto simp: ext_new_def ends_well_def objects_ok_def)

lemma getExtension_well:
  assumes "vendor_fits E" "objects_ok st"
  shows "answers_well (getExtension E x name st)"
proof -
  obtain r st1 where v: "vendor E (Gps_get_extension name) st = Inr (r, st1)" "objects_ok st1"
    using vendor_well [OF assms, of "Gps_get_extension name"] by (auto simp: answers_well_def)
  have "members st1 = members st"
    using vendor_forwards [OF v(1)] by (simp add: same_objects_def)
  with v assms(2) ext_new_well [of st1 x] show ?thesis
    by (auto simp: getExtension_def answers_well_def ends_well_def)
qed

lemma batching_well:
  assumes "objects_ok st"
  shows "answers_well (getExtensionGnssBatching E st)"
  using assms ext_new_well [of st Batching] by (auto simp: getExtensionGnssBatching_def answers_well_def ends_well_def)

lemma setCallback_well:
  assumes E: "vendor_fits E" and st: "objects_ok st"
  shows "answers_well (Gnss_setCallback E cb st)"
proof -
  have "objects_ok st' \<Longrightarrow> ends_well (Gnss_setCapabilitiesCb c st')" "objects_ok st' \<Longrightarrow> ends_well (Gnss_setSystemInfoCb i st')" for st' c i
    using deliver_well [of "SetCapabilitiesCb c" st' E] deliver_well [of "SetSystemInfoCb i" st' E] by simp_all
  with st show ?thesis
    unfolding Gnss_setCallback_def Let_def
    by (auto intro!: ends_well_intros vendor_well [OF E] split: option.split)
qed

lemma debug_well:
  assumes E: "vendor_fits E" and st: "objects_ok st"
  shows "ends_well (getDebugData E st)"
proof -
  obtain r st1 where v: "vendor E (Debug_get_internal_state kMaxDebugStrLen) st = Inr (r, st1)" "objects_ok st1"
    using vendor_well [OF E st, of "Debug_get_internal_state kMaxDebugStrLen"] by (auto simp: answers_well_def)
  have "r = vendor_ret E (length (hal_log st)) (Debug_get_internal_state kMaxDebugStrLen)"
    using v(1) by (auto simp: vendor_def Let_def run_bind_Inr)
  then have "r \<le> int kMaxDebugStrLen"
    using E by (simp add: vendor_fits_def)
  with v st show ?thesis
    by (auto simp: getDebugData_def ends_well_def Let_def)
qed

lemma death_well:
  assumes E: "vendor_fits E" and st: "objects_ok st"
  shows "ends_well (handleHidlDeath E st)"
proof -
  have simple: "objects_ok s \<Longrightarrow> answers_well (Gnss_stop E s)" "objects_ok s \<Longrightarrow> ends_well (Gnss_cleanup E s)"
    "objects_ok s \<Longrightarrow> ends_well (GnssMeasurement_close E s)" "objects_ok s \<Longrightarrow> ends_well (GnssNavigationMessage_close E s)"
    "objects_ok s \<Longrightarrow> ends_well (GnssBatching_cleanup E s)" for s
    by (simp_all add: Gnss_stop_def Gnss_cleanup_def GnssMeasurement_close_def GnssNavigationMessage_close_def
        GnssBatching_cleanup_def calls_well [OF E])
  have batching: "objects_ok s \<Longrightarrow> answers_well (GnssBatching_stop E s)" for s
    using vendor_well [OF E, of s] by (auto simp: GnssBatching_stop_def intro!: ends_well_intros)
  show ?thesis
    unfolding handleHidlDeath_def
    by (intro ends_well_intros(5) [OF simple(1)] st) (auto intro!: ends_well_intros simple batching)
qed

lemmas method_defs = Gnss_start_def Gnss_stop_def Gnss_cleanup_def Gnss_injectLocation_def Gnss_injectTime_def Gnss_deleteAidingData_def
  Gnss_setPositionMode_def getExtensionAGnssRil_def getExtensionGnssConfiguration_def getExtensionGnssGeofencing_def
  getExtensionAGnss_def getExtensionGnssNi_def getExtensionGnssMeasurement_def getExtensionGnssNavigationMessage_def
  getExtensionXtra_def getExtensionGnssDebug_def AGnss_setCallback_def AGnss_dataConnClosed_def AGnss_dataConnFailed_def
  AGnss_setServer_def AGnss_dataConnOpen_def AGnssRil_setCallback_def AGnssRil_setRefLocation_def AGnssRil_setSetId_def
  AGnssRil_updateNetworkState_def AGnssRil_updateNetworkAvailability_def GnssBatching_init_def GnssBatching_getBatchSize_def
  GnssBatching_start_def GnssBatching_flush_def GnssBatching_stop_def GnssBatching_cleanup_def configuration_update_def
  setSuplEs_def setSuplVersion_def setSuplMode_def setLppProfile_def setGlonassPositioningProtocol_def setGpsLock_def
  setEmergencySuplPdn_def GnssGeofencing_setCallback_def addGeofence_def pauseGeofence_def resumeGeofence_def removeGeofence_def
  GnssMeasurement_setCallback_def GnssMeasurement_close_def GnssNavigationMessage_setCallback_def GnssNavigationMessage_close_def
  GnssNi_setCallback_def GnssNi_respond_def GnssXtra_setCallback_def injectXtraData_def

lemma method_well:
  assumes "gnss_method E f" "vendor_fits E" "objects_ok st"
  shows "ends_well (f st)"
  using assms
  by (cases rule: gnss_method.cases)
    (simp_all add: effect_def method_defs Let_def ends_well_intros(1,2) ends_well_intros(7) calls_well getExtension_well batching_well
      setCallback_well debug_well death_well vendor_well ends_well_intros(6) [OF vendor_well])

lemma fetched:
  "HIDL_FETCH_IGnss E gnss_boot = Inr (True, st) \<Longrightarrow> objects_ok st"
  by (auto simp: HIDL_FETCH_IGnss_def Gnss_new_def gnss_boot_def objects_ok_def Let_def split: if_splits)

lemma reach_well: "gnss_reach E st \<Longrightarrow> vendor_fits E \<Longrightarrow> objects_ok st"
proof (induction rule: gnss_reach.induct)
  case (started st)
  then show ?case by (simp add: fetched)
next
  case (called st f st')
  then show ?case using method_well [of E f st] by (simp add: ends_well_def)
next
  case (reported st e st')
  then show ?case using deliver_well [of e st E] by (simp add: ends_well_def)
qed

section \<open>Satellites\<close>

text \<open>The number that a vendor library used for a satellite, from the name that the client gets.\<close>

fun prn_of :: "GnssConstellationType \<Rightarrow> int \<Rightarrow> int" where
  "prn_of GLONASS i = i + 64" | "prn_of BEIDOU i = i + 200" | "prn_of SBAS i = i - 87" | "prn_of _ i = i"

definition svid_fits :: "gnss_base \<Rightarrow> bool" where
  "svid_fits B \<longleftrightarrow> (\<forall>i. -32768 \<le> i \<and> i < 32768 \<longrightarrow> to_svid B i = i)"

definition named_as :: "int \<Rightarrow> GnssConstellationType \<Rightarrow> bool" where
  "named_as p c \<longleftrightarrow> (c = GPS) = (1 \<le> p \<and> p \<le> 32) \<and> (c = SBAS) = (33 \<le> p \<and> p \<le> 64) \<and> (c = GLONASS) = (65 \<le> p \<and> p \<le> 88) \<and>
     (c = QZSS) = (193 \<le> p \<and> p \<le> 200) \<and> (c = BEIDOU) = (201 \<le> p \<and> p \<le> 235)"

lemma classify_named:
  assumes "svid_fits B" "-32768 \<le> p" "p < 32768" "classify B p = (c, i)"
  shows "named_as p c \<and> prn_of c i = p"
proof -
  have k: "to_svid B i = i" if "-32768 \<le> i" "i < 32768" for i
    using assms(1) that by (simp add: svid_fits_def)
  from assms(2-4) show ?thesis
    by (auto simp: classify_def svid_values named_as_def k split: if_splits)
qed

lemma gps_flags_bits:
  "gps_sv_flags B S GPS i =
     SV_NONE B OR (if bit (ephemeris_mask S) (nat (i - 1)) then SV_HAS_EPHEMERIS_DATA B else 0)
       OR (if bit (almanac_mask S) (nat (i - 1)) then SV_HAS_ALMANAC_DATA B else 0)
       OR (if bit (used_in_fix_mask S) (nat (i - 1)) then SV_USED_IN_FIX B else 0)"
  by (simp add: gps_sv_flags_def bit_iff_and_push_bit_not_eq_0 or.assoc Let_def del: push_bit_of_1)

section \<open>Properties\<close>

text \<open>An example of the outside: the constants of the headers of Android 8.1, a vendor library with all extensions that
  answers 0 and reports its capabilities and then asks for the wake lock while it is being started.\<close>

definition demo_base :: gnss_base where
  "demo_base = \<lparr>SVS_COUNT = 64, GNSS_MAX_SVS = 64, to_svid = id, SV_NONE = 0, SV_HAS_EPHEMERIS_DATA = 1, SV_HAS_ALMANAC_DATA = 2,
     SV_USED_IN_FIX = 4, SV_HAS_CARRIER_FREQUENCY = 8, GNSS_ERROR_GENERIC = -101\<rparr>"

definition demo_gnss :: gnss_env where
  "demo_gnss = \<lparr>base = demo_base,
     measure = \<lparr>STATE_TOW_DECODED = 8, STATE_TOW_KNOWN = 0x4000, STATE_GLO_TOD_DECODED = 0x80, STATE_GLO_TOD_KNOWN = 0x8000,
       HAS_SNR = 1, HAS_CARRIER_FREQUENCY = 0x200, HAS_CARRIER_PHASE = 0x800, HAS_CARRIER_PHASE_UNCERTAINTY = 0x1000\<rparr>,
     agps = \<lparr>AF_INET = 2, AF_INET6 = 10, sizeof_AGpsStatus = 144, sizeof_AGpsStatus_v2 = 12\<rparr>,
     flp = \<lparr>HAS_LAT_LONG = 1, HAS_ALTITUDE = 2, HAS_SPEED = 4, HAS_BEARING = 8, HAS_HORIZONTAL_ACCURACY = 16,
       FLP_HAS_LAT_LONG = 1, FLP_HAS_ALTITUDE = 2, FLP_HAS_SPEED = 4, FLP_HAS_BEARING = 8, FLP_HAS_ACCURACY = 16\<rparr>,
     batch = \<lparr>FLP_TECH_MASK_GNSS = 1, FLP_TECH_MASK_SENSORS = 4, FLP_RESULT_SUCCESS = 0, CAPABILITY_GNSS = 1,
       FLP_BATCH_WAKEUP_ON_FIFO_FULL = 1, WAKEUP_ON_FIFO_FULL = 1\<rparr>,
     vendor_ret = (\<lambda>_ _. 0),
     vendor_events = (\<lambda>_ c. if c = Gps_start then [SetCapabilitiesCb 5, AcquireWakelockCb] else []),
     has_extension = (\<lambda>_. True), gps_get_module = 0, gps_open = (0, True), gps_interface = True,
     flp_get_module = 0, flp_module = (True, True), flp_open = 0, flp_interface = True, pthread_create = (\<lambda>_ n. Some n)\<rparr>"

definition demo_started :: gnss_state where
  "demo_started = gnss_boot\<lparr>sInterfaceExists := True, mGnssIface := True\<rparr>"

lemma demo_vendor_fits: "vendor_fits demo_gnss"
  by (simp add: vendor_fits_def demo_gnss_def)

lemma demo_fetched: "HIDL_FETCH_IGnss demo_gnss gnss_boot = Inr (True, demo_started)"
  by (simp add: HIDL_FETCH_IGnss_def demo_gnss_def Gnss_new_def gnss_boot_def demo_started_def Let_def)




definition demo_client :: gnss_state where
  "demo_client = demo_started\<lparr>sGnssCbIface := Some 7, death_links := [7]\<rparr>"

lemmas demo_state_defs = demo_client_def demo_started_def gnss_boot_def


text \<open>The service does not remember for whom the lock is held: when its client dies while a library holds the lock, the next
  client is never told to take it, however often the libraries ask.\<close>

lemma held_lock_silent:
  assumes "sGnssCbIface st = Some b" "sWakelockHeld st" "wants_lock st"
    "\<forall>e \<in> set es. e = AcquireWakelockCb \<or> e = FlpAcquireWakelockCb" "deliver_all E es st = Inr st'"
  shows "client_log st' = client_log st \<and> wants_lock st'"
  using assms
proof (induction es arbitrary: st)
  case (Cons e es)
  from Cons.prems(5) obtain st1 where 1: "deliver E e st = Inr st1" "deliver_all E es st1 = Inr st'"
    by (auto simp: run_bind_Inr)
  have e: "e = AcquireWakelockCb \<or> e = FlpAcquireWakelockCb"
    using Cons.prems(4) by simp
  have "st1 = st\<lparr>sWakelockHeldGnss := True\<rparr> \<or> st1 = st\<lparr>sWakelockHeldFused := True\<rparr>"
    using e 1(1) Cons.prems(1-3) by (elim disjE) (simp_all add: acquireWakelockGnss_def acquireWakelockFused_def updateWakelock_def)
  then have "client_log st1 = client_log st" "sGnssCbIface st1 = Some b" "sWakelockHeld st1" "wants_lock st1"
    using Cons.prems(1-3) by (elim disjE; simp add: wants_lock_def)+
  with Cons.IH [of st1] Cons.prems(4) 1(2) show ?case by simp
qed simp

definition quiet_vendor :: "gnss_env \<Rightarrow> bool" where
  "quiet_vendor E \<longleftrightarrow> (\<forall>n c. vendor_events E n c = [])"

lemma quiet_calls:
  assumes "quiet_vendor E"
  shows "vendor E c st = Inr (vendor_ret E (length (hal_log st)) c, st\<lparr>hal_log := hal_log st @ [c]\<rparr>)"
  using assms by (simp add: vendor_def quiet_vendor_def Let_def)

lemma quiet_death:
  assumes "quiet_vendor E"
  shows "\<exists>log. handleHidlDeath E st = Inr (st\<lparr>hal_log := log, sGnssCbIface := None\<rparr>)"
  by (simp add: handleHidlDeath_def Gnss_stop_def GnssMeasurement_close_def GnssNavigationMessage_close_def GnssBatching_stop_def
      GnssBatching_cleanup_def Gnss_cleanup_def checked_call_def plain_call_def quiet_calls [OF assms])
    (auto intro: exI [of _ "hal_log st"])

theorem gnss_wakelock_lost:
  assumes "quiet_vendor E" "mGnssIface st" "sGnssCbIface st = Some a" "sWakelockHeld st" "wants_lock st"
    "handleHidlDeath E st = Inr st1" "Gnss_setCallback E (Some b) st1 = Inr (r, st2)"
    "\<forall>e \<in> set es. e = AcquireWakelockCb \<or> e = FlpAcquireWakelockCb" "deliver_all E es st2 = Inr st3"
  shows "wants_lock st3 \<and> (\<exists>new. client_log st3 = client_log st @ new \<and> gnssAcquireWakelockCb \<notin> snd ` set new)"
proof -
  obtain log where st1: "st1 = st\<lparr>hal_log := log, sGnssCbIface := None\<rparr>"
    using quiet_death [OF assms(1), of st] assms(6) by auto
  have "sGnssCbIface st2 = Some b \<and> sWakelockHeld st2 = sWakelockHeld st \<and> wants_lock st2 = wants_lock st \<and>
      (\<exists>new. client_log st2 = client_log st @ new \<and> gnssAcquireWakelockCb \<notin> snd ` set new)"
    using assms(2,7)
    by (auto simp: st1 Gnss_setCallback_def quiet_calls [OF assms(1)] Gnss_setCapabilitiesCb_def Gnss_setSystemInfoCb_def tell_def
        wants_lock_def Let_def split: if_splits)
  with held_lock_silent [of st2 b es E st3] assms(4,5,8,9) show ?thesis by simp
qed

text \<open>C23. A status of satellites in the old form, whose array has 32 elements, reaches the client as one call with one entry
  for each satellite: the ranges of the vendor numbers name the constellation, the number can be found again from the entry, and for
  GPS the flags are those of the masks. A count above 32 makes the service read beyond the array, since it is
  only cut at the 64 elements of the new form.\<close>

theorem gps_satellites_named:
  assumes "svid_fits B" "length (sv_list S) = GPS_MAX_SVS" "GPS_MAX_SVS < SVS_COUNT B" "sGnssCbIface st = Some cb"
    and range: "\<forall>sv \<in> set (sv_list S). -32768 \<le> sint (prn sv) \<and> sint (prn sv) < 32768"
  shows "if unat (num_svs S) \<le> GPS_MAX_SVS
    then \<exists>svs. Gnss_gpsSvStatusCb B (Some S) st = Inr (tell cb (gnssSvStatusCb svs) st) \<and> length svs = unat (num_svs S) \<and>
      (\<forall>i < length svs. let p = sint (prn (sv_list S ! i)); v = svs ! i in
         named_as p (constellation v) \<and> prn_of (constellation v) (svid v) = p \<and> cN0Dbhz v = snr (sv_list S ! i) \<and>
         svFlag v = (if constellation v = GPS
           then SV_NONE B OR (if bit (ephemeris_mask S) (nat (p - 1)) then SV_HAS_EPHEMERIS_DATA B else 0)
             OR (if bit (almanac_mask S) (nat (p - 1)) then SV_HAS_ALMANAC_DATA B else 0)
             OR (if bit (used_in_fix_mask S) (nat (p - 1)) then SV_USED_IN_FIX B else 0)
           else SV_NONE B))
    else Gnss_gpsSvStatusCb B (Some S) st = Inl OutOfBounds"
proof (cases "unat (num_svs S) \<le> GPS_MAX_SVS")
  case True
  let ?svs = "map (gps_sv_info B S) (take (unat (num_svs S)) (sv_list S))"
  have run: "Gnss_gpsSvStatusCb B (Some S) st = Inr (tell cb (gnssSvStatusCb ?svs) st)"
    using assms(2,3,4) True by (simp add: Gnss_gpsSvStatusCb_def clamped_svs_def convert_upto_eq)
  have entry: "named_as p (constellation (gps_sv_info B S sv)) \<and> prn_of (constellation (gps_sv_info B S sv)) (svid (gps_sv_info B S sv)) = p \<and>
      cN0Dbhz (gps_sv_info B S sv) = snr sv \<and>
      svFlag (gps_sv_info B S sv) = (if constellation (gps_sv_info B S sv) = GPS then gps_sv_flags B S GPS p else SV_NONE B)"
    if "sv \<in> set (sv_list S)" "p = sint (prn sv)" for sv p
  proof -
    have p: "to_svid B p = p" "-32768 \<le> p" "p < 32768"
      using range that assms(1) by (auto simp: svid_fits_def)
    obtain c i where ci: "classify B p = (c, i)" by (cases "classify B p")
    have "named_as p c" "prn_of c i = p"
      using classify_named [OF assms(1) p(2,3) ci] by simp_all
    with p(1) ci that(2) show ?thesis
      by (auto simp: gps_sv_info_def gps_sv_flags_def)
  qed
  have each: "named_as p (constellation v) \<and> prn_of (constellation v) (svid v) = p \<and> cN0Dbhz v = snr (sv_list S ! i) \<and>
      svFlag v = (if constellation v = GPS then gps_sv_flags B S GPS p else SV_NONE B)"
    if "i < length ?svs" "p = sint (prn (sv_list S ! i))" "v = ?svs ! i" for i p v
    using entry [of "sv_list S ! i" p] that by simp
  have len: "length ?svs = unat (num_svs S)"
    using True assms(2) by simp
  show ?thesis
    unfolding if_P [OF True] Let_def
    by (rule exI [of _ ?svs]) (use run len each [unfolded gps_flags_bits, OF _ refl refl] in blast)
next
  case False
  with assms(2-4) show ?thesis
    by (simp add: Gnss_gpsSvStatusCb_def clamped_svs_def convert_upto_eq)
qed

definition demo_sv :: "s32 \<Rightarrow> GpsSvInfo" where
  "demo_sv p = \<lparr>prn = p, snr = 0, elevation = 0, azimuth = 0\<rparr>"

definition demo_svs :: GpsSvStatus where
  "demo_svs = \<lparr>num_svs = 3, sv_list = [demo_sv 5, demo_sv 70, demo_sv 201] @ replicate 29 (demo_sv 0),
     ephemeris_mask = 16, almanac_mask = 0, used_in_fix_mask = 16\<rparr>"

theorem gps_satellites_named_witness:
  "\<exists>svs. Gnss_gpsSvStatusCb demo_base (Some demo_svs) demo_client = Inr (tell 7 (gnssSvStatusCb svs) demo_client) \<and> length svs = 3 \<and>
     prn_of (constellation (svs ! 1)) (svid (svs ! 1)) = 70"
proof -
  have "svid_fits demo_base" "length (sv_list demo_svs) = GPS_MAX_SVS" "GPS_MAX_SVS < SVS_COUNT demo_base" "sGnssCbIface demo_client = Some 7"
    "\<forall>sv \<in> set (sv_list demo_svs). -32768 \<le> sint (prn sv) \<and> sint (prn sv) < 32768"
    by (auto simp: svid_fits_def demo_base_def demo_svs_def demo_sv_def GPS_MAX_SVS_def demo_state_defs)
  from gps_satellites_named [OF this] obtain svs
    where "Gnss_gpsSvStatusCb demo_base (Some demo_svs) demo_client = Inr (tell 7 (gnssSvStatusCb svs) demo_client)" "length svs = 3"
      "\<forall>i < length svs. prn_of (constellation (svs ! i)) (svid (svs ! i)) = sint (prn (sv_list demo_svs ! i))"
    by (auto simp: demo_svs_def GPS_MAX_SVS_def Let_def)
  then show ?thesis by (auto simp: demo_svs_def demo_sv_def)
qed

text \<open>C24. When the client dies, the vendor library is told to stop and clean up, with the extensions in use closed in between,
  and from then on no callback reaches the dead client through the object of \<^verbatim>\<open>Gnss\<close> until another one registers.
  Only calls to the objects of the extensions are still made: their registrations are kept.\<close>

theorem client_death_silences:
  assumes "handleHidlDeath E st = Inr st'" "mGnssIface st"
  shows "sGnssCbIface st' = None \<and> ext_cb st' = ext_cb st \<and>
    hal_log st' = hal_log st @ [Gps_stop] @ (if members st Measurement then [Measure_close] else []) @
      (if members st Navigation then [Nav_close] else []) @
      (if members st Batching then [Flp_stop_batching FLP_GNSS_BATCHING_CLIENT_ID, Flp_cleanup] else []) @ [Gps_cleanup] \<and>
    (\<forall>es st''. deliver_all E es st' = Inr st'' \<longrightarrow>
       (\<exists>new. client_log st'' = client_log st' @ new \<and> (\<forall>(o', c) \<in> set new. \<exists>x. receiver c = Some x \<and> ext_cb st x = Some o')))"
proof -
  have plain: "same_objects s s' \<and> hal_log s' = hal_log s @ [c]" if "plain_call E True c s = Inr s'" for c s s'
    using that vendor_forwards [of E c s] by (auto simp: plain_call_def run_bind_Inr)
  have checked: "same_objects s s' \<and> hal_log s' = hal_log s @ [c]" if "checked_call E True c s = Inr (r, s')" for c s r s'
    using that vendor_forwards [of E c s] by (auto simp: checked_call_def run_bind_Inr)
  have stop: "same_objects s s' \<and> hal_log s' = hal_log s @ [Flp_stop_batching FLP_GNSS_BATCHING_CLIENT_ID]"
    if "GnssBatching_stop E s = Inr (r, s')" "members s Batching" for s r s'
    using that vendor_forwards [of E _ s] by (auto simp: GnssBatching_stop_def run_bind_Inr)
  from assms obtain st1 r1 st2 st3 st5 st6 where
    1: "checked_call E True Gps_stop st = Inr (r1, st1)" and
    2: "(if members st1 Measurement then GnssMeasurement_close E st1 else Inr st1) = Inr st2" and
    3: "(if members st2 Navigation then GnssNavigationMessage_close E st2 else Inr st2) = Inr st3" and
    5: "(if members st3 Batching then run_bind (GnssBatching_stop E st3) (\<lambda>(_, st4). GnssBatching_cleanup E st4) else Inr st3) = Inr st5" and
    6: "Gnss_cleanup E st5 = Inr st6" and st': "st' = st6\<lparr>sGnssCbIface := None\<rparr>"
    by (auto simp: handleHidlDeath_def Gnss_stop_def run_bind_Inr)
  have A1: "same_objects st st1" "hal_log st1 = hal_log st @ [Gps_stop]"
    using checked [OF 1] by simp_all
  have A2: "same_objects st1 st2" "hal_log st2 = hal_log st1 @ (if members st1 Measurement then [Measure_close] else [])"
    using 2 plain [of Measure_close st1 st2] by (auto simp: GnssMeasurement_close_def same_objects_refl split: if_splits)
  have A3: "same_objects st2 st3" "hal_log st3 = hal_log st2 @ (if members st2 Navigation then [Nav_close] else [])"
    using 3 plain [of Nav_close st2 st3] by (auto simp: GnssNavigationMessage_close_def same_objects_refl split: if_splits)
  have A5: "same_objects st3 st5 \<and> hal_log st5 = hal_log st3 @
      (if members st3 Batching then [Flp_stop_batching FLP_GNSS_BATCHING_CLIENT_ID, Flp_cleanup] else [])"
  proof (cases "members st3 Batching")
    case True
    with 5 obtain r st4 where b: "GnssBatching_stop E st3 = Inr (r, st4)" "GnssBatching_cleanup E st4 = Inr st5"
      by (auto simp: run_bind_Inr)
    note s = stop [OF b(1) True]
    then have "members st4 Batching" using True by (simp add: same_objects_def)
    with b(2) plain [of Flp_cleanup st4 st5] s True same_objects_trans show ?thesis
      by (auto simp: GnssBatching_cleanup_def)
  qed (use 5 in \<open>auto simp: same_objects_refl\<close>)
  have all: "same_objects st st5"
    using A1(1) A2(1) A3(1) A5 same_objects_trans by blast
  have A6: "same_objects st5 st6" "hal_log st6 = hal_log st5 @ [Gps_cleanup]"
    using 6 plain [of Gps_cleanup st5 st6] all assms(2) by (auto simp: Gnss_cleanup_def same_objects_def)
  have m: "members st1 = members st" "members st2 = members st" "members st3 = members st"
    using A1(1) A2(1) A3(1) by (simp_all add: same_objects_def)
  have cb: "ext_cb st' = ext_cb st" "sGnssCbIface st' = None"
    using all A6(1) st' by (simp_all add: same_objects_def)
  have "\<exists>new. client_log st'' = client_log st' @ new \<and> (\<forall>(o', c) \<in> set new. \<exists>x. receiver c = Some x \<and> ext_cb st x = Some o')"
    if "deliver_all E es st' = Inr st''" for es st''
    using deliver_all_forwards [of st' E es] that cb
    by (fastforce simp: forwards_def calls_between_def registered_def split: option.splits)
  then show ?thesis
    using cb A1(2) A2(2) A3(2) A5 A6(2) m st' by simp
qed

theorem client_death_silences_witness:
  "\<exists>st'. handleHidlDeath demo_gnss demo_client = Inr st' \<and> sGnssCbIface st' = None \<and> hal_log st' = [Gps_stop, Gps_cleanup]"
proof -
  obtain st' where st': "handleHidlDeath demo_gnss demo_client = Inr st'"
    using death_well [OF demo_vendor_fits, of demo_client] by (auto simp: ends_well_def objects_ok_def demo_state_defs)
  from client_death_silences [OF st'] show ?thesis
    using st' by (simp add: demo_state_defs)
qed

section \<open>Clocks and configuration\<close>

text \<open>The time that a client computes from the converted clock is that of the library, whether it counted GPS time itself
  or hardware time with a bias of the old sign.\<close>

lemma gps_clock_time:
  "timeNs (fst (gps_clock n c)) - fullBiasNs (fst (gps_clock n c)) =
     (if gc_type c = CLOCK_GPS_TIME then gc_time_ns c else gc_time_ns c + gc_full_bias_ns c)"
  by (simp add: gps_clock_def split: GpsClockType.split)

text \<open>The number in a line of the configuration is read back by the C library.\<close>

lemma config_line_read: "n < 2 ^ 31 \<Longrightarrow> fst (strtol (drop (Suc (length key)) (config_line key n)) 10) = int n"
  using strtol_format_d [of "int n" "[CHR 0x0A]"] by (simp add: config_line_def format_d_def digit_val_def)

end
