(* ===== verification/Features.thy ===== *)
theory Features
  imports C_Strings
begin

text \<open>
  The store of carrier features, \<^verbatim>\<open>libsecnativefeature\<close>: an XML file is read once, the text inside each element becomes
  the value of its name, and values are asked for as switches, numbers and strings. The XML parser is an argument: it
  takes a part of the file and gives back the elements and texts it found. Shown here: what value a name gets,
  independent of how the parser cuts texts and files into parts.
\<close>

section \<open>Handlers of the parser\<close>

datatype xml_event = Start string | End string | Text string

record ParserUserData =
  curr_name :: string
  pFeatures :: "string \<rightharpoonup> string"
  depth :: int

definition charDataHandler :: "string \<Rightarrow> ParserUserData \<Rightarrow> ParserUserData" where
  "charDataHandler s d =
     (if curr_name d \<noteq> [] then
        let value = (case pFeatures d (curr_name d) of Some old \<Rightarrow> old @ s | None \<Rightarrow> s)
        in d\<lparr>pFeatures := (pFeatures d)(curr_name d \<mapsto> value)\<rparr>
      else d)"

definition startElement :: "string \<Rightarrow> ParserUserData \<Rightarrow> ParserUserData" where
  "startElement name d = d\<lparr>curr_name := name, depth := depth d + 1\<rparr>"

definition endElement :: "string \<Rightarrow> ParserUserData \<Rightarrow> ParserUserData" where
  "endElement name d = d\<lparr>curr_name := [], depth := depth d - 1\<rparr>"

fun handle :: "xml_event \<Rightarrow> ParserUserData \<Rightarrow> ParserUserData" where
  "handle (Start n) d = startElement n d"
| "handle (End n) d = endElement n d"
| "handle (Text s) d = charDataHandler s d"

section \<open>Loading\<close>

text \<open>\<open>XML_Parse\<close> takes the state of the parser, a part of the file and whether it is the last one; it fails with
  \<open>None\<close>, after the events in the second component of its result. A read gives a part of the file or fails.\<close>

type_synonym 'p xml_parse = "'p \<Rightarrow> string \<Rightarrow> bool \<Rightarrow> 'p option \<times> xml_event list"

fun load_loop :: "nat \<Rightarrow> 'p xml_parse \<Rightarrow> 'p \<Rightarrow> string option list \<Rightarrow> ParserUserData \<Rightarrow> int \<times> ParserUserData" where
  "load_loop BUFSIZ XML_Parse p [] d =
     (case XML_Parse p [] True of (None, es) \<Rightarrow> (-1, fold handle es d) | (Some _, es) \<Rightarrow> (0, fold handle es d))"
| "load_loop BUFSIZ XML_Parse p (None # reads) d = (-1, d)"
| "load_loop BUFSIZ XML_Parse p (Some buf # reads) d =
     (let is_last = length buf < BUFSIZ
      in case XML_Parse p buf is_last of
           (None, es) \<Rightarrow> (-1, fold handle es d)
         | (Some p', es) \<Rightarrow>
             if is_last then (0, fold handle es d) else load_loop BUFSIZ XML_Parse p' reads (fold handle es d))"

text \<open>The two files are tried in order; \<open>None\<close> is a file that cannot be opened, and the list of its reads otherwise.\<close>

definition loadFeature :: "nat \<Rightarrow> 'p xml_parse \<Rightarrow> 'p \<Rightarrow> (string \<Rightarrow> string option list option) \<Rightarrow> int \<times> (string \<rightharpoonup> string)" where
  "loadFeature BUFSIZ XML_Parse p fopen =
     (case (case fopen ''/system/csc/feature.xml'' of None \<Rightarrow> fopen ''/system/csc/others.xml'' | Some f \<Rightarrow> Some f) of
        None \<Rightarrow> (-1, Map.empty)
      | Some reads \<Rightarrow>
          let (r, d) = load_loop BUFSIZ XML_Parse p reads \<lparr>curr_name = [], pFeatures = Map.empty, depth = 0\<rparr> in (r, pFeatures d))"

text \<open>The only object: a failed load leaves what was read before the failure.\<close>

definition getInstance :: "nat \<Rightarrow> 'p xml_parse \<Rightarrow> 'p \<Rightarrow> (string \<Rightarrow> string option list option) \<Rightarrow> (string \<rightharpoonup> string) option \<Rightarrow> (string \<rightharpoonup> string) option" where
  "getInstance BUFSIZ XML_Parse p fopen inst =
     (case inst of None \<Rightarrow> Some (snd (loadFeature BUFSIZ XML_Parse p fopen)) | Some f \<Rightarrow> Some f)"

section \<open>Questions\<close>

definition getEnableStatus :: "(string \<rightharpoonup> string) \<Rightarrow> string \<Rightarrow> bool" where
  "getEnableStatus features tag =
     (case features tag of None \<Rightarrow> False | Some v \<Rightarrow> if v = ''true'' \<or> v = ''TRUE'' then True else False)"

definition getEnableStatusDefault :: "(string \<rightharpoonup> string) \<Rightarrow> string \<Rightarrow> bool \<Rightarrow> bool" where
  "getEnableStatusDefault features tag defaultValue =
     (case features tag of None \<Rightarrow> defaultValue | Some v \<Rightarrow> if v = ''true'' \<or> v = ''TRUE'' then True else defaultValue)"

definition getString :: "(string \<rightharpoonup> string) \<Rightarrow> string \<Rightarrow> string" where
  "getString features tag = (case features tag of None \<Rightarrow> [] | Some v \<Rightarrow> v)"

text \<open>A default string may be a null pointer.\<close>

definition getStringDefault :: "(string \<rightharpoonup> string) \<Rightarrow> string \<Rightarrow> string option \<Rightarrow> string option" where
  "getStringDefault features tag defaultValue = (case features tag of None \<Rightarrow> defaultValue | Some v \<Rightarrow> Some v)"

definition getInteger :: "(string \<rightharpoonup> string) \<Rightarrow> string \<Rightarrow> int" where
  "getInteger features tag = (case features tag of None \<Rightarrow> -1 | Some v \<Rightarrow> atoi v)"

definition getIntegerDefault :: "(string \<rightharpoonup> string) \<Rightarrow> string \<Rightarrow> int \<Rightarrow> int" where
  "getIntegerDefault features tag defaultValue = (case features tag of None \<Rightarrow> defaultValue | Some v \<Rightarrow> atoi v)"

text \<open>The interface for C, on the object or without one. A default number is read as a truth value.\<close>

definition SecNativeFeature_getEnableStatus :: "(string \<rightharpoonup> string) option \<Rightarrow> string \<Rightarrow> int" where
  "SecNativeFeature_getEnableStatus inst tag = (case inst of Some f \<Rightarrow> of_bool (getEnableStatus f tag) | None \<Rightarrow> 0)"

definition SecNativeFeature_getEnableStatusWithDefault :: "(string \<rightharpoonup> string) option \<Rightarrow> string \<Rightarrow> int \<Rightarrow> int" where
  "SecNativeFeature_getEnableStatusWithDefault inst tag defaultValue =
     (case inst of Some f \<Rightarrow> of_bool (getEnableStatusDefault f tag (defaultValue \<noteq> 0)) | None \<Rightarrow> defaultValue)"

definition SecNativeFeature_getInteger :: "(string \<rightharpoonup> string) option \<Rightarrow> string \<Rightarrow> int" where
  "SecNativeFeature_getInteger inst tag = (case inst of Some f \<Rightarrow> getInteger f tag | None \<Rightarrow> -1)"

definition SecNativeFeature_getIntegerWithDefault :: "(string \<rightharpoonup> string) option \<Rightarrow> string \<Rightarrow> int \<Rightarrow> int" where
  "SecNativeFeature_getIntegerWithDefault inst tag defaultValue =
     (case inst of Some f \<Rightarrow> getIntegerDefault f tag defaultValue | None \<Rightarrow> defaultValue)"

definition SecNativeFeature_getString :: "(string \<rightharpoonup> string) option \<Rightarrow> string \<Rightarrow> string option" where
  "SecNativeFeature_getString inst tag = (case inst of Some f \<Rightarrow> Some (getString f tag) | None \<Rightarrow> None)"

definition SecNativeFeature_getStringWithDefault :: "(string \<rightharpoonup> string) option \<Rightarrow> string \<Rightarrow> string option \<Rightarrow> string option" where
  "SecNativeFeature_getStringWithDefault inst tag defaultValue =
     (case inst of Some f \<Rightarrow> getStringDefault f tag defaultValue | None \<Rightarrow> defaultValue)"

section \<open>What value a name gets\<close>

text \<open>The texts of a document with the names they count for: the element that was opened last, while none has been
  closed since.\<close>

fun named_texts :: "string \<Rightarrow> xml_event list \<Rightarrow> (string \<times> string) list" where
  "named_texts cur [] = []"
| "named_texts cur (Start n # es) = named_texts n es"
| "named_texts cur (End n # es) = named_texts [] es"
| "named_texts cur (Text s # es) = (if cur = [] then named_texts cur es else (cur, s) # named_texts cur es)"

definition texts_of :: "string \<Rightarrow> (string \<times> string) list \<Rightarrow> string list" where
  "texts_of n ts = map snd (filter (\<lambda>(m, _). m = n) ts)"

definition value_of :: "string list \<Rightarrow> string option" where
  "value_of ss = (if ss = [] then None else Some (concat ss))"

lemma handled:
  "pFeatures (fold handle es d) n =
     (case pFeatures d n of None \<Rightarrow> value_of (texts_of n (named_texts (curr_name d) es))
      | Some old \<Rightarrow> Some (old @ concat (texts_of n (named_texts (curr_name d) es))))"
proof (induction es arbitrary: d)
  case Nil
  then show ?case by (simp add: texts_of_def value_of_def split: option.split)
next
  case (Cons e es)
  show ?case
    using Cons.IH [of "handle e d"]
    by (cases e) (auto simp: startElement_def endElement_def charDataHandler_def texts_of_def value_of_def split: option.splits if_splits)
qed

text \<open>All events that the parser reports for a file.\<close>

fun events_of :: "nat \<Rightarrow> 'p xml_parse \<Rightarrow> 'p \<Rightarrow> string option list \<Rightarrow> xml_event list" where
  "events_of BUFSIZ XML_Parse p [] = snd (XML_Parse p [] True)"
| "events_of BUFSIZ XML_Parse p (None # reads) = []"
| "events_of BUFSIZ XML_Parse p (Some buf # reads) =
     (let is_last = length buf < BUFSIZ; (p', es) = XML_Parse p buf is_last
      in if is_last \<or> p' = None then es else es @ events_of BUFSIZ XML_Parse (the p') reads)"

lemma load_loop_events: "snd (load_loop BUFSIZ XML_Parse p reads d) = fold handle (events_of BUFSIZ XML_Parse p reads) d"
  by (induction BUFSIZ XML_Parse p reads d rule: load_loop.induct) (auto simp: Let_def split: prod.splits option.splits)

text \<open>The value of a name is the concatenation of its texts in the file, also of texts of several elements with
  that name.\<close>

theorem feature_values:
  "fopen ''/system/csc/feature.xml'' = Some reads \<Longrightarrow>
   snd (loadFeature BUFSIZ XML_Parse p fopen) n = value_of (texts_of n (named_texts [] (events_of BUFSIZ XML_Parse p reads)))"
  using handled [of "events_of BUFSIZ XML_Parse p reads" "\<lparr>curr_name = [], pFeatures = Map.empty, depth = 0\<rparr>" n]
  by (simp add: loadFeature_def load_loop_events [symmetric] case_prod_beta)

text \<open>How the parser cuts a text does not matter.\<close>

lemma cut_text: "fold handle (es @ Text (s @ t) # es') d = fold handle (es @ Text s # Text t # es') d"
  by (simp add: charDataHandler_def Let_def split: option.split)

text \<open>With a default that is on, a switch cannot be turned off: the value \<^verbatim>\<open>false\<close> gives the default.\<close>

lemma default_overrides_false:
  "features tag = Some ''false'' \<Longrightarrow> SecNativeFeature_getEnableStatusWithDefault (Some features) tag 1 = 1"
  by (simp add: SecNativeFeature_getEnableStatusWithDefault_def getEnableStatusDefault_def)

end
