(* ===== verification/Boot_Power.thy ===== *)
theory Boot_Power
  imports C_Strings
begin

text \<open>
  Small parts of the device: the properties that \<^verbatim>\<open>init/init_apq8084.cpp\<close> sets at boot, the switch of the touch devices in
  \<^verbatim>\<open>power/power_ext.c\<close>, and the keys of \<^verbatim>\<open>recovery/recovery_keys.c\<close>.
\<close>

section \<open>Properties at boot\<close>

type_synonym props = "string \<rightharpoonup> string"

definition property_override :: "string \<Rightarrow> string \<Rightarrow> props \<Rightarrow> props" where
  "property_override prop value ps =
     (case ps prop of Some pi \<Rightarrow> ps(prop \<mapsto> value) | None \<Rightarrow> ps(prop \<mapsto> value))"

definition property_override_dual :: "string \<Rightarrow> string \<Rightarrow> string \<Rightarrow> props \<Rightarrow> props" where
  "property_override_dual system_prop vendor_prop value ps = property_override vendor_prop value (property_override system_prop value ps)"

text \<open>A file is \<open>None\<close> when it cannot be opened; otherwise the bytes that a read of at most the given number gives, or
  \<open>None\<close> for a failed read. The result is the return value and the buffer up to its end, if it was written.\<close>

definition read_file2 :: "(nat \<Rightarrow> string option) option \<Rightarrow> int \<Rightarrow> int \<times> string option" where
  "read_file2 file max_size =
     (if max_size < 1 then (0, None)
      else case file of
             None \<Rightarrow> (0, None)
           | Some rd \<Rightarrow>
               case rd (nat (max_size - 1)) of
                 None \<Rightarrow> (1, Some [])
               | Some bs \<Rightarrow> if 0 < int (length bs) \<and> int (length bs) < max_size then (1, Some bs) else (1, Some []))"

text \<open>\<open>property_set\<close> is the function of the init process.\<close>

definition init_alarm_boot_properties :: "(string \<Rightarrow> string \<Rightarrow> props \<Rightarrow> props) \<Rightarrow> (nat \<Rightarrow> string option) option \<Rightarrow> props \<Rightarrow> props" where
  "init_alarm_boot_properties property_set boot_reason ps =
     (case read_file2 boot_reason 64 of
        (r, buf) \<Rightarrow>
          if r \<noteq> 0
          then if (case buf of Some (c # _) \<Rightarrow> c = CHR ''3'' | _ \<Rightarrow> False)
               then property_set ''ro.alarm_boot'' ''true'' ps
               else property_set ''ro.alarm_boot'' ''false'' ps
          else ps)"

text \<open>\<open>init_target_properties\<close> belongs to the device; the weak one here does nothing.\<close>

definition vendor_load_properties ::
    "(string \<Rightarrow> string \<Rightarrow> props \<Rightarrow> props) \<Rightarrow> (props \<Rightarrow> props) \<Rightarrow> (nat \<Rightarrow> string option) option \<Rightarrow> props \<Rightarrow> props" where
  "vendor_load_properties property_set init_target_properties boot_reason ps =
     init_alarm_boot_properties property_set boot_reason (init_target_properties (property_set ''ro.boot.btmacaddr'' ''00:00:00:00:00:00'' ps))"

text \<open>The alarm property follows the first character of the boot reason.\<close>

lemma alarm_boot:
  assumes "\<And>k v ps. property_set k v ps = ps(k \<mapsto> v)" "boot_reason = Some rd" "rd 63 = Some reason" "length reason \<le> 63"
  shows "vendor_load_properties property_set id boot_reason ps ''ro.alarm_boot'' =
    Some (if reason \<noteq> [] \<and> hd reason = CHR ''3'' then ''true'' else ''false'')"
  using assms by (cases reason) (simp_all add: vendor_load_properties_def init_alarm_boot_properties_def read_file2_def)

section \<open>Touch devices\<close>

text \<open>\<open>opens\<close> tells which files can be opened; the writes are recorded.\<close>

definition sysfs_write :: "(string \<Rightarrow> bool) \<Rightarrow> string \<Rightarrow> string \<Rightarrow> (string \<times> string) list \<Rightarrow> (string \<times> string) list" where
  "sysfs_write opens path s writes = (if \<not> opens path then writes else writes @ [(path, s)])"

definition TK_POWER :: string where "TK_POWER = ''/sys/class/input/input1/enabled''"
definition TS_POWER :: string where "TS_POWER = ''/sys/class/input/input2/enabled''"

definition power_set_interactive_ext :: "(string \<Rightarrow> bool) \<Rightarrow> int \<Rightarrow> (string \<times> string) list \<Rightarrow> (string \<times> string) list" where
  "power_set_interactive_ext opens on writes =
     sysfs_write opens TS_POWER (if on \<noteq> 0 then ''1'' else ''0'') (sysfs_write opens TK_POWER (if on \<noteq> 0 then ''1'' else ''0'') writes)"

definition cm_power_set_interactive_ext :: "(string \<Rightarrow> bool) \<Rightarrow> int \<Rightarrow> (string \<times> string) list \<Rightarrow> (string \<times> string) list" where
  "cm_power_set_interactive_ext opens on writes = power_set_interactive_ext opens on writes"

section \<open>Keys of the recovery menu\<close>

datatype key = KEY_CAPSLOCK | KEY_DOWN | KEY_VOLUMEDOWN | KEY_MENU | KEY_LEFTSHIFT | KEY_UP | KEY_VOLUMEUP | KEY_HOMEPAGE | KEY_POWER
  | KEY_LEFTBRACE | KEY_ENTER | BTN_MOUSE | KEY_CAMERA | KEY_F21 | KEY_SEND | KEY_END | KEY_BACKSPACE | KEY_SEARCH | KEY_BACK | KEY_OTHER nat

datatype menu_action = HIGHLIGHT_DOWN | HIGHLIGHT_UP | SELECT_ITEM | GO_BACK | NO_ACTION

definition device_handle_key :: "key \<Rightarrow> int \<Rightarrow> menu_action" where
  "device_handle_key key_code visible =
     (if visible \<noteq> 0
      then if key_code \<in> {KEY_CAPSLOCK, KEY_DOWN, KEY_VOLUMEDOWN} then HIGHLIGHT_DOWN
           else if key_code = KEY_MENU then NO_ACTION
           else if key_code \<in> {KEY_LEFTSHIFT, KEY_UP, KEY_VOLUMEUP} then HIGHLIGHT_UP
           else if key_code \<in> {KEY_HOMEPAGE, KEY_POWER, KEY_LEFTBRACE, KEY_ENTER, BTN_MOUSE, KEY_CAMERA, KEY_F21, KEY_SEND} then SELECT_ITEM
           else if key_code \<in> {KEY_END, KEY_BACKSPACE, KEY_SEARCH, KEY_BACK} then GO_BACK
           else NO_ACTION
      else NO_ACTION)"

text \<open>The volume keys, the power and the home key of a phone move through the menu and choose; a hidden menu ignores
  all keys.\<close>

lemma phone_keys:
  "(\<lambda>k. device_handle_key k v) ` {KEY_VOLUMEUP, KEY_VOLUMEDOWN, KEY_POWER, KEY_HOMEPAGE} =
     (if v = 0 then {NO_ACTION} else {HIGHLIGHT_UP, HIGHLIGHT_DOWN, SELECT_ITEM})"
  by (auto simp: device_handle_key_def)

end
