(* ===== verification/Spec2Isabelle.thy ===== *)
theory Spec2Isabelle
  imports Hash_Correct Venus Fp_Database Ril_Sap Ril_Requests Ril_Radio Multihal_Threads Sensors_Service
    Camera_Fixups Ril_End_To_End Ril_Signal Ril_Build_Correct Sap_Correct Gnss_Correct Features Boot_Power
begin

text \<open>
  Verification of the device support for Samsung phones with the apq8084 chip. The repository holds the programs
  between the Android framework and the vendor's libraries and drivers of the phone. Paths below are relative to
  its sources.

  \<^bold>\<open>Parts.\<close> The fingerprint HAL (\<^verbatim>\<open>fingerprint/\<close>) drives the sensor, talks to a TrustZone application through a shared
  buffer and keeps the templates in a database; its hash is SHA-1. The radio daemon (\<^verbatim>\<open>ril/\<close>) takes the calls of the
  telephony framework, hands them to the vendor's radio library as C structures in memory, and turns its answers
  and notices into calls of the framework; an event loop runs its timers, and a second service with sockets and a
  queue of its own gives remote access to the SIM card. The sensor service (\<^verbatim>\<open>sensors/\<close>) merges several sensor drivers
  into one. The positioning service (\<^verbatim>\<open>gnss/\<close>) turns the vendor's GPS interface into that of the framework. The camera
  wrapper (\<^verbatim>\<open>camera/\<close>) stands before the vendor's camera module and rewrites its parameters. Small parts are the
  layout of video buffers, carrier features, boot properties, touch devices and the recovery menu.

  \<^bold>\<open>Theories and sources.\<close>

  \<^item> \<open>Prelude\<close>, \<open>C_Strings\<close>, \<open>C_Memory\<close>: machine integers, C string functions, and the memory of a 32-bit process with
    the layout of structures.
  \<^item> \<open>Hash\<close>, \<open>Hash_Correct\<close> (\<^verbatim>\<open>fingerprint/hash.c\<close>): the streaming code refines the function of FIPS 180-4.
  \<^item> \<open>Venus\<close> (\<^verbatim>\<open>include/media/msm_media_info.h\<close>): planes fit their buffers, without wrap-around of 32-bit words.
  \<^item> \<open>Fp_State\<close>, \<open>Fp_Device\<close>, \<open>Fp_Hal\<close> (\<^verbatim>\<open>fingerprint.c\<close>), \<open>Fp_Qsee\<close> (\<^verbatim>\<open>QSEEComAPI.c\<close>), \<open>Fp_Tz\<close>, \<open>Fp_Worker\<close>
    (\<^verbatim>\<open>fingerprint_tz.c\<close>): the model, a state monad with faults over the process state and the outside.
    \<open>Fp_Invariants\<close> states as locales what an invariant owes and shows once that all operations keep it; \<open>Fp_Lifecycle\<close> is the
    step relation of the device; \<open>Fp_Auth\<close>, \<open>Fp_Enroll\<close> and \<open>Fp_Database\<close> hold the properties of authentication, enrolment
    and the stored fingers; \<open>Fp_Demo\<close> is a session for their witnesses.
  \<^item> \<open>Ril_Queue\<close> (\<^verbatim>\<open>rilSocketQueue.h\<close>), \<open>Ril_Sap\<close> (\<^verbatim>\<open>RilSapSocket.cpp\<close>), \<open>Sap_Service\<close>, \<open>Sap_Correct\<close> (\<^verbatim>\<open>sap_service.cpp\<close>): the
    queue as a linked list on a heap refines a list of requests (locale \<open>request_store\<close>); requests for the card are handed over or
    answered as failed, and completed ones come back to the client.
  \<^item> \<open>Ril_Event\<close>, \<open>Ril_Event_Correct\<close> (\<^verbatim>\<open>ril_event.cpp\<close>): linked lists of timers and pending events, the table of
    descriptors, and what one round of the loop calls.
  \<^item> \<open>Ril_Tables\<close> (\<^verbatim>\<open>ril_commands.h\<close>, \<^verbatim>\<open>ril_unsol_commands.h\<close>, \<^verbatim>\<open>ril.h\<close>), \<open>Ril_Core\<close> (\<^verbatim>\<open>ril.cpp\<close>), \<open>Ril_Wake\<close>: pending requests, the
    wake lock with its timers in the event loop, saved network time.
  \<^item> \<open>Ril_Service\<close>, \<open>Ril_Radio\<close>, \<open>Ril_Requests\<close>, \<open>Ril_Build\<close>, \<open>Ril_Build_Correct\<close> (request side of \<^verbatim>\<open>ril_service.cpp\<close>): from the call of the client
    to the vendor library, with every allocation that may fail.
  \<^item> \<open>Ril_Structs\<close> (\<^verbatim>\<open>ril.h\<close>, \<^verbatim>\<open>ril_cdma_sms.h\<close>), \<open>Ril_Client\<close>, \<open>Ril_Answers\<close>, \<open>Ril_Indications\<close>, \<open>Ril_Callbacks\<close>,
    \<open>Ril_Answers_Correct\<close>, \<open>Ril_Values\<close>, \<open>Ril_Signal\<close>, \<open>Ril_End_To_End\<close> (answer side of \<^verbatim>\<open>ril_service.cpp\<close>): reading the vendor's
    memory, calling the client, a client that dies, the values of answers, and the way of a request there and back.
  \<^item> \<open>Sensor_Queue\<close> (\<^verbatim>\<open>SensorEventQueue.cpp\<close>), \<open>Multihal\<close>, \<open>Multihal_Routing\<close>, \<open>Multihal_Threads\<close> (\<^verbatim>\<open>multihal.cpp\<close>), \<open>Sensors_Service\<close>
    (\<^verbatim>\<open>Sensors.cpp\<close>): the circular buffer refines a bounded queue (locales \<open>shared_fifo\<close>, \<open>waking_fifo\<close>), handles
    route calls and events, and over all interleavings of the threads no event is lost and no thread sleeps on.
  \<^item> \<open>Gnss_Data\<close> (\<^verbatim>\<open>gps.h\<close>, \<^verbatim>\<open>GnssUtils.cpp\<close>), \<open>Gnss_State\<close>, \<open>Gnss_Callbacks\<close>, \<open>Gnss_Service\<close> (\<^verbatim>\<open>Gnss.cpp\<close> and the files of its ten
    extensions), \<open>Gnss_Correct\<close>: callbacks of the library and methods for the client; no method fails, the shared wake
    lock, satellite names, the death of the client.
  \<^item> \<open>Camera_Params\<close>, \<open>Camera_Correct\<close> (\<^verbatim>\<open>CameraParameters.cpp\<close>, locale \<open>keyed_vector\<close>), \<open>Camera_Wrapper\<close>, \<open>Camera_Fixups\<close>
    (\<^verbatim>\<open>CameraWrapper.cpp\<close>): the text form of parameters is read back, and which keys the wrapper overrides.
  \<^item> \<open>Features\<close> (\<^verbatim>\<open>libsecnativefeature\<close>), \<open>Boot_Power\<close> (\<^verbatim>\<open>init_apq8084.cpp\<close>, \<^verbatim>\<open>power_ext.c\<close>, \<^verbatim>\<open>recovery_keys.c\<close>).

  \<^bold>\<open>How code becomes definitions.\<close> A function of the source is a definition of the same name, with the class in front where
  names repeat. State is a record that is passed on; objects that the code links by pointers live in explicit memories
  from addresses to values, where freeing removes them. Null pointers, freed memory, reads outside an array, aborts
  and deadlocks are values of a fault type or \<open>None\<close>, never left out. Integers are words where they can wrap and
  unbounded where the text of a theory says so. What is outside the repository is an argument: the TrustZone
  application, the vendor's radio, sensor, camera and positioning libraries, SQLite, the protobuf codec, the XML parser,
  the transport to clients, the allocator, \<^verbatim>\<open>select\<close> and the clock. Libraries that call back are arguments that
  say which calls they make.

  \<^bold>\<open>Concurrency.\<close> Critical sections are single steps. Interleavings are explicit where the code gives up a lock in
  between: the threads of the sensor multiplexer (\<open>Multihal_Threads\<close>), the callbacks of the radio service (\<open>Ril_Callbacks\<close>), and the
  other thread of the fingerprint HAL at its scheduling points. Callbacks of the positioning library are single steps.

  \<^bold>\<open>Fuel and termination.\<close> Loops over data are structural recursion. The waiting loops of the fingerprint workers take
  fuel, one unit for each answer of the hardware or of the other thread; the properties hold for every amount, and those
  that say that a loop ends give the amount. Walks along linked lists have no result when they do not end:
  \<open>Ril_Queue.checkAndDequeue_first\<close> shows that the walk along the queue ends, and \<open>Ril_Event_Correct.loop_round_fires\<close> that a
  round of the event loop does.

  \<^bold>\<open>Not modelled.\<close> In \<^verbatim>\<open>ril.cpp\<close> the start of the threads, the wakeup pipe and the registration of vendor sockets, which
  are calls of the system; in \<^verbatim>\<open>RilSapSocket.cpp\<close> the search of the socket from a request of the vendor library; in
  \<^verbatim>\<open>CameraParameters.cpp\<close> the conversions of floating point numbers and the dump for the log; the debug output of all
  parts; the programs that only register a service and start its threads; the firmware of the NFC chip, which is
  data; headers that only declare functions of other repositories; configuration, overlays and scripts.
\<close>

end
